(* ===== verification/Xair_Prelude.thy ===== *)
theory Xair_Prelude
  imports Main "HOL-Library.Word"
begin

text \<open>
  The prelude of the development: the machine types and status codes every component uses, the
  result type of fallible operations, the model of the allocator (\<open>grow_array\<close> and
  \<open>shrink_array\<close> of \<^verbatim>\<open>src/src/xair.c\<close>), C string helpers, and the generic lemmas on lists, powers
  of two and words that the component theories share.

  Counters, sizes and identifiers (\<^verbatim>\<open>size_t\<close>, \<^verbatim>\<open>uint32_t\<close> ids) are \<^typ>\<open>nat\<close>, with the bounds
  \<open>SIZE_MAX\<close> and \<open>UINT32_MAX\<close> written out where the code tests them; data that the code computes with
  (immediates, concrete values, hashes) are words of their width.
\<close>

unbundle bit_operations_syntax

section \<open>Machine types, status codes and results\<close>

type_synonym u8 = "8 word"
type_synonym u32 = "32 word"
type_synonym u64 = "64 word"
type_synonym xair_value_id = nat
type_synonym xair_block_id = nat
type_synonym xair_op_id = nat

named_theorems type_simps "predicates on the types of the IR"
named_theorems mod_simps "structural facts on the records of a module"

abbreviation SIZE_MAX :: nat where
  "SIZE_MAX \<equiv> 18446744073709551615"

abbreviation UINT32_MAX :: nat where
  "UINT32_MAX \<equiv> 4294967295"

abbreviation XAIR_INVALID_ID :: nat where
  "XAIR_INVALID_ID \<equiv> UINT32_MAX"

text \<open>
  The statuses of the code, and one value that is none of them: \<open>UNDEFINED_BEHAVIOUR\<close> ends a run of the model at the
  point where the C code would write outside an array, so that nothing is claimed of what the code does from there on.
  It arises in one place, a register number of a decoder backend that no register has (\<open>x86_write_reg\<close>).
\<close>

datatype xair_status =
    XAIR_OK
  | XAIR_ERR_OOM
  | XAIR_ERR_BAD_ARG
  | XAIR_ERR_RANGE
  | XAIR_ERR_VERIFY
  | XAIR_ERR_UNSUPPORTED
  | UNDEFINED_BEHAVIOUR

text \<open>
  A fallible C function returns a status and writes its result through an out parameter. In the model
  it returns \<open>Ok result\<close> or \<open>Err status\<close>, paired with the state it leaves behind, also on failure.
\<close>

datatype 'a xres = Ok 'a | Err xair_status

type_synonym ('s, 'a) xop = "'s \<Rightarrow> 'a xres \<times> 's"

fun status_of :: "'a xres \<Rightarrow> xair_status" where
  "status_of (Ok _) = XAIR_OK"
| "status_of (Err e) = e"

text \<open>Sequencing with the early return of the C code: the first failing step ends the operation.\<close>

definition xbind :: "('s, 'a) xop \<Rightarrow> ('a \<Rightarrow> ('s, 'b) xop) \<Rightarrow> ('s, 'b) xop" where
  "xbind f g s = (case f s of (Ok x, s') \<Rightarrow> g x s' | (Err e, s') \<Rightarrow> (Err e, s'))"

definition xreturn :: "'a \<Rightarrow> ('s, 'a) xop" where
  "xreturn x s = (Ok x, s)"

definition xfail :: "xair_status \<Rightarrow> ('s, 'a) xop" where
  "xfail e s = (Err e, s)"

section \<open>The allocator\<close>

text \<open>
  Whether \<^verbatim>\<open>malloc\<close>, \<^verbatim>\<open>calloc\<close> or \<^verbatim>\<open>realloc\<close> succeeds is not determined by the program, so it is a
  parameter: an allocator answers, for the array that asks and the number of bytes, whether the request
  succeeds. An array that grows never asks for the same size twice in one operation, so an arbitrary
  function of the array and the size is an arbitrary sequence of answers.
\<close>

datatype alloc_site =
    Site_module
  | Site_builder
  | Site_values
  | Site_ops
  | Site_blocks
  | Site_term_args
  | Site_params nat
  | Site_block_ops nat
  | Site_value_numbers
  | Site_available nat
  | Site_value_map
  | Site_op_map
  | Site_new_values
  | Site_new_ops
  | Site_live
  | Site_state
  | Site_exec_values
  | Site_exec_defined
  | Site_pages
  | Site_copies
  | Site_file
  | Site_segments
  | Site_segment_bytes nat
  | Site_image
  | Site_case_bytes
  | Site_case_memory nat
  | Site_format nat
  | Site_adapter
  | Site_tmp_values
  | Site_tmp_defined
  | Site_sparse_regs
  | Site_next_tmps
  | Site_next_direct_regs
  | Site_next_sparse_regs
  | Site_exit_args

type_synonym allocator = "alloc_site \<Rightarrow> nat \<Rightarrow> bool"

text \<open>An allocator that never fails; it instantiates the parameter in the witnesses.\<close>

definition alloc_all :: allocator where
  "alloc_all site n = True"

text \<open>
  The doubling loop of \<open>grow_array\<close>. It starts from a non-zero capacity; \<open>None\<close> is the overflow exit.
\<close>

function grow_loop :: "nat \<Rightarrow> nat \<Rightarrow> nat option" where
  "grow_loop next_cap need =
     (if 0 < next_cap \<and> next_cap < need
      then (if next_cap > SIZE_MAX div 2 then None else grow_loop (next_cap * 2) need)
      else Some next_cap)"
  by pat_completeness auto
termination
  by (relation "measure (\<lambda>(next_cap, need). need - next_cap)") auto

declare grow_loop.simps [simp del]

text \<open>
  An array is a list with a capacity; \<open>realloc\<close> keeps the elements, so growing an array only changes the
  capacity, which is the result.
\<close>

definition grow_array :: "allocator \<Rightarrow> alloc_site \<Rightarrow> nat \<Rightarrow> nat \<Rightarrow> nat \<Rightarrow> nat xres" where
  "grow_array al site elem_size cap need =
     (if need \<le> cap then Ok cap
      else case grow_loop (if cap = 0 then 8 else cap) need of
        None \<Rightarrow> Err XAIR_ERR_OOM
      | Some next_cap \<Rightarrow>
          if elem_size \<noteq> 0 \<and> next_cap > SIZE_MAX div elem_size then Err XAIR_ERR_OOM
          else if \<not> al site (next_cap * elem_size) then Err XAIR_ERR_OOM
          else Ok next_cap)"

definition shrink_array :: "allocator \<Rightarrow> alloc_site \<Rightarrow> nat \<Rightarrow> nat \<Rightarrow> nat \<Rightarrow> nat xres" where
  "shrink_array al site elem_size cap count =
     (if count = 0 then Ok 0
      else if cap = count then Ok cap
      else if elem_size \<noteq> 0 \<and> count > SIZE_MAX div elem_size then Err XAIR_ERR_OOM
      else if \<not> al site (count * elem_size) then Err XAIR_ERR_OOM
      else Ok count)"

section \<open>C strings\<close>

text \<open>Decimal text of an unsigned number, as \<^verbatim>\<open>%u\<close> prints it.\<close>

definition digit_char :: "nat \<Rightarrow> char" where
  "digit_char d = char_of (48 + d)"

fun dec_text :: "nat \<Rightarrow> string" where
  "dec_text n = (if n < 10 then [digit_char n] else dec_text (n div 10) @ [digit_char (n mod 10)])"

declare dec_text.simps [simp del]

text \<open>Hexadecimal text, as \<^verbatim>\<open>%x\<close> prints it.\<close>

definition hex_char :: "nat \<Rightarrow> char" where
  "hex_char d = char_of (if d < 10 then 48 + d else 87 + d)"

fun hex_text :: "nat \<Rightarrow> string" where
  "hex_text n = (if n < 16 then [hex_char n] else hex_text (n div 16) @ [hex_char (n mod 16)])"

declare hex_text.simps [simp del]

text \<open>\<^verbatim>\<open>strcmp\<close>: the sign of the first difference of the bytes, the end of a string being the byte 0.\<close>

fun c_strcmp :: "string \<Rightarrow> string \<Rightarrow> int" where
  "c_strcmp [] [] = 0"
| "c_strcmp [] (_ # _) = -1"
| "c_strcmp (_ # _) [] = 1"
| "c_strcmp (a # as) (b # bs) =
     (if (of_char a :: nat) < of_char b then -1
      else if (of_char b :: nat) < of_char a then 1
      else c_strcmp as bs)"

section \<open>Shared lemmas\<close>

lemma status_of_OK_iff [simp]: "status_of (Ok x) = XAIR_OK"
  by simp

lemma xbind_Ok [simp]: "f s = (Ok x, s') \<Longrightarrow> xbind f g s = g x s'"
  by (simp add: xbind_def)

lemma xbind_Err [simp]: "f s = (Err e, s') \<Longrightarrow> xbind f g s = (Err e, s')"
  by (simp add: xbind_def)

lemma xbind_OkE:
  assumes "xbind f g s = (Ok y, t)"
  obtains x s' where "f s = (Ok x, s')" and "g x s' = (Ok y, t)"
  using assms by (auto simp: xbind_def split: prod.splits xres.splits)

lemma grow_loop_ge: "0 < c \<Longrightarrow> grow_loop c need = Some c' \<Longrightarrow> need \<le> c' \<and> c \<le> c'"
proof (induction c need rule: grow_loop.induct)
  case (1 c need)
  show ?case
  proof (cases "c < need")
    case True
    with 1 have "grow_loop (c * 2) need = Some c'" and "\<not> c > SIZE_MAX div 2"
      by (auto simp: grow_loop.simps [of c need] split: if_splits)
    with 1 True have "need \<le> c' \<and> c * 2 \<le> c'" by auto
    then show ?thesis by simp
  next
    case False
    with 1 show ?thesis by (auto simp: grow_loop.simps [of c need])
  qed
qed

lemma grow_array_Ok: "grow_array al site sz cap need = Ok c \<Longrightarrow> need \<le> c \<and> cap \<le> c"
  by (auto simp: grow_array_def split: if_splits option.splits dest!: grow_loop_ge [rotated])

lemma grow_array_Err: "grow_array al site sz cap need = Err e \<Longrightarrow> e = XAIR_ERR_OOM"
  by (auto simp: grow_array_def split: if_splits option.splits)

lemma shrink_array_Ok: "shrink_array al site sz cap n = Ok c \<Longrightarrow> c = n"
  by (auto simp: shrink_array_def split: if_splits)

lemma shrink_array_Err: "shrink_array al site sz cap n = Err e \<Longrightarrow> e = XAIR_ERR_OOM"
  by (auto simp: shrink_array_def split: if_splits)

lemma c_strcmp_refl [simp]: "c_strcmp s s = 0"
  by (induction s) auto

lemma c_strcmp_antisym: "c_strcmp s t = - c_strcmp t s"
  by (induction s t rule: c_strcmp.induct) auto

lemma c_strcmp_eq: "c_strcmp s t = 0 \<longleftrightarrow> s = t"
  by (induction s t rule: c_strcmp.induct) (auto simp: linorder_neq_iff [symmetric])

lemma bit_uint_eq: "bit (uint x) n = bit x n" for x :: "'a::len word"
  by (auto simp: bit_uint_iff dest: bit_imp_le_length)

lemma bit_unat_eq: "bit (unat x) n = bit x n" for x :: "'a::len word"
  by (simp add: bit_unsigned_iff)

lemma bit_unat_map: "map (bit (unat x)) ns = map (bit x) ns" for x :: "'a::len word"
  by (simp add: bit_unat_eq)

lemma card_bits_8: "card {i::nat. i < 8 \<and> P i} = (\<Sum>i<8. of_bool (P i))"
proof -
  have "{i. i < 8 \<and> P i} = {i \<in> {..<8}. P i}" by auto
  then show ?thesis by (simp add: sum_of_bool_eq Int_def)
qed

lemma sum_bits_8: "(\<Sum>i<8. f i) = f 0 + f 1 + f 2 + f 3 + f 4 + f 5 + f 6 + f 7"
  for f :: "nat \<Rightarrow> nat"
  by (simp add: eval_nat_numeral)

lemma xbind_cases:
  assumes "xbind f g s = (r, t)"
  obtains (err) e where "f s = (Err e, t)" "r = Err e"
  | (ok) x s' where "f s = (Ok x, s')" "g x s' = (r, t)"
proof (cases "f s")
  case (Pair p s')
  show thesis
  proof (cases p)
    case (Ok x)
    show thesis by (rule that(2) [of x s']) (use Pair Ok assms in simp_all)
  next
    case (Err e)
    show thesis by (rule that(1) [of e]) (use Pair Err assms in simp_all)
  qed
qed

lemma take_eq_iff_nth:
  assumes "n = length ks" "length ks \<le> length s"
  shows "(\<forall>i\<in>{0..<length ks}. s ! i = ks ! i) = (take n s = ks)"
proof
  assume "\<forall>i\<in>{0..<length ks}. s ! i = ks ! i"
  then show "take n s = ks" using assms by (intro nth_equalityI) auto
next
  assume "take n s = ks"
  then show "\<forall>i\<in>{0..<length ks}. s ! i = ks ! i" using assms by (metis atLeastLessThan_iff nth_take)
qed

lemma all_less_Suc_split: "(\<forall>i < Suc n. P i) \<longleftrightarrow> P 0 \<and> (\<forall>i < n. P (Suc i))"
  using less_Suc_eq_0_disj by auto

lemma all_less_numeral: "(\<forall>v < numeral k. P v) \<longleftrightarrow> (\<forall>v < pred_numeral k. P v) \<and> P (pred_numeral k)"
  by (auto simp: numeral_eq_Suc less_Suc_eq)

lemma distinct_below_length: "distinct xs \<Longrightarrow> \<forall>x \<in> set xs. x < n \<Longrightarrow> length xs \<le> n" for n :: nat
  using card_mono [of "{..< n}" "set xs"] by (auto simp: distinct_card)

end
