(* ===== verification/Xair_Types.thy ===== *)
theory Xair_Types
  imports Xair_Prelude
begin

text \<open>
  The type system, opcodes and bit-level helpers of the IR: \<^verbatim>\<open>src/include/xair/xair.h\<close> and the type,
  name and masking functions of \<^verbatim>\<open>src/src/xair.c\<close>. A type is a kind with a width (\<open>bits\<close>) and an
  auxiliary field (\<open>aux\<close>, the address space of a memory type), both \<^verbatim>\<open>uint16_t\<close> in the code and natural
  numbers here. The lemmas relate the masks and sign bits, computed by shifts on 64-bit words, to
  \<^const>\<open>take_bit\<close> and \<^const>\<open>bit\<close>.
\<close>

section \<open>Types\<close>

datatype xair_type_kind =
    XAIR_TYPE_INVALID
  | XAIR_TYPE_VOID
  | XAIR_TYPE_INT
  | XAIR_TYPE_ADDR
  | XAIR_TYPE_FLAGS
  | XAIR_TYPE_MEM
  | XAIR_TYPE_LABEL8
  | XAIR_TYPE_LABELSET

fun kind_num :: "xair_type_kind \<Rightarrow> nat" where
  "kind_num XAIR_TYPE_INVALID = 0"
| "kind_num XAIR_TYPE_VOID = 1"
| "kind_num XAIR_TYPE_INT = 2"
| "kind_num XAIR_TYPE_ADDR = 3"
| "kind_num XAIR_TYPE_FLAGS = 4"
| "kind_num XAIR_TYPE_MEM = 5"
| "kind_num XAIR_TYPE_LABEL8 = 6"
| "kind_num XAIR_TYPE_LABELSET = 7"

record xair_type =
  kind :: xair_type_kind
  bits :: nat
  aux :: nat

datatype xair_endian = XAIR_ENDIAN_LE | XAIR_ENDIAN_BE

fun endian_num :: "xair_endian \<Rightarrow> nat" where
  "endian_num XAIR_ENDIAN_LE = 0"
| "endian_num XAIR_ENDIAN_BE = 1"

definition xair_type_void :: xair_type where
  "xair_type_void = \<lparr>kind = XAIR_TYPE_VOID, bits = 0, aux = 0\<rparr>"

definition xair_type_i :: "nat \<Rightarrow> xair_type" where
  "xair_type_i b = \<lparr>kind = XAIR_TYPE_INT, bits = b, aux = 0\<rparr>"

definition xair_type_addr :: "nat \<Rightarrow> xair_type" where
  "xair_type_addr b = \<lparr>kind = XAIR_TYPE_ADDR, bits = b, aux = 0\<rparr>"

definition xair_type_flags :: "nat \<Rightarrow> xair_type" where
  "xair_type_flags count = \<lparr>kind = XAIR_TYPE_FLAGS, bits = count, aux = 0\<rparr>"

definition xair_type_mem :: "nat \<Rightarrow> nat \<Rightarrow> xair_type" where
  "xair_type_mem space addr_bits = \<lparr>kind = XAIR_TYPE_MEM, bits = addr_bits, aux = space\<rparr>"

definition xair_type_label8 :: xair_type where
  "xair_type_label8 = \<lparr>kind = XAIR_TYPE_LABEL8, bits = 8, aux = 0\<rparr>"

definition xair_type_labelset :: xair_type where
  "xair_type_labelset = \<lparr>kind = XAIR_TYPE_LABELSET, bits = 0, aux = 0\<rparr>"

definition xair_type_invalid :: xair_type where
  "xair_type_invalid = \<lparr>kind = XAIR_TYPE_INVALID, bits = 0, aux = 0\<rparr>"

definition xair_type_equal :: "xair_type \<Rightarrow> xair_type \<Rightarrow> bool" where
  "xair_type_equal lhs rhs \<longleftrightarrow> kind lhs = kind rhs \<and> bits lhs = bits rhs \<and> aux lhs = aux rhs"

definition valid_int_bits :: "nat \<Rightarrow> bool" where
  "valid_int_bits b \<longleftrightarrow> b = 1 \<or> b = 8 \<or> b = 16 \<or> b = 32 \<or> b = 64 \<or> b = 128"

definition valid_addr_bits :: "nat \<Rightarrow> bool" where
  "valid_addr_bits b \<longleftrightarrow> b = 32 \<or> b = 64"

definition xair_type_is_valid :: "xair_type \<Rightarrow> bool" where
  "xair_type_is_valid t =
     (case kind t of
        XAIR_TYPE_VOID \<Rightarrow> bits t = 0 \<and> aux t = 0
      | XAIR_TYPE_INT \<Rightarrow> valid_int_bits (bits t) \<and> aux t = 0
      | XAIR_TYPE_ADDR \<Rightarrow> valid_addr_bits (bits t) \<and> aux t = 0
      | XAIR_TYPE_FLAGS \<Rightarrow> bits t > 0 \<and> bits t \<le> 32 \<and> aux t = 0
      | XAIR_TYPE_MEM \<Rightarrow> valid_addr_bits (bits t)
      | XAIR_TYPE_LABEL8 \<Rightarrow> bits t = 8 \<and> aux t = 0
      | XAIR_TYPE_LABELSET \<Rightarrow> bits t = 0 \<and> aux t = 0
      | _ \<Rightarrow> False)"

definition is_int :: "xair_type \<Rightarrow> bool" where
  "is_int t \<longleftrightarrow> kind t = XAIR_TYPE_INT"

definition is_addr :: "xair_type \<Rightarrow> bool" where
  "is_addr t \<longleftrightarrow> kind t = XAIR_TYPE_ADDR"

definition is_mem :: "xair_type \<Rightarrow> bool" where
  "is_mem t \<longleftrightarrow> kind t = XAIR_TYPE_MEM"

definition is_flags :: "xair_type \<Rightarrow> bool" where
  "is_flags t \<longleftrightarrow> kind t = XAIR_TYPE_FLAGS"

definition is_i1 :: "xair_type \<Rightarrow> bool" where
  "is_i1 t \<longleftrightarrow> kind t = XAIR_TYPE_INT \<and> bits t = 1"

definition is_value_type :: "xair_type \<Rightarrow> bool" where
  "is_value_type t \<longleftrightarrow>
     xair_type_is_valid t \<and> kind t \<noteq> XAIR_TYPE_VOID \<and> kind t \<noteq> XAIR_TYPE_INVALID"

section \<open>Opcodes\<close>

datatype xair_opcode =
    XAIR_OP_CONST_U64
  | XAIR_OP_ADD
  | XAIR_OP_SUB
  | XAIR_OP_MUL
  | XAIR_OP_AND
  | XAIR_OP_OR
  | XAIR_OP_XOR
  | XAIR_OP_SHL
  | XAIR_OP_LSHR
  | XAIR_OP_ASHR
  | XAIR_OP_EQ
  | XAIR_OP_NE
  | XAIR_OP_ULT
  | XAIR_OP_ULE
  | XAIR_OP_SLT
  | XAIR_OP_SLE
  | XAIR_OP_ZEXT
  | XAIR_OP_SEXT
  | XAIR_OP_TRUNC
  | XAIR_OP_CONCAT
  | XAIR_OP_ADDR_ADD
  | XAIR_OP_ADDR_SUB
  | XAIR_OP_INT_TO_ADDR
  | XAIR_OP_ADDR_TO_INT
  | XAIR_OP_FLAGS_ADD
  | XAIR_OP_FLAGS_SUB
  | XAIR_OP_FLAGS_LOGIC
  | XAIR_OP_FLAGS_SHL
  | XAIR_OP_FLAG_ZF
  | XAIR_OP_FLAG_CF
  | XAIR_OP_FLAG_OF
  | XAIR_OP_FLAG_SF
  | XAIR_OP_FLAG_PF
  | XAIR_OP_FLAG_AF
  | XAIR_OP_LOAD
  | XAIR_OP_STORE

fun opcode_num :: "xair_opcode \<Rightarrow> nat" where
  "opcode_num XAIR_OP_CONST_U64 = 0"
| "opcode_num XAIR_OP_ADD = 1"
| "opcode_num XAIR_OP_SUB = 2"
| "opcode_num XAIR_OP_MUL = 3"
| "opcode_num XAIR_OP_AND = 4"
| "opcode_num XAIR_OP_OR = 5"
| "opcode_num XAIR_OP_XOR = 6"
| "opcode_num XAIR_OP_SHL = 7"
| "opcode_num XAIR_OP_LSHR = 8"
| "opcode_num XAIR_OP_ASHR = 9"
| "opcode_num XAIR_OP_EQ = 10"
| "opcode_num XAIR_OP_NE = 11"
| "opcode_num XAIR_OP_ULT = 12"
| "opcode_num XAIR_OP_ULE = 13"
| "opcode_num XAIR_OP_SLT = 14"
| "opcode_num XAIR_OP_SLE = 15"
| "opcode_num XAIR_OP_ZEXT = 16"
| "opcode_num XAIR_OP_SEXT = 17"
| "opcode_num XAIR_OP_TRUNC = 18"
| "opcode_num XAIR_OP_CONCAT = 19"
| "opcode_num XAIR_OP_ADDR_ADD = 20"
| "opcode_num XAIR_OP_ADDR_SUB = 21"
| "opcode_num XAIR_OP_INT_TO_ADDR = 22"
| "opcode_num XAIR_OP_ADDR_TO_INT = 23"
| "opcode_num XAIR_OP_FLAGS_ADD = 24"
| "opcode_num XAIR_OP_FLAGS_SUB = 25"
| "opcode_num XAIR_OP_FLAGS_LOGIC = 26"
| "opcode_num XAIR_OP_FLAGS_SHL = 27"
| "opcode_num XAIR_OP_FLAG_ZF = 28"
| "opcode_num XAIR_OP_FLAG_CF = 29"
| "opcode_num XAIR_OP_FLAG_OF = 30"
| "opcode_num XAIR_OP_FLAG_SF = 31"
| "opcode_num XAIR_OP_FLAG_PF = 32"
| "opcode_num XAIR_OP_FLAG_AF = 33"
| "opcode_num XAIR_OP_LOAD = 34"
| "opcode_num XAIR_OP_STORE = 35"

fun xair_opcode_name :: "xair_opcode \<Rightarrow> string" where
  "xair_opcode_name XAIR_OP_CONST_U64 = ''const''"
| "xair_opcode_name XAIR_OP_ADD = ''add''"
| "xair_opcode_name XAIR_OP_SUB = ''sub''"
| "xair_opcode_name XAIR_OP_MUL = ''mul''"
| "xair_opcode_name XAIR_OP_AND = ''and''"
| "xair_opcode_name XAIR_OP_OR = ''or''"
| "xair_opcode_name XAIR_OP_XOR = ''xor''"
| "xair_opcode_name XAIR_OP_SHL = ''shl''"
| "xair_opcode_name XAIR_OP_LSHR = ''lshr''"
| "xair_opcode_name XAIR_OP_ASHR = ''ashr''"
| "xair_opcode_name XAIR_OP_EQ = ''eq''"
| "xair_opcode_name XAIR_OP_NE = ''ne''"
| "xair_opcode_name XAIR_OP_ULT = ''ult''"
| "xair_opcode_name XAIR_OP_ULE = ''ule''"
| "xair_opcode_name XAIR_OP_SLT = ''slt''"
| "xair_opcode_name XAIR_OP_SLE = ''sle''"
| "xair_opcode_name XAIR_OP_ZEXT = ''zext''"
| "xair_opcode_name XAIR_OP_SEXT = ''sext''"
| "xair_opcode_name XAIR_OP_TRUNC = ''trunc''"
| "xair_opcode_name XAIR_OP_CONCAT = ''concat''"
| "xair_opcode_name XAIR_OP_ADDR_ADD = ''addr_add''"
| "xair_opcode_name XAIR_OP_ADDR_SUB = ''addr_sub''"
| "xair_opcode_name XAIR_OP_INT_TO_ADDR = ''int_to_addr''"
| "xair_opcode_name XAIR_OP_ADDR_TO_INT = ''addr_to_int''"
| "xair_opcode_name XAIR_OP_FLAGS_ADD = ''flags_add''"
| "xair_opcode_name XAIR_OP_FLAGS_SUB = ''flags_sub''"
| "xair_opcode_name XAIR_OP_FLAGS_LOGIC = ''flags_logic''"
| "xair_opcode_name XAIR_OP_FLAGS_SHL = ''flags_shl''"
| "xair_opcode_name XAIR_OP_FLAG_ZF = ''flag_zf''"
| "xair_opcode_name XAIR_OP_FLAG_CF = ''flag_cf''"
| "xair_opcode_name XAIR_OP_FLAG_OF = ''flag_of''"
| "xair_opcode_name XAIR_OP_FLAG_SF = ''flag_sf''"
| "xair_opcode_name XAIR_OP_FLAG_PF = ''flag_pf''"
| "xair_opcode_name XAIR_OP_FLAG_AF = ''flag_af''"
| "xair_opcode_name XAIR_OP_LOAD = ''load''"
| "xair_opcode_name XAIR_OP_STORE = ''store''"

fun xair_status_name :: "xair_status \<Rightarrow> string" where
  "xair_status_name XAIR_OK = ''ok''"
| "xair_status_name XAIR_ERR_OOM = ''out of memory''"
| "xair_status_name XAIR_ERR_BAD_ARG = ''bad argument''"
| "xair_status_name XAIR_ERR_RANGE = ''range error''"
| "xair_status_name XAIR_ERR_VERIFY = ''verification failed''"
| "xair_status_name XAIR_ERR_UNSUPPORTED = ''unsupported operation''"
| "xair_status_name UNDEFINED_BEHAVIOUR = ''unknown status''"

text \<open>\<^verbatim>\<open>XAIR_IR_VERSION_MAJOR/MINOR/PATCH\<close> are 0, 1 and 0.\<close>

definition xair_ir_version_string :: string where
  "xair_ir_version_string = ''0.1.0''"

definition xair_ir_version_u32 :: u32 where
  "xair_ir_version_u32 = push_bit 16 0 OR push_bit 8 1 OR 0"

section \<open>Masks, sign bits and parity\<close>

definition mask_for_bits :: "nat \<Rightarrow> u64" where
  "mask_for_bits b = (if b \<ge> 64 then - 1 else push_bit b 1 - 1)"

definition sign_bit_for_bits :: "nat \<Rightarrow> u64" where
  "sign_bit_for_bits b = (if b = 64 then push_bit 63 1 else push_bit (b - 1) 1)"

definition truncate_to_type :: "u64 \<Rightarrow> xair_type \<Rightarrow> u64" where
  "truncate_to_type value t =
     (if kind t \<noteq> XAIR_TYPE_INT \<and> kind t \<noteq> XAIR_TYPE_ADDR then value
      else value AND mask_for_bits (bits t))"

definition bool_u64 :: "bool \<Rightarrow> u64" where
  "bool_u64 value = (if value then 1 else 0)"

definition signed_less_u64 :: "u64 \<Rightarrow> u64 \<Rightarrow> nat \<Rightarrow> bool" where
  "signed_less_u64 lhs rhs b =
     (let sign = sign_bit_for_bits b;
          mask = mask_for_bits b;
          lhs = lhs AND mask;
          rhs = rhs AND mask;
          lhs_negative = (lhs AND sign \<noteq> 0);
          rhs_negative = (rhs AND sign \<noteq> 0)
      in if lhs_negative \<noteq> rhs_negative then lhs_negative else lhs < rhs)"

definition even_parity8 :: "u64 \<Rightarrow> bool" where
  "even_parity8 value =
     (let byte = (ucast (value AND 0xff) :: u8);
          byte = byte XOR drop_bit 4 byte;
          byte = byte AND 0x0f
      in drop_bit (unat byte) (0x6996 :: u32) AND 1 = 0)"

section \<open>Facts about masks, signs and parity\<close>

lemma mask_for_bits_mask: "mask_for_bits b = mask b"
  by (auto simp: mask_for_bits_def mask_eq_exp_minus_1 push_bit_eq_mult intro: bit_word_eqI)

lemma and_mask_for_bits [simp]: "x AND mask_for_bits b = take_bit b x"
  by (simp add: mask_for_bits_mask take_bit_eq_mask)

lemma sign_bit_for_bits_eq: "1 \<le> b \<Longrightarrow> sign_bit_for_bits b = push_bit (b - 1) 1"
  by (auto simp: sign_bit_for_bits_def)

lemma and_sign_bit: "1 \<le> b \<Longrightarrow> b \<le> 64 \<Longrightarrow> (x AND sign_bit_for_bits b \<noteq> 0) = bit x (b - 1)"
  by (simp add: sign_bit_for_bits_eq push_bit_of_1 and_exp_eq_0_iff_not_bit)

lemma truncate_to_type_scalar:
  "is_int t \<or> is_addr t \<Longrightarrow> truncate_to_type v t = take_bit (bits t) v"
  by (auto simp: truncate_to_type_def is_int_def is_addr_def)

lemma truncate_to_type_idem [simp]:
  "truncate_to_type (truncate_to_type v t) t = truncate_to_type v t"
  by (simp add: truncate_to_type_def)

lemma signed_less_u64_iff:
  assumes "1 \<le> b" "b \<le> 64"
  shows "signed_less_u64 l r b \<longleftrightarrow>
    signed_take_bit (b - 1) (uint l) < signed_take_bit (b - 1) (uint r)"
proof -
  obtain n where b: "b = Suc n" using assms by (cases b) auto
  have s: "signed_take_bit n (uint x) =
     (if bit x n then uint (take_bit (Suc n) x) - 2 ^ Suc n else uint (take_bit (Suc n) x))" for x :: u64
    by (simp add: signed_take_bit_eq_take_bit_minus unsigned_take_bit_eq bit_uint_eq)
  have sb: "(take_bit (Suc n) x AND sign_bit_for_bits (Suc n) = 0) = (\<not> bit x n)" for x :: u64
    using and_sign_bit [of b "take_bit (Suc n) x"] assms by (auto simp: b bit_take_bit_iff)
  have lt: "uint (take_bit (Suc n) x) < 2 ^ Suc n" for x :: u64
    by (simp add: unsigned_take_bit_eq del: power_Suc)
  show ?thesis
    using lt [of l] lt [of r]
    by (auto simp: b signed_less_u64_def Let_def sb s word_less_def simp del: power_Suc)
      (use uint_ge_0 [of "take_bit (Suc n) l"] uint_ge_0 [of "take_bit (Suc n) r"] in linarith)+
qed

lemma even_parity8_iff: "even_parity8 v \<longleftrightarrow> even (card {i. i < 8 \<and> bit v i})"
proof -
  define w where "w = (ucast (v AND 0xff) :: u8)"
  have wb: "bit w i = bit v i" if "i < 8" for i
  proof -
    have "v AND 0xff = take_bit 8 v"
      by (simp add: take_bit_eq_mask mask_eq_exp_minus_1)
    then show ?thesis using that by (simp add: w_def bit_simps)
  qed
  have "(w XOR drop_bit 4 w) AND 0x0f = take_bit 4 (w XOR drop_bit 4 w)"
    by (simp add: take_bit_eq_mask mask_eq_exp_minus_1)
  then have "unat ((w XOR drop_bit 4 w) AND 0x0f) = 
     horner_sum of_bool 2 (map (bit (w XOR drop_bit 4 w)) [0..<4])"
    by (simp add: horner_sum_bit_eq_take_bit unsigned_take_bit_eq del: take_bit_xor
        flip: bit_unat_map)
  also have "\<dots> = horner_sum of_bool 2 [bit v 0 \<noteq> bit v 4, bit v 1 \<noteq> bit v 5, bit v 2 \<noteq> bit v 6, bit v 3 \<noteq> bit v 7]"
    by (simp add: upt_rec bit_xor_iff bit_drop_bit_eq wb numeral_2_eq_2 numeral_3_eq_3)
  finally have e: "unat ((w XOR drop_bit 4 w) AND 0x0f) = \<dots>" .
  have c: "card {i. i < 8 \<and> bit v i} = of_bool (bit v 0) + of_bool (bit v 1) + of_bool (bit v 2) + of_bool (bit v 3)
     + of_bool (bit v 4) + of_bool (bit v 5) + of_bool (bit v 6) + of_bool (bit v 7)"
    unfolding card_bits_8 sum_bits_8 ..
  show ?thesis
    unfolding even_parity8_def Let_def w_def [symmetric] e c
    by (cases "bit v 0"; cases "bit v 1"; cases "bit v 2"; cases "bit v 3";
        cases "bit v 4"; cases "bit v 5"; cases "bit v 6"; cases "bit v 7"; simp)
qed

lemma xair_type_equal_iff [simp]: "xair_type_equal t u \<longleftrightarrow> t = u"
  by (auto simp: xair_type_equal_def)

lemmas type_preds = is_int_def is_addr_def is_mem_def is_flags_def is_i1_def

declare type_preds [type_simps]

lemma bool_u64_cases: "bool_u64 P = 0 \<or> bool_u64 P = 1"
  by (simp add: bool_u64_def)

lemma bool_u64_eq_0 [simp]: "bool_u64 P = 0 \<longleftrightarrow> \<not> P"
  by (simp add: bool_u64_def)

lemma valid_int_width: "xair_type_is_valid t \<Longrightarrow> is_int t \<or> is_addr t \<Longrightarrow> 1 \<le> bits t"
  by (auto simp: xair_type_is_valid_def valid_int_bits_def valid_addr_bits_def type_simps)

lemma opcode_num_inj: "opcode_num a = opcode_num b \<longleftrightarrow> a = b"
  by (cases a; cases b; simp)

end
