(* ===== verification/Xair_Module.thy ===== *)
theory Xair_Module
  imports Xair_Types
begin

text \<open>
  The module under construction: the records of \<^verbatim>\<open>src/src/xair.c\<close> and the operations that build it.
  A C array with its count and capacity is a list with a capacity field: the count is the length of the
  list, and \<open>realloc\<close> keeps the elements. The value-numbering table is a list of slots whose length is
  the capacity. Every operation takes the module and returns its result with the module it leaves.

  The theory holds the definitions only; \<open>Xair_Numbering\<close> and \<open>Xair_Builder\<close> hold their properties.
\<close>

section \<open>Records\<close>

datatype xair_term_kind =
    XAIR_TERM_NONE
  | XAIR_TERM_JUMP
  | XAIR_TERM_CBRANCH
  | XAIR_TERM_RETURN
  | XAIR_TERM_TRAP
  | XAIR_TERM_FAULT

record xair_value_rec =
  val_type :: xair_type
  val_block :: xair_block_id
  val_op :: xair_op_id
  val_name :: string

record xair_op_rec =
  opcode :: xair_opcode
  dst :: xair_value_id
  src :: "xair_value_id list"
  src_count :: nat
  endian :: xair_endian
  imm :: u64

record xair_term_rec =
  term_kind :: xair_term_kind
  condition :: xair_value_id
  true_target :: xair_block_id
  false_target :: xair_block_id
  true_arg_offset :: nat
  true_arg_count :: nat
  false_arg_offset :: nat
  false_arg_count :: nat
  code :: nat

record xair_block_rec =
  blk_name :: string
  params :: "xair_value_id list"
  param_cap :: nat
  blk_ops :: "xair_op_id list"
  blk_op_cap :: nat
  blk_term :: xair_term_rec

record xair_value_number_entry =
  vn_hash :: u64
  vn_value :: xair_value_id
  vn_used :: bool

record xair_value_numbering_stats =
  entries :: nat
  created :: nat
  reused :: nat
  collisions :: nat

record xair_module =
  vals :: "xair_value_rec list"
  value_cap :: nat
  ops :: "xair_op_rec list"
  op_cap :: nat
  blocks :: "xair_block_rec list"
  block_cap :: nat
  term_args :: "xair_value_id list"
  term_arg_cap :: nat
  value_numbers :: "xair_value_number_entry list"
  value_number_count :: nat
  value_number_stats :: xair_value_numbering_stats
  frozen :: bool

abbreviation value_number_cap :: "xair_module \<Rightarrow> nat" where
  "value_number_cap m \<equiv> length (value_numbers m)"

text \<open>Sizes of the structures and array elements in bytes, for 64-bit targets.\<close>

abbreviation sizeof_module :: nat where "sizeof_module \<equiv> 160"
abbreviation sizeof_builder :: nat where "sizeof_builder \<equiv> 8"
abbreviation sizeof_value :: nat where "sizeof_value \<equiv> 48"
abbreviation sizeof_op :: nat where "sizeof_op \<equiv> 32"
abbreviation sizeof_block :: nat where "sizeof_block \<equiv> 136"
abbreviation sizeof_id :: nat where "sizeof_id \<equiv> 4"
abbreviation sizeof_entry :: nat where "sizeof_entry \<equiv> 16"

definition empty_entry :: xair_value_number_entry where
  "empty_entry = \<lparr>vn_hash = 0, vn_value = 0, vn_used = False\<rparr>"

definition empty_term :: xair_term_rec where
  "empty_term =
     \<lparr>term_kind = XAIR_TERM_NONE, condition = XAIR_INVALID_ID, true_target = XAIR_INVALID_ID,
      false_target = XAIR_INVALID_ID, true_arg_offset = 0, true_arg_count = 0,
      false_arg_offset = 0, false_arg_count = 0, code = 0\<rparr>"

text \<open>The module that \<^verbatim>\<open>calloc\<close> delivers, with all fields zero, and the allocation that may fail.\<close>

definition empty_module :: xair_module where
  "empty_module =
     \<lparr>vals = [], value_cap = 0, ops = [], op_cap = 0, blocks = [], block_cap = 0,
      term_args = [], term_arg_cap = 0, value_numbers = [], value_number_count = 0,
      value_number_stats = \<lparr>entries = 0, created = 0, reused = 0, collisions = 0\<rparr>,
      frozen = False\<rparr>"

definition xair_module_create :: "allocator \<Rightarrow> xair_module xres" where
  "xair_module_create al = (if \<not> al Site_module sizeof_module then Err XAIR_ERR_OOM else Ok empty_module)"

definition copy_name :: "string \<Rightarrow> string \<Rightarrow> nat \<Rightarrow> string" where
  "copy_name s prefix n = take 31 (if s \<noteq> [] then s else prefix @ dec_text n)"

definition valid_block :: "xair_module \<Rightarrow> xair_block_id \<Rightarrow> bool" where
  "valid_block m b \<longleftrightarrow> b < length (blocks m)"

definition valid_value :: "xair_module \<Rightarrow> xair_value_id \<Rightarrow> bool" where
  "valid_value m v \<longleftrightarrow> v < length (vals m)"

definition xair_module_block_count :: "xair_module \<Rightarrow> nat" where
  "xair_module_block_count m = length (blocks m)"

definition xair_module_value_count :: "xair_module \<Rightarrow> nat" where
  "xair_module_value_count m = length (vals m)"

definition xair_module_op_count :: "xair_module \<Rightarrow> nat" where
  "xair_module_op_count m = length (ops m)"

definition xair_module_is_frozen :: "xair_module \<Rightarrow> bool" where
  "xair_module_is_frozen m = frozen m"

definition value_is_global_const :: "xair_module \<Rightarrow> xair_value_id \<Rightarrow> bool" where
  "value_is_global_const m v =
     (if \<not> valid_value m v then False
      else let op_id = val_op (vals m ! v)
           in op_id \<noteq> XAIR_INVALID_ID \<and> op_id < length (ops m)
              \<and> opcode (ops m ! op_id) = XAIR_OP_CONST_U64)"

text \<open>The arguments of one arm of a terminator; \<open>false_args\<close> selects the false arm.\<close>

definition term_args_const :: "xair_module \<Rightarrow> xair_term_rec \<Rightarrow> bool \<Rightarrow> xair_value_id list" where
  "term_args_const m t false_args =
     (let count = (if false_args then false_arg_count t else true_arg_count t);
          offset = (if false_args then false_arg_offset t else true_arg_offset t)
      in if count = 0 then [] else take count (drop offset (term_args m)))"

section \<open>Value numbering\<close>

text \<open>
  The arguments that \<open>value_number_hash\<close>, \<open>value_number_matches\<close> and \<open>value_number_lookup\<close> share:
  the structure of an operation about to be built.
\<close>

record op_key =
  k_block :: xair_block_id
  k_opcode :: xair_opcode
  k_type :: xair_type
  k_srcs :: "xair_value_id list"
  k_imm :: u64
  k_endian :: xair_endian

definition hash_mix_u64 :: "u64 \<Rightarrow> u64 \<Rightarrow> u64" where
  "hash_mix_u64 h v =
     (let h' = h XOR (v + 0x9e3779b97f4a7c15 + push_bit 6 h + drop_bit 2 h)
      in if h' = 0 then 0x9e3779b97f4a7c15 else h')"

definition hash_type :: "u64 \<Rightarrow> xair_type \<Rightarrow> u64" where
  "hash_type h t =
     (let h = hash_mix_u64 h (of_nat (kind_num (kind t)));
          h = hash_mix_u64 h (of_nat (bits t))
      in hash_mix_u64 h (of_nat (aux t)))"

definition value_number_is_global :: "xair_opcode \<Rightarrow> bool" where
  "value_number_is_global oc \<longleftrightarrow> oc = XAIR_OP_CONST_U64"

definition value_number_hash :: "op_key \<Rightarrow> u64" where
  "value_number_hash k =
     (let h = 1469598103934665603;
          h = hash_mix_u64 h (if value_number_is_global (k_opcode k) then - 1 else of_nat (k_block k));
          h = hash_mix_u64 h (of_nat (opcode_num (k_opcode k)));
          h = hash_type h (k_type k);
          h = hash_mix_u64 h (of_nat (length (k_srcs k)));
          h = foldl (\<lambda>h s. hash_mix_u64 h (of_nat s)) h (k_srcs k);
          h = hash_mix_u64 h (k_imm k)
      in hash_mix_u64 h (of_nat (endian_num (k_endian k))))"

definition value_number_matches :: "xair_module \<Rightarrow> xair_value_id \<Rightarrow> op_key \<Rightarrow> bool" where
  "value_number_matches m v k =
     (if \<not> valid_value m v \<or> \<not> xair_type_equal (val_type (vals m ! v)) (k_type k) then False
      else if \<not> value_number_is_global (k_opcode k) \<and> val_block (vals m ! v) \<noteq> k_block k then False
      else let op_id = val_op (vals m ! v)
           in if op_id = XAIR_INVALID_ID \<or> op_id \<ge> length (ops m) then False
              else let oper = ops m ! op_id
                   in if opcode oper \<noteq> k_opcode k \<or> src_count oper \<noteq> length (k_srcs k)
                         \<or> imm oper \<noteq> k_imm k \<or> endian oper \<noteq> k_endian k then False
                      else \<forall>i \<in> {0..<length (k_srcs k)}. src oper ! i = k_srcs k ! i)"

text \<open>
  The probe sequence: \<open>left\<close> is the number of probes that remain, \<open>coll\<close> counts the collisions met.
\<close>

fun vn_probe :: "xair_module \<Rightarrow> u64 \<Rightarrow> op_key \<Rightarrow> nat \<Rightarrow> nat \<Rightarrow> nat \<Rightarrow> xair_value_id option \<times> nat" where
  "vn_probe m h k index 0 coll = (None, coll)"
| "vn_probe m h k index (Suc left) coll =
     (let entry = value_numbers m ! index
      in if \<not> vn_used entry then (None, coll)
         else if vn_hash entry = h \<and> value_number_matches m (vn_value entry) k
              then (Some (vn_value entry), coll)
         else vn_probe m h k ((index + 1) AND (value_number_cap m - 1)) left (coll + 1))"

definition vn_home :: "u64 \<Rightarrow> nat \<Rightarrow> nat" where
  "vn_home h cap = unat (h AND of_nat (cap - 1))"

definition value_number_lookup ::
  "xair_module \<Rightarrow> u64 \<Rightarrow> op_key \<Rightarrow> xair_value_id option \<times> xair_module" where
  "value_number_lookup m h k =
     (if value_number_cap m = 0 then (None, m)
      else case vn_probe m h k (vn_home h (value_number_cap m)) (value_number_cap m)
                  (collisions (value_number_stats m)) of
        (Some v, coll) \<Rightarrow>
          (Some v, m\<lparr>value_number_stats :=
             (value_number_stats m)\<lparr>collisions := coll, reused := reused (value_number_stats m) + 1\<rparr>\<rparr>)
      | (None, coll) \<Rightarrow>
          (None, m\<lparr>value_number_stats := (value_number_stats m)\<lparr>collisions := coll\<rparr>\<rparr>))"

text \<open>
  The loop that looks for a free slot. It has as many probes as the table has slots; \<open>None\<close> means that
  every slot is in use, where the C loop would not end. \<open>Xair_Numbering\<close> proves that this never happens.
\<close>

fun vn_free_slot :: "xair_value_number_entry list \<Rightarrow> nat \<Rightarrow> nat \<Rightarrow> nat option" where
  "vn_free_slot tab index 0 = None"
| "vn_free_slot tab index (Suc left) =
     (if vn_used (tab ! index)
      then vn_free_slot tab ((index + 1) AND (length tab - 1)) left
      else Some index)"

definition vn_place :: "xair_value_number_entry \<Rightarrow> xair_value_number_entry list
    \<Rightarrow> xair_value_number_entry list" where
  "vn_place e tab =
     (case vn_free_slot tab (vn_home (vn_hash e) (length tab)) (length tab) of
        None \<Rightarrow> tab
      | Some index \<Rightarrow> tab[index := e])"

fun vn_rehash :: "xair_value_number_entry list \<Rightarrow> xair_value_number_entry list \<times> nat
    \<Rightarrow> xair_value_number_entry list \<times> nat" where
  "vn_rehash [] acc = acc"
| "vn_rehash (e # es) (tab, n) =
     (if vn_used e then vn_rehash es (vn_place e tab, n + 1) else vn_rehash es (tab, n))"

definition value_number_grow :: "allocator \<Rightarrow> nat \<Rightarrow> (xair_module, unit) xop" where
  "value_number_grow al next_cap m =
     (if \<not> al Site_value_numbers (next_cap * sizeof_entry) then (Err XAIR_ERR_OOM, m)
      else case vn_rehash (value_numbers m) (replicate next_cap empty_entry, 0) of
        (tab, n) \<Rightarrow> (Ok (), m\<lparr>value_numbers := tab, value_number_count := n\<rparr>))"

definition value_number_prepare_insert :: "allocator \<Rightarrow> (xair_module, unit) xop" where
  "value_number_prepare_insert al m =
     (let cap = value_number_cap m
      in if cap \<noteq> 0 \<and> (value_number_count m + 1) * 2 < cap then (Ok (), m)
         else let next_cap = (if cap = 0 then 64 else (cap * 2) mod 2 ^ 64)
              in if next_cap < cap \<or> next_cap > SIZE_MAX div sizeof_entry then (Err XAIR_ERR_OOM, m)
                 else value_number_grow al next_cap m)"

definition value_number_insert :: "u64 \<Rightarrow> xair_value_id \<Rightarrow> xair_module \<Rightarrow> xair_module" where
  "value_number_insert h v m =
     m\<lparr>value_numbers := vn_place \<lparr>vn_hash = h, vn_value = v, vn_used = True\<rparr> (value_numbers m),
       value_number_count := value_number_count m + 1,
       value_number_stats :=
         (value_number_stats m)\<lparr>created := created (value_number_stats m) + 1\<rparr>\<rparr>"

definition value_number_clear :: "xair_module \<Rightarrow> xair_module" where
  "value_number_clear m = m\<lparr>value_numbers := [], value_number_count := 0\<rparr>"

definition xair_get_value_numbering_stats :: "xair_module \<Rightarrow> xair_value_numbering_stats" where
  "xair_get_value_numbering_stats m = (value_number_stats m)\<lparr>entries := value_number_count m\<rparr>"

section \<open>Adding vals and operations\<close>

definition add_value ::
  "allocator \<Rightarrow> xair_block_id \<Rightarrow> xair_type \<Rightarrow> string \<Rightarrow> (xair_module, xair_value_id) xop" where
  "add_value al b t nm m =
     (if frozen m \<or> \<not> valid_block m b \<or> \<not> is_value_type t then (Err XAIR_ERR_BAD_ARG, m)
      else if length (vals m) \<ge> UINT32_MAX then (Err XAIR_ERR_RANGE, m)
      else case grow_array al Site_values sizeof_value (value_cap m) (length (vals m) + 1) of
        Err e \<Rightarrow> (Err e, m)
      | Ok cap \<Rightarrow>
          (let vid = length (vals m)
           in (Ok vid, m\<lparr>value_cap := cap,
                 vals := vals m @ [\<lparr>val_type = t, val_block = b, val_op = XAIR_INVALID_ID,
                                       val_name = copy_name nm ''v'' vid\<rparr>]\<rparr>)))"

definition append_param :: "allocator \<Rightarrow> xair_block_id \<Rightarrow> xair_value_id \<Rightarrow> (xair_module, unit) xop" where
  "append_param al b v m =
     (let bb = blocks m ! b
      in case grow_array al (Site_params b) sizeof_id (param_cap bb) (length (params bb) + 1) of
           Err e \<Rightarrow> (Err e, m)
         | Ok cap \<Rightarrow>
             (Ok (), m\<lparr>blocks := (blocks m)[b := bb\<lparr>param_cap := cap, params := params bb @ [v]\<rparr>]\<rparr>))"

definition append_op :: "allocator \<Rightarrow> xair_block_id \<Rightarrow> xair_op_id \<Rightarrow> (xair_module, unit) xop" where
  "append_op al b op_id m =
     (let bb = blocks m ! b
      in case grow_array al (Site_block_ops b) sizeof_id (blk_op_cap bb) (length (blk_ops bb) + 1) of
           Err e \<Rightarrow> (Err e, m)
         | Ok cap \<Rightarrow>
             (Ok (), m\<lparr>blocks :=
                (blocks m)[b := bb\<lparr>blk_op_cap := cap, blk_ops := blk_ops bb @ [op_id]\<rparr>]\<rparr>))"

definition make_op :: "op_key \<Rightarrow> xair_value_id \<Rightarrow> xair_op_rec" where
  "make_op k value_id =
     \<lparr>opcode = k_opcode k, dst = value_id, src = k_srcs k @ replicate (3 - length (k_srcs k)) 0,
      src_count = length (k_srcs k), endian = k_endian k, imm = k_imm k\<rparr>"

text \<open>
  The part of \<open>add_op\<close> after the lookup has failed: room in the table, the value, the operation, the
  entry in the block's list, with the roll back of each failing step.
\<close>

definition add_fresh_op ::
  "allocator \<Rightarrow> op_key \<Rightarrow> u64 \<Rightarrow> string \<Rightarrow> (xair_module, xair_value_id) xop" where
  "add_fresh_op al k h nm m =
     (case value_number_prepare_insert al m of
        (Err e, m2) \<Rightarrow> (Err e, m2)
      | (Ok _, m2) \<Rightarrow>
        (case add_value al (k_block k) (k_type k) nm m2 of
           (Err e, m3) \<Rightarrow> (Err e, m3)
         | (Ok value_id, m3) \<Rightarrow>
           (case grow_array al Site_ops sizeof_op (op_cap m3) (length (ops m3) + 1) of
              Err e \<Rightarrow> (Err e, m3\<lparr>vals := butlast (vals m3)\<rparr>)
            | Ok cap \<Rightarrow>
              (let op_id = length (ops m3);
                   m4 = m3\<lparr>op_cap := cap, ops := ops m3 @ [make_op k value_id],
                          vals := (vals m3)[value_id := (vals m3 ! value_id)\<lparr>val_op := op_id\<rparr>]\<rparr>
               in case append_op al (k_block k) op_id m4 of
                    (Err e, m5) \<Rightarrow>
                      (Err e, m5\<lparr>ops := butlast (ops m5), vals := butlast (vals m5)\<rparr>)
                  | (Ok _, m5) \<Rightarrow> (Ok value_id, value_number_insert h value_id m5)))))"

definition add_op ::
  "allocator \<Rightarrow> xair_block_id \<Rightarrow> xair_opcode \<Rightarrow> xair_type \<Rightarrow> xair_value_id list \<Rightarrow> u64
     \<Rightarrow> xair_endian \<Rightarrow> string \<Rightarrow> (xair_module, xair_value_id) xop" where
  "add_op al b oc t srcs im en nm m =
     (if frozen m \<or> \<not> valid_block m b \<or> length srcs > 3 then (Err XAIR_ERR_BAD_ARG, m)
      else if term_kind (blk_term (blocks m ! b)) \<noteq> XAIR_TERM_NONE then (Err XAIR_ERR_BAD_ARG, m)
      else if length (ops m) \<ge> UINT32_MAX then (Err XAIR_ERR_RANGE, m)
      else
        (let k = \<lparr>k_block = b, k_opcode = oc, k_type = t, k_srcs = srcs, k_imm = im, k_endian = en\<rparr>;
             h = value_number_hash k
         in case value_number_lookup m h k of
              (Some v, m1) \<Rightarrow> (Ok v, m1)
            | (None, m1) \<Rightarrow> add_fresh_op al k h nm m1))"

section \<open>Blocks, parameters and the public builders\<close>

definition xair_block_create :: "allocator \<Rightarrow> string \<Rightarrow> (xair_module, xair_block_id) xop" where
  "xair_block_create al nm m =
     (if frozen m then (Err XAIR_ERR_BAD_ARG, m)
      else if length (blocks m) \<ge> UINT32_MAX then (Err XAIR_ERR_RANGE, m)
      else case grow_array al Site_blocks sizeof_block (block_cap m) (length (blocks m) + 1) of
        Err e \<Rightarrow> (Err e, m)
      | Ok cap \<Rightarrow>
          (let bid = length (blocks m)
           in (Ok bid, m\<lparr>block_cap := cap,
                 blocks := blocks m @ [\<lparr>blk_name = copy_name nm ''bb'' bid, params = [], param_cap = 0,
                                       blk_ops = [], blk_op_cap = 0, blk_term = empty_term\<rparr>]\<rparr>)))"

definition xair_block_add_param ::
  "allocator \<Rightarrow> xair_block_id \<Rightarrow> xair_type \<Rightarrow> string \<Rightarrow> (xair_module, xair_value_id) xop" where
  "xair_block_add_param al b t nm m =
     (if \<not> valid_block m b \<or> \<not> is_value_type t then (Err XAIR_ERR_BAD_ARG, m)
      else if term_kind (blk_term (blocks m ! b)) \<noteq> XAIR_TERM_NONE then (Err XAIR_ERR_BAD_ARG, m)
      else case add_value al b t nm m of
        (Err e, m1) \<Rightarrow> (Err e, m1)
      | (Ok v, m1) \<Rightarrow>
          (case append_param al b v m1 of
             (Err e, m2) \<Rightarrow> (Err e, m2\<lparr>vals := butlast (vals m2)\<rparr>)
           | (Ok _, m2) \<Rightarrow> (Ok v, m2)))"

definition xair_block_param_count :: "xair_module \<Rightarrow> xair_block_id \<Rightarrow> nat" where
  "xair_block_param_count m b = (if \<not> valid_block m b then 0 else length (params (blocks m ! b)))"

definition xair_block_param_value :: "xair_module \<Rightarrow> xair_block_id \<Rightarrow> nat \<Rightarrow> xair_value_id xres" where
  "xair_block_param_value m b index =
     (if \<not> valid_block m b then Err XAIR_ERR_BAD_ARG
      else if index \<ge> length (params (blocks m ! b)) then Err XAIR_ERR_RANGE
      else Ok (params (blocks m ! b) ! index))"

definition xair_build_const_u64 ::
  "allocator \<Rightarrow> xair_block_id \<Rightarrow> xair_type \<Rightarrow> u64 \<Rightarrow> string \<Rightarrow> (xair_module, xair_value_id) xop" where
  "xair_build_const_u64 al b t value nm m =
     (if \<not> (kind t = XAIR_TYPE_INT \<or> kind t = XAIR_TYPE_ADDR) \<or> bits t > 64
      then (Err XAIR_ERR_BAD_ARG, m)
      else add_op al b XAIR_OP_CONST_U64 t [] value XAIR_ENDIAN_LE nm m)"

definition xair_build_unary ::
  "allocator \<Rightarrow> xair_block_id \<Rightarrow> xair_opcode \<Rightarrow> xair_type \<Rightarrow> xair_value_id \<Rightarrow> string
     \<Rightarrow> (xair_module, xair_value_id) xop" where
  "xair_build_unary al b oc t s nm m =
     (if \<not> valid_value m s then (Err XAIR_ERR_BAD_ARG, m)
      else add_op al b oc t [s] 0 XAIR_ENDIAN_LE nm m)"

definition xair_build_binary ::
  "allocator \<Rightarrow> xair_block_id \<Rightarrow> xair_opcode \<Rightarrow> xair_type \<Rightarrow> xair_value_id \<Rightarrow> xair_value_id \<Rightarrow> string
     \<Rightarrow> (xair_module, xair_value_id) xop" where
  "xair_build_binary al b oc t lhs rhs nm m =
     (if \<not> valid_value m lhs \<or> \<not> valid_value m rhs then (Err XAIR_ERR_BAD_ARG, m)
      else add_op al b oc t [lhs, rhs] 0 XAIR_ENDIAN_LE nm m)"

definition xair_build_load ::
  "allocator \<Rightarrow> xair_block_id \<Rightarrow> xair_type \<Rightarrow> xair_value_id \<Rightarrow> xair_value_id \<Rightarrow> xair_endian \<Rightarrow> string
     \<Rightarrow> (xair_module, xair_value_id) xop" where
  "xair_build_load al b t memory address en nm m =
     (if \<not> valid_value m memory \<or> \<not> valid_value m address then (Err XAIR_ERR_BAD_ARG, m)
      else add_op al b XAIR_OP_LOAD t [memory, address] 0 en nm m)"

definition xair_build_store ::
  "allocator \<Rightarrow> xair_block_id \<Rightarrow> xair_value_id \<Rightarrow> xair_value_id \<Rightarrow> xair_value_id \<Rightarrow> xair_endian \<Rightarrow> string
     \<Rightarrow> (xair_module, xair_value_id) xop" where
  "xair_build_store al b memory address data en nm m =
     (if \<not> valid_value m memory \<or> \<not> valid_value m address \<or> \<not> valid_value m data
      then (Err XAIR_ERR_BAD_ARG, m)
      else add_op al b XAIR_OP_STORE (val_type (vals m ! memory)) [memory, address, data] 0 en nm m)"

definition xair_value_type :: "xair_module \<Rightarrow> xair_value_id \<Rightarrow> xair_type" where
  "xair_value_type m v = (if valid_value m v then val_type (vals m ! v) else xair_type_invalid)"

section \<open>Terminators\<close>

definition append_term_args :: "allocator \<Rightarrow> xair_value_id list \<Rightarrow> (xair_module, nat) xop" where
  "append_term_args al args m =
     (if args = [] then (Ok (length (term_args m)), m)
      else case grow_array al Site_term_args sizeof_id (term_arg_cap m)
                  (length (term_args m) + length args) of
        Err e \<Rightarrow> (Err e, m)
      | Ok cap \<Rightarrow>
          (Ok (length (term_args m)), m\<lparr>term_arg_cap := cap, term_args := term_args m @ args\<rparr>))"

text \<open>The guard that \<open>set_term\<close> and every public terminator operation begin with.\<close>

definition can_terminate :: "xair_module \<Rightarrow> xair_block_id \<Rightarrow> bool" where
  "can_terminate m b \<longleftrightarrow>
     \<not> frozen m \<and> valid_block m b \<and> term_kind (blk_term (blocks m ! b)) = XAIR_TERM_NONE"

definition set_term :: "xair_block_id \<Rightarrow> xair_term_rec \<Rightarrow> (xair_module, unit) xop" where
  "set_term b t m =
     (if \<not> can_terminate m b then (Err XAIR_ERR_BAD_ARG, m)
      else (Ok (), m\<lparr>blocks := (blocks m)[b := (blocks m ! b)\<lparr>blk_term := t\<rparr>]\<rparr>))"

definition xair_set_jump ::
  "allocator \<Rightarrow> xair_block_id \<Rightarrow> xair_block_id \<Rightarrow> xair_value_id list \<Rightarrow> (xair_module, unit) xop" where
  "xair_set_jump al b target args m =
     (if \<not> can_terminate m b \<or> \<not> valid_block m target then (Err XAIR_ERR_BAD_ARG, m)
      else xbind (append_term_args al args)
        (\<lambda>off. set_term b (empty_term\<lparr>term_kind := XAIR_TERM_JUMP, true_target := target,
                             true_arg_offset := off, true_arg_count := length args\<rparr>)) m)"

definition xair_set_cbranch ::
  "allocator \<Rightarrow> xair_block_id \<Rightarrow> xair_value_id \<Rightarrow> xair_block_id \<Rightarrow> xair_value_id list
     \<Rightarrow> xair_block_id \<Rightarrow> xair_value_id list \<Rightarrow> (xair_module, unit) xop" where
  "xair_set_cbranch al b cond tt targs ft fargs m =
     (if \<not> can_terminate m b \<or> \<not> valid_value m cond \<or> \<not> valid_block m tt \<or> \<not> valid_block m ft
      then (Err XAIR_ERR_BAD_ARG, m)
      else xbind (append_term_args al targs) (\<lambda>toff.
           xbind (append_term_args al fargs) (\<lambda>foff.
             set_term b (empty_term\<lparr>term_kind := XAIR_TERM_CBRANCH, condition := cond,
               true_target := tt, false_target := ft,
               true_arg_offset := toff, true_arg_count := length targs,
               false_arg_offset := foff, false_arg_count := length fargs\<rparr>))) m)"

definition xair_set_return ::
  "allocator \<Rightarrow> xair_block_id \<Rightarrow> xair_value_id list \<Rightarrow> (xair_module, unit) xop" where
  "xair_set_return al b rets m =
     (if \<not> can_terminate m b then (Err XAIR_ERR_BAD_ARG, m)
      else xbind (append_term_args al rets)
        (\<lambda>off. set_term b (empty_term\<lparr>term_kind := XAIR_TERM_RETURN,
                             true_arg_offset := off, true_arg_count := length rets\<rparr>)) m)"

definition xair_set_trap :: "xair_block_id \<Rightarrow> nat \<Rightarrow> (xair_module, unit) xop" where
  "xair_set_trap b c m =
     (if \<not> can_terminate m b then (Err XAIR_ERR_BAD_ARG, m)
      else set_term b (empty_term\<lparr>term_kind := XAIR_TERM_TRAP, code := c\<rparr>) m)"

definition xair_set_fault :: "xair_block_id \<Rightarrow> nat \<Rightarrow> (xair_module, unit) xop" where
  "xair_set_fault b c m =
     (if \<not> can_terminate m b then (Err XAIR_ERR_BAD_ARG, m)
      else set_term b (empty_term\<lparr>term_kind := XAIR_TERM_FAULT, code := c\<rparr>) m)"

section \<open>Freezing\<close>

definition finalize_block_storage ::
  "allocator \<Rightarrow> xair_block_id \<Rightarrow> xair_block_rec \<Rightarrow> unit xres \<times> xair_block_rec" where
  "finalize_block_storage al b bb =
     (case shrink_array al (Site_params b) sizeof_id (param_cap bb) (length (params bb)) of
        Err e \<Rightarrow> (Err e, bb)
      | Ok cap \<Rightarrow>
          (let bb1 = bb\<lparr>param_cap := cap\<rparr>
           in case shrink_array al (Site_block_ops b) sizeof_id (blk_op_cap bb1) (length (blk_ops bb1)) of
                Err e \<Rightarrow> (Err e, bb1)
              | Ok cap' \<Rightarrow> (Ok (), bb1\<lparr>blk_op_cap := cap'\<rparr>)))"

fun finalize_blocks :: "allocator \<Rightarrow> nat \<Rightarrow> xair_block_rec list \<Rightarrow> unit xres \<times> xair_block_rec list" where
  "finalize_blocks al i [] = (Ok (), [])"
| "finalize_blocks al i (bb # bbs) =
     (case finalize_block_storage al i bb of
        (Err e, bb') \<Rightarrow> (Err e, bb' # bbs)
      | (Ok _, bb') \<Rightarrow>
          (case finalize_blocks al (i + 1) bbs of (r, bbs') \<Rightarrow> (r, bb' # bbs')))"

definition finalize_module_storage :: "allocator \<Rightarrow> (xair_module, unit) xop" where
  "finalize_module_storage al m =
     (case finalize_blocks al 0 (blocks m) of
        (Err e, bbs) \<Rightarrow> (Err e, m\<lparr>blocks := bbs\<rparr>)
      | (Ok _, bbs) \<Rightarrow>
        (let m1 = m\<lparr>blocks := bbs\<rparr>
         in case shrink_array al Site_term_args sizeof_id (term_arg_cap m1) (length (term_args m1)) of
          Err e \<Rightarrow> (Err e, m1)
        | Ok c1 \<Rightarrow>
        (let m2 = m1\<lparr>term_arg_cap := c1\<rparr>
         in case shrink_array al Site_values sizeof_value (value_cap m2) (length (vals m2)) of
          Err e \<Rightarrow> (Err e, m2)
        | Ok c2 \<Rightarrow>
        (let m3 = m2\<lparr>value_cap := c2\<rparr>
         in case shrink_array al Site_ops sizeof_op (op_cap m3) (length (ops m3)) of
          Err e \<Rightarrow> (Err e, m3)
        | Ok c3 \<Rightarrow>
        (let m4 = m3\<lparr>op_cap := c3\<rparr>
         in case shrink_array al Site_blocks sizeof_block (block_cap m4) (length (blocks m4)) of
          Err e \<Rightarrow> (Err e, m4)
        | Ok c4 \<Rightarrow> (Ok (), value_number_clear (m4\<lparr>block_cap := c4\<rparr>)))))))"

definition xair_module_freeze :: "allocator \<Rightarrow> (xair_module, unit) xop" where
  "xair_module_freeze al m =
     (if frozen m then (Err XAIR_ERR_BAD_ARG, m)
      else case finalize_module_storage al m of
        (Err e, m1) \<Rightarrow> (Err e, m1)
      | (Ok _, m1) \<Rightarrow> (Ok (), m1\<lparr>frozen := True\<rparr>))"

text \<open>A builder owns a module until it is frozen; \<open>None\<close> is the builder whose module was taken.\<close>

type_synonym xair_builder = "xair_module option"

definition xair_builder_create :: "allocator \<Rightarrow> xair_builder xres" where
  "xair_builder_create al =
     (if \<not> al Site_builder sizeof_builder then Err XAIR_ERR_OOM
      else case xair_module_create al of
        Err e \<Rightarrow> Err e
      | Ok m \<Rightarrow> Ok (Some m))"

definition xair_builder_freeze :: "allocator \<Rightarrow> xair_builder \<Rightarrow> xair_module xres \<times> xair_builder" where
  "xair_builder_freeze al bld =
     (case bld of
        None \<Rightarrow> (Err XAIR_ERR_BAD_ARG, None)
      | Some m \<Rightarrow>
          (case xair_module_freeze al m of
             (Err e, m1) \<Rightarrow> (Err e, Some m1)
           | (Ok _, m1) \<Rightarrow> (Ok m1, None)))"

end
