(* ===== verification/Xair_Numbering.thy ===== *)
theory Xair_Numbering
  imports Xair_Module
begin

text \<open>
  The value-numbering table of \<^verbatim>\<open>src/src/xair.c\<close> (\<open>value_number_lookup\<close>, \<open>value_number_grow\<close>,
  \<open>value_number_prepare_insert\<close>, \<open>value_number_insert\<close>) as an open-addressing hash table with linear
  probing. The invariant \<open>tab_inv\<close> says that the capacity is a power of two and that every entry is
  reached from its home slot over used slots; \<open>tab_entries\<close> is the set of (hash, value) pairs a table
  stands for. The locale \<open>value_table\<close> states what the builder relies on; its interpretation \<open>vtab\<close>
  discharges the laws for the functions of the model.
\<close>

section \<open>Invariant and abstraction of a table\<close>

definition tab_shape :: "xair_value_number_entry list \<Rightarrow> bool" where
  "tab_shape tab \<longleftrightarrow> (\<exists>k<64. length tab = 2 ^ k)"

definition slot :: "xair_value_number_entry list \<Rightarrow> u64 \<Rightarrow> nat \<Rightarrow> nat" where
  "slot tab h d = (unat h + d) mod length tab"

definition tab_inv :: "xair_value_number_entry list \<Rightarrow> bool" where
  "tab_inv tab \<longleftrightarrow> tab_shape tab \<and>
     (\<forall>i<length tab. vn_used (tab ! i) \<longrightarrow>
        (\<exists>d<length tab. i = slot tab (vn_hash (tab ! i)) d \<and>
            (\<forall>d'<d. vn_used (tab ! slot tab (vn_hash (tab ! i)) d'))))"

definition tab_entries :: "xair_value_number_entry list \<Rightarrow> (u64 \<times> xair_value_id) set" where
  "tab_entries tab = {(vn_hash e, vn_value e) |e. e \<in> set tab \<and> vn_used e}"

definition used_count :: "xair_value_number_entry list \<Rightarrow> nat" where
  "used_count tab = length (filter vn_used tab)"

fun tab_probe :: "xair_value_number_entry list \<Rightarrow> (xair_value_id \<Rightarrow> bool) \<Rightarrow> u64 \<Rightarrow> nat \<Rightarrow> nat
    \<Rightarrow> xair_value_id option" where
  "tab_probe tab P h index 0 = None"
| "tab_probe tab P h index (Suc left) =
     (if \<not> vn_used (tab ! index) then None
      else if vn_hash (tab ! index) = h \<and> P (vn_value (tab ! index)) then Some (vn_value (tab ! index))
      else tab_probe tab P h ((index + 1) AND (length tab - 1)) left)"

definition tab_find :: "xair_value_number_entry list \<Rightarrow> (xair_value_id \<Rightarrow> bool) \<Rightarrow> u64
    \<Rightarrow> xair_value_id option" where
  "tab_find tab P h = tab_probe tab P h (vn_home h (length tab)) (length tab)"

definition tab_insert :: "u64 \<Rightarrow> xair_value_id \<Rightarrow> xair_value_number_entry list
    \<Rightarrow> xair_value_number_entry list" where
  "tab_insert h v tab = vn_place \<lparr>vn_hash = h, vn_value = v, vn_used = True\<rparr> tab"

definition tab_room :: "xair_value_number_entry list \<Rightarrow> bool" where
  "tab_room tab \<longleftrightarrow> used_count tab < length tab"

section \<open>Probe sequences\<close>

lemma and_pow2_mod: "(n::nat) AND (2 ^ k - 1) = n mod 2 ^ k"
  by (metis mask_eq_exp_minus_1 take_bit_eq_mask take_bit_eq_mod)

lemma tab_shape_step: "tab_shape tab \<Longrightarrow> n AND (length tab - 1) = n mod length tab"
  by (auto simp: tab_shape_def and_pow2_mod simp del: One_nat_def)

lemma vn_home_slot: "tab_shape tab \<Longrightarrow> vn_home h (length tab) = slot tab h 0"
proof -
  assume "tab_shape tab"
  then obtain k where k: "k < 64" "length tab = 2 ^ k" by (auto simp: tab_shape_def)
  have "(of_nat (2 ^ k - 1) :: u64) = mask k"
    by (simp add: mask_eq_exp_minus_1 of_nat_diff)
  then have "unat (h AND of_nat (2 ^ k - 1)) = unat (take_bit k h)"
    by (simp add: take_bit_eq_mask)
  also have "\<dots> = unat h mod 2 ^ k" unfolding unsigned_take_bit_eq by (rule take_bit_eq_mod)
  finally show ?thesis by (simp add: vn_home_def slot_def k)
qed

lemma slot_step: "tab_shape tab \<Longrightarrow> (slot tab h d + 1) AND (length tab - 1) = slot tab h (Suc d)"
  unfolding tab_shape_step slot_def by (simp add: mod_Suc_eq)

lemma slot_less: "tab_shape tab \<Longrightarrow> slot tab h d < length tab"
  by (auto simp: tab_shape_def slot_def)

lemma slot_surj:
  assumes "tab_shape tab" "i < length tab"
  shows "\<exists>d<length tab. slot tab h d = i"
proof -
  let ?c = "length tab"
  have c: "0 < ?c" using assms by (cases tab) auto
  let ?u = "unat h mod ?c"
  have u: "?u < ?c" using c by simp
  define d where "d = (if ?u \<le> i then i - ?u else ?c - ?u + i)"
  have "(?u + d) mod ?c = i" "d < ?c"
    using assms u by (auto simp: d_def)
  then show ?thesis by (metis mod_add_left_eq slot_def)
qed

lemma vn_probe_eq:
  "fst (vn_probe m h k i n c) = tab_probe (value_numbers m) (\<lambda>v. value_number_matches m v k) h i n"
  by (induction m h k i n c rule: vn_probe.induct) (auto simp: Let_def)

lemma tab_probe_Some:
  "tab_shape tab \<Longrightarrow> i < length tab \<Longrightarrow> tab_probe tab P h i n = Some v \<Longrightarrow> (h, v) \<in> tab_entries tab \<and> P v"
proof (induction n arbitrary: i)
  case (Suc n)
  have "(i + 1) AND (length tab - 1) < length tab"
    unfolding tab_shape_step [OF Suc.prems(1)] using Suc.prems(2) by (intro mod_less_divisor) linarith
  with Suc show ?case
    by (fastforce simp: tab_entries_def split: if_splits)
qed simp

lemma tab_probe_None:
  assumes "tab_shape tab" "tab_probe tab P h (slot tab h d) n = None" "d \<le> d'" "d' < d + n"
    "\<forall>e. d \<le> e \<and> e \<le> d' \<longrightarrow> vn_used (tab ! slot tab h e)"
    "vn_hash (tab ! slot tab h d') = h"
  shows "\<not> P (vn_value (tab ! slot tab h d'))"
  using assms
proof (induction n arbitrary: d)
  case (Suc n)
  show ?case
  proof (cases "d' = d")
    case True
    with Suc show ?thesis by (auto split: if_splits)
  next
    case False
    have "vn_used (tab ! slot tab h d)" using Suc.prems by auto
    then have "tab_probe tab P h (slot tab h (Suc d)) n = None"
      using Suc.prems slot_step [OF Suc.prems(1)] by (auto split: if_splits)
    then show ?thesis
      using Suc.prems False by (intro Suc.IH [of "Suc d"]) auto
  qed
qed simp

section \<open>Finding a free slot and placing an entry\<close>

lemma vn_free_slot_Some:
  "tab_shape tab \<Longrightarrow> vn_free_slot tab (slot tab h d) n = Some i \<Longrightarrow>
     \<exists>d'. d \<le> d' \<and> d' < d + n \<and> i = slot tab h d' \<and> \<not> vn_used (tab ! i) \<and>
       (\<forall>e. d \<le> e \<and> e < d' \<longrightarrow> vn_used (tab ! slot tab h e))"
proof (induction n arbitrary: d)
  case (Suc n)
  show ?case
  proof (cases "vn_used (tab ! slot tab h d)")
    case True
    with Suc.prems slot_step [OF Suc.prems(1), of h d]
    have "vn_free_slot tab (slot tab h (Suc d)) n = Some i" by simp
    from Suc.IH [OF Suc.prems(1) this] obtain d' where
      d': "Suc d \<le> d'" "d' < Suc d + n" "i = slot tab h d'" "\<not> vn_used (tab ! i)"
      and e: "\<forall>e. Suc d \<le> e \<and> e < d' \<longrightarrow> vn_used (tab ! slot tab h e)" by blast
    have "\<forall>e. d \<le> e \<and> e < d' \<longrightarrow> vn_used (tab ! slot tab h e)"
      using e True by (metis Suc_leI le_neq_implies_less)
    with d' show ?thesis by (intro exI [of _ d']) simp
  next
    case False
    with Suc.prems show ?thesis by (intro exI [of _ d]) auto
  qed
qed simp

lemma vn_free_slot_None:
  "tab_shape tab \<Longrightarrow> vn_free_slot tab (slot tab h d) n = None \<Longrightarrow> d \<le> e \<Longrightarrow> e < d + n \<Longrightarrow>
     vn_used (tab ! slot tab h e)"
proof (induction n arbitrary: d)
  case (Suc n)
  then have "vn_used (tab ! slot tab h d)" by (auto split: if_splits)
  with Suc slot_step [OF Suc.prems(1), of h d] show ?case
    by (cases "e = d") auto
qed simp

lemma used_count_full: "used_count tab = length tab \<longleftrightarrow> (\<forall>i<length tab. vn_used (tab ! i))"
  unfolding used_count_def by (metis all_set_conv_all_nth filter_id_conv length_filter_less nat_neq_iff)

lemma tab_room_slot: "tab_room tab \<Longrightarrow> \<exists>i<length tab. \<not> vn_used (tab ! i)"
  using used_count_full [of tab] by (auto simp: tab_room_def)

text \<open>The search for a free slot ends: enough probes for every table with room.\<close>

lemma vn_free_slot_ends:
  assumes "tab_shape tab" "tab_room tab"
  shows "\<exists>i. vn_free_slot tab (vn_home h (length tab)) (length tab) = Some i"
proof (rule ccontr)
  assume "\<nexists>i. vn_free_slot tab (vn_home h (length tab)) (length tab) = Some i"
  then have none: "vn_free_slot tab (slot tab h 0) (length tab) = None"
    using assms by (simp add: vn_home_slot)
  obtain i where i: "i < length tab" "\<not> vn_used (tab ! i)" using tab_room_slot [OF assms(2)] by blast
  then obtain d where "d < length tab" "slot tab h d = i" using slot_surj [OF assms(1)] by blast
  with vn_free_slot_None [OF assms(1) none, of d] i show False by simp
qed

lemma vn_place_free:
  assumes "tab_shape tab" "tab_room tab"
  obtains d where "d < length tab" "\<not> vn_used (tab ! slot tab (vn_hash e) d)"
    "\<forall>d'<d. vn_used (tab ! slot tab (vn_hash e) d')"
    "vn_place e tab = tab[slot tab (vn_hash e) d := e]"
proof -
  obtain i where i: "vn_free_slot tab (vn_home (vn_hash e) (length tab)) (length tab) = Some i"
    using vn_free_slot_ends [OF assms] by blast
  from vn_free_slot_Some [OF assms(1), of "vn_hash e" 0 "length tab" i] i
  obtain d where "d < length tab" "i = slot tab (vn_hash e) d" "\<not> vn_used (tab ! i)"
    "\<forall>d'<d. vn_used (tab ! slot tab (vn_hash e) d')"
    using vn_home_slot [OF assms(1)] by fastforce
  with i that show thesis by (simp add: vn_place_def)
qed

lemma length_vn_place [simp]: "length (vn_place e tab) = length tab"
  by (simp add: vn_place_def split: option.splits)

lemma slot_update [simp]: "slot (tab[i := e]) h d = slot tab h d"
  by (simp add: slot_def)

lemma tab_inv_update:
  assumes inv: "tab_inv tab" and i: "i = slot tab (vn_hash e) d" "d < length tab"
    and free: "\<not> vn_used (tab ! i)" and e: "vn_used e"
    and path: "\<forall>d'<d. vn_used (tab ! slot tab (vn_hash e) d')"
  shows "tab_inv (tab[i := e])"
proof -
  have shape: "tab_shape tab" using inv by (simp add: tab_inv_def)
  then have il: "i < length tab" using i slot_less by simp
  have mono: "vn_used (tab ! j) \<Longrightarrow> vn_used (tab[i := e] ! j)" for j
    using e il by (cases "j = i") (auto simp: nth_list_update)
  have *: "\<exists>d<length tab. j = slot tab (vn_hash (tab[i := e] ! j)) d \<and>
      (\<forall>d'<d. vn_used (tab[i := e] ! slot tab (vn_hash (tab[i := e] ! j)) d'))"
    if j: "j < length tab" "vn_used (tab[i := e] ! j)" for j
  proof (cases "j = i")
    case True
    then show ?thesis using i path mono il by auto
  next
    case False
    then have "vn_used (tab ! j)" and eq: "tab[i := e] ! j = tab ! j" using j by simp_all
    with inv j obtain d where "d < length tab" "j = slot tab (vn_hash (tab ! j)) d"
      "\<forall>d'<d. vn_used (tab ! slot tab (vn_hash (tab ! j)) d')"
      unfolding tab_inv_def by blast
    then show ?thesis using mono unfolding eq by blast
  qed
  from shape * show ?thesis by (simp add: tab_inv_def tab_shape_def)
qed

lemma filter_update_length:
  "i < length xs \<Longrightarrow> \<not> P (xs ! i) \<Longrightarrow> P x \<Longrightarrow> length (filter P (xs[i := x])) = Suc (length (filter P xs))"
proof (induction xs arbitrary: i)
  case (Cons y ys)
  then show ?case by (cases i) auto
qed simp

lemma used_set_update:
  assumes "i < length xs" "\<not> P (xs ! i)" "P x"
  shows "{y \<in> set (xs[i := x]). P y} = insert x {y \<in> set xs. P y}"
proof -
  have "xs = take i xs @ xs ! i # drop (Suc i) xs" using assms by (simp add: id_take_nth_drop)
  then have "set xs = set (take i xs) \<union> {xs ! i} \<union> set (drop (Suc i) xs)" by (metis Un_insert_right list.simps(15) set_append sup_bot_right insert_is_Un Un_assoc)
  moreover have "set (xs[i := x]) = set (take i xs) \<union> {x} \<union> set (drop (Suc i) xs)"
    using assms by (simp add: upd_conv_take_nth_drop)
  ultimately show ?thesis using assms by auto
qed

lemma vn_place_correct:
  assumes "tab_inv tab" "tab_room tab" "vn_used e"
  shows "tab_inv (vn_place e tab)"
    and "tab_entries (vn_place e tab) = insert (vn_hash e, vn_value e) (tab_entries tab)"
    and "used_count (vn_place e tab) = Suc (used_count tab)"
proof -
  have shape: "tab_shape tab" using assms by (simp add: tab_inv_def)
  obtain d where d: "d < length tab" "\<not> vn_used (tab ! slot tab (vn_hash e) d)"
    "\<forall>d'<d. vn_used (tab ! slot tab (vn_hash e) d')"
    and eq: "vn_place e tab = tab[slot tab (vn_hash e) d := e]"
    using vn_place_free [OF shape assms(2)] .
  have l: "slot tab (vn_hash e) d < length tab" using slot_less [OF shape] .
  show "tab_inv (vn_place e tab)" unfolding eq using assms d by (intro tab_inv_update) auto
  show "used_count (vn_place e tab) = Suc (used_count tab)"
    unfolding eq used_count_def using l d(2) assms(3) by (rule filter_update_length)
  have E: "tab_entries t = (\<lambda>e. (vn_hash e, vn_value e)) ` {e \<in> set t. vn_used e}" for t
    by (auto simp: tab_entries_def)
  show "tab_entries (vn_place e tab) = insert (vn_hash e, vn_value e) (tab_entries tab)"
    unfolding eq E using used_set_update [OF l d(2) assms(3)] by simp
qed

section \<open>The interface of the table\<close>

lemma tab_find_Some:
  "tab_inv tab \<Longrightarrow> tab_find tab P h = Some v \<Longrightarrow> (h, v) \<in> tab_entries tab \<and> P v"
  unfolding tab_find_def tab_inv_def
  by (metis tab_probe_Some slot_less vn_home_slot)

lemma tab_find_None:
  assumes "tab_inv tab" "tab_find tab P h = None" "(h, v) \<in> tab_entries tab"
  shows "\<not> P v"
proof -
  have shape: "tab_shape tab" using assms by (simp add: tab_inv_def)
  from assms(3) obtain i where i: "i < length tab" "vn_used (tab ! i)" "vn_hash (tab ! i) = h"
    "vn_value (tab ! i) = v" by (auto simp: tab_entries_def in_set_conv_nth)
  with assms(1) obtain d where d: "d < length tab" "i = slot tab h d"
    "\<forall>d'<d. vn_used (tab ! slot tab h d')" unfolding tab_inv_def by blast
  have "tab_probe tab P h (slot tab h 0) (length tab) = None"
    using assms(2) shape by (simp add: tab_find_def vn_home_slot)
  from tab_probe_None [OF shape this, of d] show ?thesis
    using d i by (auto simp: le_less)
qed

text \<open>
  What the builder needs of the table: a search finds an entry with the hash that satisfies the
  predicate if there is one, and an insertion adds exactly one entry.
\<close>

locale value_table =
  fixes invar :: "'t \<Rightarrow> bool"
    and room :: "'t \<Rightarrow> bool"
    and entry_set :: "'t \<Rightarrow> (u64 \<times> xair_value_id) set"
    and find :: "'t \<Rightarrow> (xair_value_id \<Rightarrow> bool) \<Rightarrow> u64 \<Rightarrow> xair_value_id option"
    and ins :: "u64 \<Rightarrow> xair_value_id \<Rightarrow> 't \<Rightarrow> 't"
  assumes find_Some: "invar t \<Longrightarrow> find t P h = Some v \<Longrightarrow> (h, v) \<in> entry_set t \<and> P v"
    and find_None: "invar t \<Longrightarrow> find t P h = None \<Longrightarrow> (h, v) \<in> entry_set t \<Longrightarrow> \<not> P v"
    and entries_ins: "invar t \<Longrightarrow> room t \<Longrightarrow> entry_set (ins h v t) = insert (h, v) (entry_set t)"
    and invar_ins: "invar t \<Longrightarrow> room t \<Longrightarrow> invar (ins h v t)"
begin

lemma find_complete:
  assumes "invar t" "(h, v) \<in> entry_set t" "P v"
  shows "\<exists>w. find t P h = Some w \<and> (h, w) \<in> entry_set t \<and> P w"
  using assms find_None [OF assms(1), of P h v] find_Some [OF assms(1), of P h]
  by (cases "find t P h") auto

lemma find_ins_fresh:
  assumes "invar t" "room t" "\<And>w. (h, w) \<in> entry_set t \<Longrightarrow> \<not> P w" "P v"
  shows "find (ins h v t) P h = Some v"
proof -
  obtain w where "find (ins h v t) P h = Some w" "(h, w) \<in> entry_set (ins h v t)" "P w"
    using find_complete [OF invar_ins [OF assms(1,2)], of h v h v P] assms(1,2,4) entries_ins by auto
  with assms show ?thesis by (auto simp: entries_ins)
qed

lemma find_ins_other:
  assumes "invar t" "room t" "\<not> P v"
  shows "find (ins h v t) P h' = None \<longleftrightarrow> find t P h' = None"
proof -
  have "find t' P h' = None \<longleftrightarrow> (\<forall>w. (h', w) \<in> entry_set t' \<longrightarrow> \<not> P w)" if "invar t'" for t'
    using find_None [OF that, of P h'] find_Some [OF that, of P h'] by (cases "find t' P h'") auto
  then show ?thesis using assms by (simp add: invar_ins entries_ins)
qed

end

interpretation vtab: value_table tab_inv tab_room tab_entries tab_find tab_insert
  by unfold_locales
    (auto simp: tab_insert_def vn_place_correct dest: tab_find_Some tab_find_None)


section \<open>The table of a module\<close>

definition vn_inv :: "xair_module \<Rightarrow> bool" where
  "vn_inv m \<longleftrightarrow>
     (value_numbers m = [] \<and> value_number_count m = 0) \<or>
     (tab_inv (value_numbers m) \<and> value_number_count m = used_count (value_numbers m) \<and>
      2 \<le> value_number_cap m \<and> value_number_count m * 2 < value_number_cap m)"

definition vn_set :: "xair_module \<Rightarrow> (u64 \<times> xair_value_id) set" where
  "vn_set m = tab_entries (value_numbers m)"

lemma tab_entries_Nil [simp]: "tab_entries [] = {}"
  by (simp add: tab_entries_def)

lemma fresh_table:
  assumes "k < 64"
  shows "tab_inv (replicate (2 ^ k) empty_entry)" "tab_entries (replicate (2 ^ k) empty_entry) = {}"
    "used_count (replicate (2 ^ k) empty_entry) = 0"
  using assms by (auto simp: tab_inv_def tab_shape_def tab_entries_def used_count_def empty_entry_def)

lemma tab_entries_Cons:
  "tab_entries (e # es) = (if vn_used e then insert (vn_hash e, vn_value e) (tab_entries es) else tab_entries es)"
  by (auto simp: tab_entries_def)

lemma used_count_Cons: "used_count (e # es) = (if vn_used e then Suc (used_count es) else used_count es)"
  by (simp add: used_count_def)

lemma vn_rehash_correct:
  assumes "tab_inv tab" "used_count tab = n" "n + used_count es \<le> length tab"
    "vn_rehash es (tab, n) = (tab', n')"
  shows "tab_inv tab' \<and> length tab' = length tab \<and> used_count tab' = n' \<and> n' = n + used_count es \<and>
    tab_entries tab' = tab_entries tab \<union> tab_entries es"
  using assms
proof (induction es arbitrary: tab n)
  case Nil
  then show ?case by (simp add: used_count_def)
next
  case (Cons e es)
  show ?case
  proof (cases "vn_used e")
    case True
    then have "tab_room tab" using Cons.prems by (auto simp: tab_room_def used_count_Cons)
    note place = vn_place_correct [OF Cons.prems(1) this True]
    from Cons.IH [OF place(1)] Cons.prems True place show ?thesis
      by (simp add: used_count_Cons tab_entries_Cons)
  next
    case False
    with Cons show ?thesis by (simp add: used_count_Cons tab_entries_Cons)
  qed
qed

lemma tab_inv_doubled:
  assumes "tab_shape tab" "2 * length tab \<le> 2 ^ 63"
  shows "\<exists>k<64. 2 * length tab = 2 ^ k"
proof -
  obtain k where k: "length tab = 2 ^ k" using assms by (auto simp: tab_shape_def)
  with assms have "(2::nat) ^ Suc k \<le> 2 ^ 63" by simp
  then have "Suc k \<le> 63" by (rule power_le_imp_le_exp [rotated]) simp
  with k show ?thesis by (intro exI [of _ "Suc k"]) simp
qed

lemma value_number_grow_Ok:
  assumes "value_number_grow al c m = (Ok u, m')" "c = 2 ^ k" "k < 64"
    "used_count (value_numbers m) \<le> c"
  shows "\<exists>tab. m' = m\<lparr>value_numbers := tab, value_number_count := used_count (value_numbers m)\<rparr> \<and>
    tab_inv tab \<and> length tab = c \<and> used_count tab = used_count (value_numbers m) \<and>
    tab_entries tab = tab_entries (value_numbers m)"
  using assms fresh_table [OF assms(3)]
  by (auto simp: value_number_grow_def split: if_splits prod.splits dest!: vn_rehash_correct [rotated 3])

lemma value_number_prepare_insert_Ok:
  assumes inv: "vn_inv m" and ok: "value_number_prepare_insert al m = (Ok u, m')"
  shows "\<exists>tab n. m' = m\<lparr>value_numbers := tab, value_number_count := n\<rparr> \<and> tab_inv tab \<and>
    n = used_count tab \<and> 2 \<le> length tab \<and> (n + 1) * 2 < length tab \<and> tab_entries tab = vn_set m"
proof (cases "value_number_cap m \<noteq> 0 \<and> (value_number_count m + 1) * 2 < value_number_cap m")
  case True
  then have "m' = m" using ok by (simp add: value_number_prepare_insert_def Let_def)
  moreover have "m = m\<lparr>value_numbers := value_numbers m, value_number_count := value_number_count m\<rparr>"
    by simp
  ultimately show ?thesis using True inv unfolding vn_inv_def vn_set_def by (metis list.size(3))
next
  case False
  let ?cap = "value_number_cap m"
  define nxt where "nxt = (if ?cap = 0 then 64 else (?cap * 2) mod 2 ^ 64)"
  from False ok have g: "value_number_grow al nxt m = (Ok u, m')"
    and bound: "?cap \<le> nxt" "nxt \<le> SIZE_MAX div sizeof_entry"
    unfolding value_number_prepare_insert_def Let_def nxt_def [symmetric] by (auto split: if_splits)
  show ?thesis
  proof (cases "?cap = 0")
    case True
    then have 0: "used_count (value_numbers m) = 0" by (simp add: used_count_def)
    from True g have "value_number_grow al 64 m = (Ok u, m')" by (simp add: nxt_def)
    from value_number_grow_Ok [OF this, of 6] 0 obtain tab where
      "m' = m\<lparr>value_numbers := tab, value_number_count := 0\<rparr>" "tab_inv tab" "length tab = 64"
      "used_count tab = 0" "tab_entries tab = vn_set m" by (auto simp: vn_set_def)
    then show ?thesis by (intro exI [of _ tab] exI [of _ "0::nat"]) simp
  next
    case cap: False
    then have vn: "tab_inv (value_numbers m)" "used_count (value_numbers m) * 2 < ?cap" "2 \<le> ?cap"
      using inv unfolding vn_inv_def by auto
    then have shape: "tab_shape (value_numbers m)" by (simp add: tab_inv_def)
    then obtain k where k: "k < 64" "?cap = 2 ^ k" unfolding tab_shape_def by blast
    have "nxt = 2 * ?cap"
    proof (cases "k = 63")
      case True
      then show ?thesis using bound(1) cap k by (simp add: nxt_def)
    next
      case False
      then have "(2::nat) ^ Suc k \<le> 2 ^ 63" using k by (intro power_increasing) auto
      then show ?thesis using k cap by (simp add: nxt_def mult.commute)
    qed
    moreover have "2 * ?cap \<le> 2 ^ 63" using bound \<open>nxt = 2 * ?cap\<close> by simp
    ultimately obtain k' where k': "nxt = 2 ^ k'" "k' < 64"
      using tab_inv_doubled [OF shape] by auto
    from value_number_grow_Ok [OF g k'] vn \<open>nxt = 2 * ?cap\<close> obtain tab where
      "m' = m\<lparr>value_numbers := tab, value_number_count := used_count (value_numbers m)\<rparr>" "tab_inv tab"
      "used_count tab = used_count (value_numbers m)"
      "length tab = 2 * ?cap" "used_count tab * 2 < ?cap" "tab_entries tab = vn_set m"
      by (auto simp: vn_set_def)
    then show ?thesis using vn(3) by (intro exI [of _ tab] exI [of _ "used_count tab"]) simp
  qed
qed

lemma value_number_prepare_insert_Err:
  "value_number_prepare_insert al m = (Err e, m') \<Longrightarrow> m' = m \<and> e = XAIR_ERR_OOM"
  by (auto simp: value_number_prepare_insert_def value_number_grow_def Let_def
      split: if_splits prod.splits)


lemma value_number_lookup_eq:
  "vn_inv m \<Longrightarrow> value_number_lookup m h k = (r, m') \<Longrightarrow>
     r = (if value_numbers m = [] then None
          else tab_find (value_numbers m) (\<lambda>v. value_number_matches m v k) h) \<and>
     (\<exists>s. m' = m\<lparr>value_number_stats := s\<rparr>)"
  using vn_probe_eq [of m h k "vn_home h (value_number_cap m)" "value_number_cap m"
      "collisions (value_number_stats m)"]
  by (auto simp: value_number_lookup_def tab_find_def split: prod.splits option.splits if_splits
      intro: exI [of _ "value_number_stats m"])

lemma value_number_lookup_Some:
  assumes "vn_inv m" "value_number_lookup m h k = (Some v, m')"
  shows "(h, v) \<in> vn_set m \<and> value_number_matches m v k \<and> (\<exists>s. m' = m\<lparr>value_number_stats := s\<rparr>)"
proof -
  from value_number_lookup_eq [OF assms]
  have ne: "value_numbers m \<noteq> []"
    and f: "tab_find (value_numbers m) (\<lambda>v. value_number_matches m v k) h = Some v"
    and s: "\<exists>s. m' = m\<lparr>value_number_stats := s\<rparr>"
    by (auto split: if_splits)
  from ne assms(1) have "tab_inv (value_numbers m)" by (simp add: vn_inv_def)
  from vtab.find_Some [OF this f] s show ?thesis by (simp add: vn_set_def)
qed

lemma value_number_lookup_None:
  assumes "vn_inv m" "value_number_lookup m h k = (None, m')"
  shows "(\<forall>v. (h, v) \<in> vn_set m \<longrightarrow> \<not> value_number_matches m v k) \<and>
    (\<exists>s. m' = m\<lparr>value_number_stats := s\<rparr>)"
proof -
  note eq = value_number_lookup_eq [OF assms]
  have "\<not> value_number_matches m v k" if "(h, v) \<in> vn_set m" for v
  proof -
    from that have ne: "value_numbers m \<noteq> []" by (auto simp: vn_set_def)
    with assms(1) have "tab_inv (value_numbers m)" by (simp add: vn_inv_def)
    from vtab.find_None [OF this, of "\<lambda>v. value_number_matches m v k" h v] eq ne that show ?thesis
      by (simp add: vn_set_def)
  qed
  with eq show ?thesis by blast
qed

lemma value_number_lookup_finds:
  assumes "vn_inv m" "(h, v) \<in> vn_set m" "value_number_matches m v k"
  obtains w m' where "value_number_lookup m h k = (Some w, m')"
  using value_number_lookup_None [OF assms(1), of h k] assms(2,3)
  by (cases "value_number_lookup m h k"; cases "fst (value_number_lookup m h k)") auto

lemma prepared_has_free_slot:
  assumes "vn_inv m" "value_number_prepare_insert al m = (Ok u, m')"
  shows "\<exists>i. vn_free_slot (value_numbers m') (vn_home h (value_number_cap m')) (value_number_cap m') = Some i"
proof -
  obtain tab n where t: "m' = m\<lparr>value_numbers := tab, value_number_count := n\<rparr>" "tab_inv tab"
    "n = used_count tab" "(n + 1) * 2 < length tab"
    using value_number_prepare_insert_Ok [OF assms] by blast
  then have "tab_shape tab" "tab_room tab" by (auto simp: tab_inv_def tab_room_def)
  from vn_free_slot_ends [OF this] t(1) show ?thesis by simp
qed

end
