(* ===== verification/Xair_Builder.thy ===== *)
theory Xair_Builder
  imports Xair_Numbering
begin

text \<open>
  The invariant of a module under construction and that every public builder operation of
  \<^verbatim>\<open>src/src/xair.c\<close> keeps it. \<open>wf_module\<close> relates the arrays: every value is a parameter listed by its
  block or the destination of exactly the operation it names, every operation is listed by its block and
  reads only values made before it, the lists fit their capacities, terminators point into the argument
  array. \<open>vn_exact\<close> says that the value-numbering table holds exactly the operations of the module under
  the hash of their structure, and \<open>sharing\<close> that no two values have the same structure.

  A builder session is a sequence of calls: \<open>run_call\<close> is one call, \<open>built\<close> the modules that calls can
  reach. The last section shows what failing calls and repeated calls do.
\<close>

section \<open>Well-formedness\<close>

definition is_op_value :: "xair_module \<Rightarrow> xair_value_id \<Rightarrow> bool" where
  "is_op_value m v \<longleftrightarrow> v < length (vals m) \<and> val_op (vals m ! v) \<noteq> XAIR_INVALID_ID"

definition op_srcs :: "xair_op_rec \<Rightarrow> xair_value_id list" where
  "op_srcs oper = take (src_count oper) (src oper)"

definition value_wf :: "xair_module \<Rightarrow> xair_value_id \<Rightarrow> bool" where
  "value_wf m v \<longleftrightarrow>
     (let r = vals m ! v
      in val_block r < length (blocks m) \<and> is_value_type (val_type r) \<and>
         (if val_op r = XAIR_INVALID_ID then v \<in> set (params (blocks m ! val_block r))
          else val_op r < length (ops m) \<and> dst (ops m ! val_op r) = v))"

definition op_wf :: "xair_module \<Rightarrow> xair_op_id \<Rightarrow> bool" where
  "op_wf m i \<longleftrightarrow>
     (let oper = ops m ! i
      in dst oper < length (vals m) \<and> val_op (vals m ! dst oper) = i \<and>
         length (src oper) = 3 \<and> src_count oper \<le> 3 \<and>
         (\<forall>s \<in> set (op_srcs oper). s < dst oper) \<and>
         i \<in> set (blk_ops (blocks m ! val_block (vals m ! dst oper))))"

definition block_wf :: "xair_module \<Rightarrow> xair_block_id \<Rightarrow> bool" where
  "block_wf m b \<longleftrightarrow>
     (let bb = blocks m ! b
      in distinct (params bb) \<and> sorted_wrt (<) (blk_ops bb) \<and>
         (\<forall>p \<in> set (params bb). p < length (vals m) \<and> val_block (vals m ! p) = b \<and>
            val_op (vals m ! p) = XAIR_INVALID_ID) \<and>
         (\<forall>i \<in> set (blk_ops bb). i < length (ops m) \<and> val_block (vals m ! dst (ops m ! i)) = b) \<and>
         length (params bb) \<le> param_cap bb \<and> length (blk_ops bb) \<le> blk_op_cap bb)"

definition term_wf :: "xair_module \<Rightarrow> xair_term_rec \<Rightarrow> bool" where
  "term_wf m t \<longleftrightarrow>
     true_arg_offset t + true_arg_count t \<le> length (term_args m) \<and>
     false_arg_offset t + false_arg_count t \<le> length (term_args m) \<and>
     (term_kind t \<in> {XAIR_TERM_JUMP, XAIR_TERM_CBRANCH} \<longrightarrow> true_target t < length (blocks m)) \<and>
     (term_kind t = XAIR_TERM_CBRANCH \<longrightarrow>
        false_target t < length (blocks m) \<and> condition t < length (vals m))"

definition wf_module :: "xair_module \<Rightarrow> bool" where
  "wf_module m \<longleftrightarrow>
     length (vals m) \<le> UINT32_MAX \<and> length (ops m) \<le> UINT32_MAX \<and> length (blocks m) \<le> UINT32_MAX \<and>
     length (vals m) \<le> value_cap m \<and> length (ops m) \<le> op_cap m \<and> length (blocks m) \<le> block_cap m \<and>
     length (term_args m) \<le> term_arg_cap m \<and>
     (\<forall>v < length (vals m). value_wf m v) \<and>
     (\<forall>i < length (ops m). op_wf m i) \<and>
     (\<forall>b < length (blocks m). block_wf m b) \<and>
     (\<forall>b < length (blocks m). term_wf m (blk_term (blocks m ! b)))"

definition key_of :: "xair_module \<Rightarrow> xair_value_id \<Rightarrow> op_key" where
  "key_of m v =
     (let r = vals m ! v; oper = ops m ! val_op r
      in \<lparr>k_block = val_block r, k_opcode = opcode oper, k_type = val_type r,
          k_srcs = op_srcs oper, k_imm = imm oper, k_endian = endian oper\<rparr>)"

definition same_key :: "op_key \<Rightarrow> op_key \<Rightarrow> bool" where
  "same_key k k' \<longleftrightarrow>
     k_opcode k = k_opcode k' \<and> k_type k = k_type k' \<and> k_srcs k = k_srcs k' \<and> k_imm k = k_imm k' \<and>
     k_endian k = k_endian k' \<and> (value_number_is_global (k_opcode k) \<or> k_block k = k_block k')"

definition vn_exact :: "xair_module \<Rightarrow> bool" where
  "vn_exact m \<longleftrightarrow> vn_set m = (\<lambda>v. (value_number_hash (key_of m v), v)) ` {v. is_op_value m v}"

definition sharing :: "xair_module \<Rightarrow> bool" where
  "sharing m \<longleftrightarrow>
     (\<forall>v w. is_op_value m v \<and> is_op_value m w \<and> same_key (key_of m v) (key_of m w) \<longrightarrow> v = w)"

definition module_inv :: "xair_module \<Rightarrow> bool" where
  "module_inv m \<longleftrightarrow> wf_module m \<and> vn_inv m \<and> (\<not> frozen m \<longrightarrow> vn_exact m) \<and> sharing m"

section \<open>Keys\<close>

lemma same_key_hash: "same_key k k' \<Longrightarrow> value_number_hash k = value_number_hash k'"
  by (auto simp: same_key_def value_number_hash_def)

lemma same_key_refl [simp]: "same_key k k"
  by (simp add: same_key_def)

lemma same_key_sym: "same_key k k' \<Longrightarrow> same_key k' k"
  by (auto simp: same_key_def)

lemma same_key_trans: "same_key k k' \<Longrightarrow> same_key k' k'' \<Longrightarrow> same_key k k''"
  by (auto simp: same_key_def)

lemma matches_iff_same_key:
  assumes "wf_module m"
  shows "value_number_matches m v k \<longleftrightarrow> is_op_value m v \<and> same_key (key_of m v) k"
proof (cases "is_op_value m v")
  case True
  then have v: "v < length (vals m)" "val_op (vals m ! v) \<noteq> XAIR_INVALID_ID" by (auto simp: is_op_value_def)
  with assms have o: "val_op (vals m ! v) < length (ops m)"
    by (auto simp: wf_module_def value_wf_def Let_def split: if_splits)
  with assms have "op_wf m (val_op (vals m ! v))" by (simp add: wf_module_def)
  then have l: "length (src (ops m ! val_op (vals m ! v))) = 3"
    "src_count (ops m ! val_op (vals m ! v)) \<le> 3" by (auto simp: op_wf_def Let_def)
  define oper where "oper = ops m ! val_op (vals m ! v)"
  have eq: "src_count oper = length (k_srcs k) \<Longrightarrow>
      (\<forall>i\<in>{0..<length (k_srcs k)}. src oper ! i = k_srcs k ! i) = (op_srcs oper = k_srcs k)"
    unfolding op_srcs_def using l by (intro take_eq_iff_nth) (simp_all add: oper_def)
  have len: "op_srcs oper = k_srcs k \<Longrightarrow> src_count oper = length (k_srcs k)"
    using l by (auto simp: oper_def op_srcs_def dest!: arg_cong [of _ _ length])
  show ?thesis using True v o eq len
    by (auto simp: value_number_matches_def valid_value_def Let_def key_of_def same_key_def
        oper_def [symmetric])
next
  case False
  then show ?thesis
    by (auto simp: value_number_matches_def valid_value_def is_op_value_def Let_def)
qed

lemma vn_exact_find:
  assumes "module_inv m" "\<not> frozen m" "is_op_value m v" "same_key (key_of m v) k"
  obtains m' where "value_number_lookup m (value_number_hash k) k = (Some v, m')"
proof -
  have inv: "wf_module m" "vn_inv m" "vn_exact m" "sharing m" using assms by (auto simp: module_inv_def)
  have "(value_number_hash k, v) \<in> vn_set m"
    using inv assms same_key_hash by (auto simp: vn_exact_def image_iff)
  moreover have "value_number_matches m v k" using assms inv by (simp add: matches_iff_same_key)
  ultimately obtain w m' where w: "value_number_lookup m (value_number_hash k) k = (Some w, m')"
    using value_number_lookup_finds inv by blast
  then have "is_op_value m w" "same_key (key_of m w) k"
    using value_number_lookup_Some [OF inv(2) w] inv by (auto simp: matches_iff_same_key)
  then have "w = v" using inv assms unfolding sharing_def by (meson same_key_sym same_key_trans)
  with w that show thesis by blast
qed

lemma lookup_None_fresh:
  assumes "module_inv m" "\<not> frozen m" "value_number_lookup m (value_number_hash k) k = (None, m')"
    "is_op_value m v"
  shows "\<not> same_key (key_of m v) k"
  using vn_exact_find [OF assms(1,2,4)] assms(3) by (metis option.distinct(1) prod.inject)


section \<open>Adding values and operations\<close>

lemma add_value_cases:
  assumes "add_value al b t nm m = (r, m')"
  obtains (fail) e where "r = Err e" "m' = m"
  | (ok) c where "r = Ok (length (vals m))" "\<not> frozen m" "b < length (blocks m)" "is_value_type t"
      "length (vals m) < UINT32_MAX" "Suc (length (vals m)) \<le> c"
      "m' = m\<lparr>value_cap := c, vals := vals m @ [\<lparr>val_type = t, val_block = b,
          val_op = XAIR_INVALID_ID, val_name = copy_name nm ''v'' (length (vals m))\<rparr>]\<rparr>"
proof (cases "frozen m \<or> \<not> valid_block m b \<or> \<not> is_value_type t \<or> UINT32_MAX \<le> length (vals m)")
  case True
  then obtain e where "r = Err e" "m' = m" using assms by (auto simp: add_value_def split: if_splits)
  then show thesis by (rule that(1))
next
  case False
  show thesis
  proof (cases "grow_array al Site_values sizeof_value (value_cap m) (length (vals m) + 1)")
    case (Ok c)
    show thesis
      by (rule that(2) [of c]) (use False Ok assms grow_array_Ok [OF Ok] in
        \<open>simp_all add: add_value_def Let_def valid_block_def\<close>)
  next
    case (Err e)
    show thesis by (rule that(1) [of e]) (use False Err assms in \<open>simp_all add: add_value_def\<close>)
  qed
qed

lemma append_param_cases:
  assumes "append_param al b v m = (r, m')"
  obtains (fail) e where "r = Err e" "m' = m"
  | (ok) c where "r = Ok ()" "Suc (length (params (blocks m ! b))) \<le> c"
      "m' = m\<lparr>blocks := (blocks m)[b := (blocks m ! b)\<lparr>param_cap := c,
          params := params (blocks m ! b) @ [v]\<rparr>]\<rparr>"
proof (cases "grow_array al (Site_params b) sizeof_id (param_cap (blocks m ! b)) (length (params (blocks m ! b)) + 1)")
  case (Ok c)
  show thesis
    by (rule that(2) [of c]) (use Ok assms grow_array_Ok [OF Ok] in \<open>simp_all add: append_param_def Let_def\<close>)
next
  case (Err e)
  show thesis by (rule that(1) [of e]) (use Err assms in \<open>simp_all add: append_param_def Let_def\<close>)
qed

lemma append_op_cases:
  assumes "append_op al b i m = (r, m')"
  obtains (fail) e where "r = Err e" "m' = m"
  | (ok) c where "r = Ok ()" "Suc (length (blk_ops (blocks m ! b))) \<le> c"
      "m' = m\<lparr>blocks := (blocks m)[b := (blocks m ! b)\<lparr>blk_op_cap := c,
          blk_ops := blk_ops (blocks m ! b) @ [i]\<rparr>]\<rparr>"
proof (cases "grow_array al (Site_block_ops b) sizeof_id (blk_op_cap (blocks m ! b)) (length (blk_ops (blocks m ! b)) + 1)")
  case (Ok c)
  show thesis
    by (rule that(2) [of c]) (use Ok assms grow_array_Ok [OF Ok] in \<open>simp_all add: append_op_def Let_def\<close>)
next
  case (Err e)
  show thesis by (rule that(1) [of e]) (use Err assms in \<open>simp_all add: append_op_def Let_def\<close>)
qed

definition param_added :: "nat \<Rightarrow> nat \<Rightarrow> xair_block_id \<Rightarrow> xair_type \<Rightarrow> string \<Rightarrow> xair_module \<Rightarrow> xair_module" where
  "param_added c c' b t nm m =
     m\<lparr>value_cap := c,
       vals := vals m @ [\<lparr>val_type = t, val_block = b, val_op = XAIR_INVALID_ID,
                         val_name = copy_name nm ''v'' (length (vals m))\<rparr>],
       blocks := (blocks m)[b := (blocks m ! b)\<lparr>param_cap := c',
                              params := params (blocks m ! b) @ [length (vals m)]\<rparr>]\<rparr>"

lemma xair_block_add_param_cases:
  assumes "xair_block_add_param al b t nm m = (r, m')"
  obtains (fail) e where "r = Err e" "m' = m"
  | (rolled_back) e c where "r = Err e" "m' = m\<lparr>value_cap := c\<rparr>" "length (vals m) \<le> c" "\<not> frozen m"
  | (ok) c c' where "r = Ok (length (vals m))" "\<not> frozen m" "b < length (blocks m)" "is_value_type t"
      "length (vals m) < UINT32_MAX" "Suc (length (vals m)) \<le> c"
      "Suc (length (params (blocks m ! b))) \<le> c'"
      "term_kind (blk_term (blocks m ! b)) = XAIR_TERM_NONE"
      "m' = param_added c c' b t nm m"
proof (cases "\<not> valid_block m b \<or> \<not> is_value_type t \<or>
    term_kind (blk_term (blocks m ! b)) \<noteq> XAIR_TERM_NONE")
  case True
  then have "r = Err XAIR_ERR_BAD_ARG" "m' = m"
    using assms by (auto simp: xair_block_add_param_def split: if_splits)
  then show thesis by (rule that(1))
next
  case guard: False
  obtain r1 m1 where a: "add_value al b t nm m = (r1, m1)" by fastforce
  from a show thesis
  proof (cases rule: add_value_cases)
    case (fail e)
    show thesis by (rule that(1) [of e])
        (use fail guard assms a in \<open>simp_all add: xair_block_add_param_def\<close>)
  next
    case v: (ok c)
    obtain r2 m2 where p: "append_param al b (length (vals m)) m1 = (r2, m2)" by fastforce
    from p show thesis
    proof (cases rule: append_param_cases)
      case (fail e)
      show thesis by (rule that(2) [of e c])
          (use fail guard assms a p v in \<open>simp_all add: xair_block_add_param_def\<close>)
    next
      case (ok c')
      show thesis by (rule that(3) [of c c'])
          (use ok guard assms a p v in \<open>simp_all add: xair_block_add_param_def param_added_def\<close>)
    qed
  qed
qed

lemma wf_param_added:
  assumes wf: "wf_module m" and b: "b < length (blocks m)" and t: "is_value_type t"
    and bound: "length (vals m) < UINT32_MAX" "Suc (length (vals m)) \<le> c"
      "Suc (length (params (blocks m ! b))) \<le> c'"
  shows "wf_module (param_added c c' b t nm m)"
proof -
  let ?m = "param_added c c' b t nm m"
  have len: "length (vals ?m) = Suc (length (vals m))" "length (blocks ?m) = length (blocks m)"
    "ops ?m = ops m" "term_args ?m = term_args m"
    by (simp_all add: param_added_def)
  have old: "v < length (vals m) \<Longrightarrow> vals ?m ! v = vals m ! v" for v
    by (simp add: param_added_def nth_append)
  have new: "vals ?m ! length (vals m) = \<lparr>val_type = t, val_block = b, val_op = XAIR_INVALID_ID,
      val_name = copy_name nm ''v'' (length (vals m))\<rparr>"
    by (simp add: param_added_def nth_append)
  have blk: "params (blocks ?m ! c) = (if c = b then params (blocks m ! b) @ [length (vals m)]
        else params (blocks m ! c))"
    "blk_ops (blocks ?m ! c) = blk_ops (blocks m ! c)"
    "blk_term (blocks ?m ! c) = blk_term (blocks m ! c)"
    "blk_op_cap (blocks ?m ! c) = blk_op_cap (blocks m ! c)"
    "param_cap (blocks ?m ! c) = (if c = b then c' else param_cap (blocks m ! c))"
    for c using b by (auto simp: param_added_def nth_list_update)
  have vwf: "value_wf ?m v" if "v < Suc (length (vals m))" for v
  proof (cases "v = length (vals m)")
    case True
    then show ?thesis using b t new blk by (simp add: value_wf_def len)
  next
    case False
    then have "value_wf m v" "v < length (vals m)" using that wf by (auto simp: wf_module_def)
    then show ?thesis using blk by (auto simp: value_wf_def len old Let_def)
  qed
  have owf: "op_wf ?m i" if "i < length (ops m)" for i
  proof -
    have "op_wf m i" using that wf by (simp add: wf_module_def)
    then show ?thesis by (auto simp: op_wf_def len old blk Let_def)
  qed
  have bwf: "block_wf ?m c" if "c < length (blocks m)" for c
  proof -
    have "block_wf m c" using that wf by (simp add: wf_module_def)
    moreover have "dst (ops m ! i) < length (vals m)" if "i < length (ops m)" for i
      using that wf by (auto simp: wf_module_def op_wf_def Let_def)
    ultimately show ?thesis using bound
      by (auto simp: block_wf_def len old new blk Let_def less_Suc_eq)
  qed
  have twf: "term_wf ?m (blk_term (blocks ?m ! c))" if "c < length (blocks m)" for c
    using that wf by (auto simp: wf_module_def term_wf_def len blk)
  show ?thesis using wf bound vwf owf bwf twf
    by (auto simp: wf_module_def len) (simp_all add: param_added_def)
qed


lemma wf_module_cong:
  assumes "wf_module m" "vals m' = vals m" "ops m' = ops m" "blocks m' = blocks m"
    "take (length (term_args m)) (term_args m') = term_args m"
    "length (vals m) \<le> value_cap m'" "length (ops m) \<le> op_cap m'" "length (blocks m) \<le> block_cap m'"
    "length (term_args m') \<le> term_arg_cap m'"
  shows "wf_module m'"
proof -
  have "length (term_args m) \<le> length (term_args m')"
    using assms(5) by (metis length_take min.cobounded1)
  then have "term_wf m t \<Longrightarrow> term_wf m' t" for t
    using assms(2,4) by (auto simp: term_wf_def)
  moreover have "value_wf m' v = value_wf m v" "op_wf m' i = op_wf m i" "block_wf m' b = block_wf m b"
    for v i b using assms(2-4) by (simp_all add: value_wf_def op_wf_def block_wf_def)
  ultimately show ?thesis using assms by (simp add: wf_module_def)
qed

lemma key_of_cong: "vals m' = vals m \<Longrightarrow> ops m' = ops m \<Longrightarrow> key_of m' v = key_of m v"
  by (simp add: key_of_def)

lemma is_op_value_cong: "vals m' = vals m \<Longrightarrow> is_op_value m' v = is_op_value m v"
  by (simp add: is_op_value_def)

lemma sharing_cong: "vals m' = vals m \<Longrightarrow> ops m' = ops m \<Longrightarrow> sharing m' = sharing m"
  by (simp add: sharing_def key_of_cong [of m' m] is_op_value_cong [of m' m])

lemma vn_exact_cong:
  "vals m' = vals m \<Longrightarrow> ops m' = ops m \<Longrightarrow> vn_set m' = vn_set m \<Longrightarrow> vn_exact m' = vn_exact m"
  by (simp add: vn_exact_def key_of_cong [of m' m] is_op_value_cong [of m' m])

lemma module_inv_cong:
  assumes "module_inv m" "vals m' = vals m" "ops m' = ops m" "blocks m' = blocks m"
    "take (length (term_args m)) (term_args m') = term_args m"
    "length (vals m) \<le> value_cap m'" "length (ops m) \<le> op_cap m'" "length (blocks m) \<le> block_cap m'"
    "length (term_args m') \<le> term_arg_cap m'" "vn_inv m'" "vn_set m' = vn_set m" "frozen m' = frozen m"
  shows "module_inv m'"
  using assms wf_module_cong [of m m'] sharing_cong [of m' m] vn_exact_cong [of m' m]
  by (simp add: module_inv_def)

lemma module_inv_param_added:
  assumes "module_inv m" "b < length (blocks m)" "is_value_type t" "length (vals m) < UINT32_MAX"
    "Suc (length (vals m)) \<le> c" "Suc (length (params (blocks m ! b))) \<le> c'"
  shows "module_inv (param_added c c' b t nm m)"
proof -
  let ?m = "param_added c c' b t nm m"
  have io: "is_op_value ?m v = is_op_value m v" for v
    by (auto simp: is_op_value_def param_added_def nth_append)
  have ko: "key_of ?m v = key_of m v" if "is_op_value m v" for v
    using that by (auto simp: is_op_value_def key_of_def param_added_def nth_append)
  have tab: "vn_set ?m = vn_set m" "vn_inv ?m = vn_inv m" "frozen ?m = frozen m"
    by (simp_all add: vn_set_def vn_inv_def param_added_def)
  have "vn_exact ?m = vn_exact m" by (auto simp: vn_exact_def tab io ko)
  moreover have "sharing ?m = sharing m" by (auto simp: sharing_def io ko)
  ultimately show ?thesis using assms wf_param_added [of m b t c c' nm] by (simp add: module_inv_def tab)
qed

definition op_added :: "nat \<Rightarrow> nat \<Rightarrow> nat \<Rightarrow> op_key \<Rightarrow> string \<Rightarrow> xair_module \<Rightarrow> xair_module" where
  "op_added c c' c'' k nm m =
     m\<lparr>value_cap := c, op_cap := c',
       ops := ops m @ [make_op k (length (vals m))],
       vals := vals m @ [\<lparr>val_type = k_type k, val_block = k_block k, val_op = length (ops m),
                         val_name = copy_name nm ''v'' (length (vals m))\<rparr>],
       blocks := (blocks m)[k_block k := (blocks m ! k_block k)\<lparr>blk_op_cap := c'',
                              blk_ops := blk_ops (blocks m ! k_block k) @ [length (ops m)]\<rparr>]\<rparr>"

lemma op_srcs_make_op [simp]: "op_srcs (make_op k v) = k_srcs k"
  by (simp add: op_srcs_def make_op_def)

lemma wf_op_added:
  assumes wf: "wf_module m" and b: "k_block k < length (blocks m)" and t: "is_value_type (k_type k)"
    and srcs: "length (k_srcs k) \<le> 3" "\<forall>s \<in> set (k_srcs k). s < length (vals m)"
    and bound: "length (vals m) < UINT32_MAX" "length (ops m) < UINT32_MAX" "Suc (length (vals m)) \<le> c"
      "Suc (length (ops m)) \<le> c'" "Suc (length (blk_ops (blocks m ! k_block k))) \<le> c''"
  shows "wf_module (op_added c c' c'' k nm m)"
proof -
  let ?m = "op_added c c' c'' k nm m"
  have len: "length (vals ?m) = Suc (length (vals m))" "length (blocks ?m) = length (blocks m)"
    "length (ops ?m) = Suc (length (ops m))" "term_args ?m = term_args m"
    by (simp_all add: op_added_def)
  have oldv: "v < length (vals m) \<Longrightarrow> vals ?m ! v = vals m ! v" for v
    by (simp add: op_added_def nth_append)
  have oldo: "i < length (ops m) \<Longrightarrow> ops ?m ! i = ops m ! i" for i
    by (simp add: op_added_def nth_append)
  have newv: "vals ?m ! length (vals m) = \<lparr>val_type = k_type k, val_block = k_block k,
      val_op = length (ops m), val_name = copy_name nm ''v'' (length (vals m))\<rparr>"
    by (simp add: op_added_def nth_append)
  have newo: "ops ?m ! length (ops m) = make_op k (length (vals m))"
    by (simp add: op_added_def nth_append)
  have blk: "params (blocks ?m ! c) = params (blocks m ! c)"
    "blk_ops (blocks ?m ! c) =
       (if c = k_block k then blk_ops (blocks m ! c) @ [length (ops m)] else blk_ops (blocks m ! c))"
    "blk_term (blocks ?m ! c) = blk_term (blocks m ! c)"
    "param_cap (blocks ?m ! c) = param_cap (blocks m ! c)"
    "blk_op_cap (blocks ?m ! c) = (if c = k_block k then c'' else blk_op_cap (blocks m ! c))"
    for c using b by (auto simp: op_added_def nth_list_update)
  have dstlt: "dst (ops m ! i) < length (vals m)" if "i < length (ops m)" for i
    using that wf by (auto simp: wf_module_def op_wf_def Let_def)
  have vwf: "value_wf ?m v" if "v < Suc (length (vals m))" for v
  proof (cases "v = length (vals m)")
    case True
    then show ?thesis using b t bound by (simp add: value_wf_def len newv newo make_op_def)
  next
    case False
    then have "value_wf m v" "v < length (vals m)" using that wf by (auto simp: wf_module_def)
    then show ?thesis by (auto simp: value_wf_def len oldv oldo blk Let_def)
  qed
  have owf: "op_wf ?m i" if "i < Suc (length (ops m))" for i
  proof (cases "i = length (ops m)")
    case True
    then show ?thesis using b srcs
      by (simp add: op_wf_def len newo newv blk) (simp add: make_op_def newv blk)
  next
    case False
    then have "op_wf m i" "i < length (ops m)" using that wf by (auto simp: wf_module_def)
    then show ?thesis by (auto simp: op_wf_def len oldv oldo blk Let_def)
  qed
  have bwf: "block_wf ?m c" if "c < length (blocks m)" for c
  proof -
    have "block_wf m c" using that wf by (simp add: wf_module_def)
    then show ?thesis using bound dstlt
      by (auto simp: block_wf_def len oldv oldo newv newo blk Let_def less_Suc_eq sorted_wrt_append make_op_def)
  qed
  have twf: "term_wf ?m (blk_term (blocks ?m ! c))" if "c < length (blocks m)" for c
    using that wf by (auto simp: wf_module_def term_wf_def len blk)
  show ?thesis using wf bound vwf owf bwf twf
    by (auto simp: wf_module_def len) (simp_all add: op_added_def)
qed


definition content_eq :: "xair_module \<Rightarrow> xair_module \<Rightarrow> bool" where
  "content_eq m m' \<longleftrightarrow> vals m' = vals m \<and> ops m' = ops m \<and> blocks m' = blocks m \<and>
     term_args m' = term_args m \<and> frozen m' = frozen m"

lemma content_eq_refl [simp]: "content_eq m m"
  by (simp add: content_eq_def)

lemma content_eq_trans: "content_eq m m' \<Longrightarrow> content_eq m' m'' \<Longrightarrow> content_eq m m''"
  by (simp add: content_eq_def)

definition numbered :: "u64 \<Rightarrow> xair_value_number_entry list \<Rightarrow> nat \<Rightarrow> nat \<Rightarrow> nat \<Rightarrow> op_key \<Rightarrow> string
    \<Rightarrow> xair_module \<Rightarrow> xair_module" where
  "numbered h tab c c' c'' k nm m =
     value_number_insert h (length (vals m))
       (op_added c c' c'' k nm (m\<lparr>value_numbers := tab, value_number_count := used_count tab\<rparr>))"

lemma add_fresh_op_cases:
  assumes call: "add_fresh_op al k h nm m = (r, m')" and inv: "module_inv m"
  obtains (fail) e where "r = Err e" "content_eq m m'" "module_inv m'"
  | (ok) tab c c' c'' where "r = Ok (length (vals m))" "\<not> frozen m" "k_block k < length (blocks m)"
      "is_value_type (k_type k)" "length (vals m) < UINT32_MAX" "Suc (length (vals m)) \<le> c"
      "Suc (length (ops m)) \<le> c'" "Suc (length (blk_ops (blocks m ! k_block k))) \<le> c''"
      "tab_inv tab" "2 \<le> length tab" "(used_count tab + 1) * 2 < length tab" "tab_entries tab = vn_set m"
      "m' = numbered h tab c c' c'' k nm m"
proof -
  have caps: "length (vals m) \<le> value_cap m" "length (ops m) \<le> op_cap m" "length (blocks m) \<le> block_cap m"
    "length (term_args m) \<le> term_arg_cap m" and vn: "vn_inv m"
    using inv by (auto simp: module_inv_def wf_module_def)
  obtain r2 m2 where p: "value_number_prepare_insert al m = (r2, m2)" by fastforce
  show thesis
  proof (cases r2)
    case (Err e)
    then have "m2 = m" using value_number_prepare_insert_Err p by blast
    then have "r = Err e" "m' = m" using call p Err by (simp_all add: add_fresh_op_def)
    then show thesis using that(1) [of e] inv by simp
  next
    case (Ok u)
    from value_number_prepare_insert_Ok [OF vn p [unfolded Ok]] obtain tab where
      m2: "m2 = m\<lparr>value_numbers := tab, value_number_count := used_count tab\<rparr>" and
      tab: "tab_inv tab" "2 \<le> length tab" "(used_count tab + 1) * 2 < length tab" "tab_entries tab = vn_set m"
      by blast
    have aux: "module_inv (m2\<lparr>value_cap := c, op_cap := c'\<rparr>)" "content_eq m (m2\<lparr>value_cap := c, op_cap := c'\<rparr>)"
      if "length (vals m) \<le> c" "length (ops m) \<le> c'" for c c'
      using that m2 caps tab
      by (auto simp: vn_inv_def vn_set_def content_eq_def intro!: module_inv_cong [OF inv])
    obtain r3 m3 where a: "add_value al (k_block k) (k_type k) nm m2 = (r3, m3)" by fastforce
    from a show thesis
    proof (cases rule: add_value_cases)
      case (fail e)
      then have "m' = m2" "r = Err e"
        using call p Ok a by (simp_all add: add_fresh_op_def)
      moreover have "m2 = m2\<lparr>value_cap := value_cap m, op_cap := op_cap m\<rparr>" by (simp add: m2)
      ultimately show thesis using that(1) [of e] aux [of "value_cap m" "op_cap m"] caps by simp
    next
      case v: (ok c)
      show thesis
      proof (cases "grow_array al Site_ops sizeof_op (op_cap m3) (length (ops m3) + 1)")
        case (Err e)
        then have "m' = m2\<lparr>value_cap := c\<rparr>" "r = Err e"
          using call p Ok a m2 v by (simp_all add: add_fresh_op_def)
        moreover have "m2\<lparr>value_cap := c\<rparr> = m2\<lparr>value_cap := c, op_cap := op_cap m\<rparr>" by (simp add: m2)
        ultimately show thesis using that(1) [of e] aux [of c "op_cap m"] caps v m2 by simp
      next
        case g: (Ok c')
        then have c': "Suc (length (ops m)) \<le> c'" using grow_array_Ok [OF g] v m2 by simp
        define m4 where "m4 = m3\<lparr>op_cap := c', ops := ops m3 @ [make_op k (length (vals m))],
          vals := (vals m3)[length (vals m) := (vals m3 ! length (vals m))\<lparr>val_op := length (ops m3)\<rparr>]\<rparr>"
        obtain r5 m5 where ao: "append_op al (k_block k) (length (ops m3)) m4 = (r5, m5)" by fastforce
        have body: "(r, m') = (case (r5, m5) of
             (Err e, m5) \<Rightarrow> (Err e, m5\<lparr>ops := butlast (ops m5), vals := butlast (vals m5)\<rparr>)
           | (Ok _, m5) \<Rightarrow> (Ok (length (vals m)), value_number_insert h (length (vals m)) m5))"
          using call p Ok a m2 v g ao by (simp add: add_fresh_op_def m4_def Let_def)
        have m4: "vals m4 = vals m @ [\<lparr>val_type = k_type k, val_block = k_block k, val_op = length (ops m),
            val_name = copy_name nm ''v'' (length (vals m))\<rparr>]"
          using v m2 by (simp add: m4_def)
        from ao show thesis
        proof (cases rule: append_op_cases)
          case (fail e)
          then have "m' = m2\<lparr>value_cap := c, op_cap := c'\<rparr>" "r = Err e"
            using body v m2 by (simp_all add: m4_def)
          then show thesis using that(1) [of e] aux [of c c'] c' v m2 by simp
        next
          case o: (ok c'')
          then have "m' = numbered h tab c c' c'' k nm m" "r = Ok (length (vals m))"
            using body v m2 by (simp_all add: m4_def numbered_def op_added_def)
          then show thesis using that(2) [of c c' c'' tab] tab o v m2 c' by (simp add: m4_def)
        qed
      qed
    qed
  qed
qed


lemma module_inv_numbered:
  assumes inv: "module_inv m" "\<not> frozen m" and b: "k_block k < length (blocks m)"
    and t: "is_value_type (k_type k)"
    and srcs: "length (k_srcs k) \<le> 3" "\<forall>s \<in> set (k_srcs k). s < length (vals m)"
    and bound: "length (vals m) < UINT32_MAX" "length (ops m) < UINT32_MAX" "Suc (length (vals m)) \<le> c"
      "Suc (length (ops m)) \<le> c'" "Suc (length (blk_ops (blocks m ! k_block k))) \<le> c''"
    and tab: "tab_inv tab" "2 \<le> length tab" "(used_count tab + 1) * 2 < length tab"
      "tab_entries tab = vn_set m"
    and fresh: "\<And>v. is_op_value m v \<Longrightarrow> \<not> same_key (key_of m v) k"
  shows "module_inv (numbered (value_number_hash k) tab c c' c'' k nm m)"
    and "key_of (numbered (value_number_hash k) tab c c' c'' k nm m) (length (vals m)) = k"
    and "is_op_value (numbered (value_number_hash k) tab c c' c'' k nm m) (length (vals m))"
proof -
  let ?h = "value_number_hash k"
  let ?m = "numbered ?h tab c c' c'' k nm m"
  let ?v = "length (vals m)"
  have wf: "wf_module m" and ex: "vn_exact m" and sh: "sharing m" using inv by (auto simp: module_inv_def)
  have fields: "vals ?m = vals (op_added c c' c'' k nm m)" "ops ?m = ops (op_added c c' c'' k nm m)"
    "blocks ?m = blocks (op_added c c' c'' k nm m)" "term_args ?m = term_args m" "frozen ?m = frozen m"
    "value_cap ?m = c" "op_cap ?m = c'" "block_cap ?m = block_cap m" "term_arg_cap ?m = term_arg_cap m"
    by (simp_all add: numbered_def op_added_def value_number_insert_def)
  have "wf_module (op_added c c' c'' k nm m)" using wf b t srcs bound by (rule wf_op_added)
  then have wf': "wf_module ?m"
    by (rule wf_module_cong) (use wf bound in \<open>simp_all add: fields, simp_all add: op_added_def wf_module_def\<close>)
  have io: "is_op_value ?m v = (v = ?v \<or> is_op_value m v)" for v
    using bound by (auto simp: is_op_value_def fields op_added_def nth_append)
  have ko: "key_of ?m v = key_of m v" if "is_op_value m v" for v
  proof -
    have "v < ?v" "val_op (vals m ! v) < length (ops m)"
      using that wf by (auto simp: is_op_value_def wf_module_def value_wf_def Let_def split: if_splits)
    then show ?thesis by (simp add: key_of_def fields op_added_def nth_append)
  qed
  have kn: "key_of ?m ?v = k"
    using op_srcs_make_op [of k ?v] by (simp add: key_of_def fields op_added_def nth_append) (simp add: make_op_def)
  have room: "tab_room tab" using tab by (simp add: tab_room_def)
  have tabs: "value_numbers ?m = tab_insert ?h ?v tab" "value_number_count ?m = Suc (used_count tab)"
    by (simp_all add: numbered_def op_added_def value_number_insert_def tab_insert_def)
  have vn: "vn_inv ?m" unfolding vn_inv_def tabs
    using tab vtab.invar_ins [OF tab(1) room, of ?h ?v] vn_place_correct(3) [OF tab(1) room]
    by (simp add: tab_insert_def)
  have "vn_set ?m = insert (?h, ?v) (vn_set m)"
    unfolding vn_set_def [of ?m] tabs using vtab.entries_ins [OF tab(1) room] tab(4) by simp
  then have ex': "vn_exact ?m" using ex ko unfolding vn_exact_def io by (auto simp: kn image_iff)
  have sh': "sharing ?m" unfolding sharing_def
  proof (intro allI impI, elim conjE)
    fix v w assume "is_op_value ?m v" "is_op_value ?m w" "same_key (key_of ?m v) (key_of ?m w)"
    then show "v = w" using sh fresh [of v] fresh [of w] ko [of v] ko [of w] kn same_key_sym
      unfolding io sharing_def by metis
  qed
  show "module_inv ?m" using wf' vn ex' sh' by (simp add: module_inv_def)
  show "key_of ?m ?v = k" by (rule kn)
  show "is_op_value ?m ?v" by (simp add: io)
qed

lemma lookup_stats_inv:
  assumes "module_inv m" "m' = m\<lparr>value_number_stats := s\<rparr>"
  shows "module_inv m'" "content_eq m m'"
proof -
  have "vn_inv m" "length (vals m) \<le> value_cap m" "length (ops m) \<le> op_cap m"
    "length (blocks m) \<le> block_cap m" "length (term_args m) \<le> term_arg_cap m"
    using assms(1) by (auto simp: module_inv_def wf_module_def)
  then show "module_inv m'"
    by (intro module_inv_cong [OF assms(1)]) (simp_all add: assms(2) vn_inv_def vn_set_def)
  show "content_eq m m'" by (simp add: content_eq_def assms(2))
qed

text \<open>The contract of \<open>add_op\<close>: failure keeps the content, success returns the value with the key.\<close>

lemma add_op_cases:
  assumes call: "add_op al b oc t srcs im en nm m = (r, m')" and inv: "module_inv m"
    and srcs: "\<forall>s \<in> set srcs. s < length (vals m)"
  defines "k \<equiv> \<lparr>k_block = b, k_opcode = oc, k_type = t, k_srcs = srcs, k_imm = im, k_endian = en\<rparr>"
  obtains (fail) e where "r = Err e" "content_eq m m'" "module_inv m'"
  | (reuse) v where "r = Ok v" "\<not> frozen m" "is_op_value m v" "same_key (key_of m v) k" "content_eq m m'"
      "module_inv m'"
  | (fresh) s tab c c' c'' where "r = Ok (length (vals m))" "\<not> frozen m"
      "\<And>v. is_op_value m v \<Longrightarrow> \<not> same_key (key_of m v) k"
      "m' = numbered (value_number_hash k) tab c c' c'' k nm (m\<lparr>value_number_stats := s\<rparr>)"
      "b < length (blocks m)"
      "module_inv m'" "is_op_value m' (length (vals m))" "key_of m' (length (vals m)) = k"
proof (cases "frozen m \<or> \<not> valid_block m b \<or> length srcs > 3 \<or>
    term_kind (blk_term (blocks m ! b)) \<noteq> XAIR_TERM_NONE \<or> length (ops m) \<ge> UINT32_MAX")
  case True
  then obtain e where "r = Err e" "m' = m" using call by (auto simp: add_op_def split: if_splits)
  then show thesis using that(1) inv by simp
next
  case guard: False
  have wf: "wf_module m" and vn: "vn_inv m" using inv by (auto simp: module_inv_def)
  obtain q m1 where l: "value_number_lookup m (value_number_hash k) k = (q, m1)" by fastforce
  show thesis
  proof (cases q)
    case (Some v)
    with l value_number_lookup_Some [OF vn] obtain s where
      *: "value_number_matches m v k" "m1 = m\<lparr>value_number_stats := s\<rparr>" by blast
    moreover have "r = Ok v" "m' = m1" using call guard l Some by (simp_all add: add_op_def k_def Let_def)
    ultimately show thesis
      using that(2) [of v] lookup_stats_inv [OF inv] guard wf by (simp add: matches_iff_same_key)
  next
    case None
    with l value_number_lookup_None [OF vn] obtain s where m1: "m1 = m\<lparr>value_number_stats := s\<rparr>" by blast
    note inv1 = lookup_stats_inv [OF inv m1]
    have new: "\<not> same_key (key_of m v) k" if "is_op_value m v" for v
      using lookup_None_fresh [OF inv _ l [unfolded None] that] guard by simp
    have f: "add_fresh_op al k (value_number_hash k) nm m1 = (r, m')"
      using call guard l None by (simp add: add_op_def k_def Let_def)
    from f inv1(1) show thesis
    proof (cases rule: add_fresh_op_cases)
      case (fail e)
      then show thesis using that(1) inv1 content_eq_trans by blast
    next
      case (ok tab c c' c'')
      have "module_inv m'" "key_of m' (length (vals m)) = k" "is_op_value m' (length (vals m))"
        using module_inv_numbered [OF inv1(1), of k c c' c'' tab nm] ok guard srcs new m1
        by (simp_all add: k_def valid_block_def key_of_def is_op_value_def)
      then show thesis using that(3) [of tab c c' c'' s] ok m1 new guard by (simp add: valid_block_def)
    qed
  qed
qed


section \<open>Sequences of builder calls\<close>

datatype builder_call =
    Block_create string
  | Block_add_param xair_block_id xair_type string
  | Build_const xair_block_id xair_type u64 string
  | Build_unary xair_block_id xair_opcode xair_type xair_value_id string
  | Build_binary xair_block_id xair_opcode xair_type xair_value_id xair_value_id string
  | Build_load xair_block_id xair_type xair_value_id xair_value_id xair_endian string
  | Build_store xair_block_id xair_value_id xair_value_id xair_value_id xair_endian string
  | Set_jump xair_block_id xair_block_id "xair_value_id list"
  | Set_cbranch xair_block_id xair_value_id xair_block_id "xair_value_id list" xair_block_id
      "xair_value_id list"
  | Set_return xair_block_id "xair_value_id list"
  | Set_trap xair_block_id nat
  | Set_fault xair_block_id nat
  | Freeze

definition no_result :: "unit xres \<times> 's \<Rightarrow> nat xres \<times> 's" where
  "no_result p = (case p of (Ok _, s) \<Rightarrow> (Ok 0, s) | (Err e, s) \<Rightarrow> (Err e, s))"

fun run_call :: "allocator \<Rightarrow> builder_call \<Rightarrow> (xair_module, nat) xop" where
  "run_call al (Block_create nm) m = xair_block_create al nm m"
| "run_call al (Block_add_param b t nm) m = xair_block_add_param al b t nm m"
| "run_call al (Build_const b t v nm) m = xair_build_const_u64 al b t v nm m"
| "run_call al (Build_unary b oc t s nm) m = xair_build_unary al b oc t s nm m"
| "run_call al (Build_binary b oc t l r nm) m = xair_build_binary al b oc t l r nm m"
| "run_call al (Build_load b t mem a en nm) m = xair_build_load al b t mem a en nm m"
| "run_call al (Build_store b mem a d en nm) m = xair_build_store al b mem a d en nm m"
| "run_call al (Set_jump b tgt args) m = no_result (xair_set_jump al b tgt args m)"
| "run_call al (Set_cbranch b c t ta f fa) m = no_result (xair_set_cbranch al b c t ta f fa m)"
| "run_call al (Set_return b args) m = no_result (xair_set_return al b args m)"
| "run_call al (Set_trap b c) m = no_result (xair_set_trap b c m)"
| "run_call al (Set_fault b c) m = no_result (xair_set_fault b c m)"
| "run_call al Freeze m = no_result (xair_module_freeze al m)"

inductive built :: "xair_module \<Rightarrow> bool" where
  create: "built empty_module"
| call: "built m \<Longrightarrow> run_call al c m = (r, m') \<Longrightarrow> built m'"

fun run_calls :: "allocator \<Rightarrow> builder_call list \<Rightarrow> xair_module \<Rightarrow> xair_module" where
  "run_calls al [] m = m"
| "run_calls al (c # cs) m = run_calls al cs (snd (run_call al c m))"

definition visible :: "xair_module \<Rightarrow> xair_value_rec list \<times> xair_op_rec list \<times>
    (string \<times> xair_value_id list \<times> xair_op_id list \<times> xair_term_rec) list \<times> bool" where
  "visible m = (vals m, ops m, map (\<lambda>bb. (blk_name bb, params bb, blk_ops bb, blk_term bb)) (blocks m), frozen m)"

lemma content_eq_visible: "content_eq m m' \<Longrightarrow> visible m' = visible m"
  by (simp add: content_eq_def visible_def)

lemma built_run_calls: "built m \<Longrightarrow> built (run_calls al cs m)"
proof (induction cs arbitrary: m)
  case (Cons c cs)
  then have "built (snd (run_call al c m))" by (metis built.call prod.collapse)
  with Cons show ?case by simp
qed simp

lemma no_result_eq: "no_result p = (r, s) \<longleftrightarrow> (\<exists>q. p = (q, s) \<and> r = (case q of Ok _ \<Rightarrow> Ok 0 | Err e \<Rightarrow> Err e))"
  by (auto simp: no_result_def split: prod.splits xres.splits)

lemma frozen_rejects: "frozen m \<Longrightarrow> run_call al c m = (Err XAIR_ERR_BAD_ARG, m)"
  by (cases c) (auto simp: no_result_def xair_block_create_def xair_block_add_param_def add_value_def
      xair_build_const_u64_def xair_build_unary_def xair_build_binary_def xair_build_load_def
      xair_build_store_def add_op_def xair_set_jump_def xair_set_cbranch_def xair_set_return_def
      xair_set_trap_def xair_set_fault_def can_terminate_def xair_module_freeze_def)

lemma module_inv_create: "module_inv empty_module"
  by (simp add: module_inv_def wf_module_def empty_module_def vn_inv_def vn_exact_def vn_set_def
      sharing_def is_op_value_def)

text \<open>Every builder of an operation is \<open>add_op\<close> behind a guard.\<close>

definition op_call :: "builder_call \<Rightarrow> bool" where
  "op_call c = (case c of Build_const _ _ _ _ \<Rightarrow> True | Build_unary _ _ _ _ _ \<Rightarrow> True
     | Build_binary _ _ _ _ _ _ \<Rightarrow> True | Build_load _ _ _ _ _ _ \<Rightarrow> True
     | Build_store _ _ _ _ _ _ \<Rightarrow> True | _ \<Rightarrow> False)"

lemma op_call_induct:
  assumes "op_call c" "run_call al c m = (r, m')" "P (Err XAIR_ERR_BAD_ARG) m"
    and add: "\<And>b oc t srcs im en nm r m'. add_op al b oc t srcs im en nm m = (r, m') \<Longrightarrow>
       \<forall>s\<in>set srcs. s < length (vals m) \<Longrightarrow> P r m'"
  shows "P r m'"
proof (cases c)
  case (Build_const b t v nm)
  show ?thesis
  proof (cases "\<not> (kind t = XAIR_TYPE_INT \<or> kind t = XAIR_TYPE_ADDR) \<or> bits t > 64")
    case False
    then show ?thesis using assms(2) Build_const
      by (intro add [of b XAIR_OP_CONST_U64 t "[]" v XAIR_ENDIAN_LE nm])
        (auto simp: xair_build_const_u64_def split: if_splits)
  qed (use assms(2,3) Build_const in \<open>auto simp: xair_build_const_u64_def\<close>)
next
  case (Build_unary b oc t s nm)
  with assms(2,3) add [of b oc t "[s]" 0 XAIR_ENDIAN_LE nm r m'] show ?thesis
    by (cases "valid_value m s") (simp_all add: xair_build_unary_def valid_value_def)
next
  case (Build_binary b oc t x y nm)
  with assms(2,3) add [of b oc t "[x, y]" 0 XAIR_ENDIAN_LE nm r m'] show ?thesis
    by (cases "valid_value m x \<and> valid_value m y") (auto simp: xair_build_binary_def valid_value_def)
next
  case (Build_load b t x y en nm)
  with assms(2,3) add [of b XAIR_OP_LOAD t "[x, y]" 0 en nm r m'] show ?thesis
    by (cases "valid_value m x \<and> valid_value m y") (auto simp: xair_build_load_def valid_value_def)
next
  case (Build_store b x y z en nm)
  with assms(2,3) add [of b XAIR_OP_STORE "val_type (vals m ! x)" "[x, y, z]" 0 en nm r m'] show ?thesis
    by (cases "valid_value m x \<and> valid_value m y \<and> valid_value m z")
      (auto simp: xair_build_store_def valid_value_def)
qed (use assms(1) in \<open>simp_all add: op_call_def\<close>)

lemma module_inv_op_call:
  assumes "op_call c" "module_inv m" "run_call al c m = (r, m')"
  shows "module_inv m'"
  using assms(1,3)
proof (rule op_call_induct)
  show "module_inv m" by fact
  fix b oc t srcs im en nm r m'
  assume "add_op al b oc t srcs im en nm m = (r, m')" "\<forall>s\<in>set srcs. s < length (vals m)"
  then show "module_inv m'" by (rule add_op_cases [OF _ assms(2)])
qed

lemma op_call_err:
  assumes "op_call c" "module_inv m" "run_call al c m = (Err e, m')"
  shows "content_eq m m'"
proof -
  have "(\<exists>e'. (Err e :: nat xres) = Err e') \<longrightarrow> content_eq m m'"
    using assms(1,3)
  proof (rule op_call_induct [where P = "\<lambda>r m'. (\<exists>e. r = Err e) \<longrightarrow> content_eq m m'"])
    fix b oc t srcs im en nm r m'
    assume "add_op al b oc t srcs im en nm m = (r, m')" "\<forall>s\<in>set srcs. s < length (vals m)"
    then show "(\<exists>e. r = Err e) \<longrightarrow> content_eq m m'" by (rule add_op_cases [OF _ assms(2)]) simp_all
  qed simp
  then show ?thesis by simp
qed

section \<open>Blocks, terminators and freezing keep the invariant\<close>

lemma xair_block_create_cases:
  assumes "xair_block_create al nm m = (r, m')"
  obtains (fail) e where "r = Err e" "m' = m"
  | (ok) c where "r = Ok (length (blocks m))" "length (blocks m) < UINT32_MAX" "Suc (length (blocks m)) \<le> c"
      "m' = m\<lparr>block_cap := c, blocks := blocks m @ [\<lparr>blk_name = copy_name nm ''bb'' (length (blocks m)),
          params = [], param_cap = 0, blk_ops = [], blk_op_cap = 0, blk_term = empty_term\<rparr>]\<rparr>"
proof (cases "frozen m \<or> UINT32_MAX \<le> length (blocks m)")
  case True
  then obtain e where "r = Err e" "m' = m" using assms by (auto simp: xair_block_create_def split: if_splits)
  then show thesis by (rule that(1))
next
  case False
  show thesis
  proof (cases "grow_array al Site_blocks sizeof_block (block_cap m) (length (blocks m) + 1)")
    case (Ok c)
    show thesis by (rule that(2) [of c]) (use False Ok assms grow_array_Ok [OF Ok] in
        \<open>simp_all add: xair_block_create_def Let_def\<close>)
  next
    case (Err e)
    show thesis by (rule that(1) [of e]) (use False Err assms in \<open>simp_all add: xair_block_create_def\<close>)
  qed
qed

lemma module_inv_block_create:
  assumes "module_inv m" "xair_block_create al nm m = (r, m')"
  shows "module_inv m'"
  using assms(2)
proof (cases rule: xair_block_create_cases)
  case (ok c)
  have wf: "wf_module m" using assms by (simp add: module_inv_def)
  have len: "vals m' = vals m" "ops m' = ops m" "term_args m' = term_args m" "length (blocks m') = Suc (length (blocks m))"
    using ok by simp_all
  have old: "b < length (blocks m) \<Longrightarrow> blocks m' ! b = blocks m ! b" for b using ok by (simp add: nth_append)
  have new: "blocks m' ! length (blocks m) = \<lparr>blk_name = copy_name nm ''bb'' (length (blocks m)),
          params = [], param_cap = 0, blk_ops = [], blk_op_cap = 0, blk_term = empty_term\<rparr>" using ok by (simp add: nth_append)
  have vb: "val_block (vals m ! v) < length (blocks m)" if "v < length (vals m)" for v
    using that wf by (auto simp: wf_module_def value_wf_def Let_def)
  have v: "value_wf m' v" if "v < length (vals m)" for v
    using that wf vb [OF that] by (auto simp: wf_module_def value_wf_def len old Let_def)
  have o: "op_wf m' i" if "i < length (ops m)" for i
    using that wf vb by (auto simp: wf_module_def op_wf_def len old Let_def)
  have b: "block_wf m' b \<and> term_wf m' (blk_term (blocks m' ! b))" if "b < Suc (length (blocks m))" for b
  proof (cases "b = length (blocks m)")
    case True
    then show ?thesis by (simp add: block_wf_def term_wf_def new empty_term_def)
  next
    case False
    then have "b < length (blocks m)" using that by simp
    moreover from this have "block_wf m b" "term_wf m (blk_term (blocks m ! b))" using wf by (auto simp: wf_module_def)
    ultimately show ?thesis by (auto simp: block_wf_def term_wf_def len old)
  qed
  have "wf_module m'" using wf v o b ok by (simp add: wf_module_def)
  moreover have "vn_inv m' = vn_inv m" "vn_exact m' = vn_exact m" "sharing m' = sharing m" "frozen m' = frozen m"
    using len ok sharing_cong [of m' m] vn_exact_cong [of m' m] by (simp_all add: vn_inv_def vn_set_def)
  ultimately show ?thesis using assms by (simp add: module_inv_def)
qed (use assms in simp)

lemma append_term_args_cases:
  assumes "append_term_args al args m = (r, m')"
  obtains (fail) e where "r = Err e" "m' = m"
  | (ok) c where "r = Ok (length (term_args m))" "length (term_args m) + length args \<le> c \<or> args = [] \<and> c = term_arg_cap m"
      "m' = m\<lparr>term_arg_cap := c, term_args := term_args m @ args\<rparr>"
proof (cases "args = []")
  case True
  show thesis by (rule that(2) [of "term_arg_cap m"]) (use True assms in \<open>auto simp: append_term_args_def\<close>)
next
  case False
  show thesis
  proof (cases "grow_array al Site_term_args sizeof_id (term_arg_cap m) (length (term_args m) + length args)")
    case (Ok c)
    show thesis by (rule that(2) [of c]) (use False Ok assms grow_array_Ok [OF Ok] in
        \<open>simp_all add: append_term_args_def\<close>)
  next
    case (Err e)
    show thesis by (rule that(1) [of e]) (use False Err assms in \<open>simp_all add: append_term_args_def\<close>)
  qed
qed


lemma module_inv_term_args:
  assumes "module_inv m" "append_term_args al args m = (r, m')"
  shows "module_inv m'" "vals m' = vals m" "ops m' = ops m" "blocks m' = blocks m" "frozen m' = frozen m"
    "r = Ok off \<Longrightarrow> off + length args = length (term_args m')" "length (term_args m) \<le> length (term_args m')"
proof -
  have caps: "length (vals m) \<le> value_cap m" "length (ops m) \<le> op_cap m" "length (blocks m) \<le> block_cap m"
    "length (term_args m) \<le> term_arg_cap m" and vn: "vn_inv m"
    using assms(1) by (auto simp: module_inv_def wf_module_def)
  show "module_inv m'" "vals m' = vals m" "ops m' = ops m" "blocks m' = blocks m" "frozen m' = frozen m"
    "r = Ok off \<Longrightarrow> off + length args = length (term_args m')" "length (term_args m) \<le> length (term_args m')"
    using assms(2) by (cases rule: append_term_args_cases; use assms(1) caps vn in
      \<open>auto simp: vn_inv_def vn_set_def intro!: module_inv_cong [OF assms(1)]\<close>)+
qed

lemma module_inv_set_term:
  assumes "module_inv m" "set_term b t m = (r, m')" "term_wf m t"
  shows "module_inv m'"
proof (cases "can_terminate m b")
  case True
  then have m': "m' = m\<lparr>blocks := (blocks m)[b := (blocks m ! b)\<lparr>blk_term := t\<rparr>]\<rparr>" and b: "b < length (blocks m)"
    using assms by (simp_all add: set_term_def can_terminate_def valid_block_def)
  have wf: "wf_module m" using assms by (simp add: module_inv_def)
  have blk: "params (blocks m' ! c) = params (blocks m ! c)" "blk_ops (blocks m' ! c) = blk_ops (blocks m ! c)"
    "param_cap (blocks m' ! c) = param_cap (blocks m ! c)" "blk_op_cap (blocks m' ! c) = blk_op_cap (blocks m ! c)"
    "blk_term (blocks m' ! c) = (if c = b then t else blk_term (blocks m ! c))" for c
    using b by (auto simp: m' nth_list_update)
  have same: "vals m' = vals m" "ops m' = ops m" "term_args m' = term_args m" "length (blocks m') = length (blocks m)"
    by (simp_all add: m')
  have w: "value_wf m' v = value_wf m v" "op_wf m' i = op_wf m i" "block_wf m' c = block_wf m c"
    "term_wf m' u = term_wf m u" for v i c u
    by (simp_all add: value_wf_def op_wf_def block_wf_def term_wf_def blk same Let_def)
  have "wf_module m'" using wf assms(3) by (auto simp: wf_module_def w blk same) (simp_all add: m')
  moreover have "vn_inv m' = vn_inv m" "vn_exact m' = vn_exact m" "sharing m' = sharing m" "frozen m' = frozen m"
    using same sharing_cong [of m' m] vn_exact_cong [of m' m] by (simp_all add: m' vn_inv_def vn_set_def)
  ultimately show ?thesis using assms by (simp add: module_inv_def)
qed (use assms in \<open>simp add: set_term_def\<close>)

lemma empty_term_wf [simp]: "term_wf m (empty_term\<lparr>term_kind := XAIR_TERM_TRAP, code := c\<rparr>)"
  "term_wf m (empty_term\<lparr>term_kind := XAIR_TERM_FAULT, code := c\<rparr>)"
  by (simp_all add: term_wf_def empty_term_def)

lemma module_inv_set_jump:
  assumes "module_inv m" "xair_set_jump al b target args m = (r, m')"
  shows "module_inv m'"
proof (cases "\<not> can_terminate m b \<or> \<not> valid_block m target")
  case False
  then have "xbind (append_term_args al args) (\<lambda>off. set_term b (empty_term\<lparr>term_kind := XAIR_TERM_JUMP,
      true_target := target, true_arg_offset := off, true_arg_count := length args\<rparr>)) m = (r, m')"
    using assms(2) by (auto simp: xair_set_jump_def)
  then show ?thesis
  proof (cases rule: xbind_cases)
    case (ok off m1)
    note a = module_inv_term_args [OF assms(1) ok(1)]
    show ?thesis using False a(4,6) by (intro module_inv_set_term [OF a(1) ok(2)])
        (simp add: term_wf_def empty_term_def valid_block_def)
  qed (use module_inv_term_args(1) [OF assms(1)] in blast)
qed (use assms in \<open>auto simp: xair_set_jump_def\<close>)

lemma module_inv_set_return:
  assumes "module_inv m" "xair_set_return al b args m = (r, m')"
  shows "module_inv m'"
proof (cases "\<not> can_terminate m b")
  case False
  then have "xbind (append_term_args al args) (\<lambda>off. set_term b (empty_term\<lparr>term_kind := XAIR_TERM_RETURN,
      true_arg_offset := off, true_arg_count := length args\<rparr>)) m = (r, m')"
    using assms(2) by (auto simp: xair_set_return_def)
  then show ?thesis
  proof (cases rule: xbind_cases)
    case (ok off m1)
    note a = module_inv_term_args [OF assms(1) ok(1)]
    show ?thesis using False a(4,6) by (intro module_inv_set_term [OF a(1) ok(2)])
        (simp add: term_wf_def empty_term_def)
  qed (use module_inv_term_args(1) [OF assms(1)] in blast)
qed (use assms in \<open>auto simp: xair_set_return_def\<close>)

lemma module_inv_set_cbranch:
  assumes "module_inv m" "xair_set_cbranch al b cond tt targs ft fargs m = (r, m')"
  shows "module_inv m'"
proof (cases "\<not> can_terminate m b \<or> \<not> valid_value m cond \<or> \<not> valid_block m tt \<or> \<not> valid_block m ft")
  case False
  then have "xbind (append_term_args al targs) (\<lambda>toff. xbind (append_term_args al fargs) (\<lambda>foff.
             set_term b (empty_term\<lparr>term_kind := XAIR_TERM_CBRANCH, condition := cond,
               true_target := tt, false_target := ft,
               true_arg_offset := toff, true_arg_count := length targs,
               false_arg_offset := foff, false_arg_count := length fargs\<rparr>))) m = (r, m')"
    using assms(2) unfolding xair_set_cbranch_def by presburger
  then show ?thesis
  proof (cases rule: xbind_cases)
    case (ok off m1)
    note a = module_inv_term_args [OF assms(1) ok(1)]
    from ok(2) show ?thesis
    proof (cases rule: xbind_cases)
      case ok2: (ok off2 m2)
      note a2 = module_inv_term_args [OF a(1) ok2(1)]
      show ?thesis using False a(2,4,6) a2(2,4,6,7) by (intro module_inv_set_term [OF a2(1) ok2(2)])
        (simp add: term_wf_def empty_term_def valid_block_def valid_value_def)
    qed (use module_inv_term_args(1) [OF a(1)] in blast)
  qed (use module_inv_term_args(1) [OF assms(1)] in blast)
qed (use assms in \<open>auto simp: xair_set_cbranch_def\<close>)


definition same_block :: "xair_block_rec \<Rightarrow> xair_block_rec \<Rightarrow> bool" where
  "same_block bb bb' \<longleftrightarrow> blk_name bb' = blk_name bb \<and> params bb' = params bb \<and> blk_ops bb' = blk_ops bb \<and>
     blk_term bb' = blk_term bb \<and>
     (length (params bb) \<le> param_cap bb \<longrightarrow> length (params bb) \<le> param_cap bb') \<and>
     (length (blk_ops bb) \<le> blk_op_cap bb \<longrightarrow> length (blk_ops bb) \<le> blk_op_cap bb')"

lemma finalize_block_storage_same: "finalize_block_storage al b bb = (r, bb') \<Longrightarrow> same_block bb bb'"
  by (auto simp: finalize_block_storage_def same_block_def Let_def split: xres.splits dest!: shrink_array_Ok)

lemma finalize_blocks_same: "finalize_blocks al i bbs = (r, bbs') \<Longrightarrow> list_all2 same_block bbs bbs'"
proof (induction bbs arbitrary: i r bbs')
  case (Cons bb bbs)
  obtain q bb' where f: "finalize_block_storage al i bb = (q, bb')" by fastforce
  note bb' = finalize_block_storage_same [OF f]
  have refl: "list_all2 same_block bbs bbs" by (rule list_all2_refl) (simp add: same_block_def)
  show ?case
  proof (cases q)
    case (Ok u)
    obtain r2 bbs2 where "finalize_blocks al (i + 1) bbs = (r2, bbs2)" by fastforce
    with Cons.IH [OF this] Cons.prems f Ok bb' show ?thesis by auto
  qed (use Cons.prems f bb' refl in auto)
qed simp

definition stored_alike :: "xair_module \<Rightarrow> xair_module \<Rightarrow> bool" where
  "stored_alike m m' \<longleftrightarrow> vals m' = vals m \<and> ops m' = ops m \<and> term_args m' = term_args m \<and>
     list_all2 same_block (blocks m) (blocks m') \<and>
     (length (vals m) \<le> value_cap m \<longrightarrow> length (vals m) \<le> value_cap m') \<and>
     (length (ops m) \<le> op_cap m \<longrightarrow> length (ops m) \<le> op_cap m') \<and>
     (length (blocks m) \<le> block_cap m \<longrightarrow> length (blocks m) \<le> block_cap m') \<and>
     (length (term_args m) \<le> term_arg_cap m \<longrightarrow> length (term_args m) \<le> term_arg_cap m')"

lemma finalize_module_storage_spec:
  assumes "finalize_module_storage al m = (r, m')"
  shows "stored_alike m m' \<and> frozen m' = frozen m \<and>
    (r = Ok () \<longrightarrow> value_numbers m' = [] \<and> value_number_count m' = 0) \<and>
    (\<forall>e. r = Err e \<longrightarrow> value_numbers m' = value_numbers m \<and> value_number_count m' = value_number_count m)"
proof -
  obtain q bbs where f: "finalize_blocks al 0 (blocks m) = (q, bbs)" by fastforce
  note bbs = finalize_blocks_same [OF f] list_all2_lengthD [OF finalize_blocks_same [OF f]]
  show ?thesis using assms f bbs
    by (auto simp: finalize_module_storage_def stored_alike_def Let_def value_number_clear_def
        split: xres.splits dest!: shrink_array_Ok)
qed

lemma wf_stored_alike: "wf_module m \<Longrightarrow> stored_alike m m' \<Longrightarrow> wf_module m'"
proof -
  assume wf: "wf_module m" and st: "stored_alike m m'"
  have len: "length (blocks m') = length (blocks m)" using st by (auto simp: stored_alike_def dest: list_all2_lengthD)
  have sb: "same_block (blocks m ! b) (blocks m' ! b)" if "b < length (blocks m)" for b
    using st that by (auto simp: stored_alike_def dest: list_all2_nthD)
  have eq: "vals m' = vals m" "ops m' = ops m" "term_args m' = term_args m" using st by (auto simp: stored_alike_def)
  have v: "value_wf m' v" if "v < length (vals m)" for v
  proof -
    have "value_wf m v" using wf that by (simp add: wf_module_def)
    then show ?thesis using sb [of "val_block (vals m ! v)"]
      by (auto simp: value_wf_def eq len Let_def same_block_def)
  qed
  have o: "op_wf m' i" if "i < length (ops m)" for i
  proof -
    have "op_wf m i" using wf that by (simp add: wf_module_def)
    moreover from this have "val_block (vals m ! dst (ops m ! i)) < length (blocks m)"
      using wf by (auto simp: op_wf_def Let_def wf_module_def value_wf_def)
    ultimately show ?thesis using sb [of "val_block (vals m ! dst (ops m ! i))"]
      by (auto simp: op_wf_def eq Let_def same_block_def)
  qed
  have b: "block_wf m' b \<and> term_wf m' (blk_term (blocks m' ! b))" if "b < length (blocks m)" for b
  proof -
    have "block_wf m b" "term_wf m (blk_term (blocks m ! b))" using wf that by (auto simp: wf_module_def)
    then show ?thesis using sb [OF that] by (auto simp: block_wf_def term_wf_def eq len Let_def same_block_def)
  qed
  show "wf_module m'" using wf st v o b by (auto simp: wf_module_def stored_alike_def len)
qed

lemma module_inv_freeze:
  assumes "module_inv m" "xair_module_freeze al m = (r, m')"
  shows "module_inv m'"
proof (cases "frozen m")
  case False
  obtain q m1 where f: "finalize_module_storage al m = (q, m1)" by fastforce
  note spec = finalize_module_storage_spec [OF f]
  have wf: "wf_module m1" using spec wf_stored_alike assms by (auto simp: module_inv_def)
  have eq: "vals m1 = vals m" "ops m1 = ops m" using spec by (auto simp: stored_alike_def)
  show ?thesis
  proof (cases q)
    case (Ok u)
    then have m': "m' = m1\<lparr>frozen := True\<rparr>" using assms f False by (simp add: xair_module_freeze_def)
    have "wf_module m'" using wf by (rule wf_module_cong) (use wf in \<open>simp_all add: m' wf_module_def\<close>)
    then show ?thesis using assms spec Ok eq sharing_cong [of m' m]
      by (simp add: module_inv_def m' vn_inv_def)
  next
    case (Err e)
    then have m': "m' = m1" using assms f False by (simp add: xair_module_freeze_def)
    have "vn_set m1 = vn_set m" "vn_inv m1 = vn_inv m" using spec Err by (simp_all add: vn_set_def vn_inv_def)
    then show ?thesis using assms wf spec eq sharing_cong [of m1 m] vn_exact_cong [of m1 m] False
      by (simp add: module_inv_def m')
  qed
qed (use assms in \<open>simp add: xair_module_freeze_def\<close>)

lemma module_inv_add_param:
  assumes "module_inv m" "xair_block_add_param al b t nm m = (r, m')"
  shows "module_inv m'"
  using assms(2)
proof (cases rule: xair_block_add_param_cases)
  case (rolled_back e c)
  have "vn_inv m" "length (ops m) \<le> op_cap m" "length (blocks m) \<le> block_cap m" "length (term_args m) \<le> term_arg_cap m"
    using assms(1) by (auto simp: module_inv_def wf_module_def)
  then show ?thesis using rolled_back
    by (intro module_inv_cong [OF assms(1)]) (simp_all add: vn_inv_def vn_set_def)
next
  case (ok c c')
  then show ?thesis using module_inv_param_added [OF assms(1)] by simp
qed (use assms in simp)

lemma module_inv_call:
  assumes "module_inv m" "run_call al c m = (r, m')"
  shows "module_inv m'"
proof (cases "op_call c")
  case True
  then show ?thesis using module_inv_op_call assms by blast
next
  case False
  then show ?thesis using assms
    by (cases c) (auto simp: op_call_def no_result_eq xair_set_trap_def xair_set_fault_def
        split: if_splits intro: module_inv_block_create module_inv_add_param module_inv_set_jump
        module_inv_set_cbranch module_inv_set_return module_inv_freeze module_inv_set_term)
qed

lemma built_module_inv: "built m \<Longrightarrow> module_inv m"
  by (induction rule: built.induct) (auto intro: module_inv_create module_inv_call)


section \<open>Failing calls and repeated calls\<close>

lemma visible_set_term: "set_term b t m = (Err e, m') \<Longrightarrow> m' = m"
  by (simp add: set_term_def split: if_splits)

lemma visible_term_args: "append_term_args al args m = (r, m') \<Longrightarrow> visible m' = visible m"
  by (auto elim: append_term_args_cases simp: visible_def)

lemma visible_stored_alike: "stored_alike m m' \<Longrightarrow> frozen m' = frozen m \<Longrightarrow> visible m' = visible m"
  by (auto simp: stored_alike_def visible_def same_block_def list_all2_conv_all_nth intro!: nth_equalityI)

lemma no_result_Err [simp]: "no_result p = (Err e, s) \<longleftrightarrow> p = (Err e, s)"
  by (auto simp: no_result_def split: prod.splits xres.splits)

lemma term_ops_err_visible:
  "xair_set_jump al b tgt args m = (Err e, m') \<Longrightarrow> visible m' = visible m"
  "xair_set_return al b args m = (Err e, m') \<Longrightarrow> visible m' = visible m"
  "xair_set_cbranch al b c t ta f fa m = (Err e, m') \<Longrightarrow> visible m' = visible m"
  "xair_set_trap b n m = (Err e, m') \<Longrightarrow> visible m' = visible m"
  "xair_set_fault b n m = (Err e, m') \<Longrightarrow> visible m' = visible m"
  by (auto simp: xair_set_jump_def xair_set_return_def xair_set_cbranch_def xair_set_trap_def
      xair_set_fault_def split: if_splits elim!: xbind_cases dest!: visible_set_term visible_term_args)

lemma freeze_err_visible:
  assumes "xair_module_freeze al m = (Err e, m')"
  shows "visible m' = visible m"
proof (cases "frozen m")
  case False
  then have "finalize_module_storage al m = (Err e, m')"
    using assms by (auto simp: xair_module_freeze_def split: prod.splits xres.splits)
  from finalize_module_storage_spec [OF this] show ?thesis using visible_stored_alike by blast
qed (use assms in \<open>simp add: xair_module_freeze_def\<close>)

lemma block_err_visible:
  "xair_block_create al nm m = (Err e, m') \<Longrightarrow> visible m' = visible m"
  "xair_block_add_param al b t nm m = (Err e, m') \<Longrightarrow> visible m' = visible m"
  by (erule xair_block_create_cases; simp) (erule xair_block_add_param_cases; simp add: visible_def)

lemma call_err_visible:
  assumes "module_inv m" "run_call al c m = (Err e, m')"
  shows "visible m' = visible m"
proof (cases "op_call c")
  case True
  then show ?thesis using op_call_err assms content_eq_visible by blast
next
  case False
  then show ?thesis using assms(2)
    by (cases c) (auto simp: op_call_def dest: term_ops_err_visible freeze_err_visible block_err_visible)
qed

lemma add_op_extends:
  assumes "add_op al b oc t srcs im en nm m = (r, m')" "module_inv m" "\<forall>s\<in>set srcs. s < length (vals m)"
    "v < length (vals m)"
  shows "v < length (vals m') \<and> vals m' ! v = vals m ! v"
  using assms(1-3)
proof (cases rule: add_op_cases)
  case (fresh s tab c c' c'')
  then show ?thesis using assms(4)
    by (simp add: numbered_def op_added_def value_number_insert_def nth_append)
qed (use assms(4) in \<open>auto simp: content_eq_def\<close>)

lemma add_op_term_kind:
  assumes "add_op al b oc t srcs im en nm m = (r, m')" "module_inv m" "\<forall>s\<in>set srcs. s < length (vals m)"
  shows "map blk_term (blocks m') = map blk_term (blocks m)"
  using assms
proof (cases rule: add_op_cases)
  case (fresh s tab c c' c'')
  then show ?thesis
    by (auto simp: numbered_def op_added_def value_number_insert_def nth_list_update intro!: nth_equalityI)
qed (auto simp: content_eq_def)

lemma add_op_again:
  assumes call: "add_op al b oc t srcs im en nm m = (Ok v, m')" and inv: "module_inv m"
    and srcs: "\<forall>s\<in>set srcs. s < length (vals m)" and bound: "length (ops m') < UINT32_MAX"
  shows "\<exists>m''. add_op al' b oc t srcs im en nm' m' = (Ok v, m'') \<and> content_eq m' m''"
proof -
  define k where "k = \<lparr>k_block = b, k_opcode = oc, k_type = t, k_srcs = srcs, k_imm = im, k_endian = en\<rparr>"
  have inv': "module_inv m'" and fz: "\<not> frozen m'" and v: "is_op_value m' v" "same_key (key_of m' v) k"
    using call inv srcs
    by (cases rule: add_op_cases; auto simp: content_eq_def k_def is_op_value_cong [of m' m]
        key_of_cong [of m' m] numbered_def op_added_def value_number_insert_def)+
  obtain m'' where l: "value_number_lookup m' (value_number_hash k) k = (Some v, m'')"
    using vn_exact_find [OF inv' fz v] .
  have vn: "vn_inv m'" using inv' by (simp add: module_inv_def)
  have guard: "valid_block m b" "length srcs \<le> 3" "term_kind (blk_term (blocks m ! b)) = XAIR_TERM_NONE"
    using call by (auto simp: add_op_def split: if_splits)
  have t: "map blk_term (blocks m') = map blk_term (blocks m)" by (rule add_op_term_kind [OF call inv srcs])
  then have "length (blocks m') = length (blocks m)" by (rule map_eq_imp_length_eq)
  then have "b < length (blocks m')" "term_kind (blk_term (blocks m' ! b)) = XAIR_TERM_NONE"
    using guard nth_map [of b "blocks m'" blk_term] nth_map [of b "blocks m" blk_term] t
    by (simp_all add: valid_block_def)
  then have "add_op al' b oc t srcs im en nm' m' = (Ok v, m'')"
    using l fz guard bound by (simp add: add_op_def valid_block_def k_def Let_def)
  moreover have "content_eq m' m''"
    using value_number_lookup_Some [OF vn l] by (auto simp: content_eq_def)
  ultimately show ?thesis by blast
qed

lemma op_call_again:
  assumes c: "op_call c" and inv: "module_inv m" and call: "run_call al c m = (Ok v, m')"
    and bound: "length (ops m') < UINT32_MAX"
  shows "\<exists>m''. run_call al' c m' = (Ok v, m'') \<and> content_eq m' m''"
proof (cases c)
  case (Build_const b t x nm)
  with call bound inv show ?thesis
    using add_op_again [where b = b and oc = XAIR_OP_CONST_U64 and t = t and srcs = "[]"]
    by (auto simp: xair_build_const_u64_def split: if_splits)
next
  case (Build_unary b oc t s nm)
  with call have a: "add_op al b oc t [s] 0 XAIR_ENDIAN_LE nm m = (Ok v, m')" "s < length (vals m)"
    by (auto simp: xair_build_unary_def valid_value_def split: if_splits)
  then have "s < length (vals m')" using add_op_extends [OF a(1) inv] by simp
  then show ?thesis using add_op_again [OF a(1) inv _ bound] a(2) Build_unary
    by (simp add: xair_build_unary_def valid_value_def)
next
  case (Build_binary b oc t x y nm)
  with call have a: "add_op al b oc t [x, y] 0 XAIR_ENDIAN_LE nm m = (Ok v, m')"
    "x < length (vals m)" "y < length (vals m)"
    by (auto simp: xair_build_binary_def valid_value_def split: if_splits)
  then have "x < length (vals m')" "y < length (vals m')" using add_op_extends [OF a(1) inv] by simp_all
  then show ?thesis using add_op_again [OF a(1) inv _ bound] a(2,3) Build_binary
    by (simp add: xair_build_binary_def valid_value_def)
next
  case (Build_load b t x y en nm)
  with call have a: "add_op al b XAIR_OP_LOAD t [x, y] 0 en nm m = (Ok v, m')"
    "x < length (vals m)" "y < length (vals m)"
    by (auto simp: xair_build_load_def valid_value_def split: if_splits)
  then have "x < length (vals m')" "y < length (vals m')" using add_op_extends [OF a(1) inv] by simp_all
  then show ?thesis using add_op_again [OF a(1) inv _ bound] a(2,3) Build_load
    by (simp add: xair_build_load_def valid_value_def)
next
  case (Build_store b x y z en nm)
  with call have a: "add_op al b XAIR_OP_STORE (val_type (vals m ! x)) [x, y, z] 0 en nm m = (Ok v, m')"
    "x < length (vals m)" "y < length (vals m)" "z < length (vals m)"
    by (auto simp: xair_build_store_def valid_value_def split: if_splits)
  then have "x < length (vals m')" "y < length (vals m')" "z < length (vals m')" "vals m' ! x = vals m ! x"
    using add_op_extends [OF a(1) inv] by simp_all
  then show ?thesis using add_op_again [OF a(1) inv _ bound] a(2-4) Build_store
    by (simp add: xair_build_store_def valid_value_def)
qed (use c in \<open>simp_all add: op_call_def\<close>)

end
