(* ===== verification/Xair_Verify.thy ===== *)
theory Xair_Verify
  imports Xair_Builder
begin

text \<open>
  The verifier of \<^verbatim>\<open>src/src/xair.c\<close> (\<open>xair_verify_module\<close> and the functions it calls), with its error
  reports, and a declarative specification \<open>module_ok\<close> of the modules it accepts: \<open>verify_OK_iff\<close> shows
  that the verifier returns \<open>XAIR_OK\<close> exactly for these.
\<close>

section \<open>The verifier\<close>

record xair_error =
  err_status :: xair_status
  err_block :: xair_block_id
  err_value :: xair_value_id
  message :: string

text \<open>
  \<open>set_error\<close> fills the error record and returns \<open>XAIR_ERR_VERIFY\<close>. In the model a check returns the
  error record, or \<open>None\<close> for \<open>XAIR_OK\<close>; the message is cut to the 191 characters of its buffer.
\<close>

definition set_error :: "xair_block_id \<Rightarrow> xair_value_id \<Rightarrow> string \<Rightarrow> xair_error" where
  "set_error b v msg =
     \<lparr>err_status = XAIR_ERR_VERIFY, err_block = b, err_value = v, message = take 191 msg\<rparr>"

definition verify_binary_op :: "xair_module \<Rightarrow> xair_op_rec \<Rightarrow> xair_block_id \<Rightarrow> xair_error option" where
  "verify_binary_op m oper b =
     (let out = val_type (vals m ! dst oper);
          lhs = val_type (vals m ! (src oper ! 0));
          rhs = val_type (vals m ! (src oper ! 1));
          name = xair_opcode_name (opcode oper);
          int3 = (if \<not> xair_type_equal lhs rhs \<or> \<not> is_int lhs \<or> \<not> xair_type_equal out lhs
                  then Some (set_error b (dst oper) (name @ '' requires matching integer operands''))
                  else None);
          shift = (if \<not> is_int lhs \<or> \<not> is_int rhs \<or> \<not> xair_type_equal out lhs
                   then Some (set_error b (dst oper)
                          (name @ '' requires integer operands and lhs result type''))
                   else None);
          cmp = (if \<not> xair_type_equal lhs rhs \<or> \<not> (is_int lhs \<or> is_addr lhs) \<or> \<not> is_i1 out
                 then Some (set_error b (dst oper)
                        (name @ '' requires matching int or addr operands and i1 result''))
                 else None);
          scmp = (if \<not> xair_type_equal lhs rhs \<or> \<not> is_int lhs \<or> \<not> is_i1 out
                  then Some (set_error b (dst oper)
                         (name @ '' requires matching integer operands and i1 result''))
                  else None);
          addr = (if \<not> is_addr lhs \<or> \<not> is_int rhs \<or> bits lhs \<noteq> bits rhs \<or> \<not> xair_type_equal out lhs
                  then Some (set_error b (dst oper) (name @ '' requires addrN, iN -> addrN''))
                  else None);
          flags = (if \<not> xair_type_equal lhs rhs \<or> \<not> is_int lhs \<or> \<not> is_flags out
                   then Some (set_error b (dst oper)
                          (name @ '' requires matching integer operands and flags result''))
                   else None)
      in case opcode oper of
           XAIR_OP_ADD \<Rightarrow> int3
         | XAIR_OP_SUB \<Rightarrow> int3
         | XAIR_OP_MUL \<Rightarrow> int3
         | XAIR_OP_AND \<Rightarrow> int3
         | XAIR_OP_OR \<Rightarrow> int3
         | XAIR_OP_XOR \<Rightarrow> int3
         | XAIR_OP_SHL \<Rightarrow> shift
         | XAIR_OP_LSHR \<Rightarrow> shift
         | XAIR_OP_ASHR \<Rightarrow> shift
         | XAIR_OP_EQ \<Rightarrow> cmp
         | XAIR_OP_NE \<Rightarrow> cmp
         | XAIR_OP_ULT \<Rightarrow> cmp
         | XAIR_OP_ULE \<Rightarrow> cmp
         | XAIR_OP_SLT \<Rightarrow> scmp
         | XAIR_OP_SLE \<Rightarrow> scmp
         | XAIR_OP_CONCAT \<Rightarrow>
             (if \<not> is_int lhs \<or> \<not> is_int rhs \<or> \<not> is_int out
                 \<or> bits out \<noteq> (bits lhs + bits rhs) mod 2 ^ 16
              then Some (set_error b (dst oper) ''concat result width must equal input width sum'')
              else None)
         | XAIR_OP_ADDR_ADD \<Rightarrow> addr
         | XAIR_OP_ADDR_SUB \<Rightarrow> addr
         | XAIR_OP_FLAGS_ADD \<Rightarrow> flags
         | XAIR_OP_FLAGS_SUB \<Rightarrow> flags
         | XAIR_OP_FLAGS_SHL \<Rightarrow> flags
         | _ \<Rightarrow> Some (set_error b (dst oper) ''opcode is not a binary operation''))"

definition verify_unary_op :: "xair_module \<Rightarrow> xair_op_rec \<Rightarrow> xair_block_id \<Rightarrow> xair_error option" where
  "verify_unary_op m oper b =
     (let out = val_type (vals m ! dst oper);
          sty = val_type (vals m ! (src oper ! 0));
          name = xair_opcode_name (opcode oper);
          widen = (if \<not> is_int sty \<or> \<not> is_int out \<or> bits out \<le> bits sty
                   then Some (set_error b (dst oper) (name @ '' requires widening integer result''))
                   else None);
          flag = (if \<not> is_flags sty \<or> \<not> is_i1 out
                  then Some (set_error b (dst oper) (name @ '' requires flags input and i1 result''))
                  else None)
      in case opcode oper of
           XAIR_OP_ZEXT \<Rightarrow> widen
         | XAIR_OP_SEXT \<Rightarrow> widen
         | XAIR_OP_TRUNC \<Rightarrow>
             (if \<not> is_int sty \<or> \<not> is_int out \<or> bits out \<ge> bits sty
              then Some (set_error b (dst oper) ''trunc requires narrowing integer result'') else None)
         | XAIR_OP_INT_TO_ADDR \<Rightarrow>
             (if \<not> is_int sty \<or> \<not> is_addr out \<or> bits sty \<noteq> bits out
              then Some (set_error b (dst oper) ''int_to_addr requires iN -> addrN'') else None)
         | XAIR_OP_ADDR_TO_INT \<Rightarrow>
             (if \<not> is_addr sty \<or> \<not> is_int out \<or> bits sty \<noteq> bits out
              then Some (set_error b (dst oper) ''addr_to_int requires addrN -> iN'') else None)
         | XAIR_OP_FLAGS_LOGIC \<Rightarrow>
             (if \<not> is_int sty \<or> \<not> is_flags out
              then Some (set_error b (dst oper) ''flags_logic requires integer input and flags result'')
              else None)
         | XAIR_OP_FLAG_ZF \<Rightarrow> flag
         | XAIR_OP_FLAG_CF \<Rightarrow> flag
         | XAIR_OP_FLAG_OF \<Rightarrow> flag
         | XAIR_OP_FLAG_SF \<Rightarrow> flag
         | XAIR_OP_FLAG_PF \<Rightarrow> flag
         | XAIR_OP_FLAG_AF \<Rightarrow> flag
         | _ \<Rightarrow> Some (set_error b (dst oper) ''opcode is not a unary operation''))"

text \<open>The byte order of an operation is one of the two values of its type, so that check has no branch.\<close>

definition verify_memory_op :: "xair_module \<Rightarrow> xair_op_rec \<Rightarrow> xair_block_id \<Rightarrow> xair_error option" where
  "verify_memory_op m oper b =
     (let out = val_type (vals m ! dst oper);
          mem = val_type (vals m ! (src oper ! 0));
          addr = val_type (vals m ! (src oper ! 1))
      in if \<not> is_mem mem \<or> \<not> is_addr addr \<or> bits mem \<noteq> bits addr
         then Some (set_error b (dst oper) ''memory operation requires mem<space,N> and addrN'')
         else if opcode oper = XAIR_OP_LOAD then
           (if \<not> is_value_type out \<or> is_mem out
            then Some (set_error b (dst oper) ''load result must be a non-memory value type'')
            else None)
         else if opcode oper = XAIR_OP_STORE then
           (let data = val_type (vals m ! (src oper ! 2))
            in if \<not> xair_type_equal out mem \<or> \<not> is_value_type data \<or> is_mem data
               then Some (set_error b (dst oper)
                 ''store result must be the input memory type and data must be non-memory'')
               else None)
         else Some (set_error b (dst oper) ''opcode is not a memory operation''))"

definition is_unary_opcode :: "xair_opcode \<Rightarrow> bool" where
  "is_unary_opcode oc \<longleftrightarrow>
     oc \<in> {XAIR_OP_ZEXT, XAIR_OP_SEXT, XAIR_OP_TRUNC, XAIR_OP_INT_TO_ADDR, XAIR_OP_ADDR_TO_INT,
           XAIR_OP_FLAGS_LOGIC, XAIR_OP_FLAG_ZF, XAIR_OP_FLAG_CF, XAIR_OP_FLAG_OF, XAIR_OP_FLAG_SF,
           XAIR_OP_FLAG_PF, XAIR_OP_FLAG_AF}"

definition verify_op :: "xair_module \<Rightarrow> xair_op_rec \<Rightarrow> xair_block_id \<Rightarrow> xair_error option" where
  "verify_op m oper b =
     (if dst oper \<ge> length (vals m)
      then Some (set_error b XAIR_INVALID_ID ''operation has invalid destination'')
      else let out = val_type (vals m ! dst oper)
      in if \<not> is_value_type out
         then Some (set_error b (dst oper) ''operation destination has invalid type'')
         else if opcode oper = XAIR_OP_CONST_U64 then
           (if src_count oper \<noteq> 0 \<or> \<not> ((is_int out \<or> is_addr out) \<and> bits out \<le> 64)
            then Some (set_error b (dst oper) ''const requires iN/addrN result up to 64 bits'')
            else None)
         else if is_unary_opcode (opcode oper) then
           (if src_count oper \<noteq> 1
            then Some (set_error b (dst oper) ''unary operation has wrong source count'')
            else verify_unary_op m oper b)
         else if opcode oper = XAIR_OP_LOAD then
           (if src_count oper \<noteq> 2
            then Some (set_error b (dst oper) ''load has wrong source count'')
            else verify_memory_op m oper b)
         else if opcode oper = XAIR_OP_STORE then
           (if src_count oper \<noteq> 3
            then Some (set_error b (dst oper) ''store has wrong source count'')
            else verify_memory_op m oper b)
         else
           (if src_count oper \<noteq> 2
            then Some (set_error b (dst oper) ''binary operation has wrong source count'')
            else verify_binary_op m oper b))"

text \<open>The \<open>available\<close> array of the verifier: one flag per value.\<close>

definition value_is_available :: "xair_module \<Rightarrow> bool list \<Rightarrow> xair_value_id \<Rightarrow> bool" where
  "value_is_available m available v \<longleftrightarrow>
     valid_value m v \<and> (available ! v \<or> value_is_global_const m v)"

fun verify_args :: "xair_module \<Rightarrow> xair_block_id \<Rightarrow> bool list \<Rightarrow> xair_value_id list \<Rightarrow> xair_value_id list
    \<Rightarrow> xair_error option" where
  "verify_args m b available (arg # args) (param # ps) =
     (if \<not> value_is_available m available arg
      then Some (set_error b arg ''terminator argument is not available in source block'')
      else if \<not> xair_type_equal (val_type (vals m ! arg)) (val_type (vals m ! param))
      then Some (set_error b arg ''terminator argument type does not match target parameter'')
      else verify_args m b available args ps)"
| "verify_args m b available _ _ = None"

definition verify_target_args ::
  "xair_module \<Rightarrow> xair_block_id \<Rightarrow> bool list \<Rightarrow> xair_block_id \<Rightarrow> xair_value_id list \<Rightarrow> nat
     \<Rightarrow> xair_error option" where
  "verify_target_args m b available target args arg_count =
     (if \<not> valid_block m target
      then Some (set_error b XAIR_INVALID_ID ''terminator target is invalid'')
      else if length (params (blocks m ! target)) \<noteq> arg_count
      then Some (set_error b XAIR_INVALID_ID
             ''terminator argument count does not match target parameters'')
      else verify_args m b available args (params (blocks m ! target)))"

fun verify_returns :: "xair_module \<Rightarrow> xair_block_id \<Rightarrow> bool list \<Rightarrow> xair_value_id list
    \<Rightarrow> xair_error option" where
  "verify_returns m b available [] = None"
| "verify_returns m b available (v # vs) =
     (if \<not> value_is_available m available v
      then Some (set_error b v ''return value is not available in source block'')
      else verify_returns m b available vs)"

definition verify_term :: "xair_module \<Rightarrow> xair_block_id \<Rightarrow> bool list \<Rightarrow> xair_error option" where
  "verify_term m b available =
     (let t = blk_term (blocks m ! b)
      in case term_kind t of
           XAIR_TERM_NONE \<Rightarrow> Some (set_error b XAIR_INVALID_ID ''block has no terminator'')
         | XAIR_TERM_JUMP \<Rightarrow>
             verify_target_args m b available (true_target t) (term_args_const m t False)
               (true_arg_count t)
         | XAIR_TERM_CBRANCH \<Rightarrow>
             (if \<not> value_is_available m available (condition t)
                 \<or> \<not> is_i1 (val_type (vals m ! condition t))
              then Some (set_error b (condition t)
                     ''conditional branch requires available i1 condition'')
              else case verify_target_args m b available (true_target t) (term_args_const m t False)
                          (true_arg_count t) of
                Some e \<Rightarrow> Some e
              | None \<Rightarrow> verify_target_args m b available (false_target t) (term_args_const m t True)
                          (false_arg_count t))
         | XAIR_TERM_RETURN \<Rightarrow> verify_returns m b available (term_args_const m t False)
         | XAIR_TERM_TRAP \<Rightarrow> None
         | XAIR_TERM_FAULT \<Rightarrow> None)"

fun verify_params :: "xair_module \<Rightarrow> xair_block_id \<Rightarrow> xair_value_id list \<Rightarrow> bool list
    \<Rightarrow> xair_error + bool list" where
  "verify_params m b [] available = Inr available"
| "verify_params m b (p # ps) available =
     (if \<not> valid_value m p \<or> val_block (vals m ! p) \<noteq> b \<or> \<not> is_value_type (val_type (vals m ! p))
      then Inl (set_error b p ''block parameter is invalid'')
      else verify_params m b ps (available[p := True]))"

fun verify_srcs :: "xair_module \<Rightarrow> xair_block_id \<Rightarrow> bool list \<Rightarrow> xair_value_id list
    \<Rightarrow> xair_error option" where
  "verify_srcs m b available [] = None"
| "verify_srcs m b available (s # ss) =
     (if \<not> value_is_available m available s
      then Some (set_error b s ''operation source is not available in block'')
      else verify_srcs m b available ss)"

fun verify_ops :: "xair_module \<Rightarrow> xair_block_id \<Rightarrow> xair_op_id list \<Rightarrow> bool list
    \<Rightarrow> xair_error + bool list" where
  "verify_ops m b [] available = Inr available"
| "verify_ops m b (op_id # op_ids) available =
     (if op_id \<ge> length (ops m)
      then Inl (set_error b XAIR_INVALID_ID ''block operation id is invalid'')
      else let oper = ops m ! op_id
      in if \<not> valid_value m (dst oper) \<or> val_block (vals m ! dst oper) \<noteq> b
            \<or> val_op (vals m ! dst oper) \<noteq> op_id
         then Inl (set_error b (dst oper) ''operation destination is inconsistent'')
         else case verify_srcs m b available (op_srcs oper) of
                Some e \<Rightarrow> Inl e
              | None \<Rightarrow>
                  (case verify_op m oper b of
                     Some e \<Rightarrow> Inl e
                   | None \<Rightarrow> verify_ops m b op_ids (available[dst oper := True])))"

definition verify_block :: "xair_module \<Rightarrow> xair_block_id \<Rightarrow> xair_error option" where
  "verify_block m b =
     (let bb = blocks m ! b
      in case verify_params m b (params bb) (replicate (length (vals m)) False) of
           Inl e \<Rightarrow> Some e
         | Inr available \<Rightarrow>
             (case verify_ops m b (blk_ops bb) available of
                Inl e \<Rightarrow> Some e
              | Inr available' \<Rightarrow> verify_term m b available'))"

definition no_error :: xair_error where
  "no_error = \<lparr>err_status = XAIR_OK, err_block = XAIR_INVALID_ID, err_value = XAIR_INVALID_ID,
               message = ''''\<rparr>"

fun verify_blocks :: "allocator \<Rightarrow> xair_module \<Rightarrow> nat list \<Rightarrow> xair_status \<times> xair_error" where
  "verify_blocks al m [] = (XAIR_OK, no_error)"
| "verify_blocks al m (b # bs) =
     (if \<not> al (Site_available b) (if length (vals m) = 0 then 1 else length (vals m))
      then (XAIR_ERR_OOM, no_error)
      else case verify_block m b of
        Some e \<Rightarrow> (XAIR_ERR_VERIFY, e)
      | None \<Rightarrow> verify_blocks al m bs)"

definition xair_verify_module :: "allocator \<Rightarrow> xair_module \<Rightarrow> xair_status \<times> xair_error" where
  "xair_verify_module al m = verify_blocks al m [0..<length (blocks m)]"

section \<open>Specification: the type system and well-formed modules\<close>

abbreviation type_of :: "xair_module \<Rightarrow> xair_value_id \<Rightarrow> xair_type" where
  "type_of m v \<equiv> val_type (vals m ! v)"

text \<open>The typing rules of the operations: opcode, operand types, result type.\<close>

inductive op_sig :: "xair_opcode \<Rightarrow> xair_type list \<Rightarrow> xair_type \<Rightarrow> bool" where
  sig_const: "is_int t \<or> is_addr t \<Longrightarrow> bits t \<le> 64 \<Longrightarrow> op_sig XAIR_OP_CONST_U64 [] t"
| sig_arith: "oc \<in> {XAIR_OP_ADD, XAIR_OP_SUB, XAIR_OP_MUL, XAIR_OP_AND, XAIR_OP_OR, XAIR_OP_XOR} \<Longrightarrow>
    is_int t \<Longrightarrow> op_sig oc [t, t] t"
| sig_shift: "oc \<in> {XAIR_OP_SHL, XAIR_OP_LSHR, XAIR_OP_ASHR} \<Longrightarrow> is_int t \<Longrightarrow> is_int u \<Longrightarrow> op_sig oc [t, u] t"
| sig_compare: "oc \<in> {XAIR_OP_EQ, XAIR_OP_NE, XAIR_OP_ULT, XAIR_OP_ULE} \<Longrightarrow> is_int t \<or> is_addr t \<Longrightarrow>
    is_i1 u \<Longrightarrow> op_sig oc [t, t] u"
| sig_signed_compare: "oc \<in> {XAIR_OP_SLT, XAIR_OP_SLE} \<Longrightarrow> is_int t \<Longrightarrow> is_i1 u \<Longrightarrow> op_sig oc [t, t] u"
| sig_concat: "is_int t \<Longrightarrow> is_int u \<Longrightarrow> is_int w \<Longrightarrow> bits w = (bits t + bits u) mod 2 ^ 16 \<Longrightarrow>
    op_sig XAIR_OP_CONCAT [t, u] w"
| sig_addr: "oc \<in> {XAIR_OP_ADDR_ADD, XAIR_OP_ADDR_SUB} \<Longrightarrow> is_addr t \<Longrightarrow> is_int u \<Longrightarrow> bits t = bits u \<Longrightarrow>
    op_sig oc [t, u] t"
| sig_flags: "oc \<in> {XAIR_OP_FLAGS_ADD, XAIR_OP_FLAGS_SUB, XAIR_OP_FLAGS_SHL} \<Longrightarrow> is_int t \<Longrightarrow> is_flags u \<Longrightarrow>
    op_sig oc [t, t] u"
| sig_widen: "oc \<in> {XAIR_OP_ZEXT, XAIR_OP_SEXT} \<Longrightarrow> is_int t \<Longrightarrow> is_int u \<Longrightarrow> bits t < bits u \<Longrightarrow> op_sig oc [t] u"
| sig_trunc: "is_int t \<Longrightarrow> is_int u \<Longrightarrow> bits u < bits t \<Longrightarrow> op_sig XAIR_OP_TRUNC [t] u"
| sig_int_to_addr: "is_int t \<Longrightarrow> is_addr u \<Longrightarrow> bits t = bits u \<Longrightarrow> op_sig XAIR_OP_INT_TO_ADDR [t] u"
| sig_addr_to_int: "is_addr t \<Longrightarrow> is_int u \<Longrightarrow> bits t = bits u \<Longrightarrow> op_sig XAIR_OP_ADDR_TO_INT [t] u"
| sig_flags_logic: "is_int t \<Longrightarrow> is_flags u \<Longrightarrow> op_sig XAIR_OP_FLAGS_LOGIC [t] u"
| sig_flag: "oc \<in> {XAIR_OP_FLAG_ZF, XAIR_OP_FLAG_CF, XAIR_OP_FLAG_OF, XAIR_OP_FLAG_SF, XAIR_OP_FLAG_PF,
      XAIR_OP_FLAG_AF} \<Longrightarrow> is_flags t \<Longrightarrow> is_i1 u \<Longrightarrow> op_sig oc [t] u"
| sig_load: "is_mem t \<Longrightarrow> is_addr u \<Longrightarrow> bits t = bits u \<Longrightarrow> \<not> is_mem w \<Longrightarrow> op_sig XAIR_OP_LOAD [t, u] w"
| sig_store: "is_mem t \<Longrightarrow> is_addr u \<Longrightarrow> bits t = bits u \<Longrightarrow> is_value_type w \<Longrightarrow> \<not> is_mem w \<Longrightarrow>
    op_sig XAIR_OP_STORE [t, u, w] t"

inductive_simps op_sig_simps:
  "op_sig XAIR_OP_CONST_U64 ts t" "op_sig XAIR_OP_ADD ts t" "op_sig XAIR_OP_SUB ts t" "op_sig XAIR_OP_MUL ts t"
  "op_sig XAIR_OP_AND ts t" "op_sig XAIR_OP_OR ts t" "op_sig XAIR_OP_XOR ts t" "op_sig XAIR_OP_SHL ts t"
  "op_sig XAIR_OP_LSHR ts t" "op_sig XAIR_OP_ASHR ts t" "op_sig XAIR_OP_EQ ts t" "op_sig XAIR_OP_NE ts t"
  "op_sig XAIR_OP_ULT ts t" "op_sig XAIR_OP_ULE ts t" "op_sig XAIR_OP_SLT ts t" "op_sig XAIR_OP_SLE ts t"
  "op_sig XAIR_OP_ZEXT ts t" "op_sig XAIR_OP_SEXT ts t" "op_sig XAIR_OP_TRUNC ts t" "op_sig XAIR_OP_CONCAT ts t"
  "op_sig XAIR_OP_ADDR_ADD ts t" "op_sig XAIR_OP_ADDR_SUB ts t" "op_sig XAIR_OP_INT_TO_ADDR ts t"
  "op_sig XAIR_OP_ADDR_TO_INT ts t" "op_sig XAIR_OP_FLAGS_ADD ts t" "op_sig XAIR_OP_FLAGS_SUB ts t"
  "op_sig XAIR_OP_FLAGS_LOGIC ts t" "op_sig XAIR_OP_FLAGS_SHL ts t" "op_sig XAIR_OP_FLAG_ZF ts t"
  "op_sig XAIR_OP_FLAG_CF ts t" "op_sig XAIR_OP_FLAG_OF ts t" "op_sig XAIR_OP_FLAG_SF ts t"
  "op_sig XAIR_OP_FLAG_PF ts t" "op_sig XAIR_OP_FLAG_AF ts t" "op_sig XAIR_OP_LOAD ts t"
  "op_sig XAIR_OP_STORE ts t"

definition op_ok :: "xair_module \<Rightarrow> xair_op_rec \<Rightarrow> bool" where
  "op_ok m oper \<longleftrightarrow> dst oper < length (vals m) \<and> is_value_type (type_of m (dst oper)) \<and>
     op_sig (opcode oper) (map (type_of m) (op_srcs oper)) (type_of m (dst oper))"

text \<open>The values a block may use before its operation number \<open>i\<close>.\<close>

definition avail_at :: "xair_module \<Rightarrow> xair_block_rec \<Rightarrow> nat \<Rightarrow> xair_value_id set" where
  "avail_at m bb i = set (params bb) \<union> (\<lambda>j. dst (ops m ! j)) ` set (take i (blk_ops bb))"

definition usable :: "xair_module \<Rightarrow> xair_value_id set \<Rightarrow> xair_value_id \<Rightarrow> bool" where
  "usable m S v \<longleftrightarrow> v < length (vals m) \<and> (v \<in> S \<or> value_is_global_const m v)"

definition edge_ok :: "xair_module \<Rightarrow> xair_value_id set \<Rightarrow> xair_block_id \<Rightarrow> xair_value_id list \<Rightarrow> nat \<Rightarrow> bool" where
  "edge_ok m S target args n \<longleftrightarrow> target < length (blocks m) \<and> length (params (blocks m ! target)) = n \<and>
     (\<forall>(arg, param) \<in> set (zip args (params (blocks m ! target))).
        usable m S arg \<and> type_of m arg = type_of m param)"

definition term_ok :: "xair_module \<Rightarrow> xair_value_id set \<Rightarrow> xair_term_rec \<Rightarrow> bool" where
  "term_ok m S t =
     (case term_kind t of
        XAIR_TERM_NONE \<Rightarrow> False
      | XAIR_TERM_JUMP \<Rightarrow> edge_ok m S (true_target t) (term_args_const m t False) (true_arg_count t)
      | XAIR_TERM_CBRANCH \<Rightarrow> usable m S (condition t) \<and> is_i1 (type_of m (condition t)) \<and>
          edge_ok m S (true_target t) (term_args_const m t False) (true_arg_count t) \<and>
          edge_ok m S (false_target t) (term_args_const m t True) (false_arg_count t)
      | XAIR_TERM_RETURN \<Rightarrow> (\<forall>v \<in> set (term_args_const m t False). usable m S v)
      | _ \<Rightarrow> True)"

text \<open>The condition on one operation of a block, given the values available before it.\<close>

definition block_op_ok :: "xair_module \<Rightarrow> xair_block_id \<Rightarrow> xair_value_id set \<Rightarrow> xair_op_id \<Rightarrow> bool" where
  "block_op_ok m b S op_id \<longleftrightarrow>
     (let oper = ops m ! op_id
      in op_id < length (ops m) \<and> dst oper < length (vals m) \<and> val_block (vals m ! dst oper) = b \<and>
         val_op (vals m ! dst oper) = op_id \<and> (\<forall>s \<in> set (op_srcs oper). usable m S s) \<and> op_ok m oper)"

definition block_ok :: "xair_module \<Rightarrow> xair_block_id \<Rightarrow> bool" where
  "block_ok m b \<longleftrightarrow>
     (let bb = blocks m ! b
      in (\<forall>p \<in> set (params bb). p < length (vals m) \<and> val_block (vals m ! p) = b \<and> is_value_type (type_of m p)) \<and>
         (\<forall>i < length (blk_ops bb). block_op_ok m b (avail_at m bb i) (blk_ops bb ! i)) \<and>
         term_ok m (avail_at m bb (length (blk_ops bb))) (blk_term bb))"

definition module_ok :: "xair_module \<Rightarrow> bool" where
  "module_ok m \<longleftrightarrow> (\<forall>b < length (blocks m). block_ok m b)"

text \<open>The arrays of the operations have three sources, of which the first \<open>src_count\<close> are in use.\<close>

definition srcs_shape :: "xair_module \<Rightarrow> bool" where
  "srcs_shape m \<longleftrightarrow> (\<forall>oper \<in> set (ops m). length (src oper) = 3 \<and> src_count oper \<le> 3)"

section \<open>The verifier decides the specification\<close>

lemma srcs_shape_cases:
  assumes "length (src oper) = 3" "src_count oper \<le> 3"
  shows "src_count oper = 0 \<and> op_srcs oper = [] \<or> src_count oper = 1 \<and> op_srcs oper = [src oper ! 0] \<or>
    src_count oper = 2 \<and> op_srcs oper = [src oper ! 0, src oper ! 1] \<or>
    src_count oper = 3 \<and> op_srcs oper = [src oper ! 0, src oper ! 1, src oper ! 2]"
proof -
  obtain a b c where "src oper = [a, b, c]"
    using assms(1) by (metis length_0_conv length_Suc_conv numeral_3_eq_3)
  moreover have "src_count oper \<in> {0, 1, 2, 3}" using assms(2) by auto
  ultimately show ?thesis by (auto simp: op_srcs_def numeral_2_eq_2 numeral_3_eq_3)
qed

lemma verify_unary_op_None_iff:
  "verify_unary_op m oper b = None \<longleftrightarrow>
     is_unary_opcode (opcode oper) \<and> op_sig (opcode oper) [type_of m (src oper ! 0)] (type_of m (dst oper))"
  unfolding verify_unary_op_def is_unary_opcode_def Let_def
  by (cases "opcode oper") (simp_all add: op_sig_simps, auto)

lemma verify_binary_op_None_iff:
  "verify_binary_op m oper b = None \<longleftrightarrow>
     opcode oper \<noteq> XAIR_OP_LOAD \<and>
     op_sig (opcode oper) [type_of m (src oper ! 0), type_of m (src oper ! 1)] (type_of m (dst oper))"
  unfolding verify_binary_op_def Let_def
  by (cases "opcode oper") (simp_all add: op_sig_simps, auto)

lemma verify_memory_op_None_iff:
  "opcode oper = XAIR_OP_LOAD \<Longrightarrow> is_value_type (type_of m (dst oper)) \<Longrightarrow> verify_memory_op m oper b = None \<longleftrightarrow>
     op_sig XAIR_OP_LOAD [type_of m (src oper ! 0), type_of m (src oper ! 1)] (type_of m (dst oper))"
  "opcode oper = XAIR_OP_STORE \<Longrightarrow> verify_memory_op m oper b = None \<longleftrightarrow>
     op_sig XAIR_OP_STORE [type_of m (src oper ! 0), type_of m (src oper ! 1), type_of m (src oper ! 2)] (type_of m (dst oper))"
  by (auto simp: verify_memory_op_def Let_def op_sig_simps)

lemma op_sig_arity:
  "op_sig oc ts t \<Longrightarrow> length ts = (if oc = XAIR_OP_CONST_U64 then 0 else if is_unary_opcode oc then 1
     else if oc = XAIR_OP_STORE then 3 else 2)"
  by (induction rule: op_sig.induct) (auto simp: is_unary_opcode_def)

lemma verify_op_None_iff:
  assumes "length (src oper) = 3" "src_count oper \<le> 3"
  shows "verify_op m oper b = None \<longleftrightarrow> op_ok m oper"
proof -
  let ?t = "type_of m (dst oper)"
  consider "opcode oper = XAIR_OP_CONST_U64" | "is_unary_opcode (opcode oper)"
    | "opcode oper = XAIR_OP_LOAD" | "opcode oper = XAIR_OP_STORE"
    | "opcode oper \<noteq> XAIR_OP_CONST_U64" "\<not> is_unary_opcode (opcode oper)" "opcode oper \<noteq> XAIR_OP_LOAD"
      "opcode oper \<noteq> XAIR_OP_STORE"
    by blast
  then show ?thesis
  proof cases
    case 1
    then show ?thesis using srcs_shape_cases [OF assms]
      by (elim disjE) (auto simp: verify_op_def op_ok_def op_sig_simps Let_def)
  next
    case 2
    then have "opcode oper \<noteq> XAIR_OP_CONST_U64" by (auto simp: is_unary_opcode_def)
    then show ?thesis using 2 srcs_shape_cases [OF assms]
      by (elim disjE)
        (auto simp: verify_op_def op_ok_def Let_def verify_unary_op_None_iff dest: op_sig_arity)
  next
    case 3
    then show ?thesis using srcs_shape_cases [OF assms]
      by (elim disjE)
        (auto simp: verify_op_def op_ok_def Let_def is_unary_opcode_def verify_memory_op_None_iff
          dest: op_sig_arity)
  next
    case 4
    then show ?thesis using srcs_shape_cases [OF assms]
      by (elim disjE)
        (auto simp: verify_op_def op_ok_def Let_def is_unary_opcode_def verify_memory_op_None_iff
          dest: op_sig_arity)
  next
    case 5
    then show ?thesis using srcs_shape_cases [OF assms]
      by (elim disjE)
        (auto simp: verify_op_def op_ok_def Let_def verify_binary_op_None_iff dest: op_sig_arity)
  qed
qed

text \<open>The flag array as the characteristic list of a set.\<close>

definition flags_of :: "nat \<Rightarrow> nat set \<Rightarrow> bool list" where
  "flags_of n S = map (\<lambda>v. v \<in> S) [0..<n]"

lemma flags_of_empty: "replicate n False = flags_of n {}"
  by (simp add: flags_of_def map_replicate_const)

lemma flags_of_update: "v < n \<Longrightarrow> (flags_of n S)[v := True] = flags_of n (insert v S)"
  by (rule nth_equalityI) (auto simp: flags_of_def nth_list_update)

lemma flags_of_nth: "v < n \<Longrightarrow> flags_of n S ! v \<longleftrightarrow> v \<in> S"
  by (simp add: flags_of_def)

lemma value_is_available_iff:
  "value_is_available m (flags_of (length (vals m)) S) v \<longleftrightarrow> usable m S v"
  by (auto simp: value_is_available_def usable_def valid_value_def flags_of_nth)

lemma verify_params_iff:
  "verify_params m b ps (flags_of (length (vals m)) S) = Inr fl \<longleftrightarrow>
     (\<forall>p \<in> set ps. p < length (vals m) \<and> val_block (vals m ! p) = b \<and> is_value_type (type_of m p)) \<and>
     fl = flags_of (length (vals m)) (set ps \<union> S)"
proof (induction ps arbitrary: S)
  case Nil
  show ?case by auto
next
  case (Cons p ps)
  have "set ps \<union> insert p S = insert p (set ps \<union> S)" by auto
  with Cons [of "insert p S"] show ?case by (auto simp: valid_value_def flags_of_update)
qed

lemma verify_srcs_None_iff:
  "verify_srcs m b (flags_of (length (vals m)) S) ss = None \<longleftrightarrow> (\<forall>s \<in> set ss. usable m S s)"
  by (induction ss) (auto simp: value_is_available_iff)

lemma verify_args_None_iff:
  "verify_args m b (flags_of (length (vals m)) S) args ps = None \<longleftrightarrow>
     (\<forall>(arg, param) \<in> set (zip args ps). usable m S arg \<and> type_of m arg = type_of m param)"
  by (induction args ps rule: list_induct2') (auto simp: value_is_available_iff)

lemma verify_returns_None_iff:
  "verify_returns m b (flags_of (length (vals m)) S) vs = None \<longleftrightarrow> (\<forall>v \<in> set vs. usable m S v)"
  by (induction vs) (auto simp: value_is_available_iff)

lemma verify_target_args_None_iff:
  "verify_target_args m b (flags_of (length (vals m)) S) target args n = None \<longleftrightarrow> edge_ok m S target args n"
  by (auto simp: verify_target_args_def edge_ok_def valid_block_def verify_args_None_iff)

lemma verify_term_None_iff:
  "verify_term m b (flags_of (length (vals m)) S) = None \<longleftrightarrow> term_ok m S (blk_term (blocks m ! b))"
  by (auto simp: verify_term_def term_ok_def Let_def value_is_available_iff verify_returns_None_iff
      simp flip: verify_target_args_None_iff [of m b] split: xair_term_kind.split option.split)

lemma verify_ops_iff:
  assumes "srcs_shape m"
  shows "verify_ops m b is (flags_of (length (vals m)) S) = Inr fl \<longleftrightarrow>
     (\<forall>i < length is. block_op_ok m b (S \<union> (\<lambda>j. dst (ops m ! j)) ` set (take i is)) (is ! i)) \<and>
     fl = flags_of (length (vals m)) (S \<union> (\<lambda>j. dst (ops m ! j)) ` set is)"
proof (induction "is" arbitrary: S)
  case Nil
  show ?case by auto
next
  case (Cons i "is")
  show ?case
  proof (cases "block_op_ok m b S i")
    case True
    then have "verify_srcs m b (flags_of (length (vals m)) S) (op_srcs (ops m ! i)) = None"
      "verify_op m (ops m ! i) b = None"
      using assms
      by (auto simp: block_op_ok_def Let_def srcs_shape_def verify_op_None_iff verify_srcs_None_iff)
    with True have "verify_ops m b (i # is) (flags_of (length (vals m)) S) =
        verify_ops m b is (flags_of (length (vals m)) (insert (dst (ops m ! i)) S))"
      by (simp add: block_op_ok_def Let_def valid_value_def flags_of_update)
    with Cons [of "insert (dst (ops m ! i)) S"] True show ?thesis
      by (simp add: all_less_Suc_split)
  next
    case False
    have "verify_srcs m b (flags_of (length (vals m)) S) (op_srcs (ops m ! i)) \<noteq> None \<or>
        verify_op m (ops m ! i) b \<noteq> None"
      if "i < length (ops m)" "dst (ops m ! i) < length (vals m)" "val_block (vals m ! dst (ops m ! i)) = b"
        "val_op (vals m ! dst (ops m ! i)) = i"
      using assms False that
      by (auto simp: block_op_ok_def Let_def srcs_shape_def verify_op_None_iff verify_srcs_None_iff)
    then have "\<exists>e. verify_ops m b (i # is) (flags_of (length (vals m)) S) = Inl e"
      by (auto simp: Let_def valid_value_def split: option.splits)
    with False show ?thesis by force
  qed
qed

lemma verify_block_None_iff:
  assumes "srcs_shape m"
  shows "verify_block m b = None \<longleftrightarrow> block_ok m b"
proof -
  have "verify_block m b = None \<longleftrightarrow>
    (\<exists>fl fl'. verify_params m b (params (blocks m ! b)) (flags_of (length (vals m)) {}) = Inr fl \<and>
       verify_ops m b (blk_ops (blocks m ! b)) fl = Inr fl' \<and> verify_term m b fl' = None)"
    by (auto simp: verify_block_def Let_def flags_of_empty split: sum.splits)
  also have "\<dots> \<longleftrightarrow> block_ok m b"
    using verify_ops_iff [OF assms]
    by (auto simp: verify_params_iff verify_term_None_iff block_ok_def Let_def avail_at_def)
  finally show ?thesis .
qed

lemma verify_blocks_OK_iff:
  assumes "\<And>b. b \<in> set bs \<Longrightarrow> al (Site_available b) (if length (vals m) = 0 then 1 else length (vals m))"
  shows "fst (verify_blocks al m bs) = XAIR_OK \<longleftrightarrow> (\<forall>b \<in> set bs. verify_block m b = None)"
  using assms by (induction bs) (auto split: option.split)

lemma verify_OK_iff:
  assumes "srcs_shape m"
    and "\<And>b n. al (Site_available b) n"
  shows "fst (xair_verify_module al m) = XAIR_OK \<longleftrightarrow> module_ok m"
  using assms
  by (auto simp: xair_verify_module_def verify_blocks_OK_iff module_ok_def verify_block_None_iff)

lemma verify_blocks_OK:
  "fst (verify_blocks al m bs) = XAIR_OK \<Longrightarrow> b \<in> set bs \<Longrightarrow> verify_block m b = None"
  by (induction bs) (auto split: option.splits if_splits)

lemma verify_OK_sound:
  assumes "srcs_shape m" "fst (xair_verify_module al m) = XAIR_OK"
  shows "module_ok m"
  using assms verify_blocks_OK [of al m "[0..<length (blocks m)]"]
  by (auto simp: xair_verify_module_def module_ok_def verify_block_None_iff)

lemma wf_module_srcs_shape: "wf_module m \<Longrightarrow> srcs_shape m"
  by (auto simp: wf_module_def srcs_shape_def op_wf_def Let_def in_set_conv_nth)

end
