(* ===== verification/Xair_Memory.thy ===== *)
theory Xair_Memory
  imports Xair_Verify
begin

text \<open>
  The executor's state and its byte memory (\<^verbatim>\<open>src/src/xair.c\<close>, \<open>xair_exec_page\<close> to \<open>exec_load_u64\<close>): a
  list of 4096-byte pages, each with a byte array and an array of defined flags. The locale
  \<open>byte_memory\<close> states what a memory with a one-byte write and a one-byte read promises; what the loops
  over byte ranges do is proved in it once. The interpretation \<open>paged\<close> discharges the laws for the paged
  memory of the code, so that the pages refine a map from spaces and addresses to bytes, and the integer
  encodings in both byte orders are proved to round-trip.
\<close>

section \<open>Values and the state\<close>

record xair_exec_value =
  ev_type :: xair_type
  lo :: u64
  hi :: u64

text \<open>
  The two arrays of a page have 4096 elements; they are functions of the index, and every index the code
  uses is masked to twelve bits (\<open>page_offset_less\<close>).
\<close>

record xair_exec_page =
  space :: nat
  number :: u64
  bytes :: "nat \<Rightarrow> u8"
  byte_defined :: "nat \<Rightarrow> bool"

record xair_exec_state =
  ex_module :: xair_module
  ex_values :: "xair_exec_value list"
  ex_defined :: "bool list"
  pages :: "xair_exec_page list"
  page_cap :: nat
  mem_generation :: u64

definition exec_value_make :: "xair_type \<Rightarrow> u64 \<Rightarrow> u64 \<Rightarrow> xair_exec_value" where
  "exec_value_make t l h = \<lparr>ev_type = t, lo = truncate_to_type l t, hi = h\<rparr>"

definition xair_exec_i :: "nat \<Rightarrow> u64 \<Rightarrow> xair_exec_value" where
  "xair_exec_i b v = exec_value_make (xair_type_i b) v 0"

definition xair_exec_addr :: "nat \<Rightarrow> u64 \<Rightarrow> xair_exec_value" where
  "xair_exec_addr b v = exec_value_make (xair_type_addr b) v 0"

definition xair_exec_mem :: "nat \<Rightarrow> nat \<Rightarrow> xair_exec_value" where
  "xair_exec_mem sp addr_bits = exec_value_make (xair_type_mem sp addr_bits) 0 0"

definition exec_scalar_u64_type :: "xair_type \<Rightarrow> bool" where
  "exec_scalar_u64_type t \<longleftrightarrow> (is_int t \<or> is_addr t) \<and> bits t \<le> 64"

definition exec_byte_sized_scalar :: "xair_type \<Rightarrow> nat option" where
  "exec_byte_sized_scalar t =
     (if \<not> exec_scalar_u64_type t \<or> bits t = 1 \<or> bits t mod 8 \<noteq> 0 then None else Some (bits t div 8))"

definition exec_check_value_slot :: "xair_exec_state \<Rightarrow> xair_value_id \<Rightarrow> bool" where
  "exec_check_value_slot st v \<longleftrightarrow> v < length (ex_values st) \<and> v < length (vals (ex_module st))"

definition exec_define_value ::
  "xair_value_id \<Rightarrow> xair_exec_value \<Rightarrow> (xair_exec_state, unit) xop" where
  "exec_define_value v concrete st =
     (if \<not> exec_check_value_slot st v then (Err XAIR_ERR_BAD_ARG, st)
      else if \<not> xair_type_equal (val_type (vals (ex_module st) ! v)) (ev_type concrete)
      then (Err XAIR_ERR_BAD_ARG, st)
      else (Ok (), st\<lparr>ex_values := (ex_values st)[v := concrete],
                      ex_defined := (ex_defined st)[v := True]\<rparr>))"

definition exec_read_value :: "xair_exec_state \<Rightarrow> xair_value_id \<Rightarrow> xair_exec_value xres" where
  "exec_read_value st v =
     (if \<not> exec_check_value_slot st v then Err XAIR_ERR_BAD_ARG
      else if \<not> ex_defined st ! v then
        (if value_is_global_const (ex_module st) v
         then Ok (exec_value_make (val_type (vals (ex_module st) ! v))
                    (imm (ops (ex_module st) ! val_op (vals (ex_module st) ! v))) 0)
         else Err XAIR_ERR_BAD_ARG)
      else Ok (ex_values st ! v))"

section \<open>Pages\<close>

abbreviation sizeof_page :: nat where "sizeof_page \<equiv> 8208"

definition page_number :: "u64 \<Rightarrow> u64" where
  "page_number address = drop_bit 12 address"

definition page_offset :: "u64 \<Rightarrow> nat" where
  "page_offset address = unat (address AND 0xfff)"

text \<open>The index of the first page with this space and number.\<close>

fun exec_find_page :: "xair_exec_page list \<Rightarrow> nat \<Rightarrow> u64 \<Rightarrow> nat option" where
  "exec_find_page [] sp n = None"
| "exec_find_page (p # ps) sp n =
     (if space p = sp \<and> number p = n then Some 0 else map_option Suc (exec_find_page ps sp n))"

definition exec_get_or_create_page :: "allocator \<Rightarrow> nat \<Rightarrow> u64 \<Rightarrow> (xair_exec_state, nat) xop" where
  "exec_get_or_create_page al sp n st =
     (case exec_find_page (pages st) sp n of
        Some i \<Rightarrow> (Ok i, st)
      | None \<Rightarrow>
          (case grow_array al Site_pages sizeof_page (page_cap st) (length (pages st) + 1) of
             Err e \<Rightarrow> (Err e, st)
           | Ok cap \<Rightarrow>
               (Ok (length (pages st)),
                st\<lparr>page_cap := cap,
                   pages := pages st @ [\<lparr>space = sp, number = n, bytes = (\<lambda>_. 0),
                                         byte_defined = (\<lambda>_. False)\<rparr>]\<rparr>)))"

definition exec_range_wraps :: "u64 \<Rightarrow> nat \<Rightarrow> bool" where
  "exec_range_wraps address sz \<longleftrightarrow> sz \<noteq> 0 \<and> sz - 1 > unat (- 1 - address)"

text \<open>The bodies of the loops of \<open>xair_exec_store_bytes\<close> and \<open>xair_exec_load_bytes\<close>.\<close>

definition exec_store_byte :: "allocator \<Rightarrow> nat \<Rightarrow> u64 \<Rightarrow> u8 \<Rightarrow> (xair_exec_state, unit) xop" where
  "exec_store_byte al sp current d st =
     (case exec_get_or_create_page al sp (page_number current) st of
        (Err e, st1) \<Rightarrow> (Err e, st1)
      | (Ok i, st1) \<Rightarrow>
          (let page = pages st1 ! i;
               offset = page_offset current
           in (Ok (), st1\<lparr>pages := (pages st1)[i :=
                 page\<lparr>bytes := (bytes page)(offset := d),
                      byte_defined := (byte_defined page)(offset := True)\<rparr>]\<rparr>)))"

definition exec_load_byte :: "xair_exec_state \<Rightarrow> nat \<Rightarrow> u64 \<Rightarrow> u8 option" where
  "exec_load_byte st sp current =
     (case exec_find_page (pages st) sp (page_number current) of
        None \<Rightarrow> None
      | Some i \<Rightarrow>
          (let page = pages st ! i;
               offset = page_offset current
           in if \<not> byte_defined page offset then None else Some (bytes page offset)))"

fun store_each :: "(nat \<Rightarrow> u64 \<Rightarrow> u8 \<Rightarrow> ('s, unit) xop) \<Rightarrow> nat \<Rightarrow> u64 \<Rightarrow> u8 list \<Rightarrow> ('s, unit) xop" where
  "store_each wr sp current [] st = (Ok (), st)"
| "store_each wr sp current (d # ds) st =
     (case wr sp current d st of
        (Err e, st1) \<Rightarrow> (Err e, st1)
      | (Ok _, st1) \<Rightarrow> store_each wr sp (current + 1) ds st1)"

fun load_each :: "('s \<Rightarrow> nat \<Rightarrow> u64 \<Rightarrow> u8 option) \<Rightarrow> 's \<Rightarrow> nat \<Rightarrow> u64 \<Rightarrow> nat \<Rightarrow> u8 list option" where
  "load_each rd st sp current 0 = Some []"
| "load_each rd st sp current (Suc n) =
     (case rd st sp current of
        None \<Rightarrow> None
      | Some d \<Rightarrow> map_option (Cons d) (load_each rd st sp (current + 1) n))"

definition xair_exec_store_bytes ::
  "allocator \<Rightarrow> nat \<Rightarrow> u64 \<Rightarrow> u8 list \<Rightarrow> (xair_exec_state, unit) xop" where
  "xair_exec_store_bytes al sp address data st =
     (if exec_range_wraps address (length data) then (Err XAIR_ERR_BAD_ARG, st)
      else store_each (exec_store_byte al) sp address data st)"

definition xair_exec_load_bytes :: "xair_exec_state \<Rightarrow> nat \<Rightarrow> u64 \<Rightarrow> nat \<Rightarrow> u8 list xres" where
  "xair_exec_load_bytes st sp address sz =
     (if exec_range_wraps address sz then Err XAIR_ERR_BAD_ARG
      else case load_each exec_load_byte st sp address sz of
        None \<Rightarrow> Err XAIR_ERR_RANGE
      | Some data \<Rightarrow> Ok data)"

definition byte_shift :: "xair_endian \<Rightarrow> nat \<Rightarrow> nat \<Rightarrow> nat" where
  "byte_shift en sz i = (if en = XAIR_ENDIAN_LE then i else sz - 1 - i)"

definition encode_u64 :: "xair_endian \<Rightarrow> nat \<Rightarrow> u64 \<Rightarrow> u8 list" where
  "encode_u64 en sz v =
     map (\<lambda>i. ucast (drop_bit (byte_shift en sz i * 8) v AND 0xff)) [0..<sz]"

definition decode_u64 :: "xair_endian \<Rightarrow> u8 list \<Rightarrow> u64" where
  "decode_u64 en data =
     foldl (\<lambda>v i. v OR push_bit (byte_shift en (length data) i * 8) (ucast (data ! i)))
       0 [0..<length data]"

definition exec_store_u64 ::
  "allocator \<Rightarrow> nat \<Rightarrow> u64 \<Rightarrow> u64 \<Rightarrow> nat \<Rightarrow> xair_endian \<Rightarrow> (xair_exec_state, unit) xop" where
  "exec_store_u64 al sp address v sz en st =
     (if sz > 8 then (Err XAIR_ERR_UNSUPPORTED, st)
      else xair_exec_store_bytes al sp address (encode_u64 en sz v) st)"

definition exec_load_u64 ::
  "xair_exec_state \<Rightarrow> nat \<Rightarrow> u64 \<Rightarrow> nat \<Rightarrow> xair_endian \<Rightarrow> u64 xres" where
  "exec_load_u64 st sp address sz en =
     (if sz > 8 then Err XAIR_ERR_BAD_ARG
      else case xair_exec_load_bytes st sp address sz of
        Err e \<Rightarrow> Err e
      | Ok data \<Rightarrow> Ok (decode_u64 en data))"

section \<open>The interface of a byte memory\<close>

locale byte_memory =
  fixes rd :: "'s \<Rightarrow> nat \<Rightarrow> u64 \<Rightarrow> u8 option"
    and wr :: "nat \<Rightarrow> u64 \<Rightarrow> u8 \<Rightarrow> ('s, unit) xop"
  assumes wr_Ok: "wr sp a d s = (Ok u, s') \<Longrightarrow> rd s' sp' a' = (if sp' = sp \<and> a' = a then Some d else rd s sp' a')"
    and wr_Err: "wr sp a d s = (Err e, s') \<Longrightarrow> rd s' sp' a' = rd s sp' a'"
begin

text \<open>What a read returns after the bytes \<open>ds\<close> were written from address \<open>a\<close>.\<close>

definition overlay :: "'s \<Rightarrow> nat \<Rightarrow> u64 \<Rightarrow> u8 list \<Rightarrow> nat \<Rightarrow> u64 \<Rightarrow> u8 option" where
  "overlay s sp a ds sp' a' =
     (if sp' = sp \<and> unat (a' - a) < length ds then Some (ds ! unat (a' - a)) else rd s sp' a')"

lemma overlay_Nil: "overlay s sp a [] sp' a' = rd s sp' a'"
  by (simp add: overlay_def)

lemma overlay_Cons:
  assumes "wr sp a d s = (Ok u, s1)" "length ds < 2 ^ 64"
  shows "overlay s1 sp (a + 1) ds sp' a' = overlay s sp a (d # ds) sp' a'"
proof (cases "a' = a")
  case True
  have "unat (a' - (a + 1)) = 2 ^ 64 - 1" using True by (simp add: unsigned_minus_1_eq_mask mask_eq_exp_minus_1)
  with True assms show ?thesis by (auto simp: overlay_def wr_Ok)
next
  case False
  then have "0 < unat (a' - a)" by (simp add: unat_gt_0)
  then have "unat (a' - a) = Suc (unat (a' - (a + 1)))"
    using unat_minus_one [of "a' - a"] False by (simp add: diff_diff_eq)
  with False assms show ?thesis by (auto simp: overlay_def wr_Ok)
qed

lemma store_each_Ok:
  assumes "store_each wr sp a ds s = (Ok u, s')" "length ds \<le> 2 ^ 64"
  shows "rd s' sp' a' = overlay s sp a ds sp' a'"
  using assms
proof (induction ds arbitrary: a s)
  case Nil
  then show ?case by (simp add: overlay_Nil)
next
  case (Cons d ds)
  then obtain v s1 where w: "wr sp a d s = (Ok v, s1)" "store_each wr sp (a + 1) ds s1 = (Ok u, s')"
    by (auto split: prod.splits xres.splits)
  with Cons show ?case by (simp add: overlay_Cons [OF w(1)])
qed

text \<open>A store that fails has written a proper prefix of the bytes, up to the byte whose write failed.\<close>

lemma store_each_Err:
  assumes "store_each wr sp a ds s = (Err e, s')" "length ds \<le> 2 ^ 64"
  shows "\<exists>n < length ds. (\<exists>s1. wr sp (a + of_nat n) (ds ! n) s1 = (Err e, s')) \<and>
    (\<forall>sp' a'. rd s' sp' a' = overlay s sp a (take n ds) sp' a')"
  using assms
proof (induction ds arbitrary: a s)
  case Nil
  then show ?case by simp
next
  case (Cons d ds)
  show ?case
  proof (cases "wr sp a d s")
    case (Pair r s1)
    show ?thesis
    proof (cases r)
      case (Ok u)
      with Cons Pair obtain n where n: "n < length ds" "\<exists>s2. wr sp (a + 1 + of_nat n) (ds ! n) s2 = (Err e, s')"
        "\<forall>sp' a'. rd s' sp' a' = overlay s1 sp (a + 1) (take n ds) sp' a'" by fastforce
      then have "\<exists>s2. wr sp (a + of_nat (Suc n)) ((d # ds) ! Suc n) s2 = (Err e, s')" by (simp add: algebra_simps)
      with Cons Pair Ok n show ?thesis
        by (intro exI [of _ "Suc n"]) (auto simp: overlay_Cons [of sp a d s u s1 "take n ds"])
    next
      case (Err e')
      with Cons Pair show ?thesis by (auto simp: overlay_Nil wr_Err intro!: exI [of _ 0])
    qed
  qed
qed

lemma load_each_Some_iff:
  assumes "n \<le> 2 ^ 64"
  shows "load_each rd s sp a n = Some ds \<longleftrightarrow>
    length ds = n \<and> (\<forall>i < n. rd s sp (a + of_nat i) = Some (ds ! i))"
  using assms
proof (induction n arbitrary: a ds)
  case 0
  then show ?case by auto
next
  case (Suc n)
  then show ?case
    by (cases ds) (auto simp: all_less_Suc_split algebra_simps split: option.splits)
qed

lemma load_store_each:
  assumes "store_each wr sp a ds s = (Ok u, s')" "length ds \<le> 2 ^ 64"
  shows "load_each rd s' sp a (length ds) = Some ds"
proof -
  have "rd s' sp (a + of_nat i) = Some (ds ! i)" if "i < length ds" for i
    using that assms
    by (simp add: store_each_Ok [OF assms] overlay_def unsigned_of_nat take_bit_nat_eq_self)
  then show ?thesis using assms by (simp add: load_each_Some_iff)
qed

end

section \<open>The paged memory\<close>

lemma page_offset_less: "page_offset a < 4096"
proof -
  have "a AND 0xfff = take_bit 12 a" by (simp add: take_bit_eq_mask mask_eq_exp_minus_1)
  then have "page_offset a = take_bit 12 (unat a)" by (simp add: page_offset_def unsigned_take_bit_eq)
  then show ?thesis by (simp add: take_bit_nat_eq_self take_bit_nat_less_exp [of 12, simplified])
qed

text \<open>An address is determined by its page number and its offset.\<close>

lemma page_split: "page_number a = page_number b \<and> page_offset a = page_offset b \<longleftrightarrow> a = b"
proof
  assume h: "page_number a = page_number b \<and> page_offset a = page_offset b"
  have m: "x AND 0xfff = take_bit 12 x" for x :: u64 by (simp add: take_bit_eq_mask mask_eq_exp_minus_1)
  have "push_bit 12 (drop_bit 12 a) = push_bit 12 (drop_bit 12 b)" "take_bit 12 a = take_bit 12 b"
    using h by (auto simp: page_number_def page_offset_def m intro: unsigned_word_eqI)
  then show "a = b" by (metis bits_ident)
qed simp

lemma exec_find_page_Some:
  "exec_find_page ps sp n = Some i \<Longrightarrow> i < length ps \<and> space (ps ! i) = sp \<and> number (ps ! i) = n"
  by (induction ps arbitrary: i) (auto split: if_splits)

text \<open>Searching depends only on the keys of the pages, and a new page is found at the end.\<close>

lemma exec_find_page_keys:
  "map (\<lambda>p. (space p, number p)) ps = map (\<lambda>p. (space p, number p)) qs \<Longrightarrow>
   exec_find_page ps sp n = exec_find_page qs sp n"
  by (induction ps qs rule: list_induct2') auto

lemma exec_find_page_append:
  "exec_find_page (ps @ [p]) sp n =
    (case exec_find_page ps sp n of Some i \<Rightarrow> Some i
     | None \<Rightarrow> if space p = sp \<and> number p = n then Some (length ps) else None)"
  by (induction ps) (auto split: option.splits)

lemma exec_get_or_create_page_Ok:
  assumes "exec_get_or_create_page al sp n st = (Ok i, st1)"
  shows "exec_find_page (pages st1) sp n = Some i" "exec_load_byte st1 sp' a' = exec_load_byte st sp' a'"
proof -
  show "exec_find_page (pages st1) sp n = Some i"
    using assms
    by (auto simp: exec_get_or_create_page_def exec_find_page_append split: option.splits xres.splits)
  show "exec_load_byte st1 sp' a' = exec_load_byte st sp' a'"
  proof (cases "exec_find_page (pages st) sp' (page_number a')")
    case None
    with assms show ?thesis
      by (auto simp: exec_get_or_create_page_def exec_find_page_append exec_load_byte_def nth_append
          split: option.splits xres.splits if_splits)
  next
    case (Some j)
    with assms exec_find_page_Some [OF Some] show ?thesis
      by (auto simp: exec_get_or_create_page_def exec_find_page_append exec_load_byte_def nth_append
          split: option.splits xres.splits)
  qed
qed

lemma exec_store_byte_Ok:
  assumes "exec_store_byte al sp a d st = (Ok u, st')"
  shows "exec_load_byte st' sp' a' = (if sp' = sp \<and> a' = a then Some d else exec_load_byte st sp' a')"
proof -
  obtain i st1 where g: "exec_get_or_create_page al sp (page_number a) st = (Ok i, st1)"
    and st': "st' = st1\<lparr>pages := (pages st1)[i := (pages st1 ! i)
        \<lparr>bytes := (bytes (pages st1 ! i))(page_offset a := d),
         byte_defined := (byte_defined (pages st1 ! i))(page_offset a := True)\<rparr>]\<rparr>"
    using assms by (auto simp: exec_store_byte_def Let_def split: prod.splits xres.splits)
  have i: "i < length (pages st1)" "space (pages st1 ! i) = sp" "number (pages st1 ! i) = page_number a"
    using exec_find_page_Some exec_get_or_create_page_Ok(1) [OF g] by auto
  have f: "exec_find_page (pages st') s n = exec_find_page (pages st1) s n" for s n
    unfolding st' 
    by (rule exec_find_page_keys)
      (auto simp: nth_list_update i intro!: nth_equalityI)
  note e = exec_get_or_create_page_Ok [OF g]
  show ?thesis
  proof (cases "exec_find_page (pages st1) sp' (page_number a')")
    case None
    with e(1) have "\<not> (sp' = sp \<and> a' = a)" by auto
    with None show ?thesis
      by (simp add: e(2) [symmetric] exec_load_byte_def [of st'] exec_load_byte_def [of st1] f)
  next
    case (Some j)
    have "j = i \<longleftrightarrow> sp' = sp \<and> page_number a' = page_number a"
      using Some exec_find_page_Some [OF Some] i e(1) by (metis option.inject)
    moreover have "exec_load_byte st' sp' a' =
        (let page = pages st' ! j in if byte_defined page (page_offset a') then Some (bytes page (page_offset a')) else None)"
      using Some by (simp add: exec_load_byte_def f Let_def)
    ultimately show ?thesis using Some i page_split [of a' a]
      by (auto simp: e(2) [symmetric] exec_load_byte_def [of st1] st' Let_def)
  qed
qed

lemma exec_store_byte_Err:
  assumes "exec_store_byte al sp a d st = (Err e, st')"
  shows "st' = st \<and> e = XAIR_ERR_OOM"
  using assms
  by (auto simp: exec_store_byte_def exec_get_or_create_page_def Let_def
      split: prod.splits xres.splits option.splits dest: grow_array_Err)

interpretation paged: byte_memory exec_load_byte "exec_store_byte al" for al
  by unfold_locales (auto simp: exec_store_byte_Ok dest: exec_store_byte_Err)

section \<open>Integers in memory\<close>

lemma byte_shift_less: "i < sz \<Longrightarrow> byte_shift en sz i < sz"
  by (auto simp: byte_shift_def)

lemma byte_shift_self: "i < sz \<Longrightarrow> byte_shift en sz (byte_shift en sz i) = i"
  by (auto simp: byte_shift_def)

lemma bit_foldl_or:
  "bit (foldl (\<lambda>v i. v OR f i) a xs) n \<longleftrightarrow> bit a n \<or> (\<exists>i \<in> set xs. bit (f i) n)" for a :: u64
  by (induction xs arbitrary: a) (auto simp: bit_or_iff)

lemma bit_encode_byte:
  "bit (ucast (drop_bit k v AND 0xff) :: u8) n \<longleftrightarrow> n < 8 \<and> bit v (k + n)" for v :: u64
proof -
  have "drop_bit k v AND 0xff = take_bit 8 (drop_bit k v)" by (simp add: take_bit_eq_mask mask_eq_exp_minus_1)
  then show ?thesis by (auto simp: bit_simps)
qed

lemma bit_ucast_u8: "bit (ucast x :: u64) n \<longleftrightarrow> bit x n" for x :: u8
  by (auto simp: bit_simps dest: bit_imp_le_length)

lemma length_encode_u64 [simp]: "length (encode_u64 en sz v) = sz"
  by (simp add: encode_u64_def)

lemma decode_encode_u64:
  assumes "sz \<le> 8"
  shows "decode_u64 en (encode_u64 en sz v) = take_bit (8 * sz) v"
proof (rule bit_word_eqI)
  fix n
  assume n: "n < LENGTH(64)"
  have "bit (decode_u64 en (encode_u64 en sz v)) n \<longleftrightarrow>
      (\<exists>i < sz. byte_shift en sz i * 8 \<le> n \<and> n - byte_shift en sz i * 8 < 8 \<and> bit v n)"
    using n
    by (auto simp: decode_u64_def bit_foldl_or encode_u64_def bit_push_bit_iff bit_ucast_u8 bit_encode_byte)
  also have "\<dots> \<longleftrightarrow> n < 8 * sz \<and> bit v n" (is "?l \<longleftrightarrow> ?r")
  proof
    assume ?l
    then obtain i where "i < sz" "byte_shift en sz i * 8 \<le> n" "n - byte_shift en sz i * 8 < 8" "bit v n" by auto
    with byte_shift_less [of i sz en] show ?r by auto
  next
    assume r: ?r
    then have "n div 8 < sz" by auto
    with r show ?l
      by (intro exI [of _ "byte_shift en sz (n div 8)"]) (auto simp: byte_shift_less byte_shift_self)
  qed
  finally show "bit (decode_u64 en (encode_u64 en sz v)) n = bit (take_bit (8 * sz) v) n"
    by (simp add: bit_take_bit_iff)
qed

lemma encode_u64_BE: "encode_u64 XAIR_ENDIAN_BE sz v = rev (encode_u64 XAIR_ENDIAN_LE sz v)"
  by (rule nth_equalityI) (auto simp: encode_u64_def byte_shift_def rev_nth)

lemma load_store_bytes:
  assumes "xair_exec_store_bytes al sp a data st = (Ok u, st')" "length data \<le> 2 ^ 64"
  shows "xair_exec_load_bytes st' sp a (length data) = Ok data"
  using assms paged.load_store_each
  by (auto simp: xair_exec_store_bytes_def xair_exec_load_bytes_def split: if_splits)

lemma load_store_u64:
  assumes "exec_store_u64 al sp a v sz en st = (Ok u, st')"
  shows "exec_load_u64 st' sp a sz en = Ok (take_bit (8 * sz) v)"
proof -
  have "sz \<le> 8" "xair_exec_store_bytes al sp a (encode_u64 en sz v) st = (Ok u, st')"
    using assms by (auto simp: exec_store_u64_def split: if_splits)
  with load_store_bytes [of al sp a "encode_u64 en sz v" st u st'] show ?thesis
    by (simp add: exec_load_u64_def decode_encode_u64)
qed

text \<open>A store leaves every other byte, so a load from a range it does not meet is unchanged.\<close>

lemma store_bytes_frame:
  assumes "xair_exec_store_bytes al sp a data st = (r, st')" "length data \<le> 2 ^ 64"
    and "sp' \<noteq> sp \<or> length data \<le> unat (a' - a)"
  shows "exec_load_byte st' sp' a' = exec_load_byte st sp' a'"
proof (cases "exec_range_wraps a (length data)")
  case True
  with assms show ?thesis by (simp add: xair_exec_store_bytes_def)
next
  case False
  with assms have st: "store_each (exec_store_byte al) sp a data st = (r, st')"
    by (simp add: xair_exec_store_bytes_def)
  show ?thesis
  proof (cases r)
    case (Ok u)
    with st assms show ?thesis by (auto simp: paged.store_each_Ok paged.overlay_def)
  next
    case (Err e)
    with st assms paged.store_each_Err [of al sp a data st e st'] obtain n where "n < length data"
      "exec_load_byte st' sp' a' = paged.overlay st sp a (take n data) sp' a'" by auto
    with assms show ?thesis by (auto simp: paged.overlay_def)
  qed
qed

lemma load_each_cong:
  "(\<And>i. i < n \<Longrightarrow> rd s sp (a + of_nat i) = rd s' sp (a + of_nat i)) \<Longrightarrow> load_each rd s sp a n = load_each rd s' sp a n"
proof (induction n arbitrary: a)
  case (Suc n)
  have "rd s sp a = rd s' sp a" using Suc.prems [of 0] by simp
  moreover have "load_each rd s sp (a + 1) n = load_each rd s' sp (a + 1) n"
    by (rule Suc.IH) (use Suc.prems [of "Suc _"] in \<open>simp add: algebra_simps\<close>)
  ultimately show ?case by (simp split: option.split)
qed simp

text \<open>
  The two ways a store can fail: the range wraps around and nothing happens, or the array of pages cannot grow when a
  byte needs a page that does not exist, and the bytes before it have been written.
\<close>

definition page_refused :: "allocator \<Rightarrow> nat \<Rightarrow> u64 \<Rightarrow> xair_exec_state \<Rightarrow> bool" where
  "page_refused al sp a st \<longleftrightarrow> exec_find_page (pages st) sp (page_number a) = None \<and>
     grow_array al Site_pages sizeof_page (page_cap st) (length (pages st) + 1) = Err XAIR_ERR_OOM"

lemma store_byte_refused:
  assumes "exec_store_byte al sp a d st = (Err e, st')"
  shows "e = XAIR_ERR_OOM \<and> page_refused al sp a st'"
  using assms grow_array_Err
  by (auto simp: exec_store_byte_def exec_get_or_create_page_def page_refused_def Let_def
      split: option.splits xres.splits prod.splits)

lemma store_bytes_Err:
  assumes "xair_exec_store_bytes al sp a data st = (Err e, st')"
  shows "if exec_range_wraps a (length data) then e = XAIR_ERR_BAD_ARG \<and> st' = st
    else e = XAIR_ERR_OOM \<and> (\<exists>k < length data. page_refused al sp (a + of_nat k) st' \<and>
      (\<forall>sp' a'. exec_load_byte st' sp' a' =
        (if sp' = sp \<and> unat (a' - a) < k then Some (data ! unat (a' - a)) else exec_load_byte st sp' a')))"
proof (cases "exec_range_wraps a (length data)")
  case False
  with assms have s: "store_each (exec_store_byte al) sp a data st = (Err e, st')" by (simp add: xair_exec_store_bytes_def)
  have "length data \<le> 2 ^ 64"
  proof -
    have "unat (- 1 - a) < 2 ^ LENGTH(64)" by (rule unsigned_less)
    then show ?thesis using False by (auto simp: exec_range_wraps_def)
  qed
  from paged.store_each_Err [OF s this] obtain k st1 where k: "k < length data"
    "exec_store_byte al sp (a + of_nat k) (data ! k) st1 = (Err e, st')"
    "\<forall>sp' a'. exec_load_byte st' sp' a' = paged.overlay st sp a (take k data) sp' a'" by blast
  then show ?thesis using False store_byte_refused [OF k(2)]
    by (auto simp: paged.overlay_def intro!: exI [of _ k])
qed (use assms in \<open>simp add: xair_exec_store_bytes_def\<close>)

end
