(* ===== verification/Xair_Exec.thy ===== *)
theory Xair_Exec
  imports Xair_Memory
begin

text \<open>
  The concrete executor of \<^verbatim>\<open>src/src/xair.c\<close>: flag computation, one function per kind of operation,
  argument transfer along control-flow edges and the bounded run loop. The run loop recurses on the
  number of block executions that remain, so it is total: its step limit is the fuel of the code itself.

  The properties: a conforming state stays conforming, and a verified module never makes the executor fail
  with \<open>XAIR_ERR_BAD_ARG\<close> except by an access that wraps around the address space.
\<close>

section \<open>Creating a state and setting parameters\<close>

definition zero_value :: xair_exec_value where
  "zero_value = \<lparr>ev_type = xair_type_invalid, lo = 0, hi = 0\<rparr>"

definition xair_exec_state_create :: "allocator \<Rightarrow> xair_module \<Rightarrow> xair_exec_state xres" where
  "xair_exec_state_create al m =
     (let status = fst (xair_verify_module al m);
          n = length (vals m)
      in if status \<noteq> XAIR_OK then Err status
         else if \<not> al Site_state 1 then Err XAIR_ERR_OOM
         else if n \<noteq> 0 \<and> (\<not> al Site_exec_values n \<or> \<not> al Site_exec_defined n) then Err XAIR_ERR_OOM
         else Ok \<lparr>ex_module = m, ex_values = replicate n zero_value, ex_defined = replicate n False,
                  pages = [], page_cap = 0, mem_generation = 0\<rparr>)"

definition xair_exec_set_param ::
  "xair_value_id \<Rightarrow> xair_exec_value \<Rightarrow> (xair_exec_state, unit) xop" where
  "xair_exec_set_param v concrete st =
     (if \<not> exec_check_value_slot st v then (Err XAIR_ERR_BAD_ARG, st)
      else if val_op (vals (ex_module st) ! v) \<noteq> XAIR_INVALID_ID then (Err XAIR_ERR_BAD_ARG, st)
      else exec_define_value v concrete st)"

definition xair_exec_get_value :: "xair_exec_state \<Rightarrow> xair_value_id \<Rightarrow> xair_exec_value xres" where
  "xair_exec_get_value st v = exec_read_value st v"

section \<open>Flags\<close>

abbreviation XAIR_EXEC_FLAG_ZF :: u64 where "XAIR_EXEC_FLAG_ZF \<equiv> 1"
abbreviation XAIR_EXEC_FLAG_CF :: u64 where "XAIR_EXEC_FLAG_CF \<equiv> 2"
abbreviation XAIR_EXEC_FLAG_OF :: u64 where "XAIR_EXEC_FLAG_OF \<equiv> 4"
abbreviation XAIR_EXEC_FLAG_SF :: u64 where "XAIR_EXEC_FLAG_SF \<equiv> 8"
abbreviation XAIR_EXEC_FLAG_PF :: u64 where "XAIR_EXEC_FLAG_PF \<equiv> 16"
abbreviation XAIR_EXEC_FLAG_AF :: u64 where "XAIR_EXEC_FLAG_AF \<equiv> 32"

text \<open>\<open>packed |= flag\<close> under a condition.\<close>

definition or_flag :: "bool \<Rightarrow> u64 \<Rightarrow> u64 \<Rightarrow> u64" where
  "or_flag c flag packed = (if c then packed OR flag else packed)"

definition exec_logic_flags :: "u64 \<Rightarrow> nat \<Rightarrow> u64" where
  "exec_logic_flags result b =
     (let result = result AND mask_for_bits b;
          packed = or_flag (result = 0) XAIR_EXEC_FLAG_ZF 0;
          packed = or_flag (result AND sign_bit_for_bits b \<noteq> 0) XAIR_EXEC_FLAG_SF packed
      in or_flag (even_parity8 result) XAIR_EXEC_FLAG_PF packed)"

definition exec_flags :: "xair_opcode \<Rightarrow> u64 \<Rightarrow> u64 \<Rightarrow> nat \<Rightarrow> u64" where
  "exec_flags oc lhs rhs b =
     (let mask = mask_for_bits b;
          sign = sign_bit_for_bits b;
          lhs = lhs AND mask;
          rhs = rhs AND mask;
          add = (oc = XAIR_OP_FLAGS_ADD);
          result = (if add then (lhs + rhs) AND mask else (lhs - rhs) AND mask);
          lhs_sign = (lhs AND sign \<noteq> 0);
          rhs_sign = (rhs AND sign \<noteq> 0);
          result_sign = (result AND sign \<noteq> 0);
          packed = or_flag (result = 0) XAIR_EXEC_FLAG_ZF 0;
          packed = or_flag (if add then result < lhs else lhs < rhs) XAIR_EXEC_FLAG_CF packed;
          packed = or_flag (if add then lhs_sign = rhs_sign \<and> result_sign \<noteq> lhs_sign
                            else lhs_sign \<noteq> rhs_sign \<and> result_sign \<noteq> lhs_sign) XAIR_EXEC_FLAG_OF packed;
          packed = or_flag result_sign XAIR_EXEC_FLAG_SF packed;
          packed = or_flag (even_parity8 result) XAIR_EXEC_FLAG_PF packed
      in or_flag ((lhs XOR rhs XOR result) AND 0x10 \<noteq> 0) XAIR_EXEC_FLAG_AF packed)"

text \<open>The callers have \<open>0 < shift < b \<le> 64\<close>, so both shift amounts are in the range C defines.\<close>

definition exec_shift_left_flags :: "u64 \<Rightarrow> u64 \<Rightarrow> nat \<Rightarrow> u64" where
  "exec_shift_left_flags lhs shift b =
     (let mask = mask_for_bits b;
          lhs = lhs AND mask;
          result = push_bit (unat shift) lhs AND mask;
          cf = drop_bit (b - unat shift) lhs AND 1;
          packed = or_flag (result = 0) XAIR_EXEC_FLAG_ZF 0;
          packed = or_flag (result AND sign_bit_for_bits b \<noteq> 0) XAIR_EXEC_FLAG_SF packed;
          packed = or_flag (even_parity8 result) XAIR_EXEC_FLAG_PF packed;
          packed = or_flag (cf \<noteq> 0) XAIR_EXEC_FLAG_CF packed
      in or_flag (shift = 1 \<and> (result AND sign_bit_for_bits b \<noteq> 0) \<noteq> (cf \<noteq> 0))
           XAIR_EXEC_FLAG_OF packed)"

section \<open>Operations\<close>

text \<open>
  Every supported case of \<open>exec_binary_op\<close> and \<open>exec_unary_op\<close> ends with \<open>exec_define_value\<close> of the
  destination; the number it stores is computed here, \<open>None\<close> being \<open>XAIR_ERR_UNSUPPORTED\<close>. The
  switch of \<open>exec_binary_op\<close> works on the masked operands.
\<close>

definition exec_binary_switch ::
  "xair_opcode \<Rightarrow> xair_type \<Rightarrow> xair_type \<Rightarrow> xair_type \<Rightarrow> u64 \<Rightarrow> u64 \<Rightarrow> u64 option" where
  "exec_binary_switch oc out lt rt x y =
     (let b = bits lt;
          in_range = (unat y < b)
      in case oc of
           XAIR_OP_ADD \<Rightarrow> Some (x + y)
         | XAIR_OP_SUB \<Rightarrow> Some (x - y)
         | XAIR_OP_MUL \<Rightarrow> Some (x * y)
         | XAIR_OP_AND \<Rightarrow> Some (x AND y)
         | XAIR_OP_OR \<Rightarrow> Some (x OR y)
         | XAIR_OP_XOR \<Rightarrow> Some (x XOR y)
         | XAIR_OP_SHL \<Rightarrow> (if \<not> in_range then None else Some (push_bit (unat y) x))
         | XAIR_OP_LSHR \<Rightarrow> (if \<not> in_range then None else Some (drop_bit (unat y) x))
         | XAIR_OP_ASHR \<Rightarrow>
             (if \<not> in_range then None
              else if y = 0 then Some x
              else if x AND sign_bit_for_bits b \<noteq> 0
              then Some (drop_bit (unat y) x OR push_bit (b - unat y) (mask_for_bits b))
              else Some (drop_bit (unat y) x))
         | XAIR_OP_EQ \<Rightarrow> Some (bool_u64 (x = y))
         | XAIR_OP_NE \<Rightarrow> Some (bool_u64 (x \<noteq> y))
         | XAIR_OP_ULT \<Rightarrow> Some (bool_u64 (x < y))
         | XAIR_OP_ULE \<Rightarrow> Some (bool_u64 (x \<le> y))
         | XAIR_OP_SLT \<Rightarrow> Some (bool_u64 (signed_less_u64 x y b))
         | XAIR_OP_SLE \<Rightarrow> Some (bool_u64 (signed_less_u64 x y b \<or> x = y))
         | XAIR_OP_CONCAT \<Rightarrow>
             (if \<not> is_int out \<or> bits out > 64 \<or> bits rt \<ge> 64 then None
              else Some (push_bit (bits rt) x OR y))
         | XAIR_OP_ADDR_ADD \<Rightarrow> Some (x + y)
         | XAIR_OP_ADDR_SUB \<Rightarrow> Some (x - y)
         | XAIR_OP_FLAGS_ADD \<Rightarrow> (if \<not> is_int lt then None else Some (exec_flags oc x y b))
         | XAIR_OP_FLAGS_SUB \<Rightarrow> (if \<not> is_int lt then None else Some (exec_flags oc x y b))
         | XAIR_OP_FLAGS_SHL \<Rightarrow>
             (if \<not> is_int lt \<or> \<not> is_int rt \<or> y = 0 \<or> \<not> in_range then None
              else Some (exec_shift_left_flags x y b))
         | _ \<Rightarrow> None)"

definition exec_binary_result ::
  "xair_opcode \<Rightarrow> xair_type \<Rightarrow> xair_exec_value \<Rightarrow> xair_exec_value \<Rightarrow> u64 option" where
  "exec_binary_result oc out lhs rhs =
     (if \<not> exec_scalar_u64_type (ev_type lhs) \<or> bits (ev_type lhs) > 64 \<or> bits (ev_type rhs) > 64 then None
      else exec_binary_switch oc out (ev_type lhs) (ev_type rhs)
             (lo lhs AND mask_for_bits (bits (ev_type lhs))) (lo rhs AND mask_for_bits (bits (ev_type rhs))))"

definition exec_unary_result ::
  "xair_opcode \<Rightarrow> xair_type \<Rightarrow> xair_exec_value \<Rightarrow> u64 option" where
  "exec_unary_result oc out s =
     (let b = bits (ev_type s);
          scalars = (exec_scalar_u64_type out \<and> exec_scalar_u64_type (ev_type s));
          move = (if \<not> scalars then None else Some (lo s))
      in case oc of
           XAIR_OP_ZEXT \<Rightarrow> move
         | XAIR_OP_TRUNC \<Rightarrow> move
         | XAIR_OP_INT_TO_ADDR \<Rightarrow> move
         | XAIR_OP_ADDR_TO_INT \<Rightarrow> move
         | XAIR_OP_FLAGS_LOGIC \<Rightarrow>
             (if \<not> is_flags out \<or> \<not> is_int (ev_type s) \<or> b > 64 then None
              else Some (exec_logic_flags (lo s) b))
         | XAIR_OP_SEXT \<Rightarrow>
             (if \<not> scalars then None
              else if lo s AND sign_bit_for_bits b \<noteq> 0 then Some (lo s OR NOT (mask_for_bits b))
              else Some (lo s))
         | XAIR_OP_FLAG_ZF \<Rightarrow> Some (bool_u64 (lo s AND XAIR_EXEC_FLAG_ZF \<noteq> 0))
         | XAIR_OP_FLAG_CF \<Rightarrow> Some (bool_u64 (lo s AND XAIR_EXEC_FLAG_CF \<noteq> 0))
         | XAIR_OP_FLAG_OF \<Rightarrow> Some (bool_u64 (lo s AND XAIR_EXEC_FLAG_OF \<noteq> 0))
         | XAIR_OP_FLAG_SF \<Rightarrow> Some (bool_u64 (lo s AND XAIR_EXEC_FLAG_SF \<noteq> 0))
         | XAIR_OP_FLAG_PF \<Rightarrow> Some (bool_u64 (lo s AND XAIR_EXEC_FLAG_PF \<noteq> 0))
         | XAIR_OP_FLAG_AF \<Rightarrow> Some (bool_u64 (lo s AND XAIR_EXEC_FLAG_AF \<noteq> 0))
         | _ \<Rightarrow> None)"

definition exec_define_result ::
  "xair_op_rec \<Rightarrow> xair_type \<Rightarrow> u64 option \<Rightarrow> (xair_exec_state, unit) xop" where
  "exec_define_result oper out res st =
     (case res of
        None \<Rightarrow> (Err XAIR_ERR_UNSUPPORTED, st)
      | Some r \<Rightarrow> exec_define_value (dst oper) (exec_value_make out r 0) st)"

definition exec_binary_op ::
  "xair_op_rec \<Rightarrow> xair_type \<Rightarrow> xair_exec_value \<Rightarrow> xair_exec_value \<Rightarrow> (xair_exec_state, unit) xop" where
  "exec_binary_op oper out lhs rhs st =
     exec_define_result oper out (exec_binary_result (opcode oper) out lhs rhs) st"

definition exec_unary_op ::
  "xair_op_rec \<Rightarrow> xair_type \<Rightarrow> xair_exec_value \<Rightarrow> (xair_exec_state, unit) xop" where
  "exec_unary_op oper out s st =
     exec_define_result oper out (exec_unary_result (opcode oper) out s) st"

definition exec_memory_op :: "allocator \<Rightarrow> xair_op_rec \<Rightarrow> xair_type \<Rightarrow> (xair_exec_state, unit) xop" where
  "exec_memory_op al oper out st =
     (case exec_read_value st (src oper ! 0) of
        Err e \<Rightarrow> (Err e, st)
      | Ok memory \<Rightarrow>
     (case exec_read_value st (src oper ! 1) of
        Err e \<Rightarrow> (Err e, st)
      | Ok address \<Rightarrow>
          if \<not> is_mem (ev_type memory) \<or> \<not> is_addr (ev_type address) then (Err XAIR_ERR_BAD_ARG, st)
          else if opcode oper = XAIR_OP_LOAD then
            (case exec_byte_sized_scalar out of
               None \<Rightarrow> (Err XAIR_ERR_UNSUPPORTED, st)
             | Some sz \<Rightarrow>
                 (case exec_load_u64 st (aux (ev_type memory)) (lo address) sz (endian oper) of
                    Err e \<Rightarrow> (Err e, st)
                  | Ok loaded \<Rightarrow> exec_define_value (dst oper) (exec_value_make out loaded 0) st))
          else if opcode oper = XAIR_OP_STORE then
            (case exec_read_value st (src oper ! 2) of
               Err e \<Rightarrow> (Err e, st)
             | Ok data \<Rightarrow>
                 (case exec_byte_sized_scalar (ev_type data) of
                    None \<Rightarrow> (Err XAIR_ERR_UNSUPPORTED, st)
                  | Some sz \<Rightarrow>
                      (case exec_store_u64 al (aux (ev_type memory)) (lo address) (lo data) sz (endian oper) st of
                         (Err e, st1) \<Rightarrow> (Err e, st1)
                       | (Ok _, st1) \<Rightarrow>
                           (let st2 = st1\<lparr>mem_generation := mem_generation st1 + 1\<rparr>
                            in exec_define_value (dst oper) (exec_value_make out (mem_generation st2) 0) st2))))
          else (Err XAIR_ERR_UNSUPPORTED, st)))"

definition exec_op :: "allocator \<Rightarrow> xair_op_rec \<Rightarrow> (xair_exec_state, unit) xop" where
  "exec_op al oper st =
     (let out = val_type (vals (ex_module st) ! dst oper)
      in if opcode oper = XAIR_OP_CONST_U64 then
           exec_define_value (dst oper) (exec_value_make out (imm oper) 0) st
         else if opcode oper = XAIR_OP_LOAD \<or> opcode oper = XAIR_OP_STORE then exec_memory_op al oper out st
         else if src_count oper = 1 then
           (case exec_read_value st (src oper ! 0) of
              Err e \<Rightarrow> (Err e, st)
            | Ok s \<Rightarrow> exec_unary_op oper out s st)
         else if src_count oper = 2 then
           (case exec_read_value st (src oper ! 0) of
              Err e \<Rightarrow> (Err e, st)
            | Ok lhs \<Rightarrow>
                (case exec_read_value st (src oper ! 1) of
                   Err e \<Rightarrow> (Err e, st)
                 | Ok rhs \<Rightarrow> exec_binary_op oper out lhs rhs st))
         else (Err XAIR_ERR_UNSUPPORTED, st))"

section \<open>Control flow\<close>

fun exec_read_values :: "xair_exec_state \<Rightarrow> xair_value_id list \<Rightarrow> xair_exec_value list xres" where
  "exec_read_values st [] = Ok []"
| "exec_read_values st (v # vs) =
     (case exec_read_value st v of
        Err e \<Rightarrow> Err e
      | Ok x \<Rightarrow> (case exec_read_values st vs of Err e \<Rightarrow> Err e | Ok xs \<Rightarrow> Ok (x # xs)))"

fun exec_define_values :: "xair_value_id list \<Rightarrow> xair_exec_value list \<Rightarrow> (xair_exec_state, unit) xop" where
  "exec_define_values (p # ps) (x # xs) st =
     (case exec_define_value p x st of
        (Err e, st1) \<Rightarrow> (Err e, st1)
      | (Ok _, st1) \<Rightarrow> exec_define_values ps xs st1)"
| "exec_define_values _ _ st = (Ok (), st)"

abbreviation sizeof_exec_value :: nat where "sizeof_exec_value \<equiv> 24"

definition exec_transfer_args ::
  "allocator \<Rightarrow> xair_block_id \<Rightarrow> xair_value_id list \<Rightarrow> nat \<Rightarrow> (xair_exec_state, unit) xop" where
  "exec_transfer_args al target args arg_count st =
     (if \<not> valid_block (ex_module st) target then (Err XAIR_ERR_BAD_ARG, st)
      else let ps = params (blocks (ex_module st) ! target)
      in if length ps \<noteq> arg_count then (Err XAIR_ERR_BAD_ARG, st)
         else if arg_count = 0 then (Ok (), st)
         else if \<not> al Site_copies (arg_count * sizeof_exec_value) then (Err XAIR_ERR_OOM, st)
         else case exec_read_values st args of
           Err e \<Rightarrow> (Err e, st)
         | Ok copies \<Rightarrow> exec_define_values ps copies st)"

datatype xair_exec_halt_kind =
    XAIR_EXEC_HALTED_RETURN
  | XAIR_EXEC_HALTED_TRAP
  | XAIR_EXEC_HALTED_FAULT
  | XAIR_EXEC_HALTED_STEP_LIMIT
  | XAIR_EXEC_HALTED_UNSUPPORTED

record xair_exec_result =
  halt_kind :: xair_exec_halt_kind
  halt_block :: xair_block_id
  halt_code :: nat
  returns :: "xair_exec_value list"

definition exec_set_result :: "xair_exec_halt_kind \<Rightarrow> xair_block_id \<Rightarrow> nat \<Rightarrow> xair_exec_result" where
  "exec_set_result k b c = \<lparr>halt_kind = k, halt_block = b, halt_code = c, returns = []\<rparr>"

abbreviation XAIR_EXEC_MAX_RETURNS :: nat where "XAIR_EXEC_MAX_RETURNS \<equiv> 8"

text \<open>
  The operations of a block: \<open>Ok None\<close> when all have been executed, \<open>Ok (Some r)\<close> when the run halts at
  an unsupported one.
\<close>

fun exec_block_ops ::
  "allocator \<Rightarrow> xair_block_id \<Rightarrow> xair_op_id list \<Rightarrow> (xair_exec_state, xair_exec_result option) xop" where
  "exec_block_ops al current [] st = (Ok None, st)"
| "exec_block_ops al current (i # is) st =
     (let oper = ops (ex_module st) ! i
      in case exec_op al oper st of
           (Ok _, st1) \<Rightarrow> exec_block_ops al current is st1
         | (Err e, st1) \<Rightarrow>
             (if e = XAIR_ERR_UNSUPPORTED
              then (Ok (Some (exec_set_result XAIR_EXEC_HALTED_UNSUPPORTED current
                                (opcode_num (opcode oper)))), st1)
              else (Err e, st1)))"

text \<open>The terminator: \<open>Inl\<close> a result that halts the run, or \<open>Inr\<close> the block to execute next.\<close>

definition exec_term ::
  "allocator \<Rightarrow> xair_block_id \<Rightarrow> xair_term_rec \<Rightarrow> (xair_exec_state, xair_exec_result + xair_block_id) xop" where
  "exec_term al current t st =
     (let m = ex_module st
      in case term_kind t of
        XAIR_TERM_JUMP \<Rightarrow>
          (case exec_transfer_args al (true_target t) (term_args_const m t False) (true_arg_count t) st of
             (Err e, st1) \<Rightarrow> (Err e, st1)
           | (Ok _, st1) \<Rightarrow> (Ok (Inr (true_target t)), st1))
      | XAIR_TERM_CBRANCH \<Rightarrow>
          (case exec_read_value st (condition t) of
             Err e \<Rightarrow> (Err e, st)
           | Ok cond \<Rightarrow>
               if \<not> is_i1 (ev_type cond) then (Err XAIR_ERR_BAD_ARG, st)
               else let take_true = (lo cond AND 1 \<noteq> 0);
                        target = (if take_true then true_target t else false_target t)
               in case exec_transfer_args al target (term_args_const m t (\<not> take_true))
                         (if take_true then true_arg_count t else false_arg_count t) st of
                    (Err e, st1) \<Rightarrow> (Err e, st1)
                  | (Ok _, st1) \<Rightarrow> (Ok (Inr target), st1))
      | XAIR_TERM_RETURN \<Rightarrow>
          (if true_arg_count t > XAIR_EXEC_MAX_RETURNS then (Err XAIR_ERR_RANGE, st)
           else case exec_read_values st (term_args_const m t False) of
             Err e \<Rightarrow> (Err e, st)
           | Ok rs \<Rightarrow> (Ok (Inl ((exec_set_result XAIR_EXEC_HALTED_RETURN current 0)\<lparr>returns := rs\<rparr>)), st))
      | XAIR_TERM_TRAP \<Rightarrow> (Ok (Inl (exec_set_result XAIR_EXEC_HALTED_TRAP current (code t))), st)
      | XAIR_TERM_FAULT \<Rightarrow> (Ok (Inl (exec_set_result XAIR_EXEC_HALTED_FAULT current (code t))), st)
      | XAIR_TERM_NONE \<Rightarrow> (Err XAIR_ERR_BAD_ARG, st))"

definition exec_block ::
  "allocator \<Rightarrow> xair_block_id \<Rightarrow> (xair_exec_state, xair_exec_result + xair_block_id) xop" where
  "exec_block al current st =
     (let bb = blocks (ex_module st) ! current
      in case exec_block_ops al current (blk_ops bb) st of
           (Err e, st1) \<Rightarrow> (Err e, st1)
         | (Ok (Some r), st1) \<Rightarrow> (Ok (Inl r), st1)
         | (Ok None, st1) \<Rightarrow> exec_term al current (blk_term bb) st1)"

fun exec_loop :: "allocator \<Rightarrow> nat \<Rightarrow> xair_block_id \<Rightarrow> (xair_exec_state, xair_exec_result) xop" where
  "exec_loop al 0 current st = (Ok (exec_set_result XAIR_EXEC_HALTED_STEP_LIMIT current 0), st)"
| "exec_loop al (Suc left) current st =
     (case exec_block al current st of
        (Err e, st1) \<Rightarrow> (Err e, st1)
      | (Ok (Inl r), st1) \<Rightarrow> (Ok r, st1)
      | (Ok (Inr next), st1) \<Rightarrow> exec_loop al left next st1)"

definition xair_exec_run ::
  "allocator \<Rightarrow> xair_module \<Rightarrow> xair_block_id \<Rightarrow> nat \<Rightarrow> (xair_exec_state, xair_exec_result) xop" where
  "xair_exec_run al m entry step_limit st =
     (if ex_module st \<noteq> m \<or> length (ex_values st) \<noteq> length (vals m) \<or> \<not> valid_block m entry
      then (Err XAIR_ERR_BAD_ARG, st)
      else exec_loop al step_limit entry st)"

section \<open>Conforming states\<close>

definition value_ok :: "xair_exec_value \<Rightarrow> bool" where
  "value_ok x \<longleftrightarrow> truncate_to_type (lo x) (ev_type x) = lo x"

definition defd :: "xair_exec_state \<Rightarrow> xair_value_id set" where
  "defd st = {v. v < length (ex_defined st) \<and> ex_defined st ! v}"

text \<open>
  A state conforms to a module when its two arrays have one element per value of the module and every
  defined value has the type the module declares and fits its width.
\<close>

definition state_ok :: "xair_module \<Rightarrow> xair_exec_state \<Rightarrow> bool" where
  "state_ok m st \<longleftrightarrow>
     ex_module st = m \<and> length (ex_values st) = length (vals m) \<and> length (ex_defined st) = length (vals m) \<and>
     (\<forall>v \<in> defd st. ev_type (ex_values st ! v) = type_of m v \<and> value_ok (ex_values st ! v))"

definition terms_wf :: "xair_module \<Rightarrow> bool" where
  "terms_wf m \<longleftrightarrow> (\<forall>b < length (blocks m). term_wf m (blk_term (blocks m ! b)))"

lemma value_ok_make [simp]: "value_ok (exec_value_make t l h)"
  by (simp add: value_ok_def exec_value_make_def)

lemma ev_type_make [simp]: "ev_type (exec_value_make t l h) = t"
  by (simp add: exec_value_make_def)

lemma lo_make [simp]: "lo (exec_value_make t l h) = truncate_to_type l t"
  by (simp add: exec_value_make_def)

lemma exec_state_create_ok:
  "xair_exec_state_create al m = Ok st \<Longrightarrow>
     state_ok m st \<and> defd st = {} \<and> fst (xair_verify_module al m) = XAIR_OK"
  by (auto simp: xair_exec_state_create_def Let_def state_ok_def defd_def split: if_splits)

lemma exec_define_value_ok:
  assumes "state_ok m st" "v < length (vals m)" "ev_type x = type_of m v" "value_ok x"
  obtains st' where "exec_define_value v x st = (Ok (), st')" "state_ok m st'"
    "defd st' = insert v (defd st)" "pages st' = pages st"
    "\<And>w. exec_read_value st' w = (if w = v then Ok x else exec_read_value st w)"
proof -
  define st' where "st' = st\<lparr>ex_values := (ex_values st)[v := x], ex_defined := (ex_defined st)[v := True]\<rparr>"
  have len: "ex_module st = m" "length (ex_values st) = length (vals m)" "length (ex_defined st) = length (vals m)"
    using assms by (auto simp: state_ok_def)
  show thesis
  proof (rule that)
    show "exec_define_value v x st = (Ok (), st')"
      using assms len by (simp add: exec_define_value_def exec_check_value_slot_def st'_def)
    show d: "defd st' = insert v (defd st)"
      using assms len by (auto simp: defd_def st'_def nth_list_update)
    show "state_ok m st'"
      using assms len by (auto simp: state_ok_def d) (auto simp: st'_def nth_list_update defd_def)
    show "pages st' = pages st" by (simp add: st'_def)
    show "exec_read_value st' w = (if w = v then Ok x else exec_read_value st w)" for w
      using assms len by (auto simp: exec_read_value_def exec_check_value_slot_def st'_def nth_list_update)
  qed
qed

lemma exec_read_value_ok:
  assumes "state_ok m st" "usable m (defd st) v"
  obtains x where "exec_read_value st v = Ok x" "ev_type x = type_of m v" "value_ok x"
proof (cases "v \<in> defd st")
  case True
  with assms show thesis
    by (intro that [of "ex_values st ! v"])
      (auto simp: exec_read_value_def exec_check_value_slot_def state_ok_def usable_def defd_def)
next
  case False
  with assms have "value_is_global_const m v" "v < length (vals m)" by (auto simp: usable_def)
  with False assms show thesis
    by (intro that [of "exec_value_make (type_of m v) (imm (ops m ! val_op (vals m ! v))) 0"])
      (auto simp: exec_read_value_def exec_check_value_slot_def state_ok_def defd_def)
qed

lemma exec_set_param_ok:
  assumes "state_ok m st" "value_ok x" "xair_exec_set_param v x st = (r, st')"
  shows "state_ok m st' \<and> (r = Ok () \<longrightarrow> v \<in> defd st')"
proof (cases "r = Ok ()")
  case True
  then have d: "exec_define_value v x st = (Ok (), st')"
    using assms(3) by (auto simp: xair_exec_set_param_def split: if_splits)
  then have "v < length (vals m)" "ev_type x = type_of m v"
    using assms(1) by (auto simp: exec_define_value_def exec_check_value_slot_def state_ok_def split: if_splits)
  then show ?thesis using d by (auto elim: exec_define_value_ok [OF assms(1) _ _ assms(2)])
next
  case False
  with assms show ?thesis
    by (auto simp: xair_exec_set_param_def exec_define_value_def split: if_splits)
qed

text \<open>Stores to memory change the pages only.\<close>

definition same_values :: "xair_exec_state \<Rightarrow> xair_exec_state \<Rightarrow> bool" where
  "same_values st st' \<longleftrightarrow>
     ex_module st' = ex_module st \<and> ex_values st' = ex_values st \<and> ex_defined st' = ex_defined st"

lemma same_values_state: "same_values st st' \<Longrightarrow> state_ok m st' = state_ok m st \<and> defd st' = defd st"
  by (auto simp: same_values_def state_ok_def defd_def)

lemma same_values_read: "same_values st st' \<Longrightarrow> exec_read_value st' v = exec_read_value st v"
  by (auto simp: same_values_def exec_read_value_def exec_check_value_slot_def)

lemma exec_store_byte_values: "exec_store_byte al sp a d st = (r, st') \<Longrightarrow> same_values st st'"
  by (auto simp: exec_store_byte_def exec_get_or_create_page_def Let_def same_values_def
      split: prod.splits xres.splits option.splits)

lemma store_each_values: "store_each (exec_store_byte al) sp a ds st = (r, st') \<Longrightarrow> same_values st st'"
proof (induction ds arbitrary: a st)
  case Nil
  then show ?case by (simp add: same_values_def)
next
  case (Cons d ds)
  then show ?case
    by (auto split: prod.splits xres.splits dest!: exec_store_byte_values) (fastforce simp: same_values_def)+
qed

lemma store_each_Err_OOM:
  "store_each (exec_store_byte al) sp a ds st = (Err e, st') \<Longrightarrow> e = XAIR_ERR_OOM"
  by (induction ds arbitrary: a st) (auto split: prod.splits xres.splits dest: exec_store_byte_Err)

lemma exec_store_u64_values: "exec_store_u64 al sp a v sz en st = (r, st') \<Longrightarrow> same_values st st'"
  by (auto simp: exec_store_u64_def xair_exec_store_bytes_def split: if_splits dest: store_each_values)
    (auto simp: same_values_def)

lemma exec_store_u64_Err:
  "exec_store_u64 al sp a v sz en st = (Err e, st') \<Longrightarrow> sz \<le> 8 \<Longrightarrow>
     e = XAIR_ERR_OOM \<or> e = XAIR_ERR_BAD_ARG \<and> exec_range_wraps a sz"
  by (auto simp: exec_store_u64_def xair_exec_store_bytes_def split: if_splits dest: store_each_Err_OOM)

lemma exec_load_u64_Err:
  "exec_load_u64 st sp a sz en = Err e \<Longrightarrow> sz \<le> 8 \<Longrightarrow>
     e = XAIR_ERR_RANGE \<or> e = XAIR_ERR_BAD_ARG \<and> exec_range_wraps a sz"
  by (auto simp: exec_load_u64_def xair_exec_load_bytes_def split: if_splits option.splits xres.splits)

lemma exec_byte_sized_le: "exec_byte_sized_scalar t = Some sz \<Longrightarrow> sz \<le> 8 \<and> bits t = 8 * sz"
  by (auto simp: exec_byte_sized_scalar_def exec_scalar_u64_type_def split: if_splits)

section \<open>Executing an operation of a verified module\<close>

text \<open>The address of this memory operation, as the state has it, wraps around for its size.\<close>

definition access_wraps :: "xair_exec_state \<Rightarrow> xair_op_rec \<Rightarrow> bool" where
  "access_wraps st oper \<longleftrightarrow>
     (\<exists>address sz. exec_read_value st (src oper ! 1) = Ok address \<and> exec_range_wraps (lo address) sz \<and>
        (opcode oper = XAIR_OP_LOAD \<and> exec_byte_sized_scalar (type_of (ex_module st) (dst oper)) = Some sz \<or>
         opcode oper = XAIR_OP_STORE \<and>
           exec_byte_sized_scalar (type_of (ex_module st) (src oper ! 2)) = Some sz))"

text \<open>The outcomes that are left to an operation whose types and operands are in order.\<close>

definition op_outcome :: "xair_module \<Rightarrow> xair_op_rec \<Rightarrow> xair_exec_state \<Rightarrow> unit xres \<times> xair_exec_state \<Rightarrow> bool" where
  "op_outcome m oper st rs \<longleftrightarrow>
     (case rs of (r, st') \<Rightarrow>
        state_ok m st' \<and> defd st \<subseteq> defd st' \<and>
        (case r of
           Ok _ \<Rightarrow> dst oper \<in> defd st'
         | Err e \<Rightarrow> e \<in> {XAIR_ERR_UNSUPPORTED, XAIR_ERR_OOM, XAIR_ERR_RANGE} \<or>
             e = XAIR_ERR_BAD_ARG \<and> access_wraps st' oper))"

lemma op_outcome_define:
  assumes "state_ok m st" "dst oper < length (vals m)" "defd st0 \<subseteq> defd st"
  shows "op_outcome m oper st0 (exec_define_value (dst oper) (exec_value_make (type_of m (dst oper)) r h) st)"
proof -
  obtain st' where "exec_define_value (dst oper) (exec_value_make (type_of m (dst oper)) r h) st = (Ok (), st')"
    "state_ok m st'" "defd st' = insert (dst oper) (defd st)"
    by (rule exec_define_value_ok [OF assms(1,2), of "exec_value_make (type_of m (dst oper)) r h"]) simp_all
  with assms show ?thesis by (auto simp: op_outcome_def)
qed

lemma op_outcome_define_result:
  assumes "state_ok m st" "dst oper < length (vals m)"
  shows "op_outcome m oper st (exec_define_result oper (type_of m (dst oper)) res st)"
  using assms op_outcome_define [OF assms]
  by (cases res) (auto simp: exec_define_result_def op_outcome_def [of _ _ _ "(Err _, _)"])

lemma op_ok_srcs:
  assumes "op_ok m oper" "length (src oper) = 3" "src_count oper \<le> 3"
  obtains (const) "opcode oper = XAIR_OP_CONST_U64"
  | (unary) "is_unary_opcode (opcode oper)" "src_count oper = 1" "op_srcs oper = [src oper ! 0]"
  | (store) "opcode oper = XAIR_OP_STORE" "src_count oper = 3" "op_srcs oper = [src oper ! 0, src oper ! 1, src oper ! 2]"
  | (binary) "opcode oper \<noteq> XAIR_OP_CONST_U64" "\<not> is_unary_opcode (opcode oper)" "opcode oper \<noteq> XAIR_OP_STORE"
      "src_count oper = 2" "op_srcs oper = [src oper ! 0, src oper ! 1]"
proof -
  have "length (op_srcs oper) = (if opcode oper = XAIR_OP_CONST_U64 then 0 else if is_unary_opcode (opcode oper) then 1
     else if opcode oper = XAIR_OP_STORE then 3 else 2)"
    using assms(1) op_sig_arity by (fastforce simp: op_ok_def)
  with srcs_shape_cases [OF assms(2,3)] that show thesis by (auto split: if_splits)
qed

lemma op_outcome_Err:
  "state_ok m st' \<Longrightarrow> defd st \<subseteq> defd st' \<Longrightarrow>
   e \<in> {XAIR_ERR_UNSUPPORTED, XAIR_ERR_OOM, XAIR_ERR_RANGE} \<or> e = XAIR_ERR_BAD_ARG \<and> access_wraps st' oper \<Longrightarrow>
   op_outcome m oper st (Err e, st')"
  by (simp add: op_outcome_def)

lemma exec_load_outcome:
  assumes st: "state_ok m st" and ok: "op_ok m oper" "opcode oper = XAIR_OP_LOAD"
    and u: "usable m (defd st) (src oper ! 0)" "usable m (defd st) (src oper ! 1)"
    and srcs: "op_srcs oper = [src oper ! 0, src oper ! 1]"
  shows "op_outcome m oper st (exec_memory_op al oper (type_of m (dst oper)) st)"
proof -
  from st u(1) obtain memory where mem: "exec_read_value st (src oper ! 0) = Ok memory"
    "ev_type memory = type_of m (src oper ! 0)" by (rule exec_read_value_ok)
  from st u(2) obtain address where adr: "exec_read_value st (src oper ! 1) = Ok address"
    "ev_type address = type_of m (src oper ! 1)" by (rule exec_read_value_ok)
  have t: "is_mem (type_of m (src oper ! 0))" "is_addr (type_of m (src oper ! 1))" "dst oper < length (vals m)"
    using ok srcs by (auto simp: op_ok_def op_sig_simps)
  have m: "ex_module st = m" using st by (simp add: state_ok_def)
  show ?thesis
  proof (cases "exec_byte_sized_scalar (type_of m (dst oper))")
    case None
    with mem adr t ok st show ?thesis by (simp add: exec_memory_op_def op_outcome_Err)
  next
    case (Some sz)
    then have sz: "sz \<le> 8" using exec_byte_sized_le by blast
    show ?thesis
    proof (cases "exec_load_u64 st (aux (ev_type memory)) (lo address) sz (endian oper)")
      case (Ok loaded)
      with Some mem adr t ok st op_outcome_define [OF st t(3) subset_refl] show ?thesis
        by (simp add: exec_memory_op_def)
    next
      case (Err e)
      with Some exec_load_u64_Err [OF Err sz] mem adr t ok st m show ?thesis
        by (auto simp: exec_memory_op_def access_wraps_def intro!: op_outcome_Err)
    qed
  qed
qed

lemma exec_store_outcome:
  assumes st: "state_ok m st" and ok: "op_ok m oper" "opcode oper = XAIR_OP_STORE"
    and u: "usable m (defd st) (src oper ! 0)" "usable m (defd st) (src oper ! 1)" "usable m (defd st) (src oper ! 2)"
    and srcs: "op_srcs oper = [src oper ! 0, src oper ! 1, src oper ! 2]"
  shows "op_outcome m oper st (exec_memory_op al oper (type_of m (dst oper)) st)"
proof -
  from st u(1) obtain memory where mem: "exec_read_value st (src oper ! 0) = Ok memory"
    "ev_type memory = type_of m (src oper ! 0)" by (rule exec_read_value_ok)
  from st u(2) obtain address where adr: "exec_read_value st (src oper ! 1) = Ok address"
    "ev_type address = type_of m (src oper ! 1)" by (rule exec_read_value_ok)
  from st u(3) obtain data where dat: "exec_read_value st (src oper ! 2) = Ok data"
    "ev_type data = type_of m (src oper ! 2)" by (rule exec_read_value_ok)
  have t: "is_mem (type_of m (src oper ! 0))" "is_addr (type_of m (src oper ! 1))" "dst oper < length (vals m)"
    using ok srcs by (auto simp: op_ok_def op_sig_simps)
  have m: "ex_module st = m" using st by (simp add: state_ok_def)
  show ?thesis
  proof (cases "exec_byte_sized_scalar (type_of m (src oper ! 2))")
    case None
    with mem adr dat t ok st show ?thesis by (simp add: exec_memory_op_def op_outcome_Err)
  next
    case (Some sz)
    then have sz: "sz \<le> 8" using exec_byte_sized_le by blast
    obtain r st1 where s1: "exec_store_u64 al (aux (ev_type memory)) (lo address) (lo data) sz (endian oper) st = (r, st1)"
      by fastforce
    then have sv: "same_values st st1" by (rule exec_store_u64_values)
    show ?thesis
    proof (cases r)
      case (Ok u)
      define st2 where "st2 = st1\<lparr>mem_generation := mem_generation st1 + 1\<rparr>"
      have "same_values st st2" using sv by (simp add: same_values_def st2_def)
      with st have "state_ok m st2" "defd st \<subseteq> defd st2" by (auto dest: same_values_state [of _ _ m])
      then have "op_outcome m oper st
          (exec_define_value (dst oper) (exec_value_make (type_of m (dst oper)) (mem_generation st2) 0) st2)"
        using t(3) by (simp add: op_outcome_define)
      with Ok s1 Some mem adr dat t ok show ?thesis by (simp add: exec_memory_op_def st2_def)
    next
      case (Err e)
      have "e \<in> {XAIR_ERR_OOM} \<or> e = XAIR_ERR_BAD_ARG \<and> access_wraps st1 oper"
        using exec_store_u64_Err [OF s1 [unfolded Err] sz] Some adr ok m sv
        by (auto simp: access_wraps_def same_values_read [OF sv] same_values_def)
      with Err s1 Some mem adr dat t ok same_values_state [OF sv, of m] st show ?thesis
        by (auto simp: exec_memory_op_def intro!: op_outcome_Err)
    qed
  qed
qed

lemma exec_op_outcome:
  assumes st: "state_ok m st" and ok: "op_ok m oper"
    and shape: "length (src oper) = 3" "src_count oper \<le> 3"
    and u: "\<forall>s \<in> set (op_srcs oper). usable m (defd st) s"
  shows "op_outcome m oper st (exec_op al oper st)"
proof -
  have d: "dst oper < length (vals m)" and m: "ex_module st = m"
    using ok st by (auto simp: op_ok_def state_ok_def)
  note def = op_outcome_define_result [OF st d]
  from ok shape show ?thesis
  proof (cases rule: op_ok_srcs)
    case const
    with m op_outcome_define [OF st d subset_refl] show ?thesis by (simp add: exec_op_def)
  next
    case unary
    then obtain x where "exec_read_value st (src oper ! 0) = Ok x"
      using st u by (auto elim: exec_read_value_ok)
    moreover have "opcode oper \<notin> {XAIR_OP_CONST_U64, XAIR_OP_LOAD, XAIR_OP_STORE}"
      using unary by (auto simp: is_unary_opcode_def)
    ultimately show ?thesis using unary m def by (simp add: exec_op_def exec_unary_op_def Let_def)
  next
    case store
    then have u3: "usable m (defd st) (src oper ! 0)" "usable m (defd st) (src oper ! 1)"
      "usable m (defd st) (src oper ! 2)" using u by auto
    from exec_store_outcome [OF st ok store(1) u3 store(3)] store m show ?thesis
      by (simp add: exec_op_def)
  next
    case binary
    then have u2: "usable m (defd st) (src oper ! 0)" "usable m (defd st) (src oper ! 1)" using u by auto
    show ?thesis
    proof (cases "opcode oper = XAIR_OP_LOAD")
      case True
      from exec_load_outcome [OF st ok True u2 binary(5)] True m show ?thesis by (simp add: exec_op_def)
    next
      case False
      from st u2(1) obtain x where "exec_read_value st (src oper ! 0) = Ok x" by (rule exec_read_value_ok)
      moreover from st u2(2) obtain y where "exec_read_value st (src oper ! 1) = Ok y" by (rule exec_read_value_ok)
      ultimately show ?thesis using binary False m def
        by (simp add: exec_op_def exec_binary_op_def Let_def)
    qed
  qed
qed

section \<open>Runs of a verified module\<close>

text \<open>The failures a run of a verified module can end with.\<close>

definition run_error :: "xair_module \<Rightarrow> xair_exec_state \<Rightarrow> xair_status \<Rightarrow> bool" where
  "run_error m st e \<longleftrightarrow>
     e = XAIR_ERR_OOM \<or> e = XAIR_ERR_RANGE \<or>
     e = XAIR_ERR_BAD_ARG \<and> (\<exists>oper \<in> set (ops m). access_wraps st oper)"

lemma exec_block_ops_outcome:
  assumes "\<forall>i < length is. block_op_ok m b (S \<union> (\<lambda>j. dst (ops m ! j)) ` set (take i is)) (is ! i)"
    and "state_ok m st" "S \<subseteq> defd st" "srcs_shape m" "exec_block_ops al current is st = (r, st')"
  shows "state_ok m st' \<and>
    (case r of
       Ok None \<Rightarrow> S \<union> (\<lambda>j. dst (ops m ! j)) ` set is \<subseteq> defd st'
     | Ok (Some res) \<Rightarrow> halt_block res = current \<and> halt_kind res = XAIR_EXEC_HALTED_UNSUPPORTED \<and> returns res = []
     | Err e \<Rightarrow> run_error m st' e)"
  using assms
proof (induction "is" arbitrary: S st)
  case Nil
  then show ?case by auto
next
  case (Cons i "is")
  let ?oper = "ops m ! i"
  have bo: "block_op_ok m b S i" using Cons.prems(1) by (auto simp: all_less_Suc_split)
  have rest: "\<forall>k < length is. block_op_ok m b (insert (dst ?oper) S \<union> (\<lambda>j. dst (ops m ! j)) ` set (take k is)) (is ! k)"
    using Cons.prems(1) by (auto simp: all_less_Suc_split)
  have mem: "?oper \<in> set (ops m)" and okop: "op_ok m ?oper"
    using bo by (auto simp: block_op_ok_def Let_def)
  have "\<forall>s \<in> set (op_srcs ?oper). usable m (defd st) s"
    using bo Cons.prems(3) by (auto simp: block_op_ok_def Let_def usable_def)
  with mem okop Cons.prems have out: "op_outcome m ?oper st (exec_op al ?oper st)"
    by (intro exec_op_outcome) (auto simp: srcs_shape_def)
  have m: "ex_module st = m" using Cons.prems by (simp add: state_ok_def)
  obtain r1 st1 where e: "exec_op al ?oper st = (r1, st1)" by fastforce
  show ?case
  proof (cases r1)
    case (Ok u)
    with out e have st1: "state_ok m st1" "insert (dst ?oper) S \<subseteq> defd st1"
      using Cons.prems(3) by (auto simp: op_outcome_def)
    have run: "exec_block_ops al current is st1 = (r, st')" using Cons.prems(5) e Ok m by simp
    have eq: "S \<union> (\<lambda>j. dst (ops m ! j)) ` set (i # is) =
        insert (dst ?oper) S \<union> (\<lambda>j. dst (ops m ! j)) ` set is" by auto
    show ?thesis unfolding eq by (rule Cons.IH [OF rest st1 Cons.prems(4) run])
  next
    case (Err e')
    with out e Cons.prems(5) m mem show ?thesis
      by (auto simp: op_outcome_def run_error_def exec_set_result_def split: if_splits)
  qed
qed

lemma exec_read_values_ok:
  assumes "state_ok m st" "\<forall>v \<in> set vs. usable m (defd st) v"
  shows "\<exists>xs. exec_read_values st vs = Ok xs \<and> length xs = length vs \<and>
    list_all2 (\<lambda>v x. ev_type x = type_of m v \<and> value_ok x) vs xs"
  using assms(2)
proof (induction vs)
  case Nil
  then show ?case by simp
next
  case (Cons v vs)
  then obtain xs where "exec_read_values st vs = Ok xs" "length xs = length vs"
    "list_all2 (\<lambda>v x. ev_type x = type_of m v \<and> value_ok x) vs xs" by auto
  moreover from assms(1) Cons.prems obtain x where "exec_read_value st v = Ok x"
    "ev_type x = type_of m v" "value_ok x" by (auto elim: exec_read_value_ok)
  ultimately show ?case by simp
qed

lemma exec_define_values_ok:
  assumes "state_ok m st" "list_all2 (\<lambda>p x. p < length (vals m) \<and> ev_type x = type_of m p \<and> value_ok x) ps xs"
  shows "\<exists>st'. exec_define_values ps xs st = (Ok (), st') \<and> state_ok m st' \<and> defd st \<union> set ps \<subseteq> defd st'"
  using assms(2,1)
proof (induction ps xs arbitrary: st rule: list_all2_induct)
  case Nil
  then show ?case by auto
next
  case (Cons p ps x xs)
  then obtain st1 where "exec_define_value p x st = (Ok (), st1)" "state_ok m st1" "defd st1 = insert p (defd st)"
    by (auto elim: exec_define_value_ok)
  with Cons.IH [of st1] show ?case by auto
qed

lemma term_args_length:
  "term_wf m t \<Longrightarrow> length (term_args_const m t False) = true_arg_count t \<and>
     length (term_args_const m t True) = false_arg_count t"
  by (auto simp: term_wf_def term_args_const_def Let_def min_def)

text \<open>Control reaches a block with its parameters defined.\<close>

definition enters :: "xair_module \<Rightarrow> xair_block_id \<Rightarrow> xair_exec_state \<Rightarrow> bool" where
  "enters m b st \<longleftrightarrow> b < length (blocks m) \<and> set (params (blocks m ! b)) \<subseteq> defd st"

lemma exec_transfer_args_ok:
  assumes st: "state_ok m st" and mod: "module_ok m" and e: "edge_ok m S target args n"
    and S: "S \<subseteq> defd st" and n: "length args = n"
    and r: "exec_transfer_args al target args n st = (r, st')"
  shows "state_ok m st' \<and> (case r of Ok _ \<Rightarrow> enters m target st' | Err er \<Rightarrow> er = XAIR_ERR_OOM)"
proof -
  let ?ps = "params (blocks m ! target)"
  have t: "target < length (blocks m)" "length ?ps = n" and m: "ex_module st = m"
    using e st by (auto simp: edge_ok_def state_ok_def)
  have args: "\<forall>v \<in> set args. usable m (defd st) v"
    using e S n t by (fastforce simp: edge_ok_def set_zip in_set_conv_nth usable_def)
  from exec_read_values_ok [OF st args] obtain xs where xs: "exec_read_values st args = Ok xs"
    "length xs = length args" "list_all2 (\<lambda>v x. ev_type x = type_of m v \<and> value_ok x) args xs" by blast
  have "block_ok m target" using mod t by (simp add: module_ok_def)
  then have ps: "\<forall>p \<in> set ?ps. p < length (vals m)" by (auto simp: block_ok_def Let_def)
  have "list_all2 (\<lambda>p x. p < length (vals m) \<and> ev_type x = type_of m p \<and> value_ok x) ?ps xs"
    using e xs n t ps by (fastforce simp: list_all2_conv_all_nth edge_ok_def set_zip)
  from exec_define_values_ok [OF st this] obtain st1 where "exec_define_values ?ps xs st = (Ok (), st1)"
    "state_ok m st1" "defd st \<union> set ?ps \<subseteq> defd st1" by blast
  with r t m xs st n show ?thesis
    by (auto simp: exec_transfer_args_def valid_block_def Let_def enters_def split: if_splits)
qed

text \<open>What a terminator, a block or a whole run may answer.\<close>

definition result_ok :: "xair_module \<Rightarrow> xair_exec_result \<Rightarrow> bool" where
  "result_ok m res \<longleftrightarrow> halt_block res < length (blocks m) \<and> length (returns res) \<le> XAIR_EXEC_MAX_RETURNS \<and>
     (\<forall>x \<in> set (returns res). value_ok x)"

lemma result_ok_set: "b < length (blocks m) \<Longrightarrow> result_ok m (exec_set_result k b c)"
  by (simp add: result_ok_def exec_set_result_def)

definition block_outcome ::
  "xair_module \<Rightarrow> (xair_exec_result + xair_block_id) xres \<Rightarrow> xair_exec_state \<Rightarrow> bool" where
  "block_outcome m r st' \<longleftrightarrow> state_ok m st' \<and>
     (case r of
        Ok (Inl res) \<Rightarrow> result_ok m res
      | Ok (Inr next) \<Rightarrow> enters m next st'
      | Err e \<Rightarrow> run_error m st' e)"

lemma exec_term_outcome:
  assumes st: "state_ok m st" and mod: "module_ok m" and t: "term_ok m S t" "term_wf m t"
    and S: "S \<subseteq> defd st" and b: "current < length (blocks m)"
    and r: "exec_term al current t st = (r, st')"
  shows "block_outcome m r st'"
proof -
  have m: "ex_module st = m" using st by (simp add: state_ok_def)
  have us: "usable m S v \<Longrightarrow> usable m (defd st) v" for v using S by (auto simp: usable_def)
  note tr = exec_transfer_args_ok [OF st mod _ S]
  note len = term_args_length [OF t(2)]
  show ?thesis
  proof (cases "term_kind t")
    case XAIR_TERM_NONE
    with t show ?thesis by (simp add: term_ok_def)
  next
    case XAIR_TERM_JUMP
    with r t len tr [of "true_target t" "term_args_const m t False" "true_arg_count t" al] m show ?thesis
      by (auto simp: exec_term_def Let_def term_ok_def block_outcome_def run_error_def
          split: prod.splits xres.splits)
  next
    case XAIR_TERM_CBRANCH
    then have c: "usable m S (condition t)" "is_i1 (type_of m (condition t))" using t by (auto simp: term_ok_def)
    from st us [OF c(1)] obtain x where x: "exec_read_value st (condition t) = Ok x"
      "ev_type x = type_of m (condition t)" by (rule exec_read_value_ok)
    show ?thesis
    proof (cases "lo x AND 1 \<noteq> 0")
      case True
      with XAIR_TERM_CBRANCH r t c x len m
        tr [of "true_target t" "term_args_const m t False" "true_arg_count t" al] show ?thesis
        by (auto simp: exec_term_def Let_def term_ok_def block_outcome_def run_error_def
            split: prod.splits xres.splits)
    next
      case False
      with XAIR_TERM_CBRANCH r t c x len m
        tr [of "false_target t" "term_args_const m t True" "false_arg_count t" al] show ?thesis
        by (auto simp: exec_term_def Let_def term_ok_def block_outcome_def run_error_def
            split: prod.splits xres.splits)
    qed
  next
    case XAIR_TERM_RETURN
    then have "\<forall>v \<in> set (term_args_const m t False). usable m (defd st) v" using t us by (auto simp: term_ok_def)
    from exec_read_values_ok [OF st this] obtain xs where xs: "exec_read_values st (term_args_const m t False) = Ok xs"
      "length xs = length (term_args_const m t False)"
      "list_all2 (\<lambda>v x. ev_type x = type_of m v \<and> value_ok x) (term_args_const m t False) xs" by blast
    then have "\<forall>x \<in> set xs. value_ok x" by (simp add: list_all2_conv_all_nth all_set_conv_all_nth)
    moreover have "length xs = true_arg_count t" using xs len by simp
    moreover note xs(1)
    ultimately show ?thesis using XAIR_TERM_RETURN r m st b
      by (auto simp: exec_term_def Let_def block_outcome_def run_error_def result_ok_def exec_set_result_def
          split: if_splits)
  next
    case XAIR_TERM_TRAP
    with r st b show ?thesis by (auto simp: exec_term_def Let_def block_outcome_def result_ok_set)
  next
    case XAIR_TERM_FAULT
    with r st b show ?thesis by (auto simp: exec_term_def Let_def block_outcome_def result_ok_set)
  qed
qed

lemma exec_block_outcome:
  assumes st: "state_ok m st" and mod: "module_ok m" "srcs_shape m" "terms_wf m" and en: "enters m b st"
    and r: "exec_block al b st = (r, st')"
  shows "block_outcome m r st'"
proof -
  let ?bb = "blocks m ! b"
  have b: "b < length (blocks m)" and m: "ex_module st = m" and ps: "set (params ?bb) \<subseteq> defd st"
    using en st by (auto simp: enters_def state_ok_def)
  have bo: "block_ok m b" using mod b by (simp add: module_ok_def)
  obtain r1 st1 where e: "exec_block_ops al b (blk_ops ?bb) st = (r1, st1)" by fastforce
  have out: "state_ok m st1 \<and>
    (case r1 of
       Ok None \<Rightarrow> avail_at m ?bb (length (blk_ops ?bb)) \<subseteq> defd st1
     | Ok (Some res) \<Rightarrow> halt_block res = b \<and> halt_kind res = XAIR_EXEC_HALTED_UNSUPPORTED \<and> returns res = []
     | Err e \<Rightarrow> run_error m st1 e)"
    using exec_block_ops_outcome [OF _ st ps mod(2) e, of b] bo
    unfolding block_ok_def Let_def avail_at_def take_all [OF le_refl] by blast
  consider er where "r1 = Err er" | res where "r1 = Ok (Some res)" | "r1 = Ok None"
    by (metis option.exhaust xres.exhaust)
  then show ?thesis
  proof cases
    case 1
    with r e m out show ?thesis by (auto simp: exec_block_def block_outcome_def)
  next
    case 2
    with r e m out b show ?thesis by (auto simp: exec_block_def block_outcome_def result_ok_def)
  next
    case 3
    with out have "state_ok m st1" "avail_at m ?bb (length (blk_ops ?bb)) \<subseteq> defd st1" by auto
    moreover have "exec_term al b (blk_term ?bb) st1 = (r, st')" using 3 r e m by (simp add: exec_block_def)
    moreover have "term_ok m (avail_at m ?bb (length (blk_ops ?bb))) (blk_term ?bb)" "term_wf m (blk_term ?bb)"
      using bo mod b by (simp_all add: block_ok_def Let_def terms_wf_def)
    ultimately show ?thesis using exec_term_outcome mod b by blast
  qed
qed

lemma exec_loop_outcome:
  assumes "state_ok m st" "module_ok m" "srcs_shape m" "terms_wf m" "enters m b st"
    and "exec_loop al n b st = (r, st')"
  shows "state_ok m st' \<and> (case r of Ok res \<Rightarrow> result_ok m res | Err e \<Rightarrow> run_error m st' e)"
  using assms
proof (induction n arbitrary: b st)
  case 0
  then show ?case by (auto simp: enters_def result_ok_set)
next
  case (Suc n)
  obtain r1 st1 where e: "exec_block al b st = (r1, st1)" by fastforce
  with Suc.prems have out: "block_outcome m r1 st1" by (meson exec_block_outcome)
  consider er where "r1 = Err er" | res where "r1 = Ok (Inl res)" | nx where "r1 = Ok (Inr nx)"
    by (metis sum.exhaust xres.exhaust)
  then show ?case
    using Suc.IH [of st1] Suc.prems e out by cases (auto simp: block_outcome_def)
qed

end
