(* ===== verification/Xair_Canon.thy ===== *)
theory Xair_Canon
  imports Xair_Exec
begin

text \<open>
  The canonicalizer of \<^verbatim>\<open>src/src/xair.c\<close>: constant folding, ordering of the operands of commutative
  operations, marking of live values, compaction of the value and operation arrays, and
  \<open>xair_canonicalize_module\<close>, which verifies the module before and after.

  The definitions come first. \<open>Xair_Canon_Sound\<close> proves that the local rewrites preserve execution.
\<close>

section \<open>Constant folding\<close>

definition const_u64_value :: "xair_module \<Rightarrow> xair_value_id \<Rightarrow> u64 option" where
  "const_u64_value m v =
     (if \<not> valid_value m v then None
      else let t = val_type (vals m ! v); op_id = val_op (vals m ! v)
      in if (kind t \<noteq> XAIR_TYPE_INT \<and> kind t \<noteq> XAIR_TYPE_ADDR) \<or> bits t > 64 then None
         else if op_id = XAIR_INVALID_ID \<or> op_id \<ge> length (ops m) then None
         else if opcode (ops m ! op_id) \<noteq> XAIR_OP_CONST_U64 then None
         else Some (truncate_to_type (imm (ops m ! op_id)) t))"

definition fold_to_const :: "xair_op_rec \<Rightarrow> u64 \<Rightarrow> xair_type \<Rightarrow> xair_op_rec" where
  "fold_to_const oper v t =
     oper\<lparr>opcode := XAIR_OP_CONST_U64, src := [XAIR_INVALID_ID, XAIR_INVALID_ID, XAIR_INVALID_ID],
          src_count := 0, endian := XAIR_ENDIAN_LE, imm := truncate_to_type v t\<rparr>"

definition is_flags_opcode :: "xair_opcode \<Rightarrow> bool" where
  "is_flags_opcode oc \<longleftrightarrow>
     oc \<in> {XAIR_OP_FLAGS_ADD, XAIR_OP_FLAGS_SUB, XAIR_OP_FLAGS_LOGIC, XAIR_OP_FLAGS_SHL}"

text \<open>The second half of \<open>compute_flag_extract\<close>: one flag of a flags operation on constants.\<close>

definition flag_of_constants :: "xair_opcode \<Rightarrow> xair_opcode \<Rightarrow> u64 \<Rightarrow> u64 \<Rightarrow> nat \<Rightarrow> u64 option" where
  "flag_of_constants extract_opcode foc lhs rhs b =
     (let mask = mask_for_bits b;
          sign = sign_bit_for_bits b;
          lhs = lhs AND mask;
          rhs = rhs AND mask
      in if foc = XAIR_OP_FLAGS_SHL \<and> (rhs = 0 \<or> unat rhs \<ge> b) then None
         else
           let result = (if foc = XAIR_OP_FLAGS_ADD then (lhs + rhs) AND mask
                         else if foc = XAIR_OP_FLAGS_SUB then (lhs - rhs) AND mask
                         else if foc = XAIR_OP_FLAGS_SHL then push_bit (unat rhs) lhs AND mask
                         else lhs);
               lhs_sign = (lhs AND sign \<noteq> 0);
               rhs_sign = (rhs AND sign \<noteq> 0);
               result_sign = (result AND sign \<noteq> 0)
           in case extract_opcode of
                XAIR_OP_FLAG_ZF \<Rightarrow> Some (bool_u64 (result = 0))
              | XAIR_OP_FLAG_CF \<Rightarrow>
                  (if foc = XAIR_OP_FLAGS_LOGIC then Some 0
                   else if foc = XAIR_OP_FLAGS_SHL then Some (drop_bit (b - unat rhs) lhs AND 1)
                   else Some (bool_u64 (if foc = XAIR_OP_FLAGS_ADD then result < lhs else lhs < rhs)))
              | XAIR_OP_FLAG_OF \<Rightarrow>
                  (if foc = XAIR_OP_FLAGS_LOGIC then Some 0
                   else if foc = XAIR_OP_FLAGS_SHL then
                     (if rhs \<noteq> 1 then None
                      else Some (bool_u64 (result_sign \<noteq> (drop_bit (b - unat rhs) lhs AND 1 \<noteq> 0))))
                   else if foc = XAIR_OP_FLAGS_ADD
                   then Some (bool_u64 (lhs_sign = rhs_sign \<and> result_sign \<noteq> lhs_sign))
                   else Some (bool_u64 (lhs_sign \<noteq> rhs_sign \<and> result_sign \<noteq> lhs_sign)))
              | XAIR_OP_FLAG_SF \<Rightarrow> Some (bool_u64 result_sign)
              | XAIR_OP_FLAG_PF \<Rightarrow> Some (bool_u64 (even_parity8 result))
              | XAIR_OP_FLAG_AF \<Rightarrow>
                  (if foc = XAIR_OP_FLAGS_LOGIC \<or> foc = XAIR_OP_FLAGS_SHL then Some 0
                   else Some (bool_u64 ((lhs XOR rhs XOR result) AND 0x10 \<noteq> 0)))
              | _ \<Rightarrow> None)"

definition compute_flag_extract :: "xair_module \<Rightarrow> xair_opcode \<Rightarrow> xair_value_id \<Rightarrow> u64 option" where
  "compute_flag_extract m extract_opcode flags_value =
     (if \<not> valid_value m flags_value then None
      else let flags_op_id = val_op (vals m ! flags_value)
      in if flags_op_id = XAIR_INVALID_ID \<or> flags_op_id \<ge> length (ops m) then None
         else let flags_op = ops m ! flags_op_id
         in if \<not> is_flags_opcode (opcode flags_op) then None
            else case const_u64_value m (src flags_op ! 0) of
              None \<Rightarrow> None
            | Some lhs \<Rightarrow>
                (case (if opcode flags_op \<noteq> XAIR_OP_FLAGS_LOGIC then const_u64_value m (src flags_op ! 1)
                       else Some 0) of
                   None \<Rightarrow> None
                 | Some rhs \<Rightarrow>
                     (let operand_type = val_type (vals m ! (src flags_op ! 0))
                      in if \<not> is_int operand_type \<or> bits operand_type > 64 then None
                         else flag_of_constants extract_opcode (opcode flags_op) lhs rhs (bits operand_type))))"

text \<open>The constant that \<open>fold_constant_op\<close> finds for an operation.\<close>

definition fold_arith :: "xair_opcode \<Rightarrow> u64 \<Rightarrow> u64 \<Rightarrow> u64" where
  "fold_arith oc lhs rhs =
     (case oc of
        XAIR_OP_ADD \<Rightarrow> lhs + rhs
      | XAIR_OP_SUB \<Rightarrow> lhs - rhs
      | XAIR_OP_MUL \<Rightarrow> lhs * rhs
      | XAIR_OP_AND \<Rightarrow> lhs AND rhs
      | XAIR_OP_OR \<Rightarrow> lhs OR rhs
      | _ \<Rightarrow> lhs XOR rhs)"

definition fold_shift :: "xair_opcode \<Rightarrow> u64 \<Rightarrow> u64 \<Rightarrow> nat \<Rightarrow> u64 option" where
  "fold_shift oc lhs shift b =
     (if unat shift \<ge> b then None
      else let lhs = lhs AND mask_for_bits b
      in if oc = XAIR_OP_SHL then Some (push_bit (unat shift) lhs)
         else if oc = XAIR_OP_LSHR then Some (drop_bit (unat shift) lhs)
         else if shift = 0 then Some lhs
         else if lhs AND sign_bit_for_bits b \<noteq> 0
         then Some (drop_bit (unat shift) lhs OR push_bit (b - unat shift) (mask_for_bits b))
         else Some (drop_bit (unat shift) lhs))"

definition fold_compare :: "xair_opcode \<Rightarrow> u64 \<Rightarrow> u64 \<Rightarrow> nat \<Rightarrow> u64" where
  "fold_compare oc lhs rhs b =
     (let lhs = lhs AND mask_for_bits b; rhs = rhs AND mask_for_bits b
      in case oc of
           XAIR_OP_EQ \<Rightarrow> bool_u64 (lhs = rhs)
         | XAIR_OP_NE \<Rightarrow> bool_u64 (lhs \<noteq> rhs)
         | XAIR_OP_ULT \<Rightarrow> bool_u64 (lhs < rhs)
         | XAIR_OP_ULE \<Rightarrow> bool_u64 (lhs \<le> rhs)
         | XAIR_OP_SLT \<Rightarrow> bool_u64 (signed_less_u64 lhs rhs b)
         | _ \<Rightarrow> bool_u64 (signed_less_u64 lhs rhs b \<or> lhs = rhs))"

text \<open>The two constant operands, in the order the code reads them.\<close>

definition two_consts :: "xair_module \<Rightarrow> xair_op_rec \<Rightarrow> (u64 \<times> u64) option" where
  "two_consts m oper =
     (case const_u64_value m (src oper ! 0) of
        None \<Rightarrow> None
      | Some lhs \<Rightarrow> map_option (Pair lhs) (const_u64_value m (src oper ! 1)))"

definition fold_value :: "xair_module \<Rightarrow> xair_op_rec \<Rightarrow> u64 option" where
  "fold_value m oper =
     (let out = val_type (vals m ! dst oper);
          oc = opcode oper;
          int_out = (is_int out \<and> bits out \<le> 64);
          lhs_bits = bits (val_type (vals m ! (src oper ! 0)));
          rhs_bits = bits (val_type (vals m ! (src oper ! 1)))
      in if oc \<in> {XAIR_OP_ADD, XAIR_OP_SUB, XAIR_OP_MUL, XAIR_OP_AND, XAIR_OP_OR, XAIR_OP_XOR} then
           (if \<not> int_out then None else map_option (\<lambda>(l, r). fold_arith oc l r) (two_consts m oper))
         else if oc \<in> {XAIR_OP_SHL, XAIR_OP_LSHR, XAIR_OP_ASHR} then
           (if \<not> int_out then None
            else case two_consts m oper of None \<Rightarrow> None | Some (l, r) \<Rightarrow> fold_shift oc l r (bits out))
         else if oc \<in> {XAIR_OP_EQ, XAIR_OP_NE, XAIR_OP_ULT, XAIR_OP_ULE, XAIR_OP_SLT, XAIR_OP_SLE} then
           (case two_consts m oper of
              None \<Rightarrow> None
            | Some (l, r) \<Rightarrow> if lhs_bits > 64 then None else Some (fold_compare oc l r lhs_bits))
         else if oc \<in> {XAIR_OP_ZEXT, XAIR_OP_SEXT, XAIR_OP_TRUNC} then
           (if \<not> int_out then None
            else case const_u64_value m (src oper ! 0) of
              None \<Rightarrow> None
            | Some l \<Rightarrow>
                Some (if oc = XAIR_OP_SEXT \<and> l AND sign_bit_for_bits lhs_bits \<noteq> 0
                      then l OR NOT (mask_for_bits lhs_bits) else l))
         else if oc \<in> {XAIR_OP_INT_TO_ADDR, XAIR_OP_ADDR_TO_INT} then
           (if \<not> ((is_int out \<or> is_addr out) \<and> bits out \<le> 64) then None
            else const_u64_value m (src oper ! 0))
         else if oc = XAIR_OP_CONCAT then
           (if \<not> int_out then None
            else map_option (\<lambda>(l, r). push_bit rhs_bits l OR r) (two_consts m oper))
         else if oc \<in> {XAIR_OP_ADDR_ADD, XAIR_OP_ADDR_SUB} then
           (if \<not> is_addr out \<or> bits out > 64 then None
            else map_option (\<lambda>(l, r). if oc = XAIR_OP_ADDR_ADD then l + r else l - r) (two_consts m oper))
         else if oc \<in> {XAIR_OP_FLAG_ZF, XAIR_OP_FLAG_CF, XAIR_OP_FLAG_OF, XAIR_OP_FLAG_SF, XAIR_OP_FLAG_PF,
                        XAIR_OP_FLAG_AF} then
           compute_flag_extract m oc (src oper ! 0)
         else None)"

definition fold_constant_op :: "xair_module \<Rightarrow> xair_op_rec \<Rightarrow> xair_op_rec option" where
  "fold_constant_op m oper =
     map_option (\<lambda>v. fold_to_const oper v (val_type (vals m ! dst oper))) (fold_value m oper)"

section \<open>Operand order\<close>

definition op_is_commutative :: "xair_opcode \<Rightarrow> bool" where
  "op_is_commutative oc \<longleftrightarrow>
     oc \<in> {XAIR_OP_ADD, XAIR_OP_MUL, XAIR_OP_AND, XAIR_OP_OR, XAIR_OP_XOR, XAIR_OP_EQ, XAIR_OP_NE,
           XAIR_OP_FLAGS_ADD}"

definition compare_value_order :: "xair_module \<Rightarrow> xair_value_id \<Rightarrow> xair_value_id \<Rightarrow> int" where
  "compare_value_order m lhs rhs =
     (let lc = const_u64_value m lhs;
          rc = const_u64_value m rhs;
          lt = val_type (vals m ! lhs);
          rt = val_type (vals m ! rhs);
          name_cmp = c_strcmp (val_name (vals m ! lhs)) (val_name (vals m ! rhs))
      in if (lc \<noteq> None) \<noteq> (rc \<noteq> None) then (if lc \<noteq> None then 1 else -1)
         else if kind lt \<noteq> kind rt then (if kind_num (kind lt) < kind_num (kind rt) then -1 else 1)
         else if bits lt \<noteq> bits rt then (if bits lt < bits rt then -1 else 1)
         else if aux lt \<noteq> aux rt then (if aux lt < aux rt then -1 else 1)
         else if lc \<noteq> None \<and> lc \<noteq> rc then (if the lc < the rc then -1 else 1)
         else if name_cmp \<noteq> 0 then name_cmp
         else if lhs = rhs then 0
         else if lhs < rhs then -1 else 1)"

record xair_canonicalize_stats =
  values_before :: nat
  values_after :: nat
  operations_before :: nat
  operations_after :: nat
  value_number_entries_before :: nat
  value_number_entries_after :: nat
  operands_reordered :: nat
  constants_folded :: nat
  dead_values_removed :: nat
  dead_operations_removed :: nat

definition swap_srcs :: "xair_op_rec \<Rightarrow> xair_op_rec" where
  "swap_srcs oper = oper\<lparr>src := (src oper)[0 := src oper ! 1, 1 := src oper ! 0]\<rparr>"

text \<open>
  One turn of the loop of \<open>canonicalize_local_ops\<close>. The comparison reads the module with the operation
  already folded, as the code does, since it folds in place.
\<close>

definition canonicalize_op ::
  "nat \<Rightarrow> xair_module \<times> xair_canonicalize_stats \<Rightarrow> xair_module \<times> xair_canonicalize_stats" where
  "canonicalize_op i ms =
     (case ms of (m, stats) \<Rightarrow>
        let (m1, stats1) =
              (case fold_constant_op m (ops m ! i) of
                 None \<Rightarrow> (m, stats)
               | Some oper \<Rightarrow> (m\<lparr>ops := (ops m)[i := oper]\<rparr>,
                               stats\<lparr>constants_folded := constants_folded stats + 1\<rparr>));
            oper = ops m1 ! i
        in if src_count oper = 2 \<and> op_is_commutative (opcode oper)
              \<and> compare_value_order m1 (src oper ! 0) (src oper ! 1) > 0
           then (m1\<lparr>ops := (ops m1)[i := swap_srcs oper]\<rparr>,
                 stats1\<lparr>operands_reordered := operands_reordered stats1 + 1\<rparr>)
           else (m1, stats1))"

definition canonicalize_local_ops ::
  "xair_module \<Rightarrow> xair_canonicalize_stats \<Rightarrow> xair_module \<times> xair_canonicalize_stats" where
  "canonicalize_local_ops m stats = fold canonicalize_op [0..<length (ops m)] (m, stats)"

section \<open>Dead values\<close>

definition def_srcs :: "xair_module \<Rightarrow> xair_value_id \<Rightarrow> xair_value_id list" where
  "def_srcs m v =
     (let op_id = val_op (vals m ! v)
      in if op_id = XAIR_INVALID_ID \<or> op_id \<ge> length (ops m) then [] else op_srcs (ops m ! op_id))"

text \<open>
  \<open>mark_live_value\<close> recurses on the sources of the operation that defines a value. Its pending calls are
  the explicit stack of the model, in the order the recursion makes them.
\<close>

function mark_live :: "xair_module \<Rightarrow> xair_value_id list \<Rightarrow> bool list \<Rightarrow> bool list" where
  "mark_live m [] live = live"
| "mark_live m (v # vs) live =
     (if \<not> valid_value m v \<or> v \<ge> length live \<or> live ! v then mark_live m vs live
      else mark_live m (def_srcs m v @ vs) (live[v := True]))"
  by pat_completeness auto

lemma count_mark_less:
  assumes "v < length live" "\<not> live ! v"
  shows "length (filter Not (live[v := True])) < length (filter Not live)"
  using assms
proof (induction live arbitrary: v)
  case (Cons b live)
  then show ?case by (cases v) auto
qed simp

termination mark_live
proof (relation "measures [\<lambda>(m, vs, live). length (filter Not live), \<lambda>(m, vs, live). length vs]")
  fix m :: xair_module and v :: nat and vs :: "nat list" and live :: "bool list"
  assume "\<not> (\<not> valid_value m v \<or> v \<ge> length live \<or> live ! v)"
  then show "((m, def_srcs m v @ vs, live[v := True]), m, v # vs, live)
      \<in> measures [\<lambda>(m, vs, live). length (filter Not live), \<lambda>(m, vs, live). length vs]"
    using count_mark_less [of v live] by auto
qed auto

definition mark_live_value :: "xair_module \<Rightarrow> xair_value_id \<Rightarrow> bool list \<Rightarrow> bool list" where
  "mark_live_value m v live = mark_live m [v] live"

definition term_uses :: "xair_module \<Rightarrow> xair_term_rec \<Rightarrow> xair_value_id list" where
  "term_uses m t =
     (case term_kind t of
        XAIR_TERM_JUMP \<Rightarrow> term_args_const m t False
      | XAIR_TERM_RETURN \<Rightarrow> term_args_const m t False
      | XAIR_TERM_CBRANCH \<Rightarrow> condition t # term_args_const m t False @ term_args_const m t True
      | _ \<Rightarrow> [])"

definition mark_term_live_values :: "xair_module \<Rightarrow> xair_block_rec \<Rightarrow> bool list \<Rightarrow> bool list" where
  "mark_term_live_values m bb live = fold (mark_live_value m) (term_uses m (blk_term bb)) live"

definition mark_block_live :: "xair_module \<Rightarrow> xair_block_rec \<Rightarrow> bool list \<Rightarrow> bool list" where
  "mark_block_live m bb live = mark_term_live_values m bb (fold (mark_live_value m) (params bb) live)"

section \<open>Compaction\<close>

record id_maps =
  value_map :: "nat list"
  op_map :: "nat list"
  new_value_count :: nat
  new_op_count :: nat

definition number_param :: "xair_value_id \<Rightarrow> id_maps \<Rightarrow> id_maps" where
  "number_param p mp =
     mp\<lparr>value_map := (value_map mp)[p := new_value_count mp], new_value_count := new_value_count mp + 1\<rparr>"

definition number_op :: "xair_module \<Rightarrow> bool list \<Rightarrow> xair_op_id \<Rightarrow> id_maps \<Rightarrow> id_maps" where
  "number_op m live op_id mp =
     (let d = dst (ops m ! op_id)
      in if live ! d
         then mp\<lparr>value_map := (value_map mp)[d := new_value_count mp],
                 op_map := (op_map mp)[op_id := new_op_count mp],
                 new_value_count := new_value_count mp + 1, new_op_count := new_op_count mp + 1\<rparr>
         else mp)"

definition number_block :: "xair_module \<Rightarrow> bool list \<Rightarrow> xair_block_rec \<Rightarrow> id_maps \<Rightarrow> id_maps" where
  "number_block m live bb mp = fold (number_op m live) (blk_ops bb) (fold number_param (params bb) mp)"

definition number_live :: "xair_module \<Rightarrow> bool list \<Rightarrow> id_maps" where
  "number_live m live =
     fold (number_block m live) (blocks m)
       \<lparr>value_map = replicate (length (vals m)) XAIR_INVALID_ID,
        op_map = replicate (length (ops m)) XAIR_INVALID_ID, new_value_count = 0, new_op_count = 0\<rparr>"

definition zero_value_rec :: xair_value_rec where
  "zero_value_rec = \<lparr>val_type = xair_type_invalid, val_block = 0, val_op = 0, val_name = ''''\<rparr>"

definition zero_op_rec :: xair_op_rec where
  "zero_op_rec = \<lparr>opcode = XAIR_OP_CONST_U64, dst = 0, src = [0, 0, 0], src_count = 0,
                  endian = XAIR_ENDIAN_LE, imm = 0\<rparr>"

definition copy_live_value :: "xair_module \<Rightarrow> nat list \<Rightarrow> nat \<Rightarrow> xair_value_rec list \<Rightarrow> xair_value_rec list" where
  "copy_live_value m vm i new_values =
     (if vm ! i \<noteq> XAIR_INVALID_ID
      then new_values[vm ! i := (vals m ! i)\<lparr>val_op := XAIR_INVALID_ID\<rparr>] else new_values)"

text \<open>Only the first \<open>src_count\<close> sources are renamed.\<close>

definition remap_op :: "nat list \<Rightarrow> xair_op_rec \<Rightarrow> xair_op_rec" where
  "remap_op vm oper =
     oper\<lparr>dst := vm ! dst oper,
          src := map (\<lambda>s. vm ! s) (take (src_count oper) (src oper)) @ drop (src_count oper) (src oper)\<rparr>"

text \<open>The operations of one block: the new operation array, the new values and the kept identifiers.\<close>

fun compact_ops :: "xair_module \<Rightarrow> id_maps \<Rightarrow> xair_op_id list \<Rightarrow> xair_op_rec list \<times> xair_value_rec list
    \<Rightarrow> xair_op_id list \<times> xair_op_rec list \<times> xair_value_rec list" where
  "compact_ops m mp [] (new_ops, new_values) = ([], new_ops, new_values)"
| "compact_ops m mp (old_op_id # op_ids) (new_ops, new_values) =
     (let new_op_id = op_map mp ! old_op_id
      in if new_op_id \<noteq> XAIR_INVALID_ID then
           (let new_op = remap_op (value_map mp) (ops m ! old_op_id);
                new_values' = new_values[dst new_op := (new_values ! dst new_op)\<lparr>val_op := new_op_id\<rparr>]
            in case compact_ops m mp op_ids (new_ops[new_op_id := new_op], new_values') of
                 (kept, res) \<Rightarrow> (new_op_id # kept, res))
         else compact_ops m mp op_ids (new_ops, new_values))"

definition remap_args :: "nat list \<Rightarrow> nat \<Rightarrow> nat \<Rightarrow> xair_value_id list \<Rightarrow> xair_value_id list" where
  "remap_args vm offset arg_count args =
     fold (\<lambda>i as. as[offset + i := vm ! (as ! (offset + i))]) [0..<arg_count] args"

definition compact_term :: "nat list \<Rightarrow> xair_term_rec \<Rightarrow> xair_value_id list \<Rightarrow> xair_term_rec \<times> xair_value_id list" where
  "compact_term vm t args =
     (case term_kind t of
        XAIR_TERM_JUMP \<Rightarrow> (t, remap_args vm (true_arg_offset t) (true_arg_count t) args)
      | XAIR_TERM_RETURN \<Rightarrow> (t, remap_args vm (true_arg_offset t) (true_arg_count t) args)
      | XAIR_TERM_CBRANCH \<Rightarrow>
          (t\<lparr>condition := vm ! condition t\<rparr>,
           remap_args vm (false_arg_offset t) (false_arg_count t)
             (remap_args vm (true_arg_offset t) (true_arg_count t) args))
      | _ \<Rightarrow> (t, args))"

fun compact_blocks :: "xair_module \<Rightarrow> id_maps \<Rightarrow> xair_block_rec list
    \<Rightarrow> xair_op_rec list \<times> xair_value_rec list \<times> xair_value_id list
    \<Rightarrow> xair_block_rec list \<times> xair_op_rec list \<times> xair_value_rec list \<times> xair_value_id list" where
  "compact_blocks m mp [] acc = ([], acc)"
| "compact_blocks m mp (bb # bbs) (new_ops, new_values, args) =
     (case compact_ops m mp (blk_ops bb) (new_ops, new_values) of
        (kept, new_ops', new_values') \<Rightarrow>
          (case compact_term (value_map mp) (blk_term bb) args of
             (t, args') \<Rightarrow>
               (case compact_blocks m mp bbs (new_ops', new_values', args') of
                  (bbs', acc) \<Rightarrow>
                    (bb\<lparr>params := map (\<lambda>p. value_map mp ! p) (params bb), blk_ops := kept, blk_term := t\<rparr> # bbs',
                     acc))))"

definition compact_live_values ::
  "allocator \<Rightarrow> bool list \<Rightarrow> xair_canonicalize_stats \<Rightarrow> (xair_module, xair_canonicalize_stats) xop" where
  "compact_live_values al live stats m =
     (let nv = length (vals m); no = length (ops m)
      in if \<not> al Site_value_map (max nv 1 * sizeof_id) \<or> \<not> al Site_op_map (max no 1 * sizeof_id)
         then (Err XAIR_ERR_OOM, m)
         else let mp = number_live m live
         in if new_value_count mp = nv \<and> new_op_count mp = no then (Ok stats, m)
            else if \<not> al Site_new_values (max (new_value_count mp) 1 * sizeof_value)
                    \<or> \<not> al Site_new_ops (max (new_op_count mp) 1 * sizeof_op)
            then (Err XAIR_ERR_OOM, m)
            else
              let new_values = fold (copy_live_value m (value_map mp)) [0..<nv]
                                 (replicate (new_value_count mp) zero_value_rec);
                  new_ops = replicate (new_op_count mp) zero_op_rec
              in case compact_blocks m mp (blocks m) (new_ops, new_values, term_args m) of
                   (bbs, new_ops', new_values', args) \<Rightarrow>
                     (Ok (stats\<lparr>dead_values_removed := dead_values_removed stats + (nv - new_value_count mp),
                                dead_operations_removed := dead_operations_removed stats + (no - new_op_count mp)\<rparr>),
                      m\<lparr>blocks := bbs, term_args := args, vals := new_values', value_cap := new_value_count mp,
                        ops := new_ops', op_cap := new_op_count mp\<rparr>))"

definition live_values :: "xair_module \<Rightarrow> bool list" where
  "live_values m = fold (mark_block_live m) (blocks m) (replicate (length (vals m)) False)"

definition eliminate_dead_values ::
  "allocator \<Rightarrow> xair_canonicalize_stats \<Rightarrow> (xair_module, xair_canonicalize_stats) xop" where
  "eliminate_dead_values al stats m =
     (if \<not> al Site_live (max (length (vals m)) 1) then (Err XAIR_ERR_OOM, m)
      else compact_live_values al (live_values m) stats m)"

definition zero_stats :: xair_canonicalize_stats where
  "zero_stats = \<lparr>values_before = 0, values_after = 0, operations_before = 0, operations_after = 0,
     value_number_entries_before = 0, value_number_entries_after = 0, operands_reordered = 0,
     constants_folded = 0, dead_values_removed = 0, dead_operations_removed = 0\<rparr>"

definition xair_canonicalize_module :: "allocator \<Rightarrow> (xair_module, xair_canonicalize_stats) xop" where
  "xair_canonicalize_module al m =
     (if frozen m then (Err XAIR_ERR_BAD_ARG, m)
      else
        let stats = zero_stats\<lparr>values_before := length (vals m), operations_before := length (ops m),
                               value_number_entries_before := value_number_count m\<rparr>;
            status = fst (xair_verify_module al m)
        in if status \<noteq> XAIR_OK then (Err status, m)
           else case canonicalize_local_ops (value_number_clear m) stats of
             (m1, stats1) \<Rightarrow>
               (case eliminate_dead_values al stats1 m1 of
                  (Err e, m2) \<Rightarrow> (Err e, m2)
                | (Ok stats2, m2) \<Rightarrow>
                    (let status2 = fst (xair_verify_module al m2)
                     in if status2 \<noteq> XAIR_OK then (Err status2, m2)
                        else (Ok (stats2\<lparr>values_after := length (vals m2), operations_after := length (ops m2),
                                value_number_entries_after := value_number_count m2\<rparr>), m2))))"

end
