(* ===== verification/Xair_Canon_Sound.thy ===== *)
theory Xair_Canon_Sound
  imports Xair_Canon
begin

text \<open>
  The local rewrites of the canonicalizer preserve execution. \<open>fold_value_exec\<close> shows that the constant
  found for an operation is the number the executor computes for it; \<open>binary_result_commute\<close> that the
  operands of a commutative operation may be swapped; \<open>mod_rewrites_run\<close> lifts operation-wise equivalence to
  runs, and \<open>canonicalize_local_ops_run\<close> applies it to the whole loop.
\<close>

section \<open>Reading flags\<close>

lemma or_flag_tests:
  fixes c1 c2 c3 c4 c5 c6
  defines "p \<equiv> or_flag c6 XAIR_EXEC_FLAG_AF (or_flag c5 XAIR_EXEC_FLAG_PF (or_flag c4 XAIR_EXEC_FLAG_SF
     (or_flag c3 XAIR_EXEC_FLAG_OF (or_flag c2 XAIR_EXEC_FLAG_CF (or_flag c1 XAIR_EXEC_FLAG_ZF 0)))))"
  shows "p AND XAIR_EXEC_FLAG_ZF \<noteq> 0 \<longleftrightarrow> c1" "p AND XAIR_EXEC_FLAG_CF \<noteq> 0 \<longleftrightarrow> c2"
    "p AND XAIR_EXEC_FLAG_OF \<noteq> 0 \<longleftrightarrow> c3" "p AND XAIR_EXEC_FLAG_SF \<noteq> 0 \<longleftrightarrow> c4"
    "p AND XAIR_EXEC_FLAG_PF \<noteq> 0 \<longleftrightarrow> c5" "p AND XAIR_EXEC_FLAG_AF \<noteq> 0 \<longleftrightarrow> c6"
  unfolding p_def
  by (cases c1; cases c2; cases c3; cases c4; cases c5; cases c6; simp add: or_flag_def)+

text \<open>The test that each extraction opcode makes on a flags value.\<close>

fun flag_bit :: "xair_opcode \<Rightarrow> u64" where
  "flag_bit XAIR_OP_FLAG_ZF = XAIR_EXEC_FLAG_ZF"
| "flag_bit XAIR_OP_FLAG_CF = XAIR_EXEC_FLAG_CF"
| "flag_bit XAIR_OP_FLAG_OF = XAIR_EXEC_FLAG_OF"
| "flag_bit XAIR_OP_FLAG_SF = XAIR_EXEC_FLAG_SF"
| "flag_bit XAIR_OP_FLAG_PF = XAIR_EXEC_FLAG_PF"
| "flag_bit XAIR_OP_FLAG_AF = XAIR_EXEC_FLAG_AF"
| "flag_bit _ = 0"

definition is_flag_opcode :: "xair_opcode \<Rightarrow> bool" where
  "is_flag_opcode oc \<longleftrightarrow> oc \<in> {XAIR_OP_FLAG_ZF, XAIR_OP_FLAG_CF, XAIR_OP_FLAG_OF, XAIR_OP_FLAG_SF,
     XAIR_OP_FLAG_PF, XAIR_OP_FLAG_AF}"

lemma exec_flag_extract:
  "is_flag_opcode oc \<Longrightarrow> exec_unary_result oc out s = Some (bool_u64 (lo s AND flag_bit oc \<noteq> 0))"
  by (auto simp: is_flag_opcode_def exec_unary_result_def Let_def)

lemma or_flag_0 [simp]: "or_flag False f p = p"
  by (simp add: or_flag_def)

lemma exec_logic_flags_eq:
  "exec_logic_flags x b =
     (let result = take_bit b x
      in or_flag False XAIR_EXEC_FLAG_AF (or_flag (even_parity8 result) XAIR_EXEC_FLAG_PF
          (or_flag (result AND sign_bit_for_bits b \<noteq> 0) XAIR_EXEC_FLAG_SF (or_flag False XAIR_EXEC_FLAG_OF
          (or_flag False XAIR_EXEC_FLAG_CF (or_flag (result = 0) XAIR_EXEC_FLAG_ZF 0))))))"
  by (simp add: exec_logic_flags_def Let_def)

lemma or_flag_order:
  "or_flag co f (or_flag cc g (or_flag cp h (or_flag cs i q))) = or_flag cp h (or_flag cs i (or_flag co f (or_flag cc g q)))"
  by (cases co; cases cc; cases cp; cases cs; simp add: or_flag_def or.assoc or.commute or.left_commute)

lemma exec_shift_left_flags_eq:
  "exec_shift_left_flags x s b =
     (let lhs = take_bit b x; result = take_bit b (push_bit (unat s) lhs); cf = drop_bit (b - unat s) lhs AND 1
      in or_flag False XAIR_EXEC_FLAG_AF (or_flag (even_parity8 result) XAIR_EXEC_FLAG_PF
          (or_flag (result AND sign_bit_for_bits b \<noteq> 0) XAIR_EXEC_FLAG_SF
          (or_flag (s = 1 \<and> (result AND sign_bit_for_bits b \<noteq> 0) \<noteq> (cf \<noteq> 0)) XAIR_EXEC_FLAG_OF
          (or_flag (cf \<noteq> 0) XAIR_EXEC_FLAG_CF (or_flag (result = 0) XAIR_EXEC_FLAG_ZF 0))))))"
  unfolding exec_shift_left_flags_def Let_def and_mask_for_bits or_flag_0
  by (rule or_flag_order)

text \<open>The flags value that the executor computes for a flags operation on two numbers.\<close>

definition packed_flags :: "xair_opcode \<Rightarrow> u64 \<Rightarrow> u64 \<Rightarrow> nat \<Rightarrow> u64" where
  "packed_flags foc l r b =
     (if foc = XAIR_OP_FLAGS_LOGIC then exec_logic_flags l b
      else if foc = XAIR_OP_FLAGS_SHL then exec_shift_left_flags l r b
      else exec_flags foc l r b)"

lemma bool_u64_and_1: "bool_u64 (x AND 1 \<noteq> 0) = x AND 1"
  by (cases "even x") (simp_all add: bool_u64_def and_one_eq mod_2_eq_odd)

lemma flag_of_constants_exec:
  assumes "flag_of_constants oc foc l r b = Some v" "is_flag_opcode oc" "is_flags_opcode foc"
    and fits: "take_bit b l = l" "take_bit b r = r"
  shows "v = bool_u64 (packed_flags foc l r b AND flag_bit oc \<noteq> 0)"
  using assms(2,3) assms(1)
  unfolding is_flag_opcode_def is_flags_opcode_def insert_iff empty_iff
  by (elim disjE)
    (simp_all add: flag_of_constants_def packed_flags_def Let_def exec_flags_def exec_logic_flags_eq
      exec_shift_left_flags_eq or_flag_tests bool_u64_and_1 fits del: or_flag_0 split: if_splits,
     auto simp: bool_u64_def)

section \<open>Modules and states with known constants\<close>

definition sound_module :: "xair_module \<Rightarrow> bool" where
  "sound_module m \<longleftrightarrow>
     module_ok m \<and> srcs_shape m \<and> terms_wf m \<and> length (ops m) \<le> UINT32_MAX \<and>
     (\<forall>v < length (vals m). is_value_type (type_of m v)) \<and>
     (\<forall>oper \<in> set (ops m). op_ok m oper \<and> (\<forall>s \<in> set (op_srcs oper). s < length (vals m))) \<and>
     (\<forall>b < length (blocks m). \<forall>p \<in> set (params (blocks m ! b)). val_op (vals m ! p) = XAIR_INVALID_ID)"

lemma wf_sound_module:
  assumes "wf_module m" "module_ok m"
  shows "sound_module m"
proof -
  have "op_ok m (ops m ! i) \<and> (\<forall>s \<in> set (op_srcs (ops m ! i)). s < length (vals m))" if i: "i < length (ops m)" for i
  proof -
    let ?b = "val_block (vals m ! dst (ops m ! i))"
    have w: "op_wf m i" using assms i by (simp add: wf_module_def)
    then have "dst (ops m ! i) < length (vals m)" and mem: "i \<in> set (blk_ops (blocks m ! ?b))"
      by (auto simp: op_wf_def Let_def)
    then have "?b < length (blocks m)" using assms by (auto simp: wf_module_def value_wf_def Let_def)
    then have "block_ok m ?b" using assms by (simp add: module_ok_def)
    moreover obtain k where "k < length (blk_ops (blocks m ! ?b))" "blk_ops (blocks m ! ?b) ! k = i"
      using mem by (auto simp: in_set_conv_nth)
    ultimately have "block_op_ok m ?b (avail_at m (blocks m ! ?b) k) i"
      by (auto simp: block_ok_def Let_def)
    then show ?thesis by (simp add: block_op_ok_def usable_def Let_def)
  qed
  then have "\<forall>oper \<in> set (ops m). op_ok m oper \<and> (\<forall>s \<in> set (op_srcs oper). s < length (vals m))"
    unfolding all_set_conv_all_nth [of "ops m"] by blast
  then show ?thesis
    using assms wf_module_srcs_shape [OF assms(1)]
    by (auto simp: sound_module_def terms_wf_def wf_module_def value_wf_def block_wf_def Let_def)
qed

text \<open>The value of an operation whose operands are constants, for constants and flags operations.\<close>

definition const_arg :: "xair_module \<Rightarrow> xair_value_id \<Rightarrow> u64 \<Rightarrow> xair_exec_value" where
  "const_arg m v c = exec_value_make (type_of m v) c 0"

definition known :: "xair_module \<Rightarrow> xair_value_id \<Rightarrow> xair_exec_value option" where
  "known m v =
     (let op_id = val_op (vals m ! v); oper = ops m ! op_id; out = type_of m v
      in if op_id \<ge> length (ops m) \<or> op_id = XAIR_INVALID_ID then None
         else if opcode oper = XAIR_OP_CONST_U64 then Some (exec_value_make out (imm oper) 0)
         else if opcode oper = XAIR_OP_FLAGS_LOGIC then
           (case const_u64_value m (src oper ! 0) of
              None \<Rightarrow> None
            | Some l \<Rightarrow> map_option (\<lambda>r. exec_value_make out r 0)
                (exec_unary_result (opcode oper) out (const_arg m (src oper ! 0) l)))
         else if is_flags_opcode (opcode oper) then
           (case two_consts m oper of
              None \<Rightarrow> None
            | Some (l, r) \<Rightarrow> map_option (\<lambda>r. exec_value_make out r 0)
                (exec_binary_result (opcode oper) out (const_arg m (src oper ! 0) l) (const_arg m (src oper ! 1) r)))
         else None)"

definition consistent :: "xair_module \<Rightarrow> xair_exec_state \<Rightarrow> bool" where
  "consistent m st \<longleftrightarrow> (\<forall>v \<in> defd st. \<forall>x. known m v = Some x \<longrightarrow> ex_values st ! v = x)"

lemma const_u64_value_Some:
  assumes "const_u64_value m v = Some c"
  shows "v < length (vals m)" "val_op (vals m ! v) < length (ops m)" "val_op (vals m ! v) \<noteq> XAIR_INVALID_ID"
    "opcode (ops m ! val_op (vals m ! v)) = XAIR_OP_CONST_U64"
    "c = take_bit (bits (type_of m v)) (imm (ops m ! val_op (vals m ! v)))"
    "exec_scalar_u64_type (type_of m v)" "take_bit (bits (type_of m v)) c = c"
  using assms
  by (auto simp: const_u64_value_def Let_def valid_value_def exec_scalar_u64_type_def truncate_to_type_def
      is_int_def is_addr_def split: if_splits)

lemma read_const:
  assumes st: "state_ok m st" "consistent m st" and u: "usable m (defd st) v"
    and c: "const_u64_value m v = Some c"
  shows "exec_read_value st v = Ok (const_arg m v c)"
proof -
  note cv = const_u64_value_Some [OF c]
  let ?x = "exec_value_make (type_of m v) (imm (ops m ! val_op (vals m ! v))) 0"
  have eq: "const_arg m v c = ?x"
    using cv(5,6,7) by (auto simp: const_arg_def exec_value_make_def truncate_to_type_scalar exec_scalar_u64_type_def)
  have k: "known m v = Some ?x" using cv by (simp add: known_def Let_def)
  show ?thesis
  proof (cases "v \<in> defd st")
    case True
    then have "ex_values st ! v = ?x" using st(2) k by (auto simp: consistent_def)
    with True st(1) cv(1) show ?thesis unfolding eq
      by (auto simp: exec_read_value_def exec_check_value_slot_def state_ok_def defd_def)
  next
    case False
    with st(1) u cv(1) show ?thesis unfolding eq
      by (auto simp: exec_read_value_def exec_check_value_slot_def state_ok_def defd_def usable_def)
  qed
qed

lemma const_arg_simps [simp]:
  "ev_type (const_arg m v c) = type_of m v" "lo (const_arg m v c) = truncate_to_type c (type_of m v)"
  by (simp_all add: const_arg_def)

lemma const_arg_lo:
  "const_u64_value m v = Some c \<Longrightarrow> truncate_to_type c (type_of m v) = c"
  using const_u64_value_Some(6,7) by (auto simp: truncate_to_type_scalar exec_scalar_u64_type_def)

section \<open>Folding computes what the executor computes\<close>

lemma two_consts_Some:
  "two_consts m oper = Some (l, r) \<longleftrightarrow>
     const_u64_value m (src oper ! 0) = Some l \<and> const_u64_value m (src oper ! 1) = Some r"
  by (auto simp: two_consts_def split: option.splits)

lemma exec_binary_consts:
  assumes "two_consts m oper = Some (l, r)"
  shows "exec_binary_result oc out (const_arg m (src oper ! 0) l) (const_arg m (src oper ! 1) r) =
    exec_binary_switch oc out (type_of m (src oper ! 0)) (type_of m (src oper ! 1)) l r"
  using assms const_u64_value_Some(6,7) [of m "src oper ! 0" l] const_u64_value_Some(6,7) [of m "src oper ! 1" r]
  by (auto simp: exec_binary_result_def two_consts_Some const_arg_lo exec_scalar_u64_type_def)

lemma fold_binary_exec:
  assumes ok: "op_ok m oper" and srcs: "op_srcs oper = [src oper ! 0, src oper ! 1]"
    and sm: "sound_module m" and f: "fold_value m oper = Some v"
  shows "\<exists>l r. two_consts m oper = Some (l, r) \<and>
    exec_binary_switch (opcode oper) (type_of m (dst oper)) (type_of m (src oper ! 0)) (type_of m (src oper ! 1)) l r = Some v"
proof -
  have sig: "op_sig (opcode oper) [type_of m (src oper ! 0), type_of m (src oper ! 1)] (type_of m (dst oper))"
    using ok srcs by (simp add: op_ok_def)
  then have nu: "opcode oper \<notin> {XAIR_OP_ZEXT, XAIR_OP_SEXT, XAIR_OP_TRUNC, XAIR_OP_INT_TO_ADDR, XAIR_OP_ADDR_TO_INT,
      XAIR_OP_FLAG_ZF, XAIR_OP_FLAG_CF, XAIR_OP_FLAG_OF, XAIR_OP_FLAG_SF, XAIR_OP_FLAG_PF, XAIR_OP_FLAG_AF}"
    by (auto simp: op_sig_simps)
  obtain l r where lr: "two_consts m oper = Some (l, r)"
    using f nu by (auto simp: fold_value_def Let_def split: if_splits option.splits)
  have lhs1: "1 \<le> bits (type_of m (src oper ! 0))"
    using sm srcs lr const_u64_value_Some(1,6) [of m "src oper ! 0" l]
    by (intro valid_int_width)
      (auto simp: sound_module_def two_consts_Some is_value_type_def exec_scalar_u64_type_def)
  have fit: "take_bit (bits (type_of m (src oper ! 0))) l = l" "take_bit (bits (type_of m (src oper ! 1))) r = r"
    "bits (type_of m (src oper ! 0)) \<le> 64" "bits (type_of m (src oper ! 1)) \<le> 64"
    using lr const_u64_value_Some(6,7) by (auto simp: two_consts_Some exec_scalar_u64_type_def)
  have "exec_binary_switch (opcode oper) (type_of m (dst oper)) (type_of m (src oper ! 0)) (type_of m (src oper ! 1)) l r = Some v"
    using f nu sig lr fit lhs1
    by (cases "opcode oper")
      (simp_all add: exec_binary_switch_def fold_value_def fold_arith_def fold_shift_def fold_compare_def
        Let_def op_sig_simps split: if_splits)
  with lr show ?thesis by blast
qed

lemma compute_flag_extract_Some:
  assumes "compute_flag_extract m oc v = Some c" "sound_module m" "is_flag_opcode oc" "is_flags (type_of m v)"
  obtains x where "known m v = Some x" "c = bool_u64 (lo x AND flag_bit oc \<noteq> 0)"
    "\<not> value_is_global_const m v" "v < length (vals m)"
proof -
  let ?i = "val_op (vals m ! v)"
  let ?oper = "ops m ! ?i"
  have v: "v < length (vals m)" "?i < length (ops m)" "?i \<noteq> XAIR_INVALID_ID" and foc: "is_flags_opcode (opcode ?oper)"
    using assms(1) by (auto simp: compute_flag_extract_def Let_def valid_value_def split: if_splits option.splits)
  then have ng: "\<not> value_is_global_const m v"
    by (auto simp: value_is_global_const_def valid_value_def Let_def is_flags_opcode_def)
  have okop: "op_ok m ?oper" "length (src ?oper) = 3" "src_count ?oper \<le> 3"
    using assms(2) v by (auto simp: sound_module_def srcs_shape_def)
  obtain l where l: "const_u64_value m (src ?oper ! 0) = Some l"
    using assms(1) v foc by (auto simp: compute_flag_extract_def Let_def valid_value_def split: option.splits)
  let ?lt = "type_of m (src ?oper ! 0)"
  note lc = const_u64_value_Some [OF l]
  have trunc: "truncate_to_type w (type_of m v) = w" for w
    using assms(4) by (simp add: truncate_to_type_def is_flags_def)
  show thesis
  proof (cases "opcode ?oper = XAIR_OP_FLAGS_LOGIC")
    case True
    with okop have "op_srcs ?oper = [src ?oper ! 0]"
      by (cases rule: op_ok_srcs) (auto simp: is_unary_opcode_def)
    with okop True have t: "is_int ?lt" by (auto simp: op_ok_def op_sig_simps)
    show thesis
    proof (rule that)
      show "known m v = Some (exec_value_make (type_of m v) (exec_logic_flags l (bits ?lt)) 0)"
        using v True l t lc(6,7) assms(4)
        by (simp add: known_def Let_def exec_unary_result_def const_arg_lo exec_scalar_u64_type_def)
      have "flag_of_constants oc (opcode ?oper) l 0 (bits ?lt) = Some c"
        using assms(1) v foc True l t by (simp add: compute_flag_extract_def Let_def valid_value_def split: if_splits)
      from flag_of_constants_exec [OF this assms(3) foc lc(7)] True
      show "c = bool_u64 (lo (exec_value_make (type_of m v) (exec_logic_flags l (bits ?lt)) 0) AND flag_bit oc \<noteq> 0)"
        by (simp add: packed_flags_def trunc)
    qed (fact ng v(1))+
  next
    case False
    with okop foc have "op_srcs ?oper = [src ?oper ! 0, src ?oper ! 1]"
      by (cases rule: op_ok_srcs) (auto simp: is_unary_opcode_def is_flags_opcode_def)
    with okop False foc have t: "is_int ?lt" "type_of m (src ?oper ! 1) = ?lt"
      by (auto simp: op_ok_def op_sig_simps is_flags_opcode_def)
    obtain r where r: "const_u64_value m (src ?oper ! 1) = Some r"
        and fc: "flag_of_constants oc (opcode ?oper) l r (bits ?lt) = Some c"
      using assms(1) v foc False l t
      by (auto simp: compute_flag_extract_def Let_def valid_value_def split: if_splits option.splits)
    note rc = const_u64_value_Some [OF r]
    have two: "two_consts m ?oper = Some (l, r)" using l r by (simp add: two_consts_Some)
    have "exec_binary_switch (opcode ?oper) (type_of m v) ?lt ?lt l r = Some (packed_flags (opcode ?oper) l r (bits ?lt))"
      using foc False t fc lc(7) rc(7)
      by (auto simp: exec_binary_switch_def packed_flags_def is_flags_opcode_def flag_of_constants_def Let_def
          split: if_splits)
    then have k: "known m v = Some (exec_value_make (type_of m v) (packed_flags (opcode ?oper) l r (bits ?lt)) 0)"
      using v False foc two t exec_binary_consts [OF two]
      by (auto simp: known_def Let_def is_flags_opcode_def)
    have "c = bool_u64 (packed_flags (opcode ?oper) l r (bits ?lt) AND flag_bit oc \<noteq> 0)"
      by (rule flag_of_constants_exec [OF fc assms(3) foc]) (use lc(7) rc(7) t in simp_all)
    then show thesis by (intro that [OF k _ ng v(1)]) (simp add: trunc)
  qed
qed

lemma make_truncate [simp]: "exec_value_make t (truncate_to_type v t) h = exec_value_make t v h"
  by (simp add: exec_value_make_def)

lemma fold_unary_exec:
  assumes st: "state_ok m st" "consistent m st" and sm: "sound_module m" and ok: "op_ok m oper"
    and srcs: "op_srcs oper = [src oper ! 0]" and u: "usable m (defd st) (src oper ! 0)"
    and f: "fold_value m oper = Some v"
  shows "\<exists>x. exec_read_value st (src oper ! 0) = Ok x \<and>
    exec_unary_result (opcode oper) (type_of m (dst oper)) x = Some v"
proof -
  have sig: "op_sig (opcode oper) [type_of m (src oper ! 0)] (type_of m (dst oper))"
    using ok srcs by (simp add: op_ok_def)
  show ?thesis
  proof (cases "is_flag_opcode (opcode oper)")
    case True
    then have fl: "is_flags (type_of m (src oper ! 0))" using sig by (auto simp: is_flag_opcode_def op_sig_simps)
    have "compute_flag_extract m (opcode oper) (src oper ! 0) = Some v"
      using f True by (auto simp: fold_value_def is_flag_opcode_def)
    from compute_flag_extract_Some [OF this sm True fl] obtain x where x: "known m (src oper ! 0) = Some x"
      "v = bool_u64 (lo x AND flag_bit (opcode oper) \<noteq> 0)" "\<not> value_is_global_const m (src oper ! 0)"
      "src oper ! 0 < length (vals m)" by blast
    with u have d: "src oper ! 0 \<in> defd st" by (simp add: usable_def)
    with st x have "ex_values st ! (src oper ! 0) = x" by (auto simp: consistent_def)
    with d st(1) x(4) have "exec_read_value st (src oper ! 0) = Ok x"
      by (auto simp: exec_read_value_def exec_check_value_slot_def state_ok_def defd_def)
    with x(2) exec_flag_extract [OF True] show ?thesis by auto
  next
    case False
    moreover have "is_unary_opcode (opcode oper)" using op_sig_arity [OF sig] by (simp split: if_splits)
    ultimately have nb: "opcode oper \<in> {XAIR_OP_ZEXT, XAIR_OP_SEXT, XAIR_OP_TRUNC, XAIR_OP_INT_TO_ADDR, XAIR_OP_ADDR_TO_INT,
        XAIR_OP_FLAGS_LOGIC}"
      unfolding is_unary_opcode_def is_flag_opcode_def by blast
    then obtain l where l: "const_u64_value m (src oper ! 0) = Some l"
      using f False by (auto simp: fold_value_def Let_def split: if_splits option.splits)
    have "exec_unary_result (opcode oper) (type_of m (dst oper)) (const_arg m (src oper ! 0) l) = Some v"
      using nb f const_u64_value_Some(6) [OF l]
      unfolding insert_iff empty_iff
      by (elim disjE)
        (simp_all add: fold_value_def exec_unary_result_def Let_def exec_scalar_u64_type_def l const_arg_lo [OF l]
          split: if_splits)
    with read_const [OF st u l] show ?thesis by blast
  qed
qed

definition well_placed :: "xair_module \<Rightarrow> xair_exec_state \<Rightarrow> xair_op_rec \<Rightarrow> bool" where
  "well_placed m st oper \<longleftrightarrow> state_ok m st \<and> consistent m st \<and> op_ok m oper \<and>
     length (src oper) = 3 \<and> src_count oper \<le> 3 \<and> (\<forall>s \<in> set (op_srcs oper). usable m (defd st) s)"

lemma fold_op_exec:
  assumes w: "well_placed m st oper" and sm: "sound_module m" and f: "fold_constant_op m oper = Some oper'"
  shows "exec_op al oper' st = exec_op al oper st \<and> fst (exec_op al oper st) = Ok ()"
proof -
  let ?out = "type_of m (dst oper)"
  obtain v where v: "fold_value m oper = Some v" "oper' = fold_to_const oper v ?out"
    using f by (auto simp: fold_constant_op_def)
  have st: "state_ok m st" "consistent m st" and ok: "op_ok m oper" "length (src oper) = 3" "src_count oper \<le> 3"
    and u: "\<forall>s \<in> set (op_srcs oper). usable m (defd st) s" using w by (auto simp: well_placed_def)
  have m: "ex_module st = m" and d: "dst oper < length (vals m)" using st ok by (auto simp: state_ok_def op_ok_def)
  have e': "exec_op al oper' st = exec_define_value (dst oper) (exec_value_make ?out v 0) st"
    by (simp add: v(2) exec_op_def fold_to_const_def m)
  obtain st1 where "exec_define_value (dst oper) (exec_value_make ?out v 0) st = (Ok (), st1)"
    by (rule exec_define_value_ok [OF st(1) d, of "exec_value_make ?out v 0"]) simp_all
  moreover have "exec_op al oper st = exec_define_value (dst oper) (exec_value_make ?out v 0) st"
    using ok
  proof (cases rule: op_ok_srcs)
    case const
    with v(1) show ?thesis by (simp add: fold_value_def)
  next
    case unary
    then obtain x where "exec_read_value st (src oper ! 0) = Ok x" "exec_unary_result (opcode oper) ?out x = Some v"
      using fold_unary_exec [OF st sm ok(1) unary(3) _ v(1)] u by auto
    moreover have "opcode oper \<notin> {XAIR_OP_CONST_U64, XAIR_OP_LOAD, XAIR_OP_STORE}"
      using unary by (auto simp: is_unary_opcode_def)
    ultimately show ?thesis using unary
      by (simp add: exec_op_def m Let_def exec_unary_op_def exec_define_result_def)
  next
    case store
    with v(1) show ?thesis by (simp add: fold_value_def)
  next
    case binary
    have nl: "opcode oper \<noteq> XAIR_OP_LOAD" using v(1) by (auto simp: fold_value_def)
    obtain l r where lr: "two_consts m oper = Some (l, r)"
      "exec_binary_switch (opcode oper) ?out (type_of m (src oper ! 0)) (type_of m (src oper ! 1)) l r = Some v"
      using fold_binary_exec [OF ok(1) binary(5) sm v(1)] by blast
    then have "exec_read_value st (src oper ! 0) = Ok (const_arg m (src oper ! 0) l)"
      "exec_read_value st (src oper ! 1) = Ok (const_arg m (src oper ! 1) r)"
      using u binary(5) read_const [OF st] by (auto simp: two_consts_Some)
    with binary nl lr exec_binary_consts [OF lr(1)] show ?thesis
      by (simp add: exec_op_def m Let_def exec_binary_op_def exec_define_result_def)
  qed
  ultimately show ?thesis using e' by simp
qed

section \<open>Commutative operations\<close>

lemma unat_take_bit_min: "unat (take_bit b w) = unat w mod 2 ^ min b 64" for w :: u64
proof -
  have "unat w < 2 ^ LENGTH(64)" by (rule unsigned_less)
  then have "unat w = take_bit 64 (unat w)" by (simp add: take_bit_nat_eq_self)
  then have "unat (take_bit b w) = take_bit (min b 64) (unat w)"
    by (metis take_bit_take_bit unsigned_take_bit_eq)
  then show ?thesis by (simp only: take_bit_eq_mod)
qed

lemma carry_symmetric:
  fixes x y :: u64
  shows "take_bit b (take_bit b x + take_bit b y) < take_bit b x \<longleftrightarrow>
         take_bit b (take_bit b x + take_bit b y) < take_bit b y"
proof -
  define X where "X = unat (take_bit b x)"
  define Y where "Y = unat (take_bit b y)"
  define k :: nat where "k = min b 64"
  have lt: "X < 2 ^ k" "Y < 2 ^ k"
    by (simp_all add: X_def Y_def k_def unat_take_bit_min)
  have s: "unat (take_bit b (take_bit b x + take_bit b y)) = (X + Y) mod 2 ^ k"
    unfolding unat_take_bit_min [of b "_ + _"] unat_word_ariths(1)
    using le_imp_power_dvd [of "min b 64" 64 "2 :: nat"] by (simp add: X_def Y_def k_def mod_mod_cancel)
  have "(X + Y) mod 2 ^ k < X \<longleftrightarrow> (X + Y) mod 2 ^ k < Y"
  proof (cases "X + Y < 2 ^ k")
    case False
    then have "(X + Y) mod 2 ^ k = X + Y - 2 ^ k" using lt by (simp add: le_mod_geq)
    with False lt show ?thesis by linarith
  qed auto
  then show ?thesis by (simp add: word_less_nat_alt s X_def [symmetric] Y_def [symmetric])
qed

lemma exec_flags_add_commute:
  "exec_flags XAIR_OP_FLAGS_ADD x y b = exec_flags XAIR_OP_FLAGS_ADD y x b"
proof -
  let ?s = "take_bit b (take_bit b x + take_bit b y)"
  have c1: "take_bit b y + take_bit b x = take_bit b x + take_bit b y" by (rule add.commute)
  have c2: "?s < take_bit b y \<longleftrightarrow> ?s < take_bit b x" by (rule carry_symmetric [symmetric])
  have c3: "take_bit b y XOR take_bit b x XOR ?s = take_bit b x XOR take_bit b y XOR ?s"
    by (rule xor.left_commute)
  have c4: "((take_bit b y AND s \<noteq> 0) = (take_bit b x AND s \<noteq> 0) \<and> (?s AND s \<noteq> 0) \<noteq> (take_bit b y AND s \<noteq> 0)) =
     ((take_bit b x AND s \<noteq> 0) = (take_bit b y AND s \<noteq> 0) \<and> (?s AND s \<noteq> 0) \<noteq> (take_bit b x AND s \<noteq> 0))" for s
    by blast
  show ?thesis
    unfolding exec_flags_def Let_def and_mask_for_bits if_P [OF refl] c1 c2 c3 c4 ..
qed

lemma binary_result_commute:
  assumes "op_is_commutative oc" "ev_type x = ev_type y"
  shows "exec_binary_result oc out x y = exec_binary_result oc out y x"
  using assms(1) unfolding op_is_commutative_def insert_iff empty_iff exec_binary_result_def assms(2)
  by (elim disjE)
    (simp_all add: exec_binary_switch_def Let_def ac_simps eq_commute exec_flags_add_commute [of "take_bit b (lo x)" for b])

lemma swap_srcs_simps:
  assumes "length (src oper) = 3" "src_count oper = 2"
  shows "src (swap_srcs oper) ! 0 = src oper ! 1" "src (swap_srcs oper) ! 1 = src oper ! 0"
    "op_srcs (swap_srcs oper) = [src oper ! 1, src oper ! 0]" "op_srcs oper = [src oper ! 0, src oper ! 1]"
    "length (src (swap_srcs oper)) = 3"
proof -
  obtain a b c where s: "src oper = [a, b, c]"
    using assms(1) by (metis length_0_conv length_Suc_conv numeral_3_eq_3)
  then show "src (swap_srcs oper) ! 0 = src oper ! 1" "src (swap_srcs oper) ! 1 = src oper ! 0"
    "op_srcs (swap_srcs oper) = [src oper ! 1, src oper ! 0]" "op_srcs oper = [src oper ! 0, src oper ! 1]"
    "length (src (swap_srcs oper)) = 3"
    using assms(2) by (simp_all add: swap_srcs_def op_srcs_def numeral_2_eq_2)
qed

lemma swap_srcs_fields [simp]:
  "opcode (swap_srcs oper) = opcode oper" "dst (swap_srcs oper) = dst oper"
  "src_count (swap_srcs oper) = src_count oper"
  by (simp_all add: swap_srcs_def)

lemma commutative_types:
  assumes "op_ok m oper" "op_is_commutative (opcode oper)" "op_srcs oper = [a, b]"
  shows "type_of m a = type_of m b"
  using assms(2,1,3) unfolding op_is_commutative_def insert_iff empty_iff
  by (elim disjE) (auto simp: op_ok_def op_sig_simps)

lemma swap_op_ok:
  assumes "op_ok m oper" "op_is_commutative (opcode oper)" "length (src oper) = 3" "src_count oper = 2"
  shows "op_ok m (swap_srcs oper)"
  using assms commutative_types [OF assms(1,2) swap_srcs_simps(4)] swap_srcs_simps(3,4) [OF assms(3,4)]
  by (simp add: op_ok_def)

lemma swap_op_exec:
  assumes w: "well_placed m st oper" and c: "op_is_commutative (opcode oper)" and n: "src_count oper = 2"
  shows "exec_op al (swap_srcs oper) st = exec_op al oper st"
proof -
  have st: "state_ok m st" and ok: "op_ok m oper" "length (src oper) = 3"
    and u: "\<forall>s \<in> set (op_srcs oper). usable m (defd st) s" using w by (auto simp: well_placed_def)
  note sw = swap_srcs_simps [OF ok(2) n]
  have us: "usable m (defd st) (src oper ! 0)" "usable m (defd st) (src oper ! 1)" using u sw by auto
  from st us(1) obtain x where x: "exec_read_value st (src oper ! 0) = Ok x" "ev_type x = type_of m (src oper ! 0)"
    by (rule exec_read_value_ok)
  from st us(2) obtain y where y: "exec_read_value st (src oper ! 1) = Ok y" "ev_type y = type_of m (src oper ! 1)"
    by (rule exec_read_value_ok)
  have "ev_type x = ev_type y" using commutative_types [OF ok(1) c sw(4)] x y by simp
  note comm = binary_result_commute [OF c this]
  have "opcode oper \<notin> {XAIR_OP_CONST_U64, XAIR_OP_LOAD, XAIR_OP_STORE}"
    using c by (auto simp: op_is_commutative_def)
  then show ?thesis using n x y
    by (simp add: exec_op_def Let_def exec_binary_op_def sw(1,2) [unfolded One_nat_def] comm exec_define_result_def
        split: option.split)
qed

section \<open>Consistency is kept by execution\<close>

definition only_defines :: "xair_value_id \<Rightarrow> xair_exec_state \<Rightarrow> xair_exec_state \<Rightarrow> bool" where
  "only_defines v st st' \<longleftrightarrow> (\<forall>w. w \<noteq> v \<longrightarrow> (w \<in> defd st') = (w \<in> defd st) \<and> ex_values st' ! w = ex_values st ! w)"

lemma define_only_defines:
  assumes "exec_define_value v x st = (r, st')" "length (ex_values st) = length (ex_defined st)"
  shows "only_defines v st st' \<and> (r = Ok () \<longrightarrow> ex_values st' ! v = x) \<and> (r \<noteq> Ok () \<longrightarrow> st' = st)"
  using assms
  by (auto simp: exec_define_value_def exec_check_value_slot_def only_defines_def defd_def nth_list_update split: if_splits)

lemma consistent_define:
  assumes "exec_define_value v x st = (r, st')" "state_ok m st" "consistent m st"
    and "\<And>y. known m v = Some y \<Longrightarrow> x = y"
  shows "consistent m st'"
proof (cases "r = Ok ()")
  case True
  from define_only_defines [OF assms(1)] assms(2) True
  have "only_defines v st st'" "ex_values st' ! v = x" by (auto simp: state_ok_def)
  with assms(3,4) show ?thesis unfolding consistent_def only_defines_def by metis
next
  case False
  with define_only_defines [OF assms(1)] assms(2,3) show ?thesis by (auto simp: state_ok_def)
qed

lemma consistent_define_result:
  assumes "exec_define_result oper out res st = (r, st')" "state_ok m st" "consistent m st"
    and "\<And>y z. known m (dst oper) = Some y \<Longrightarrow> res = Some z \<Longrightarrow> exec_value_make out z 0 = y"
  shows "consistent m st'"
proof (cases res)
  case None
  with assms show ?thesis by (simp add: exec_define_result_def)
next
  case (Some z)
  with assms(1) have "exec_define_value (dst oper) (exec_value_make out z 0) st = (r, st')"
    by (simp add: exec_define_result_def)
  then show ?thesis by (rule consistent_define [OF _ assms(2,3)]) (use assms(4) Some in blast)
qed

lemma same_values_consistent: "same_values st st' \<Longrightarrow> consistent m st' = consistent m st"
  by (simp add: same_values_def consistent_def defd_def)

lemma same_values_refl [simp]: "same_values st st" "same_values st (st\<lparr>mem_generation := g\<rparr>)"
  by (simp_all add: same_values_def)

lemma exec_memory_op_values:
  assumes e: "exec_memory_op al oper out st = (r, st')"
  shows "\<exists>st1. same_values st st1 \<and> (st' = st1 \<or> (\<exists>x. exec_define_value (dst oper) x st1 = (r, st')))"
proof (cases "\<exists>memory address. exec_read_value st (src oper ! 0) = Ok memory \<and> exec_read_value st (src oper ! 1) = Ok address
    \<and> is_mem (ev_type memory) \<and> is_addr (ev_type address)")
  case False
  with e have "st' = st" by (auto simp: exec_memory_op_def split: xres.splits if_splits)
  then show ?thesis by (auto intro: exI [of _ st])
next
  case True
  then obtain memory address where rd: "exec_read_value st (src oper ! 0) = Ok memory"
    "exec_read_value st (src oper ! 1) = Ok address" "is_mem (ev_type memory)" "is_addr (ev_type address)" by blast
  have store: "\<exists>st1. same_values st st1 \<and> (st' = st1 \<or> (\<exists>x. exec_define_value (dst oper) x st1 = (r, st')))"
    if "exec_store_u64 al sp a v sz en st = (r1, st1)"
      "(case r1 of Err e \<Rightarrow> (Err e, st1) | Ok _ \<Rightarrow>
         exec_define_value (dst oper) (exec_value_make out (mem_generation st1 + 1) 0)
           (st1\<lparr>mem_generation := mem_generation st1 + 1\<rparr>)) = (r, st')" for sp a v sz en r1 st1
  proof -
    have "same_values st st1" using that(1) by (rule exec_store_u64_values)
    moreover from this have "same_values st (st1\<lparr>mem_generation := mem_generation st1 + 1\<rparr>)"
      by (simp add: same_values_def)
    ultimately show ?thesis using that(2) by (cases r1) auto
  qed
  show ?thesis
  proof (cases "opcode oper = XAIR_OP_LOAD")
    case True
    with e rd show ?thesis
      by (auto simp: exec_memory_op_def split: option.splits xres.splits intro: exI [of _ st])
  next
    case False
    with e rd show ?thesis
      by (auto simp: exec_memory_op_def Let_def split: if_splits option.splits xres.splits prod.splits
          intro: store exI [of _ st]) (use exec_store_u64_values in blast)+
  qed
qed

lemma exec_memory_consistent:
  assumes e: "exec_memory_op al oper out st = (r, st')" and st: "state_ok m st" "consistent m st"
    and k: "known m (dst oper) = None"
  shows "consistent m st'"
proof -
  from exec_memory_op_values [OF e] obtain st1 where st1: "same_values st st1"
    "st' = st1 \<or> (\<exists>x. exec_define_value (dst oper) x st1 = (r, st'))" by blast
  with st have "state_ok m st1" "consistent m st1"
    by (auto simp: same_values_state [of st st1 m] same_values_consistent [of st st1 m])
  with st1(2) k show ?thesis by (auto elim: consistent_define)
qed

lemma exec_op_consistent:
  assumes w: "well_placed m st oper" and sm: "sound_module m"
    and i: "val_op (vals m ! dst oper) < length (ops m)" "ops m ! val_op (vals m ! dst oper) = oper"
    and e: "exec_op al oper st = (r, st')"
  shows "consistent m st'"
proof -
  have st: "state_ok m st" "consistent m st" and ok: "op_ok m oper" "length (src oper) = 3" "src_count oper \<le> 3"
    and u: "\<forall>s \<in> set (op_srcs oper). usable m (defd st) s" using w by (auto simp: well_placed_def)
  have m: "ex_module st = m" using st by (simp add: state_ok_def)
  have ni: "val_op (vals m ! dst oper) \<noteq> XAIR_INVALID_ID" using i sm by (auto simp: sound_module_def)
  note known_op = known_def [of m "dst oper", unfolded Let_def i(2)]
  from ok show ?thesis
  proof (cases rule: op_ok_srcs)
    case const
    then have "exec_define_value (dst oper) (exec_value_make (type_of m (dst oper)) (imm oper) 0) st = (r, st')"
      using e m by (simp add: exec_op_def)
    then show ?thesis by (rule consistent_define [OF _ st]) (use const in \<open>auto simp: known_op split: if_splits\<close>)
  next
    case unary
    have nc: "opcode oper \<notin> {XAIR_OP_CONST_U64, XAIR_OP_LOAD, XAIR_OP_STORE}"
      using unary by (auto simp: is_unary_opcode_def)
    from st(1) obtain x where x: "exec_read_value st (src oper ! 0) = Ok x"
      using u unary(3) by (auto elim: exec_read_value_ok)
    then have "exec_define_result oper (type_of m (dst oper)) (exec_unary_result (opcode oper) (type_of m (dst oper)) x) st = (r, st')"
      using e m nc unary by (simp add: exec_op_def Let_def exec_unary_op_def)
    then show ?thesis
    proof (rule consistent_define_result [OF _ st])
      fix y z
      assume y: "known m (dst oper) = Some y" and z: "exec_unary_result (opcode oper) (type_of m (dst oper)) x = Some z"
      have "opcode oper = XAIR_OP_FLAGS_LOGIC"
        using y unary(1) by (auto simp: known_op is_unary_opcode_def is_flags_opcode_def split: if_splits)
      then obtain l where l: "const_u64_value m (src oper ! 0) = Some l"
        and y': "map_option (\<lambda>r. exec_value_make (type_of m (dst oper)) r 0)
          (exec_unary_result (opcode oper) (type_of m (dst oper)) (const_arg m (src oper ! 0) l)) = Some y"
        using y by (auto simp: known_op split: if_splits option.splits)
      have "x = const_arg m (src oper ! 0) l" using read_const [OF st _ l] u unary(3) x by simp
      with y' z show "exec_value_make (type_of m (dst oper)) z 0 = y" by simp
    qed
  next
    case store
    then have "exec_memory_op al oper (type_of m (dst oper)) st = (r, st')" using e m by (simp add: exec_op_def)
    then show ?thesis
      by (rule exec_memory_consistent [OF _ st]) (use store in \<open>simp add: known_op is_flags_opcode_def\<close>)
  next
    case binary
    show ?thesis
    proof (cases "opcode oper = XAIR_OP_LOAD")
      case True
      then have "exec_memory_op al oper (type_of m (dst oper)) st = (r, st')" using e m by (simp add: exec_op_def)
      then show ?thesis
        by (rule exec_memory_consistent [OF _ st]) (use True in \<open>simp add: known_op is_flags_opcode_def\<close>)
    next
      case False
      from st(1) obtain x where x: "exec_read_value st (src oper ! 0) = Ok x"
        using u binary(5) by (auto elim: exec_read_value_ok)
      from st(1) obtain y where y: "exec_read_value st (src oper ! 1) = Ok y"
        using u binary(5) by (auto elim: exec_read_value_ok)
      have "exec_define_result oper (type_of m (dst oper)) (exec_binary_result (opcode oper) (type_of m (dst oper)) x y) st = (r, st')"
        using e m False binary x y by (simp add: exec_op_def Let_def exec_binary_op_def)
      then show ?thesis
      proof (rule consistent_define_result [OF _ st])
        fix w z
        assume k: "known m (dst oper) = Some w"
          and z: "exec_binary_result (opcode oper) (type_of m (dst oper)) x y = Some z"
        obtain l r where lr: "two_consts m oper = Some (l, r)"
          and w: "map_option (\<lambda>r. exec_value_make (type_of m (dst oper)) r 0)
            (exec_binary_result (opcode oper) (type_of m (dst oper)) (const_arg m (src oper ! 0) l)
              (const_arg m (src oper ! 1) r)) = Some w"
          using k binary by (auto simp: known_op is_unary_opcode_def split: if_splits option.splits)
        have "x = const_arg m (src oper ! 0) l" "y = const_arg m (src oper ! 1) r"
          using read_const [OF st] u binary(5) x y lr by (auto simp: two_consts_Some)
        with w z show "exec_value_make (type_of m (dst oper)) z 0 = w" by simp
      qed
    qed
  qed
qed

section \<open>Rewriting operations of a module\<close>

text \<open>The same state, running another module.\<close>

definition retarget :: "xair_module \<Rightarrow> xair_exec_state \<Rightarrow> xair_exec_state" where
  "retarget m' st = st\<lparr>ex_module := m'\<rparr>"

lemma retarget_simps [simp]:
  "ex_module (retarget m' st) = m'" "ex_values (retarget m' st) = ex_values st"
  "ex_defined (retarget m' st) = ex_defined st" "pages (retarget m' st) = pages st"
  "page_cap (retarget m' st) = page_cap st" "mem_generation (retarget m' st) = mem_generation st"
  "defd (retarget m' st) = defd st"
  by (simp_all add: retarget_def defd_def)

lemma retarget_update:
  "(retarget m' st)\<lparr>pages := p\<rparr> = retarget m' (st\<lparr>pages := p\<rparr>)"
  "(retarget m' st)\<lparr>page_cap := c, pages := p\<rparr> = retarget m' (st\<lparr>page_cap := c, pages := p\<rparr>)"
  "(retarget m' st)\<lparr>mem_generation := g\<rparr> = retarget m' (st\<lparr>mem_generation := g\<rparr>)"
  "(retarget m' st)\<lparr>ex_values := vs, ex_defined := ds\<rparr> = retarget m' (st\<lparr>ex_values := vs, ex_defined := ds\<rparr>)"
  by (cases st; simp add: retarget_def)+

lemma define_retarget:
  "vals m' = vals (ex_module st) \<Longrightarrow>
   exec_define_value v x (retarget m' st) = apsnd (retarget m') (exec_define_value v x st)"
  by (simp add: exec_define_value_def exec_check_value_slot_def retarget_update)

lemma store_byte_retarget:
  "exec_store_byte al sp a d (retarget m' st) = apsnd (retarget m') (exec_store_byte al sp a d st)"
  by (simp add: exec_store_byte_def exec_get_or_create_page_def Let_def retarget_update
      split: option.split xres.split)

lemma store_each_retarget:
  "store_each (exec_store_byte al) sp a ds (retarget m' st) = apsnd (retarget m') (store_each (exec_store_byte al) sp a ds st)"
  by (induction ds arbitrary: a st) (auto simp: store_byte_retarget split: prod.splits xres.splits)

lemma store_u64_retarget:
  "exec_store_u64 al sp a v sz en (retarget m' st) = apsnd (retarget m') (exec_store_u64 al sp a v sz en st)"
  by (simp add: exec_store_u64_def xair_exec_store_bytes_def store_each_retarget)

lemma load_u64_retarget: "exec_load_u64 (retarget m' st) sp a sz en = exec_load_u64 st sp a sz en"
proof -
  have "exec_load_byte (retarget m' st) = exec_load_byte st" by (simp add: exec_load_byte_def fun_eq_iff split: option.split)
  then have "load_each exec_load_byte (retarget m' st) sp a n = load_each exec_load_byte st sp a n" for n
    by (intro load_each_cong) simp
  then show ?thesis by (simp add: exec_load_u64_def xair_exec_load_bytes_def)
qed

lemma exec_op_retarget:
  assumes ok: "op_ok m oper" "length (src oper) = 3" "src_count oper \<le> 3" and m: "ex_module st = m" "vals m' = vals m"
    and rd: "\<forall>s \<in> set (op_srcs oper). exec_read_value (retarget m' st) s = exec_read_value st s"
  shows "exec_op al oper (retarget m' st) = apsnd (retarget m') (exec_op al oper st)"
  using ok
proof (cases rule: op_ok_srcs)
  case const
  then show ?thesis by (simp add: exec_op_def m define_retarget)
next
  case unary
  then have "opcode oper \<notin> {XAIR_OP_CONST_U64, XAIR_OP_LOAD, XAIR_OP_STORE}" by (auto simp: is_unary_opcode_def)
  with unary rd show ?thesis
    by (simp add: exec_op_def exec_unary_op_def exec_define_result_def Let_def m define_retarget
        split: xres.split option.split)
next
  case store
  then show ?thesis using rd
    by (auto simp: exec_op_def exec_memory_op_def Let_def m define_retarget store_u64_retarget retarget_update
        split: xres.split option.split prod.split)
      (subst define_retarget, drule exec_store_u64_values, simp_all add: same_values_def m)
next
  case binary
  then show ?thesis using rd
    by (auto simp: exec_op_def exec_binary_op_def exec_define_result_def exec_memory_op_def Let_def m define_retarget
        load_u64_retarget split: xres.split option.split)
qed

text \<open>
  An operation may replace another that has the same destination when it reads no other values, is well
  typed and executes in the same way in every state that agrees with the module's constants; where the
  opcode changes, the execution has to succeed, since the result of a halted run shows the opcode.
\<close>

definition op_rewrites :: "xair_module \<Rightarrow> xair_op_rec \<Rightarrow> xair_op_rec \<Rightarrow> bool" where
  "op_rewrites m oper oper' \<longleftrightarrow>
     dst oper' = dst oper \<and> length (src oper') = 3 \<and> src_count oper' \<le> 3 \<and> op_ok m oper' \<and>
     set (op_srcs oper') \<subseteq> set (op_srcs oper) \<and> (opcode oper = XAIR_OP_CONST_U64 \<longrightarrow> oper' = oper) \<and>
     (\<forall>al st. well_placed m st oper \<longrightarrow> exec_op al oper' st = exec_op al oper st \<and>
        (opcode oper' = opcode oper \<or> fst (exec_op al oper st) = Ok ()))"

definition mod_rewrites :: "xair_module \<Rightarrow> xair_module \<Rightarrow> bool" where
  "mod_rewrites m m' \<longleftrightarrow>
     vals m' = vals m \<and> blocks m' = blocks m \<and> term_args m' = term_args m \<and> length (ops m') = length (ops m) \<and>
     (\<forall>i < length (ops m). op_rewrites m (ops m ! i) (ops m' ! i))"

lemma op_rewrites_refl:
  "sound_module m \<Longrightarrow> oper \<in> set (ops m) \<Longrightarrow> op_rewrites m oper oper"
  by (auto simp: op_rewrites_def sound_module_def srcs_shape_def)

lemma mod_rewrites_update:
  assumes "sound_module m" "op_rewrites m (ops m ! i) oper'"
  shows "mod_rewrites m (m\<lparr>ops := (ops m)[i := oper']\<rparr>)"
proof -
  have "op_rewrites m (ops m ! j) ((ops m)[i := oper'] ! j)" if "j < length (ops m)" for j
    using that assms op_rewrites_refl [OF assms(1)] by (cases "j = i") auto
  then show ?thesis by (simp add: mod_rewrites_def)
qed

lemma mod_rewrites_global_const:
  "mod_rewrites m m' \<Longrightarrow> value_is_global_const m v \<Longrightarrow> value_is_global_const m' v \<and>
     ops m' ! val_op (vals m ! v) = ops m ! val_op (vals m ! v)"
  by (auto simp: mod_rewrites_def op_rewrites_def value_is_global_const_def valid_value_def Let_def split: if_splits)

lemma mod_rewrites_usable: "mod_rewrites m m' \<Longrightarrow> usable m S v \<Longrightarrow> usable m' S v"
  using mod_rewrites_global_const by (auto simp: usable_def mod_rewrites_def)

lemma mod_rewrites_op_ok: "mod_rewrites m m' \<Longrightarrow> op_ok m' oper = op_ok m oper"
  by (simp add: mod_rewrites_def op_ok_def)

lemma mod_rewrites_nth:
  assumes "mod_rewrites m m'" "i < length (ops m)"
  shows "op_rewrites m (ops m ! i) (ops m' ! i)" "i < length (ops m')"
  using assms by (auto simp: mod_rewrites_def)

lemma mod_rewrites_term_args: "mod_rewrites m m' \<Longrightarrow> term_args_const m' t f = term_args_const m t f"
  by (simp add: mod_rewrites_def term_args_const_def Let_def)

lemma mod_rewrites_edge_ok: "mod_rewrites m m' \<Longrightarrow> edge_ok m S target args n \<Longrightarrow> edge_ok m' S target args n"
  using mod_rewrites_usable by (fastforce simp: edge_ok_def mod_rewrites_def)

lemma mod_rewrites_term_ok: "mod_rewrites m m' \<Longrightarrow> term_ok m S t \<Longrightarrow> term_ok m' S t"
  using mod_rewrites_edge_ok mod_rewrites_usable
  by (auto simp: term_ok_def mod_rewrites_term_args split: xair_term_kind.splits) (auto simp: mod_rewrites_def)

lemma mod_rewrites_block_op_ok:
  assumes "mod_rewrites m m'" "block_op_ok m b S i"
  shows "block_op_ok m' b S i"
proof -
  have i: "i < length (ops m)" using assms by (simp add: block_op_ok_def Let_def)
  note rw = mod_rewrites_nth [OF assms(1) i]
  have "vals m' = vals m" using assms(1) by (simp add: mod_rewrites_def)
  then show ?thesis using rw assms mod_rewrites_usable [OF assms(1), of S] mod_rewrites_op_ok [OF assms(1)]
    by (auto simp: block_op_ok_def Let_def op_rewrites_def)
qed

lemma mod_rewrites_avail_at:
  assumes "mod_rewrites m m'" "\<forall>i \<in> set (blk_ops bb). i < length (ops m)"
  shows "avail_at m' bb k = avail_at m bb k"
proof -
  have "(\<lambda>j. dst (ops m' ! j)) ` set (take k (blk_ops bb)) = (\<lambda>j. dst (ops m ! j)) ` set (take k (blk_ops bb))"
    using assms by (intro image_cong) (auto simp: mod_rewrites_def op_rewrites_def dest: in_set_takeD)
  then show ?thesis by (simp add: avail_at_def)
qed

lemma mod_rewrites_block_ok:
  assumes rw: "mod_rewrites m m'" and b: "block_ok m b"
  shows "block_ok m' b"
proof -
  let ?bb = "blocks m ! b"
  have bb: "blocks m' = blocks m" "vals m' = vals m" using rw by (auto simp: mod_rewrites_def)
  have "\<forall>i \<in> set (blk_ops ?bb). i < length (ops m)"
    using b by (auto simp: block_ok_def block_op_ok_def Let_def in_set_conv_nth)
  then have "avail_at m' ?bb k = avail_at m ?bb k" for k by (rule mod_rewrites_avail_at [OF rw])
  then show ?thesis
    using b mod_rewrites_block_op_ok [OF rw] mod_rewrites_term_ok [OF rw] by (simp add: block_ok_def Let_def bb)
qed

lemma mod_rewrites_sound:
  assumes rw: "mod_rewrites m m'" and sm: "sound_module m"
  shows "sound_module m'"
proof -
  have f: "vals m' = vals m" "blocks m' = blocks m" "term_args m' = term_args m" "length (ops m') = length (ops m)"
    using rw by (auto simp: mod_rewrites_def)
  have "op_ok m' oper \<and> (\<forall>s \<in> set (op_srcs oper). s < length (vals m)) \<and> length (src oper) = 3 \<and> src_count oper \<le> 3"
    if "oper \<in> set (ops m')" for oper
  proof -
    from that obtain i where i: "i < length (ops m)" "oper = ops m' ! i" by (auto simp: in_set_conv_nth f)
    then have "ops m ! i \<in> set (ops m)" by simp
    with sm have "\<forall>s \<in> set (op_srcs (ops m ! i)). s < length (vals m)" by (simp add: sound_module_def)
    with mod_rewrites_nth(1) [OF rw i(1)] i(2) mod_rewrites_op_ok [OF rw] show ?thesis
      by (auto simp: op_rewrites_def)
  qed
  moreover have "module_ok m'" using sm mod_rewrites_block_ok [OF rw] by (auto simp: sound_module_def module_ok_def f)
  moreover have "terms_wf m'" using sm by (auto simp: sound_module_def terms_wf_def term_wf_def f)
  ultimately show ?thesis using sm by (auto simp: sound_module_def srcs_shape_def f)
qed

section \<open>Runs of a rewritten module\<close>

lemma rewritten_read:
  assumes "mod_rewrites m m'" "state_ok m st" "usable m (defd st) v"
  shows "exec_read_value (retarget m' st) v = exec_read_value st v"
  using assms mod_rewrites_global_const [OF assms(1), of v]
  by (auto simp: exec_read_value_def exec_check_value_slot_def state_ok_def usable_def defd_def mod_rewrites_def)

lemma rewritten_op:
  assumes rw: "mod_rewrites m m'" and sm: "sound_module m" and st: "state_ok m st" "consistent m st"
    and b: "block_op_ok m b S i" "S \<subseteq> defd st"
  shows "exec_op al (ops m' ! i) (retarget m' st) = apsnd (retarget m') (exec_op al (ops m ! i) st)"
    "opcode (ops m' ! i) = opcode (ops m ! i) \<or> fst (exec_op al (ops m ! i) st) = Ok ()"
    "exec_op al (ops m ! i) st = (r, st1) \<Longrightarrow> consistent m st1"
    "op_outcome m (ops m ! i) st (exec_op al (ops m ! i) st)"
proof -
  have i: "i < length (ops m)" "op_ok m (ops m ! i)" "val_op (vals m ! dst (ops m ! i)) = i"
    and u: "\<forall>s \<in> set (op_srcs (ops m ! i)). usable m (defd st) s"
    using b by (auto simp: block_op_ok_def usable_def Let_def)
  have sh: "length (src (ops m ! i)) = 3" "src_count (ops m ! i) \<le> 3"
    using sm i by (auto simp: sound_module_def srcs_shape_def)
  have w: "well_placed m st (ops m ! i)" using st i u sh by (simp add: well_placed_def)
  note rwi = mod_rewrites_nth(1) [OF rw i(1), unfolded op_rewrites_def]
  have vm: "vals m' = vals m" "ex_module st = m" using rw st by (auto simp: mod_rewrites_def state_ok_def)
  have "\<forall>s \<in> set (op_srcs (ops m' ! i)). exec_read_value (retarget m' st) s = exec_read_value st s"
    using rwi u rewritten_read [OF rw st(1)] by auto
  with rwi vm have "exec_op al (ops m' ! i) (retarget m' st) = apsnd (retarget m') (exec_op al (ops m' ! i) st)"
    by (intro exec_op_retarget [where m = m]) auto
  then show "exec_op al (ops m' ! i) (retarget m' st) = apsnd (retarget m') (exec_op al (ops m ! i) st)"
    using rwi w by simp
  show "opcode (ops m' ! i) = opcode (ops m ! i) \<or> fst (exec_op al (ops m ! i) st) = Ok ()"
    using rwi w by blast
  show "exec_op al (ops m ! i) st = (r, st1) \<Longrightarrow> consistent m st1"
    by (rule exec_op_consistent [OF w sm]) (simp_all add: i)
  show "op_outcome m (ops m ! i) st (exec_op al (ops m ! i) st)"
    by (rule exec_op_outcome [OF st(1) i(2) sh u])
qed

lemma rewritten_block_ops:
  assumes rw: "mod_rewrites m m'" and sm: "sound_module m"
    and "\<forall>i < length is. block_op_ok m b (S \<union> (\<lambda>j. dst (ops m ! j)) ` set (take i is)) (is ! i)"
    and "state_ok m st" "consistent m st" "S \<subseteq> defd st" and "exec_block_ops al c is st = (r, st')"
  shows "exec_block_ops al c is (retarget m' st) = (r, retarget m' st') \<and> consistent m st'"
  using assms(3-7)
proof (induction "is" arbitrary: S st)
  case Nil
  then show ?case by simp
next
  case (Cons i "is")
  have bo: "block_op_ok m b S i" using Cons.prems(1) by (auto simp: all_less_Suc_split)
  have rest: "\<forall>k < length is. block_op_ok m b (insert (dst (ops m ! i)) S \<union> (\<lambda>j. dst (ops m ! j)) ` set (take k is)) (is ! k)"
    using Cons.prems(1) by (auto simp: all_less_Suc_split)
  note ro = rewritten_op [OF rw sm Cons.prems(2,3) bo Cons.prems(4), of al]
  obtain r1 st1 where e: "exec_op al (ops m ! i) st = (r1, st1)" by fastforce
  have m: "ex_module st = m" using Cons.prems(2) by (simp add: state_ok_def)
  show ?case
  proof (cases r1)
    case (Ok u)
    have st1: "state_ok m st1" "insert (dst (ops m ! i)) S \<subseteq> defd st1"
      using ro(4) e Ok Cons.prems(4) by (auto simp: op_outcome_def)
    have "exec_block_ops al c is st1 = (r, st')" using Cons.prems(5) e Ok m by simp
    from Cons.IH [OF rest st1(1) ro(3) [OF e] st1(2) this] ro(1) e Ok show ?thesis by simp
  next
    case (Err e')
    then have "opcode (ops m' ! i) = opcode (ops m ! i)" using ro(2) e by simp
    with Err e m ro(1,3) Cons.prems(5) show ?thesis by (auto split: if_splits)
  qed
qed

lemma rewritten_read_values:
  assumes "mod_rewrites m m'" "state_ok m st" "\<forall>v \<in> set vs. usable m (defd st) v"
  shows "exec_read_values (retarget m' st) vs = exec_read_values st vs"
  using assms(3) by (induction vs) (auto simp: rewritten_read [OF assms(1,2)] split: xres.split)

lemma rewritten_define_values:
  assumes "vals m' = vals m"
  shows "state_ok m st \<Longrightarrow> list_all2 (\<lambda>p x. p < length (vals m) \<and> ev_type x = type_of m p \<and> value_ok x) ps xs \<Longrightarrow>
    consistent m st \<Longrightarrow> \<forall>p \<in> set ps. known m p = None \<Longrightarrow> exec_define_values ps xs st = (r, st') \<Longrightarrow>
    exec_define_values ps xs (retarget m' st) = (r, retarget m' st') \<and> consistent m st'"
proof (induction ps xs arbitrary: st rule: list_induct2')
  case (4 p ps x xs)
  then obtain st1 where d: "exec_define_value p x st = (Ok (), st1)" and st1: "state_ok m st1"
    by (auto elim: exec_define_value_ok)
  have "consistent m st1" by (rule consistent_define [OF d 4(2,4)]) (use 4 in simp)
  with 4 d st1 show ?case
    using define_retarget [of m' st p x] assms by (auto simp: state_ok_def)
qed auto

lemma rewritten_transfer_args:
  assumes rw: "mod_rewrites m m'" and sm: "sound_module m" and st: "state_ok m st" "consistent m st"
    and e: "edge_ok m S target args n" and S: "S \<subseteq> defd st" and n: "length args = n"
    and r: "exec_transfer_args al target args n st = (r, st')"
  shows "exec_transfer_args al target args n (retarget m' st) = (r, retarget m' st') \<and> consistent m st'"
proof -
  let ?ps = "params (blocks m ! target)"
  have t: "target < length (blocks m)" "length ?ps = n" and m: "ex_module st = m" "blocks m' = blocks m" "vals m' = vals m"
    using e st rw by (auto simp: edge_ok_def state_ok_def mod_rewrites_def)
  have args: "\<forall>v \<in> set args. usable m (defd st) v"
    using e S n t by (fastforce simp: edge_ok_def set_zip in_set_conv_nth usable_def)
  from exec_read_values_ok [OF st(1) args] obtain xs where xs: "exec_read_values st args = Ok xs"
    "length xs = length args" "list_all2 (\<lambda>v x. ev_type x = type_of m v \<and> value_ok x) args xs" by blast
  have "block_ok m target" using sm t by (simp add: sound_module_def module_ok_def)
  then have ps: "\<forall>p \<in> set ?ps. p < length (vals m)" by (auto simp: block_ok_def Let_def)
  have la: "list_all2 (\<lambda>p x. p < length (vals m) \<and> ev_type x = type_of m p \<and> value_ok x) ?ps xs"
    using e xs n t ps by (fastforce simp: list_all2_conv_all_nth edge_ok_def set_zip)
  have kn: "\<forall>p \<in> set ?ps. known m p = None"
    using sm t by (auto simp: sound_module_def known_def Let_def)
  note dv = rewritten_define_values [OF m(3) st(1) la st(2) kn]
  show ?thesis
  proof (cases "n = 0 \<or> \<not> al Site_copies (n * sizeof_exec_value)")
    case True
    with r t m st show ?thesis by (auto simp: exec_transfer_args_def valid_block_def Let_def split: if_splits)
  next
    case False
    with r t m xs have "exec_define_values ?ps xs st = (r, st')"
      by (simp add: exec_transfer_args_def valid_block_def Let_def)
    from dv [OF this] False t m xs rewritten_read_values [OF rw st(1) args] show ?thesis
      by (simp add: exec_transfer_args_def valid_block_def Let_def)
  qed
qed

lemma rewritten_term:
  assumes rw: "mod_rewrites m m'" and sm: "sound_module m" and st: "state_ok m st" "consistent m st"
    and t: "term_ok m S t" "term_wf m t" and S: "S \<subseteq> defd st"
    and r: "exec_term al c t st = (r, st')"
  shows "exec_term al c t (retarget m' st) = (r, retarget m' st') \<and> consistent m st'"
proof -
  have m: "ex_module st = m" using st by (simp add: state_ok_def)
  note len = term_args_length [OF t(2)]
  note tr = rewritten_transfer_args [OF rw sm st _ S]
  have us: "usable m S v \<Longrightarrow> usable m (defd st) v" for v using S by (auto simp: usable_def)
  note ta = mod_rewrites_term_args [OF rw]
  show ?thesis
  proof (cases "term_kind t")
    case XAIR_TERM_JUMP
    obtain r1 st1 where e: "exec_transfer_args al (true_target t) (term_args_const m t False) (true_arg_count t) st = (r1, st1)"
      by fastforce
    have "edge_ok m S (true_target t) (term_args_const m t False) (true_arg_count t)"
      using t XAIR_TERM_JUMP by (simp add: term_ok_def)
    from tr [OF this _ e] len XAIR_TERM_JUMP r m e ta show ?thesis
      by (auto simp: exec_term_def Let_def split: xres.splits)
  next
    case XAIR_TERM_CBRANCH
    then have c: "usable m S (condition t)" "is_i1 (type_of m (condition t))"
      "edge_ok m S (true_target t) (term_args_const m t False) (true_arg_count t)"
      "edge_ok m S (false_target t) (term_args_const m t True) (false_arg_count t)" using t by (auto simp: term_ok_def)
    note cr = rewritten_read [OF rw st(1) us [OF c(1)]]
    from st(1) us [OF c(1)] obtain x where x: "exec_read_value st (condition t) = Ok x"
      "ev_type x = type_of m (condition t)" by (rule exec_read_value_ok)
    show ?thesis
    proof (cases "lo x AND 1 \<noteq> 0")
      case True
      obtain r1 st1 where e: "exec_transfer_args al (true_target t) (term_args_const m t False) (true_arg_count t) st = (r1, st1)"
        by fastforce
      from tr [OF c(3) _ e] True len XAIR_TERM_CBRANCH r m e ta x c(2) cr show ?thesis
        by (auto simp: exec_term_def Let_def split: xres.splits)
    next
      case False
      obtain r1 st1 where e: "exec_transfer_args al (false_target t) (term_args_const m t True) (false_arg_count t) st = (r1, st1)"
        by fastforce
      from tr [OF c(4) _ e] False len XAIR_TERM_CBRANCH r m e ta x c(2) cr show ?thesis
        by (auto simp: exec_term_def Let_def split: xres.splits)
    qed
  next
    case XAIR_TERM_RETURN
    then have "\<forall>v \<in> set (term_args_const m t False). usable m (defd st) v" using t us by (auto simp: term_ok_def)
    from rewritten_read_values [OF rw st(1) this] XAIR_TERM_RETURN r m st ta show ?thesis
      by (auto simp: exec_term_def Let_def split: if_splits xres.splits)
  qed (use r st in \<open>auto simp: exec_term_def Let_def\<close>)
qed

lemma rewritten_block:
  assumes rw: "mod_rewrites m m'" and sm: "sound_module m" and st: "state_ok m st" "consistent m st"
    and en: "enters m b st" and r: "exec_block al b st = (r, st')"
  shows "exec_block al b (retarget m' st) = (r, retarget m' st') \<and> consistent m st'"
proof -
  let ?bb = "blocks m ! b"
  have b: "b < length (blocks m)" and m: "ex_module st = m" "blocks m' = blocks m" and ps: "set (params ?bb) \<subseteq> defd st"
    using en st rw by (auto simp: enters_def state_ok_def mod_rewrites_def)
  have bo: "block_ok m b" using sm b by (simp add: sound_module_def module_ok_def)
  then have ops: "\<forall>i < length (blk_ops ?bb). block_op_ok m b (set (params ?bb) \<union> (\<lambda>j. dst (ops m ! j)) ` set (take i (blk_ops ?bb))) (blk_ops ?bb ! i)"
    by (simp add: block_ok_def Let_def avail_at_def)
  obtain r1 st1 where e: "exec_block_ops al b (blk_ops ?bb) st = (r1, st1)" by fastforce
  note rb = rewritten_block_ops [OF rw sm ops st ps e]
  have shp: "srcs_shape m" using sm by (simp add: sound_module_def)
  note out = exec_block_ops_outcome [OF ops st(1) ps shp e]
  consider (err) er where "r1 = Err er" | (halt) res where "r1 = Ok (Some res)" | (go) "r1 = Ok None"
    by (metis option.exhaust xres.exhaust)
  then show ?thesis
  proof cases
    case go
    then have "state_ok m st1" "avail_at m ?bb (length (blk_ops ?bb)) \<subseteq> defd st1"
      using out by (simp_all add: avail_at_def)
    moreover have "exec_term al b (blk_term ?bb) st1 = (r, st')" using go r e m by (simp add: exec_block_def)
    moreover have "term_ok m (avail_at m ?bb (length (blk_ops ?bb))) (blk_term ?bb)" "term_wf m (blk_term ?bb)"
      using bo sm b by (simp_all add: block_ok_def Let_def terms_wf_def sound_module_def)
    ultimately have "exec_term al b (blk_term ?bb) (retarget m' st1) = (r, retarget m' st') \<and> consistent m st'"
      using rb by (intro rewritten_term [OF rw sm]) auto
    with go rb m show ?thesis by (simp add: exec_block_def)
  qed (use rb r e m in \<open>auto simp: exec_block_def\<close>)
qed

lemma mod_rewrites_run:
  assumes rw: "mod_rewrites m m'" and sm: "sound_module m"
    and "state_ok m st" "consistent m st" "enters m b st" "exec_loop al n b st = (r, st')"
  shows "exec_loop al n b (retarget m' st) = (r, retarget m' st')"
  using assms(3-6)
proof (induction n arbitrary: b st)
  case 0
  then show ?case by simp
next
  case (Suc n)
  obtain r1 st1 where e: "exec_block al b st = (r1, st1)" by fastforce
  have sm': "module_ok m" "srcs_shape m" "terms_wf m" using sm by (auto simp: sound_module_def)
  note out = exec_block_outcome [OF Suc.prems(1) sm' Suc.prems(3) e, unfolded block_outcome_def]
  note rb = rewritten_block [OF rw sm Suc.prems(1-3) e]
  consider (err) er where "r1 = Err er" | (halt) res where "r1 = Ok (Inl res)" | (go) nx where "r1 = Ok (Inr nx)"
    by (metis sum.exhaust xres.exhaust)
  then show ?case
    using Suc.IH [of st1] Suc.prems(4) e out rb by cases auto
qed

section \<open>The loop over the operations\<close>

lemma fold_to_const_fields [simp]:
  "dst (fold_to_const oper v t) = dst oper" "opcode (fold_to_const oper v t) = XAIR_OP_CONST_U64"
  "length (src (fold_to_const oper v t)) = 3" "src_count (fold_to_const oper v t) = 0"
  "op_srcs (fold_to_const oper v t) = []"
  by (simp_all add: fold_to_const_def op_srcs_def)

lemma fold_value_type:
  assumes "fold_value m oper = Some v" "op_ok m oper"
  shows "(is_int (type_of m (dst oper)) \<or> is_addr (type_of m (dst oper))) \<and> bits (type_of m (dst oper)) \<le> 64"
  using assms
  by (cases "opcode oper")
    (simp_all add: fold_value_def op_ok_def op_sig_simps Let_def is_i1_def is_int_def split: if_splits, auto)

lemma fold_rewrites:
  assumes sm: "sound_module m" and oper: "oper \<in> set (ops m)" and f: "fold_constant_op m oper = Some oper'"
  shows "op_rewrites m oper oper'"
proof -
  obtain v where v: "fold_value m oper = Some v" "oper' = fold_to_const oper v (type_of m (dst oper))"
    using f by (auto simp: fold_constant_op_def)
  have ok: "op_ok m oper" using sm oper by (simp add: sound_module_def)
  have "op_ok m oper'" using fold_value_type [OF v(1) ok] ok by (simp add: v(2) op_ok_def op_sig_simps)
  moreover have "opcode oper \<noteq> XAIR_OP_CONST_U64" using v(1) by (auto simp: fold_value_def)
  ultimately show ?thesis using fold_op_exec [OF _ sm f] by (auto simp: op_rewrites_def v(2))
qed

lemma swap_rewrites:
  assumes sm: "sound_module m" and oper: "oper \<in> set (ops m)"
    and c: "src_count oper = 2" "op_is_commutative (opcode oper)"
  shows "op_rewrites m oper (swap_srcs oper)"
proof -
  have ok: "op_ok m oper" "length (src oper) = 3" using sm oper by (auto simp: sound_module_def srcs_shape_def)
  have "opcode oper \<noteq> XAIR_OP_CONST_U64" using c by (auto simp: op_is_commutative_def)
  then show ?thesis
    using swap_op_ok [OF ok(1) c(2) ok(2) c(1)] swap_op_exec [OF _ c(2,1)] swap_srcs_simps [OF ok(2) c(1)] c
    by (auto simp: op_rewrites_def)
qed

lemma canonicalize_op_rewrites:
  assumes sm: "sound_module m" and i: "i < length (ops m)" and c: "canonicalize_op i (m, stats) = (m', stats')"
  shows "mod_rewrites\<^sup>*\<^sup>* m m' \<and> sound_module m' \<and> length (ops m') = length (ops m)"
proof -
  define m1 where "m1 = (case fold_constant_op m (ops m ! i) of None \<Rightarrow> m | Some oper \<Rightarrow> m\<lparr>ops := (ops m)[i := oper]\<rparr>)"
  have r1: "mod_rewrites\<^sup>*\<^sup>* m m1 \<and> sound_module m1 \<and> length (ops m1) = length (ops m)"
  proof (cases "fold_constant_op m (ops m ! i)")
    case None
    with sm show ?thesis by (simp add: m1_def)
  next
    case (Some oper)
    then have "mod_rewrites m m1"
      using fold_rewrites [OF sm _ Some] i by (simp add: m1_def mod_rewrites_update [OF sm])
    with sm show ?thesis by (auto simp: mod_rewrites_sound m1_def Some)
  qed
  let ?oper = "ops m1 ! i"
  let ?swap = "src_count ?oper = 2 \<and> op_is_commutative (opcode ?oper) \<and>
    compare_value_order m1 (src ?oper ! 0) (src ?oper ! 1) > 0"
  have m': "m' = (if ?swap then m1\<lparr>ops := (ops m1)[i := swap_srcs ?oper]\<rparr> else m1)"
    using c by (auto simp: canonicalize_op_def m1_def Let_def split: option.splits if_splits prod.splits)
  show ?thesis
  proof (cases ?swap)
    case True
    then have "op_rewrites m1 ?oper (swap_srcs ?oper)" using r1 i by (intro swap_rewrites) auto
    then have "mod_rewrites m1 m'" using True r1 by (simp add: m' mod_rewrites_update)
    moreover have "length (ops m') = length (ops m1)" by (simp add: m')
    ultimately show ?thesis using r1 by (auto intro: rtranclp.rtrancl_into_rtrancl mod_rewrites_sound)
  next
    case False
    then have "m' = m1" by (simp only: m' if_False)
    with r1 show ?thesis by simp
  qed
qed

lemma canonicalize_loop_rewrites:
  "sound_module m \<Longrightarrow> \<forall>i \<in> set is. i < length (ops m) \<Longrightarrow> fold canonicalize_op is (m, stats) = (m', stats') \<Longrightarrow>
   mod_rewrites\<^sup>*\<^sup>* m m' \<and> sound_module m'"
proof (induction "is" arbitrary: m stats)
  case (Cons i "is")
  obtain m1 s1 where c: "canonicalize_op i (m, stats) = (m1, s1)" by fastforce
  from canonicalize_op_rewrites [OF Cons.prems(1) _ c] Cons.prems(2)
  have "mod_rewrites\<^sup>*\<^sup>* m m1" "sound_module m1" "length (ops m1) = length (ops m)" by auto
  moreover from this have "mod_rewrites\<^sup>*\<^sup>* m1 m' \<and> sound_module m'"
    using Cons.IH [of m1 s1] Cons.prems c by simp
  ultimately show ?case by auto
qed simp

text \<open>A state in which only parameters have been given values, as the public functions leave it.\<close>

definition fresh_state :: "xair_module \<Rightarrow> xair_exec_state \<Rightarrow> bool" where
  "fresh_state m st \<longleftrightarrow> state_ok m st \<and> (\<forall>v \<in> defd st. val_op (vals m ! v) = XAIR_INVALID_ID)"

lemma fresh_consistent: "fresh_state m st \<Longrightarrow> consistent m st"
  by (simp add: fresh_state_def consistent_def known_def Let_def)

lemma retarget_retarget [simp]: "retarget m'' (retarget m' st) = retarget m'' st"
  by (simp add: retarget_def)

lemma rewritten_state:
  "mod_rewrites m m' \<Longrightarrow> fresh_state m st \<Longrightarrow> enters m b st \<Longrightarrow>
     fresh_state m' (retarget m' st) \<and> enters m' b (retarget m' st)"
  by (auto simp: mod_rewrites_def fresh_state_def state_ok_def enters_def)

lemma mod_rewrites_star_run:
  assumes "mod_rewrites\<^sup>*\<^sup>* m m'" "sound_module m" "fresh_state m st" "enters m b st" "exec_loop al n b st = (r, st')"
  shows "exec_loop al n b (retarget m' st) = (r, retarget m' st') \<and> sound_module m' \<and>
    fresh_state m' (retarget m' st) \<and> enters m' b (retarget m' st)"
  using assms(1)
proof (induction rule: rtranclp_induct)
  case base
  have "ex_module st = m" using assms(3) by (simp add: fresh_state_def state_ok_def)
  then have "retarget m st = st" by (simp add: retarget_def)
  moreover have "ex_module st' = m"
  proof -
    have st: "state_ok m st" using assms(3) by (simp add: fresh_state_def)
    have sm: "module_ok m" "srcs_shape m" "terms_wf m" using assms(2) by (auto simp: sound_module_def)
    have "state_ok m st'" using exec_loop_outcome [OF st sm assms(4,5)] by (rule conjunct1)
    then show ?thesis by (simp add: state_ok_def)
  qed
  moreover from this have "retarget m st' = st'" by (auto simp: retarget_def)
  ultimately show ?case using assms by simp
next
  case (step y z)
  then have y: "sound_module y" "fresh_state y (retarget y st)" "enters y b (retarget y st)"
    "exec_loop al n b (retarget y st) = (r, retarget y st')" by auto
  from mod_rewrites_run [OF step(2) y(1) _ fresh_consistent [OF y(2)] y(3,4)] y(2)
  have "exec_loop al n b (retarget z st) = (r, retarget z st')" by (simp add: fresh_state_def)
  with rewritten_state [OF step(2) y(2,3)] mod_rewrites_sound [OF step(2) y(1)] show ?case by simp
qed

lemma canonicalize_local_ops_run:
  assumes "sound_module m" "canonicalize_local_ops m stats = (m', stats')"
    "fresh_state m st" "enters m b st" "exec_loop al n b st = (r, st')"
  shows "exec_loop al n b (retarget m' st) = (r, retarget m' st')"
  using assms canonicalize_loop_rewrites [OF assms(1), of "[0..<length (ops m)]" stats m' stats']
  by (auto simp: canonicalize_local_ops_def dest: mod_rewrites_star_run)

lemma canonicalize_local_ops_keeps:
  assumes "sound_module m" "canonicalize_local_ops m stats = (m', stats')"
  shows "vals m' = vals m \<and> blocks m' = blocks m \<and> term_args m' = term_args m \<and> sound_module m'"
proof -
  have "mod_rewrites\<^sup>*\<^sup>* m m'" and sm: "sound_module m'"
    using canonicalize_loop_rewrites [OF assms(1), of "[0..<length (ops m)]" stats m' stats'] assms(2)
    by (auto simp: canonicalize_local_ops_def)
  from this(1) have "vals m' = vals m \<and> blocks m' = blocks m \<and> term_args m' = term_args m"
    by (induction rule: rtranclp_induct) (auto simp: mod_rewrites_def)
  with sm show ?thesis by simp
qed

end
