(* ===== verification/Xair_Arith.thy ===== *)
theory Xair_Arith
  imports Xair_Canon_Sound
begin

text \<open>
  What the executor's operations compute, as integer arithmetic. An integer value of width \<open>b\<close> has an
  unsigned reading \<open>uval\<close> and a two's complement reading \<open>sval\<close>; the lemmas give the readings of the
  results of the arithmetic, shift, extension and concatenation operations, and the meaning of the six
  flags of additions and subtractions.
\<close>

section \<open>Readings\<close>

definition uval :: "xair_exec_value \<Rightarrow> int" where
  "uval x = uint (lo x)"

definition sval :: "xair_exec_value \<Rightarrow> int" where
  "sval x = signed_take_bit (bits (ev_type x) - 1) (uint (lo x))"

definition int_value :: "xair_exec_value \<Rightarrow> nat \<Rightarrow> bool" where
  "int_value x b \<longleftrightarrow> ev_type x = xair_type_i b \<and> value_ok x \<and> 1 \<le> b \<and> b \<le> 64"

lemma int_value_simps:
  assumes "int_value x b"
  shows "is_int (ev_type x)" "bits (ev_type x) = b" "take_bit b (lo x) = lo x" "exec_scalar_u64_type (ev_type x)"
    "1 \<le> b" "b \<le> 64"
  using assms
  by (auto simp: int_value_def value_ok_def truncate_to_type_def xair_type_i_def is_int_def exec_scalar_u64_type_def)

lemma uint_take_bit: "uint (take_bit b w) = uint w mod 2 ^ b" for w :: u64
  unfolding unsigned_take_bit_eq by (rule take_bit_eq_mod)

lemma mod_mod_64: "b \<le> 64 \<Longrightarrow> z mod 18446744073709551616 mod 2 ^ b = z mod 2 ^ b" for z :: int
  using le_imp_power_dvd [of b 64 "2 :: int"] by (simp add: mod_mod_cancel)

lemma uint_arith:
  fixes x y :: u64
  assumes "b \<le> 64"
  shows "uint (take_bit b (x + y)) = (uint x + uint y) mod 2 ^ b"
    "uint (take_bit b (x - y)) = (uint x - uint y) mod 2 ^ b"
    "uint (take_bit b (x * y)) = (uint x * uint y) mod 2 ^ b"
  using assms by (simp_all add: uint_take_bit uint_word_ariths mod_mod_64)

lemma uval_range: "int_value x b \<Longrightarrow> 0 \<le> uval x \<and> uval x < 2 ^ b"
proof -
  assume "int_value x b"
  then have "uint (lo x) = uint (lo x) mod 2 ^ b" using int_value_simps(3) uint_take_bit by metis
  then show ?thesis by (metis uval_def pos_mod_sign pos_mod_bound zero_less_numeral zero_less_power)
qed

lemma uval_make: "uval (exec_value_make (xair_type_i b) r 0) = uint (take_bit b r)"
  by (simp add: uval_def exec_value_make_def truncate_to_type_def xair_type_i_def)

lemma sval_make: "sval (exec_value_make (xair_type_i b) r 0) = signed_take_bit (b - 1) (uint (take_bit b r))"
  by (simp add: sval_def truncate_to_type_def xair_type_i_def)

lemma int_value_make: "1 \<le> b \<Longrightarrow> b \<le> 64 \<Longrightarrow> int_value (exec_value_make (xair_type_i b) r 0) b"
  by (simp add: int_value_def)

lemma exec_binary_result_int:
  assumes "int_value x b" "int_value y c"
  shows "exec_binary_result oc out x y = exec_binary_switch oc out (ev_type x) (ev_type y) (lo x) (lo y)"
  using int_value_simps [OF assms(1)] int_value_simps [OF assms(2)] by (simp add: exec_binary_result_def)

section \<open>Arithmetic\<close>

lemma exec_arith:
  assumes "int_value x b" "int_value y b"
  shows "map_option (\<lambda>r. uval (exec_value_make (xair_type_i b) r 0)) (exec_binary_result XAIR_OP_ADD (xair_type_i b) x y) =
      Some ((uval x + uval y) mod 2 ^ b)"
    "map_option (\<lambda>r. uval (exec_value_make (xair_type_i b) r 0)) (exec_binary_result XAIR_OP_SUB (xair_type_i b) x y) =
      Some ((uval x - uval y) mod 2 ^ b)"
    "map_option (\<lambda>r. uval (exec_value_make (xair_type_i b) r 0)) (exec_binary_result XAIR_OP_MUL (xair_type_i b) x y) =
      Some ((uval x * uval y) mod 2 ^ b)"
  using int_value_simps(6) [OF assms(1)]
  by (simp_all add: exec_binary_result_int [OF assms] exec_binary_switch_def uval_make uint_arith
      uval_def [of x] uval_def [of y])

text \<open>The two's complement reading in terms of the unsigned one.\<close>

lemma bit_top_iff:
  fixes z :: int
  assumes "0 \<le> z" "z < 2 ^ b" "1 \<le> b"
  shows "bit z (b - 1) \<longleftrightarrow> 2 ^ (b - 1) \<le> z"
proof -
  obtain n where b: "b = Suc n" using assms(3) by (cases b) auto
  show ?thesis
  proof (cases "2 ^ n \<le> z")
    case True
    then have "z div 2 ^ n = (z - 2 ^ n) div 2 ^ n + 1" by (metis add.commute diff_add_cancel div_add_self2 power_not_zero zero_neq_numeral)
    also have "(z - 2 ^ n) div 2 ^ n = 0" using True assms by (intro div_pos_pos_trivial) (auto simp: b)
    finally show ?thesis using True by (simp add: b bit_iff_odd)
  next
    case False
    then have "z div 2 ^ n = 0" using assms by (intro div_pos_pos_trivial) auto
    then show ?thesis using False by (simp add: b bit_iff_odd)
  qed
qed

lemma signed_reading:
  fixes z :: int
  assumes "0 \<le> z" "z < 2 ^ b" "1 \<le> b"
  shows "signed_take_bit (b - 1) z = (if 2 ^ (b - 1) \<le> z then z - 2 ^ b else z)"
proof -
  obtain n where b: "b = Suc n" using assms(3) by (cases b) auto
  have "take_bit b z = z" using assms by (simp add: take_bit_int_eq_self)
  then show ?thesis using bit_top_iff [OF assms]
    by (simp add: b signed_take_bit_eq_take_bit_minus)
qed

lemma sval_eq: "int_value x b \<Longrightarrow> sval x = (if 2 ^ (b - 1) \<le> uval x then uval x - 2 ^ b else uval x)"
  using signed_reading [of "uval x" b] uval_range [of x b] int_value_simps [of x b] by (simp add: sval_def uval_def)

lemma and_sign_iff: "int_value x b \<Longrightarrow> lo x AND sign_bit_for_bits b \<noteq> 0 \<longleftrightarrow> 2 ^ (b - 1) \<le> uval x"
  using and_sign_bit [of b "lo x"] bit_top_iff [of "uval x" b] uval_range [of x b] int_value_simps [of x b]
  by (simp add: uval_def bit_uint_eq)

section \<open>Flags of additions and subtractions\<close>

lemma carry_case:
  fixes X Y M :: int
  assumes "0 \<le> X" "X < M" "0 \<le> Y" "Y < M"
  shows "(X + Y) mod M = (if X + Y < M then X + Y else X + Y - M)" "(X - Y) mod M = (if Y \<le> X then X - Y else X - Y + M)"
proof -
  have "(X + Y) mod M = (X + Y - M) mod M" "(X - Y) mod M = (X - Y + M) mod M" by simp_all
  moreover have "(X + Y - M) mod M = X + Y - M" if "\<not> X + Y < M" using that assms by (intro mod_pos_pos_trivial) auto
  moreover have "(X - Y + M) mod M = X - Y + M" if "\<not> Y \<le> X" using that assms by (intro mod_pos_pos_trivial) auto
  moreover have "(X + Y) mod M = X + Y" if "X + Y < M" using that assms by (intro mod_pos_pos_trivial) auto
  moreover have "(X - Y) mod M = X - Y" if "Y \<le> X" using that assms by (intro mod_pos_pos_trivial) auto
  ultimately show "(X + Y) mod M = (if X + Y < M then X + Y else X + Y - M)"
    "(X - Y) mod M = (if Y \<le> X then X - Y else X - Y + M)" by presburger+
qed

lemma overflow_add:
  fixes X Y h :: int
  assumes "0 \<le> X" "X < 2 * h" "0 \<le> Y" "Y < 2 * h"
  defines "R \<equiv> (X + Y) mod (2 * h)" and "sg \<equiv> \<lambda>z. if h \<le> z then z - 2 * h else z"
  shows "(h \<le> X) = (h \<le> Y) \<and> (h \<le> R) \<noteq> (h \<le> X) \<longleftrightarrow> \<not> (- h \<le> sg X + sg Y \<and> sg X + sg Y < h)"
    "R < X \<longleftrightarrow> 2 * h \<le> X + Y"
  using assms unfolding R_def carry_case(1) [OF assms(1-4)] sg_def by auto

lemma overflow_sub:
  fixes X Y h :: int
  assumes "0 \<le> X" "X < 2 * h" "0 \<le> Y" "Y < 2 * h"
  defines "R \<equiv> (X - Y) mod (2 * h)" and "sg \<equiv> \<lambda>z. if h \<le> z then z - 2 * h else z"
  shows "(h \<le> X) \<noteq> (h \<le> Y) \<and> (h \<le> R) \<noteq> (h \<le> X) \<longleftrightarrow> \<not> (- h \<le> sg X - sg Y \<and> sg X - sg Y < h)"
  using assms unfolding R_def carry_case(2) [OF assms(1-4)] sg_def by auto

lemma half_width: "1 \<le> b \<Longrightarrow> (2::int) ^ b = 2 * 2 ^ (b - 1)"
  by (cases b) simp_all

text \<open>The carry into bit 4, by which the adjust flag is defined.\<close>

lemma adjust_add:
  fixes X Y :: int
  shows "(bit X 4 \<noteq> (bit Y 4 \<noteq> bit (X + Y) 4)) \<longleftrightarrow> 16 \<le> X mod 16 + Y mod 16"
proof -
  have "(X + Y) div 16 = X div 16 + Y div 16 + (X mod 16 + Y mod 16) div 16" by (rule div_add1_eq)
  moreover have "(X mod 16 + Y mod 16) div 16 = (if 16 \<le> X mod 16 + Y mod 16 then 1 else 0)"
  proof -
    have "0 \<le> X mod 16 + Y mod 16" "X mod 16 + Y mod 16 < 32"
      using pos_mod_bound [of 16 X] pos_mod_bound [of 16 Y] by auto
    then show ?thesis by auto
  qed
  ultimately show ?thesis by (simp add: bit_iff_odd) blast
qed

lemma adjust_sub:
  fixes X Y :: int
  shows "(bit X 4 \<noteq> (bit Y 4 \<noteq> bit (X - Y) 4)) \<longleftrightarrow> X mod 16 < Y mod 16"
proof -
  have "X - Y = 16 * (X div 16 - Y div 16) + (X mod 16 - Y mod 16)" by (simp add: algebra_simps)
  then have "(X - Y) div 16 = X div 16 - Y div 16 + (X mod 16 - Y mod 16) div 16"
    by (metis div_mult_self4 add.commute zero_neq_numeral)
  moreover have "(X mod 16 - Y mod 16) div 16 = (if X mod 16 < Y mod 16 then -1 else 0)"
  proof -
    have "-16 < X mod 16 - Y mod 16" "X mod 16 - Y mod 16 < 16"
      using pos_mod_bound [of 16 X] pos_mod_bound [of 16 Y] by (auto simp: algebra_simps)
    then show ?thesis by auto
  qed
  ultimately show ?thesis by (simp add: bit_iff_odd) blast
qed

text \<open>The conditions under which each flag is set, and a reading of a packed flags word.\<close>

definition reads_flags :: "u64 \<Rightarrow> bool \<Rightarrow> bool \<Rightarrow> bool \<Rightarrow> bool \<Rightarrow> bool \<Rightarrow> bool \<Rightarrow> bool" where
  "reads_flags p zf cf ovf sf pf af \<longleftrightarrow>
     (p AND XAIR_EXEC_FLAG_ZF \<noteq> 0) = zf \<and> (p AND XAIR_EXEC_FLAG_CF \<noteq> 0) = cf \<and>
     (p AND XAIR_EXEC_FLAG_OF \<noteq> 0) = ovf \<and> (p AND XAIR_EXEC_FLAG_SF \<noteq> 0) = sf \<and>
     (p AND XAIR_EXEC_FLAG_PF \<noteq> 0) = pf \<and> (p AND XAIR_EXEC_FLAG_AF \<noteq> 0) = af"

lemma reads_flags_chain:
  "reads_flags (or_flag c6 XAIR_EXEC_FLAG_AF (or_flag c5 XAIR_EXEC_FLAG_PF (or_flag c4 XAIR_EXEC_FLAG_SF
     (or_flag c3 XAIR_EXEC_FLAG_OF (or_flag c2 XAIR_EXEC_FLAG_CF (or_flag c1 XAIR_EXEC_FLAG_ZF 0)))))) c1 c2 c3 c4 c5 c6"
  unfolding reads_flags_def by (simp only: or_flag_tests)

lemma parity_of_result: "even_parity8 (r :: u64) \<longleftrightarrow> even (card {i. i < 8 \<and> bit (uint r) i})"
  by (simp add: even_parity8_iff bit_uint_eq)

lemma and_16_iff: "(w AND 0x10 \<noteq> 0) \<longleftrightarrow> bit w 4" for w :: u64
  using and_exp_eq_0_iff_not_bit [of w 4] by simp

lemma bit_4_arith: "bit (x + y) 4 = bit (uint x + uint y) 4" "bit (x - y) 4 = bit (uint x - uint y) 4"
  for x y :: u64
proof -
  have t: "bit (z mod 2 ^ 64) 4 = bit z 4" for z :: int
    by (simp only: take_bit_eq_mod [symmetric] bit_take_bit_iff) simp
  show "bit (x + y) 4 = bit (uint x + uint y) 4" "bit (x - y) 4 = bit (uint x - uint y) 4"
    using t [of "uint x + uint y"] t [of "uint x - uint y"] bit_uint_eq [of "x + y" 4] bit_uint_eq [of "x - y" 4]
    by (simp_all add: uint_word_ariths)
qed

lemma adjust_bits:
  fixes x y :: u64
  assumes "5 \<le> b"
  shows "((x XOR y XOR take_bit b (x + y)) AND 0x10 \<noteq> 0) \<longleftrightarrow> 16 \<le> uint x mod 16 + uint y mod 16"
    "((x XOR y XOR take_bit b (x - y)) AND 0x10 \<noteq> 0) \<longleftrightarrow> uint x mod 16 < uint y mod 16"
  unfolding and_16_iff adjust_add [symmetric] adjust_sub [symmetric]
  using assms by (auto simp: bit_xor_iff bit_take_bit_iff bit_4_arith bit_uint_eq)

lemma exec_flags_add:
  assumes "int_value x b" "int_value y b" "8 \<le> b"
  defines "R \<equiv> (uval x + uval y) mod 2 ^ b"
  shows "reads_flags (exec_flags XAIR_OP_FLAGS_ADD (lo x) (lo y) b)
    (R = 0) (2 ^ b \<le> uval x + uval y)
    (\<not> (- (2 ^ (b - 1)) \<le> sval x + sval y \<and> sval x + sval y < 2 ^ (b - 1)))
    (2 ^ (b - 1) \<le> R) (even (card {i. i < 8 \<and> bit R i})) (16 \<le> uval x mod 16 + uval y mod 16)"
proof -
  note x = int_value_simps [OF assms(1)] and y = int_value_simps [OF assms(2)]
  define r where "r = take_bit b (lo x + lo y)"
  have R: "uint r = R" using x by (simp add: r_def R_def uint_arith uval_def)
  have iv: "int_value (exec_value_make (xair_type_i b) r 0) b" using x by (simp add: int_value_make)
  have lor: "lo (exec_value_make (xair_type_i b) r 0) = r"
    by (simp add: truncate_to_type_def xair_type_i_def r_def)
  have sr: "r AND sign_bit_for_bits b \<noteq> 0 \<longleftrightarrow> 2 ^ (b - 1) \<le> R"
    using and_sign_iff [OF iv] lor R by (simp add: uval_def)
  have z: "r = 0 \<longleftrightarrow> R = 0" using R by (metis uint_0_iff)
  note range = uval_range [OF assms(1)] uval_range [OF assms(2)]
  note ov = overflow_add [of "uval x" "2 ^ (b - 1)" "uval y", folded half_width [OF x(5)]]
  have c: "r < lo x \<longleftrightarrow> 2 ^ b \<le> uval x + uval y"
    using ov(2) range by (simp add: word_less_def R) (simp add: R_def uval_def)
  have o: "(lo x AND sign_bit_for_bits b \<noteq> 0) = (lo y AND sign_bit_for_bits b \<noteq> 0) \<and>
      (r AND sign_bit_for_bits b \<noteq> 0) \<noteq> (lo x AND sign_bit_for_bits b \<noteq> 0) \<longleftrightarrow>
      \<not> (- (2 ^ (b - 1)) \<le> sval x + sval y \<and> sval x + sval y < 2 ^ (b - 1))"
    unfolding sr and_sign_iff [OF assms(1)] and_sign_iff [OF assms(2)] sval_eq [OF assms(1)] sval_eq [OF assms(2)]
    using ov(1) range by (simp add: R_def)
  have a: "((lo x XOR lo y XOR r) AND 0x10 \<noteq> 0) = (16 \<le> uval x mod 16 + uval y mod 16)"
    using assms(3) by (simp only: r_def uval_def adjust_bits)
  have e: "exec_flags XAIR_OP_FLAGS_ADD (lo x) (lo y) b =
    or_flag ((lo x XOR lo y XOR r) AND 0x10 \<noteq> 0) XAIR_EXEC_FLAG_AF (or_flag (even_parity8 r) XAIR_EXEC_FLAG_PF
     (or_flag (r AND sign_bit_for_bits b \<noteq> 0) XAIR_EXEC_FLAG_SF
      (or_flag ((lo x AND sign_bit_for_bits b \<noteq> 0) = (lo y AND sign_bit_for_bits b \<noteq> 0) \<and>
        (r AND sign_bit_for_bits b \<noteq> 0) \<noteq> (lo x AND sign_bit_for_bits b \<noteq> 0)) XAIR_EXEC_FLAG_OF
      (or_flag (r < lo x) XAIR_EXEC_FLAG_CF (or_flag (r = 0) XAIR_EXEC_FLAG_ZF 0)))))"
    unfolding exec_flags_def Let_def and_mask_for_bits if_P [OF refl] x(3) y(3) r_def ..
  show ?thesis unfolding e o unfolding a sr c z parity_of_result R by (rule reads_flags_chain)
qed

lemma exec_flags_sub:
  assumes "int_value x b" "int_value y b" "8 \<le> b"
  defines "R \<equiv> (uval x - uval y) mod 2 ^ b"
  shows "reads_flags (exec_flags XAIR_OP_FLAGS_SUB (lo x) (lo y) b)
    (R = 0) (uval x < uval y)
    (\<not> (- (2 ^ (b - 1)) \<le> sval x - sval y \<and> sval x - sval y < 2 ^ (b - 1)))
    (2 ^ (b - 1) \<le> R) (even (card {i. i < 8 \<and> bit R i})) (uval x mod 16 < uval y mod 16)"
proof -
  note x = int_value_simps [OF assms(1)] and y = int_value_simps [OF assms(2)]
  define r where "r = take_bit b (lo x - lo y)"
  have R: "uint r = R" using x by (simp add: r_def R_def uint_arith uval_def)
  have iv: "int_value (exec_value_make (xair_type_i b) r 0) b" using x by (simp add: int_value_make)
  have lor: "lo (exec_value_make (xair_type_i b) r 0) = r"
    by (simp add: truncate_to_type_def xair_type_i_def r_def)
  have sr: "r AND sign_bit_for_bits b \<noteq> 0 \<longleftrightarrow> 2 ^ (b - 1) \<le> R"
    using and_sign_iff [OF iv] lor R by (simp add: uval_def)
  have z: "r = 0 \<longleftrightarrow> R = 0" using R by (metis uint_0_iff)
  note range = uval_range [OF assms(1)] uval_range [OF assms(2)]
  note ov = overflow_sub [of "uval x" "2 ^ (b - 1)" "uval y", folded half_width [OF x(5)]]
  have c: "lo x < lo y \<longleftrightarrow> uval x < uval y" by (simp add: word_less_def uval_def)
  have o: "(lo x AND sign_bit_for_bits b \<noteq> 0) \<noteq> (lo y AND sign_bit_for_bits b \<noteq> 0) \<and>
      (r AND sign_bit_for_bits b \<noteq> 0) \<noteq> (lo x AND sign_bit_for_bits b \<noteq> 0) \<longleftrightarrow>
      \<not> (- (2 ^ (b - 1)) \<le> sval x - sval y \<and> sval x - sval y < 2 ^ (b - 1))"
    unfolding sr and_sign_iff [OF assms(1)] and_sign_iff [OF assms(2)] sval_eq [OF assms(1)] sval_eq [OF assms(2)]
    using ov range by (simp add: R_def)
  have a: "((lo x XOR lo y XOR r) AND 0x10 \<noteq> 0) = (uval x mod 16 < uval y mod 16)"
    using assms(3) by (simp only: r_def uval_def adjust_bits)
  have ne: "XAIR_OP_FLAGS_SUB \<noteq> XAIR_OP_FLAGS_ADD" by simp
  have e: "exec_flags XAIR_OP_FLAGS_SUB (lo x) (lo y) b =
    or_flag ((lo x XOR lo y XOR r) AND 0x10 \<noteq> 0) XAIR_EXEC_FLAG_AF (or_flag (even_parity8 r) XAIR_EXEC_FLAG_PF
     (or_flag (r AND sign_bit_for_bits b \<noteq> 0) XAIR_EXEC_FLAG_SF
      (or_flag ((lo x AND sign_bit_for_bits b \<noteq> 0) \<noteq> (lo y AND sign_bit_for_bits b \<noteq> 0) \<and>
        (r AND sign_bit_for_bits b \<noteq> 0) \<noteq> (lo x AND sign_bit_for_bits b \<noteq> 0)) XAIR_EXEC_FLAG_OF
      (or_flag (lo x < lo y) XAIR_EXEC_FLAG_CF (or_flag (r = 0) XAIR_EXEC_FLAG_ZF 0)))))"
    unfolding exec_flags_def Let_def and_mask_for_bits if_not_P [OF ne] x(3) y(3) r_def ..
  show ?thesis unfolding e o unfolding a sr c z parity_of_result R by (rule reads_flags_chain)
qed

section \<open>Shifts, extensions and concatenation\<close>

lemma uint_push_bit: "b \<le> 64 \<Longrightarrow> uint (take_bit b (push_bit n w)) = (uint w * 2 ^ n) mod 2 ^ b" for w :: u64
  by (simp add: unsigned_take_bit_eq unsigned_push_bit_eq take_bit_take_bit min_absorb1
      flip: take_bit_eq_mod push_bit_eq_mult)

lemma uint_drop_bit: "uint (drop_bit n w) = uint w div 2 ^ n" for w :: u64
proof -
  have "uint (drop_bit n w) = drop_bit n (uint w)" by (rule bit_eqI) (simp add: bit_uint_eq bit_drop_bit_eq)
  then show ?thesis by (simp only: drop_bit_eq_div)
qed

lemma exec_shift_left:
  assumes "int_value x b" "int_value y b" "uval y < int b"
  shows "map_option (\<lambda>r. uval (exec_value_make (xair_type_i b) r 0)) (exec_binary_result XAIR_OP_SHL (xair_type_i b) x y) =
      Some ((uval x * 2 ^ nat (uval y)) mod 2 ^ b)"
proof -
  note x = int_value_simps [OF assms(1)]
  have n: "nat (uval y) = unat (lo y)" by (simp add: uval_def)
  then have "unat (lo y) < b" using assms(3) x(5) by (simp flip: n)
  note n = n this
  show ?thesis
    using x n(2) unfolding n(1)
    by (simp add: exec_binary_result_int [OF assms(1,2)] exec_binary_switch_def uval_make uint_push_bit uval_def [of x])
qed

lemma bit_int_value: "int_value x b \<Longrightarrow> bit (lo x) i \<Longrightarrow> i < b"
  using int_value_simps(3) [of x b] by (metis bit_take_bit_iff)

lemma exec_shift_right:
  assumes "int_value x b" "int_value y b" "uval y < int b"
  shows "map_option (\<lambda>r. uval (exec_value_make (xair_type_i b) r 0)) (exec_binary_result XAIR_OP_LSHR (xair_type_i b) x y) =
      Some (uval x div 2 ^ nat (uval y))"
    "map_option (\<lambda>r. sval (exec_value_make (xair_type_i b) r 0)) (exec_binary_result XAIR_OP_ASHR (xair_type_i b) x y) =
      Some (sval x div 2 ^ nat (uval y))"
proof -
  note x = int_value_simps [OF assms(1)]
  define k where "k = nat (uval y)"
  have n: "unat (lo y) = k" by (simp add: uval_def k_def)
  have k: "k < b" using assms(3) x(5) by (simp add: k_def)
  have y0: "lo y = 0 \<longleftrightarrow> k = 0" using n by (metis unat_eq_0)
  have "take_bit b (drop_bit k (lo x)) = drop_bit k (lo x)"
    by (rule bit_word_eqI) (auto simp: bit_take_bit_iff bit_drop_bit_eq dest: bit_int_value [OF assms(1)])
  then show "map_option (\<lambda>r. uval (exec_value_make (xair_type_i b) r 0)) (exec_binary_result XAIR_OP_LSHR (xair_type_i b) x y) =
      Some (uval x div 2 ^ nat (uval y))"
    using x k n
    by (simp add: exec_binary_result_int [OF assms(1,2)] exec_binary_switch_def uval_make uint_drop_bit
        uval_def [of x] k_def [symmetric])
  define neg where "neg = bit (lo x) (b - 1)"
  define r where "r = (if neg then drop_bit k (lo x) OR push_bit (b - k) (mask_for_bits b) else drop_bit k (lo x))"
  have res: "exec_binary_result XAIR_OP_ASHR (xair_type_i b) x y = Some (if k = 0 then lo x else r)"
    using x k n y0 and_sign_bit [OF x(5,6), of "lo x"]
    by (simp add: exec_binary_result_int [OF assms(1,2)] exec_binary_switch_def Let_def r_def neg_def)
  have bitr: "bit r j \<longleftrightarrow> bit (lo x) (min (b - 1) (j + k))" if "j < b" "k \<noteq> 0" for j
  proof (cases "j + k < b")
    case True
    then have "min (b - 1) (j + k) = j + k" "\<not> b - k \<le> j" using k by auto
    then show ?thesis by (simp add: r_def bit_or_iff bit_drop_bit_eq bit_push_bit_iff add.commute)
  next
    case False
    then have "\<not> bit (lo x) (j + k)" "min (b - 1) (j + k) = b - 1" "b - k \<le> j"
      using bit_int_value [OF assms(1)] k by auto
    with that x k show ?thesis
      by (auto simp: r_def neg_def bit_or_iff bit_drop_bit_eq bit_push_bit_iff mask_for_bits_mask bit_mask_iff
          add.commute)
  qed
  have "signed_take_bit (b - 1) (uint (take_bit b (if k = 0 then lo x else r))) = signed_take_bit (b - 1) (uint (lo x)) div 2 ^ k"
    unfolding drop_bit_eq_div [symmetric]
    by (rule bit_eqI)
      (use x k in \<open>auto simp: bit_signed_take_bit_iff bit_drop_bit_eq bit_uint_eq bit_take_bit_iff bitr min_def add.commute\<close>)
  then show "map_option (\<lambda>r. sval (exec_value_make (xair_type_i b) r 0)) (exec_binary_result XAIR_OP_ASHR (xair_type_i b) x y) =
      Some (sval x div 2 ^ nat (uval y))"
    using x by (simp add: res sval_make sval_def [of x] k_def)
qed

lemma exec_extend:
  assumes "int_value x b" "b < c" "c \<le> 64"
  shows "map_option (\<lambda>r. uval (exec_value_make (xair_type_i c) r 0)) (exec_unary_result XAIR_OP_ZEXT (xair_type_i c) x) = Some (uval x)"
    "map_option (\<lambda>r. sval (exec_value_make (xair_type_i c) r 0)) (exec_unary_result XAIR_OP_SEXT (xair_type_i c) x) = Some (sval x)"
proof -
  note x = int_value_simps [OF assms(1)]
  have sc: "exec_scalar_u64_type (xair_type_i c)" using assms by (simp add: exec_scalar_u64_type_def is_int_def xair_type_i_def)
  have "take_bit c (lo x) = lo x"
    by (rule bit_word_eqI) (use assms in \<open>auto simp: bit_take_bit_iff dest: bit_int_value [OF assms(1)]\<close>)
  then show "map_option (\<lambda>r. uval (exec_value_make (xair_type_i c) r 0)) (exec_unary_result XAIR_OP_ZEXT (xair_type_i c) x) = Some (uval x)"
    using sc x by (simp add: exec_unary_result_def uval_make Let_def uval_def [of x])
  define r where "r = (if bit (lo x) (b - 1) then lo x OR NOT (mask_for_bits b) else lo x)"
  have res: "exec_unary_result XAIR_OP_SEXT (xair_type_i c) x = Some r"
    using sc x and_sign_bit [OF x(5,6), of "lo x"] by (simp add: exec_unary_result_def Let_def r_def)
  have bitr: "bit r j \<longleftrightarrow> bit (lo x) (min (b - 1) j)" if "j < 64" for j
  proof (cases "j < b")
    case True
    then have "min (b - 1) j = j" by simp
    with True show ?thesis by (simp add: r_def bit_or_iff bit_not_iff mask_for_bits_mask bit_mask_iff)
  next
    case False
    then have "\<not> bit (lo x) j" "min (b - 1) j = b - 1" using bit_int_value [OF assms(1)] by auto
    with False that show ?thesis by (simp add: r_def bit_or_iff bit_not_iff mask_for_bits_mask bit_mask_iff)
  qed
  have "signed_take_bit (c - 1) (uint (take_bit c r)) = signed_take_bit (b - 1) (uint (lo x))"
    by (rule bit_eqI)
      (use x assms(2,3) in \<open>auto simp: bit_signed_take_bit_iff bit_uint_eq bit_take_bit_iff bitr min_def\<close>)
  then show "map_option (\<lambda>r. sval (exec_value_make (xair_type_i c) r 0)) (exec_unary_result XAIR_OP_SEXT (xair_type_i c) x) = Some (sval x)"
    using x by (simp add: res sval_make sval_def [of x])
qed

lemma exec_truncate:
  assumes "int_value x b" "c < b"
  shows "map_option (\<lambda>r. uval (exec_value_make (xair_type_i c) r 0)) (exec_unary_result XAIR_OP_TRUNC (xair_type_i c) x) =
    Some (uval x mod 2 ^ c)"
proof -
  have "exec_scalar_u64_type (xair_type_i c)" using int_value_simps(6) [OF assms(1)] assms(2)
    by (simp add: exec_scalar_u64_type_def is_int_def xair_type_i_def)
  then show ?thesis using int_value_simps(4) [OF assms(1)]
    by (simp add: exec_unary_result_def Let_def uval_make uint_take_bit uval_def [of x])
qed

lemma exec_concat:
  assumes "int_value x b" "int_value y c" "b + c \<le> 64"
  shows "map_option (\<lambda>r. uval (exec_value_make (xair_type_i (b + c)) r 0))
      (exec_binary_result XAIR_OP_CONCAT (xair_type_i (b + c)) x y) = Some (uval x * 2 ^ c + uval y)"
proof -
  note x = int_value_simps [OF assms(1)] and y = int_value_simps [OF assms(2)]
  define r where "r = push_bit c (lo x) OR lo y"
  have bits: "bit r j \<longleftrightarrow> (if j < c then bit (lo y) j else bit (lo x) (j - c))" for j
    using assms(3) by (auto simp: r_def bit_or_iff bit_push_bit_iff
        dest: bit_int_value [OF assms(2)] bit_int_value [OF assms(1)])
  have "uint (take_bit (b + c) r) = push_bit c (uint (lo x)) OR uint (lo y)"
    by (rule bit_eqI)
      (use assms(3) in \<open>auto simp: bit_uint_eq bit_take_bit_iff bits bit_or_iff bit_push_bit_iff
        dest: bit_int_value [OF assms(1)] bit_int_value [OF assms(2)] split: if_splits\<close>)
  also have "\<dots> = uint (lo x) * 2 ^ c + uint (lo y)"
    unfolding push_bit_eq_mult [symmetric]
    by (rule disjunctive_add_eq_or [symmetric], rule bit_eqI)
      (auto simp: bit_and_iff bit_push_bit_iff bit_uint_eq dest: bit_int_value [OF assms(2)])
  finally have "uval (exec_value_make (xair_type_i (b + c)) r 0) = uval x * 2 ^ c + uval y"
    by (simp add: uval_make uval_def [of x] uval_def [of y])
  moreover have "exec_binary_result XAIR_OP_CONCAT (xair_type_i (b + c)) x y = Some r"
    using x y assms(3)
    by (simp add: exec_binary_result_int [OF assms(1,2)] exec_binary_switch_def r_def is_int_def xair_type_i_def)
  ultimately show ?thesis by simp
qed

end
