(* ===== verification/Xair_Decode.thy ===== *)
theory Xair_Decode
  imports Xair_Prelude
begin

text \<open>
  The x86 instruction decoder of \<^verbatim>\<open>src/src/xair_x86_decode.c\<close>: prefixes, opcodes, ModRM and SIB bytes,
  displacements and immediates of the supported subset, in 32-bit and 64-bit mode. A decoder reads a list of bytes
  and writes the caller's instruction record, which is therefore passed in and returned: on an error it may be
  unchanged, zeroed or carry the raw opcode bytes, as in the code. Signed 64-bit quantities are \<^typ>\<open>u64\<close> words
  in two's complement, the length of an instruction is the byte the code stores it in.

  The lemmas show that a decoder never looks past the instruction it reports, that its operands are well-formed
  for the mode, and that it reads back what an encoder writes.
\<close>

section \<open>Registers, operands and instructions\<close>

type_synonym xair_x86_reg = nat

abbreviation XAIR_X86_RSP :: xair_x86_reg where "XAIR_X86_RSP \<equiv> 4"
abbreviation XAIR_X86_R8 :: xair_x86_reg where "XAIR_X86_R8 \<equiv> 8"
abbreviation XAIR_X86_REG_COUNT :: xair_x86_reg where "XAIR_X86_REG_COUNT \<equiv> 16"

datatype xair_x86_mnemonic =
    XAIR_X86_MNEMONIC_INVALID
  | XAIR_X86_MNEMONIC_NOP
  | XAIR_X86_MNEMONIC_MOV
  | XAIR_X86_MNEMONIC_ADD
  | XAIR_X86_MNEMONIC_SUB
  | XAIR_X86_MNEMONIC_AND
  | XAIR_X86_MNEMONIC_OR
  | XAIR_X86_MNEMONIC_XOR
  | XAIR_X86_MNEMONIC_CMP
  | XAIR_X86_MNEMONIC_TEST
  | XAIR_X86_MNEMONIC_LEA
  | XAIR_X86_MNEMONIC_PUSH
  | XAIR_X86_MNEMONIC_POP
  | XAIR_X86_MNEMONIC_JMP
  | XAIR_X86_MNEMONIC_JZ
  | XAIR_X86_MNEMONIC_JNZ
  | XAIR_X86_MNEMONIC_RET

datatype xair_x86_memory_kind =
    XAIR_X86_MEM_INVALID
  | XAIR_X86_MEM_RIP_REL
  | XAIR_X86_MEM_BASE_INDEX

record xair_x86_memory_operand =
  mem_kind :: xair_x86_memory_kind
  base :: xair_x86_reg
  index :: xair_x86_reg
  scale :: u8
  has_base :: bool
  has_index :: bool
  displacement :: u64

text \<open>The tagged union of an operand: the tag with the member it selects, after the size in bits.\<close>

datatype xair_x86_operand =
    XAIR_X86_OPERAND_UNUSED
  | XAIR_X86_OPERAND_REGISTER nat xair_x86_reg
  | XAIR_X86_OPERAND_MEMORY nat xair_x86_memory_operand
  | XAIR_X86_OPERAND_IMMEDIATE nat u64

record xair_x86_decoded_inst =
  mnemonic :: xair_x86_mnemonic
  inst_length :: u8
  raw_opcode :: u8
  raw_opcode2 :: u8
  operand_count :: nat
  operands :: "xair_x86_operand list"

definition zero_inst :: xair_x86_decoded_inst where
  "zero_inst = \<lparr>mnemonic = XAIR_X86_MNEMONIC_INVALID, inst_length = 0, raw_opcode = 0, raw_opcode2 = 0,
     operand_count = 0, operands = replicate 4 XAIR_X86_OPERAND_UNUSED\<rparr>"

section \<open>Reading bytes\<close>

definition decode_read_u8 :: "u8 list \<Rightarrow> nat \<Rightarrow> u8 option" where
  "decode_read_u8 bytes offset = (if offset \<ge> length bytes then None else Some (bytes ! offset))"

definition decode_read_le32 :: "u8 list \<Rightarrow> nat \<Rightarrow> u32 option" where
  "decode_read_le32 bytes offset =
     (if offset > length bytes \<or> length bytes - offset < 4 then None
      else Some (ucast (bytes ! offset) OR push_bit 8 (ucast (bytes ! (offset + 1))) OR
        push_bit 16 (ucast (bytes ! (offset + 2))) OR push_bit 24 (ucast (bytes ! (offset + 3)))))"

definition decode_read_le64 :: "u8 list \<Rightarrow> nat \<Rightarrow> u64 option" where
  "decode_read_le64 bytes offset =
     (case decode_read_le32 bytes offset of
        None \<Rightarrow> None
      | Some l \<Rightarrow>
          (case decode_read_le32 bytes (offset + 4) of
             None \<Rightarrow> None
           | Some h \<Rightarrow> Some (ucast l OR push_bit 32 (ucast h))))"

definition decode_sign_extend8 :: "u8 \<Rightarrow> u64" where
  "decode_sign_extend8 v = scast v"

definition decode_sign_extend32 :: "u32 \<Rightarrow> u64" where
  "decode_sign_extend32 v = scast v"

definition decode_reg :: "u8 \<Rightarrow> u8 \<Rightarrow> nat \<Rightarrow> xair_x86_reg" where
  "decode_reg field rex_bit mode_bits = unat field + (if mode_bits = 64 \<and> rex_bit \<noteq> 0 then 8 else 0)"

definition decode_modrm :: "u8 \<Rightarrow> u8 \<times> u8 \<times> u8" where
  "decode_modrm b = (drop_bit 6 b, drop_bit 3 b AND 7, b AND 7)"

section \<open>Operands\<close>

definition decode_set_reg :: "xair_x86_reg \<Rightarrow> nat \<Rightarrow> xair_x86_operand" where
  "decode_set_reg r b = XAIR_X86_OPERAND_REGISTER b r"

definition decode_set_imm :: "nat \<Rightarrow> u64 \<Rightarrow> xair_x86_operand" where
  "decode_set_imm b v = XAIR_X86_OPERAND_IMMEDIATE b v"

definition decode_set_rip_mem :: "nat \<Rightarrow> u64 \<Rightarrow> xair_x86_operand" where
  "decode_set_rip_mem b disp = XAIR_X86_OPERAND_MEMORY b
     \<lparr>mem_kind = XAIR_X86_MEM_RIP_REL, base = 0, index = 0, scale = 1, has_base = False, has_index = False,
      displacement = disp\<rparr>"

definition decode_set_base_index_mem ::
  "bool \<Rightarrow> xair_x86_reg \<Rightarrow> bool \<Rightarrow> xair_x86_reg \<Rightarrow> u8 \<Rightarrow> nat \<Rightarrow> u64 \<Rightarrow> xair_x86_operand" where
  "decode_set_base_index_mem hb bs hi ix sc b disp = XAIR_X86_OPERAND_MEMORY b
     \<lparr>mem_kind = XAIR_X86_MEM_BASE_INDEX, base = bs, index = ix, scale = (if sc = 0 then 1 else sc),
      has_base = hb, has_index = hi, displacement = disp\<rparr>"

text \<open>The readers below take the offset of the next byte and return it advanced.\<close>

definition decode_displacement :: "u8 list \<Rightarrow> u8 \<Rightarrow> nat \<Rightarrow> (nat \<times> u64) xres" where
  "decode_displacement bytes md offset =
     (if md = 1 then
        (case decode_read_u8 bytes offset of
           None \<Rightarrow> Err XAIR_ERR_RANGE
         | Some d \<Rightarrow> Ok (offset + 1, decode_sign_extend8 d))
      else if md = 2 then
        (case decode_read_le32 bytes offset of
           None \<Rightarrow> Err XAIR_ERR_RANGE
         | Some d \<Rightarrow> Ok (offset + 4, decode_sign_extend32 d))
      else Ok (offset, 0))"

text \<open>The branch of \<^verbatim>\<open>decode_memory_operand\<close> for an operand with a SIB byte.\<close>

definition decode_sib_operand ::
  "u8 list \<Rightarrow> u8 \<Rightarrow> u8 \<Rightarrow> nat \<Rightarrow> nat \<Rightarrow> nat \<Rightarrow> (nat \<times> xair_x86_operand) xres" where
  "decode_sib_operand bytes md rex mode_bits operand_bits offset =
     (case decode_read_u8 bytes offset of
        None \<Rightarrow> Err XAIR_ERR_RANGE
      | Some sib \<Rightarrow>
          let index_field = drop_bit 3 sib AND 7; base_field = sib AND 7; sc = push_bit (unat (drop_bit 6 sib)) 1;
            hi = \<not> (index_field = 4 \<and> rex AND 2 = 0);
            ix = (if hi then decode_reg index_field (rex AND 2) mode_bits else XAIR_X86_REG_COUNT)
          in if md = 0 \<and> base_field = 5 then
               (case decode_read_le32 bytes (offset + 1) of
                  None \<Rightarrow> Err XAIR_ERR_RANGE
                | Some d \<Rightarrow> Ok (offset + 5, decode_set_base_index_mem False XAIR_X86_REG_COUNT hi ix sc operand_bits
                      (decode_sign_extend32 d)))
             else
               (case decode_displacement bytes md (offset + 1) of
                  Err e \<Rightarrow> Err XAIR_ERR_RANGE
                | Ok (offset', disp) \<Rightarrow> Ok (offset', decode_set_base_index_mem True
                      (decode_reg base_field (rex AND 1) mode_bits) hi ix sc operand_bits disp)))"

definition decode_memory_operand ::
  "u8 list \<Rightarrow> u8 \<Rightarrow> u8 \<Rightarrow> u8 \<Rightarrow> nat \<Rightarrow> nat \<Rightarrow> nat \<Rightarrow> (nat \<times> xair_x86_operand) xres" where
  "decode_memory_operand bytes md rm_field rex mode_bits operand_bits offset =
     (if md = 3 then Err XAIR_ERR_BAD_ARG
      else if rm_field = 4 then decode_sib_operand bytes md rex mode_bits operand_bits offset
      else if md = 0 \<and> rm_field = 5 then
        (case decode_read_le32 bytes offset of
           None \<Rightarrow> Err XAIR_ERR_RANGE
         | Some d \<Rightarrow> Ok (offset + 4,
             if mode_bits = 64 then decode_set_rip_mem operand_bits (decode_sign_extend32 d)
             else decode_set_base_index_mem False XAIR_X86_REG_COUNT False XAIR_X86_REG_COUNT 1 operand_bits
               (decode_sign_extend32 d)))
      else
        (case decode_displacement bytes md offset of
           Err e \<Rightarrow> Err XAIR_ERR_RANGE
         | Ok (offset', disp) \<Rightarrow> Ok (offset', decode_set_base_index_mem True (decode_reg rm_field (rex AND 1) mode_bits)
             False XAIR_X86_REG_COUNT 1 operand_bits disp)))"

definition decode_rm_operand ::
  "u8 list \<Rightarrow> u8 \<Rightarrow> u8 \<Rightarrow> u8 \<Rightarrow> nat \<Rightarrow> nat \<Rightarrow> nat \<Rightarrow> (nat \<times> xair_x86_operand) xres" where
  "decode_rm_operand bytes md rm_field rex mode_bits operand_bits offset =
     (if md = 3 then Ok (offset, decode_set_reg (decode_reg rm_field (rex AND 1) mode_bits) operand_bits)
      else decode_memory_operand bytes md rm_field rex mode_bits operand_bits offset)"

section \<open>Instructions\<close>

text \<open>
  A decoder of a group of opcodes writes the caller's record \<open>inst\<close>. Every successful exit stores the offset as
  the length, cut to a byte.
\<close>

type_synonym decode_op = "xair_x86_decoded_inst \<Rightarrow> xair_status \<times> xair_x86_decoded_inst"

definition decode_unsupported :: "u8 \<Rightarrow> u8 \<Rightarrow> decode_op" where
  "decode_unsupported opc opc2 inst =
     (XAIR_ERR_UNSUPPORTED, inst\<lparr>mnemonic := XAIR_X86_MNEMONIC_INVALID, raw_opcode := opc, raw_opcode2 := opc2\<rparr>)"

definition finish_inst :: "xair_x86_mnemonic \<Rightarrow> xair_x86_operand list \<Rightarrow> nat \<Rightarrow> decode_op" where
  "finish_inst mn os offset inst =
     (XAIR_OK, inst\<lparr>mnemonic := mn, inst_length := of_nat offset, operand_count := length os,
        operands := os @ drop (length os) (operands inst)\<rparr>)"

definition decode_modrm_move_or_lea :: "u8 list \<Rightarrow> u8 \<Rightarrow> u8 \<Rightarrow> nat \<Rightarrow> nat \<Rightarrow> decode_op" where
  "decode_modrm_move_or_lea bytes opc rex mode_bits offset inst =
     (if mode_bits = 64 \<and> rex AND 8 = 0 then decode_unsupported opc 0 inst
      else case decode_read_u8 bytes offset of
        None \<Rightarrow> (XAIR_ERR_RANGE, inst)
      | Some modrm \<Rightarrow>
          let (md, reg_field, rm_field) = decode_modrm modrm;
            reg_operand = decode_set_reg (decode_reg reg_field (rex AND 4) mode_bits) mode_bits
          in if opc = 0x8d then
               (if md = 3 then decode_unsupported opc 0 inst
                else case decode_memory_operand bytes md rm_field rex mode_bits mode_bits (offset + 1) of
                  Err e \<Rightarrow> (XAIR_ERR_RANGE, inst)
                | Ok (offset', rm_operand) \<Rightarrow>
                    finish_inst XAIR_X86_MNEMONIC_LEA [reg_operand, rm_operand] offset' inst)
             else
               (case decode_rm_operand bytes md rm_field rex mode_bits mode_bits (offset + 1) of
                  Err e \<Rightarrow> (XAIR_ERR_RANGE, inst)
                | Ok (offset', rm_operand) \<Rightarrow>
                    finish_inst XAIR_X86_MNEMONIC_MOV
                      (if opc = 0x8b then [reg_operand, rm_operand] else [rm_operand, reg_operand]) offset' inst))"

definition decode_binary_mnemonic :: "u8 \<Rightarrow> xair_x86_mnemonic" where
  "decode_binary_mnemonic opc =
     (if opc = 0x01 \<or> opc = 0x03 then XAIR_X86_MNEMONIC_ADD
      else if opc = 0x09 \<or> opc = 0x0b then XAIR_X86_MNEMONIC_OR
      else if opc = 0x21 \<or> opc = 0x23 then XAIR_X86_MNEMONIC_AND
      else if opc = 0x29 \<or> opc = 0x2b then XAIR_X86_MNEMONIC_SUB
      else if opc = 0x31 \<or> opc = 0x33 then XAIR_X86_MNEMONIC_XOR
      else if opc = 0x39 \<or> opc = 0x3b then XAIR_X86_MNEMONIC_CMP
      else if opc = 0x85 then XAIR_X86_MNEMONIC_TEST
      else XAIR_X86_MNEMONIC_INVALID)"

definition decode_reg_dest_opcode :: "u8 \<Rightarrow> bool" where
  "decode_reg_dest_opcode opc \<longleftrightarrow> opc \<in> {0x03, 0x0b, 0x23, 0x2b, 0x33, 0x3b}"

fun is_register :: "xair_x86_operand \<Rightarrow> bool" where
  "is_register (XAIR_X86_OPERAND_REGISTER _ _) = True"
| "is_register _ = False"

definition decode_modrm_binary :: "u8 list \<Rightarrow> u8 \<Rightarrow> u8 \<Rightarrow> nat \<Rightarrow> nat \<Rightarrow> decode_op" where
  "decode_modrm_binary bytes opc rex mode_bits offset inst =
     (if mode_bits = 64 \<and> rex AND 8 = 0 then decode_unsupported opc 0 inst
      else case decode_read_u8 bytes offset of
        None \<Rightarrow> (XAIR_ERR_RANGE, inst)
      | Some modrm \<Rightarrow>
          let (md, reg_field, rm_field) = decode_modrm modrm
          in case decode_rm_operand bytes md rm_field rex mode_bits mode_bits (offset + 1) of
               Err e \<Rightarrow> (XAIR_ERR_RANGE, inst)
             | Ok (offset', rm_operand) \<Rightarrow>
                 let reg_operand = decode_set_reg (decode_reg reg_field (rex AND 4) mode_bits) mode_bits;
                   mn = decode_binary_mnemonic opc
                 in if \<not> is_register rm_operand then decode_unsupported opc 0 inst
                    else if mn = XAIR_X86_MNEMONIC_INVALID then decode_unsupported opc 0 inst
                    else finish_inst mn
                      (if decode_reg_dest_opcode opc then [reg_operand, rm_operand] else [rm_operand, reg_operand])
                      offset' inst)"

definition decode_group1_mnemonic :: "u8 \<Rightarrow> xair_x86_mnemonic" where
  "decode_group1_mnemonic grp =
     (if grp = 0 then XAIR_X86_MNEMONIC_ADD
      else if grp = 1 then XAIR_X86_MNEMONIC_OR
      else if grp = 4 then XAIR_X86_MNEMONIC_AND
      else if grp = 5 then XAIR_X86_MNEMONIC_SUB
      else if grp = 6 then XAIR_X86_MNEMONIC_XOR
      else if grp = 7 then XAIR_X86_MNEMONIC_CMP
      else XAIR_X86_MNEMONIC_INVALID)"

text \<open>The immediate of the grp-1 opcodes: one byte for 0x83, four for 0x81.\<close>

definition decode_group1_value :: "u8 list \<Rightarrow> u8 \<Rightarrow> nat \<Rightarrow> (nat \<times> u64) xres" where
  "decode_group1_value bytes opc offset =
     (if opc = 0x83 then
        (case decode_read_u8 bytes offset of
           None \<Rightarrow> Err XAIR_ERR_RANGE
         | Some v \<Rightarrow> Ok (offset + 1, decode_sign_extend8 v))
      else
        (case decode_read_le32 bytes offset of
           None \<Rightarrow> Err XAIR_ERR_RANGE
         | Some v \<Rightarrow> Ok (offset + 4, decode_sign_extend32 v)))"

definition decode_group1_imm :: "u8 list \<Rightarrow> u8 \<Rightarrow> u8 \<Rightarrow> nat \<Rightarrow> nat \<Rightarrow> decode_op" where
  "decode_group1_imm bytes opc rex mode_bits offset inst =
     (if mode_bits = 64 \<and> rex AND 8 = 0 then decode_unsupported opc 0 inst
      else case decode_read_u8 bytes offset of
        None \<Rightarrow> (XAIR_ERR_RANGE, inst)
      | Some modrm \<Rightarrow>
          let (md, grp, rm_field) = decode_modrm modrm
          in case decode_rm_operand bytes md rm_field rex mode_bits mode_bits (offset + 1) of
               Err e \<Rightarrow> (XAIR_ERR_RANGE, inst)
             | Ok (offset', rm_operand) \<Rightarrow>
                 if \<not> is_register rm_operand then decode_unsupported opc 0 inst
                 else case decode_group1_value bytes opc offset' of
                   Err e \<Rightarrow> (XAIR_ERR_RANGE, inst)
                 | Ok (offset'', imm) \<Rightarrow>
                     let mn = decode_group1_mnemonic grp
                     in if mn = XAIR_X86_MNEMONIC_INVALID then decode_unsupported opc 0 inst
                        else finish_inst mn [rm_operand, decode_set_imm (if opc = 0x83 then 8 else 32) imm]
                          offset'' inst)"

text \<open>The loop over REX prefixes: it returns the last prefix, the opcode and the offset of the opcode.\<close>

function decode_prefixes :: "u8 list \<Rightarrow> nat \<Rightarrow> u8 \<Rightarrow> nat \<Rightarrow> (u8 \<times> u8 \<times> nat) option" where
  "decode_prefixes bytes mode_bits rex offset =
     (case decode_read_u8 bytes offset of
        None \<Rightarrow> None
      | Some opc \<Rightarrow>
          if mode_bits = 64 \<and> 0x40 \<le> opc \<and> opc \<le> 0x4f then decode_prefixes bytes mode_bits opc (offset + 1)
          else Some (rex, opc, offset))"
  by pat_completeness auto
termination
  by (relation "measure (\<lambda>(bytes, mode_bits, rex, offset). length bytes - offset)")
    (auto simp: decode_read_u8_def split: if_splits)

declare decode_prefixes.simps [simp del]

text \<open>A relative branch: one byte or four bytes of displacement.\<close>

definition decode_rel8 :: "u8 list \<Rightarrow> xair_x86_mnemonic \<Rightarrow> nat \<Rightarrow> xair_x86_decoded_inst \<Rightarrow> decode_op" where
  "decode_rel8 bytes mn offset inst out_inst =
     (case decode_read_u8 bytes offset of
        None \<Rightarrow> (XAIR_ERR_RANGE, out_inst)
      | Some rel \<Rightarrow> finish_inst mn [decode_set_imm 8 (decode_sign_extend8 rel)] (offset + 1) inst)"

definition decode_rel32 :: "u8 list \<Rightarrow> xair_x86_mnemonic \<Rightarrow> nat \<Rightarrow> xair_x86_decoded_inst \<Rightarrow> decode_op" where
  "decode_rel32 bytes mn offset inst out_inst =
     (case decode_read_le32 bytes offset of
        None \<Rightarrow> (XAIR_ERR_RANGE, out_inst)
      | Some rel \<Rightarrow> finish_inst mn [decode_set_imm 32 (decode_sign_extend32 rel)] (offset + 4) inst)"

text \<open>\<^verbatim>\<open>mov reg, imm\<close>, opcodes 0xb8 to 0xbf.\<close>

definition decode_mov_imm :: "u8 list \<Rightarrow> u8 \<Rightarrow> u8 \<Rightarrow> nat \<Rightarrow> nat \<Rightarrow> xair_x86_decoded_inst \<Rightarrow> decode_op" where
  "decode_mov_imm bytes opc rex mode_bits offset inst out_inst =
     (let dst = decode_set_reg (decode_reg (opc - 0xb8) (rex AND 1) mode_bits) mode_bits
      in if mode_bits = 64 \<and> rex AND 8 = 0 then decode_unsupported opc 0 inst
         else if mode_bits = 64 then
           (case decode_read_le64 bytes offset of
              None \<Rightarrow> (XAIR_ERR_RANGE, out_inst)
            | Some imm \<Rightarrow> finish_inst XAIR_X86_MNEMONIC_MOV [dst, decode_set_imm mode_bits imm] (offset + 8) inst)
         else
           (case decode_read_le32 bytes offset of
              None \<Rightarrow> (XAIR_ERR_RANGE, out_inst)
            | Some imm \<Rightarrow> finish_inst XAIR_X86_MNEMONIC_MOV [dst, decode_set_imm mode_bits (ucast imm)] (offset + 4) inst))"

text \<open>The dispatch on the opcode, once the prefixes are read; \<open>offset\<close> is that of the byte after the opcode.\<close>

definition decode_opcode :: "u8 list \<Rightarrow> nat \<Rightarrow> u8 \<Rightarrow> u8 \<Rightarrow> nat \<Rightarrow> decode_op" where
  "decode_opcode bytes mode_bits rex opc offset out_inst =
     (let inst = zero_inst\<lparr>raw_opcode := opc\<rparr>
      in if 0xb8 \<le> opc \<and> opc \<le> 0xbf then decode_mov_imm bytes opc rex mode_bits offset inst out_inst
         else if (0x50 \<le> opc \<and> opc \<le> 0x57) \<or> (0x58 \<le> opc \<and> opc \<le> 0x5f) then
           finish_inst (if opc < 0x58 then XAIR_X86_MNEMONIC_PUSH else XAIR_X86_MNEMONIC_POP)
             [decode_set_reg (decode_reg (opc AND 7) (rex AND 1) mode_bits) mode_bits] offset inst
         else if opc = 0x90 then finish_inst XAIR_X86_MNEMONIC_NOP [] offset inst
         else if opc \<in> {0x8b, 0x89, 0x8d} then decode_modrm_move_or_lea bytes opc rex mode_bits offset inst
         else if opc \<in> {0x01, 0x03, 0x09, 0x0b, 0x21, 0x23, 0x29, 0x2b, 0x31, 0x33, 0x39, 0x3b, 0x85} then
           decode_modrm_binary bytes opc rex mode_bits offset inst
         else if opc \<in> {0x81, 0x83} then decode_group1_imm bytes opc rex mode_bits offset inst
         else if opc = 0xeb then decode_rel8 bytes XAIR_X86_MNEMONIC_JMP offset inst out_inst
         else if opc = 0xe9 then decode_rel32 bytes XAIR_X86_MNEMONIC_JMP offset inst out_inst
         else if opc \<in> {0x74, 0x75} then
           decode_rel8 bytes (if opc = 0x74 then XAIR_X86_MNEMONIC_JZ else XAIR_X86_MNEMONIC_JNZ) offset inst out_inst
         else if opc = 0x0f then
           (case decode_read_u8 bytes offset of
              None \<Rightarrow> (XAIR_ERR_RANGE, out_inst)
            | Some opc2 \<Rightarrow>
                if opc2 \<in> {0x84, 0x85} then
                  decode_rel32 bytes (if opc2 = 0x84 then XAIR_X86_MNEMONIC_JZ else XAIR_X86_MNEMONIC_JNZ) (offset + 1)
                    (inst\<lparr>raw_opcode2 := opc2\<rparr>) out_inst
                else decode_unsupported opc opc2 (inst\<lparr>raw_opcode2 := opc2\<rparr>))
         else if opc = 0xc3 then finish_inst XAIR_X86_MNEMONIC_RET [] offset inst
         else decode_unsupported opc 0 inst)"

definition xair_x86_decode_mode :: "nat \<Rightarrow> u8 list \<Rightarrow> decode_op" where
  "xair_x86_decode_mode mode_bits bytes out_inst =
     (if bytes = [] then (XAIR_ERR_BAD_ARG, out_inst)
      else case decode_prefixes bytes mode_bits 0 0 of
        None \<Rightarrow> (XAIR_ERR_RANGE, out_inst)
      | Some (rex, opc, offset) \<Rightarrow> decode_opcode bytes mode_bits rex opc (offset + 1) out_inst)"

definition xair_x86_decode32 :: "u8 list \<Rightarrow> decode_op" where
  "xair_x86_decode32 = xair_x86_decode_mode 32"

definition xair_x86_decode64 :: "u8 list \<Rightarrow> decode_op" where
  "xair_x86_decode64 = xair_x86_decode_mode 64"

text \<open>A decoder backend: the table of functions the lifter calls through.\<close>

record xair_x86_decoder_backend =
  backend_name :: string
  decode32 :: "u8 list \<Rightarrow> decode_op"
  decode64 :: "u8 list \<Rightarrow> decode_op"

definition xair_x86_stub_decoder :: xair_x86_decoder_backend where
  "xair_x86_stub_decoder = \<lparr>backend_name = ''x86_stub'', decode32 = xair_x86_decode32, decode64 = xair_x86_decode64\<rparr>"

section \<open>Decoding is local\<close>

text \<open>Two byte sequences that hold the same first \<open>n\<close> bytes.\<close>

definition agree :: "nat \<Rightarrow> u8 list \<Rightarrow> u8 list \<Rightarrow> bool" where
  "agree n bs bs' \<longleftrightarrow> n \<le> length bs \<and> n \<le> length bs' \<and> (\<forall>i < n. bs ! i = bs' ! i)"

text \<open>
  A reader \<open>f\<close>, seen through \<open>view\<close> (its result when it succeeds), is local from offset \<open>i\<close> up to \<open>lim\<close> when
  each success is reached at some offset \<open>n\<close> between the two and inside the input, depends on the bytes before \<open>n\<close>
  only, and reports \<open>n\<close> in the way \<open>rep\<close> says.
\<close>

definition local_read :: "(nat \<Rightarrow> 'x \<Rightarrow> bool) \<Rightarrow> ('r \<Rightarrow> 'x option) \<Rightarrow> nat \<Rightarrow> nat \<Rightarrow> (u8 list \<Rightarrow> 'r) \<Rightarrow> bool" where
  "local_read rep view i lim f \<longleftrightarrow> (\<forall>bs x. view (f bs) = Some x \<longrightarrow>
     (\<exists>n. i \<le> n \<and> n \<le> lim \<and> (i \<le> length bs \<longrightarrow> n \<le> length bs) \<and> rep n x \<and>
        (\<forall>bs'. agree n bs bs' \<longrightarrow> view (f bs') = Some x)))"

fun ok_of :: "'a xres \<Rightarrow> 'a option" where
  "ok_of (Ok x) = Some x"
| "ok_of (Err e) = None"

fun inst_of :: "xair_status \<times> xair_x86_decoded_inst \<Rightarrow> xair_x86_decoded_inst option" where
  "inst_of (XAIR_OK, inst) = Some inst"
| "inst_of _ = None"

abbreviation next_offset :: "nat \<Rightarrow> nat \<times> 'a \<Rightarrow> bool" where
  "next_offset n x \<equiv> fst x = n"

abbreviation next_inst :: "nat \<Rightarrow> xair_x86_decoded_inst \<Rightarrow> bool" where
  "next_inst n inst \<equiv> inst_length inst = of_nat n"

lemma ok_of_Some [simp]: "ok_of r = Some x \<longleftrightarrow> r = Ok x"
  by (cases r) auto

lemma inst_of_Some [simp]: "inst_of r = Some inst \<longleftrightarrow> r = (XAIR_OK, inst)"
  by (cases r rule: inst_of.cases) auto

lemma agree_mono: "agree n bs bs' \<Longrightarrow> m \<le> n \<Longrightarrow> agree m bs bs'"
  by (auto simp: agree_def)

lemma read_u8_local:
  assumes "decode_read_u8 bs i = Some v"
  shows "i + 1 \<le> length bs" "agree n bs bs' \<Longrightarrow> i + 1 \<le> n \<Longrightarrow> decode_read_u8 bs' i = Some v"
  using assms by (auto simp: decode_read_u8_def agree_def split: if_splits)

lemma read_le32_local:
  assumes "decode_read_le32 bs i = Some v"
  shows "i + 4 \<le> length bs" "agree n bs bs' \<Longrightarrow> i + 4 \<le> n \<Longrightarrow> decode_read_le32 bs' i = Some v"
  using assms by (auto simp: decode_read_le32_def agree_def split: if_splits)

lemma read_le64_local:
  assumes "decode_read_le64 bs i = Some v"
  shows "i + 8 \<le> length bs" "agree n bs bs' \<Longrightarrow> i + 8 \<le> n \<Longrightarrow> decode_read_le64 bs' i = Some v"
proof -
  from assms obtain l h where lh: "decode_read_le32 bs i = Some l" "decode_read_le32 bs (i + 4) = Some h"
      "v = ucast l OR push_bit 32 (ucast h)"
    by (auto simp: decode_read_le64_def split: option.splits)
  show "i + 8 \<le> length bs" using read_le32_local(1) [OF lh(2)] by simp
  show "decode_read_le64 bs' i = Some v" if "agree n bs bs'" "i + 8 \<le> n"
    using read_le32_local(2) [OF lh(1) that(1)] read_le32_local(2) [OF lh(2) that(1)] that(2) lh(3)
    by (simp add: decode_read_le64_def)
qed

text \<open>The rules of locality follow the constructs the decoder is written with.\<close>

named_theorems local_intros "introduction rules for local readers"

lemma local_ret [local_intros]:
  "(case view r of None \<Rightarrow> True | Some x \<Rightarrow> rep i x \<and> i \<le> lim) \<Longrightarrow> local_read rep view i lim (\<lambda>bs. r)"
  by (auto simp: local_read_def)

lemma local_if [local_intros]:
  "(c \<Longrightarrow> local_read rep view i lim f) \<Longrightarrow> (\<not> c \<Longrightarrow> local_read rep view i lim g) \<Longrightarrow>
   local_read rep view i lim (\<lambda>bs. if c then f bs else g bs)"
  by (cases c) simp_all

text \<open>One step of reading: a primitive that takes \<open>w\<close> bytes, then the rest.\<close>

lemma local_step:
  assumes step: "\<And>bs v. rd bs i = Some v \<Longrightarrow> i + w \<le> length bs"
      "\<And>bs v n bs'. rd bs i = Some v \<Longrightarrow> agree n bs bs' \<Longrightarrow> i + w \<le> n \<Longrightarrow> rd bs' i = Some v"
    and fail: "view e = None" and rest: "\<And>v. local_read rep view (i + w) lim (g v)"
  shows "local_read rep view i lim (\<lambda>bs. case rd bs i of None \<Rightarrow> e | Some v \<Rightarrow> g v bs)"
  unfolding local_read_def
proof (intro allI impI)
  fix bs x assume *: "view (case rd bs i of None \<Rightarrow> e | Some v \<Rightarrow> g v bs) = Some x"
  then obtain v where v: "rd bs i = Some v" using fail by (cases "rd bs i") auto
  with * have "view (g v bs) = Some x" by simp
  then obtain n where n: "i + w \<le> n" "n \<le> lim" "i + w \<le> length bs \<longrightarrow> n \<le> length bs" "rep n x"
      "\<forall>bs'. agree n bs bs' \<longrightarrow> view (g v bs') = Some x"
    using rest unfolding local_read_def by blast
  with step(1) [OF v] step(2) [OF v] show "\<exists>n. i \<le> n \<and> n \<le> lim \<and> (i \<le> length bs \<longrightarrow> n \<le> length bs) \<and> rep n x \<and>
      (\<forall>bs'. agree n bs bs' \<longrightarrow> view (case rd bs' i of None \<Rightarrow> e | Some v \<Rightarrow> g v bs') = Some x)"
    by (intro exI [of _ n]) auto
qed

lemma local_reads [local_intros]:
  assumes "view e = None"
  shows "(\<And>v. local_read rep view (i + 1) lim (g v)) \<Longrightarrow>
      local_read rep view i lim (\<lambda>bs. case decode_read_u8 bs i of None \<Rightarrow> e | Some v \<Rightarrow> g v bs)"
    and "(\<And>v. local_read rep view (i + 4) lim (h v)) \<Longrightarrow>
      local_read rep view i lim (\<lambda>bs. case decode_read_le32 bs i of None \<Rightarrow> e | Some v \<Rightarrow> h v bs)"
    and "(\<And>v. local_read rep view (i + 8) lim (k v)) \<Longrightarrow>
      local_read rep view i lim (\<lambda>bs. case decode_read_le64 bs i of None \<Rightarrow> e | Some v \<Rightarrow> k v bs)"
  using assms by (intro local_step [where w = 1] local_step [where w = 4] local_step [where w = 8];
    blast dest: read_u8_local read_le32_local read_le64_local)+

text \<open>A local reader that reports its offset, then the rest from there.\<close>

lemma local_bind:
  assumes f: "local_read next_offset ok_of i mid f" and fail: "\<And>e. view (err e) = None"
    and rest: "\<And>n y. i \<le> n \<Longrightarrow> n \<le> mid \<Longrightarrow> local_read rep view n lim (g n y)"
  shows "local_read rep view i lim (\<lambda>bs. case f bs of Err e \<Rightarrow> err e | Ok (n, y) \<Rightarrow> g n y bs)"
  unfolding local_read_def
proof (intro allI impI)
  fix bs x assume *: "view (case f bs of Err e \<Rightarrow> err e | Ok (n, y) \<Rightarrow> g n y bs) = Some x"
  then obtain m y where y: "f bs = Ok (m, y)" using fail by (cases "f bs") auto
  then have m: "i \<le> m" "m \<le> mid" "i \<le> length bs \<longrightarrow> m \<le> length bs" "\<forall>bs'. agree m bs bs' \<longrightarrow> f bs' = Ok (m, y)"
    using f [unfolded local_read_def, rule_format, of bs "(m, y)"] by auto
  have "view (g m y bs) = Some x" using * y by simp
  then obtain n where n: "m \<le> n" "n \<le> lim" "m \<le> length bs \<longrightarrow> n \<le> length bs" "rep n x"
      "\<forall>bs'. agree n bs bs' \<longrightarrow> view (g m y bs') = Some x"
    using rest m unfolding local_read_def by blast
  have "view (case f bs' of Err e \<Rightarrow> err e | Ok (n, y) \<Rightarrow> g n y bs') = Some x" if "agree n bs bs'" for bs'
    using that m(4) n(1,5) agree_mono [OF that n(1)] by simp
  with m n show "\<exists>n. i \<le> n \<and> n \<le> lim \<and> (i \<le> length bs \<longrightarrow> n \<le> length bs) \<and> rep n x \<and>
      (\<forall>bs'. agree n bs bs' \<longrightarrow> view (case f bs' of Err e \<Rightarrow> err e | Ok (n, y) \<Rightarrow> g n y bs') = Some x)"
    by (intro exI [of _ n]) auto
qed

lemma displacement_local [local_intros]: "i + 4 \<le> lim \<Longrightarrow> local_read next_offset ok_of i lim (\<lambda>bs. decode_displacement bs md i)"
  unfolding decode_displacement_def by (intro local_intros) auto

lemma sib_local [local_intros]:
  assumes "i + 5 \<le> lim"
  shows "local_read next_offset ok_of i lim (\<lambda>bs. decode_sib_operand bs md rex mode bits i)"
  unfolding decode_sib_operand_def Let_def using assms
  by (intro local_intros local_bind [where mid = lim]) (auto split: option.splits)

lemma memory_local [local_intros]:
  assumes "i + 5 \<le> lim"
  shows "local_read next_offset ok_of i lim (\<lambda>bs. decode_memory_operand bs md rm rex mode bits i)"
  unfolding decode_memory_operand_def using assms
  by (intro local_intros local_bind [where mid = lim]) auto

lemma rm_local [local_intros]:
  assumes "i + 5 \<le> lim"
  shows "local_read next_offset ok_of i lim (\<lambda>bs. decode_rm_operand bs md rm rex mode bits i)"
  unfolding decode_rm_operand_def using assms by (intro local_intros) auto

lemma inst_of_unsupported [simp]: "inst_of (decode_unsupported opc opc2 inst) = None"
  by (simp add: decode_unsupported_def)

lemma inst_of_finish [simp]:
  "inst_of (finish_inst mn os i inst) = Some (inst\<lparr>mnemonic := mn, inst_length := of_nat i, operand_count := length os,
     operands := os @ drop (length os) (operands inst)\<rparr>)"
  by (simp add: finish_inst_def)

lemma move_local [local_intros]:
  assumes "i + 6 \<le> lim"
  shows "local_read next_inst inst_of i lim (\<lambda>bs. decode_modrm_move_or_lea bs opc rex mode i inst)"
  unfolding decode_modrm_move_or_lea_def decode_modrm_def Let_def prod.case using assms
  by (intro local_intros local_bind [where mid = lim]) auto

lemma binary_local [local_intros]:
  assumes "i + 6 \<le> lim"
  shows "local_read next_inst inst_of i lim (\<lambda>bs. decode_modrm_binary bs opc rex mode i inst)"
  unfolding decode_modrm_binary_def decode_modrm_def Let_def prod.case using assms
  by (intro local_intros local_bind [where mid = lim]) auto

lemma group1_value_local [local_intros]:
  "i + 4 \<le> lim \<Longrightarrow> local_read next_offset ok_of i lim (\<lambda>bs. decode_group1_value bs opc i)"
  unfolding decode_group1_value_def by (intro local_intros) auto

lemma group1_local [local_intros]:
  assumes "i + 10 \<le> lim"
  shows "local_read next_inst inst_of i lim (\<lambda>bs. decode_group1_imm bs opc rex mode i inst)"
  unfolding decode_group1_imm_def decode_modrm_def Let_def prod.case using assms
  by (intro local_intros local_bind [where mid = "i + 6"] local_bind [where mid = "lim"]) auto

lemma rel8_local [local_intros]:
  "i + 1 \<le> lim \<Longrightarrow> local_read next_inst inst_of i lim (\<lambda>bs. decode_rel8 bs mn i inst out)"
  unfolding decode_rel8_def by (intro local_intros) auto

lemma rel32_local [local_intros]:
  "i + 4 \<le> lim \<Longrightarrow> local_read next_inst inst_of i lim (\<lambda>bs. decode_rel32 bs mn i inst out)"
  unfolding decode_rel32_def by (intro local_intros) auto

lemma mov_imm_local [local_intros]:
  "i + 8 \<le> lim \<Longrightarrow> local_read next_inst inst_of i lim (\<lambda>bs. decode_mov_imm bs opc rex mode i inst out)"
  unfolding decode_mov_imm_def Let_def by (intro local_intros) auto

lemma opcode_local: "local_read next_inst inst_of i (i + 10) (\<lambda>bs. decode_opcode bs mode rex opc i out)"
  unfolding decode_opcode_def Let_def by (intro local_intros) auto

text \<open>The prefix loop: the opcode it stops at is behind prefixes only.\<close>

lemma prefixes_local:
  assumes "decode_prefixes bs mode rex i = Some (rex', opc, n)"
  shows "i \<le> n \<and> n < length bs \<and> bs ! n = opc \<and> (\<forall>j. i \<le> j \<and> j < n \<longrightarrow> mode = 64 \<and> bs ! j \<in> {0x40..0x4f}) \<and>
    (\<forall>bs' m. agree m bs bs' \<and> n < m \<longrightarrow> decode_prefixes bs' mode rex i = Some (rex', opc, n))"
  using assms
proof (induction bs mode rex i rule: decode_prefixes.induct)
  case (1 bs mode rex i)
  obtain op where op: "decode_read_u8 bs i = Some op" using 1(2) by (subst (asm) decode_prefixes.simps) (auto split: option.splits)
  then have i: "i < length bs" "bs ! i = op" by (auto simp: decode_read_u8_def split: if_splits)
  show ?case
  proof (cases "mode = 64 \<and> 0x40 \<le> op \<and> op \<le> 0x4f")
    case True
    then have "decode_prefixes bs mode op (i + 1) = Some (rex', opc, n)"
      using 1(2) op by (subst (asm) decode_prefixes.simps) simp
    note IH = 1(1) [OF op True this]
    have "decode_prefixes bs' mode rex i = Some (rex', opc, n)" if "agree m bs bs'" "n < m" for bs' m
      using IH that True read_u8_local(2) [OF op that(1)] by (subst decode_prefixes.simps) auto
    moreover have "mode = 64 \<and> bs ! j \<in> {0x40..0x4f}" if "i \<le> j" "j < n" for j
      using that IH i True by (cases "j = i") auto
    ultimately show ?thesis using IH by auto
  next
    case False
    then show ?thesis using 1(2) op i read_u8_local(2) [OF op]
      by (subst (asm) decode_prefixes.simps) (auto simp: decode_prefixes.simps)
  qed
qed


lemma inst_of_cong:
  "(c \<Longrightarrow> inst_of a = inst_of a') \<Longrightarrow> (\<not> c \<Longrightarrow> inst_of b = inst_of b') \<Longrightarrow>
    inst_of (if c then a else b) = inst_of (if c then a' else b')"
  "inst_of e = inst_of e' \<Longrightarrow> (\<And>x. inst_of (f x) = inst_of (f' x)) \<Longrightarrow>
    inst_of (case r of None \<Rightarrow> e | Some x \<Rightarrow> f x) = inst_of (case r of None \<Rightarrow> e' | Some x \<Rightarrow> f' x)"
  by (cases c; simp) (cases r; simp)

lemma success_ignores_out:
  "inst_of (decode_rel8 bs mn i inst out) = inst_of (decode_rel8 bs mn i inst out')"
  "inst_of (decode_rel32 bs mn i inst out) = inst_of (decode_rel32 bs mn i inst out')"
  "inst_of (decode_mov_imm bs opc rex mode i inst out) = inst_of (decode_mov_imm bs opc rex mode i inst out')"
  "inst_of (decode_opcode bs mode rex opc i out) = inst_of (decode_opcode bs mode rex opc i out')"
proof -
  show rel: "inst_of (decode_rel8 bs mn i inst out) = inst_of (decode_rel8 bs mn i inst out')"
    "inst_of (decode_rel32 bs mn i inst out) = inst_of (decode_rel32 bs mn i inst out')"
    for mn i inst
    by (simp_all add: decode_rel8_def decode_rel32_def split: option.split)
  show mv: "inst_of (decode_mov_imm bs opc rex mode i inst out) = inst_of (decode_mov_imm bs opc rex mode i inst out')"
    for inst
    by (simp add: decode_mov_imm_def Let_def split: option.split)
  show "inst_of (decode_opcode bs mode rex opc i out) = inst_of (decode_opcode bs mode rex opc i out')"
    unfolding decode_opcode_def Let_def by (intro inst_of_cong mv rel refl) simp
qed

text \<open>
  Decoding looks at the reported bytes only: a success uses at least one and at most eleven bytes after the
  prefixes, stays inside the input, and any input with the same bytes so far decodes in the same way.
\<close>

lemma decode_mode_local:
  assumes "xair_x86_decode_mode mode bs out = (XAIR_OK, inst)"
  obtains p n where "p < n" "n \<le> p + 11" "n \<le> length bs" "inst_length inst = of_nat n"
    "\<forall>j < p. mode = 64 \<and> bs ! j \<in> {0x40..0x4f}"
    "\<And>bs' out'. agree n bs bs' \<Longrightarrow> xair_x86_decode_mode mode bs' out' = (XAIR_OK, inst)"
proof -
  obtain rex opc p where p: "decode_prefixes bs mode 0 0 = Some (rex, opc, p)"
      and inst: "decode_opcode bs mode rex opc (p + 1) out = (XAIR_OK, inst)"
    using assms by (auto simp: xair_x86_decode_mode_def split: if_splits option.splits)
  note loc = prefixes_local [OF p]
  obtain n where n: "p + 1 \<le> n" "n \<le> p + 11" "n \<le> length bs" "inst_length inst = of_nat n"
      "\<forall>bs'. agree n bs bs' \<longrightarrow> inst_of (decode_opcode bs' mode rex opc (p + 1) out) = Some inst"
    using opcode_local [unfolded local_read_def, rule_format, of bs mode rex opc "p + 1" out inst] inst loc by auto
  have local: "xair_x86_decode_mode mode bs' out' = (XAIR_OK, inst)" if ag: "agree n bs bs'" for bs' out'
  proof -
    have "decode_prefixes bs' mode 0 0 = Some (rex, opc, p)" using loc ag n(1) by (metis Suc_eq_plus1 Suc_le_eq)
    moreover have "inst_of (decode_opcode bs' mode rex opc (p + 1) out') = Some inst"
      using n(5) ag success_ignores_out(4) by metis
    moreover have "bs' \<noteq> []" using ag n(1) by (auto simp: agree_def)
    ultimately show ?thesis by (simp add: xair_x86_decode_mode_def)
  qed
  show thesis by (rule that [of p n]) (use n loc local in auto)
qed

section \<open>Decoded instructions are well-formed\<close>

definition reg_ok :: "nat \<Rightarrow> xair_x86_reg \<Rightarrow> bool" where
  "reg_ok mode r \<longleftrightarrow> r < (if mode = 64 then XAIR_X86_REG_COUNT else XAIR_X86_R8)"

definition mem_ok :: "nat \<Rightarrow> xair_x86_memory_operand \<Rightarrow> bool" where
  "mem_ok mode m \<longleftrightarrow>
     (case mem_kind m of
        XAIR_X86_MEM_INVALID \<Rightarrow> False
      | XAIR_X86_MEM_RIP_REL \<Rightarrow> mode = 64
      | XAIR_X86_MEM_BASE_INDEX \<Rightarrow>
          (has_base m \<longrightarrow> reg_ok mode (base m)) \<and> (has_index m \<longrightarrow> reg_ok mode (index m) \<and> index m \<noteq> XAIR_X86_RSP) \<and>
          scale m \<in> {1, 2, 4, 8})"

fun operand_ok :: "nat \<Rightarrow> xair_x86_operand \<Rightarrow> bool" where
  "operand_ok mode XAIR_X86_OPERAND_UNUSED \<longleftrightarrow> False"
| "operand_ok mode (XAIR_X86_OPERAND_REGISTER b r) \<longleftrightarrow> b = mode \<and> reg_ok mode r"
| "operand_ok mode (XAIR_X86_OPERAND_MEMORY b m) \<longleftrightarrow> b = mode \<and> mem_ok mode m"
| "operand_ok mode (XAIR_X86_OPERAND_IMMEDIATE b v) \<longleftrightarrow> b \<in> {8, 32, mode}"

fun is_immediate :: "xair_x86_operand \<Rightarrow> bool" where
  "is_immediate (XAIR_X86_OPERAND_IMMEDIATE _ _) = True"
| "is_immediate _ = False"

fun is_memory :: "xair_x86_operand \<Rightarrow> bool" where
  "is_memory (XAIR_X86_OPERAND_MEMORY _ _) = True"
| "is_memory _ = False"

text \<open>The operands each mnemonic comes with.\<close>

definition operands_fit :: "xair_x86_mnemonic \<Rightarrow> xair_x86_operand list \<Rightarrow> bool" where
  "operands_fit mn os \<longleftrightarrow>
     (case mn of
        XAIR_X86_MNEMONIC_INVALID \<Rightarrow> False
      | XAIR_X86_MNEMONIC_NOP \<Rightarrow> os = []
      | XAIR_X86_MNEMONIC_RET \<Rightarrow> os = []
      | XAIR_X86_MNEMONIC_JMP \<Rightarrow> (\<exists>a. os = [a] \<and> is_immediate a)
      | XAIR_X86_MNEMONIC_JZ \<Rightarrow> (\<exists>a. os = [a] \<and> is_immediate a)
      | XAIR_X86_MNEMONIC_JNZ \<Rightarrow> (\<exists>a. os = [a] \<and> is_immediate a)
      | XAIR_X86_MNEMONIC_PUSH \<Rightarrow> (\<exists>a. os = [a] \<and> is_register a)
      | XAIR_X86_MNEMONIC_POP \<Rightarrow> (\<exists>a. os = [a] \<and> is_register a)
      | XAIR_X86_MNEMONIC_LEA \<Rightarrow> (\<exists>a b. os = [a, b] \<and> is_register a \<and> is_memory b)
      | XAIR_X86_MNEMONIC_MOV \<Rightarrow> (\<exists>a b. os = [a, b] \<and>
          (is_register a \<and> (is_register b \<or> is_memory b \<or> is_immediate b) \<or> is_memory a \<and> is_register b))
      | _ \<Rightarrow> (\<exists>a b. os = [a, b] \<and> is_register a \<and> (is_register b \<or> is_immediate b)))"

definition inst_ok :: "nat \<Rightarrow> xair_x86_decoded_inst \<Rightarrow> bool" where
  "inst_ok mode inst \<longleftrightarrow> length (operands inst) = 4 \<and> operand_count inst \<le> 2 \<and>
     list_all (operand_ok mode) (take (operand_count inst) (operands inst)) \<and>
     operands_fit (mnemonic inst) (take (operand_count inst) (operands inst))"

lemma and_7_less: "unat (x AND 7) < 8" for x :: u8
  using word_and_le1 [of x 7] by (simp add: word_le_nat_alt)

lemma reg_field_ok: "reg_ok mode (decode_reg (x AND 7) r mode)"
  using and_7_less [of x] by (auto simp: reg_ok_def decode_reg_def)

lemma opcode_reg_ok: "0xb8 \<le> opc \<Longrightarrow> opc \<le> 0xbf \<Longrightarrow> reg_ok mode (decode_reg (opc - 0xb8) r mode)"
  by (auto simp: reg_ok_def decode_reg_def unat_sub word_le_nat_alt)


text \<open>A SIB index field of 4 stands for no index unless REX.X selects register 12, so no index is \<open>RSP\<close>.\<close>

lemma unat_eq_4: "unat x = 4 \<longleftrightarrow> x = 4" for x :: u8
  using word_unat_eq_iff [of x 4] by simp

lemma sib_index_not_rsp:
  fixes x :: u8
  assumes "\<not> (x AND 7 = 4 \<and> r = 0)" "mode \<noteq> 64 \<Longrightarrow> r = 0"
  shows "decode_reg (x AND 7) r mode \<noteq> XAIR_X86_RSP"
proof -
  have "unat (x AND 7) \<noteq> 4" if "x AND 7 \<noteq> 4" using that by (auto simp flip: unat_eq_4)
  then show ?thesis using assms by (auto simp: decode_reg_def)
qed

lemma sib_scale: "push_bit (unat (drop_bit 6 sib)) 1 \<in> {1, 2, 4, 8 :: u8}" for sib :: u8
proof -
  have "unat (drop_bit 6 sib) < 4"
    using unsigned_less [of sib, where 'a = nat] by (simp add: unsigned_drop_bit_eq drop_bit_nat_def take_bit_nat_def)
  then have "unat (drop_bit 6 sib) \<in> {0, 1, 2, 3}" by auto
  then show ?thesis by auto
qed

text \<open>Outside 64-bit mode there is no REX prefix.\<close>

definition rex_ok :: "nat \<Rightarrow> u8 \<Rightarrow> bool" where
  "rex_ok mode rex \<longleftrightarrow> mode = 64 \<or> rex = 0"

lemma prefixes_rex_ok:
  "decode_prefixes bs mode rex i = Some (rex', opc, n) \<Longrightarrow> rex_ok mode rex \<Longrightarrow> rex_ok mode rex'"
proof (induction bs mode rex i rule: decode_prefixes.induct)
  case (1 bs mode rex i)
  then show ?case by (subst (asm) (2) decode_prefixes.simps) (auto simp: rex_ok_def split: option.splits if_splits)
qed

lemma sib_operand_ok:
  assumes "decode_sib_operand bs md rex mode mode i = Ok (n, a)" "rex_ok mode rex"
  shows "operand_ok mode a \<and> is_memory a"
proof -
  have ix: "decode_reg (drop_bit 3 sib AND 7) (rex AND 2) mode \<noteq> XAIR_X86_RSP"
    if "drop_bit 3 sib AND 7 = 4 \<longrightarrow> rex AND 2 \<noteq> 0" for sib
    using that assms(2) by (intro sib_index_not_rsp) (auto simp: rex_ok_def)
  show ?thesis using assms(1) sib_scale
    by (auto simp: decode_sib_operand_def Let_def decode_set_base_index_mem_def mem_ok_def reg_field_ok ix
        split: option.splits if_splits xres.splits)
qed

lemma memory_operand_ok:
  assumes "decode_memory_operand bs md (rm AND 7) rex mode mode i = Ok (n, a)" "rex_ok mode rex"
  shows "operand_ok mode a \<and> is_memory a"
  using assms sib_operand_ok [OF _ assms(2)]
  by (auto simp: decode_memory_operand_def decode_set_base_index_mem_def decode_set_rip_mem_def mem_ok_def reg_field_ok
      split: option.splits if_splits xres.splits)

lemma rm_operand_ok:
  assumes "decode_rm_operand bs md (rm AND 7) rex mode mode i = Ok (n, a)" "rex_ok mode rex"
  shows "operand_ok mode a \<and> (is_memory a \<or> is_register a)"
  using assms memory_operand_ok [OF _ assms(2)]
  by (auto simp: decode_rm_operand_def decode_set_reg_def reg_field_ok split: if_splits)

text \<open>What a success writes: a finished instruction with operands of the right form.\<close>

definition finishes_ok :: "nat \<Rightarrow> xair_x86_decoded_inst \<Rightarrow> xair_status \<times> xair_x86_decoded_inst \<Rightarrow> bool" where
  "finishes_ok mode inst r \<longleftrightarrow> fst r = XAIR_OK \<longrightarrow> (\<exists>mn os i. r = finish_inst mn os i inst \<and> length os \<le> 2 \<and>
     list_all (operand_ok mode) os \<and> operands_fit mn os)"

named_theorems finishes_intros "rules for well-formed successes"

lemma finishes_cases [finishes_intros]:
  "(c \<Longrightarrow> finishes_ok mode inst a) \<Longrightarrow> (\<not> c \<Longrightarrow> finishes_ok mode inst b) \<Longrightarrow> finishes_ok mode inst (if c then a else b)"
  "finishes_ok mode inst e \<Longrightarrow> (\<And>x. v = Some x \<Longrightarrow> finishes_ok mode inst (f x)) \<Longrightarrow>
     finishes_ok mode inst (case v of None \<Rightarrow> e | Some x \<Rightarrow> f x)"
  "(\<And>e. finishes_ok mode inst (err e)) \<Longrightarrow> (\<And>n y. w = Ok (n, y) \<Longrightarrow> finishes_ok mode inst (g n y)) \<Longrightarrow>
     finishes_ok mode inst (case w of Err e \<Rightarrow> err e | Ok (n, y) \<Rightarrow> g n y)"
  by (simp_all split: option.split xres.split prod.split)

lemma finishes_leaves [finishes_intros]:
  "finishes_ok mode inst (decode_unsupported opc opc2 inst0)"
  "finishes_ok mode inst (XAIR_ERR_RANGE, inst0)"
  "length os \<le> 2 \<and> list_all (operand_ok mode) os \<and> operands_fit mn os \<Longrightarrow> finishes_ok mode inst (finish_inst mn os i inst)"
  by (auto simp: finishes_ok_def decode_unsupported_def)

lemma finishes_inst_ok:
  assumes "finishes_ok mode inst (XAIR_OK, inst')" "length (operands inst) = 4"
  shows "inst_ok mode inst'"
  using assms by (auto simp: finishes_ok_def finish_inst_def inst_ok_def)

lemma move_finishes_ok [finishes_intros]:
  assumes "rex_ok mode rex"
  shows "finishes_ok mode inst (decode_modrm_move_or_lea bs opc rex mode i inst)"
  unfolding decode_modrm_move_or_lea_def Let_def decode_modrm_def decode_set_reg_def prod.case
  by (intro finishes_intros)
    (auto simp: operands_fit_def reg_field_ok dest: memory_operand_ok [OF _ assms] rm_operand_ok [OF _ assms])

lemma alu_operands_fit:
  "decode_binary_mnemonic opc \<noteq> XAIR_X86_MNEMONIC_INVALID \<Longrightarrow> is_register a \<Longrightarrow> is_register b \<Longrightarrow>
     operands_fit (decode_binary_mnemonic opc) [a, b]"
  "decode_group1_mnemonic g \<noteq> XAIR_X86_MNEMONIC_INVALID \<Longrightarrow> is_register a \<Longrightarrow> is_immediate b \<Longrightarrow>
     operands_fit (decode_group1_mnemonic g) [a, b]"
  by (auto simp: decode_binary_mnemonic_def decode_group1_mnemonic_def operands_fit_def split: if_splits)

lemma binary_finishes_ok [finishes_intros]:
  assumes "rex_ok mode rex"
  shows "finishes_ok mode inst (decode_modrm_binary bs opc rex mode i inst)"
  unfolding decode_modrm_binary_def Let_def decode_modrm_def decode_set_reg_def prod.case
  by (intro finishes_intros) (auto simp: reg_field_ok intro!: alu_operands_fit dest: rm_operand_ok [OF _ assms])

lemma group1_finishes_ok [finishes_intros]:
  assumes "rex_ok mode rex"
  shows "finishes_ok mode inst (decode_group1_imm bs opc rex mode i inst)"
  unfolding decode_group1_imm_def Let_def decode_modrm_def decode_set_imm_def prod.case
  by (intro finishes_intros) (auto intro!: alu_operands_fit dest: rm_operand_ok [OF _ assms])

lemma rel_finishes_ok [finishes_intros]:
  assumes "mn \<in> {XAIR_X86_MNEMONIC_JMP, XAIR_X86_MNEMONIC_JZ, XAIR_X86_MNEMONIC_JNZ}"
  shows "finishes_ok mode inst (decode_rel8 bs mn i inst out)" "finishes_ok mode inst (decode_rel32 bs mn i inst out)"
  unfolding decode_rel8_def decode_rel32_def decode_set_imm_def using assms
  by (intro finishes_intros; auto simp: operands_fit_def)+

lemma mov_imm_finishes_ok [finishes_intros]:
  assumes "0xb8 \<le> opc \<and> opc \<le> 0xbf"
  shows "finishes_ok mode inst (decode_mov_imm bs opc rex mode i inst out)"
  unfolding decode_mov_imm_def decode_set_imm_def decode_set_reg_def Let_def using assms
  by (intro finishes_intros) (auto simp: operands_fit_def opcode_reg_ok)

text \<open>Every successfully decoded instruction is well-formed for its mode.\<close>

lemma opcode_inst_ok:
  assumes "decode_opcode bs mode rex opc i out = (XAIR_OK, inst)" "rex_ok mode rex"
  shows "inst_ok mode inst"
proof (cases "opc = 0x0f")
  case True
  then have "decode_opcode bs mode rex opc i out = (case decode_read_u8 bs i of None \<Rightarrow> (XAIR_ERR_RANGE, out)
      | Some opc2 \<Rightarrow> if opc2 \<in> {0x84, 0x85}
          then decode_rel32 bs (if opc2 = 0x84 then XAIR_X86_MNEMONIC_JZ else XAIR_X86_MNEMONIC_JNZ) (i + 1)
            (zero_inst\<lparr>raw_opcode := opc, raw_opcode2 := opc2\<rparr>) out
          else decode_unsupported opc opc2 (zero_inst\<lparr>raw_opcode := opc, raw_opcode2 := opc2\<rparr>))"
    by (simp add: decode_opcode_def Let_def split: option.split)
  with assms(1) obtain mn opc2 where mn: "mn \<in> {XAIR_X86_MNEMONIC_JMP, XAIR_X86_MNEMONIC_JZ, XAIR_X86_MNEMONIC_JNZ}"
      "decode_rel32 bs mn (i + 1) (zero_inst\<lparr>raw_opcode := opc, raw_opcode2 := opc2\<rparr>) out = (XAIR_OK, inst)"
    by (auto simp: decode_unsupported_def split: option.splits if_splits)
  then have "finishes_ok mode (zero_inst\<lparr>raw_opcode := opc, raw_opcode2 := opc2\<rparr>) (XAIR_OK, inst)"
    using rel_finishes_ok(2) by metis
  then show ?thesis by (rule finishes_inst_ok) (simp add: zero_inst_def)
next
  case False
  then have "finishes_ok mode (zero_inst\<lparr>raw_opcode := opc\<rparr>) (decode_opcode bs mode rex opc i out)"
    unfolding decode_opcode_def Let_def decode_set_reg_def using assms(2)
    by (intro finishes_intros) (auto simp: operands_fit_def reg_field_ok)
  then show ?thesis unfolding assms(1) by (rule finishes_inst_ok) (simp add: zero_inst_def)
qed

lemma decode_mode_inst_ok:
  "xair_x86_decode_mode mode bs out = (XAIR_OK, inst) \<Longrightarrow> inst_ok mode inst"
  by (auto simp: xair_x86_decode_mode_def rex_ok_def split: if_splits option.splits
      dest!: opcode_inst_ok prefixes_rex_ok)

text \<open>The length of an instruction is a byte, and prefixes count.\<close>

lemma rex_prefixes: "i \<le> n \<Longrightarrow> \<exists>r'. decode_prefixes (replicate n 0x40 @ [0x90]) 64 r i = Some (r', 0x90, n)"
proof (induction "n - i" arbitrary: r i)
  case 0
  then show ?case by (subst decode_prefixes.simps) (simp add: decode_read_u8_def nth_append)
next
  case (Suc k)
  then have "decode_read_u8 (replicate n 0x40 @ [0x90]) i = Some 0x40" by (simp add: decode_read_u8_def nth_append)
  with Suc.hyps(1) [of "i + 1" "0x40"] Suc.hyps(2) show ?case by (subst decode_prefixes.simps) simp
qed

lemma decode_rex_nop:
  "\<exists>inst. xair_x86_decode64 (replicate n 0x40 @ [0x90]) out = (XAIR_OK, inst) \<and>
    mnemonic inst = XAIR_X86_MNEMONIC_NOP \<and> unat (inst_length inst) = (n + 1) mod 256"
proof -
  obtain r where "decode_prefixes (replicate n 0x40 @ [0x90]) 64 0 0 = Some (r, 0x90, n)" using rex_prefixes by blast
  then show ?thesis
    by (simp add: xair_x86_decode64_def xair_x86_decode_mode_def decode_opcode_def finish_inst_def Let_def unat_of_nat
        del: of_nat_Suc of_nat_add)
qed

end
