(* ===== verification/Xair_Encode.thy ===== *)
theory Xair_Encode
  imports Xair_Decode
begin

text \<open>
  A reference encoder for the 64-bit subset the decoder supports, written from the instruction formats (REX prefix,
  opcode, ModRM, SIB, little-endian displacement and immediate), and the round trip: the decoder reads back every
  instruction the encoder writes, with its length, whatever bytes follow. The encoder is a specification, it has no
  counterpart in the code.
\<close>

section \<open>The encoder\<close>

datatype alu = Alu_add | Alu_or | Alu_and | Alu_sub | Alu_xor | Alu_cmp

text \<open>A memory operand with base, optional scaled index and 32-bit displacement; the scale is given by its exponent.\<close>

record address =
  a_base :: xair_x86_reg
  a_index :: "(xair_x86_reg \<times> nat) option"
  a_disp :: u32

datatype asm =
    Mov_reg_imm xair_x86_reg u64
  | Mov_reg_reg xair_x86_reg xair_x86_reg
  | Mov_load xair_x86_reg address
  | Mov_store address xair_x86_reg
  | Lea xair_x86_reg address
  | Alu_reg_reg alu xair_x86_reg xair_x86_reg
  | Alu_reg_imm alu xair_x86_reg u32
  | Push xair_x86_reg
  | Pop xair_x86_reg
  | Jmp u32
  | Jz u32
  | Jnz u32
  | Nop
  | Ret

definition le32 :: "u32 \<Rightarrow> u8 list" where
  "le32 v = [ucast v, ucast (drop_bit 8 v), ucast (drop_bit 16 v), ucast (drop_bit 24 v)]"

definition le64 :: "u64 \<Rightarrow> u8 list" where
  "le64 v = le32 (ucast v) @ le32 (ucast (drop_bit 32 v))"

text \<open>REX.W with the high bits of the register, index and base fields.\<close>

definition rex_w :: "xair_x86_reg \<Rightarrow> xair_x86_reg \<Rightarrow> xair_x86_reg \<Rightarrow> u8" where
  "rex_w r x b = of_nat (0x48 + 4 * (r div 8) + 2 * (x div 8) + b div 8)"

definition fields :: "nat \<Rightarrow> nat \<Rightarrow> nat \<Rightarrow> u8" where
  "fields hi mid lo = of_nat (64 * hi + 8 * (mid mod 8) + lo mod 8)"

definition index_reg :: "address \<Rightarrow> xair_x86_reg" where
  "index_reg a = (case a_index a of None \<Rightarrow> 4 | Some (x, s) \<Rightarrow> x)"

definition index_exp :: "address \<Rightarrow> nat" where
  "index_exp a = (case a_index a of None \<Rightarrow> 0 | Some (x, s) \<Rightarrow> s)"

text \<open>Memory operands are always written with a SIB byte and a four-byte displacement.\<close>

definition encode_mem :: "u8 \<Rightarrow> xair_x86_reg \<Rightarrow> address \<Rightarrow> u8 list" where
  "encode_mem opc r a = [rex_w r (index_reg a) (a_base a), opc, fields 2 r 4,
     fields (index_exp a) (index_reg a) (a_base a)] @ le32 (a_disp a)"

fun alu_code :: "alu \<Rightarrow> nat" where
  "alu_code Alu_add = 0"
| "alu_code Alu_or = 1"
| "alu_code Alu_and = 4"
| "alu_code Alu_sub = 5"
| "alu_code Alu_xor = 6"
| "alu_code Alu_cmp = 7"

fun encode :: "asm \<Rightarrow> u8 list" where
  "encode (Mov_reg_imm r v) = [rex_w 0 0 r, 0xb8 + of_nat (r mod 8)] @ le64 v"
| "encode (Mov_reg_reg d s) = [rex_w s 0 d, 0x89, fields 3 s d]"
| "encode (Mov_load d a) = encode_mem 0x8b d a"
| "encode (Mov_store a s) = encode_mem 0x89 s a"
| "encode (Lea d a) = encode_mem 0x8d d a"
| "encode (Alu_reg_reg f d s) = [rex_w d 0 s, of_nat (8 * alu_code f + 3), fields 3 d s]"
| "encode (Alu_reg_imm f d v) = [rex_w 0 0 d, 0x81, fields 3 (alu_code f) d] @ le32 v"
| "encode (Push r) = [rex_w 0 0 r, 0x50 + of_nat (r mod 8)]"
| "encode (Pop r) = [rex_w 0 0 r, 0x58 + of_nat (r mod 8)]"
| "encode (Jmp v) = 0xe9 # le32 v"
| "encode (Jz v) = [0x0f, 0x84] @ le32 v"
| "encode (Jnz v) = [0x0f, 0x85] @ le32 v"
| "encode Nop = [0x90]"
| "encode Ret = [0xc3]"

section \<open>What the decoder should report\<close>

fun alu_mnemonic :: "alu \<Rightarrow> xair_x86_mnemonic" where
  "alu_mnemonic Alu_add = XAIR_X86_MNEMONIC_ADD"
| "alu_mnemonic Alu_or = XAIR_X86_MNEMONIC_OR"
| "alu_mnemonic Alu_and = XAIR_X86_MNEMONIC_AND"
| "alu_mnemonic Alu_sub = XAIR_X86_MNEMONIC_SUB"
| "alu_mnemonic Alu_xor = XAIR_X86_MNEMONIC_XOR"
| "alu_mnemonic Alu_cmp = XAIR_X86_MNEMONIC_CMP"

definition mem_operand :: "address \<Rightarrow> xair_x86_operand" where
  "mem_operand a = XAIR_X86_OPERAND_MEMORY 64
     \<lparr>mem_kind = XAIR_X86_MEM_BASE_INDEX, base = a_base a,
      index = (case a_index a of None \<Rightarrow> XAIR_X86_REG_COUNT | Some (x, s) \<Rightarrow> x),
      scale = (case a_index a of None \<Rightarrow> 1 | Some (x, s) \<Rightarrow> 2 ^ s), has_base = True,
      has_index = (a_index a \<noteq> None), displacement = scast (a_disp a)\<rparr>"

abbreviation reg64 :: "xair_x86_reg \<Rightarrow> xair_x86_operand" where
  "reg64 r \<equiv> XAIR_X86_OPERAND_REGISTER 64 r"

fun meaning :: "asm \<Rightarrow> xair_x86_mnemonic \<times> xair_x86_operand list" where
  "meaning (Mov_reg_imm r v) = (XAIR_X86_MNEMONIC_MOV, [reg64 r, XAIR_X86_OPERAND_IMMEDIATE 64 v])"
| "meaning (Mov_reg_reg d s) = (XAIR_X86_MNEMONIC_MOV, [reg64 d, reg64 s])"
| "meaning (Mov_load d a) = (XAIR_X86_MNEMONIC_MOV, [reg64 d, mem_operand a])"
| "meaning (Mov_store a s) = (XAIR_X86_MNEMONIC_MOV, [mem_operand a, reg64 s])"
| "meaning (Lea d a) = (XAIR_X86_MNEMONIC_LEA, [reg64 d, mem_operand a])"
| "meaning (Alu_reg_reg f d s) = (alu_mnemonic f, [reg64 d, reg64 s])"
| "meaning (Alu_reg_imm f d v) = (alu_mnemonic f, [reg64 d, XAIR_X86_OPERAND_IMMEDIATE 32 (scast v)])"
| "meaning (Push r) = (XAIR_X86_MNEMONIC_PUSH, [reg64 r])"
| "meaning (Pop r) = (XAIR_X86_MNEMONIC_POP, [reg64 r])"
| "meaning (Jmp v) = (XAIR_X86_MNEMONIC_JMP, [XAIR_X86_OPERAND_IMMEDIATE 32 (scast v)])"
| "meaning (Jz v) = (XAIR_X86_MNEMONIC_JZ, [XAIR_X86_OPERAND_IMMEDIATE 32 (scast v)])"
| "meaning (Jnz v) = (XAIR_X86_MNEMONIC_JNZ, [XAIR_X86_OPERAND_IMMEDIATE 32 (scast v)])"
| "meaning Nop = (XAIR_X86_MNEMONIC_NOP, [])"
| "meaning Ret = (XAIR_X86_MNEMONIC_RET, [])"

text \<open>Registers exist, an index is not \<open>RSP\<close>, a scale is 1, 2, 4 or 8.\<close>

definition address_ok :: "address \<Rightarrow> bool" where
  "address_ok a \<longleftrightarrow> a_base a < 16 \<and>
     (case a_index a of None \<Rightarrow> True | Some (x, s) \<Rightarrow> x < 16 \<and> x \<noteq> XAIR_X86_RSP \<and> s < 4)"

fun asm_ok :: "asm \<Rightarrow> bool" where
  "asm_ok (Mov_reg_imm r v) = (r < 16)"
| "asm_ok (Mov_reg_reg d s) = (d < 16 \<and> s < 16)"
| "asm_ok (Mov_load d a) = (d < 16 \<and> address_ok a)"
| "asm_ok (Mov_store a s) = (s < 16 \<and> address_ok a)"
| "asm_ok (Lea d a) = (d < 16 \<and> address_ok a)"
| "asm_ok (Alu_reg_reg f d s) = (d < 16 \<and> s < 16)"
| "asm_ok (Alu_reg_imm f d v) = (d < 16)"
| "asm_ok (Push r) = (r < 16)"
| "asm_ok (Pop r) = (r < 16)"
| "asm_ok _ = True"

section \<open>Bytes and fields\<close>

lemma bytes_of_u32:
  "ucast (ucast v :: u8) OR push_bit 8 (ucast (ucast (drop_bit 8 v) :: u8)) OR
   push_bit 16 (ucast (ucast (drop_bit 16 v) :: u8)) OR push_bit 24 (ucast (ucast (drop_bit 24 v) :: u8)) = v" for v :: u32
proof (rule bit_word_eqI, goal_cases)
  case (1 n)
  then consider "n < 8" | "8 \<le> n \<and> n < 16" | "16 \<le> n \<and> n < 24" | "24 \<le> n \<and> n < 32" by fastforce
  then show ?case by cases (auto simp: bit_simps)
qed

lemma halves_of_u64: "ucast (ucast v :: u32) OR push_bit 32 (ucast (ucast (drop_bit 32 v) :: u32)) = v" for v :: u64
  by (rule bit_word_eqI) (auto simp: bit_simps)

lemma read_le32: "decode_read_le32 (pre @ le32 v @ rest) (length pre) = Some v"
  by (simp add: decode_read_le32_def le32_def nth_append bytes_of_u32)

lemma length_le [simp]: "length (le32 v) = 4" "length (le64 w) = 8"
  by (simp_all add: le32_def le64_def)

lemma read_le64: "decode_read_le64 (pre @ le64 v @ rest) (length pre) = Some v"
  using read_le32 [of pre "ucast v" "le32 (ucast (drop_bit 32 v)) @ rest"]
    read_le32 [of "pre @ le32 (ucast v)" "ucast (drop_bit 32 v)" rest] halves_of_u64 [of v]
  by (simp add: decode_read_le64_def le64_def)

lemma read_le32_at: "length pre = i \<Longrightarrow> decode_read_le32 (pre @ le32 v @ rest) i = Some v"
  using read_le32 by blast

lemma read_le64_at: "length pre = i \<Longrightarrow> decode_read_le64 (pre @ le64 v @ rest) i = Some v"
  using read_le64 by blast

lemma fields_decode:
  assumes "hi < 4"
  shows "decode_modrm (fields hi mid lo) = (of_nat hi, of_nat (mid mod 8), of_nat (lo mod 8))"
proof -
  have all: "\<forall>h \<in> set [0..<4]. \<forall>m \<in> set [0..<8]. \<forall>l \<in> set [0..<8].
      decode_modrm (of_nat (64 * h + 8 * m + l)) = (of_nat h, of_nat m, of_nat l)"
    by code_simp
  show ?thesis unfolding fields_def by (rule all [rule_format]) (use assms in auto)
qed


lemma rex_w_bits:
  assumes "r < 16" "x < 16" "b < 16"
  shows "0x40 \<le> rex_w r x b" "rex_w r x b \<le> 0x4f" "rex_w r x b AND 8 \<noteq> 0" "rex_w r x b AND 4 = 0 \<longleftrightarrow> r < 8"
    "rex_w r x b AND 2 = 0 \<longleftrightarrow> x < 8" "rex_w r x b AND 1 = 0 \<longleftrightarrow> b < 8"
proof -
  have "r div 8 = 0 \<or> r div 8 = 1" "x div 8 = 0 \<or> x div 8 = 1" "b div 8 = 0 \<or> b div 8 = 1" using assms by linarith+
  moreover have "r < 8 \<longleftrightarrow> r div 8 = 0" "x < 8 \<longleftrightarrow> x div 8 = 0" "b < 8 \<longleftrightarrow> b div 8 = 0" by auto
  ultimately show "0x40 \<le> rex_w r x b" "rex_w r x b \<le> 0x4f" "rex_w r x b AND 8 \<noteq> 0" "rex_w r x b AND 4 = 0 \<longleftrightarrow> r < 8"
    "rex_w r x b AND 2 = 0 \<longleftrightarrow> x < 8" "rex_w r x b AND 1 = 0 \<longleftrightarrow> b < 8"
    unfolding rex_w_def by (elim disjE; simp)+
qed

lemma decode_reg_field:
  assumes "r < 16" "(e = 0) = (r < 8)"
  shows "decode_reg (of_nat (r mod 8)) e 64 = r"
proof -
  have "unat (of_nat (r mod 8) :: u8) = r mod 8" by (simp add: unat_of_nat)
  moreover have "r mod 8 + 8 = r" if "\<not> r < 8" using that assms(1) by (simp add: le_mod_geq)
  ultimately show ?thesis using assms by (auto simp: decode_reg_def)
qed

text \<open>One REX prefix, then an opcode.\<close>

lemma decode_after_rex:
  assumes "0x40 \<le> p" "p \<le> 0x4f" "\<not> (0x40 \<le> opc \<and> opc \<le> 0x4f)"
  shows "xair_x86_decode64 (p # opc # ts) out = decode_opcode (p # opc # ts) 64 p opc 2 out"
proof -
  have "decode_prefixes (p # opc # ts) 64 0 0 = decode_prefixes (p # opc # ts) 64 p 1"
    using assms by (subst decode_prefixes.simps) (simp add: decode_read_u8_def)
  also have "\<dots> = Some (p, opc, 1)"
    using assms by (subst decode_prefixes.simps) (auto simp: decode_read_u8_def)
  finally show ?thesis by (simp add: xair_x86_decode64_def xair_x86_decode_mode_def numeral_2_eq_2)
qed

lemma decode_no_rex:
  assumes "\<not> (0x40 \<le> opc \<and> opc \<le> 0x4f)"
  shows "xair_x86_decode64 (opc # ts) out = decode_opcode (opc # ts) 64 0 opc 1 out"
proof -
  have "decode_prefixes (opc # ts) 64 0 0 = Some (0, opc, 0)"
    using assms by (subst decode_prefixes.simps) (auto simp: decode_read_u8_def)
  then show ?thesis by (simp add: xair_x86_decode64_def xair_x86_decode_mode_def)
qed

section \<open>The round trip\<close>

definition reads_back :: "asm \<Rightarrow> u8 list \<Rightarrow> bool" where
  "reads_back i rest \<longleftrightarrow> (\<forall>out. \<exists>inst. xair_x86_decode64 (encode i @ rest) out =
     finish_inst (fst (meaning i)) (snd (meaning i)) (length (encode i)) inst)"

lemmas set_defs = decode_set_reg_def decode_set_imm_def

lemma fields_parts:
  assumes "hi < 4"
  shows "drop_bit 6 (fields hi mid lo) = of_nat hi" "drop_bit 3 (fields hi mid lo) AND 7 = of_nat (mid mod 8)"
    "fields hi mid lo AND 7 = of_nat (lo mod 8)"
  using fields_decode [OF assms, of mid lo] by (simp_all add: decode_modrm_def)

lemma mod_8_eq_4: "(of_nat (x mod 8) :: u8) = 4 \<longleftrightarrow> x mod 8 = 4"
proof -
  have "unat (of_nat (x mod 8) :: u8) = x mod 8" by (simp add: unat_of_nat)
  then show ?thesis using unat_eq_4 [of "of_nat (x mod 8)"] by simp
qed

lemma index_decode:
  assumes "address_ok a"
  shows "index_reg a < 16" "index_exp a < 4"
    "\<not> ((of_nat (index_reg a mod 8) :: u8) = 4 \<and> index_reg a < 8) \<longleftrightarrow> a_index a \<noteq> None"
  using assms by (auto simp: address_ok_def index_reg_def index_exp_def mod_8_eq_4 split: option.splits)

lemma sib_scale_exp: "e < 4 \<Longrightarrow> push_bit (unat (of_nat e :: u8)) 1 = (2 ^ e :: u8) \<and> (2 ^ e :: u8) \<noteq> 0"
proof -
  assume "e < 4"
  then have "e = 0 \<or> e = 1 \<or> e = 2 \<or> e = 3" by linarith
  then show ?thesis by (elim disjE) simp_all
qed

lemma mem_operand_sib:
  assumes a: "address_ok a" and r: "r < 16"
  shows "decode_memory_operand (rex_w r (index_reg a) (a_base a) # opc # fields 2 r 4 #
      fields (index_exp a) (index_reg a) (a_base a) # le32 (a_disp a) @ rest) 2 4
      (rex_w r (index_reg a) (a_base a)) 64 64 3 = Ok (8, mem_operand a)"
    (is "decode_memory_operand ?bs _ _ ?rex _ _ _ = _")
proof -
  note ix = index_decode [OF a]
  have b: "a_base a < 16" using a by (simp add: address_ok_def)
  note rex = rex_w_bits [OF r ix(1) b]
  have sib: "decode_read_u8 ?bs 3 = Some (fields (index_exp a) (index_reg a) (a_base a))"
    by (simp add: decode_read_u8_def)
  have disp: "decode_displacement ?bs 2 4 = Ok (8, scast (a_disp a))"
    using read_le32_at [of "take 4 ?bs" 4 "a_disp a" rest] by (simp add: decode_displacement_def decode_sign_extend32_def)
  have base: "decode_reg (of_nat (a_base a mod 8)) (?rex AND 1) 64 = a_base a"
    by (rule decode_reg_field [OF b rex(6)])
  have index: "decode_reg (of_nat (index_reg a mod 8)) (?rex AND 2) 64 = index_reg a"
    by (rule decode_reg_field [OF ix(1) rex(5)])
  have "decode_sib_operand ?bs 2 ?rex 64 64 3 = Ok (8, decode_set_base_index_mem True (a_base a) (a_index a \<noteq> None)
      (if a_index a \<noteq> None then index_reg a else XAIR_X86_REG_COUNT) (2 ^ index_exp a) 64 (scast (a_disp a)))"
    using sib_scale_exp [OF ix(2)] ix(3)
    by (simp add: decode_sib_operand_def sib fields_parts [OF ix(2)] Let_def base index disp rex(5))
  also have "\<dots> = Ok (8, mem_operand a)"
    using sib_scale_exp [OF ix(2)]
    by (auto simp: decode_set_base_index_mem_def mem_operand_def index_reg_def index_exp_def split: option.splits)
  finally show ?thesis by (simp add: decode_memory_operand_def)
qed

lemma reads_back_mem:
  assumes "asm_ok i" "i = Mov_load d a \<or> i = Mov_store a d \<or> i = Lea d a"
  shows "reads_back i rest"
proof -
  define opc :: u8 where "opc = (case i of Mov_load _ _ \<Rightarrow> 0x8b | Mov_store _ _ \<Rightarrow> 0x89 | _ \<Rightarrow> 0x8d)"
  have a: "address_ok a" "d < 16" "a_base a < 16" using assms by (auto simp: address_ok_def)
  note rex = rex_w_bits [OF a(2) index_decode(1) [OF a(1)] a(3)]
  have enc: "encode i = encode_mem opc d a" and opc: "opc \<in> {0x8b, 0x89, 0x8d}"
    using assms(2) by (auto simp: opc_def)
  have reg: "decode_reg (of_nat (d mod 8)) (rex_w d (index_reg a) (a_base a) AND 4) 64 = d"
    by (rule decode_reg_field [OF a(2) rex(4)])
  have rm: "decode_modrm (fields 2 d 4) = (2, of_nat (d mod 8), 4)" by (simp add: fields_decode)
  show ?thesis unfolding reads_back_def enc encode_mem_def
  proof
    fix out
    show "\<exists>inst. xair_x86_decode64 (([rex_w d (index_reg a) (a_base a), opc, fields 2 d 4,
        fields (index_exp a) (index_reg a) (a_base a)] @ le32 (a_disp a)) @ rest) out =
      finish_inst (fst (meaning i)) (snd (meaning i)) (length ([rex_w d (index_reg a) (a_base a), opc, fields 2 d 4,
        fields (index_exp a) (index_reg a) (a_base a)] @ le32 (a_disp a))) inst"
      using assms(2) opc rex(1-3)
      by (auto simp: decode_after_rex decode_opcode_def Let_def decode_modrm_move_or_lea_def decode_read_u8_def rm reg
          mem_operand_sib [OF a(1,2)] decode_rm_operand_def decode_set_reg_def opc_def)
  qed
qed

lemma opcode_with_reg:
  assumes "m < 8"
  shows "0xb8 \<le> (0xb8 + of_nat m :: u8)" "(0xb8 + of_nat m :: u8) \<le> 0xbf"
    "0x50 \<le> (0x50 + of_nat m :: u8)" "(0x50 + of_nat m :: u8) \<le> 0x57" "(0x50 + of_nat m :: u8) AND 7 = of_nat m"
    "0x58 \<le> (0x58 + of_nat m :: u8)" "(0x58 + of_nat m :: u8) \<le> 0x5f" "(0x58 + of_nat m :: u8) AND 7 = of_nat m"
proof -
  have "m = 0 \<or> m = 1 \<or> m = 2 \<or> m = 3 \<or> m = 4 \<or> m = 5 \<or> m = 6 \<or> m = 7" using assms by linarith
  then show "0xb8 \<le> (0xb8 + of_nat m :: u8)" "(0xb8 + of_nat m :: u8) \<le> 0xbf"
    "0x50 \<le> (0x50 + of_nat m :: u8)" "(0x50 + of_nat m :: u8) \<le> 0x57" "(0x50 + of_nat m :: u8) AND 7 = of_nat m"
    "0x58 \<le> (0x58 + of_nat m :: u8)" "(0x58 + of_nat m :: u8) \<le> 0x5f" "(0x58 + of_nat m :: u8) AND 7 = of_nat m"
    by (elim disjE; simp)+
qed

lemma reads_back_mov_imm:
  assumes "r < 16"
  shows "reads_back (Mov_reg_imm r v) rest"
proof -
  note rex = rex_w_bits [of 0 0 r, OF _ _ assms, simplified]
  define opc :: u8 where "opc = 0xb8 + of_nat (r mod 8)"
  have opc: "0xb8 \<le> opc" "opc \<le> 0xbf" "opc - 0xb8 = of_nat (r mod 8)"
    using opcode_with_reg(1,2) [of "r mod 8"] by (simp_all add: opc_def)
  then have "\<not> opc \<le> 0x4f" by (auto simp: word_le_nat_alt)
  moreover have "decode_read_le64 (rex_w 0 0 r # opc # le64 v @ rest) 2 = Some v"
    using read_le64_at [of "[rex_w 0 0 r, opc]" 2 v rest] by simp
  ultimately show ?thesis
    using opc rex decode_reg_field [OF assms rex(6)]
    by (simp add: reads_back_def opc_def [symmetric] decode_after_rex decode_opcode_def Let_def decode_mov_imm_def set_defs)
      blast
qed

lemma reads_back_push_pop:
  assumes "r < 16"
  shows "reads_back (Push r) rest" "reads_back (Pop r) rest"
proof -
  note rex = rex_w_bits [of 0 0 r, OF _ _ assms, simplified]
  have reg: "decode_reg (of_nat (r mod 8)) (rex_w 0 0 r AND 1) 64 = r" by (rule decode_reg_field [OF assms rex(6)])
  have m: "r mod 8 < 8" by simp
  show "reads_back (Push r) rest"
  proof -
    define opc :: u8 where "opc = 0x50 + of_nat (r mod 8)"
    have opc: "0x50 \<le> opc" "opc \<le> 0x57" "opc AND 7 = of_nat (r mod 8)"
      using opcode_with_reg(3-5) [OF m] by (simp_all add: opc_def)
    then have "\<not> opc \<le> 0x4f" "\<not> 0xb8 \<le> opc" "opc < 0x58" by (auto simp: word_le_nat_alt word_less_nat_alt)
    then show ?thesis using opc rex reg
      by (simp add: reads_back_def opc_def [symmetric] decode_after_rex decode_opcode_def Let_def set_defs numeral_2_eq_2)
        blast
  qed
  show "reads_back (Pop r) rest"
  proof -
    define opc :: u8 where "opc = 0x58 + of_nat (r mod 8)"
    have opc: "0x58 \<le> opc" "opc \<le> 0x5f" "opc AND 7 = of_nat (r mod 8)"
      using opcode_with_reg(6-8) [OF m] by (simp_all add: opc_def)
    then have "\<not> opc \<le> 0x4f" "\<not> 0xb8 \<le> opc" "\<not> opc < 0x58" by (auto simp: word_le_nat_alt word_less_nat_alt)
    then show ?thesis using opc rex reg
      by (simp add: reads_back_def opc_def [symmetric] decode_after_rex decode_opcode_def Let_def set_defs numeral_2_eq_2)
        blast
  qed
qed

lemma reads_back_branches:
  "reads_back (Jmp v) rest" "reads_back (Jz v) rest" "reads_back (Jnz v) rest" "reads_back Nop rest" "reads_back Ret rest"
  using read_le32_at [of "[0xe9]" 1 v rest] read_le32_at [of "[0x0f, 0x84]" "Suc (Suc 0)" v rest]
    read_le32_at [of "[0x0f, 0x85]" "Suc (Suc 0)" v rest]
  by (auto simp: reads_back_def decode_no_rex decode_opcode_def Let_def decode_rel32_def decode_read_u8_def
      decode_sign_extend32_def set_defs)

lemma reads_back_mov_reg:
  assumes "d < 16" "s < 16"
  shows "reads_back (Mov_reg_reg d s) rest"
proof -
  note rex = rex_w_bits [of s 0 d, OF assms(2) _ assms(1), simplified]
  have rm: "decode_modrm (fields 3 s d) = (3, of_nat (s mod 8), of_nat (d mod 8))" by (simp add: fields_decode)
  show ?thesis
    using rex decode_reg_field [OF assms(1) rex(6)] decode_reg_field [OF assms(2) rex(4)]
    by (simp add: reads_back_def decode_after_rex decode_opcode_def Let_def decode_modrm_move_or_lea_def decode_read_u8_def
        rm decode_rm_operand_def set_defs numeral_2_eq_2 [symmetric]) blast
qed

lemma reads_back_alu_reg:
  assumes "d < 16" "s < 16"
  shows "reads_back (Alu_reg_reg f d s) rest"
proof -
  note rex = rex_w_bits [of d 0 s, OF assms(1) _ assms(2), simplified]
  have rm: "decode_modrm (fields 3 d s) = (3, of_nat (d mod 8), of_nat (s mod 8))" by (simp add: fields_decode)
  show ?thesis
    using rex decode_reg_field [OF assms(1) rex(4)] decode_reg_field [OF assms(2) rex(6)]
    by (cases f; simp add: reads_back_def decode_after_rex decode_opcode_def Let_def decode_modrm_binary_def
        decode_binary_mnemonic_def decode_reg_dest_opcode_def decode_read_u8_def rm decode_rm_operand_def set_defs
        numeral_2_eq_2 [symmetric]) blast+
qed

lemma reads_back_alu_imm:
  assumes "d < 16"
  shows "reads_back (Alu_reg_imm f d v) rest"
proof -
  note rex = rex_w_bits [of 0 0 d, OF _ _ assms, simplified]
  have imm: "decode_read_le32 (rex_w 0 0 d # 0x81 # fields 3 (alu_code f) d # le32 v @ rest) 3 = Some v"
    using read_le32_at [of "[rex_w 0 0 d, 0x81, fields 3 (alu_code f) d]" 3 v rest] by simp
  show ?thesis
    using rex decode_reg_field [OF assms rex(6)] imm
    by (cases f; simp add: reads_back_def decode_after_rex decode_opcode_def Let_def decode_group1_imm_def
        decode_group1_mnemonic_def decode_group1_value_def decode_sign_extend32_def decode_read_u8_def fields_decode
        decode_rm_operand_def set_defs) blast+
qed

text \<open>The decoder reads back every instruction the encoder writes.\<close>

lemma encode_length: "length (encode i) < 256"
  by (cases i) (simp_all add: encode_mem_def)

lemma decode_encode:
  assumes "asm_ok i"
  shows "\<exists>inst. xair_x86_decode64 (encode i @ rest) out = (XAIR_OK, inst) \<and>
    (mnemonic inst, take (operand_count inst) (operands inst)) = meaning i \<and>
    unat (inst_length inst) = length (encode i)"
proof -
  have "reads_back i rest" using assms
    by (cases i) (auto intro: reads_back_mem reads_back_mov_imm reads_back_push_pop reads_back_branches
        reads_back_mov_reg reads_back_alu_reg reads_back_alu_imm)
  then obtain inst where "xair_x86_decode64 (encode i @ rest) out =
      finish_inst (fst (meaning i)) (snd (meaning i)) (length (encode i)) inst"
    unfolding reads_back_def by blast
  then show ?thesis using encode_length [of i] by (simp add: finish_inst_def unat_of_nat)
qed

end
