(* ===== verification/Xair_Grow.thy ===== *)
theory Xair_Grow
  imports Xair_Verify
begin

text \<open>
  Building a block step by step, as the front ends do. \<open>grows b m m'\<close> says that \<open>m'\<close> differs from \<open>m\<close> by values,
  operations and parameters appended to the block \<open>b\<close> only; \<open>typed m b v t\<close> that the value \<open>v\<close> has the type \<open>t\<close> and
  may be used in \<open>b\<close>. Builder calls with well-typed operands keep the body of the block acceptable to the verifier,
  and terminating such a block gives a module that verifies.
\<close>

section \<open>Growing a block\<close>

definition grows :: "xair_block_id \<Rightarrow> xair_module \<Rightarrow> xair_module \<Rightarrow> bool" where
  "grows b m m' \<longleftrightarrow>
     (\<exists>vs os. vals m' = vals m @ vs \<and> ops m' = ops m @ os) \<and> length (blocks m') = length (blocks m) \<and>
     (\<forall>c < length (blocks m). c \<noteq> b \<longrightarrow> blocks m' ! c = blocks m ! c) \<and>
     (\<exists>ps is. params (blocks m' ! b) = params (blocks m ! b) @ ps \<and> blk_ops (blocks m' ! b) = blk_ops (blocks m ! b) @ is) \<and>
     blk_term (blocks m' ! b) = blk_term (blocks m ! b) \<and> term_args m' = term_args m"

lemma grows_refl [simp]: "grows b m m"
  by (simp add: grows_def)

lemma grows_trans: "grows b m m' \<Longrightarrow> grows b m' m'' \<Longrightarrow> grows b m m''"
  unfolding grows_def by (elim conjE exE) simp

lemma grows_content: "content_eq m m' \<Longrightarrow> grows b m m'"
  by (simp add: content_eq_def grows_def)

lemma grows_vals:
  assumes "grows b m m'"
  shows "v < length (vals m) \<Longrightarrow> vals m' ! v = vals m ! v" "length (vals m) \<le> length (vals m')"
    "i < length (ops m) \<Longrightarrow> ops m' ! i = ops m ! i" "length (ops m) \<le> length (ops m')"
    "length (blocks m') = length (blocks m)"
  using assms by (auto simp: grows_def nth_append)

section \<open>Typed values of a block\<close>

abbreviation avail :: "xair_module \<Rightarrow> xair_block_id \<Rightarrow> xair_value_id set" where
  "avail m b \<equiv> avail_at m (blocks m ! b) (length (blk_ops (blocks m ! b)))"

definition typed :: "xair_module \<Rightarrow> xair_block_id \<Rightarrow> xair_value_id \<Rightarrow> xair_type \<Rightarrow> bool" where
  "typed m b v t \<longleftrightarrow> usable m (avail m b) v \<and> type_of m v = t"

text \<open>Everything the verifier asks of a block but its terminator.\<close>

definition body_ok :: "xair_module \<Rightarrow> xair_block_id \<Rightarrow> bool" where
  "body_ok m b \<longleftrightarrow>
     (let bb = blocks m ! b
      in (\<forall>p \<in> set (params bb). p < length (vals m) \<and> val_block (vals m ! p) = b \<and> is_value_type (type_of m p)) \<and>
         (\<forall>i < length (blk_ops bb). block_op_ok m b (avail_at m bb i) (blk_ops bb ! i)))"

lemma block_ok_body: "block_ok m b \<longleftrightarrow> body_ok m b \<and> term_ok m (avail m b) (blk_term (blocks m ! b))"
  by (auto simp: block_ok_def body_ok_def Let_def)

lemma global_const_grows:
  assumes "grows b m m'" "v < length (vals m)" "value_is_global_const m v"
  shows "value_is_global_const m' v"
  using assms grows_vals [OF assms(1)] by (auto simp: value_is_global_const_def valid_value_def Let_def)

lemma usable_grows:
  assumes "grows b m m'" "usable m S v" "S \<subseteq> S'"
  shows "usable m' S' v"
  using assms global_const_grows [OF assms(1)] grows_vals(2) [OF assms(1)] by (auto simp: usable_def)

lemma avail_grows:
  assumes "grows b m m'" "\<forall>i \<in> set (blk_ops (blocks m ! c)). i < length (ops m)" "c < length (blocks m)"
  shows "avail_at m (blocks m ! c) n \<subseteq> avail_at m' (blocks m' ! c) n"
proof -
  have "\<exists>ps is. params (blocks m' ! c) = params (blocks m ! c) @ ps \<and> blk_ops (blocks m' ! c) = blk_ops (blocks m ! c) @ is"
    using assms(1,3) by (cases "c = b") (auto simp: grows_def)
  then obtain ps js where new: "params (blocks m' ! c) = params (blocks m ! c) @ ps"
      "blk_ops (blocks m' ! c) = blk_ops (blocks m ! c) @ js" by blast
  have "(\<lambda>j. dst (ops m ! j)) ` set (take n (blk_ops (blocks m ! c))) =
      (\<lambda>j. dst (ops m' ! j)) ` set (take n (blk_ops (blocks m ! c)))"
    by (rule image_cong) (use assms(2) grows_vals(3) [OF assms(1)] in \<open>auto dest!: in_set_takeD\<close>)
  then show ?thesis by (auto simp: avail_at_def new)
qed

lemma body_ops_valid: "body_ok m b \<Longrightarrow> i \<in> set (blk_ops (blocks m ! b)) \<Longrightarrow> i < length (ops m)"
  by (fastforce simp: body_ok_def block_op_ok_def Let_def in_set_conv_nth)

lemma avail_mono: "i \<le> j \<Longrightarrow> avail_at m bb i \<subseteq> avail_at m bb j"
  using set_take_subset_set_take by (fastforce simp: avail_at_def)

lemma typed_grows:
  assumes "grows b m m'" "body_ok m b" "b < length (blocks m)" "typed m b v t"
  shows "typed m' b v t"
proof -
  have "v < length (vals m)" using assms(4) by (simp add: typed_def usable_def)
  moreover have "avail m b \<subseteq> avail m' b"
  proof -
    have "length (blk_ops (blocks m ! b)) \<le> length (blk_ops (blocks m' ! b))" using assms(1) by (auto simp: grows_def)
    then show ?thesis using avail_grows [OF assms(1) _ assms(3)] body_ops_valid [OF assms(2)] avail_mono by (meson order_trans)
  qed
  ultimately show ?thesis using assms(4) usable_grows [OF assms(1)] grows_vals(1) [OF assms(1)]
    by (auto simp: typed_def)
qed

lemma block_op_grows:
  assumes "grows b m m'" "block_op_ok m c S i" "S \<subseteq> S'"
  shows "block_op_ok m' c S' i"
proof -
  note g = grows_vals [OF assms(1)]
  have i: "i < length (ops m)" "dst (ops m ! i) < length (vals m)"
    "\<forall>s \<in> set (op_srcs (ops m ! i)). usable m S s" using assms(2) by (auto simp: block_op_ok_def Let_def)
  then have tys: "map (type_of m') (op_srcs (ops m ! i)) = map (type_of m) (op_srcs (ops m ! i))"
    by (auto simp: usable_def g(1))
  have "op_ok m' (ops m' ! i)" using assms(2) i g
    by (simp add: block_op_ok_def Let_def op_ok_def tys del: map_eq_conv)
  then show ?thesis using assms(2) i usable_grows [OF assms(1) _ assms(3)] g
    by (auto simp: block_op_ok_def Let_def)
qed

section \<open>Builder calls with typed operands\<close>

lemma body_grows:
  assumes g: "grows b m m'" and ok: "body_ok m c" and c: "c < length (blocks m)"
    and ops: "blk_ops (blocks m' ! c) = blk_ops (blocks m ! c)"
    and ps: "\<forall>p \<in> set (params (blocks m' ! c)). p \<in> set (params (blocks m ! c)) \<or>
      p < length (vals m') \<and> val_block (vals m' ! p) = c \<and> is_value_type (type_of m' p)"
  shows "body_ok m' c"
proof -
  note gv = grows_vals [OF g]
  have "avail_at m (blocks m ! c) n \<subseteq> avail_at m' (blocks m' ! c) n" for n
    using avail_grows [OF g _ c] body_ops_valid [OF ok] by blast
  then have "block_op_ok m' c (avail_at m' (blocks m' ! c) i) (blk_ops (blocks m' ! c) ! i)"
    if "i < length (blk_ops (blocks m ! c))" for i
    using that ok block_op_grows [OF g] by (auto simp: body_ok_def Let_def ops)
  then show ?thesis using ok ps gv by (fastforce simp: body_ok_def Let_def ops)
qed

lemma add_param_typed:
  assumes call: "xair_block_add_param al b t nm m = (Ok v, m')" and inv: "module_inv m" and ok: "body_ok m b"
  shows "module_inv m'" "grows b m m'" "body_ok m' b" "typed m' b v t"
    "b < length (blocks m)" "term_kind (blk_term (blocks m ! b)) = XAIR_TERM_NONE"
proof -
  show "module_inv m'" by (rule module_inv_add_param [OF inv call])
  obtain c c' where new: "v = length (vals m)" "b < length (blocks m)" "is_value_type t"
      "m' = param_added c c' b t nm m" "term_kind (blk_term (blocks m ! b)) = XAIR_TERM_NONE"
    using call by (cases rule: xair_block_add_param_cases) auto
  show g: "grows b m m'" using new(2) by (auto simp: grows_def new(4) param_added_def)
  show "body_ok m' b"
    by (rule body_grows [OF g ok new(2)]) (use new in \<open>auto simp: param_added_def nth_append\<close>)
  show "typed m' b v t" using new by (auto simp: typed_def usable_def avail_at_def param_added_def nth_append)
qed (use call in \<open>auto elim!: xair_block_add_param_cases\<close>)

lemma op_value_usable:
  assumes "module_inv m" "is_op_value m v" "same_key (key_of m v) k" "k_block k = b"
  shows "typed m b v (k_type k)"
proof -
  let ?i = "val_op (vals m ! v)"
  have v: "v < length (vals m)" "value_wf m v" using assms(1,2) by (auto simp: is_op_value_def module_inv_def wf_module_def)
  then have i: "?i < length (ops m)" "dst (ops m ! ?i) = v" using assms(2) by (auto simp: value_wf_def is_op_value_def Let_def)
  then have "op_wf m ?i" using assms(1) by (auto simp: module_inv_def wf_module_def)
  then have blk: "?i \<in> set (blk_ops (blocks m ! val_block (vals m ! v)))" by (simp add: op_wf_def Let_def i)
  have "v \<in> avail m b" if "val_block (vals m ! v) = b" using blk that i by (auto simp: avail_at_def intro: rev_image_eqI)
  moreover have "value_is_global_const m v" if "opcode (ops m ! ?i) = XAIR_OP_CONST_U64"
    using that assms(2) i v by (auto simp: value_is_global_const_def valid_value_def is_op_value_def Let_def)
  ultimately show ?thesis using assms(3,4) v(1)
    by (auto simp: typed_def usable_def same_key_def key_of_def value_number_is_global_def Let_def)
qed

lemma numbered_fields:
  assumes m': "m' = numbered h tab c c' c'' k nm (m\<lparr>value_number_stats := s\<rparr>)"
  shows "vals m' = vals m @ [\<lparr>val_type = k_type k, val_block = k_block k, val_op = length (ops m),
      val_name = copy_name nm ''v'' (length (vals m))\<rparr>]"
    "ops m' = ops m @ [make_op k (length (vals m))]"
    "blocks m' = (blocks m)[k_block k := (blocks m ! k_block k)\<lparr>blk_op_cap := c'',
      blk_ops := blk_ops (blocks m ! k_block k) @ [length (ops m)]\<rparr>]"
    "term_args m' = term_args m"
  by (simp_all add: m' numbered_def value_number_insert_def op_added_def)

lemma add_op_typed:
  assumes call: "add_op al b oc t srcs im en nm m = (Ok v, m')" and inv: "module_inv m" and ok: "body_ok m b"
    and srcs: "\<forall>s \<in> set srcs. usable m (avail m b) s" and sig: "op_sig oc (map (type_of m) srcs) t"
    and t: "is_value_type t"
  shows "module_inv m' \<and> grows b m m' \<and> body_ok m' b \<and> typed m' b v t"
proof -
  have valid: "\<forall>s \<in> set srcs. s < length (vals m)" using srcs by (auto simp: usable_def)
  define k where "k = \<lparr>k_block = b, k_opcode = oc, k_type = t, k_srcs = srcs, k_imm = im, k_endian = en\<rparr>"
  from call inv valid show ?thesis
  proof (cases rule: add_op_cases)
    case (reuse w)
    then have g: "grows b m m'" by (simp add: grows_content)
    have "typed m b v t" using op_value_usable [OF inv reuse(3,4)] reuse(1) by simp
    moreover have "b < length (blocks m)" using call by (auto simp: add_op_def valid_block_def split: if_splits)
    moreover have "body_ok m' b" by (rule body_grows [OF g ok]) (use reuse calculation in \<open>auto simp: content_eq_def\<close>)
    ultimately show ?thesis using reuse g typed_grows [OF g ok] by blast
  next
    case (fresh st tab c c' c'')
    have m': "m' = numbered (value_number_hash k) tab c c' c'' k nm (m\<lparr>value_number_stats := st\<rparr>)"
      using fresh by (simp add: k_def)
    note f = numbered_fields [OF m']
    have g: "grows b m m'" using fresh(5) by (auto simp: grows_def f k_def)
    note gv = grows_vals [OF g]
    have v: "v = length (vals m)" using fresh(1) by simp
    have old: "block_op_ok m' b (avail_at m' (blocks m' ! b) i) (blk_ops (blocks m ! b) ! i)"
      if "i < length (blk_ops (blocks m ! b))" for i
      using that ok block_op_grows [OF g] avail_grows [OF g _ fresh(5)] body_ops_valid [OF ok]
      by (auto simp: body_ok_def Let_def)
    have sub: "avail m b \<subseteq> avail_at m' (blocks m' ! b) (length (blk_ops (blocks m ! b)))"
      using avail_grows [OF g _ fresh(5)] body_ops_valid [OF ok] by blast
    have "map (type_of m') srcs = map (type_of m) srcs" using valid gv(1) by simp
    then have sig': "op_sig oc (map (type_of m') srcs) t" using sig by (simp del: map_eq_conv)
    have rec: "ops m' ! length (ops m) = make_op k v" "vals m' ! v = \<lparr>val_type = t, val_block = b,
        val_op = length (ops m), val_name = copy_name nm ''v'' v\<rparr>"
      "length (ops m') = Suc (length (ops m))" "length (vals m') = Suc v"
      by (simp_all add: f(1,2) nth_append k_def v)
    have new: "block_op_ok m' b (avail_at m' (blocks m' ! b) (length (blk_ops (blocks m ! b)))) (length (ops m))"
      using usable_grows [OF g _ sub] srcs sig' t
      by (auto simp: block_op_ok_def op_ok_def rec Let_def) (simp_all add: make_op_def k_def rec)
    have ops': "blk_ops (blocks m' ! b) = blk_ops (blocks m ! b) @ [length (ops m)]"
      "params (blocks m' ! b) = params (blocks m ! b)" using fresh(5) by (simp_all add: f(3) k_def)
    have "body_ok m' b" unfolding body_ok_def Let_def ops' length_append_singleton
    proof (intro conjI allI impI)
      show "\<forall>p \<in> set (params (blocks m ! b)). p < length (vals m') \<and> val_block (vals m' ! p) = b \<and>
          is_value_type (type_of m' p)"
        using ok gv by (auto simp: body_ok_def Let_def)
      fix i assume "i < Suc (length (blk_ops (blocks m ! b)))"
      then show "block_op_ok m' b (avail_at m' (blocks m' ! b) i) ((blk_ops (blocks m ! b) @ [length (ops m)]) ! i)"
        using old new by (auto simp: less_Suc_eq nth_append)
    qed
    moreover have "typed m' b v t"
      by (auto simp: typed_def usable_def rec avail_at_def ops' make_op_def)
    ultimately show ?thesis using fresh(6) g by blast
  qed simp_all
qed

text \<open>The state of a module in which the open block \<open>b\<close> is built well, and what a builder call adds to it.\<close>

definition body_inv :: "xair_module \<Rightarrow> xair_block_id \<Rightarrow> bool" where
  "body_inv m b \<longleftrightarrow> module_inv m \<and> body_ok m b \<and> b < length (blocks m)"

definition yields :: "xair_block_id \<Rightarrow> xair_module \<Rightarrow> xair_module \<Rightarrow> xair_value_id \<Rightarrow> xair_type \<Rightarrow> bool" where
  "yields b m m' v t \<longleftrightarrow> body_inv m' b \<and> grows b m m' \<and> typed m' b v t"

lemma add_op_yields:
  assumes "add_op al b oc t srcs im en nm m = (Ok v, m')" "body_inv m b" "op_sig oc ts t"
    "list_all2 (typed m b) srcs ts" "is_value_type t"
  shows "yields b m m' v t"
proof -
  have "ts = map (type_of m) srcs" "\<forall>s \<in> set srcs. usable m (avail m b) s"
    using assms(4) by (induction srcs ts rule: list_all2_induct) (auto simp: typed_def)
  then show ?thesis using add_op_typed [OF assms(1)] assms grows_vals(5) by (auto simp: yields_def body_inv_def)
qed

lemma typed_valid: "typed m b v t \<Longrightarrow> v < length (vals m)"
  by (simp add: typed_def usable_def)

lemma build_yields:
  assumes "body_inv m b" "is_value_type t"
  shows "xair_block_add_param al b t nm m = (Ok v, m') \<Longrightarrow> yields b m m' v t"
    "xair_build_const_u64 al b t w nm m = (Ok v, m') \<Longrightarrow> yields b m m' v t"
    "xair_build_unary al b oc t x nm m = (Ok v, m') \<Longrightarrow> typed m b x tx \<Longrightarrow> op_sig oc [tx] t \<Longrightarrow> yields b m m' v t"
    "xair_build_binary al b oc t x y nm m = (Ok v, m') \<Longrightarrow> typed m b x tx \<Longrightarrow> typed m b y ty \<Longrightarrow>
       op_sig oc [tx, ty] t \<Longrightarrow> yields b m m' v t"
    "xair_build_load al b t x y en nm m = (Ok v, m') \<Longrightarrow> typed m b x tx \<Longrightarrow> typed m b y ty \<Longrightarrow>
       op_sig XAIR_OP_LOAD [tx, ty] t \<Longrightarrow> yields b m m' v t"
    "xair_build_store al b x y z en nm m = (Ok v, m') \<Longrightarrow> typed m b x t \<Longrightarrow> typed m b y ty \<Longrightarrow> typed m b z tz \<Longrightarrow>
       op_sig XAIR_OP_STORE [t, ty, tz] t \<Longrightarrow> yields b m m' v t"
proof -
  assume "xair_block_add_param al b t nm m = (Ok v, m')"
  from add_param_typed [OF this] grows_vals(5) assms show "yields b m m' v t" by (auto simp: yields_def body_inv_def)
next
  assume *: "xair_build_const_u64 al b t w nm m = (Ok v, m')"
  then have t: "op_sig XAIR_OP_CONST_U64 [] t"
    by (auto simp: xair_build_const_u64_def op_sig_simps is_int_def is_addr_def split: if_splits)
  have "add_op al b XAIR_OP_CONST_U64 t [] w XAIR_ENDIAN_LE nm m = (Ok v, m')"
    using * by (auto simp: xair_build_const_u64_def split: if_splits)
  from add_op_yields [OF this assms(1) t _ assms(2)] show "yields b m m' v t" by simp
next
  assume *: "xair_build_unary al b oc t x nm m = (Ok v, m')" and x: "typed m b x tx" and sig: "op_sig oc [tx] t"
  have "add_op al b oc t [x] 0 XAIR_ENDIAN_LE nm m = (Ok v, m')"
    using * by (auto simp: xair_build_unary_def split: if_splits)
  from add_op_yields [OF this assms(1) sig _ assms(2)] x show "yields b m m' v t" by simp
next
  assume *: "xair_build_binary al b oc t x y nm m = (Ok v, m')" and xy: "typed m b x tx" "typed m b y ty"
    and sig: "op_sig oc [tx, ty] t"
  have "add_op al b oc t [x, y] 0 XAIR_ENDIAN_LE nm m = (Ok v, m')"
    using * by (auto simp: xair_build_binary_def split: if_splits)
  from add_op_yields [OF this assms(1) sig _ assms(2)] xy show "yields b m m' v t" by simp
next
  assume *: "xair_build_load al b t x y en nm m = (Ok v, m')" and xy: "typed m b x tx" "typed m b y ty"
    and sig: "op_sig XAIR_OP_LOAD [tx, ty] t"
  have "add_op al b XAIR_OP_LOAD t [x, y] 0 en nm m = (Ok v, m')"
    using * by (auto simp: xair_build_load_def split: if_splits)
  from add_op_yields [OF this assms(1) sig _ assms(2)] xy show "yields b m m' v t" by simp
next
  assume *: "xair_build_store al b x y z en nm m = (Ok v, m')"
    and xyz: "typed m b x t" "typed m b y ty" "typed m b z tz" and sig: "op_sig XAIR_OP_STORE [t, ty, tz] t"
  have "type_of m x = t" using xyz(1) by (simp add: typed_def)
  then have "add_op al b XAIR_OP_STORE t [x, y, z] 0 en nm m = (Ok v, m')"
    using * by (auto simp: xair_build_store_def split: if_splits)
  from add_op_yields [OF this assms(1) sig _ assms(2)] xyz show "yields b m m' v t" by simp
qed

section \<open>The other blocks, and closing the block\<close>

definition targets :: "xair_term_rec \<Rightarrow> xair_block_id set" where
  "targets t = (case term_kind t of XAIR_TERM_JUMP \<Rightarrow> {true_target t}
     | XAIR_TERM_CBRANCH \<Rightarrow> {true_target t, false_target t} | _ \<Rightarrow> {})"

definition others_ok :: "xair_module \<Rightarrow> xair_block_id \<Rightarrow> bool" where
  "others_ok m b \<longleftrightarrow> (\<forall>c < length (blocks m). c \<noteq> b \<longrightarrow> block_ok m c \<and> b \<notin> targets (blk_term (blocks m ! c)))"

lemma edge_grows:
  assumes g: "grows b m m'" and wf: "wf_module m" and e: "edge_ok m S d args n" "d \<noteq> b" "S \<subseteq> S'"
  shows "edge_ok m' S' d args n"
proof -
  have d: "d < length (blocks m)" "blocks m' ! d = blocks m ! d" using g e(1,2) by (auto simp: edge_ok_def grows_def)
  have "p < length (vals m)" if "p \<in> set (params (blocks m ! d))" for p
    using that wf d(1) by (auto simp: wf_module_def block_wf_def Let_def)
  then show ?thesis using e(1) d usable_grows [OF g _ e(3)] grows_vals [OF g]
    by (fastforce simp: edge_ok_def usable_def dest: set_zip_rightD)
qed

lemma term_args_grows: "grows b m m' \<Longrightarrow> term_args_const m' t f = term_args_const m t f"
  by (simp add: grows_def term_args_const_def Let_def)

lemma term_grows:
  assumes g: "grows b m m'" and wf: "wf_module m" and t: "term_ok m S t" "b \<notin> targets t" "S \<subseteq> S'"
  shows "term_ok m' S' t"
proof -
  have e: "edge_ok m' S' d args n" if "edge_ok m S d args n" "d \<noteq> b" for d args n
    by (rule edge_grows [OF g wf that t(3)])
  have u: "usable m' S' v" "type_of m' v = type_of m v" if "usable m S v" for v
    using usable_grows [OF g that t(3)] that grows_vals [OF g] by (auto simp: usable_def)
  show ?thesis using t(1,2)
    by (cases "term_kind t") (auto simp: term_ok_def targets_def term_args_grows [OF g] u intro: e)
qed

lemma others_grows:
  assumes g: "grows b m m'" and wf: "wf_module m" and o: "others_ok m b"
  shows "others_ok m' b"
  unfolding others_ok_def
proof (intro allI impI)
  fix c assume "c < length (blocks m')" "c \<noteq> b"
  then have c: "c < length (blocks m)" "blocks m' ! c = blocks m ! c" "block_ok m c" "b \<notin> targets (blk_term (blocks m ! c))"
    using g o by (auto simp: grows_def others_ok_def)
  then have bd: "body_ok m c" by (simp add: block_ok_body)
  have "body_ok m' c" by (rule body_grows [OF g bd c(1)]) (simp_all add: c(2))
  moreover have "avail m c \<subseteq> avail m' c"
    using avail_grows [OF g _ c(1)] body_ops_valid [OF bd] by (simp add: c(2))
  then have "term_ok m' (avail m' c) (blk_term (blocks m ! c))"
    using c(3) by (intro term_grows [OF g wf _ c(4)]) (simp_all add: block_ok_body)
  ultimately show "block_ok m' c \<and> b \<notin> targets (blk_term (blocks m' ! c))"
    using c by (simp add: block_ok_body)
qed

text \<open>A fresh block of a module that verifies.\<close>

lemma block_create_others:
  assumes call: "xair_block_create al nm m = (Ok b, m')" and inv: "module_inv m" and ok: "module_ok m"
  shows "body_inv m' b" "others_ok m' b" "term_kind (blk_term (blocks m' ! b)) = XAIR_TERM_NONE"
proof -
  obtain c where b: "b = length (blocks m)" and m': "m' = m\<lparr>block_cap := c,
      blocks := blocks m @ [\<lparr>blk_name = copy_name nm ''bb'' b, params = [], param_cap = 0, blk_ops = [],
        blk_op_cap = 0, blk_term = empty_term\<rparr>]\<rparr>"
    using call by (cases rule: xair_block_create_cases) auto
  show "body_inv m' b" using module_inv_block_create [OF inv call] by (simp add: body_inv_def m' body_ok_def nth_append b)
  show "term_kind (blk_term (blocks m' ! b)) = XAIR_TERM_NONE" by (simp add: m' b nth_append empty_term_def)
  have old: "blocks m' ! d = blocks m ! d" if "d < length (blocks m)" for d using that by (simp add: m' nth_append)
  have same: "usable m' S v = usable m S v" "avail_at m' bb i = avail_at m bb i" "block_op_ok m' d S i = block_op_ok m d S i"
      "term_args_const m' t f = term_args_const m t f" "vals m' = vals m" for S v bb i d t f
    by (auto simp: usable_def value_is_global_const_def valid_value_def avail_at_def block_op_ok_def op_ok_def
        term_args_const_def m' Let_def)
  have e: "edge_ok m S d args n \<Longrightarrow> edge_ok m' S d args n" for S d args n
    using old [of d] by (auto simp: edge_ok_def same) (simp add: m')
  show "others_ok m' b" unfolding others_ok_def
  proof (intro allI impI)
    fix d assume d: "d < length (blocks m')" "d \<noteq> b"
    then have d': "d < length (blocks m)" by (simp add: m' b)
    then have "block_ok m d" "wf_module m" using ok inv by (auto simp: module_ok_def module_inv_def)
    moreover have "b \<notin> targets (blk_term (blocks m ! d))" using calculation(2) d'
      by (auto simp: wf_module_def term_wf_def targets_def b split: xair_term_kind.splits)
    ultimately show "block_ok m' d \<and> b \<notin> targets (blk_term (blocks m' ! d))"
      by (auto simp: block_ok_def Let_def old [OF d'] same term_ok_def intro: e split: xair_term_kind.splits)
  qed
qed

text \<open>Closing the block with a return of values it may use.\<close>

lemma set_return_verifies:
  assumes call: "xair_set_return al b rets m = (Ok u, m')" and inv: "body_inv m b" and o: "others_ok m b"
    and rets: "\<forall>v \<in> set rets. usable m (avail m b) v"
  shows "module_inv m'" "module_ok m'"
proof -
  show "module_inv m'" using module_inv_set_return [OF _ call] inv by (simp add: body_inv_def)
  have b: "b < length (blocks m)" "body_ok m b" "wf_module m" using inv by (auto simp: body_inv_def module_inv_def)
  obtain r1 m1 where a: "append_term_args al rets m = (r1, m1)" by fastforce
  have "\<exists>c. r1 = Ok (length (term_args m)) \<and> m1 = m\<lparr>term_arg_cap := c, term_args := term_args m @ rets\<rparr>"
    using a call by (cases rule: append_term_args_cases) (use a in \<open>auto simp: xair_set_return_def xbind_def split: if_splits\<close>)
  then obtain c where m1: "r1 = Ok (length (term_args m))" "m1 = m\<lparr>term_arg_cap := c, term_args := term_args m @ rets\<rparr>"
    by blast
  have m': "m' = m\<lparr>term_arg_cap := c, term_args := term_args m @ rets,
      blocks := (blocks m)[b := (blocks m ! b)\<lparr>blk_term := empty_term\<lparr>term_kind := XAIR_TERM_RETURN,
        true_arg_offset := length (term_args m), true_arg_count := length rets\<rparr>\<rparr>]\<rparr>"
    using call a m1 by (auto simp: xair_set_return_def xbind_def set_term_def split: if_splits)
  have same: "usable m' S v = usable m S v" "avail_at m' bb i = avail_at m bb i" "block_op_ok m' d S i = block_op_ok m d S i"
      "vals m' = vals m" "ops m' = ops m" "length (blocks m') = length (blocks m)" "params (blocks m' ! d) = params (blocks m ! d)"
      "blk_ops (blocks m' ! d) = blk_ops (blocks m ! d)" for S v bb i d
    using b(1) by (auto simp: usable_def value_is_global_const_def valid_value_def avail_at_def block_op_ok_def op_ok_def
        m' Let_def nth_list_update)
  have args: "term_args_const m' t f = term_args_const m t f" if "term_wf m t" for t f
    using that by (auto simp: term_args_const_def term_wf_def m' Let_def)
  have "block_ok m' d" if d: "d < length (blocks m)" for d
  proof (cases "d = b")
    case True
    have "term_args_const m' (blk_term (blocks m' ! b)) False = rets"
      using b(1) by (simp add: m' term_args_const_def Let_def)
    moreover have "term_kind (blk_term (blocks m' ! b)) = XAIR_TERM_RETURN" using b(1) by (simp add: m')
    ultimately show ?thesis using True b(2) rets by (simp add: block_ok_def body_ok_def Let_def same term_ok_def avail_at_def)
  next
    case False
    then have t: "blk_term (blocks m' ! d) = blk_term (blocks m ! d)" "block_ok m d" "term_wf m (blk_term (blocks m ! d))"
      using d o b by (auto simp: m' others_ok_def wf_module_def)
    have "edge_ok m' S e as n = edge_ok m S e as n" for S e as n by (simp add: edge_ok_def same)
    with t show ?thesis
      by (cases "term_kind (blk_term (blocks m ! d))")
        (simp_all add: block_ok_def Let_def same term_ok_def args [OF t(3)] avail_at_def)
  qed
  then show "module_ok m'" by (simp add: module_ok_def same)
qed

text \<open>From the verifier to the rules and back, for modules made by builder calls.\<close>

lemma verified_ok:
  assumes "built m" "fst (xair_verify_module al m) = XAIR_OK"
  shows "module_inv m" "module_ok m"
proof -
  show "module_inv m" by (rule built_module_inv [OF assms(1)])
  then show "module_ok m" using verify_OK_sound [OF wf_module_srcs_shape assms(2)] by (simp add: module_inv_def)
qed

lemma ok_verifies: "module_inv m \<Longrightarrow> module_ok m \<Longrightarrow> (\<And>b n. al (Site_available b) n) \<Longrightarrow> fst (xair_verify_module al m) = XAIR_OK"
  by (subst verify_OK_iff) (auto simp: module_inv_def intro: wf_module_srcs_shape)

end
