(* ===== verification/Xair_Vex.thy ===== *)
theory Xair_Vex
  imports Xair_Grow
begin

text \<open>
  The adapter for VEX statements of \<^verbatim>\<open>src/src/xair_vex.c\<close>: it keeps the values of temporaries, guest registers and
  memory while a client emits statements into the current block, and moves all of them to the parameters of a new
  block at every side exit. The module is part of the adapter's state, as in the lifter. Names of VEX operations are
  C strings; a position in one is the rest of the string.
\<close>

section \<open>The adapter\<close>

abbreviation XAIR_VEX_REG_DIRECT_SLOTS :: nat where "XAIR_VEX_REG_DIRECT_SLOTS \<equiv> 4096"
abbreviation sizeof_map_entry :: nat where "sizeof_map_entry \<equiv> 8"
abbreviation sizeof_adapter :: nat where "sizeof_adapter \<equiv> 20568"

record xair_vex_map_entry =
  me_key :: u32
  me_value :: xair_value_id

record xair_vex_dense_map =
  dm_values :: "xair_value_id list"
  dm_defined :: "bool list"

record xair_vex_adapter =
  va_module :: xair_module
  va_current :: xair_block_id
  va_memory :: xair_value_id
  va_has_memory :: bool
  va_tmps :: xair_vex_dense_map
  va_regs :: "xair_value_id list"
  va_reg_defined :: "bool list"
  va_reg_count :: nat
  va_sparse_regs :: "xair_vex_map_entry list"
  va_sparse_reg_cap :: nat
  va_continuation_index :: u32

type_synonym 'a vex_op = "(xair_vex_adapter, 'a) xop"

definition in_module :: "(xair_module, 'a) xop \<Rightarrow> 'a vex_op" where
  "in_module f a = (case f (va_module a) of (r, m) \<Rightarrow> (r, a\<lparr>va_module := m\<rparr>))"

section \<open>Maps\<close>

text \<open>The adapter's own copy of the growing of an array is that of the module.\<close>

definition vex_grow_array :: "allocator \<Rightarrow> alloc_site \<Rightarrow> nat \<Rightarrow> nat \<Rightarrow> nat \<Rightarrow> nat xres" where
  "vex_grow_array al site elem_size cap need = grow_array al site elem_size cap need"

definition vex_dense_reserve :: "allocator \<Rightarrow> u32 \<Rightarrow> (xair_vex_dense_map, unit) xop" where
  "vex_dense_reserve al key dm =
     (if unat key = UINT32_MAX then (Err XAIR_ERR_BAD_ARG, dm)
      else if unat key + 1 \<le> length (dm_values dm) then (Ok (), dm)
      else case grow_loop (if length (dm_values dm) = 0 then 16 else length (dm_values dm)) (unat key + 1) of
        None \<Rightarrow> (Err XAIR_ERR_OOM, dm)
      | Some next_count \<Rightarrow>
          if \<not> al Site_tmp_values (next_count * sizeof_id) \<or> \<not> al Site_tmp_defined next_count then (Err XAIR_ERR_OOM, dm)
          else (Ok (), \<lparr>dm_values = dm_values dm @ replicate (next_count - length (dm_values dm)) XAIR_INVALID_ID,
            dm_defined = dm_defined dm @ replicate (next_count - length (dm_values dm)) False\<rparr>))"

definition vex_dense_set :: "allocator \<Rightarrow> u32 \<Rightarrow> xair_value_id \<Rightarrow> (xair_vex_dense_map, unit) xop" where
  "vex_dense_set al key v dm =
     (case vex_dense_reserve al key dm of
        (Err e, dm') \<Rightarrow> (Err e, dm')
      | (Ok _, dm') \<Rightarrow> (Ok (), dm'\<lparr>dm_values := (dm_values dm')[unat key := v],
          dm_defined := (dm_defined dm')[unat key := True]\<rparr>))"

definition vex_dense_get :: "xair_vex_dense_map \<Rightarrow> u32 \<Rightarrow> xair_value_id option" where
  "vex_dense_get dm key =
     (if unat key \<ge> length (dm_values dm) \<or> \<not> dm_defined dm ! unat key then None else Some (dm_values dm ! unat key))"

text \<open>The position of the first entry with a key.\<close>

fun vex_find_entry :: "xair_vex_map_entry list \<Rightarrow> u32 \<Rightarrow> nat option" where
  "vex_find_entry [] key = None"
| "vex_find_entry (e # es) key = (if me_key e = key then Some 0 else map_option Suc (vex_find_entry es key))"

definition vex_set_entry :: "allocator \<Rightarrow> u32 \<Rightarrow> xair_value_id \<Rightarrow> (xair_vex_map_entry list \<times> nat, unit) xop" where
  "vex_set_entry al key v = (\<lambda>(entries, cap).
     (case vex_find_entry entries key of
        Some i \<Rightarrow> (Ok (), (entries[i := (entries ! i)\<lparr>me_value := v\<rparr>], cap))
      | None \<Rightarrow>
          (case vex_grow_array al Site_sparse_regs sizeof_map_entry cap (length entries + 1) of
             Err e \<Rightarrow> (Err e, (entries, cap))
           | Ok cap' \<Rightarrow> (Ok (), (entries @ [\<lparr>me_key = key, me_value = v\<rparr>], cap')))))"

definition vex_valid_value :: "xair_module \<Rightarrow> xair_value_id \<Rightarrow> bool" where
  "vex_valid_value m v \<longleftrightarrow> v \<noteq> XAIR_INVALID_ID \<and>
     kind (xair_value_type m v) \<noteq> XAIR_TYPE_INVALID \<and> xair_type_is_valid (xair_value_type m v)"

section \<open>Names of VEX operations\<close>

definition vex_starts_with :: "string \<Rightarrow> string \<Rightarrow> bool" where
  "vex_starts_with text prefix \<longleftrightarrow> take (length prefix) text = prefix"

definition is_digit :: "char \<Rightarrow> bool" where
  "is_digit c \<longleftrightarrow> 48 \<le> (of_char c :: nat) \<and> (of_char c :: nat) \<le> 57"

fun vex_parse_digits :: "nat \<Rightarrow> bool \<Rightarrow> string \<Rightarrow> (nat \<times> string) option" where
  "vex_parse_digits v saw [] = (if saw then Some (v, []) else None)"
| "vex_parse_digits v saw (c # cs) =
     (if is_digit c
      then (let v' = v * 10 + (of_char c - 48) in if v' > 65535 then None else vex_parse_digits v' True cs)
      else if saw then Some (v, c # cs) else None)"

definition vex_parse_u16 :: "string \<Rightarrow> (nat \<times> string) option" where
  "vex_parse_u16 text = vex_parse_digits 0 False text"

definition vex_match_width :: "string \<Rightarrow> string \<Rightarrow> nat option" where
  "vex_match_width irop prefix =
     (if \<not> vex_starts_with irop prefix then None
      else case vex_parse_u16 (drop (length prefix) irop) of
        None \<Rightarrow> None
      | Some (w, rest) \<Rightarrow> if rest = [] then Some w else None)"

definition vex_match_cmp :: "string \<Rightarrow> string \<Rightarrow> (nat \<times> char) option" where
  "vex_match_cmp irop prefix =
     (if \<not> vex_starts_with irop prefix then None
      else case vex_parse_u16 (drop (length prefix) irop) of
        None \<Rightarrow> None
      | Some (w, rest) \<Rightarrow> if rest = ''U'' \<or> rest = ''S'' then Some (w, hd rest) else None)"

definition vex_check_width :: "xair_type \<Rightarrow> nat \<Rightarrow> 'a \<Rightarrow> 'a xres" where
  "vex_check_width t w out = (if bits t \<noteq> w then Err XAIR_ERR_UNSUPPORTED else Ok out)"

text \<open>The cases of \<^verbatim>\<open>vex_map_binop\<close> in their order: the prefix, the opcode, and whether the result is a truth value.\<close>

definition vex_width_ops :: "(string \<times> xair_opcode \<times> bool) list" where
  "vex_width_ops = [(''Iop_Add'', XAIR_OP_ADD, False), (''Iop_Sub'', XAIR_OP_SUB, False), (''Iop_Mul'', XAIR_OP_MUL, False),
     (''Iop_And'', XAIR_OP_AND, False), (''Iop_Or'', XAIR_OP_OR, False), (''Iop_Xor'', XAIR_OP_XOR, False),
     (''Iop_Shl'', XAIR_OP_SHL, False), (''Iop_Shr'', XAIR_OP_LSHR, False), (''Iop_Sar'', XAIR_OP_ASHR, False),
     (''Iop_CmpEQ'', XAIR_OP_EQ, True), (''Iop_CmpNE'', XAIR_OP_NE, True)]"

definition vex_cmp_ops :: "(string \<times> xair_opcode \<times> xair_opcode) list" where
  "vex_cmp_ops = [(''Iop_CmpLT'', XAIR_OP_SLT, XAIR_OP_ULT), (''Iop_CmpLE'', XAIR_OP_SLE, XAIR_OP_ULE)]"

fun vex_map_cmp :: "(string \<times> xair_opcode \<times> xair_opcode) list \<Rightarrow> string \<Rightarrow> xair_type \<Rightarrow> (xair_opcode \<times> xair_type) xres" where
  "vex_map_cmp [] irop lhs = Err XAIR_ERR_UNSUPPORTED"
| "vex_map_cmp ((prefix, s, u) # rest) irop lhs =
     (case vex_match_cmp irop prefix of
        Some (w, c) \<Rightarrow> vex_check_width lhs w (if c = CHR ''S'' then s else u, xair_type_i 1)
      | None \<Rightarrow> vex_map_cmp rest irop lhs)"

fun vex_map_width :: "(string \<times> xair_opcode \<times> bool) list \<Rightarrow> string \<Rightarrow> xair_type \<Rightarrow> (xair_opcode \<times> xair_type) xres" where
  "vex_map_width [] irop lhs = vex_map_cmp vex_cmp_ops irop lhs"
| "vex_map_width ((prefix, oc, truth) # rest) irop lhs =
     (case vex_match_width irop prefix of
        Some w \<Rightarrow> vex_check_width lhs w (oc, if truth then xair_type_i 1 else lhs)
      | None \<Rightarrow> vex_map_width rest irop lhs)"

definition vex_map_binop :: "string \<Rightarrow> xair_type \<Rightarrow> (xair_opcode \<times> xair_type) xres" where
  "vex_map_binop irop lhs = vex_map_width vex_width_ops irop lhs"

text \<open>One branch of \<^verbatim>\<open>vex_map_unop\<close> after its keyword.\<close>

definition vex_target_width :: "string \<Rightarrow> (nat \<Rightarrow> bool) \<Rightarrow> xair_opcode \<Rightarrow> (xair_opcode \<times> xair_type) xres" where
  "vex_target_width rest ok oc =
     (case vex_parse_u16 rest of
        None \<Rightarrow> Err XAIR_ERR_UNSUPPORTED
      | Some (to_bits, end) \<Rightarrow> if end \<noteq> [] \<or> \<not> ok to_bits then Err XAIR_ERR_UNSUPPORTED else Ok (oc, xair_type_i to_bits))"

definition vex_map_unop :: "string \<Rightarrow> xair_type \<Rightarrow> (xair_opcode \<times> xair_type) xres" where
  "vex_map_unop irop s =
     (if \<not> vex_starts_with irop ''Iop_'' then Err XAIR_ERR_BAD_ARG
      else case vex_parse_u16 (drop 4 irop) of
        None \<Rightarrow> Err XAIR_ERR_UNSUPPORTED
      | Some (from_bits, rest) \<Rightarrow>
          if bits s \<noteq> from_bits \<or> kind s \<noteq> XAIR_TYPE_INT then Err XAIR_ERR_UNSUPPORTED
          else if take 3 rest = ''Uto'' then vex_target_width (drop 3 rest) (\<lambda>n. n > from_bits) XAIR_OP_ZEXT
          else if take 3 rest = ''Sto'' then vex_target_width (drop 3 rest) (\<lambda>n. n > from_bits) XAIR_OP_SEXT
          else if take 2 rest = ''to'' then vex_target_width (drop 2 rest) (\<lambda>n. n < from_bits) XAIR_OP_TRUNC
          else Err XAIR_ERR_UNSUPPORTED)"

section \<open>Operations of the adapter\<close>

definition xair_vex_adapter_create :: "allocator \<Rightarrow> xair_module \<Rightarrow> xair_block_id \<Rightarrow> xair_value_id \<Rightarrow> xair_vex_adapter xres" where
  "xair_vex_adapter_create al m entry initial_memory =
     (if entry \<ge> xair_module_block_count m then Err XAIR_ERR_BAD_ARG
      else if \<not> al Site_adapter sizeof_adapter then Err XAIR_ERR_OOM
      else let a = \<lparr>va_module = m, va_current = entry, va_memory = XAIR_INVALID_ID, va_has_memory = False,
          va_tmps = \<lparr>dm_values = [], dm_defined = []\<rparr>, va_regs = replicate XAIR_VEX_REG_DIRECT_SLOTS 0,
          va_reg_defined = replicate XAIR_VEX_REG_DIRECT_SLOTS False, va_reg_count = 0, va_sparse_regs = [],
          va_sparse_reg_cap = 0, va_continuation_index = 0\<rparr>
        in if initial_memory = XAIR_INVALID_ID then Ok a
           else if kind (xair_value_type m initial_memory) \<noteq> XAIR_TYPE_MEM then Err XAIR_ERR_BAD_ARG
           else Ok (a\<lparr>va_memory := initial_memory, va_has_memory := True\<rparr>))"

definition xair_vex_current_block :: "xair_vex_adapter \<Rightarrow> xair_block_id" where
  "xair_vex_current_block a = va_current a"

definition xair_vex_set_tmp :: "allocator \<Rightarrow> u32 \<Rightarrow> xair_value_id \<Rightarrow> unit vex_op" where
  "xair_vex_set_tmp al tmp v a =
     (if \<not> vex_valid_value (va_module a) v then (Err XAIR_ERR_BAD_ARG, a)
      else case vex_dense_set al tmp v (va_tmps a) of (r, dm) \<Rightarrow> (r, a\<lparr>va_tmps := dm\<rparr>))"

definition xair_vex_get_tmp :: "xair_vex_adapter \<Rightarrow> u32 \<Rightarrow> xair_value_id xres" where
  "xair_vex_get_tmp a tmp = (case vex_dense_get (va_tmps a) tmp of None \<Rightarrow> Err XAIR_ERR_RANGE | Some v \<Rightarrow> Ok v)"

text \<open>Storing a register, as both \<^verbatim>\<open>xair_vex_get_reg\<close> and \<^verbatim>\<open>xair_vex_put_reg\<close> do.\<close>

definition vex_store_reg :: "allocator \<Rightarrow> u32 \<Rightarrow> xair_value_id \<Rightarrow> unit vex_op" where
  "vex_store_reg al offset v a =
     (if unat offset < XAIR_VEX_REG_DIRECT_SLOTS
      then (Ok (), a\<lparr>va_regs := (va_regs a)[unat offset := v], va_reg_defined := (va_reg_defined a)[unat offset := True],
        va_reg_count := (if va_reg_defined a ! unat offset then va_reg_count a else va_reg_count a + 1)\<rparr>)
      else case vex_set_entry al offset v (va_sparse_regs a, va_sparse_reg_cap a) of
        (r, (es, cap)) \<Rightarrow> (r, a\<lparr>va_sparse_regs := es, va_sparse_reg_cap := cap\<rparr>))"

definition vex_lookup_reg :: "xair_vex_adapter \<Rightarrow> u32 \<Rightarrow> xair_value_id option" where
  "vex_lookup_reg a offset =
     (if unat offset < XAIR_VEX_REG_DIRECT_SLOTS
      then (if va_reg_defined a ! unat offset then Some (va_regs a ! unat offset) else None)
      else map_option (\<lambda>i. me_value (va_sparse_regs a ! i)) (vex_find_entry (va_sparse_regs a) offset))"

definition xair_vex_get_reg :: "allocator \<Rightarrow> u32 \<Rightarrow> xair_type \<Rightarrow> string \<Rightarrow> xair_value_id vex_op" where
  "xair_vex_get_reg al offset t nm a =
     (if \<not> xair_type_is_valid t then (Err XAIR_ERR_BAD_ARG, a)
      else case vex_lookup_reg a offset of
        Some v \<Rightarrow> (if \<not> xair_type_equal (xair_value_type (va_module a) v) t then Err XAIR_ERR_BAD_ARG else Ok v, a)
      | None \<Rightarrow> xbind (in_module (xair_block_add_param al (va_current a) t nm))
          (\<lambda>v. xbind (vex_store_reg al offset v) (\<lambda>_. xreturn v)) a)"

definition xair_vex_put_reg :: "allocator \<Rightarrow> u32 \<Rightarrow> xair_value_id \<Rightarrow> unit vex_op" where
  "xair_vex_put_reg al offset v a =
     (if \<not> vex_valid_value (va_module a) v then (Err XAIR_ERR_BAD_ARG, a) else vex_store_reg al offset v a)"

definition xair_vex_peek_reg :: "xair_vex_adapter \<Rightarrow> u32 \<Rightarrow> xair_value_id xres" where
  "xair_vex_peek_reg a offset = (case vex_lookup_reg a offset of None \<Rightarrow> Err XAIR_ERR_RANGE | Some v \<Rightarrow> Ok v)"

definition xair_vex_set_memory :: "xair_value_id \<Rightarrow> unit vex_op" where
  "xair_vex_set_memory memory a =
     (if \<not> vex_valid_value (va_module a) memory then (Err XAIR_ERR_BAD_ARG, a)
      else if kind (xair_value_type (va_module a) memory) \<noteq> XAIR_TYPE_MEM then (Err XAIR_ERR_BAD_ARG, a)
      else (Ok (), a\<lparr>va_memory := memory, va_has_memory := True\<rparr>))"

definition xair_vex_current_memory :: "xair_vex_adapter \<Rightarrow> xair_value_id xres" where
  "xair_vex_current_memory a = (if \<not> va_has_memory a then Err XAIR_ERR_BAD_ARG else Ok (va_memory a))"

definition xair_vex_emit_const :: "allocator \<Rightarrow> u32 \<Rightarrow> xair_type \<Rightarrow> u64 \<Rightarrow> string \<Rightarrow> unit vex_op" where
  "xair_vex_emit_const al tmp t v nm a =
     xbind (in_module (xair_build_const_u64 al (va_current a) t v nm)) (xair_vex_set_tmp al tmp) a"

definition xair_vex_emit_unop :: "allocator \<Rightarrow> u32 \<Rightarrow> string \<Rightarrow> xair_value_id \<Rightarrow> string \<Rightarrow> unit vex_op" where
  "xair_vex_emit_unop al tmp irop s nm a =
     (if \<not> vex_valid_value (va_module a) s then (Err XAIR_ERR_BAD_ARG, a)
      else case vex_map_unop irop (xair_value_type (va_module a) s) of
        Err e \<Rightarrow> (Err e, a)
      | Ok (oc, t) \<Rightarrow> xbind (in_module (xair_build_unary al (va_current a) oc t s nm)) (xair_vex_set_tmp al tmp) a)"

definition xair_vex_emit_binop :: "allocator \<Rightarrow> u32 \<Rightarrow> string \<Rightarrow> xair_value_id \<Rightarrow> xair_value_id \<Rightarrow> string \<Rightarrow> unit vex_op" where
  "xair_vex_emit_binop al tmp irop lhs rhs nm a =
     (let lt = xair_value_type (va_module a) lhs; rt = xair_value_type (va_module a) rhs
      in if \<not> vex_valid_value (va_module a) lhs \<or> \<not> vex_valid_value (va_module a) rhs then (Err XAIR_ERR_BAD_ARG, a)
         else if \<not> xair_type_equal lt rt \<and> \<not> vex_starts_with irop ''Iop_Shl'' \<and> \<not> vex_starts_with irop ''Iop_Shr'' \<and>
           \<not> vex_starts_with irop ''Iop_Sar'' then (Err XAIR_ERR_BAD_ARG, a)
         else case vex_map_binop irop lt of
           Err e \<Rightarrow> (Err e, a)
         | Ok (oc, t) \<Rightarrow> xbind (in_module (xair_build_binary al (va_current a) oc t lhs rhs nm)) (xair_vex_set_tmp al tmp) a)"

definition xair_vex_emit_load ::
  "allocator \<Rightarrow> u32 \<Rightarrow> xair_type \<Rightarrow> xair_value_id \<Rightarrow> xair_endian \<Rightarrow> string \<Rightarrow> unit vex_op" where
  "xair_vex_emit_load al tmp t address en nm a =
     (if \<not> va_has_memory a \<or> \<not> vex_valid_value (va_module a) address then (Err XAIR_ERR_BAD_ARG, a)
      else xbind (in_module (xair_build_load al (va_current a) t (va_memory a) address en nm)) (xair_vex_set_tmp al tmp) a)"

definition xair_vex_emit_store ::
  "allocator \<Rightarrow> xair_value_id \<Rightarrow> xair_value_id \<Rightarrow> xair_endian \<Rightarrow> string \<Rightarrow> unit vex_op" where
  "xair_vex_emit_store al address data en nm a =
     (if \<not> va_has_memory a \<or> \<not> vex_valid_value (va_module a) address \<or> \<not> vex_valid_value (va_module a) data
      then (Err XAIR_ERR_BAD_ARG, a)
      else xbind (in_module (xair_build_store al (va_current a) (va_memory a) address data en nm))
        (\<lambda>next_memory a. (Ok (), a\<lparr>va_memory := next_memory\<rparr>)) a)"

section \<open>Side exits\<close>

text \<open>The module and the growing array of arguments while values are moved to the continuation block.\<close>

record exit_state =
  xs_module :: xair_module
  xs_args :: "xair_value_id list"
  xs_cap :: nat

definition vex_append_arg :: "allocator \<Rightarrow> xair_value_id \<Rightarrow> (exit_state, unit) xop" where
  "vex_append_arg al v x =
     (case vex_grow_array al Site_exit_args sizeof_id (xs_cap x) (length (xs_args x) + 1) of
        Err e \<Rightarrow> (Err e, x)
      | Ok cap \<Rightarrow> (Ok (), x\<lparr>xs_cap := cap, xs_args := xs_args x @ [v]\<rparr>))"

definition vex_transfer_value_to_continuation ::
  "allocator \<Rightarrow> xair_block_id \<Rightarrow> string \<Rightarrow> xair_value_id \<Rightarrow> (exit_state, xair_value_id) xop" where
  "vex_transfer_value_to_continuation al continuation nm old_value x =
     (case xair_block_add_param al continuation (xair_value_type (xs_module x) old_value) nm (xs_module x) of
        (Err e, m) \<Rightarrow> (Err e, x\<lparr>xs_module := m\<rparr>)
      | (Ok v, m) \<Rightarrow> xbind (vex_append_arg al old_value) (\<lambda>_. xreturn v) (x\<lparr>xs_module := m\<rparr>))"

text \<open>A loop of transfers over the values in use; the result holds the new value of each.\<close>

fun vex_transfer_all :: "allocator \<Rightarrow> xair_block_id \<Rightarrow> (string \<times> xair_value_id) list \<Rightarrow> (exit_state, xair_value_id list) xop" where
  "vex_transfer_all al continuation [] = xreturn []"
| "vex_transfer_all al continuation ((nm, v) # rest) =
     xbind (vex_transfer_value_to_continuation al continuation nm v) (\<lambda>v'.
     xbind (vex_transfer_all al continuation rest) (\<lambda>vs. xreturn (v' # vs)))"

definition defined_at :: "bool list \<Rightarrow> nat list" where
  "defined_at ds = filter (\<lambda>i. ds ! i) [0..<length ds]"

definition live_memory :: "xair_vex_adapter \<Rightarrow> (string \<times> xair_value_id) list" where
  "live_memory a = (if va_has_memory a then [(''mem'', va_memory a)] else [])"

definition live_tmps :: "xair_vex_adapter \<Rightarrow> (string \<times> xair_value_id) list" where
  "live_tmps a = map (\<lambda>i. (''t'' @ dec_text i, dm_values (va_tmps a) ! i)) (defined_at (dm_defined (va_tmps a)))"

definition live_direct_regs :: "xair_vex_adapter \<Rightarrow> (string \<times> xair_value_id) list" where
  "live_direct_regs a = map (\<lambda>i. (''r'' @ dec_text i, va_regs a ! i)) (defined_at (va_reg_defined a))"

definition live_sparse_regs :: "xair_vex_adapter \<Rightarrow> (string \<times> xair_value_id) list" where
  "live_sparse_regs a = map (\<lambda>e. (''r'' @ dec_text (unat (me_key e)), me_value e)) (va_sparse_regs a)"

text \<open>Writing the new values back over the old ones, at the positions in use.\<close>

fun write_back :: "nat list \<Rightarrow> xair_value_id list \<Rightarrow> xair_value_id list \<Rightarrow> xair_value_id list" where
  "write_back (i # is) (v # vs) xs = write_back is vs (xs[i := v])"
| "write_back _ _ xs = xs"

definition vex_exit_allocs :: "allocator \<Rightarrow> xair_vex_adapter \<Rightarrow> bool" where
  "vex_exit_allocs al a \<longleftrightarrow>
     (dm_values (va_tmps a) \<noteq> [] \<longrightarrow> al Site_next_tmps (length (dm_values (va_tmps a)) * sizeof_id)) \<and>
     (va_reg_count a \<noteq> 0 \<longrightarrow> al Site_next_direct_regs (XAIR_VEX_REG_DIRECT_SLOTS * sizeof_id)) \<and>
     (va_sparse_regs a \<noteq> [] \<longrightarrow> al Site_next_sparse_regs (length (va_sparse_regs a) * sizeof_id))"

text \<open>The four loops of transfers, in the order of the code.\<close>

definition vex_transfer_state :: "allocator \<Rightarrow> xair_block_id \<Rightarrow> xair_vex_adapter
    \<Rightarrow> (exit_state, xair_value_id list \<times> xair_value_id list \<times> xair_value_id list \<times> xair_value_id list) xop" where
  "vex_transfer_state al continuation a =
     xbind (vex_transfer_all al continuation (live_memory a)) (\<lambda>next_memory.
     xbind (vex_transfer_all al continuation (live_tmps a)) (\<lambda>next_tmps.
     xbind (vex_transfer_all al continuation (live_direct_regs a)) (\<lambda>next_direct_regs.
     xbind (vex_transfer_all al continuation (live_sparse_regs a)) (\<lambda>next_sparse_regs.
     xreturn (next_memory, next_tmps, next_direct_regs, next_sparse_regs)))))"

definition vex_enter_continuation :: "xair_block_id \<Rightarrow>
    xair_value_id list \<times> xair_value_id list \<times> xair_value_id list \<times> xair_value_id list \<Rightarrow> xair_vex_adapter \<Rightarrow> xair_vex_adapter" where
  "vex_enter_continuation continuation = (\<lambda>(next_memory, next_tmps, next_direct_regs, next_sparse_regs) a.
     a\<lparr>va_memory := (if va_has_memory a then hd next_memory else va_memory a),
       va_tmps := (va_tmps a)\<lparr>dm_values := write_back (defined_at (dm_defined (va_tmps a))) next_tmps (dm_values (va_tmps a))\<rparr>,
       va_regs := write_back (defined_at (va_reg_defined a)) next_direct_regs (va_regs a),
       va_sparse_regs := map (\<lambda>(e, v). e\<lparr>me_value := v\<rparr>) (zip (va_sparse_regs a) next_sparse_regs),
       va_current := continuation\<rparr>)"

definition vex_continuation_name :: "xair_vex_adapter \<Rightarrow> string \<Rightarrow> string" where
  "vex_continuation_name a nm = (if nm = '''' then ''vex_cont_'' @ dec_text (unat (va_continuation_index a)) else nm)"

definition xair_vex_emit_exit ::
  "allocator \<Rightarrow> xair_value_id \<Rightarrow> xair_block_id \<Rightarrow> xair_value_id list \<Rightarrow> string \<Rightarrow> unit vex_op" where
  "xair_vex_emit_exit al cond taken taken_args nm a =
     (if \<not> vex_valid_value (va_module a) cond \<or> taken \<ge> xair_module_block_count (va_module a) then (Err XAIR_ERR_BAD_ARG, a)
      else
        let a1 = a\<lparr>va_continuation_index := (if nm = '''' then va_continuation_index a + 1 else va_continuation_index a)\<rparr>
        in case xair_block_create al (vex_continuation_name a nm) (va_module a) of
             (Err e, m1) \<Rightarrow> (Err e, a1\<lparr>va_module := m1\<rparr>)
           | (Ok continuation, m1) \<Rightarrow>
               if \<not> vex_exit_allocs al a then (Err XAIR_ERR_OOM, a1\<lparr>va_module := m1\<rparr>)
               else case vex_transfer_state al continuation a1 \<lparr>xs_module = m1, xs_args = [], xs_cap = 0\<rparr> of
                 (Err e, x) \<Rightarrow> (Err e, a1\<lparr>va_module := xs_module x\<rparr>)
               | (Ok next, x) \<Rightarrow>
                   (case xair_set_cbranch al (va_current a) cond taken taken_args continuation (xs_args x) (xs_module x) of
                      (Err e, m2) \<Rightarrow> (Err e, a1\<lparr>va_module := m2\<rparr>)
                    | (Ok _, m2) \<Rightarrow> (Ok (), vex_enter_continuation continuation next (a1\<lparr>va_module := m2\<rparr>))))"

definition xair_vex_finish_jump :: "allocator \<Rightarrow> xair_block_id \<Rightarrow> xair_value_id list \<Rightarrow> unit vex_op" where
  "xair_vex_finish_jump al target args a = in_module (xair_set_jump al (va_current a) target args) a"

definition xair_vex_finish_return :: "allocator \<Rightarrow> xair_value_id list \<Rightarrow> unit vex_op" where
  "xair_vex_finish_return al vs a = in_module (xair_set_return al (va_current a) vs) a"

section \<open>The maps of the adapter are partial maps\<close>

text \<open>
  The contract of the three stores of the adapter: temporaries (a dense array), sparse registers (a list of entries),
  and the register file on top of an array and that list. A successful update changes the lookup at its key only, a
  failed one changes nothing a lookup can see.
\<close>

locale key_store =
  fixes get :: "'s \<Rightarrow> u32 \<Rightarrow> xair_value_id option"
    and put :: "u32 \<Rightarrow> xair_value_id \<Rightarrow> 's \<Rightarrow> unit xres \<times> 's"
    and inv :: "'s \<Rightarrow> bool"
  assumes put_Ok: "put k v s = (Ok u, s') \<Longrightarrow> inv s \<Longrightarrow> inv s' \<and> get s' = (get s)(k \<mapsto> v)"
    and put_Err: "put k v s = (Err e, s') \<Longrightarrow> inv s \<Longrightarrow> inv s' \<and> get s' = get s"
begin

text \<open>A sequence of updates that stops at the first failure.\<close>

fun put_all :: "(u32 \<times> xair_value_id) list \<Rightarrow> 's \<Rightarrow> unit xres \<times> 's" where
  "put_all [] s = (Ok (), s)"
| "put_all ((k, v) # kvs) s = (case put k v s of (Ok _, s') \<Rightarrow> put_all kvs s' | (Err e, s') \<Rightarrow> (Err e, s'))"

lemma put_all_refines: "put_all kvs s = (Ok u, s') \<Longrightarrow> inv s \<Longrightarrow> inv s' \<and> get s' = get s ++ map_of (rev kvs)"
proof (induction kvs arbitrary: s)
  case (Cons kv kvs)
  obtain k v where kv: "kv = (k, v)" by fastforce
  then obtain u1 s1 where s1: "put k v s = (Ok u1, s1)" "put_all kvs s1 = (Ok u, s')"
    using Cons.prems(1) by (auto split: prod.splits xres.splits)
  show ?case using Cons.IH [OF s1(2)] put_Ok [OF s1(1) Cons.prems(2)]
    by (auto simp: kv map_add_def fun_eq_iff split: option.splits)
qed simp

lemma put_get: "put k v s = (Ok u, s') \<Longrightarrow> inv s \<Longrightarrow> get s' k = Some v"
  using put_Ok by auto

lemma put_other: "put k v s = (r, s') \<Longrightarrow> inv s \<Longrightarrow> k' \<noteq> k \<Longrightarrow> get s' k' = get s k'"
  using put_Ok put_Err by (cases r) auto

end

definition dense_inv :: "xair_vex_dense_map \<Rightarrow> bool" where
  "dense_inv dm \<longleftrightarrow> length (dm_defined dm) = length (dm_values dm)"

lemma reserve_Ok:
  assumes "vex_dense_reserve al k dm = (Ok u, dm')" "dense_inv dm"
  shows "dense_inv dm'" "vex_dense_get dm' = vex_dense_get dm" "unat k < length (dm_values dm')"
proof -
  consider "dm' = dm" "unat k < length (dm_values dm)"
    | n where "grow_loop (if length (dm_values dm) = 0 then 16 else length (dm_values dm)) (unat k + 1) = Some n"
        "length (dm_values dm) \<le> unat k"
        "dm' = \<lparr>dm_values = dm_values dm @ replicate (n - length (dm_values dm)) XAIR_INVALID_ID,
            dm_defined = dm_defined dm @ replicate (n - length (dm_values dm)) False\<rparr>"
    using assms(1) by (auto simp: vex_dense_reserve_def split: if_splits option.splits)
  then have "dense_inv dm' \<and> vex_dense_get dm' = vex_dense_get dm \<and> unat k < length (dm_values dm')"
  proof cases
    case 2
    have "unat k < n" using grow_loop_ge [OF _ 2(1)] by (cases "dm_values dm = []") auto
    with 2 assms(2) show ?thesis
      by (auto simp: dense_inv_def vex_dense_get_def fun_eq_iff nth_append)
  qed (use assms(2) in auto)
  then show "dense_inv dm'" "vex_dense_get dm' = vex_dense_get dm" "unat k < length (dm_values dm')" by auto
qed

lemma reserve_Err: "vex_dense_reserve al k dm = (Err e, dm') \<Longrightarrow> dm' = dm"
  by (auto simp: vex_dense_reserve_def split: if_splits option.splits)

interpretation tmps: key_store vex_dense_get "vex_dense_set al" dense_inv
proof
  fix k v dm u dm' assume put: "vex_dense_set al k v dm = (Ok u, dm')" and inv: "dense_inv dm"
  then obtain u1 d1 where 1: "vex_dense_reserve al k dm = (Ok u1, d1)"
      "dm' = d1\<lparr>dm_values := (dm_values d1)[unat k := v], dm_defined := (dm_defined d1)[unat k := True]\<rparr>"
    by (auto simp: vex_dense_set_def split: prod.splits xres.splits)
  note r = reserve_Ok [OF 1(1) inv]
  have "vex_dense_get dm' = (vex_dense_get d1)(k \<mapsto> v)" using r(1,3)
    by (auto simp: fun_eq_iff vex_dense_get_def 1(2) dense_inv_def nth_list_update simp flip: word_unat_eq_iff)
  then show "dense_inv dm' \<and> vex_dense_get dm' = (vex_dense_get dm)(k \<mapsto> v)"
    using r by (simp add: 1(2) dense_inv_def)
next
  fix k v dm e dm' assume "vex_dense_set al k v dm = (Err e, dm')" "dense_inv dm"
  then show "dense_inv dm' \<and> vex_dense_get dm' = vex_dense_get dm"
    by (auto simp: vex_dense_set_def split: prod.splits xres.splits dest: reserve_Err)
qed

definition sparse_get :: "xair_vex_map_entry list \<times> nat \<Rightarrow> u32 \<Rightarrow> xair_value_id option" where
  "sparse_get = (\<lambda>(es, cap) k. map_option (\<lambda>i. me_value (es ! i)) (vex_find_entry es k))"

lemma find_entry_Some: "vex_find_entry es k = Some i \<Longrightarrow> i < length es \<and> me_key (es ! i) = k"
  by (induction es k arbitrary: i rule: vex_find_entry.induct) (auto split: if_splits)

lemma find_entry_update:
  "vex_find_entry es k = Some i \<Longrightarrow> vex_find_entry (es[i := (es ! i)\<lparr>me_value := v\<rparr>]) k' = vex_find_entry es k'"
  by (induction es k arbitrary: i rule: vex_find_entry.induct) (auto split: if_splits)

lemma find_entry_append:
  "vex_find_entry (es @ [\<lparr>me_key = k, me_value = v\<rparr>]) k' =
     (case vex_find_entry es k' of Some i \<Rightarrow> Some i | None \<Rightarrow> if k' = k then Some (length es) else None)"
  by (induction es k' rule: vex_find_entry.induct) (auto split: option.splits)

interpretation sparse: key_store sparse_get "vex_set_entry al" "\<lambda>_. True"
proof
  fix k v s u s' assume put: "vex_set_entry al k v s = (Ok u, s')"
  obtain es cap where s: "s = (es, cap)" by fastforce
  show "True \<and> sparse_get s' = (sparse_get s)(k \<mapsto> v)"
  proof (cases "vex_find_entry es k")
    case None
    then show ?thesis using put
      by (auto simp: s vex_set_entry_def sparse_get_def find_entry_append fun_eq_iff nth_append
          split: xres.splits option.splits dest: find_entry_Some)
  next
    case (Some i)
    have "sparse_get (es[i := (es ! i)\<lparr>me_value := v\<rparr>], cap) k' = ((sparse_get s)(k \<mapsto> v)) k'" for k'
    proof (cases "vex_find_entry es k'")
      case (Some j)
      then show ?thesis using find_entry_Some [OF \<open>vex_find_entry es k = Some i\<close>] find_entry_Some [OF Some] \<open>vex_find_entry es k = Some i\<close>
        by (cases "j = i") (auto simp: s sparse_get_def find_entry_update [OF \<open>vex_find_entry es k = Some i\<close>])
    qed (use Some in \<open>auto simp: s sparse_get_def find_entry_update [OF Some]\<close>)
    then show ?thesis using put Some by (auto simp: s vex_set_entry_def fun_eq_iff)
  qed
next
  fix k v s e s' assume "vex_set_entry al k v s = (Err e, s')"
  then show "True \<and> sparse_get s' = sparse_get s" by (auto simp: vex_set_entry_def split: prod.splits option.splits xres.splits)
qed

text \<open>The invariant of an adapter; the count of direct registers decides whether their scratch array is allocated.\<close>

definition vex_inv :: "xair_vex_adapter \<Rightarrow> bool" where
  "vex_inv a \<longleftrightarrow> dense_inv (va_tmps a) \<and> length (va_regs a) = XAIR_VEX_REG_DIRECT_SLOTS \<and>
     length (va_reg_defined a) = XAIR_VEX_REG_DIRECT_SLOTS \<and> va_reg_count a = length (defined_at (va_reg_defined a))"

lemma length_defined_at: "length (defined_at ds) = card {j. j < length ds \<and> ds ! j}"
proof -
  have "card (set (defined_at ds)) = length (defined_at ds)" by (rule distinct_card) (simp add: defined_at_def)
  moreover have "set (defined_at ds) = {j. j < length ds \<and> ds ! j}" by (auto simp: defined_at_def)
  ultimately show ?thesis by simp
qed

lemma defined_at_update:
  assumes "i < length ds"
  shows "length (defined_at (ds[i := True])) = (if ds ! i then 0 else 1) + length (defined_at ds)"
proof -
  have "{j. j < length ds \<and> ds[i := True] ! j} = insert i {j. j < length ds \<and> ds ! j}"
    using assms by (auto simp: nth_list_update)
  then show ?thesis using assms by (simp add: length_defined_at card_insert_if)
qed

interpretation regs: key_store vex_lookup_reg "vex_store_reg al" vex_inv
proof
  fix k v a u a' assume put: "vex_store_reg al k v a = (Ok u, a')" and inv: "vex_inv a"
  show "vex_inv a' \<and> vex_lookup_reg a' = (vex_lookup_reg a)(k \<mapsto> v)"
  proof (cases "unat k < XAIR_VEX_REG_DIRECT_SLOTS")
    case True
    then have "vex_inv a'" using put inv
      by (cases "va_reg_defined a ! unat k")
        (auto simp: vex_store_reg_def vex_inv_def defined_at_update list_update_same_conv)
    moreover have "vex_lookup_reg a' x = ((vex_lookup_reg a)(k \<mapsto> v)) x" for x
      using True put inv
      by (cases "x = k") (auto simp: vex_store_reg_def vex_lookup_reg_def vex_inv_def simp flip: word_unat_eq_iff)
    ultimately show ?thesis by (simp add: fun_eq_iff)
  next
    case False
    then obtain es cap where e: "vex_set_entry al k v (va_sparse_regs a, va_sparse_reg_cap a) = (Ok u, (es, cap))"
        "a' = a\<lparr>va_sparse_regs := es, va_sparse_reg_cap := cap\<rparr>"
      using put by (auto simp: vex_store_reg_def split: prod.splits)
    have "sparse_get (es, cap) = (sparse_get (va_sparse_regs a, va_sparse_reg_cap a))(k \<mapsto> v)"
      using sparse.put_Ok [OF e(1)] by simp
    then have "vex_lookup_reg a' x = ((vex_lookup_reg a)(k \<mapsto> v)) x" for x
      using False by (simp add: e(2) vex_lookup_reg_def sparse_get_def fun_eq_iff)
    then show ?thesis using inv by (simp add: fun_eq_iff vex_inv_def e(2))
  qed
next
  fix k v a e a' assume put: "vex_store_reg al k v a = (Err e, a')" and inv: "vex_inv a"
  then obtain es cap where e: "vex_set_entry al k v (va_sparse_regs a, va_sparse_reg_cap a) = (Err e, (es, cap))"
      "a' = a\<lparr>va_sparse_regs := es, va_sparse_reg_cap := cap\<rparr>"
    by (auto simp: vex_store_reg_def split: prod.splits if_splits)
  then have "es = va_sparse_regs a" by (auto simp: vex_set_entry_def split: option.splits xres.splits)
  then show "vex_inv a' \<and> vex_lookup_reg a' = vex_lookup_reg a"
    using inv by (simp add: e(2) vex_inv_def fun_eq_iff vex_lookup_reg_def)
qed

section \<open>Operation names\<close>

lemma digit_char_simps: "d < 10 \<Longrightarrow> is_digit (digit_char d)" "d < 10 \<Longrightarrow> (of_char (digit_char d) :: nat) = 48 + d"
  by (simp_all add: is_digit_def digit_char_def)

text \<open>A printed number is read back, up to the next character that is not a digit.\<close>

definition decimal :: "nat \<Rightarrow> string \<Rightarrow> nat" where
  "decimal v ds = foldl (\<lambda>a c. a * 10 + (of_char c - 48)) v ds"

lemma decimal_dec_text: "decimal 0 (dec_text n) = n"
proof (induction n rule: dec_text.induct)
  case (1 n)
  then show ?case by (cases "n < 10") (simp_all add: dec_text.simps [of n] decimal_def digit_char_simps)
qed

lemma dec_text_digits: "list_all is_digit (dec_text n) \<and> dec_text n \<noteq> []"
proof (induction n rule: dec_text.induct)
  case (1 n)
  then show ?case by (cases "n < 10") (simp_all add: dec_text.simps [of n] digit_char_simps)
qed

lemma decimal_ge: "v \<le> decimal v ds"
proof (induction ds arbitrary: v)
  case (Cons c cs)
  have "v \<le> v * 10 + (of_char c - 48)" by simp
  also have "\<dots> \<le> decimal (v * 10 + (of_char c - 48)) cs" by (rule Cons.IH)
  finally show ?case by (simp add: decimal_def)
qed (simp add: decimal_def)

lemma parse_digits_decimal:
  "list_all is_digit ds \<Longrightarrow> decimal v ds \<le> 65535 \<Longrightarrow>
    vex_parse_digits v saw (ds @ rest) = vex_parse_digits (decimal v ds) (saw \<or> ds \<noteq> []) rest"
proof (induction ds arbitrary: v saw)
  case (Cons c cs)
  have "v * 10 + (of_char c - 48) \<le> 65535"
    using decimal_ge [of "v * 10 + (of_char c - 48)" cs] Cons.prems(2) by (simp add: decimal_def)
  then show ?case using Cons by (simp add: Let_def decimal_def)
qed (simp add: decimal_def)

lemma parse_dec_text:
  assumes "n \<le> 65535" "rest = [] \<or> \<not> is_digit (hd rest)"
  shows "vex_parse_u16 (dec_text n @ rest) = Some (n, rest)"
proof -
  have "vex_parse_u16 (dec_text n @ rest) = vex_parse_digits n True rest"
    using assms(1) dec_text_digits [of n] by (simp add: vex_parse_u16_def parse_digits_decimal decimal_dec_text)
  then show ?thesis using assms(2) by (cases rest) auto
qed

lemmas parse_width = parse_dec_text [where rest = "[]", simplified]

text \<open>A name made of a prefix without digits, a number and a rest matches no other prefix without digits.\<close>

abbreviation no_digits :: "string \<Rightarrow> bool" where
  "no_digits p \<equiv> list_all (\<lambda>c. \<not> is_digit c) p"

lemma parse_not_digit: "cs \<noteq> [] \<Longrightarrow> \<not> is_digit (hd cs) \<Longrightarrow> vex_parse_u16 cs = None"
  by (cases cs) (auto simp: vex_parse_u16_def)

lemma other_prefix:
  assumes "no_digits p" "no_digits q" "q \<noteq> p" "vex_starts_with (p @ dec_text n @ rest) q"
  shows "vex_parse_u16 (drop (length q) (p @ dec_text n @ rest)) = None"
proof -
  have q: "q = take (length q) (p @ dec_text n @ rest)" using assms(4) by (simp add: vex_starts_with_def)
  obtain d ds where d: "dec_text n = d # ds" "is_digit d" using dec_text_digits [of n] by (cases "dec_text n") auto
  have "length q < length p"
  proof (rule ccontr)
    assume "\<not> length q < length p"
    then consider "length q = length p" | "length p < length q" by linarith
    then show False
    proof cases
      case 1
      then show ?thesis using q assms(3) by simp
    next
      case 2
      then have "q ! length p = d" using arg_cong [OF q, of "\<lambda>xs. xs ! length p"] by (simp add: d(1) nth_append)
      then show ?thesis using 2 d(2) assms(2) by (auto simp: list_all_length)
    qed
  qed
  then have "drop (length q) p \<noteq> []" "\<not> is_digit (hd (drop (length q) p))"
    using assms(1) by (auto simp: hd_drop_conv_nth list_all_length)
  then show ?thesis using \<open>length q < length p\<close> by (intro parse_not_digit) auto
qed

lemma match_width_text:
  assumes "no_digits p" "no_digits q" "n \<le> 65535"
  shows "vex_match_width (p @ dec_text n) q = (if q = p then Some n else None)"
  using other_prefix [OF assms(1,2), of n "[]"] parse_width [OF assms(3)]
  by (auto simp: vex_match_width_def) (simp add: vex_starts_with_def)

lemma match_cmp_text:
  assumes "no_digits p" "no_digits q" "n \<le> 65535" "c = ''S'' \<or> c = ''U''"
  shows "vex_match_width (p @ dec_text n @ c) q = None"
    "vex_match_cmp (p @ dec_text n @ c) q = (if q = p then Some (n, hd c) else None)"
proof -
  have c: "c \<noteq> []" "\<not> is_digit (hd c)" using assms(4) by (auto simp: is_digit_def)
  note parse = parse_dec_text [OF assms(3), of c] c
  show "vex_match_width (p @ dec_text n @ c) q = None"
    using other_prefix [OF assms(1,2), of n c] parse by (cases "q = p") (auto simp: vex_match_width_def)
  show "vex_match_cmp (p @ dec_text n @ c) q = (if q = p then Some (n, hd c) else None)"
    using other_prefix [OF assms(1,2), of n c] parse assms(4)
    by (cases "q = p") (auto simp: vex_match_cmp_def, simp_all add: vex_starts_with_def)
qed

lemma map_width_text:
  "distinct (map fst tab) \<Longrightarrow> \<forall>(q, _) \<in> set tab. no_digits q \<Longrightarrow> (p, oc, truth) \<in> set tab \<Longrightarrow> n \<le> 65535 \<Longrightarrow>
    vex_map_width tab (p @ dec_text n) t = vex_check_width t n (oc, if truth then xair_type_i 1 else t)"
proof (induction tab)
  case (Cons e tab)
  obtain q oc' truth' where e: "e = (q, oc', truth')" by (cases e) auto
  have d: "no_digits p" "no_digits q" using Cons.prems(2,3) by (auto simp: e)
  show ?case
  proof (cases "q = p")
    case True
    then have "(oc', truth') = (oc, truth)" using Cons.prems(1,3) by (force simp: e)
    then show ?thesis using match_width_text [OF d Cons.prems(4)] True by (simp add: e)
  next
    case False
    then show ?thesis using Cons match_width_text [OF d Cons.prems(4)] by (auto simp: e)
  qed
qed simp

lemma map_width_cmp:
  "\<forall>(q, _) \<in> set tab. no_digits q \<Longrightarrow> no_digits p \<Longrightarrow> n \<le> 65535 \<Longrightarrow> c = ''S'' \<or> c = ''U'' \<Longrightarrow>
    vex_map_width tab (p @ dec_text n @ c) t = vex_map_cmp vex_cmp_ops (p @ dec_text n @ c) t"
  using match_cmp_text(1) by (induction tab) auto

lemma map_cmp_text:
  "distinct (map fst tab) \<Longrightarrow> \<forall>(q, _) \<in> set tab. no_digits q \<Longrightarrow> (p, s, u) \<in> set tab \<Longrightarrow> n \<le> 65535 \<Longrightarrow> c = ''S'' \<or> c = ''U'' \<Longrightarrow>
    vex_map_cmp tab (p @ dec_text n @ c) t = vex_check_width t n (if c = ''S'' then s else u, xair_type_i 1)"
proof (induction tab)
  case (Cons e tab)
  obtain q s' u' where e: "e = (q, s', u')" by (cases e) auto
  have d: "no_digits p" "no_digits q" using Cons.prems(2,3) by (auto simp: e)
  show ?case
  proof (cases "q = p")
    case True
    then have "(s', u') = (s, u)" using Cons.prems(1,3) by (force simp: e)
    then show ?thesis using match_cmp_text(2) [OF d Cons.prems(4,5)] True Cons.prems(5) by (auto simp: e)
  next
    case False
    then show ?thesis using Cons match_cmp_text(2) [OF d Cons.prems(4,5)] by (auto simp: e)
  qed
qed simp

lemma op_tables:
  "distinct (map fst vex_width_ops)" "\<forall>(q, _) \<in> set vex_width_ops. no_digits q"
  "distinct (map fst vex_cmp_ops)" "\<forall>(q, _) \<in> set vex_cmp_ops. no_digits q"
  by code_simp+

text \<open>The mapping of binary operations, printed and read back.\<close>

lemma map_binop_width:
  assumes "(p, oc, truth) \<in> set vex_width_ops" "n \<le> 65535"
  shows "vex_map_binop (p @ dec_text n) t = vex_check_width t n (oc, if truth then xair_type_i 1 else t)"
  unfolding vex_map_binop_def by (rule map_width_text [OF op_tables(1,2) assms])

lemma map_binop_cmp:
  assumes "(p, s, u) \<in> set vex_cmp_ops" "n \<le> 65535" "c = ''S'' \<or> c = ''U''"
  shows "vex_map_binop (p @ dec_text n @ c) t = vex_check_width t n (if c = ''S'' then s else u, xair_type_i 1)"
proof -
  have "no_digits p" using op_tables(4) assms(1) by auto
  then show ?thesis unfolding vex_map_binop_def
    using map_width_cmp [OF op_tables(2) _ assms(2,3)] map_cmp_text [OF op_tables(3,4) assms] by simp
qed

lemma map_unop_text:
  assumes "n \<le> 65535" "k \<le> 65535" "kind t = XAIR_TYPE_INT" "bits t = n"
  shows "vex_map_unop (''Iop_'' @ dec_text n @ ''Uto'' @ dec_text k) t =
      (if n < k then Ok (XAIR_OP_ZEXT, xair_type_i k) else Err XAIR_ERR_UNSUPPORTED)"
    "vex_map_unop (''Iop_'' @ dec_text n @ ''Sto'' @ dec_text k) t =
      (if n < k then Ok (XAIR_OP_SEXT, xair_type_i k) else Err XAIR_ERR_UNSUPPORTED)"
    "vex_map_unop (''Iop_'' @ dec_text n @ ''to'' @ dec_text k) t =
      (if k < n then Ok (XAIR_OP_TRUNC, xair_type_i k) else Err XAIR_ERR_UNSUPPORTED)"
  using assms parse_width [OF assms(2)]
  by (auto simp: vex_map_unop_def vex_starts_with_def vex_target_width_def parse_dec_text is_digit_def)

end
