(* ===== verification/Xair_Vex_Sound.thy ===== *)
theory Xair_Vex_Sound
  imports Xair_Vex
begin

text \<open>
  What a session with the VEX adapter does. Clients create an adapter, call its operations in any order and may call
  the builder on the same module in between; in every state they can reach the module is one that builder calls can
  reach, the maps of the adapter are well-formed and hold existing values. A side exit moves every live value to a
  parameter of the continuation block; a register that is first read after an exit breaks the branch to it.
\<close>

section \<open>Sessions\<close>

datatype vex_call =
    Set_tmp u32 xair_value_id
  | Get_reg u32 xair_type string
  | Put_reg u32 xair_value_id
  | Set_memory xair_value_id
  | Emit_const u32 xair_type u64 string
  | Emit_unop u32 string xair_value_id string
  | Emit_binop u32 string xair_value_id xair_value_id string
  | Emit_load u32 xair_type xair_value_id xair_endian string
  | Emit_store xair_value_id xair_value_id xair_endian string
  | Emit_exit xair_value_id xair_block_id "xair_value_id list" string
  | Finish_jump xair_block_id "xair_value_id list"
  | Finish_return "xair_value_id list"

fun run_vex :: "allocator \<Rightarrow> vex_call \<Rightarrow> xair_vex_adapter \<Rightarrow> nat xres \<times> xair_vex_adapter" where
  "run_vex al (Set_tmp k v) a = no_result (xair_vex_set_tmp al k v a)"
| "run_vex al (Get_reg k t nm) a = xair_vex_get_reg al k t nm a"
| "run_vex al (Put_reg k v) a = no_result (xair_vex_put_reg al k v a)"
| "run_vex al (Set_memory v) a = no_result (xair_vex_set_memory v a)"
| "run_vex al (Emit_const k t w nm) a = no_result (xair_vex_emit_const al k t w nm a)"
| "run_vex al (Emit_unop k op v nm) a = no_result (xair_vex_emit_unop al k op v nm a)"
| "run_vex al (Emit_binop k op v w nm) a = no_result (xair_vex_emit_binop al k op v w nm a)"
| "run_vex al (Emit_load k t v en nm) a = no_result (xair_vex_emit_load al k t v en nm a)"
| "run_vex al (Emit_store v w en nm) a = no_result (xair_vex_emit_store al v w en nm a)"
| "run_vex al (Emit_exit v b args nm) a = no_result (xair_vex_emit_exit al v b args nm a)"
| "run_vex al (Finish_jump b args) a = no_result (xair_vex_finish_jump al b args a)"
| "run_vex al (Finish_return vs) a = no_result (xair_vex_finish_return al vs a)"

text \<open>The states of a session; \<open>client\<close> is a builder call on the adapter's module.\<close>

inductive vex_session :: "xair_vex_adapter \<Rightarrow> bool" where
  create: "built m \<Longrightarrow> xair_vex_adapter_create al m b v = Ok a \<Longrightarrow> vex_session a"
| call: "vex_session a \<Longrightarrow> run_vex al c a = (r, a') \<Longrightarrow> vex_session a'"
| client: "vex_session a \<Longrightarrow> run_call al c (va_module a) = (r, m') \<Longrightarrow> vex_session (a\<lparr>va_module := m'\<rparr>)"

section \<open>Modules only grow\<close>

text \<open>\<open>calls m m'\<close>: builder calls lead from \<open>m\<close> to \<open>m'\<close>.\<close>

definition calls :: "xair_module \<Rightarrow> xair_module \<Rightarrow> bool" where
  "calls = (\<lambda>m m'. \<exists>al c r. run_call al c m = (r, m'))\<^sup>*\<^sup>*"

lemma calls_refl [simp]: "calls m m"
  by (simp add: calls_def)

lemma calls_trans: "calls m m' \<Longrightarrow> calls m' m'' \<Longrightarrow> calls m m''"
  by (simp add: calls_def)

lemma calls_call: "run_call al c m = (r, m') \<Longrightarrow> calls m m'"
  unfolding calls_def by blast

lemma calls_built: "calls m m' \<Longrightarrow> built m \<Longrightarrow> built m'"
  unfolding calls_def by (induction rule: rtranclp_induct) (auto intro: built.call)

lemma set_term_vals: "set_term b t m = (r, m') \<Longrightarrow> vals m' = vals m"
  by (auto simp: set_term_def split: if_splits)

lemma term_ops_vals:
  "xair_set_jump al b d args m = (r, m') \<Longrightarrow> vals m' = vals m"
  "xair_set_cbranch al b c d args d' args' m = (r', m') \<Longrightarrow> vals m' = vals m"
  "xair_set_return al b args m = (r, m') \<Longrightarrow> vals m' = vals m"
  "xair_set_trap b k m = (r, m') \<Longrightarrow> vals m' = vals m"
  "xair_set_fault b k m = (r, m') \<Longrightarrow> vals m' = vals m"
  "xair_module_freeze al m = (r, m') \<Longrightarrow> vals m' = vals m"
  by (auto simp: xair_set_jump_def xair_set_cbranch_def xair_set_return_def xair_set_trap_def xair_set_fault_def
      xbind_def append_term_args_def xair_module_freeze_def stored_alike_def split: if_splits prod.splits xres.splits
      dest!: set_term_vals finalize_module_storage_spec)

lemma call_vals_grow:
  assumes inv: "module_inv m" and call: "run_call al c m = (r, m')"
  shows "length (vals m) \<le> length (vals m')"
proof (cases "op_call c")
  case True
  show ?thesis
  proof (rule op_call_induct [OF True call, where P = "\<lambda>r m'. length (vals m) \<le> length (vals m')"])
    fix b oc t srcs im en nm r m'
    assume *: "add_op al b oc t srcs im en nm m = (r, m')" "\<forall>s \<in> set srcs. s < length (vals m)"
    show "length (vals m) \<le> length (vals m')" using add_op_extends [OF *(1) inv *(2)] by (meson linorder_not_less order_refl)
  qed simp
next
  case False
  then show ?thesis using call
    by (cases c) (auto simp: op_call_def no_result_eq param_added_def dest!: term_ops_vals
        elim!: xair_block_create_cases xair_block_add_param_cases)
qed

lemma calls_vals: "calls m m' \<Longrightarrow> built m \<Longrightarrow> length (vals m) \<le> length (vals m')"
  unfolding calls_def
proof (induction rule: rtranclp_induct)
  case (step m1 m2)
  then have "built m1" using calls_built unfolding calls_def by blast
  then show ?case using step call_vals_grow built_module_inv by (meson order_trans)
qed simp

lemma set_term_blocks: "set_term b t m = (r, m') \<Longrightarrow> length (blocks m') = length (blocks m)"
  by (auto simp: set_term_def split: if_splits)

lemma finalize_blocks: "finalize_module_storage al m = (r, m') \<Longrightarrow> length (blocks m') = length (blocks m)"
  by (metis finalize_module_storage_spec stored_alike_def list_all2_lengthD)

lemma term_ops_blocks:
  "xair_set_jump al b d args m = (r, m') \<Longrightarrow> length (blocks m') = length (blocks m)"
  "xair_set_cbranch al b c d args d' args' m = (r', m') \<Longrightarrow> length (blocks m') = length (blocks m)"
  "xair_set_return al b args m = (r, m') \<Longrightarrow> length (blocks m') = length (blocks m)"
  "xair_set_trap b k m = (r, m') \<Longrightarrow> length (blocks m') = length (blocks m)"
  "xair_set_fault b k m = (r, m') \<Longrightarrow> length (blocks m') = length (blocks m)"
  "xair_module_freeze al m = (r, m') \<Longrightarrow> length (blocks m') = length (blocks m)"
  by (auto simp: xair_set_jump_def xair_set_cbranch_def xair_set_return_def xair_set_trap_def xair_set_fault_def
      xbind_def append_term_args_def xair_module_freeze_def split: if_splits prod.splits xres.splits
      dest!: set_term_blocks finalize_blocks)

lemma call_blocks_grow:
  assumes inv: "module_inv m" and call: "run_call al c m = (r, m')"
  shows "length (blocks m) \<le> length (blocks m')"
proof (cases "op_call c")
  case True
  show ?thesis
  proof (rule op_call_induct [OF True call, where P = "\<lambda>r m'. length (blocks m) \<le> length (blocks m')"])
    fix b oc t srcs im en nm r m'
    assume *: "add_op al b oc t srcs im en nm m = (r, m')" "\<forall>s \<in> set srcs. s < length (vals m)"
    have "length (blocks m') = length (blocks m)" using *(1) inv *(2)
    proof (cases rule: add_op_cases)
      case (fresh s tab c c' c'')
      then show ?thesis using numbered_fields(3) by (metis length_list_update)
    qed (simp_all add: content_eq_def)
    then show "length (blocks m) \<le> length (blocks m')" by simp
  qed simp
next
  case False
  then show ?thesis using call
    by (cases c) (auto simp: op_call_def no_result_eq param_added_def dest!: term_ops_blocks
        elim!: xair_block_create_cases xair_block_add_param_cases)
qed

lemma calls_blocks: "calls m m' \<Longrightarrow> built m \<Longrightarrow> length (blocks m) \<le> length (blocks m')"
  unfolding calls_def
proof (induction rule: rtranclp_induct)
  case (step m1 m2)
  then have "built m1" using calls_built unfolding calls_def by blast
  then show ?case using step call_blocks_grow built_module_inv by (meson order_trans)
qed simp

lemma calls_simple:
  "xair_block_create al nm m = (r, m') \<Longrightarrow> calls m m'"
  "xair_block_add_param al b t nm m = (r, m') \<Longrightarrow> calls m m'"
  "xair_build_const_u64 al b t w nm m = (r, m') \<Longrightarrow> calls m m'"
  "xair_build_unary al b oc t v nm m = (r, m') \<Longrightarrow> calls m m'"
  "xair_build_binary al b oc t v v' nm m = (r, m') \<Longrightarrow> calls m m'"
  "xair_build_load al b t v v' en nm m = (r, m') \<Longrightarrow> calls m m'"
  "xair_build_store al b v v' v'' en nm m = (r, m') \<Longrightarrow> calls m m'"
  by (metis run_call.simps calls_call)+

lemma calls_no_result: "run_call al c m = no_result (f m) \<Longrightarrow> f m = (r, m') \<Longrightarrow> calls m m'"
  using calls_call [of al c m] by (cases r) (auto simp: no_result_def)

lemma calls_terms:
  "xair_set_jump al b d args m = (r, m') \<Longrightarrow> calls m m'"
  "xair_set_cbranch al b v d args d' args' m = (r, m') \<Longrightarrow> calls m m'"
  "xair_set_return al b args m = (r, m') \<Longrightarrow> calls m m'"
  by (metis run_call.simps calls_no_result)+

section \<open>Live values\<close>

definition live :: "xair_vex_adapter \<Rightarrow> (string \<times> xair_value_id) list" where
  "live a = live_memory a @ live_tmps a @ live_direct_regs a @ live_sparse_regs a"

text \<open>The values stored at the positions in use, and the live values as a set.\<close>

definition stored :: "bool list \<Rightarrow> xair_value_id list \<Rightarrow> xair_value_id set" where
  "stored ds xs = (!) xs ` {i. i < length ds \<and> ds ! i}"

definition live_ids :: "xair_vex_adapter \<Rightarrow> xair_value_id set" where
  "live_ids a = (if va_has_memory a then {va_memory a} else {}) \<union> stored (dm_defined (va_tmps a)) (dm_values (va_tmps a)) \<union>
     stored (va_reg_defined a) (va_regs a) \<union> me_value ` set (va_sparse_regs a)"

definition live_ok :: "xair_vex_adapter \<Rightarrow> bool" where
  "live_ok a \<longleftrightarrow> (\<forall>v \<in> live_ids a. v < length (vals (va_module a)))"

lemmas live_defs = live_def live_memory_def live_tmps_def live_direct_regs_def live_sparse_regs_def

lemma set_defined_at: "set (defined_at ds) = {i. i < length ds \<and> ds ! i}"
  by (auto simp: defined_at_def)

lemma snd_live: "snd ` set (live a) = live_ids a"
  by (simp add: live_defs live_ids_def stored_def set_defined_at image_Un image_image Un_assoc)

lemma stored_update:
  assumes "length ds \<le> length xs"
  shows "stored (ds[k := True]) (xs[k := v]) \<subseteq> insert v (stored ds xs)"
proof
  fix w assume "w \<in> stored (ds[k := True]) (xs[k := v])"
  then obtain i where i: "i < length ds" "ds[k := True] ! i" "w = xs[k := v] ! i" by (auto simp: stored_def)
  show "w \<in> insert v (stored ds xs)"
  proof (cases "i = k")
    case True
    then show ?thesis using i assms by simp
  qed (use i in \<open>auto simp: stored_def\<close>)
qed

text \<open>Storing a value adds at most that value to the live ones.\<close>

lemma dense_set_live:
  assumes "vex_dense_set al k v dm = (r, dm')" "dense_inv dm"
  shows "stored (dm_defined dm') (dm_values dm') \<subseteq> insert v (stored (dm_defined dm) (dm_values dm))"
proof (cases r)
  case (Ok u)
  then obtain u1 d1 where 1: "vex_dense_reserve al k dm = (Ok u1, d1)"
      "dm' = d1\<lparr>dm_values := (dm_values d1)[unat k := v], dm_defined := (dm_defined d1)[unat k := True]\<rparr>"
    using assms(1) by (auto simp: vex_dense_set_def split: prod.splits xres.splits)
  have "stored (dm_defined d1) (dm_values d1) \<subseteq> stored (dm_defined dm) (dm_values dm)"
    using 1(1) assms(2)
    by (auto simp: vex_dense_reserve_def dense_inv_def nth_append stored_def split: if_splits option.splits)
  moreover have "length (dm_defined d1) = length (dm_values d1)"
    using reserve_Ok(1) [OF 1(1) assms(2)] by (simp add: dense_inv_def)
  ultimately show ?thesis using stored_update [of "dm_defined d1" "dm_values d1" "unat k" v] by (auto simp: 1(2))
next
  case (Err e)
  then have "dm' = dm" using assms(1) by (auto simp: vex_dense_set_def split: prod.splits xres.splits dest: reserve_Err)
  then show ?thesis by blast
qed

lemma set_entry_live:
  assumes "vex_set_entry al k v (es, cap) = (r, (es', cap'))"
  shows "me_value ` set es' \<subseteq> insert v (me_value ` set es)"
  using assms by (auto simp: vex_set_entry_def split: option.splits xres.splits dest!: subsetD [OF set_update_subset_insert])

lemma store_reg_live:
  assumes "vex_store_reg al k v a = (r, a')" "vex_inv a"
  shows "live_ids a' \<subseteq> insert v (live_ids a) \<and> va_module a' = va_module a \<and> va_current a' = va_current a \<and> vex_inv a'"
proof -
  have inv: "vex_inv a'" using assms regs.put_Ok regs.put_Err by (cases r) blast+
  show ?thesis
  proof (cases "unat k < XAIR_VEX_REG_DIRECT_SLOTS")
    case True
    then show ?thesis using assms inv stored_update [of "va_reg_defined a" "va_regs a" "unat k" v]
      by (auto simp: vex_store_reg_def live_ids_def vex_inv_def [of a])
  next
    case False
    then obtain es cap where e: "vex_set_entry al k v (va_sparse_regs a, va_sparse_reg_cap a) = (r, (es, cap))"
        "a' = a\<lparr>va_sparse_regs := es, va_sparse_reg_cap := cap\<rparr>"
      using assms(1) by (auto simp: vex_store_reg_def split: prod.splits)
    with set_entry_live [OF e(1)] inv show ?thesis by (auto simp: live_ids_def)
  qed
qed

text \<open>The invariant of a session.\<close>

definition vex_ok :: "xair_vex_adapter \<Rightarrow> bool" where
  "vex_ok a \<longleftrightarrow> built (va_module a) \<and> vex_inv a \<and> live_ok a \<and> va_current a < length (blocks (va_module a))"

lemma valid_less: "vex_valid_value m v \<Longrightarrow> v < length (vals m)"
  by (auto simp: vex_valid_value_def xair_value_type_def valid_value_def xair_type_invalid_def split: if_splits)

lemma vex_ok_store:
  assumes "vex_ok a" "v < length (vals (va_module a))" "vex_store_reg al k v a = (r, a')"
  shows "vex_ok a'"
  using store_reg_live [OF assms(3)] assms(1,2) by (auto simp: vex_ok_def live_ok_def)

lemma vex_ok_set_tmp:
  assumes ok: "vex_ok a" and call: "xair_vex_set_tmp al k v a = (r, a')"
  shows "vex_ok a'"
proof (cases "vex_valid_value (va_module a) v")
  case True
  then obtain dm where dm: "vex_dense_set al k v (va_tmps a) = (r, dm)" "a' = a\<lparr>va_tmps := dm\<rparr>"
    using call by (auto simp: xair_vex_set_tmp_def split: prod.splits)
  have inv: "dense_inv (va_tmps a)" using ok by (simp add: vex_inv_def vex_ok_def)
  then have "dense_inv dm" using tmps.put_Ok tmps.put_Err dm(1) by (cases r) blast+
  then show ?thesis using valid_less [OF True] ok dm(2) dense_set_live [OF dm(1) inv]
    by (auto simp: live_ids_def live_ok_def vex_ok_def vex_inv_def)
qed (use assms in \<open>simp add: xair_vex_set_tmp_def\<close>)

lemma live_module [simp]: "live_ids (a\<lparr>va_module := m\<rparr>) = live_ids a" "vex_inv (a\<lparr>va_module := m\<rparr>) = vex_inv a"
  by (simp_all add: live_ids_def vex_inv_def)

lemma vex_ok_module: "vex_ok a \<Longrightarrow> calls (va_module a) m \<Longrightarrow> vex_ok (a\<lparr>va_module := m\<rparr>)"
  using calls_vals [of "va_module a" m] calls_blocks [of "va_module a" m] calls_built [of "va_module a" m]
  by (auto simp: vex_ok_def live_ok_def intro: less_le_trans)

text \<open>Operations that keep the invariant.\<close>

definition keeps_ok :: "'a vex_op \<Rightarrow> xair_vex_adapter \<Rightarrow> bool" where
  "keeps_ok f a \<longleftrightarrow> (vex_ok a \<longrightarrow> vex_ok (snd (f a)))"

lemma keeps_ok_module:
  assumes "\<And>r m'. f (va_module a) = (r, m') \<Longrightarrow> calls (va_module a) m'"
  shows "keeps_ok (in_module f) a"
  using assms vex_ok_module by (auto simp: keeps_ok_def in_module_def split: prod.split)

lemma keeps_ok_bind:
  assumes "keeps_ok f a" "\<And>v a'. f a = (Ok v, a') \<Longrightarrow> vex_ok a' \<Longrightarrow> keeps_ok (g v) a'"
  shows "keeps_ok (xbind f g) a"
  using assms by (auto simp: keeps_ok_def xbind_def split: prod.splits xres.splits)

lemma keeps_ok_tmp: "keeps_ok (xair_vex_set_tmp al k v) a"
  using vex_ok_set_tmp [OF _ prod.collapse [symmetric]] by (simp add: keeps_ok_def)

lemma keeps_ok_emit:
  "keeps_ok (xair_vex_emit_const al k t w nm) a" "keeps_ok (xair_vex_emit_unop al k op v nm) a"
  "keeps_ok (xair_vex_emit_binop al k op v v' nm) a" "keeps_ok (xair_vex_emit_load al k t v en nm) a"
proof -
  have tmp: "keeps_ok (xbind (in_module f) (xair_vex_set_tmp al k)) a" if "\<And>r m'. f (va_module a) = (r, m') \<Longrightarrow> calls (va_module a) m'" for f
    by (intro keeps_ok_bind keeps_ok_module that keeps_ok_tmp)
  show "keeps_ok (xair_vex_emit_const al k t w nm) a"
    using tmp [OF calls_simple(3)] by (simp add: keeps_ok_def xair_vex_emit_const_def)
  show "keeps_ok (xair_vex_emit_unop al k op v nm) a"
    using tmp [OF calls_simple(4)] by (auto simp: keeps_ok_def xair_vex_emit_unop_def split: xres.split)
  show "keeps_ok (xair_vex_emit_binop al k op v v' nm) a"
    using tmp [OF calls_simple(5)] by (auto simp: keeps_ok_def xair_vex_emit_binop_def Let_def split: xres.split)
  show "keeps_ok (xair_vex_emit_load al k t v en nm) a"
    using tmp [OF calls_simple(6)] by (auto simp: keeps_ok_def xair_vex_emit_load_def)
qed

lemma call_result_valid:
  assumes "module_inv m"
  shows "xair_block_add_param al b t nm m = (Ok v, m') \<Longrightarrow> v < length (vals m')"
    "xair_build_store al b x y z en nm m = (Ok v, m') \<Longrightarrow> v < length (vals m')"
proof -
  show "xair_block_add_param al b t nm m = (Ok v, m') \<Longrightarrow> v < length (vals m')"
    by (erule xair_block_add_param_cases) (auto simp: param_added_def)
  assume "xair_build_store al b x y z en nm m = (Ok v, m')"
  then have call: "run_call al (Build_store b x y z en nm) m = (Ok v, m')" by simp
  have "\<forall>w. Ok v = Ok w \<longrightarrow> w < length (vals m')"
  proof (rule op_call_induct [OF _ call, where P = "\<lambda>r m'. \<forall>w. r = Ok w \<longrightarrow> w < length (vals m')"])
    fix b oc t srcs im en nm r m'
    assume "add_op al b oc t srcs im en nm m = (r, m')" "\<forall>s \<in> set srcs. s < length (vals m)"
    then show "\<forall>w. r = Ok w \<longrightarrow> w < length (vals m')"
      by (rule add_op_cases [OF _ assms]) (auto simp: is_op_value_def content_eq_def)
  qed (simp_all add: op_call_def)
  then show "v < length (vals m')" by simp
qed

section \<open>Moving values to a block\<close>

text \<open>\<open>moved c m m' vs ws\<close>: block \<open>c\<close> has got the new parameters \<open>ws\<close>, with the types of the values \<open>vs\<close>.\<close>

definition moved :: "xair_block_id \<Rightarrow> xair_module \<Rightarrow> xair_module \<Rightarrow> xair_value_id list \<Rightarrow> xair_value_id list \<Rightarrow> bool" where
  "moved c m m' vs ws \<longleftrightarrow>
     (\<exists>new. vals m' = vals m @ new \<and> map val_type new = map (xair_value_type m) vs) \<and>
     ws = [length (vals m)..<length (vals m')] \<and> ops m' = ops m \<and> term_args m' = term_args m \<and>
     length (blocks m') = length (blocks m) \<and> (\<forall>b. b \<noteq> c \<longrightarrow> blocks m' ! b = blocks m ! b) \<and>
     params (blocks m' ! c) = params (blocks m ! c) @ ws \<and> blk_ops (blocks m' ! c) = blk_ops (blocks m ! c) \<and>
     blk_term (blocks m' ! c) = blk_term (blocks m ! c)"

lemma moved_refl: "moved c m m [] []"
  by (simp add: moved_def)

lemma moved_trans:
  assumes 1: "moved c m m1 vs ws" and 2: "moved c m1 m2 vs' ws'" and valid: "\<forall>v \<in> set vs'. v < length (vals m)"
  shows "moved c m m2 (vs @ vs') (ws @ ws')"
proof -
  obtain new where new: "vals m1 = vals m @ new" "map val_type new = map (xair_value_type m) vs" using 1 by (auto simp: moved_def)
  obtain new' where new': "vals m2 = vals m1 @ new'" "map val_type new' = map (xair_value_type m1) vs'"
    using 2 by (auto simp: moved_def)
  have "map (xair_value_type m1) vs' = map (xair_value_type m) vs'"
    using valid by (auto simp: xair_value_type_def valid_value_def new(1) nth_append)
  then have "\<exists>new. vals m2 = vals m @ new \<and> map val_type new = map (xair_value_type m) (vs @ vs')"
    using new new' by (intro exI [of _ "new @ new'"]) simp
  moreover have "[length (vals m)..<length (vals m1)] @ [length (vals m1)..<length (vals m2)] = [length (vals m)..<length (vals m2)]"
    using upt_add_eq_append [of "length (vals m)" "length (vals m1)" "length new'"] by (simp add: new(1) new'(1) add.assoc)
  ultimately show ?thesis using 1 2 by (simp add: moved_def)
qed

lemma moved_length: "moved c m m' vs ws \<Longrightarrow> length ws = length vs"
  unfolding moved_def by (elim conjE exE) (metis add_diff_cancel_left' length_append length_map length_upt)

lemma add_param_moved:
  assumes "xair_block_add_param al c (xair_value_type m v) nm m = (Ok w, m')"
  shows "moved c m m' [v] [w]"
  using assms by (cases rule: xair_block_add_param_cases) (auto simp: moved_def param_added_def)

lemma append_arg_simps:
  "vex_append_arg al v x = (r, x') \<Longrightarrow> xs_module x' = xs_module x"
  "vex_append_arg al v x = (Ok u, x') \<Longrightarrow> xs_args x' = xs_args x @ [v]"
  by (auto simp: vex_append_arg_def split: xres.splits)

lemma transfer_calls: "vex_transfer_value_to_continuation al c nm v x = (r, x') \<Longrightarrow> calls (xs_module x) (xs_module x')"
  by (auto simp: vex_transfer_value_to_continuation_def xbind_def xreturn_def split: prod.splits xres.splits
      dest!: calls_simple(2) append_arg_simps(1))

lemma transfer_moved:
  "vex_transfer_value_to_continuation al c nm v x = (Ok w, x') \<Longrightarrow>
    moved c (xs_module x) (xs_module x') [v] [w] \<and> xs_args x' = xs_args x @ [v]"
  by (auto simp: vex_transfer_value_to_continuation_def xbind_def xreturn_def split: prod.splits xres.splits
      dest: append_arg_simps dest!: add_param_moved)

lemma transfer_all_calls: "vex_transfer_all al c items x = (r, x') \<Longrightarrow> calls (xs_module x) (xs_module x')"
proof (induction items arbitrary: x r x')
  case (Cons i js)
  obtain nm v where i: "i = (nm, v)" by fastforce
  obtain q x1 where 1: "vex_transfer_value_to_continuation al c nm v x = (q, x1)" by fastforce
  obtain q2 x2 where 2: "vex_transfer_all al c js x1 = (q2, x2)" by fastforce
  show ?case using Cons.prems transfer_calls [OF 1] Cons.IH [OF 2] calls_trans
    by (cases q; cases q2) (auto simp: i xbind_def xreturn_def 1 2)
qed (simp add: xreturn_def)

lemma transfer_all_moved:
  "vex_transfer_all al c items x = (Ok ws, x') \<Longrightarrow> \<forall>v \<in> set (map snd items). v < length (vals (xs_module x)) \<Longrightarrow>
    moved c (xs_module x) (xs_module x') (map snd items) ws \<and> xs_args x' = xs_args x @ map snd items"
proof (induction items arbitrary: x ws x')
  case (Cons i js)
  obtain nm v where i: "i = (nm, v)" by fastforce
  obtain q x1 where 1: "vex_transfer_value_to_continuation al c nm v x = (q, x1)" by fastforce
  obtain q2 x2 where 2: "vex_transfer_all al c js x1 = (q2, x2)" by fastforce
  obtain w ws' where ok: "q = Ok w" "q2 = Ok ws'" "ws = w # ws'" "x' = x2"
    using Cons.prems(1) by (cases q; cases q2) (auto simp: i xbind_def xreturn_def 1 2)
  have m1: "moved c (xs_module x) (xs_module x1) [v] [w]" "xs_args x1 = xs_args x @ [v]"
    using transfer_moved [OF 1 [unfolded ok(1)]] by auto
  then have "length (vals (xs_module x)) \<le> length (vals (xs_module x1))" by (auto simp: moved_def)
  then have m2: "moved c (xs_module x1) (xs_module x2) (map snd js) ws'" "xs_args x2 = xs_args x1 @ map snd js"
    using Cons.IH [OF 2 [unfolded ok(2)]] Cons.prems(2) by (auto simp: i intro: less_le_trans)
  have "moved c (xs_module x) (xs_module x2) ([v] @ map snd js) ([w] @ ws')"
    by (rule moved_trans [OF m1(1) m2(1)]) (use Cons.prems(2) in \<open>auto simp: i\<close>)
  then show ?case using ok m1 m2 by (simp add: i)
qed (simp add: xreturn_def moved_refl)

lemma transfer_state_calls: "vex_transfer_state al c a x = (r, x') \<Longrightarrow> calls (xs_module x) (xs_module x')"
  by (auto simp: vex_transfer_state_def xbind_def xreturn_def split: prod.splits xres.splits
      dest!: transfer_all_calls intro: calls_trans)

lemma transfer_state_moved:
  assumes run: "vex_transfer_state al c a x = (Ok (w1, w2, w3, w4), x')"
    and valid: "\<forall>v \<in> live_ids a. v < length (vals (xs_module x))"
  shows "moved c (xs_module x) (xs_module x') (map snd (live a)) (w1 @ w2 @ w3 @ w4)" "xs_args x' = xs_args x @ map snd (live a)"
    "length w1 = length (live_memory a)" "length w2 = length (live_tmps a)" "length w3 = length (live_direct_regs a)"
    "length w4 = length (live_sparse_regs a)"
proof -
  obtain x1 x2 x3 where t: "vex_transfer_all al c (live_memory a) x = (Ok w1, x1)" "vex_transfer_all al c (live_tmps a) x1 = (Ok w2, x2)"
      "vex_transfer_all al c (live_direct_regs a) x2 = (Ok w3, x3)" "vex_transfer_all al c (live_sparse_regs a) x3 = (Ok w4, x')"
    using run by (auto simp: vex_transfer_state_def xbind_def xreturn_def split: prod.splits xres.splits)
  have "\<forall>v \<in> set (map snd (live a)). v < length (vals (xs_module x))" using valid by (simp add: snd_live)
  then have v: "\<forall>v \<in> set (map snd (live_memory a)). v < length (vals (xs_module x))"
    "\<forall>v \<in> set (map snd (live_tmps a)). v < length (vals (xs_module x))"
    "\<forall>v \<in> set (map snd (live_direct_regs a)). v < length (vals (xs_module x))"
    "\<forall>v \<in> set (map snd (live_sparse_regs a)). v < length (vals (xs_module x))"
    by (simp_all add: live_def ball_Un)
  have grow: "length (vals m) \<le> length (vals m')" if "moved c m m' vs ws" for m m' vs ws using that by (auto simp: moved_def)
  note m1 = transfer_all_moved [OF t(1) v(1)]
  note l1 = grow [OF conjunct1 [OF m1]]
  have m2: "moved c (xs_module x1) (xs_module x2) (map snd (live_tmps a)) w2 \<and> xs_args x2 = xs_args x1 @ map snd (live_tmps a)"
    by (rule transfer_all_moved [OF t(2)]) (use v(2) l1 in \<open>auto intro: less_le_trans\<close>)
  note l2 = order_trans [OF l1 grow [OF conjunct1 [OF m2]]]
  have m3: "moved c (xs_module x2) (xs_module x3) (map snd (live_direct_regs a)) w3 \<and>
      xs_args x3 = xs_args x2 @ map snd (live_direct_regs a)"
    by (rule transfer_all_moved [OF t(3)]) (use v(3) l2 in \<open>auto intro: less_le_trans\<close>)
  note l3 = order_trans [OF l2 grow [OF conjunct1 [OF m3]]]
  have m4: "moved c (xs_module x3) (xs_module x') (map snd (live_sparse_regs a)) w4 \<and>
      xs_args x' = xs_args x3 @ map snd (live_sparse_regs a)"
    by (rule transfer_all_moved [OF t(4)]) (use v(4) l3 in \<open>auto intro: less_le_trans\<close>)
  note 12 = moved_trans [OF conjunct1 [OF m1] conjunct1 [OF m2] v(2)]
  note 123 = moved_trans [OF 12 conjunct1 [OF m3] v(3)]
  from moved_trans [OF 123 conjunct1 [OF m4] v(4)]
  show "moved c (xs_module x) (xs_module x') (map snd (live a)) (w1 @ w2 @ w3 @ w4)" by (simp add: live_def)
  show "xs_args x' = xs_args x @ map snd (live a)" using m1 m2 m3 m4 by (simp add: live_def)
  show "length w1 = length (live_memory a)" "length w2 = length (live_tmps a)" "length w3 = length (live_direct_regs a)"
    "length w4 = length (live_sparse_regs a)"
    using m1 m2 m3 m4 by (auto dest!: moved_length)
qed

text \<open>Writing values back puts them where they are read again.\<close>

lemma length_write_back [simp]: "length (write_back is vs xs) = length xs"
  by (induction "is" vs xs rule: write_back.induct) auto

lemma write_back_other: "i \<notin> set is \<Longrightarrow> write_back is vs xs ! i = xs ! i"
  by (induction "is" vs xs rule: write_back.induct) auto

lemma map_write_back:
  "distinct is \<Longrightarrow> \<forall>i \<in> set is. i < length xs \<Longrightarrow> length vs = length is \<Longrightarrow> map ((!) (write_back is vs xs)) is = vs"
  by (induction "is" vs xs rule: write_back.induct) (auto simp: write_back_other)

lemma distinct_defined_at [simp]: "distinct (defined_at ds)"
  by (simp add: defined_at_def)

lemma enter_live:
  fixes c :: xair_block_id
  assumes inv: "vex_inv a" and lens: "length w1 = length (live_memory a)" "length w2 = length (live_tmps a)"
      "length w3 = length (live_direct_regs a)" "length w4 = length (live_sparse_regs a)"
  defines "a' \<equiv> vex_enter_continuation c (w1, w2, w3, w4) a"
  shows "map snd (live a') = w1 @ w2 @ w3 @ w4" "map fst (live a') = map fst (live a)" "vex_inv a'"
proof -
  have tmps: "map ((!) (write_back (defined_at (dm_defined (va_tmps a))) w2 (dm_values (va_tmps a)))) (defined_at (dm_defined (va_tmps a))) = w2"
    using inv lens(2) by (intro map_write_back) (auto simp: set_defined_at vex_inv_def dense_inv_def live_tmps_def)
  have regs: "map ((!) (write_back (defined_at (va_reg_defined a)) w3 (va_regs a))) (defined_at (va_reg_defined a)) = w3"
    using inv lens(3) by (intro map_write_back) (auto simp: set_defined_at vex_inv_def live_direct_regs_def)
  have mem: "live_memory a' = map (\<lambda>v. (''mem'', v)) w1" using lens(1)
    by (cases w1; cases "va_has_memory a") (auto simp: a'_def live_memory_def vex_enter_continuation_def)
  have sparse: "live_sparse_regs a' = map (\<lambda>(e, v). (''r'' @ dec_text (unat (me_key e)), v)) (zip (va_sparse_regs a) w4)"
    by (simp add: a'_def live_sparse_regs_def vex_enter_continuation_def case_prod_unfold)
  have len4: "length w4 = length (va_sparse_regs a)" using lens(4) by (simp add: live_sparse_regs_def)
  show "map snd (live a') = w1 @ w2 @ w3 @ w4"
    using tmps regs len4 by (simp add: live_def mem sparse comp_def case_prod_unfold)
      (simp add: a'_def live_tmps_def live_direct_regs_def vex_enter_continuation_def comp_def)
  have "map fst (live_sparse_regs a') = map fst (live_sparse_regs a)"
    unfolding sparse live_sparse_regs_def [of a] by (rule nth_equalityI) (simp_all add: len4 case_prod_unfold)
  moreover have "map fst (live_memory a') = map fst (live_memory a)" using lens(1)
    unfolding mem live_memory_def [of a] by (auto simp: length_Suc_conv)
  ultimately show "map fst (live a') = map fst (live a)"
    by (simp add: live_def) (simp add: a'_def live_tmps_def live_direct_regs_def vex_enter_continuation_def)
  show "vex_inv a'" using inv by (simp add: a'_def vex_enter_continuation_def vex_inv_def dense_inv_def)
qed

section \<open>Side exits\<close>

lemma set_cbranch_Ok:
  assumes "xair_set_cbranch al b cond t targs f fargs m = (Ok u, m')"
  shows "b < length (blocks m)" "vals m' = vals m" "ops m' = ops m" "length (blocks m') = length (blocks m)"
    "\<And>d. d \<noteq> b \<Longrightarrow> blocks m' ! d = blocks m ! d" "params (blocks m' ! b) = params (blocks m ! b)"
    "term_kind (blk_term (blocks m' ! b)) = XAIR_TERM_CBRANCH" "condition (blk_term (blocks m' ! b)) = cond"
    "true_target (blk_term (blocks m' ! b)) = t" "false_target (blk_term (blocks m' ! b)) = f"
    "term_args_const m' (blk_term (blocks m' ! b)) False = targs" "term_args_const m' (blk_term (blocks m' ! b)) True = fargs"
    "false_arg_count (blk_term (blocks m' ! b)) = length fargs"
proof -
  have b: "b < length (blocks m)" using assms
    by (auto simp: xair_set_cbranch_def can_terminate_def valid_block_def split: if_splits)
  obtain r1 m1 where 1: "append_term_args al targs m = (r1, m1)" by fastforce
  obtain r2 m2 where 2: "append_term_args al fargs m1 = (r2, m2)" by fastforce
  have "\<exists>c. r1 = Ok (length (term_args m)) \<and> m1 = m\<lparr>term_arg_cap := c, term_args := term_args m @ targs\<rparr>"
    using 1 assms by (cases rule: append_term_args_cases) (use 1 in \<open>auto simp: xair_set_cbranch_def xbind_def split: if_splits\<close>)
  then obtain c where m1: "r1 = Ok (length (term_args m))" "m1 = m\<lparr>term_arg_cap := c, term_args := term_args m @ targs\<rparr>" by blast
  have "\<exists>c. r2 = Ok (length (term_args m1)) \<and> m2 = m1\<lparr>term_arg_cap := c, term_args := term_args m1 @ fargs\<rparr>"
    using 2 assms by (cases rule: append_term_args_cases)
      (use 1 2 m1(1) in \<open>auto simp: xair_set_cbranch_def xbind_def split: if_splits\<close>)
  then obtain c' where m2: "r2 = Ok (length (term_args m1))" "m2 = m1\<lparr>term_arg_cap := c', term_args := term_args m1 @ fargs\<rparr>" by blast
  define t' where "t' = empty_term\<lparr>term_kind := XAIR_TERM_CBRANCH, condition := cond, true_target := t, false_target := f,
      true_arg_offset := length (term_args m), true_arg_count := length targs,
      false_arg_offset := length (term_args m) + length targs, false_arg_count := length fargs\<rparr>"
  have m': "m' = m\<lparr>term_arg_cap := c', term_args := term_args m @ targs @ fargs,
      blocks := (blocks m)[b := (blocks m ! b)\<lparr>blk_term := t'\<rparr>]\<rparr>"
    using assms 1 2 m1 m2 by (auto simp: xair_set_cbranch_def xbind_def set_term_def t'_def split: if_splits)
  show "b < length (blocks m)" by (rule b)
  show "vals m' = vals m" "ops m' = ops m" "length (blocks m') = length (blocks m)"
    "\<And>d. d \<noteq> b \<Longrightarrow> blocks m' ! d = blocks m ! d" "params (blocks m' ! b) = params (blocks m ! b)"
    using b by (simp_all add: m')
  have t: "blk_term (blocks m' ! b) = t'" using b by (simp add: m')
  show "term_kind (blk_term (blocks m' ! b)) = XAIR_TERM_CBRANCH" "condition (blk_term (blocks m' ! b)) = cond"
    "true_target (blk_term (blocks m' ! b)) = t" "false_target (blk_term (blocks m' ! b)) = f"
    "false_arg_count (blk_term (blocks m' ! b)) = length fargs"
    "term_args_const m' (blk_term (blocks m' ! b)) False = targs" "term_args_const m' (blk_term (blocks m' ! b)) True = fargs"
    unfolding t by (simp_all add: t'_def term_args_const_def m' Let_def)
qed

text \<open>The steps of a successful exit.\<close>

lemma emit_exit_Ok:
  assumes "xair_vex_emit_exit al cond taken targs nm a = (Ok u, a')"
  obtains a1 c m1 x w1 w2 w3 w4 u' m2 where "xair_block_create al (vex_continuation_name a nm) (va_module a) = (Ok c, m1)"
    "vex_transfer_state al c a1 \<lparr>xs_module = m1, xs_args = [], xs_cap = 0\<rparr> = (Ok (w1, w2, w3, w4), x)"
    "xair_set_cbranch al (va_current a) cond taken targs c (xs_args x) (xs_module x) = (Ok u', m2)"
    "a' = vex_enter_continuation c (w1, w2, w3, w4) (a1\<lparr>va_module := m2\<rparr>)"
    "live a1 = live a" "live_ids a1 = live_ids a" "vex_inv a1 = vex_inv a"
proof -
  define a1 where "a1 = a\<lparr>va_continuation_index := (if nm = '''' then va_continuation_index a + 1 else va_continuation_index a)\<rparr>"
  have "live a1 = live a" "live_ids a1 = live_ids a" "vex_inv a1 = vex_inv a"
    by (simp_all add: a1_def live_defs live_ids_def vex_inv_def)
  with that [of _ _ a1] assms show thesis unfolding xair_vex_emit_exit_def Let_def a1_def [symmetric]
    by (auto split: if_splits prod.splits xres.splits)
qed

lemma emit_exit_calls:
  assumes "xair_vex_emit_exit al cond taken targs nm a = (r, a')"
  shows "calls (va_module a) (va_module a')"
proof -
  have enter: "va_module (vex_enter_continuation c ws b) = va_module b" for c ws b
    by (simp add: vex_enter_continuation_def case_prod_unfold)
  define a1 where "a1 = a\<lparr>va_continuation_index := (if nm = '''' then va_continuation_index a + 1 else va_continuation_index a)\<rparr>"
  have a1: "va_module a1 = va_module a" by (simp add: a1_def)
  obtain q m1 where 1: "xair_block_create al (vex_continuation_name a nm) (va_module a) = (q, m1)" by fastforce
  show ?thesis
  proof (cases q)
    case (Ok c)
    obtain q2 x where 2: "vex_transfer_state al c a1 \<lparr>xs_module = m1, xs_args = [], xs_cap = 0\<rparr> = (q2, x)" by fastforce
    obtain q3 m2 where 3: "xair_set_cbranch al (va_current a) cond taken targs c (xs_args x) (xs_module x) = (q3, m2)" by fastforce
    have c1: "calls (va_module a) m1" using 1 by (rule calls_simple)
    have c2: "calls (va_module a) (xs_module x)" using calls_trans [OF c1] transfer_state_calls [OF 2] by simp
    have c3: "calls (va_module a) m2" by (rule calls_trans [OF c2 calls_terms(2) [OF 3]])
    have "va_module a' \<in> {va_module a, m1, xs_module x, m2}" using assms
      unfolding xair_vex_emit_exit_def Let_def a1_def [symmetric] 1 Ok
      by (auto simp: enter 2 3 split: if_splits xres.splits)
    then show ?thesis using c1 c2 c3 by auto
  next
    case (Err e)
    have "va_module a' \<in> {va_module a, m1}" using assms
      unfolding xair_vex_emit_exit_def Let_def a1_def [symmetric] 1 Err by (auto split: if_splits)
    then show ?thesis using calls_simple(1) [OF 1] by auto
  qed
qed

text \<open>What a side exit does: the state of the adapter becomes the parameters of the continuation block.\<close>

lemma emit_exit_moves:
  assumes ok: "vex_ok a" and call: "xair_vex_emit_exit al cond taken targs nm a = (Ok u, a')"
  defines "m' \<equiv> va_module a'" and "c \<equiv> va_current a'"
  defines "t \<equiv> blk_term (blocks m' ! va_current a)"
  shows "c = length (blocks (va_module a))" "c < length (blocks m')"
    "map fst (live a') = map fst (live a)" "params (blocks m' ! c) = map snd (live a')"
    "map (xair_value_type m') (map snd (live a')) = map (xair_value_type (va_module a)) (map snd (live a))"
    "term_kind t = XAIR_TERM_CBRANCH" "condition t = cond" "true_target t = taken" "term_args_const m' t False = targs"
    "false_target t = c" "term_args_const m' t True = map snd (live a)" "false_arg_count t = length (live a)"
    "vex_inv a'" "map snd (live a') = [length (vals (va_module a))..<length (vals m')]"
proof -
  let ?m = "va_module a"
  from call obtain a1 d m1 x w1 w2 w3 w4 u' m2 where e: "xair_block_create al (vex_continuation_name a nm) ?m = (Ok d, m1)"
    "vex_transfer_state al d a1 \<lparr>xs_module = m1, xs_args = [], xs_cap = 0\<rparr> = (Ok (w1, w2, w3, w4), x)"
    "xair_set_cbranch al (va_current a) cond taken targs d (xs_args x) (xs_module x) = (Ok u', m2)"
    "a' = vex_enter_continuation d (w1, w2, w3, w4) (a1\<lparr>va_module := m2\<rparr>)"
    and a1: "live a1 = live a" "live_ids a1 = live_ids a" "vex_inv a1 = vex_inv a"
    by (rule emit_exit_Ok)
  have fields: "m' = m2" "c = d" by (simp_all add: m'_def c_def e(4) vex_enter_continuation_def)
  obtain cap where d: "d = length (blocks ?m)" and m1: "m1 = ?m\<lparr>block_cap := cap, blocks := blocks ?m @
      [\<lparr>blk_name = copy_name (vex_continuation_name a nm) ''bb'' d, params = [], param_cap = 0, blk_ops = [],
        blk_op_cap = 0, blk_term = empty_term\<rparr>]\<rparr>"
    using e(1) by (cases rule: xair_block_create_cases) auto
  have v: "\<forall>v \<in> live_ids a1. v < length (vals (xs_module \<lparr>xs_module = m1, xs_args = [], xs_cap = 0\<rparr>))"
    using ok by (simp add: a1 vex_ok_def live_ok_def m1)
  note tr = transfer_state_moved [OF e(2) v]
  have mv: "moved d m1 (xs_module x) (map snd (live a)) (w1 @ w2 @ w3 @ w4)" using tr(1) by (simp add: a1)
  have args: "xs_args x = map snd (live a)" using tr(2) by (simp add: a1)
  note sc = set_cbranch_Ok [OF e(3)]
  have cur: "va_current a \<noteq> d" using ok by (simp add: vex_ok_def d)
  have inv: "vex_inv (a1\<lparr>va_module := m2\<rparr>)" using ok by (simp add: a1 vex_ok_def)
  have liv1: "live (a1\<lparr>va_module := m2\<rparr>) = live a1" by (simp add: live_defs)
  have liv: "live (a1\<lparr>va_module := m2\<rparr>) = live a" "live_memory (a1\<lparr>va_module := m2\<rparr>) = live_memory a1"
    "live_tmps (a1\<lparr>va_module := m2\<rparr>) = live_tmps a1" "live_direct_regs (a1\<lparr>va_module := m2\<rparr>) = live_direct_regs a1"
    "live_sparse_regs (a1\<lparr>va_module := m2\<rparr>) = live_sparse_regs a1"
    by (simp_all only: liv1 a1) (simp_all add: live_defs)
  note en = enter_live [OF inv, of w1 w2 w3 w4 d, unfolded liv, OF tr(3-6), folded e(4)]
  have ws: "map snd (live a') = [length (vals ?m)..<length (vals m')]" using mv by (simp add: en(1) moved_def m1 fields sc(2))
  show "c = length (blocks ?m)" by (simp add: fields d)
  show "c < length (blocks m')" using mv by (simp add: fields sc(4) moved_def m1 d)
  show "map fst (live a') = map fst (live a)" "vex_inv a'" by (fact en)+
  show "params (blocks m' ! c) = map snd (live a')" using mv cur by (simp add: en(1) fields sc(5) moved_def m1 d)
  show "map snd (live a') = [length (vals ?m)..<length (vals m')]" by (rule ws)
  show "term_kind t = XAIR_TERM_CBRANCH" "condition t = cond" "true_target t = taken" "term_args_const m' t False = targs"
    "false_target t = c" "term_args_const m' t True = map snd (live a)" "false_arg_count t = length (live a)"
    by (simp_all add: t_def fields sc args)
  obtain new where new: "vals m' = vals ?m @ new" "map val_type new = map (xair_value_type ?m) (map snd (live a))"
    using mv by (auto simp: moved_def m1 fields sc(2) xair_value_type_def valid_value_def)
  have "map (xair_value_type m') [length (vals ?m)..<length (vals m')] = map val_type new"
    by (rule nth_equalityI) (simp_all add: new(1) xair_value_type_def valid_value_def)
  then show "map (xair_value_type m') (map snd (live a')) = map (xair_value_type ?m) (map snd (live a))"
    by (simp add: ws new(2))
qed

section \<open>Sessions keep the invariant\<close>

lemma emit_exit_ok:
  assumes ok: "vex_ok a" and call: "xair_vex_emit_exit al cond taken targs nm a = (r, a')"
  shows "vex_ok a'"
proof (cases r)
  case (Ok u)
  note mv = emit_exit_moves [OF ok call [unfolded Ok]]
  have "built (va_module a')" using calls_built emit_exit_calls [OF call] ok by (auto simp: vex_ok_def)
  moreover have "live_ok a'" using mv(14) unfolding live_ok_def snd_live [symmetric] by (metis atLeastLessThan_iff list.set_map set_upt)
  ultimately show ?thesis using mv by (simp add: vex_ok_def)
next
  case (Err e)
  have "vex_inv a' = vex_inv a \<and> live_ids a' = live_ids a \<and> va_current a' = va_current a"
    using call Err
    by (auto simp: xair_vex_emit_exit_def Let_def vex_inv_def live_ids_def split: if_splits prod.splits xres.splits)
  then show ?thesis using ok calls_vals [OF emit_exit_calls [OF call]] calls_blocks [OF emit_exit_calls [OF call]]
      calls_built [OF emit_exit_calls [OF call]]
    by (auto simp: vex_ok_def live_ok_def intro: less_le_trans)
qed

lemma keeps_ok_get_reg: "keeps_ok (xair_vex_get_reg al k t nm) a"
proof -
  have "keeps_ok (xbind (in_module (xair_block_add_param al (va_current a) t nm))
      (\<lambda>v. xbind (vex_store_reg al k v) (\<lambda>_. xreturn v))) a"
  proof (rule keeps_ok_bind)
    show "keeps_ok (in_module (xair_block_add_param al (va_current a) t nm)) a"
      by (rule keeps_ok_module) (rule calls_simple)
    fix v a' assume r: "in_module (xair_block_add_param al (va_current a) t nm) a = (Ok v, a')" and ok: "vex_ok a'"
    have "v < length (vals (va_module a'))"
      using r by (auto simp: in_module_def param_added_def split: prod.splits elim!: xair_block_add_param_cases)
    then show "keeps_ok (xbind (vex_store_reg al k v) (\<lambda>_. xreturn v)) a'"
      by (intro keeps_ok_bind) (auto simp: keeps_ok_def xreturn_def intro: vex_ok_store [OF _ _ prod.collapse [symmetric]])
  qed
  then show ?thesis by (auto simp: keeps_ok_def xair_vex_get_reg_def split: option.split)
qed

lemma keeps_ok_store:
  assumes "vex_ok a"
  shows "keeps_ok (xair_vex_emit_store al v w en nm) a"
proof -
  have "keeps_ok (xbind (in_module (xair_build_store al (va_current a) (va_memory a) v w en nm))
        (\<lambda>next_memory a. (Ok (), a\<lparr>va_memory := next_memory\<rparr>))) a"
  proof (rule keeps_ok_bind)
    show "keeps_ok (in_module (xair_build_store al (va_current a) (va_memory a) v w en nm)) a"
      by (rule keeps_ok_module) (rule calls_simple)
    fix x a' assume r: "in_module (xair_build_store al (va_current a) (va_memory a) v w en nm) a = (Ok x, a')" and ok: "vex_ok a'"
    have "module_inv (va_module a)" using assms by (simp add: vex_ok_def built_module_inv)
    then have "x < length (vals (va_module a'))" using r call_result_valid(2) by (auto simp: in_module_def split: prod.splits)
    then show "keeps_ok (\<lambda>a. (Ok (), a\<lparr>va_memory := x\<rparr>)) a'"
      by (auto simp: keeps_ok_def vex_ok_def live_ok_def live_ids_def vex_inv_def split: if_splits)
  qed
  then show ?thesis by (auto simp: keeps_ok_def xair_vex_emit_store_def)
qed

lemma vex_call_ok:
  assumes ok: "vex_ok a" and call: "run_vex al c a = (r, a')"
  shows "vex_ok a'"
proof -
  have no: "snd (no_result p) = snd p" for p :: "unit xres \<times> xair_vex_adapter"
    by (cases p) (auto simp: no_result_def split: xres.split)
  have "vex_ok (snd (run_vex al c a))"
  proof (cases c)
    case (Put_reg k v)
    then show ?thesis using ok vex_ok_store [OF ok valid_less prod.collapse [symmetric]] by (simp add: no xair_vex_put_reg_def)
  next
    case (Set_memory v)
    then show ?thesis using ok valid_less [of "va_module a" v]
      by (auto simp: no xair_vex_set_memory_def vex_ok_def live_ok_def live_ids_def vex_inv_def)
  next
    case (Emit_exit v b args nm)
    then show ?thesis using emit_exit_ok [OF ok prod.collapse [symmetric]] by (simp add: no)
  next
    case (Finish_jump b args)
    have "keeps_ok (in_module (xair_set_jump al (va_current a) b args)) a" by (rule keeps_ok_module) (rule calls_terms)
    then show ?thesis using ok Finish_jump by (simp add: no keeps_ok_def xair_vex_finish_jump_def)
  next
    case (Finish_return vs)
    have "keeps_ok (in_module (xair_set_return al (va_current a) vs)) a" by (rule keeps_ok_module) (rule calls_terms)
    then show ?thesis using ok Finish_return by (simp add: no keeps_ok_def xair_vex_finish_return_def)
  qed (use ok keeps_ok_tmp keeps_ok_get_reg keeps_ok_emit keeps_ok_store [OF ok] in \<open>simp_all add: no keeps_ok_def\<close>)
  then show ?thesis by (simp add: call)
qed

lemma create_ok:
  assumes "built m" "xair_vex_adapter_create al m b v = Ok a"
  shows "vex_ok a"
proof -
  have no: "defined_at (replicate n False) = []" for n by (simp add: defined_at_def)
  have "v < length (vals m)" if "kind (xair_value_type m v) = XAIR_TYPE_MEM"
    using that by (auto simp: xair_value_type_def valid_value_def xair_type_invalid_def split: if_splits)
  then show ?thesis using assms
    by (auto simp: xair_vex_adapter_create_def Let_def vex_ok_def live_ok_def live_ids_def stored_def vex_inv_def
        dense_inv_def no xair_module_block_count_def split: if_splits)
qed

lemma session_ok: "vex_session a \<Longrightarrow> vex_ok a"
proof (induction rule: vex_session.induct)
  case (client a al c r m')
  then show ?case by (intro vex_ok_module) (auto intro: calls_call)
qed (auto intro: create_ok vex_call_ok)

text \<open>What the adapter answers, as a map and as live values.\<close>

lemma put_reg_map:
  assumes "vex_inv a" "xair_vex_put_reg al k v a = (r, a')"
  shows "xair_vex_peek_reg a' = (if r = Ok () then (xair_vex_peek_reg a)(k := Ok v) else xair_vex_peek_reg a)"
proof (cases "vex_valid_value (va_module a) v")
  case True
  then have put: "vex_store_reg al k v a = (r, a')" using assms(2) by (simp add: xair_vex_put_reg_def)
  show ?thesis
  proof (cases r)
    case (Ok u)
    then show ?thesis using regs.put_Ok [OF put [unfolded Ok] assms(1)] by (simp add: xair_vex_peek_reg_def fun_eq_iff)
  next
    case (Err e)
    then show ?thesis using regs.put_Err [OF put [unfolded Err] assms(1)] by (simp add: xair_vex_peek_reg_def fun_eq_iff)
  qed
qed (use assms in \<open>auto simp: xair_vex_put_reg_def\<close>)

lemma set_tmp_map:
  assumes "vex_inv a" "xair_vex_set_tmp al k v a = (r, a')"
  shows "xair_vex_get_tmp a' = (if r = Ok () then (xair_vex_get_tmp a)(k := Ok v) else xair_vex_get_tmp a)"
proof (cases "vex_valid_value (va_module a) v")
  case True
  then obtain dm where put: "vex_dense_set al k v (va_tmps a) = (r, dm)" "a' = a\<lparr>va_tmps := dm\<rparr>"
    using assms(2) by (auto simp: xair_vex_set_tmp_def split: prod.splits)
  have inv: "dense_inv (va_tmps a)" using assms(1) by (simp add: vex_inv_def)
  show ?thesis
  proof (cases r)
    case (Ok u)
    then show ?thesis using tmps.put_Ok [OF put(1) [unfolded Ok] inv] by (simp add: xair_vex_get_tmp_def put(2) fun_eq_iff)
  next
    case (Err e)
    then show ?thesis using tmps.put_Err [OF put(1) [unfolded Err] inv] by (simp add: xair_vex_get_tmp_def put(2) fun_eq_iff)
  qed
qed (use assms in \<open>auto simp: xair_vex_set_tmp_def\<close>)

lemma answers_live:
  assumes "vex_inv a"
  shows "xair_vex_peek_reg a k = Ok v \<Longrightarrow> v \<in> live_ids a" "xair_vex_get_tmp a k = Ok v \<Longrightarrow> v \<in> live_ids a"
    "xair_vex_current_memory a = Ok v \<Longrightarrow> v \<in> live_ids a"
  using assms find_entry_Some [of "va_sparse_regs a" k]
  by (force simp: xair_vex_peek_reg_def vex_lookup_reg_def xair_vex_get_tmp_def vex_dense_get_def xair_vex_current_memory_def
      live_ids_def stored_def vex_inv_def dense_inv_def split: option.splits if_splits)+

section \<open>Registers read after an exit\<close>

text \<open>A terminator is set once, and parameters are only ever added.\<close>

definition settled :: "xair_block_id \<Rightarrow> xair_module \<Rightarrow> xair_module \<Rightarrow> bool" where
  "settled b m m' \<longleftrightarrow> (term_kind (blk_term (blocks m ! b)) \<noteq> XAIR_TERM_NONE \<longrightarrow> blk_term (blocks m' ! b) = blk_term (blocks m ! b)) \<and>
     length (params (blocks m ! b)) \<le> length (params (blocks m' ! b))"

lemma settled_refl [simp]: "settled b m m"
  by (simp add: settled_def)

lemma settled_blocks: "blocks m' = blocks m \<Longrightarrow> settled b m m'"
  by (simp add: settled_def)

lemma set_term_settled: "set_term d t m = (r, m') \<Longrightarrow> can_terminate m0 d \<Longrightarrow> blocks m = blocks m0 \<Longrightarrow> settled b m0 m'"
  by (cases "b = d") (auto simp: set_term_def settled_def can_terminate_def valid_block_def split: if_splits)

lemma term_args_blocks: "append_term_args al args m = (r, m') \<Longrightarrow> blocks m' = blocks m"
  by (auto simp: append_term_args_def split: if_splits xres.splits)

lemma term_ops_settled:
  "xair_set_jump al d x args m = (r, m') \<Longrightarrow> settled b m m'"
  "xair_set_cbranch al d c x args x' args' m = (r, m') \<Longrightarrow> settled b m m'"
  "xair_set_return al d args m = (r, m') \<Longrightarrow> settled b m m'"
  "xair_set_trap d k m = (r, m') \<Longrightarrow> settled b m m'"
  "xair_set_fault d k m = (r, m') \<Longrightarrow> settled b m m'"
  by (auto simp: xair_set_jump_def xair_set_return_def xair_set_cbranch_def xair_set_trap_def xair_set_fault_def
      split: if_splits elim!: xbind_cases dest!: term_args_blocks intro: set_term_settled settled_blocks)

lemma freeze_settled:
  assumes "xair_module_freeze al m = (r, m')" "b < length (blocks m)"
  shows "settled b m m'"
proof (cases "frozen m")
  case False
  obtain q m1 where f: "finalize_module_storage al m = (q, m1)" by fastforce
  have "same_block (blocks m ! b) (blocks m1 ! b)"
    using finalize_module_storage_spec [OF f] assms(2) by (auto simp: stored_alike_def intro: list_all2_nthD)
  then show ?thesis using assms(1) f False by (auto simp: xair_module_freeze_def settled_def same_block_def split: xres.splits)
qed (use assms in \<open>simp add: xair_module_freeze_def\<close>)

lemma block_ops_settled:
  "xair_block_create al nm m = (r, m') \<Longrightarrow> b < length (blocks m) \<Longrightarrow> settled b m m'"
  "xair_block_add_param al d t nm m = (r, m') \<Longrightarrow> b < length (blocks m) \<Longrightarrow> settled b m m'"
  by (auto simp: settled_def nth_append nth_list_update param_added_def
      elim!: xair_block_create_cases xair_block_add_param_cases)

lemma call_settled:
  assumes inv: "module_inv m" and call: "run_call al c m = (r, m')" and b: "b < length (blocks m)"
  shows "settled b m m'"
proof (cases "op_call c")
  case True
  show ?thesis
  proof (rule op_call_induct [OF True call, where P = "\<lambda>r m'. settled b m m'"])
    fix d oc t srcs im en nm r m'
    assume *: "add_op al d oc t srcs im en nm m = (r, m')" "\<forall>s \<in> set srcs. s < length (vals m)"
    show "settled b m m'" using *(1) inv *(2)
    proof (cases rule: add_op_cases)
      case (fresh s tab c c' c'')
      then show ?thesis using numbered_fields(3) [OF fresh(4)] b by (cases "b = d") (simp_all add: settled_def)
    qed (simp_all add: content_eq_def settled_def)
  qed simp
next
  case False
  then show ?thesis using call b
    by (cases c) (auto simp: op_call_def no_result_eq intro: term_ops_settled freeze_settled block_ops_settled)
qed

lemma calls_settled: "calls m m' \<Longrightarrow> built m \<Longrightarrow> b < length (blocks m) \<Longrightarrow> settled b m m'"
  unfolding calls_def
proof (induction rule: rtranclp_induct)
  case (step m1 m2)
  then have c: "calls m m1" by (simp add: calls_def)
  have "settled b m1 m2"
    using step call_settled built_module_inv [OF calls_built [OF c]] less_le_trans [OF _ calls_blocks [OF c]] by blast
  then show ?case using step by (auto simp: settled_def)
qed simp

text \<open>A branch that passes fewer arguments than its target has parameters can never be repaired.\<close>

lemma short_branch_rejected:
  assumes "built m" "calls m m'" "b < length (blocks m)" "term_kind (blk_term (blocks m ! b)) = XAIR_TERM_CBRANCH"
    "false_target (blk_term (blocks m ! b)) = c" "c < length (blocks m)"
    "false_arg_count (blk_term (blocks m ! b)) < length (params (blocks m ! c))"
  shows "fst (xair_verify_module al m') \<noteq> XAIR_OK"
proof
  assume "fst (xair_verify_module al m') = XAIR_OK"
  from verified_ok(2) [OF calls_built [OF assms(2,1)] this] have "block_ok m' b"
    using assms(3) calls_blocks [OF assms(2,1)] by (simp add: module_ok_def)
  then show False using calls_settled [OF assms(2,1,3)] calls_settled [OF assms(2,1,6)] assms
    by (auto simp: block_ok_def Let_def term_ok_def edge_ok_def settled_def)
qed

text \<open>A register that was not live at the exit becomes one more parameter of the continuation.\<close>

lemma get_reg_new:
  assumes "xair_vex_get_reg al k t nm a = (Ok v, a')" "vex_lookup_reg a k = None" "vex_inv a"
  obtains c c' where "va_module a' = param_added c c' (va_current a) t nm (va_module a)"
proof -
  obtain q m where 1: "xair_block_add_param al (va_current a) t nm (va_module a) = (q, m)" by fastforce
  then obtain w where q: "q = Ok w" using assms by (cases q) (auto simp: xair_vex_get_reg_def xbind_def in_module_def split: if_splits)
  obtain q2 a2 where 2: "vex_store_reg al k w (a\<lparr>va_module := m\<rparr>) = (q2, a2)" by fastforce
  have "va_module a2 = m" using store_reg_live [OF 2] assms(3) by simp
  then have "va_module a' = m" using assms 1 2 q
    by (cases q2) (auto simp: xair_vex_get_reg_def xbind_def xreturn_def in_module_def split: if_splits)
  then show thesis using that 1 q by (auto elim: xair_block_add_param_cases)
qed

lemma late_register_rejected:
  assumes ok: "vex_ok a" and call: "xair_vex_emit_exit al cond taken targs nm a = (Ok u, a1)" and new: "vex_lookup_reg a1 k = None"
    and get: "xair_vex_get_reg al k t rn a1 = (Ok v, a2)" and later: "calls (va_module a2) m"
  shows "fst (xair_verify_module al' m) \<noteq> XAIR_OK"
proof -
  note mv = emit_exit_moves [OF ok call]
  have ok1: "vex_ok a1" by (rule emit_exit_ok [OF ok call])
  then obtain c c' where m: "va_module a2 = param_added c c' (va_current a1) t rn (va_module a1)"
    using get_reg_new [OF get new] by (auto simp: vex_ok_def)
  have "vex_ok a2" using keeps_ok_get_reg [of al k t rn a1] ok1 get by (simp add: keeps_ok_def)
  then have b: "built (va_module a2)" by (simp add: vex_ok_def)
  have cur: "va_current a < length (blocks (va_module a1))" "va_current a \<noteq> va_current a1"
    using ok mv(1,2) by (auto simp: vex_ok_def)
  have len: "length (params (blocks (va_module a1) ! va_current a1)) = length (live a)"
    using arg_cong [OF mv(3), of length] by (simp add: mv(4))
  show ?thesis
    by (rule short_branch_rejected [OF b later, where b = "va_current a" and c = "va_current a1"])
      (use cur mv(2,6,10,12) len in \<open>simp_all add: m param_added_def\<close>)
qed

end
