(* ===== verification/Xair_Print.thy ===== *)
theory Xair_Print
  imports Xair_Builder
begin

text \<open>
  Observing a module: its metrics, its fingerprint and its textual form (\<^verbatim>\<open>src/src/xair.c\<close>). The printer writes into a
  buffer of the caller, piece by piece, and stops at the first piece that does not fit. The theorems give the buffer
  and the status for every size in terms of one text, and show what the observations depend on.
\<close>

section \<open>Metrics\<close>

record xair_module_metrics =
  mm_blocks :: nat
  mm_values :: nat
  mm_operations :: nat
  mm_block_parameters :: nat
  mm_terminator_arguments :: nat

definition metrics_add_block :: "xair_block_rec \<Rightarrow> xair_module_metrics \<Rightarrow> xair_module_metrics" where
  "metrics_add_block block mm =
     (let mm = mm\<lparr>mm_block_parameters := mm_block_parameters mm + length (params block)\<rparr>; t = blk_term block
      in case term_kind t of
           XAIR_TERM_JUMP \<Rightarrow> mm\<lparr>mm_terminator_arguments := mm_terminator_arguments mm + true_arg_count t\<rparr>
         | XAIR_TERM_RETURN \<Rightarrow> mm\<lparr>mm_terminator_arguments := mm_terminator_arguments mm + true_arg_count t\<rparr>
         | XAIR_TERM_CBRANCH \<Rightarrow> mm\<lparr>mm_terminator_arguments := mm_terminator_arguments mm + (true_arg_count t + false_arg_count t + 1)\<rparr>
         | _ \<Rightarrow> mm)"

definition xair_get_module_metrics :: "xair_module \<Rightarrow> xair_module_metrics" where
  "xair_get_module_metrics m =
     fold metrics_add_block (blocks m) \<lparr>mm_blocks = length (blocks m), mm_values = length (vals m), mm_operations = length (ops m),
       mm_block_parameters = 0, mm_terminator_arguments = 0\<rparr>"

section \<open>The fingerprint\<close>

fun term_kind_num :: "xair_term_kind \<Rightarrow> nat" where
  "term_kind_num XAIR_TERM_NONE = 0"
| "term_kind_num XAIR_TERM_JUMP = 1"
| "term_kind_num XAIR_TERM_CBRANCH = 2"
| "term_kind_num XAIR_TERM_RETURN = 3"
| "term_kind_num XAIR_TERM_TRAP = 4"
| "term_kind_num XAIR_TERM_FAULT = 5"

definition fingerprint_mix_type :: "u64 \<Rightarrow> xair_type \<Rightarrow> u64" where
  "fingerprint_mix_type h t =
     (let h = hash_mix_u64 h (of_nat (kind_num (kind t)));
          h = hash_mix_u64 h (of_nat (bits t))
      in hash_mix_u64 h (of_nat (aux t)))"

text \<open>A loop that mixes the elements of an array.\<close>

definition mix_ids :: "u64 \<Rightarrow> nat list \<Rightarrow> u64" where
  "mix_ids h ids = foldl (\<lambda>h v. hash_mix_u64 h (of_nat v)) h ids"

definition fingerprint_value :: "u64 \<Rightarrow> nat \<times> xair_value_rec \<Rightarrow> u64" where
  "fingerprint_value h = (\<lambda>(i, v).
     let h = hash_mix_u64 h (of_nat i);
         h = fingerprint_mix_type h (val_type v)
     in mix_ids h [val_block v, val_op v])"

definition fingerprint_op :: "u64 \<Rightarrow> nat \<times> xair_op_rec \<Rightarrow> u64" where
  "fingerprint_op h = (\<lambda>(i, oper).
     let h = mix_ids h [i, opcode_num (opcode oper), dst oper, src_count oper];
         h = mix_ids h (take (src_count oper) (src oper));
         h = hash_mix_u64 h (of_nat (endian_num (endian oper)))
     in hash_mix_u64 h (imm oper))"

definition fingerprint_block :: "xair_module \<Rightarrow> u64 \<Rightarrow> nat \<times> xair_block_rec \<Rightarrow> u64" where
  "fingerprint_block m h = (\<lambda>(i, block).
     let t = blk_term block;
         h = mix_ids h [i, length (params block)];
         h = mix_ids h (params block);
         h = mix_ids h [length (blk_ops block)];
         h = mix_ids h (blk_ops block);
         h = mix_ids h [term_kind_num (term_kind t), condition t, true_target t, false_target t, true_arg_count t];
         h = mix_ids h (term_args_const m t False);
         h = mix_ids h [false_arg_count t];
         h = mix_ids h (term_args_const m t True)
     in mix_ids h [code t])"

definition xair_module_fingerprint :: "xair_module \<Rightarrow> u64" where
  "xair_module_fingerprint m =
     (let h = mix_ids 0x584149525f76305f [length (blocks m), length (vals m), length (ops m)];
          h = foldl fingerprint_value h (enumerate 0 (vals m));
          h = foldl fingerprint_op h (enumerate 0 (ops m))
      in foldl (fingerprint_block m) h (enumerate 0 (blocks m)))"

section \<open>The printer\<close>

abbreviation NUL :: char where "NUL \<equiv> CHR 0x00"

record xair_printer =
  pr_data :: string
  pr_used :: nat
  pr_truncated :: bool

type_synonym print_step = "xair_printer \<Rightarrow> xair_printer"

text \<open>
  \<^verbatim>\<open>vsnprintf\<close> at a position of the buffer: as much of the text as fits before the end, and a NUL. Its result is the
  length of the text, which is small: names have at most 31 characters.
\<close>

definition vsnprintf_at :: "string \<Rightarrow> nat \<Rightarrow> string \<Rightarrow> string" where
  "vsnprintf_at data pos text =
     (let k = min (length text) (length data - pos - 1)
      in take pos data @ take k text @ [NUL] @ drop (pos + k + 1) data)"

definition print_append :: "string \<Rightarrow> print_step" where
  "print_append text p =
     (if pr_truncated p \<or> length (pr_data p) = 0 then p
      else let left = length (pr_data p) - pr_used p;
               p = p\<lparr>pr_data := vsnprintf_at (pr_data p) (pr_used p) text\<rparr>
           in if length text \<ge> left
              then p\<lparr>pr_used := length (pr_data p) - 1, pr_data := (pr_data p)[length (pr_data p) - 1 := NUL], pr_truncated := True\<rparr>
              else p\<lparr>pr_used := pr_used p + length text\<rparr>)"

text \<open>The statements of a body, one after the other, and a loop that writes a comma before every element but the first.\<close>

definition print_seq :: "print_step list \<Rightarrow> print_step" where
  "print_seq steps = fold (\<lambda>f p. f p) steps"

fun print_commas :: "bool \<Rightarrow> print_step list \<Rightarrow> print_step" where
  "print_commas first [] p = p"
| "print_commas first (f # fs) p = print_commas False fs (f (if first then p else print_append '', '' p))"

definition print_type :: "xair_type \<Rightarrow> print_step" where
  "print_type t =
     (case kind t of
        XAIR_TYPE_VOID \<Rightarrow> print_append ''void''
      | XAIR_TYPE_INT \<Rightarrow> print_append (''i'' @ dec_text (bits t))
      | XAIR_TYPE_ADDR \<Rightarrow> print_append (''addr'' @ dec_text (bits t))
      | XAIR_TYPE_FLAGS \<Rightarrow> print_append (''flags'' @ dec_text (bits t))
      | XAIR_TYPE_MEM \<Rightarrow> print_append (''mem<'' @ dec_text (aux t) @ '','' @ dec_text (bits t) @ ''>'')
      | XAIR_TYPE_LABEL8 \<Rightarrow> print_append ''label8''
      | XAIR_TYPE_LABELSET \<Rightarrow> print_append ''labelset''
      | _ \<Rightarrow> print_append ''invalid'')"

definition print_value_ref :: "xair_module \<Rightarrow> xair_value_id \<Rightarrow> print_step" where
  "print_value_ref m v = (if \<not> valid_value m v then print_append ''%bad'' else print_append (''%'' @ val_name (vals m ! v)))"

definition print_block_ref :: "xair_module \<Rightarrow> xair_block_id \<Rightarrow> print_step" where
  "print_block_ref m b = print_append (if valid_block m b then blk_name (blocks m ! b) else ''bad_block'')"

definition print_args :: "xair_module \<Rightarrow> xair_value_id list \<Rightarrow> print_step" where
  "print_args m args = print_seq [print_append ''('', print_commas True (map (print_value_ref m) args), print_append '')'']"

definition endian_name :: "xair_endian \<Rightarrow> string" where
  "endian_name en = (if en = XAIR_ENDIAN_LE then ''le'' else ''be'')"

definition print_op :: "xair_module \<Rightarrow> xair_op_rec \<Rightarrow> print_step" where
  "print_op m oper =
     (let dst_type = val_type (vals m ! dst oper)
      in print_seq
        [print_append ''  '', print_value_ref m (dst oper), print_append '':'', print_type dst_type, print_append '' = '',
         if opcode oper = XAIR_OP_CONST_U64 then
           print_seq [print_append ''const.'', print_type dst_type, print_append ('' 0x'' @ hex_text (unat (imm oper)) @ ''\<newline>'')]
         else if opcode oper = XAIR_OP_LOAD then
           print_seq [print_append ''load.'', print_type dst_type, print_append ('' '' @ endian_name (endian oper) @ '' ''),
             print_value_ref m (src oper ! 0), print_append '', '', print_value_ref m (src oper ! 1), print_append ''\<newline>'']
         else if opcode oper = XAIR_OP_STORE then
           print_seq [print_append (''store '' @ endian_name (endian oper) @ '' ''),
             print_value_ref m (src oper ! 0), print_append '', '', print_value_ref m (src oper ! 1), print_append '', '',
             print_value_ref m (src oper ! 2), print_append ''\<newline>'']
         else
           print_seq [print_append (xair_opcode_name (opcode oper)),
             if src_count oper \<noteq> 0
             then print_seq [print_append ''.'', print_type (val_type (vals m ! (src oper ! 0))), print_append '' ''] else id,
             if src_count oper \<ge> 1 then print_value_ref m (src oper ! 0) else id,
             if src_count oper \<ge> 2 then print_seq [print_append '', '', print_value_ref m (src oper ! 1)] else id,
             print_append ''\<newline>'']])"

definition print_term :: "xair_module \<Rightarrow> xair_block_rec \<Rightarrow> print_step" where
  "print_term m block =
     (let t = blk_term block
      in case term_kind t of
        XAIR_TERM_JUMP \<Rightarrow> print_seq [print_append ''  jump '', print_block_ref m (true_target t),
          print_args m (term_args_const m t False), print_append ''\<newline>'']
      | XAIR_TERM_CBRANCH \<Rightarrow> print_seq [print_append ''  cbranch '', print_value_ref m (condition t), print_append '', '',
          print_block_ref m (true_target t), print_args m (term_args_const m t False), print_append '', '',
          print_block_ref m (false_target t), print_args m (term_args_const m t True), print_append ''\<newline>'']
      | XAIR_TERM_RETURN \<Rightarrow> print_seq [print_append ''  return'',
          if true_arg_count t \<noteq> 0 then print_seq [print_append '' '', print_args m (term_args_const m t False)] else id,
          print_append ''\<newline>'']
      | XAIR_TERM_TRAP \<Rightarrow> print_append (''  trap '' @ dec_text (code t) @ ''\<newline>'')
      | XAIR_TERM_FAULT \<Rightarrow> print_append (''  fault '' @ dec_text (code t) @ ''\<newline>'')
      | _ \<Rightarrow> print_append ''  <unterminated>\<newline>'')"

definition print_param :: "xair_module \<Rightarrow> xair_value_id \<Rightarrow> print_step" where
  "print_param m param = print_seq [print_value_ref m param, print_append '':'', print_type (val_type (vals m ! param))]"

definition print_block :: "xair_module \<Rightarrow> xair_block_rec \<Rightarrow> print_step" where
  "print_block m block = print_seq
     [print_append (blk_name block @ ''(''), print_commas True (map (print_param m) (params block)), print_append ''):\<newline>'',
      print_seq (map (\<lambda>i. print_op m (ops m ! i)) (blk_ops block)), print_term m block, print_append ''\<newline>'']"

definition xair_format_module :: "xair_module \<Rightarrow> string \<Rightarrow> xair_status \<times> string" where
  "xair_format_module m buffer =
     (if length buffer = 0 then (XAIR_ERR_BAD_ARG, buffer)
      else let p = print_seq (map (print_block m) (blocks m)) \<lparr>pr_data = buffer[0 := NUL], pr_used = 0, pr_truncated = False\<rparr>
           in (if pr_truncated p then XAIR_ERR_RANGE else XAIR_OK, pr_data p))"

section \<open>The text of a module\<close>

text \<open>What the printer writes, as a function of the module alone.\<close>

fun commas :: "string list \<Rightarrow> string" where
  "commas [] = ''''"
| "commas [x] = x"
| "commas (x # y # xs) = x @ '', '' @ commas (y # xs)"

definition type_text :: "xair_type \<Rightarrow> string" where
  "type_text t =
     (case kind t of
        XAIR_TYPE_VOID \<Rightarrow> ''void''
      | XAIR_TYPE_INT \<Rightarrow> ''i'' @ dec_text (bits t)
      | XAIR_TYPE_ADDR \<Rightarrow> ''addr'' @ dec_text (bits t)
      | XAIR_TYPE_FLAGS \<Rightarrow> ''flags'' @ dec_text (bits t)
      | XAIR_TYPE_MEM \<Rightarrow> ''mem<'' @ dec_text (aux t) @ '','' @ dec_text (bits t) @ ''>''
      | XAIR_TYPE_LABEL8 \<Rightarrow> ''label8''
      | XAIR_TYPE_LABELSET \<Rightarrow> ''labelset''
      | _ \<Rightarrow> ''invalid'')"

definition ref_text :: "xair_module \<Rightarrow> xair_value_id \<Rightarrow> string" where
  "ref_text m v = (if v < length (vals m) then ''%'' @ val_name (vals m ! v) else ''%bad'')"

definition block_ref_text :: "xair_module \<Rightarrow> xair_block_id \<Rightarrow> string" where
  "block_ref_text m b = (if b < length (blocks m) then blk_name (blocks m ! b) else ''bad_block'')"

definition args_text :: "xair_module \<Rightarrow> xair_value_id list \<Rightarrow> string" where
  "args_text m args = ''('' @ commas (map (ref_text m) args) @ '')''"

definition edge_text :: "xair_module \<Rightarrow> xair_block_id \<Rightarrow> xair_value_id list \<Rightarrow> string" where
  "edge_text m b args = block_ref_text m b @ args_text m args"

text \<open>An operation prints at most its first two sources, except for a store, which prints three.\<close>

definition op_text :: "xair_module \<Rightarrow> xair_op_rec \<Rightarrow> string" where
  "op_text m oper =
     (let t = type_text (val_type (vals m ! dst oper)); r = ref_text m; s = src oper
      in ''  '' @ r (dst oper) @ '':'' @ t @ '' = '' @
        (case opcode oper of
           XAIR_OP_CONST_U64 \<Rightarrow> ''const.'' @ t @ '' 0x'' @ hex_text (unat (imm oper))
         | XAIR_OP_LOAD \<Rightarrow> ''load.'' @ t @ '' '' @ endian_name (endian oper) @ '' '' @ commas [r (s ! 0), r (s ! 1)]
         | XAIR_OP_STORE \<Rightarrow> ''store '' @ endian_name (endian oper) @ '' '' @ commas [r (s ! 0), r (s ! 1), r (s ! 2)]
         | oc \<Rightarrow> xair_opcode_name oc @
             (if src_count oper = 0 then ''''
              else ''.'' @ type_text (val_type (vals m ! (s ! 0))) @ '' '' @
                commas (if src_count oper = 1 then [r (s ! 0)] else [r (s ! 0), r (s ! 1)]))) @ ''\<newline>'')"

definition term_text :: "xair_module \<Rightarrow> xair_term_rec \<Rightarrow> string" where
  "term_text m t =
     (case term_kind t of
        XAIR_TERM_JUMP \<Rightarrow> ''  jump '' @ edge_text m (true_target t) (term_args_const m t False)
      | XAIR_TERM_CBRANCH \<Rightarrow> ''  cbranch '' @ commas [ref_text m (condition t), edge_text m (true_target t) (term_args_const m t False),
          edge_text m (false_target t) (term_args_const m t True)]
      | XAIR_TERM_RETURN \<Rightarrow> ''  return'' @ (if true_arg_count t = 0 then '''' else '' '' @ args_text m (term_args_const m t False))
      | XAIR_TERM_TRAP \<Rightarrow> ''  trap '' @ dec_text (code t)
      | XAIR_TERM_FAULT \<Rightarrow> ''  fault '' @ dec_text (code t)
      | XAIR_TERM_NONE \<Rightarrow> ''  <unterminated>'') @ ''\<newline>''"

definition param_text :: "xair_module \<Rightarrow> xair_value_id \<Rightarrow> string" where
  "param_text m v = ref_text m v @ '':'' @ type_text (val_type (vals m ! v))"

definition block_text :: "xair_module \<Rightarrow> xair_block_rec \<Rightarrow> string" where
  "block_text m block = blk_name block @ ''('' @ commas (map (param_text m) (params block)) @ ''):\<newline>'' @
     concat (map (\<lambda>i. op_text m (ops m ! i)) (blk_ops block)) @ term_text m (blk_term block) @ ''\<newline>''"

definition module_text :: "xair_module \<Rightarrow> string" where
  "module_text m = concat (map (block_text m) (blocks m))"

section \<open>The printer writes the text\<close>

text \<open>The printer after the text \<open>t\<close>, for a buffer \<open>b\<close>.\<close>

definition printed :: "string \<Rightarrow> string \<Rightarrow> xair_printer" where
  "printed b t =
     (if length t < length b then \<lparr>pr_data = t @ NUL # drop (Suc (length t)) b, pr_used = length t, pr_truncated = False\<rparr>
      else \<lparr>pr_data = take (length b - 1) t @ [NUL], pr_used = length b - 1, pr_truncated = True\<rparr>)"

lemma print_append_printed:
  assumes "b \<noteq> []"
  shows "print_append s (printed b t) = printed b (t @ s)"
proof (cases "length t < length b")
  case True
  then have len: "length (t @ NUL # drop (Suc (length t)) b) = length b" by simp
  show ?thesis
  proof (cases "length (t @ s) < length b")
    case fits: True
    then have "drop (Suc (length t + length s)) (t @ NUL # drop (Suc (length t)) b) = drop (Suc (length t + length s)) b"
      by (simp add: drop_Cons' add.commute)
    then show ?thesis using True fits len by (auto simp: print_append_def printed_def vsnprintf_at_def Let_def)
  next
    case False
    then have k: "min (length s) (length b - length t - 1) = length b - length t - 1" "length b - 1 = length t + (length b - length t - 1)"
      using True by auto
    have "take (length b - 1) (t @ s) = t @ take (length b - length t - 1) s" using True by (subst k(2)) simp
    moreover have "(t @ take (length b - length t - 1) s @ [NUL])[length b - 1 := NUL] = t @ take (length b - length t - 1) s @ [NUL]"
    proof -
      have "length b - 1 = length (t @ take (length b - length t - 1) s)" using True False by simp
      then show ?thesis by (metis append.assoc list_update_length)
    qed
    ultimately show ?thesis using True False len k(1)
      by (simp add: print_append_def printed_def vsnprintf_at_def Let_def) (use True False in auto)
  qed
next
  case False
  then show ?thesis by (simp add: print_append_def printed_def)
qed

definition prints :: "print_step \<Rightarrow> string \<Rightarrow> bool" where
  "prints f s \<longleftrightarrow> (\<forall>b t. b \<noteq> [] \<longrightarrow> f (printed b t) = printed b (t @ s))"

lemma prints_append: "prints (print_append s) s"
  by (simp add: prints_def print_append_printed)

lemma prints_id: "prints id ''''"
  by (simp add: prints_def)

lemma prints_if: "(c \<Longrightarrow> prints f s) \<Longrightarrow> (\<not> c \<Longrightarrow> prints g t) \<Longrightarrow> prints (if c then f else g) (if c then s else t)"
  by simp

lemma prints_comp: "prints f s \<Longrightarrow> prints g t \<Longrightarrow> prints (\<lambda>p. g (f p)) (s @ t)"
  by (simp add: prints_def)

lemma prints_Nil: "prints (print_seq []) ''''"
  by (simp add: prints_def print_seq_def)

lemma prints_Cons: "prints f s \<Longrightarrow> prints (print_seq fs) t \<Longrightarrow> prints (print_seq (f # fs)) (s @ t)"
  by (simp add: prints_def print_seq_def)

lemma prints_eq: "prints f s \<Longrightarrow> s = t \<Longrightarrow> prints f t"
  by simp

lemma prints_each: "(\<And>x. x \<in> set xs \<Longrightarrow> prints (f x) (g x)) \<Longrightarrow> prints (print_seq (map f xs)) (concat (map g xs))"
  by (induction xs) (simp_all add: prints_Nil prints_Cons)

lemma prints_commas:
  "(\<And>x. x \<in> set xs \<Longrightarrow> prints (f x) (g x)) \<Longrightarrow>
    prints (print_commas True (map f xs)) (commas (map g xs)) \<and>
    prints (print_commas False (map f xs)) (if xs = [] then '''' else '', '' @ commas (map g xs))"
proof (induction xs)
  case (Cons x xs)
  have rest: "prints (print_commas False (map f xs)) (if xs = [] then '''' else '', '' @ commas (map g xs))" using Cons by auto
  have "g x @ (if xs = [] then '''' else '', '' @ commas (map g xs)) = commas (map g (x # xs))" by (cases xs) auto
  with prints_comp [OF Cons.prems [of x] rest] have 1: "prints (\<lambda>p. print_commas False (map f xs) (f x p)) (commas (map g (x # xs)))" by simp
  from prints_comp [OF prints_append [of "'', ''"] 1] 1 show ?case by (simp add: prints_def)
qed (simp add: prints_def)

lemmas prints_first = prints_commas [THEN conjunct1]

lemmas print_intros = prints_Cons prints_Nil prints_append prints_if prints_id

lemma prints_type: "prints (print_type t) (type_text t)"
  by (simp add: print_type_def type_text_def prints_append split: xair_type_kind.split)

lemma prints_refs: "prints (print_value_ref m v) (ref_text m v)" "prints (print_block_ref m b) (block_ref_text m b)"
  by (simp_all add: print_value_ref_def ref_text_def print_block_ref_def block_ref_text_def valid_value_def valid_block_def prints_append)

lemma prints_args: "prints (print_args m args) (args_text m args)"
  unfolding print_args_def by (rule prints_eq, (rule print_intros prints_first prints_refs)+) (simp add: args_text_def)

lemmas print_parts = print_intros prints_type prints_refs prints_args

lemma prints_op: "prints (print_op m oper) (op_text m oper)"
  unfolding print_op_def Let_def
  by (rule prints_eq, (rule print_parts)+) (auto simp: op_text_def Let_def split: xair_opcode.split)

lemma prints_term: "prints (print_term m block) (term_text m (blk_term block))"
proof -
  let ?t = "blk_term block"
  have "prints (print_seq [print_append ''  jump '', print_block_ref m b, print_args m args, print_append ''\<newline>''])
      (''  jump '' @ edge_text m b args @ ''\<newline>'')" for b args
    by (rule prints_eq, (rule print_parts)+) (simp add: edge_text_def)
  moreover have "prints (print_seq [print_append ''  cbranch '', print_value_ref m c, print_append '', '', print_block_ref m b,
      print_args m args, print_append '', '', print_block_ref m b', print_args m args', print_append ''\<newline>''])
      (''  cbranch '' @ commas [ref_text m c, edge_text m b args, edge_text m b' args'] @ ''\<newline>'')" for c b args b' args'
    by (rule prints_eq, (rule print_parts)+) (simp add: edge_text_def)
  moreover have "prints (print_seq [print_append ''  return'',
      if n \<noteq> 0 then print_seq [print_append '' '', print_args m args] else id, print_append ''\<newline>''])
      (''  return'' @ (if n = 0 then '''' else '' '' @ args_text m args) @ ''\<newline>'')" for n :: nat and args
    by (rule prints_eq, (rule print_parts)+) simp
  ultimately show ?thesis
    by (cases "term_kind ?t") (simp_all add: print_term_def term_text_def Let_def prints_append)
qed

lemma prints_block: "prints (print_block m block) (block_text m block)"
  unfolding print_block_def print_param_def
  by (rule prints_eq, (rule print_parts prints_first prints_each prints_op prints_term)+)
    (simp add: block_text_def param_text_def [abs_def] comp_def)

text \<open>The buffer and the status, for every buffer.\<close>

lemma format_module_text:
  assumes "buffer \<noteq> []"
  shows "xair_format_module m buffer =
    (if length (module_text m) < length buffer
     then (XAIR_OK, module_text m @ NUL # drop (Suc (length (module_text m))) buffer)
     else (XAIR_ERR_RANGE, take (length buffer - 1) (module_text m) @ [NUL]))"
proof -
  have "prints (print_seq (map (print_block m) (blocks m))) (module_text m)"
    unfolding module_text_def by (intro prints_each prints_block)
  moreover have "\<lparr>pr_data = buffer[0 := NUL], pr_used = 0, pr_truncated = False\<rparr> = printed buffer ''''"
    using assms by (cases buffer) (simp_all add: printed_def)
  ultimately show ?thesis using assms by (simp add: xair_format_module_def prints_def) (simp add: printed_def)
qed

section \<open>What the observations depend on\<close>

text \<open>\<open>same_content m m'\<close>: the visible parts agree and the arguments of the terminators are still there.\<close>

definition same_content :: "xair_module \<Rightarrow> xair_module \<Rightarrow> bool" where
  "same_content m m' \<longleftrightarrow> vals m' = vals m \<and> ops m' = ops m \<and>
     map (\<lambda>bb. (blk_name bb, params bb, blk_ops bb, blk_term bb)) (blocks m') =
       map (\<lambda>bb. (blk_name bb, params bb, blk_ops bb, blk_term bb)) (blocks m) \<and>
     (\<forall>b < length (blocks m). \<forall>f. term_args_const m' (blk_term (blocks m ! b)) f = term_args_const m (blk_term (blocks m ! b)) f)"

lemma same_content_blocks:
  assumes "same_content m m'"
  shows "length (blocks m') = length (blocks m)"
    "b < length (blocks m) \<Longrightarrow> blk_name (blocks m' ! b) = blk_name (blocks m ! b) \<and> params (blocks m' ! b) = params (blocks m ! b) \<and>
      blk_ops (blocks m' ! b) = blk_ops (blocks m ! b) \<and> blk_term (blocks m' ! b) = blk_term (blocks m ! b)"
proof -
  have eq: "map (\<lambda>bb. (blk_name bb, params bb, blk_ops bb, blk_term bb)) (blocks m') =
      map (\<lambda>bb. (blk_name bb, params bb, blk_ops bb, blk_term bb)) (blocks m)"
    using assms by (simp add: same_content_def)
  show len: "length (blocks m') = length (blocks m)" using arg_cong [OF eq, of length] by simp
  show "b < length (blocks m) \<Longrightarrow> blk_name (blocks m' ! b) = blk_name (blocks m ! b) \<and> params (blocks m' ! b) = params (blocks m ! b) \<and>
      blk_ops (blocks m' ! b) = blk_ops (blocks m ! b) \<and> blk_term (blocks m' ! b) = blk_term (blocks m ! b)"
    using arg_cong [OF eq, of "\<lambda>xs. xs ! b"] by (simp add: len)
qed

text \<open>Loops over the blocks of two modules with the same content.\<close>

lemma foldl_blocks:
  assumes "same_content m m'" "\<And>h b. b < length (blocks m) \<Longrightarrow> g h (b, blocks m' ! b) = f h (b, blocks m ! b)"
  shows "foldl g h (enumerate 0 (blocks m')) = foldl f h (enumerate 0 (blocks m))"
proof -
  have e: "enumerate 0 xs = map (\<lambda>b. (b, xs ! b)) [0..<length xs]" for xs :: "xair_block_rec list"
    by (rule nth_equalityI) (simp_all add: nth_enumerate_eq)
  have "foldl (\<lambda>h b. g h (b, blocks m' ! b)) h bs = foldl (\<lambda>h b. f h (b, blocks m ! b)) h bs" if "\<forall>b \<in> set bs. b < length (blocks m)" for bs h
    using that assms(2) by (induction bs arbitrary: h) auto
  then show ?thesis by (simp add: e same_content_blocks(1) [OF assms(1)] foldl_map)
qed

lemma text_same:
  assumes "same_content m m'"
  shows "module_text m' = module_text m"
proof -
  note len = same_content_blocks(1) [OF assms] and blk = same_content_blocks(2) [OF assms]
  have v: "vals m' = vals m" "ops m' = ops m" using assms by (auto simp: same_content_def)
  have ref: "ref_text m' = ref_text m" "block_ref_text m' = block_ref_text m"
    using blk by (auto simp: fun_eq_iff ref_text_def block_ref_text_def v len)
  have op: "op_text m' = op_text m" unfolding op_text_def ref v by (rule refl)
  have par: "param_text m' = param_text m" by (simp add: fun_eq_iff param_text_def ref v)
  have edge: "edge_text m' = edge_text m" "args_text m' = args_text m" by (simp_all add: fun_eq_iff edge_text_def args_text_def ref)
  have "block_text m' (blocks m' ! b) = block_text m (blocks m ! b)" if b: "b < length (blocks m)" for b
  proof -
    have "term_args_const m' (blk_term (blocks m ! b)) f = term_args_const m (blk_term (blocks m ! b)) f" for f
      using assms b by (simp add: same_content_def)
    then have "term_text m' (blk_term (blocks m ! b)) = term_text m (blk_term (blocks m ! b))"
      by (simp add: term_text_def ref edge cong: xair_term_kind.case_cong)
    then show ?thesis using blk [OF b] by (simp add: block_text_def op par v)
  qed
  then have "map (block_text m') (blocks m') = map (block_text m) (blocks m)"
    by (intro nth_equalityI) (simp_all add: len)
  then show ?thesis by (simp add: module_text_def)
qed

lemma fingerprint_same:
  assumes "same_content m m'"
  shows "xair_module_fingerprint m' = xair_module_fingerprint m"
proof -
  have v: "vals m' = vals m" "ops m' = ops m" using assms by (auto simp: same_content_def)
  have "fingerprint_block m' h (b, blocks m' ! b) = fingerprint_block m h (b, blocks m ! b)" if "b < length (blocks m)" for h b
    using same_content_blocks(2) [OF assms that] assms that by (simp add: fingerprint_block_def same_content_def Let_def)
  from foldl_blocks [OF assms, of "fingerprint_block m'" "fingerprint_block m", OF this] show ?thesis
    by (simp add: xair_module_fingerprint_def v same_content_blocks(1) [OF assms])
qed

lemma metrics_same:
  assumes "same_content m m'"
  shows "xair_get_module_metrics m' = xair_get_module_metrics m"
proof -
  have f: "fold metrics_add_block bs x = foldl (\<lambda>h (b :: nat, bb). metrics_add_block bb h) x (enumerate n bs)" for bs x n
    by (induction bs arbitrary: x n) auto
  have v: "vals m' = vals m" "ops m' = ops m" using assms by (auto simp: same_content_def)
  have "metrics_add_block (blocks m' ! b) h = metrics_add_block (blocks m ! b) h" if "b < length (blocks m)" for h b
    using same_content_blocks(2) [OF assms that] by (simp add: metrics_add_block_def)
  with foldl_blocks [OF assms, of "\<lambda>h (b :: nat, bb). metrics_add_block bb h" "\<lambda>h (b :: nat, bb). metrics_add_block bb h"] show ?thesis
    by (simp add: xair_get_module_metrics_def f [where n = 0] v same_content_blocks(1) [OF assms])
qed

lemma format_same: "same_content m m' \<Longrightarrow> xair_format_module m' buffer = xair_format_module m buffer"
  using format_module_text [of buffer] text_same [of m m'] by (cases "buffer = []") (simp_all add: xair_format_module_def [of _ "[]"])

text \<open>Builder calls only ever append to the array of terminator arguments.\<close>

definition args_kept :: "xair_module \<Rightarrow> xair_module \<Rightarrow> bool" where
  "args_kept m m' \<longleftrightarrow> (\<exists>xs. term_args m' = term_args m @ xs)"

lemma args_kept_eq: "term_args m' = term_args m \<Longrightarrow> args_kept m m'"
  by (simp add: args_kept_def)

lemma args_kept_trans: "args_kept m m' \<Longrightarrow> args_kept m' m'' \<Longrightarrow> args_kept m m''"
  by (auto simp: args_kept_def)

lemma append_args_kept: "append_term_args al args m = (r, m') \<Longrightarrow> args_kept m m'"
  by (auto simp: append_term_args_def args_kept_def split: if_splits xres.splits)

lemma set_term_kept: "set_term b t m = (r, m') \<Longrightarrow> args_kept m m'"
  by (auto simp: set_term_def args_kept_def split: if_splits)

lemma finalize_kept: "finalize_module_storage al m = (r, m') \<Longrightarrow> args_kept m m'"
  using finalize_module_storage_spec [of al m r m'] by (simp add: args_kept_eq stored_alike_def)

lemma term_ops_kept:
  "xair_set_jump al b d args m = (r, m') \<Longrightarrow> args_kept m m'"
  "xair_set_cbranch al b c d args d' args' m = (r, m') \<Longrightarrow> args_kept m m'"
  "xair_set_return al b args m = (r, m') \<Longrightarrow> args_kept m m'"
  "xair_set_trap b k m = (r, m') \<Longrightarrow> args_kept m m'"
  "xair_set_fault b k m = (r, m') \<Longrightarrow> args_kept m m'"
  by (auto simp: xair_set_jump_def xair_set_cbranch_def xair_set_return_def xair_set_trap_def xair_set_fault_def
      split: if_splits elim!: xbind_cases dest!: append_args_kept set_term_kept intro: args_kept_eq args_kept_trans)

lemma freeze_kept: "xair_module_freeze al m = (r, m') \<Longrightarrow> args_kept m m'"
  by (auto simp: xair_module_freeze_def args_kept_def split: if_splits prod.splits xres.splits dest!: finalize_kept)

lemma call_args_kept:
  assumes inv: "module_inv m" and call: "run_call al c m = (r, m')"
  shows "args_kept m m'"
proof (cases "op_call c")
  case True
  show ?thesis
  proof (rule op_call_induct [OF True call, where P = "\<lambda>r m'. args_kept m m'"])
    fix b oc t srcs im en nm r m'
    assume *: "add_op al b oc t srcs im en nm m = (r, m')" "\<forall>s \<in> set srcs. s < length (vals m)"
    show "args_kept m m'" using *(1) inv *(2)
      by (cases rule: add_op_cases) (simp_all add: args_kept_eq content_eq_def numbered_def value_number_insert_def op_added_def)
  qed (simp add: args_kept_eq)
next
  case False
  then show ?thesis using call
    by (cases c) (auto simp: op_call_def no_result_eq param_added_def intro: term_ops_kept freeze_kept args_kept_eq
        elim!: xair_block_create_cases xair_block_add_param_cases)
qed

lemma visible_same_content:
  assumes wf: "wf_module m" and kept: "args_kept m m'"
    and same: "vals m' = vals m" "ops m' = ops m"
      "map (\<lambda>bb. (blk_name bb, params bb, blk_ops bb, blk_term bb)) (blocks m') =
       map (\<lambda>bb. (blk_name bb, params bb, blk_ops bb, blk_term bb)) (blocks m)"
  shows "same_content m m'"
proof -
  obtain xs where xs: "term_args m' = term_args m @ xs" using kept by (auto simp: args_kept_def)
  have "term_args_const m' (blk_term (blocks m ! b)) f = term_args_const m (blk_term (blocks m ! b)) f" if "b < length (blocks m)" for b f
  proof -
    have "term_wf m (blk_term (blocks m ! b))" using wf that by (auto simp: wf_module_def)
    then show ?thesis by (auto simp: term_args_const_def Let_def term_wf_def xs)
  qed
  then show ?thesis using same by (simp add: same_content_def)
qed

text \<open>Calls that fail, and freezing, keep the content.\<close>

lemma call_same_content:
  assumes inv: "module_inv m" and call: "run_call al c m = (r, m')" and "(\<exists>e. r = Err e) \<or> c = Freeze"
  shows "same_content m m'"
proof (cases r)
  case (Err e)
  have wf: "wf_module m" using inv by (simp add: module_inv_def)
  have "visible m' = visible m" using call_err_visible [OF inv] call Err by blast
  then show ?thesis using call_args_kept [OF inv call] visible_same_content [OF wf] by (simp add: visible_def)
next
  case (Ok v)
  have wf: "wf_module m" using inv by (simp add: module_inv_def)
  from Ok assms(3) call obtain q where f: "xair_module_freeze al m = (q, m')" by (auto simp: no_result_eq)
  have *: "vals m' = vals m \<and> ops m' = ops m \<and> list_all2 same_block (blocks m) (blocks m')" if "\<not> frozen m"
    using f that by (auto simp: xair_module_freeze_def stored_alike_def split: prod.splits xres.splits dest!: finalize_module_storage_spec)
  have "map (\<lambda>bb. (blk_name bb, params bb, blk_ops bb, blk_term bb)) (blocks m') =
      map (\<lambda>bb. (blk_name bb, params bb, blk_ops bb, blk_term bb)) (blocks m)" if "\<not> frozen m"
    using * [OF that] by (intro nth_equalityI) (auto simp: list_all2_conv_all_nth same_block_def)
  moreover have "m' = m" if "frozen m" using f that by (simp add: xair_module_freeze_def)
  ultimately show ?thesis using * call_args_kept [OF inv call] visible_same_content [OF wf] by (cases "frozen m") auto
qed

end
