(* ===== verification/Xair_Lift.thy ===== *)
theory Xair_Lift
  imports Xair_Verify Xair_Decode
begin

text \<open>
  The x86 front end of \<^verbatim>\<open>src/src/xair_frontend.c\<close>: it decodes instructions of a byte image one by one and appends
  the operations that compute them to a block. Registers and memory that are read before they are written become
  parameters of the block, the values of the registers written and the last memory version are returned at its end.

  The lifting state \<open>x86_lift_state\<close> of the code is a record that holds the module and the result it fills in; every
  function is a state-passing operation that may fail half-way, as in the code. The decoder is a backend record, as
  the options of the code allow; the uninitialised instruction that the code hands to it is \<open>zero_inst\<close> here.
\<close>

section \<open>Images, options, results and the lifting state\<close>

datatype xair_arch = XAIR_ARCH_X86_32 | XAIR_ARCH_X86_64

datatype xair_lift_end_kind =
    XAIR_LIFT_END_FALLTHROUGH
  | XAIR_LIFT_END_DIRECT_JUMP
  | XAIR_LIFT_END_DIRECT_CBRANCH
  | XAIR_LIFT_END_RETURN
  | XAIR_LIFT_END_UNSUPPORTED

record xair_image =
  img_bytes :: "u8 list"
  img_base :: u64

record xair_lift_options =
  opt_arch :: xair_arch
  opt_address :: u64
  opt_memory_space :: nat
  opt_max_instructions :: nat
  opt_block_name :: string
  opt_decoder :: "xair_x86_decoder_backend option"

abbreviation XAIR_LIFT_MAX_REG_OUTPUTS :: nat where "XAIR_LIFT_MAX_REG_OUTPUTS \<equiv> 16"
abbreviation XAIR_LIFT_MAX_RETURNS :: nat where "XAIR_LIFT_MAX_RETURNS \<equiv> 24"

text \<open>The fixed arrays of a result are lists that hold the entries in use.\<close>

record xair_lift_result =
  lr_end_kind :: xair_lift_end_kind
  lr_block :: xair_block_id
  lr_start :: u64
  lr_next :: u64
  lr_target :: u64
  lr_fallthrough :: u64
  lr_unsupported_address :: u64
  lr_unsupported_opcode :: u8
  lr_decoder_name :: string
  lr_bytes_read :: u64
  lr_instructions :: nat
  lr_memory_in :: xair_value_id
  lr_memory_out :: xair_value_id
  lr_branch_condition :: xair_value_id
  lr_input_regs :: "(xair_x86_reg \<times> xair_value_id) list"
  lr_output_regs :: "(xair_x86_reg \<times> xair_value_id) list"
  lr_return_values :: "xair_value_id list"

record x86_lift_state =
  ls_module :: xair_module
  ls_image :: xair_image
  ls_result :: xair_lift_result
  ls_decoder :: xair_x86_decoder_backend
  ls_arch :: xair_arch
  ls_block :: xair_block_id
  ls_pc :: u64
  ls_emit_return_terminator :: bool
  ls_reg_bits :: nat
  ls_addr_bits :: nat
  ls_stack_bytes :: u64
  ls_memory_space :: nat
  ls_instructions :: nat
  ls_regs :: "xair_value_id list"
  ls_written_regs :: "bool list"
  ls_memory :: xair_value_id
  ls_has_memory :: bool
  ls_zf :: xair_value_id
  ls_has_zf :: bool

type_synonym 'a lift_op = "(x86_lift_state, 'a) xop"

definition lift_result_init :: xair_lift_result where
  "lift_result_init = \<lparr>lr_end_kind = XAIR_LIFT_END_FALLTHROUGH, lr_block = XAIR_INVALID_ID, lr_start = 0, lr_next = 0,
     lr_target = 0, lr_fallthrough = 0, lr_unsupported_address = 0, lr_unsupported_opcode = 0, lr_decoder_name = '''',
     lr_bytes_read = 0, lr_instructions = 0, lr_memory_in = XAIR_INVALID_ID, lr_memory_out = XAIR_INVALID_ID,
     lr_branch_condition = XAIR_INVALID_ID, lr_input_regs = [], lr_output_regs = [], lr_return_values = []\<rparr>"

definition xair_image_init :: "u8 list \<Rightarrow> u64 \<Rightarrow> xair_image" where
  "xair_image_init bytes b = \<lparr>img_bytes = bytes, img_base = b\<rparr>"

fun xair_arch_name :: "xair_arch \<Rightarrow> string" where
  "xair_arch_name XAIR_ARCH_X86_32 = ''x86_32''"
| "xair_arch_name XAIR_ARCH_X86_64 = ''x86_64''"

fun xair_lift_end_kind_name :: "xair_lift_end_kind \<Rightarrow> string" where
  "xair_lift_end_kind_name XAIR_LIFT_END_FALLTHROUGH = ''fallthrough''"
| "xair_lift_end_kind_name XAIR_LIFT_END_DIRECT_JUMP = ''direct_jump''"
| "xair_lift_end_kind_name XAIR_LIFT_END_DIRECT_CBRANCH = ''direct_cbranch''"
| "xair_lift_end_kind_name XAIR_LIFT_END_RETURN = ''return''"
| "xair_lift_end_kind_name XAIR_LIFT_END_UNSUPPORTED = ''unsupported''"

definition x86_reg_names :: "string list" where
  "x86_reg_names = [''rax'', ''rcx'', ''rdx'', ''rbx'', ''rsp'', ''rbp'', ''rsi'', ''rdi'',
     ''r8'', ''r9'', ''r10'', ''r11'', ''r12'', ''r13'', ''r14'', ''r15'']"

definition x86_reg_names32 :: "string list" where
  "x86_reg_names32 = [''eax'', ''ecx'', ''edx'', ''ebx'', ''esp'', ''ebp'', ''esi'', ''edi'']"

definition xair_x86_reg_name :: "xair_x86_reg \<Rightarrow> string" where
  "xair_x86_reg_name r = (if r \<ge> XAIR_X86_REG_COUNT then ''invalid'' else x86_reg_names ! r)"

definition xair_x86_default_decoder :: xair_x86_decoder_backend where
  "xair_x86_default_decoder = xair_x86_stub_decoder"

definition xair_x86_decoder_name :: "xair_x86_decoder_backend option \<Rightarrow> string" where
  "xair_x86_decoder_name decoder =
     backend_name (case decoder of None \<Rightarrow> xair_x86_default_decoder | Some d \<Rightarrow> d)"

definition image_offset :: "xair_image \<Rightarrow> u64 \<Rightarrow> nat option" where
  "image_offset img address =
     (if address < img_base img then None
      else let delta = unat (address - img_base img)
        in if delta > SIZE_MAX \<or> delta \<ge> length (img_bytes img) then None else Some delta)"

section \<open>Registers, memory and flags\<close>

definition x86_reg_type :: "x86_lift_state \<Rightarrow> xair_type" where
  "x86_reg_type s = xair_type_i (ls_reg_bits s)"

definition x86_addr_type :: "x86_lift_state \<Rightarrow> xair_type" where
  "x86_addr_type s = xair_type_addr (ls_addr_bits s)"

definition x86_reg_supported :: "x86_lift_state \<Rightarrow> xair_x86_reg \<Rightarrow> bool" where
  "x86_reg_supported s r \<longleftrightarrow> r < XAIR_X86_REG_COUNT \<and> (ls_arch s = XAIR_ARCH_X86_64 \<or> r < XAIR_X86_R8)"

definition x86_reg_name_for_state :: "x86_lift_state \<Rightarrow> xair_x86_reg \<Rightarrow> string" where
  "x86_reg_name_for_state s r =
     (if ls_arch s = XAIR_ARCH_X86_32 \<and> r < XAIR_X86_R8 then x86_reg_names32 ! r else xair_x86_reg_name r)"

text \<open>A builder operation of the module, seen from the lifting state.\<close>

definition on_module :: "(xair_module, 'a) xop \<Rightarrow> 'a lift_op" where
  "on_module f s = (case f (ls_module s) of (r, m) \<Rightarrow> (r, s\<lparr>ls_module := m\<rparr>))"

text \<open>Reading the state and changing it.\<close>

definition with_state :: "(x86_lift_state \<Rightarrow> 'a lift_op) \<Rightarrow> 'a lift_op" where
  "with_state f s = f s s"

definition modify :: "(x86_lift_state \<Rightarrow> x86_lift_state) \<Rightarrow> unit lift_op" where
  "modify f s = (Ok (), f s)"

definition update_result :: "(xair_lift_result \<Rightarrow> xair_lift_result) \<Rightarrow> unit lift_op" where
  "update_result f = modify (\<lambda>s. s\<lparr>ls_result := f (ls_result s)\<rparr>)"

definition x86_ensure_reg :: "allocator \<Rightarrow> xair_x86_reg \<Rightarrow> xair_value_id lift_op" where
  "x86_ensure_reg al r s =
     (if \<not> x86_reg_supported s r then (Err XAIR_ERR_BAD_ARG, s)
      else if ls_regs s ! r \<noteq> XAIR_INVALID_ID then (Ok (ls_regs s ! r), s)
      else case on_module (xair_block_add_param al (ls_block s) (x86_reg_type s) (x86_reg_name_for_state s r)) s of
        (Err e, s1) \<Rightarrow> (Err e, s1)
      | (Ok v, s1) \<Rightarrow>
          let s2 = s1\<lparr>ls_regs := (ls_regs s1)[r := v]\<rparr>
          in if length (lr_input_regs (ls_result s2)) \<ge> XAIR_LIFT_MAX_REG_OUTPUTS then (Err XAIR_ERR_RANGE, s2)
             else (Ok v, s2\<lparr>ls_result := (ls_result s2)\<lparr>lr_input_regs := lr_input_regs (ls_result s2) @ [(r, v)]\<rparr>\<rparr>))"

definition x86_ensure_memory :: "allocator \<Rightarrow> xair_value_id lift_op" where
  "x86_ensure_memory al s =
     (if ls_has_memory s then (Ok (ls_memory s), s)
      else case on_module (xair_block_add_param al (ls_block s)
          (xair_type_mem (ls_memory_space s) (ls_addr_bits s)) ''mem'') s of
        (Err e, s1) \<Rightarrow> (Err e, s1)
      | (Ok v, s1) \<Rightarrow> (Ok v, s1\<lparr>ls_memory := v, ls_has_memory := True,
            ls_result := (ls_result s1)\<lparr>lr_memory_in := v\<rparr>\<rparr>))"

text \<open>
  The code does not check the number of the register it writes. The decoder of the library reports existing registers
  only; with another backend the number may lie outside both arrays, where the write is undefined.
\<close>

definition x86_write_reg :: "xair_x86_reg \<Rightarrow> xair_value_id \<Rightarrow> unit lift_op" where
  "x86_write_reg r v =
     (if r \<ge> XAIR_X86_REG_COUNT then xfail UNDEFINED_BEHAVIOUR
      else modify (\<lambda>s. s\<lparr>ls_regs := (ls_regs s)[r := v], ls_written_regs := (ls_written_regs s)[r := True]\<rparr>))"

definition x86_build_const_u64 :: "allocator \<Rightarrow> xair_type \<Rightarrow> u64 \<Rightarrow> string \<Rightarrow> xair_value_id lift_op" where
  "x86_build_const_u64 al t v nm = with_state (\<lambda>s. on_module (xair_build_const_u64 al (ls_block s) t v nm))"

text \<open>The calls \<^verbatim>\<open>xair_build_unary(state->module, state->block, ...)\<close> and \<^verbatim>\<open>xair_build_binary\<close>.\<close>

definition x86_unary :: "allocator \<Rightarrow> xair_opcode \<Rightarrow> xair_type \<Rightarrow> xair_value_id \<Rightarrow> string \<Rightarrow> xair_value_id lift_op" where
  "x86_unary al oc t v nm = with_state (\<lambda>s. on_module (xair_build_unary al (ls_block s) oc t v nm))"

definition x86_binary :: "allocator \<Rightarrow> xair_opcode \<Rightarrow> xair_type \<Rightarrow> xair_value_id \<Rightarrow> xair_value_id \<Rightarrow> string
    \<Rightarrow> xair_value_id lift_op" where
  "x86_binary al oc t lhs rhs nm = with_state (\<lambda>s. on_module (xair_build_binary al (ls_block s) oc t lhs rhs nm))"

definition x86_set_zf_from_flags :: "allocator \<Rightarrow> xair_value_id \<Rightarrow> unit lift_op" where
  "x86_set_zf_from_flags al flags =
     xbind (x86_unary al XAIR_OP_FLAG_ZF (xair_type_i 1) flags ''zf'') (\<lambda>v.
       modify (\<lambda>s. s\<lparr>ls_zf := v, ls_has_zf := True\<rparr>))"

definition x86_set_zf_from_value :: "allocator \<Rightarrow> xair_value_id \<Rightarrow> unit lift_op" where
  "x86_set_zf_from_value al v =
     xbind (x86_unary al XAIR_OP_FLAGS_LOGIC (xair_type_flags 6) v ''logic_flags'') (x86_set_zf_from_flags al)"

definition x86_const_int :: "allocator \<Rightarrow> u64 \<Rightarrow> string \<Rightarrow> xair_value_id lift_op" where
  "x86_const_int al v nm = with_state (\<lambda>s. x86_build_const_u64 al (x86_reg_type s) v nm)"

text \<open>A signed offset, in two's complement: negating and subtracting when it is negative.\<close>

definition x86_add_i64 :: "u64 \<Rightarrow> u64 \<Rightarrow> u64" where
  "x86_add_i64 b offset = (if sint offset < 0 then b - (- offset) else b + offset)"

definition x86_lift_add_sub_values ::
  "allocator \<Rightarrow> xair_opcode \<Rightarrow> xair_opcode \<Rightarrow> xair_x86_reg \<Rightarrow> xair_value_id \<Rightarrow> xair_value_id \<Rightarrow> unit lift_op" where
  "x86_lift_add_sub_values al value_opcode flags_opcode d lhs rhs = with_state (\<lambda>s.
     xbind (x86_binary al value_opcode (x86_reg_type s) lhs rhs (if value_opcode = XAIR_OP_ADD then ''add'' else ''sub''))
       (\<lambda>v.
     xbind (x86_binary al flags_opcode (xair_type_flags 6) lhs rhs ''flags'') (\<lambda>flags.
     xbind (x86_set_zf_from_flags al flags) (\<lambda>_.
     x86_write_reg d v))))"

definition x86_lift_cmp_values :: "allocator \<Rightarrow> xair_value_id \<Rightarrow> xair_value_id \<Rightarrow> unit lift_op" where
  "x86_lift_cmp_values al lhs rhs =
     xbind (x86_binary al XAIR_OP_FLAGS_SUB (xair_type_flags 6) lhs rhs ''cmp_flags'') (x86_set_zf_from_flags al)"

definition x86_lift_test_values :: "allocator \<Rightarrow> xair_value_id \<Rightarrow> xair_value_id \<Rightarrow> unit lift_op" where
  "x86_lift_test_values al lhs rhs = with_state (\<lambda>s.
     xbind (x86_binary al XAIR_OP_AND (x86_reg_type s) lhs rhs ''test'') (x86_set_zf_from_value al))"

definition x86_lift_logic_values ::
  "allocator \<Rightarrow> xair_opcode \<Rightarrow> xair_x86_reg \<Rightarrow> xair_value_id \<Rightarrow> xair_value_id \<Rightarrow> unit lift_op" where
  "x86_lift_logic_values al oc d lhs rhs = with_state (\<lambda>s.
     xbind (x86_binary al oc (x86_reg_type s) lhs rhs (xair_opcode_name oc)) (\<lambda>v.
     xbind (x86_set_zf_from_value al v) (\<lambda>_.
     x86_write_reg d v)))"

section \<open>Addresses and memory accesses\<close>

definition x86_int_to_addr :: "allocator \<Rightarrow> xair_value_id \<Rightarrow> xair_value_id lift_op" where
  "x86_int_to_addr al v = with_state (\<lambda>s. x86_unary al XAIR_OP_INT_TO_ADDR (x86_addr_type s) v ''addr'')"

definition x86_addr_to_int :: "allocator \<Rightarrow> xair_value_id \<Rightarrow> xair_value_id lift_op" where
  "x86_addr_to_int al v = with_state (\<lambda>s. x86_unary al XAIR_OP_ADDR_TO_INT (x86_reg_type s) v ''lea'')"

definition x86_addr_add_i64 :: "allocator \<Rightarrow> xair_value_id \<Rightarrow> u64 \<Rightarrow> string \<Rightarrow> xair_value_id lift_op" where
  "x86_addr_add_i64 al b offset nm = with_state (\<lambda>s.
     xbind (x86_const_int al offset ''disp'') (\<lambda>delta.
     x86_binary al XAIR_OP_ADDR_ADD (x86_addr_type s) b delta nm))"

text \<open>
  The three stages of \<^verbatim>\<open>x86_build_memory_address\<close> for a base-and-index operand: the base, the scaled index added to
  it, the displacement. The invalid id stands for no address yet.
\<close>

definition x86_base_address :: "allocator \<Rightarrow> xair_x86_memory_operand \<Rightarrow> xair_value_id lift_op" where
  "x86_base_address al mem =
     (if has_base mem then xbind (x86_ensure_reg al (base mem)) (x86_int_to_addr al) else xreturn XAIR_INVALID_ID)"

definition x86_scaled_index :: "allocator \<Rightarrow> xair_x86_memory_operand \<Rightarrow> xair_value_id lift_op" where
  "x86_scaled_index al mem =
     xbind (x86_ensure_reg al (index mem)) (\<lambda>index_value.
       if scale mem \<noteq> 1 then
         xbind (x86_const_int al (ucast (scale mem)) ''scale'') (\<lambda>scale_value.
         with_state (\<lambda>s. x86_binary al XAIR_OP_MUL (x86_reg_type s) index_value scale_value ''index''))
       else xreturn index_value)"

definition x86_index_address :: "allocator \<Rightarrow> xair_x86_memory_operand \<Rightarrow> xair_value_id \<Rightarrow> xair_value_id lift_op" where
  "x86_index_address al mem addr =
     (if has_index mem then
        xbind (x86_scaled_index al mem) (\<lambda>scaled_value.
          if addr = XAIR_INVALID_ID then x86_int_to_addr al scaled_value
          else with_state (\<lambda>s. x86_binary al XAIR_OP_ADDR_ADD (x86_addr_type s) addr scaled_value ''addr_index''))
      else xreturn addr)"

definition x86_build_memory_address :: "allocator \<Rightarrow> xair_x86_memory_operand \<Rightarrow> u64 \<Rightarrow> xair_value_id lift_op" where
  "x86_build_memory_address al mem next_pc = with_state (\<lambda>s.
     (if mem_kind mem = XAIR_X86_MEM_RIP_REL then
        x86_build_const_u64 al (x86_addr_type s) (x86_add_i64 next_pc (displacement mem)) ''rip_addr''
      else if mem_kind mem \<noteq> XAIR_X86_MEM_BASE_INDEX then xfail XAIR_ERR_UNSUPPORTED
      else
        xbind (x86_base_address al mem) (\<lambda>b.
        xbind (x86_index_address al mem b) (\<lambda>addr.
          if addr = XAIR_INVALID_ID then x86_build_const_u64 al (x86_addr_type s) (displacement mem) ''addr''
          else if displacement mem \<noteq> 0 then x86_addr_add_i64 al addr (displacement mem) ''addr_disp''
          else xreturn addr))))"

definition x86_lift_mem_load :: "allocator \<Rightarrow> xair_x86_reg \<Rightarrow> xair_x86_memory_operand \<Rightarrow> u64 \<Rightarrow> unit lift_op" where
  "x86_lift_mem_load al d mem next_pc =
     xbind (x86_ensure_memory al) (\<lambda>memory.
     xbind (x86_build_memory_address al mem next_pc) (\<lambda>addr.
     xbind (with_state (\<lambda>s. on_module (xair_build_load al (ls_block s) (x86_reg_type s) memory addr XAIR_ENDIAN_LE ''load'')))
       (\<lambda>loaded. x86_write_reg d loaded)))"

text \<open>The assignments \<^verbatim>\<open>state->memory = next_memory; state->result->memory_out = next_memory\<close>.\<close>

definition x86_write_memory :: "xair_value_id \<Rightarrow> unit lift_op" where
  "x86_write_memory v = modify (\<lambda>s. s\<lparr>ls_memory := v, ls_result := (ls_result s)\<lparr>lr_memory_out := v\<rparr>\<rparr>)"

definition x86_lift_mem_store :: "allocator \<Rightarrow> xair_x86_memory_operand \<Rightarrow> xair_value_id \<Rightarrow> u64 \<Rightarrow> unit lift_op" where
  "x86_lift_mem_store al mem data next_pc =
     xbind (x86_ensure_memory al) (\<lambda>memory.
     xbind (x86_build_memory_address al mem next_pc) (\<lambda>addr.
     xbind (with_state (\<lambda>s. on_module (xair_build_store al (ls_block s) memory addr data XAIR_ENDIAN_LE ''store'')))
       x86_write_memory))"

section \<open>Ending a block\<close>

definition x86_append_return :: "xair_value_id \<Rightarrow> unit lift_op" where
  "x86_append_return v s =
     (if length (lr_return_values (ls_result s)) \<ge> XAIR_LIFT_MAX_RETURNS then (Err XAIR_ERR_RANGE, s)
      else update_result (\<lambda>r. r\<lparr>lr_return_values := lr_return_values r @ [v]\<rparr>) s)"

text \<open>One iteration and the whole of the loop over the written registers.\<close>

definition x86_output_reg :: "xair_x86_reg \<Rightarrow> unit lift_op" where
  "x86_output_reg i s =
     (if \<not> ls_written_regs s ! i then (Ok (), s)
      else if length (lr_output_regs (ls_result s)) \<ge> XAIR_LIFT_MAX_REG_OUTPUTS then (Err XAIR_ERR_RANGE, s)
      else xbind (update_result (\<lambda>r. r\<lparr>lr_output_regs := lr_output_regs r @ [(i, ls_regs s ! i)]\<rparr>))
        (\<lambda>_. x86_append_return (ls_regs s ! i)) s)"

fun x86_output_regs :: "xair_x86_reg list \<Rightarrow> unit lift_op" where
  "x86_output_regs [] = xreturn ()"
| "x86_output_regs (i # is) = xbind (x86_output_reg i) (\<lambda>_. x86_output_regs is)"

definition x86_finish_block :: "allocator \<Rightarrow> unit lift_op" where
  "x86_finish_block al =
     xbind (modify (\<lambda>s. s\<lparr>ls_result := (ls_result s)\<lparr>lr_bytes_read := ls_pc s - lr_start (ls_result s),
       lr_next := ls_pc s, lr_instructions := ls_instructions s\<rparr>\<rparr>)) (\<lambda>_.
     xbind (with_state (\<lambda>s. if ls_has_memory s
       then xbind (update_result (\<lambda>r. r\<lparr>lr_memory_out := ls_memory s\<rparr>)) (\<lambda>_. x86_append_return (ls_memory s))
       else xreturn ())) (\<lambda>_.
     xbind (x86_output_regs [0..<XAIR_X86_REG_COUNT]) (\<lambda>_.
     xbind (with_state (\<lambda>s. if lr_end_kind (ls_result s) = XAIR_LIFT_END_DIRECT_CBRANCH \<and>
         lr_branch_condition (ls_result s) \<noteq> XAIR_INVALID_ID
       then x86_append_return (lr_branch_condition (ls_result s)) else xreturn ())) (\<lambda>_.
     with_state (\<lambda>s. if \<not> ls_emit_return_terminator s then xreturn ()
       else on_module (xair_set_return al (ls_block s) (lr_return_values (ls_result s))))))))"

definition x86_finish_unsupported :: "allocator \<Rightarrow> u64 \<Rightarrow> u8 \<Rightarrow> unit lift_op" where
  "x86_finish_unsupported al address opc =
     xbind (update_result (\<lambda>r. r\<lparr>lr_end_kind := XAIR_LIFT_END_UNSUPPORTED, lr_unsupported_address := address,
       lr_unsupported_opcode := opc\<rparr>)) (\<lambda>_. x86_finish_block al)"

definition x86_finish_fallthrough :: "allocator \<Rightarrow> unit lift_op" where
  "x86_finish_fallthrough al =
     xbind (modify (\<lambda>s. s\<lparr>ls_result := (ls_result s)\<lparr>lr_end_kind := XAIR_LIFT_END_FALLTHROUGH,
       lr_fallthrough := ls_pc s\<rparr>\<rparr>)) (\<lambda>_. x86_finish_block al)"

definition x86_finish_direct_jump :: "allocator \<Rightarrow> u64 \<Rightarrow> unit lift_op" where
  "x86_finish_direct_jump al target =
     xbind (update_result (\<lambda>r. r\<lparr>lr_end_kind := XAIR_LIFT_END_DIRECT_JUMP, lr_target := target\<rparr>)) (\<lambda>_. x86_finish_block al)"

definition x86_finish_return :: "allocator \<Rightarrow> unit lift_op" where
  "x86_finish_return al =
     xbind (update_result (\<lambda>r. r\<lparr>lr_end_kind := XAIR_LIFT_END_RETURN\<rparr>)) (\<lambda>_. x86_finish_block al)"

definition x86_finish_direct_cbranch :: "allocator \<Rightarrow> u64 \<Rightarrow> u64 \<Rightarrow> xair_value_id \<Rightarrow> unit lift_op" where
  "x86_finish_direct_cbranch al target ft cond =
     xbind (update_result (\<lambda>r. r\<lparr>lr_end_kind := XAIR_LIFT_END_DIRECT_CBRANCH, lr_target := target,
       lr_fallthrough := ft, lr_branch_condition := cond\<rparr>)) (\<lambda>_. x86_finish_block al)"

definition x86_condition_from_zf :: "allocator \<Rightarrow> bool \<Rightarrow> xair_value_id lift_op" where
  "x86_condition_from_zf al want_zero = with_state (\<lambda>s.
     (if \<not> ls_has_zf s then xfail XAIR_ERR_UNSUPPORTED
      else if want_zero then xreturn (ls_zf s)
      else xbind (x86_build_const_u64 al (xair_type_i 1) 0 ''not_zf'') (\<lambda>zero.
        x86_binary al XAIR_OP_EQ (xair_type_i 1) (ls_zf s) zero ''jnz'')))"

section \<open>Instructions\<close>

definition x86_get_reg_operand :: "xair_x86_decoded_inst \<Rightarrow> nat \<Rightarrow> xair_x86_reg option" where
  "x86_get_reg_operand inst i =
     (if i \<ge> operand_count inst then None
      else case operands inst ! i of XAIR_X86_OPERAND_REGISTER _ r \<Rightarrow> Some r | _ \<Rightarrow> None)"

definition x86_get_imm_operand :: "xair_x86_decoded_inst \<Rightarrow> nat \<Rightarrow> u64 option" where
  "x86_get_imm_operand inst i =
     (if i \<ge> operand_count inst then None
      else case operands inst ! i of XAIR_X86_OPERAND_IMMEDIATE _ v \<Rightarrow> Some v | _ \<Rightarrow> None)"

definition x86_get_mem_operand :: "xair_x86_decoded_inst \<Rightarrow> nat \<Rightarrow> xair_x86_memory_operand option" where
  "x86_get_mem_operand inst i =
     (if i \<ge> operand_count inst then None
      else case operands inst ! i of XAIR_X86_OPERAND_MEMORY _ m \<Rightarrow> Some m | _ \<Rightarrow> None)"

definition x86_operand_value :: "allocator \<Rightarrow> xair_x86_decoded_inst \<Rightarrow> nat \<Rightarrow> xair_value_id lift_op" where
  "x86_operand_value al inst i =
     (case (x86_get_reg_operand inst i, x86_get_imm_operand inst i) of
        (Some r, _) \<Rightarrow> x86_ensure_reg al r
      | (None, Some v) \<Rightarrow> x86_const_int al v ''imm''
      | (None, None) \<Rightarrow> xfail XAIR_ERR_UNSUPPORTED)"

definition x86_lift_mov_decoded :: "allocator \<Rightarrow> xair_x86_decoded_inst \<Rightarrow> u64 \<Rightarrow> unit lift_op" where
  "x86_lift_mov_decoded al inst next_pc =
     (case (x86_get_reg_operand inst 0, x86_get_imm_operand inst 1, x86_get_reg_operand inst 1,
         x86_get_mem_operand inst 1, x86_get_mem_operand inst 0) of
        (Some d, Some v, _, _, _) \<Rightarrow> with_state (\<lambda>s.
          xbind (x86_build_const_u64 al (x86_reg_type s) v (x86_reg_name_for_state s d)) (x86_write_reg d))
      | (Some d, None, Some sr, _, _) \<Rightarrow> xbind (x86_ensure_reg al sr) (x86_write_reg d)
      | (Some d, None, None, Some m, _) \<Rightarrow> x86_lift_mem_load al d m next_pc
      | (None, _, Some sr, _, Some m) \<Rightarrow> xbind (x86_ensure_reg al sr) (\<lambda>data. x86_lift_mem_store al m data next_pc)
      | _ \<Rightarrow> xfail XAIR_ERR_UNSUPPORTED)"

definition x86_lift_lea_decoded :: "allocator \<Rightarrow> xair_x86_decoded_inst \<Rightarrow> u64 \<Rightarrow> unit lift_op" where
  "x86_lift_lea_decoded al inst next_pc =
     (case (x86_get_reg_operand inst 0, x86_get_mem_operand inst 1) of
        (Some d, Some m) \<Rightarrow>
          xbind (x86_build_memory_address al m next_pc) (\<lambda>addr.
          xbind (x86_addr_to_int al addr) (x86_write_reg d))
      | _ \<Rightarrow> xfail XAIR_ERR_UNSUPPORTED)"

fun x86_logic_opcode :: "xair_x86_mnemonic \<Rightarrow> xair_opcode" where
  "x86_logic_opcode XAIR_X86_MNEMONIC_AND = XAIR_OP_AND"
| "x86_logic_opcode XAIR_X86_MNEMONIC_OR = XAIR_OP_OR"
| "x86_logic_opcode XAIR_X86_MNEMONIC_XOR = XAIR_OP_XOR"
| "x86_logic_opcode _ = XAIR_OP_CONST_U64"

definition x86_lift_alu_decoded :: "allocator \<Rightarrow> xair_x86_decoded_inst \<Rightarrow> unit lift_op" where
  "x86_lift_alu_decoded al inst =
     (case x86_get_reg_operand inst 0 of
        None \<Rightarrow> xfail XAIR_ERR_UNSUPPORTED
      | Some d \<Rightarrow>
          xbind (x86_ensure_reg al d) (\<lambda>lhs.
          xbind (x86_operand_value al inst 1) (\<lambda>rhs.
            if is_memory (operands inst ! 1) then xfail XAIR_ERR_UNSUPPORTED
            else case mnemonic inst of
              XAIR_X86_MNEMONIC_ADD \<Rightarrow> x86_lift_add_sub_values al XAIR_OP_ADD XAIR_OP_FLAGS_ADD d lhs rhs
            | XAIR_X86_MNEMONIC_SUB \<Rightarrow> x86_lift_add_sub_values al XAIR_OP_SUB XAIR_OP_FLAGS_SUB d lhs rhs
            | XAIR_X86_MNEMONIC_AND \<Rightarrow> x86_lift_logic_values al (x86_logic_opcode (mnemonic inst)) d lhs rhs
            | XAIR_X86_MNEMONIC_OR \<Rightarrow> x86_lift_logic_values al (x86_logic_opcode (mnemonic inst)) d lhs rhs
            | XAIR_X86_MNEMONIC_XOR \<Rightarrow> x86_lift_logic_values al (x86_logic_opcode (mnemonic inst)) d lhs rhs
            | XAIR_X86_MNEMONIC_CMP \<Rightarrow> x86_lift_cmp_values al lhs rhs
            | XAIR_X86_MNEMONIC_TEST \<Rightarrow> x86_lift_test_values al lhs rhs
            | _ \<Rightarrow> xfail XAIR_ERR_UNSUPPORTED)))"

definition x86_lift_push_decoded :: "allocator \<Rightarrow> xair_x86_decoded_inst \<Rightarrow> unit lift_op" where
  "x86_lift_push_decoded al inst =
     (case x86_get_reg_operand inst 0 of
        None \<Rightarrow> xfail XAIR_ERR_UNSUPPORTED
      | Some sr \<Rightarrow> with_state (\<lambda>s.
          xbind (x86_ensure_reg al XAIR_X86_RSP) (\<lambda>rsp.
          xbind (x86_ensure_reg al sr) (\<lambda>data.
          xbind (x86_build_const_u64 al (x86_reg_type s) (ls_stack_bytes s) ''push_size'') (\<lambda>eight.
          xbind (x86_binary al XAIR_OP_SUB (x86_reg_type s) rsp eight ''push_rsp'') (\<lambda>next_rsp.
          xbind (x86_int_to_addr al next_rsp) (\<lambda>addr.
          xbind (x86_ensure_memory al) (\<lambda>memory.
          xbind (on_module (xair_build_store al (ls_block s) memory addr data XAIR_ENDIAN_LE ''push'')) (\<lambda>next_memory.
          xbind (x86_write_memory next_memory) (\<lambda>_.
          x86_write_reg XAIR_X86_RSP next_rsp))))))))))"

definition x86_lift_pop_decoded :: "allocator \<Rightarrow> xair_x86_decoded_inst \<Rightarrow> unit lift_op" where
  "x86_lift_pop_decoded al inst =
     (case x86_get_reg_operand inst 0 of
        None \<Rightarrow> xfail XAIR_ERR_UNSUPPORTED
      | Some d \<Rightarrow> with_state (\<lambda>s.
          xbind (x86_ensure_reg al XAIR_X86_RSP) (\<lambda>rsp.
          xbind (x86_int_to_addr al rsp) (\<lambda>addr.
          xbind (x86_ensure_memory al) (\<lambda>memory.
          xbind (on_module (xair_build_load al (ls_block s) (x86_reg_type s) memory addr XAIR_ENDIAN_LE ''pop'')) (\<lambda>loaded.
          xbind (x86_build_const_u64 al (x86_reg_type s) (ls_stack_bytes s) ''pop_size'') (\<lambda>eight.
          xbind (x86_binary al XAIR_OP_ADD (x86_reg_type s) rsp eight ''pop_rsp'') (\<lambda>next_rsp.
          xbind (x86_write_reg d loaded) (\<lambda>_.
          x86_write_reg XAIR_X86_RSP next_rsp)))))))))"

text \<open>The instructions that do not end a block.\<close>

definition x86_lift_plain :: "allocator \<Rightarrow> xair_x86_decoded_inst \<Rightarrow> u64 \<Rightarrow> unit lift_op" where
  "x86_lift_plain al inst next_pc =
     (case mnemonic inst of
        XAIR_X86_MNEMONIC_NOP \<Rightarrow> xreturn ()
      | XAIR_X86_MNEMONIC_MOV \<Rightarrow> x86_lift_mov_decoded al inst next_pc
      | XAIR_X86_MNEMONIC_LEA \<Rightarrow> x86_lift_lea_decoded al inst next_pc
      | XAIR_X86_MNEMONIC_PUSH \<Rightarrow> x86_lift_push_decoded al inst
      | XAIR_X86_MNEMONIC_POP \<Rightarrow> x86_lift_pop_decoded al inst
      | XAIR_X86_MNEMONIC_INVALID \<Rightarrow> xfail XAIR_ERR_UNSUPPORTED
      | _ \<Rightarrow> x86_lift_alu_decoded al inst)"

text \<open>\<^verbatim>\<open>state->pc = next_pc; ++state->instructions\<close>\<close>

definition x86_advance :: "u64 \<Rightarrow> unit lift_op" where
  "x86_advance next_pc = modify (\<lambda>s. s\<lparr>ls_pc := next_pc, ls_instructions := ls_instructions s + 1\<rparr>)"

text \<open>An operation whose \<^verbatim>\<open>XAIR_ERR_UNSUPPORTED\<close> ends the block instead of the lift.\<close>

definition or_unsupported :: "allocator \<Rightarrow> u64 \<Rightarrow> u8 \<Rightarrow> 'a lift_op \<Rightarrow> ('a \<Rightarrow> bool lift_op) \<Rightarrow> bool lift_op" where
  "or_unsupported al address opc f k s =
     (case f s of
        (Ok a, s') \<Rightarrow> k a s'
      | (Err e, s') \<Rightarrow>
          if e = XAIR_ERR_UNSUPPORTED then xbind (x86_finish_unsupported al address opc) (\<lambda>_. xreturn False) s'
          else (Err e, s'))"

text \<open>The cases of the branches; the result is the \<^verbatim>\<open>out_done\<close> flag.\<close>

definition x86_lift_jmp :: "allocator \<Rightarrow> xair_x86_decoded_inst \<Rightarrow> u64 \<Rightarrow> u64 \<Rightarrow> bool lift_op" where
  "x86_lift_jmp al inst inst_start next_pc =
     or_unsupported al inst_start (raw_opcode inst)
       (case x86_get_imm_operand inst 0 of None \<Rightarrow> xfail XAIR_ERR_UNSUPPORTED | Some rel \<Rightarrow> xreturn rel)
       (\<lambda>rel. xbind (x86_advance next_pc) (\<lambda>_.
         xbind (x86_finish_direct_jump al (x86_add_i64 next_pc rel)) (\<lambda>_. xreturn True)))"

definition x86_lift_jcc :: "allocator \<Rightarrow> xair_x86_decoded_inst \<Rightarrow> u64 \<Rightarrow> u64 \<Rightarrow> bool lift_op" where
  "x86_lift_jcc al inst inst_start next_pc =
     or_unsupported al inst_start (raw_opcode inst)
       (case x86_get_imm_operand inst 0 of
          None \<Rightarrow> xfail XAIR_ERR_UNSUPPORTED
        | Some rel \<Rightarrow> xbind (x86_condition_from_zf al (mnemonic inst = XAIR_X86_MNEMONIC_JZ)) (\<lambda>cond. xreturn (rel, cond)))
       (\<lambda>(rel, cond). xbind (x86_advance next_pc) (\<lambda>_.
         xbind (x86_finish_direct_cbranch al (x86_add_i64 next_pc rel) next_pc cond) (\<lambda>_. xreturn True)))"

definition x86_lift_inst :: "allocator \<Rightarrow> xair_x86_decoded_inst \<Rightarrow> u64 \<Rightarrow> u64 \<Rightarrow> bool lift_op" where
  "x86_lift_inst al inst inst_start next_pc =
     (case mnemonic inst of
        XAIR_X86_MNEMONIC_JMP \<Rightarrow> x86_lift_jmp al inst inst_start next_pc
      | XAIR_X86_MNEMONIC_JZ \<Rightarrow> x86_lift_jcc al inst inst_start next_pc
      | XAIR_X86_MNEMONIC_JNZ \<Rightarrow> x86_lift_jcc al inst inst_start next_pc
      | XAIR_X86_MNEMONIC_RET \<Rightarrow>
          xbind (x86_advance next_pc) (\<lambda>_. xbind (x86_finish_return al) (\<lambda>_. xreturn True))
      | _ \<Rightarrow> or_unsupported al inst_start (raw_opcode inst) (x86_lift_plain al inst next_pc)
          (\<lambda>_. xbind (x86_advance next_pc) (\<lambda>_. xreturn False)))"

definition x86_lift_one :: "allocator \<Rightarrow> bool lift_op" where
  "x86_lift_one al s =
     (case image_offset (ls_image s) (ls_pc s) of
        None \<Rightarrow> (Err XAIR_ERR_RANGE, s)
      | Some offset \<Rightarrow>
          (case (if ls_arch s = XAIR_ARCH_X86_64
                 then decode64 (ls_decoder s) (drop offset (img_bytes (ls_image s))) zero_inst
                 else decode32 (ls_decoder s) (drop offset (img_bytes (ls_image s))) zero_inst) of
             (st, inst) \<Rightarrow>
               if st = XAIR_ERR_UNSUPPORTED then
                 xbind (x86_finish_unsupported al (ls_pc s) (raw_opcode inst)) (\<lambda>_. xreturn False) s
               else if st \<noteq> XAIR_OK then (Err st, s)
               else x86_lift_inst al inst (ls_pc s) (ls_pc s + ucast (inst_length inst)) s))"

section \<open>Blocks\<close>

text \<open>
  The loop over instructions. Every iteration that goes on has counted one instruction, so the argument, the number
  of instructions still allowed, decreases with it.
\<close>

fun lift_loop :: "allocator \<Rightarrow> nat \<Rightarrow> unit lift_op" where
  "lift_loop al 0 = x86_finish_fallthrough al"
| "lift_loop al (Suc n) = xbind (x86_lift_one al) (\<lambda>done. with_state (\<lambda>s.
     if done \<or> lr_end_kind (ls_result s) = XAIR_LIFT_END_UNSUPPORTED then xreturn () else lift_loop al n))"

definition lift_state_init :: "xair_module \<Rightarrow> xair_image \<Rightarrow> xair_lift_options \<Rightarrow> bool \<Rightarrow> xair_block_id
    \<Rightarrow> xair_lift_result \<Rightarrow> x86_lift_state" where
  "lift_state_init m img opts emit b res = \<lparr>ls_module = m, ls_image = img, ls_result = res,
     ls_decoder = (case opt_decoder opts of None \<Rightarrow> xair_x86_default_decoder | Some d \<Rightarrow> d), ls_arch = opt_arch opts,
     ls_block = b, ls_pc = opt_address opts, ls_emit_return_terminator = emit,
     ls_reg_bits = (if opt_arch opts = XAIR_ARCH_X86_64 then 64 else 32),
     ls_addr_bits = (if opt_arch opts = XAIR_ARCH_X86_64 then 64 else 32),
     ls_stack_bytes = (if opt_arch opts = XAIR_ARCH_X86_64 then 8 else 4), ls_memory_space = opt_memory_space opts,
     ls_instructions = 0, ls_regs = replicate XAIR_X86_REG_COUNT XAIR_INVALID_ID,
     ls_written_regs = replicate XAIR_X86_REG_COUNT False, ls_memory = XAIR_INVALID_ID, ls_has_memory = False,
     ls_zf = XAIR_INVALID_ID, ls_has_zf = False\<rparr>"

text \<open>The block to lift into: an existing one, or a fresh one named by the options or by its address.\<close>

definition lift_target :: "allocator \<Rightarrow> xair_lift_options \<Rightarrow> xair_block_id option \<Rightarrow> (xair_module, xair_block_id) xop" where
  "lift_target al opts existing m =
     (case existing of
        Some b \<Rightarrow> (Ok b, m)
      | None \<Rightarrow> xair_block_create al
          (if opt_block_name opts = '''' then ''bb_'' @ hex_text (unat (opt_address opts)) else opt_block_name opts) m)"

definition lift_x86_basic_block ::
  "allocator \<Rightarrow> xair_image \<Rightarrow> xair_lift_options \<Rightarrow> xair_block_id option \<Rightarrow> bool \<Rightarrow> (xair_module, xair_lift_result) xop" where
  "lift_x86_basic_block al img opts existing emit m =
     (case lift_target al opts existing m of
        (Err e, m1) \<Rightarrow> (Err e, m1)
      | (Ok b, m1) \<Rightarrow>
          let decoder = (case opt_decoder opts of None \<Rightarrow> xair_x86_default_decoder | Some d \<Rightarrow> d);
            res = lift_result_init\<lparr>lr_block := b, lr_start := opt_address opts,
              lr_decoder_name := xair_x86_decoder_name (Some decoder)\<rparr>;
            max_instructions = (if opt_max_instructions opts = 0 then 32 else opt_max_instructions opts)
          in case lift_loop al max_instructions (lift_state_init m1 img opts emit b res) of
               (Err e, s) \<Rightarrow> (Err e, ls_module s)
             | (Ok _, s) \<Rightarrow> (Ok (ls_result s), ls_module s))"

definition xair_lift_basic_block ::
  "allocator \<Rightarrow> xair_image \<Rightarrow> xair_lift_options \<Rightarrow> (xair_module, xair_lift_result) xop" where
  "xair_lift_basic_block al img opts m =
     (if image_offset img (opt_address opts) = None then (Err XAIR_ERR_RANGE, m)
      else lift_x86_basic_block al img opts None True m)"

definition xair_lift_block_body_into ::
  "allocator \<Rightarrow> xair_image \<Rightarrow> xair_lift_options \<Rightarrow> xair_block_id \<Rightarrow> (xair_module, xair_lift_result) xop" where
  "xair_lift_block_body_into al img opts b m =
     (if b \<ge> xair_module_block_count m then (Err XAIR_ERR_BAD_ARG, m)
      else if image_offset img (opt_address opts) = None then (Err XAIR_ERR_RANGE, m)
      else lift_x86_basic_block al img opts (Some b) False m)"

end
