(* ===== verification/Xair_Tools.thy ===== *)
theory Xair_Tools
  imports Xair_Print Xair_Exec Xair_Lift
begin

text \<open>
  The case runner of \<^verbatim>\<open>src/tools/xair_case_run.c\<close>. A case file names an architecture, the bytes of a basic block, the
  registers and the memory to start from. The tool parses it, lifts the block, verifies and freezes the module, executes
  it where the case allows it, and prints a report in JSON. Files are a parameter, as in the loader; what the tool
  writes to its standard output is a string.
\<close>

section \<open>The C library\<close>

definition isspace :: "char \<Rightarrow> bool" where
  "isspace c \<longleftrightarrow> (of_char c :: nat) \<in> {9, 10, 11, 12, 13, 32}"

definition hex_digit :: "char \<Rightarrow> nat option" where
  "hex_digit c =
     (let n = of_char c :: nat
      in if 48 \<le> n \<and> n \<le> 57 then Some (n - 48)
         else if 97 \<le> n \<and> n \<le> 102 then Some (n - 97 + 10)
         else if 65 \<le> n \<and> n \<le> 70 then Some (n - 65 + 10)
         else None)"

text \<open>
  \<^verbatim>\<open>strtoull\<close> with base 0: white space, a sign, the prefix of the base, digits. \<open>None\<close> when there is no digit; the value
  is \<open>None\<close> when it is out of range.
\<close>

definition base_digit :: "nat \<Rightarrow> char \<Rightarrow> bool" where
  "base_digit b c \<longleftrightarrow> (case hex_digit c of None \<Rightarrow> False | Some d \<Rightarrow> d < b)"

definition number_sign :: "string \<Rightarrow> bool \<times> string" where
  "number_sign s =
     (case s of [] \<Rightarrow> (False, s)
      | c # r \<Rightarrow> if c = CHR ''-'' then (True, r) else if c = CHR ''+'' then (False, r) else (False, s))"

definition number_base :: "string \<Rightarrow> nat \<times> string" where
  "number_base s =
     (if s \<noteq> [] \<and> hd s = CHR ''0'' then
        (if length s \<ge> 3 \<and> (s ! 1 = CHR ''x'' \<or> s ! 1 = CHR ''X'') \<and> base_digit 16 (s ! 2) then (16, drop 2 s) else (8, s))
      else (10, s))"

definition digits_value :: "nat \<Rightarrow> string \<Rightarrow> nat" where
  "digits_value b ds = foldl (\<lambda>n c. n * b + the (hex_digit c)) 0 ds"

definition strtoull :: "string \<Rightarrow> (u64 option \<times> string) option" where
  "strtoull text =
     (case number_sign (dropWhile isspace text) of (neg, s) \<Rightarrow>
        (case number_base s of (b, s) \<Rightarrow>
           let ds = takeWhile (base_digit b) s; n = digits_value b ds
           in if ds = [] then None
              else Some (if n \<ge> 2 ^ 64 then None else Some (if neg then - of_nat n else of_nat n), dropWhile (base_digit b) s)))"

text \<open>
  \<^verbatim>\<open>fgets\<close> with room for \<open>n\<close> characters, and the lines a loop of such calls reads; a line ends at its first zero byte.
\<close>

definition newline :: char where
  "newline = CHR 0x0A"

fun fgets :: "nat \<Rightarrow> string \<Rightarrow> string \<times> string" where
  "fgets n [] = ([], [])"
| "fgets 0 s = ([], s)"
| "fgets (Suc n) (c # s) = (if c = newline then ([c], s) else case fgets n s of (l, r) \<Rightarrow> (c # l, r))"

lemma fgets_append: "fgets n s = (l, r) \<Longrightarrow> l @ r = s"
  by (induction n s arbitrary: l r rule: fgets.induct) (auto split: if_splits prod.splits)

lemma fgets_shorter: "0 < n \<Longrightarrow> fgets n (c # s) = (l, r) \<Longrightarrow> length r < length (c # s)"
proof -
  assume "0 < n" and l: "fgets n (c # s) = (l, r)"
  then have "l \<noteq> []" by (cases n) (auto split: if_splits prod.splits)
  with fgets_append [OF l] show ?thesis by (metis append_eq_Cons_conv length_append less_add_same_cancel2 length_greater_0_conv)
qed

function read_lines :: "string \<Rightarrow> string list" where
  "read_lines [] = []"
| "read_lines (c # s) = (case fgets 8191 (c # s) of (l, r) \<Rightarrow> takeWhile (\<lambda>c. c \<noteq> NUL) l # read_lines r)"
  by pat_completeness auto

termination read_lines
proof (relation "measure length")
  fix c s l r assume "(l, r) = fgets 8191 (c # s)"
  then show "(r, c # s) \<in> measure length" using fgets_shorter [of 8191 c s l r] by simp
qed simp

section \<open>Parsing a case\<close>

definition parse_u64 :: "string \<Rightarrow> u64 option" where
  "parse_u64 text =
     (if text = [] then None
      else case strtoull text of
        None \<Rightarrow> None
      | Some (v, rest) \<Rightarrow> if rest \<noteq> [] then None else v)"

definition trim :: "string \<Rightarrow> string" where
  "trim text = rev (dropWhile isspace (rev (dropWhile isspace text)))"

fun hex_pairs :: "string \<Rightarrow> u8 list option" where
  "hex_pairs [] = Some []"
| "hex_pairs [c] = None"
| "hex_pairs (c # c' # s) =
     (case (hex_digit c, hex_digit c') of
        (Some high, Some low) \<Rightarrow> map_option (Cons (push_bit 4 (of_nat high) OR of_nat low)) (hex_pairs s)
      | _ \<Rightarrow> None)"

definition parse_hex_bytes :: "allocator \<Rightarrow> alloc_site \<Rightarrow> string \<Rightarrow> u8 list option" where
  "parse_hex_bytes al site text =
     (if odd (length text) then None
      else if \<not> al site (if length text = 0 then 1 else length text div 2) then None
      else hex_pairs text)"

definition reg_from_name :: "string \<Rightarrow> xair_x86_reg option" where
  "reg_from_name name = find (\<lambda>r. name = xair_x86_reg_name r) [0..<XAIR_X86_REG_COUNT]"

definition parse_memory_key :: "string \<Rightarrow> (nat \<times> u64) option" where
  "parse_memory_key key =
     (if take 4 key \<noteq> ''mem.'' then None
      else let p = drop 4 key; space_text = takeWhile (\<lambda>c. c \<noteq> CHR ''.'') p
      in if CHR ''.'' \<notin> set p \<or> length space_text \<ge> 32 then None
         else case parse_u64 space_text of
           None \<Rightarrow> None
         | Some sp \<Rightarrow>
             if sp > 0xffff then None
             else map_option (Pair (unat sp)) (parse_u64 (drop (length space_text + 1) p)))"

record memory_entry =
  me_space :: nat
  me_address :: u64
  me_bytes :: "u8 list"

record case_config =
  cc_bytes :: "u8 list"
  cc_base :: u64
  cc_entry :: u64
  cc_max_instructions :: nat
  cc_arch :: xair_arch
  cc_have_arch :: bool
  cc_have_bytes :: bool
  cc_have_base :: bool
  cc_have_entry :: bool
  cc_run :: bool
  cc_regs :: "u64 list"
  cc_have_reg :: "bool list"
  cc_memory :: "memory_entry list"

abbreviation CASE_MAX_MEMORY :: nat where "CASE_MAX_MEMORY \<equiv> 64"

definition case_config_init :: case_config where
  "case_config_init = \<lparr>cc_bytes = [], cc_base = 0, cc_entry = 0, cc_max_instructions = 32, cc_arch = XAIR_ARCH_X86_64,
     cc_have_arch = False, cc_have_bytes = False, cc_have_base = False, cc_have_entry = False, cc_run = True,
     cc_regs = replicate XAIR_X86_REG_COUNT 0, cc_have_reg = replicate XAIR_X86_REG_COUNT False, cc_memory = []\<rparr>"

text \<open>
  \<open>parse_case_line\<close>, with \<open>None\<close> for the result 0: the tool then ends, and the configuration is only freed. The first
  definition is the part after the line has been split.
\<close>

definition parse_setting :: "allocator \<Rightarrow> string \<Rightarrow> string \<Rightarrow> case_config \<Rightarrow> case_config option" where
  "parse_setting al key v config =
     (if key = ''arch'' then
        (if v = ''x86_64'' then Some (config\<lparr>cc_arch := XAIR_ARCH_X86_64, cc_have_arch := True\<rparr>)
         else if v = ''x86_32'' \<or> v = ''x86'' \<or> v = ''i386''
           then Some (config\<lparr>cc_arch := XAIR_ARCH_X86_32, cc_have_arch := True\<rparr>)
         else None)
      else if key = ''base'' then map_option (\<lambda>n. config\<lparr>cc_base := n, cc_have_base := True\<rparr>) (parse_u64 v)
      else if key = ''entry'' then map_option (\<lambda>n. config\<lparr>cc_entry := n, cc_have_entry := True\<rparr>) (parse_u64 v)
      else if key = ''max_instructions'' then
        (case parse_u64 v of
           None \<Rightarrow> None
         | Some n \<Rightarrow> if unat n > SIZE_MAX then None else Some (config\<lparr>cc_max_instructions := unat n\<rparr>))
      else if key = ''run'' then Some (config\<lparr>cc_run := (v \<noteq> ''0'' \<and> v \<noteq> ''false'')\<rparr>)
      else if key = ''bytes'' then
        map_option (\<lambda>bs. config\<lparr>cc_bytes := bs, cc_have_bytes := True\<rparr>) (parse_hex_bytes al Site_case_bytes v)
      else if take 4 key = ''reg.'' then
        (case reg_from_name (drop 4 key) of
           None \<Rightarrow> None
         | Some r \<Rightarrow> map_option (\<lambda>n. config\<lparr>cc_regs := (cc_regs config)[r := n], cc_have_reg := (cc_have_reg config)[r := True]\<rparr>)
             (parse_u64 v))
      else if take 4 key = ''mem.'' then
        (if length (cc_memory config) \<ge> CASE_MAX_MEMORY then None
         else case parse_memory_key key of
           None \<Rightarrow> None
         | Some (sp, address) \<Rightarrow>
             map_option (\<lambda>bs. config\<lparr>cc_memory := cc_memory config @ [\<lparr>me_space = sp, me_address = address, me_bytes = bs\<rparr>]\<rparr>)
               (parse_hex_bytes al (Site_case_memory (length (cc_memory config))) v))
      else None)"

definition parse_case_line :: "allocator \<Rightarrow> string \<Rightarrow> case_config \<Rightarrow> case_config option" where
  "parse_case_line al line config =
     (let key = trim line
      in if key = [] \<or> hd key = CHR ''#'' then Some config
         else if CHR ''='' \<notin> set key then None
         else parse_setting al (trim (takeWhile (\<lambda>c. c \<noteq> CHR ''='') key))
                (trim (tl (dropWhile (\<lambda>c. c \<noteq> CHR ''='') key))) config)"

fun parse_case_lines :: "allocator \<Rightarrow> string list \<Rightarrow> case_config \<Rightarrow> case_config option" where
  "parse_case_lines al [] config = Some config"
| "parse_case_lines al (l # ls) config =
     (case parse_case_line al l config of None \<Rightarrow> None | Some config' \<Rightarrow> parse_case_lines al ls config')"

definition read_case_file :: "allocator \<Rightarrow> (string \<Rightarrow> string option) \<Rightarrow> string \<Rightarrow> case_config option" where
  "read_case_file al files path =
     (case files path of
        None \<Rightarrow> None
      | Some text \<Rightarrow>
          (case parse_case_lines al (read_lines text) case_config_init of
             None \<Rightarrow> None
           | Some config \<Rightarrow>
               if cc_have_arch config \<and> cc_have_base config \<and> cc_have_entry config \<and> cc_have_bytes config then Some config
               else None))"

section \<open>Running a case\<close>

text \<open>
  The places at which \<^verbatim>\<open>main\<close> gives up. Creating the image fails for missing bytes only, which the tools never pass.
\<close>

datatype case_failure =
    Module_failed xair_status
  | Lift_failed xair_status
  | Verify_failed string
  | Freeze_failed xair_status
  | State_failed xair_status
  | Memory_param_failed xair_status
  | Memory_store_failed xair_status
  | Register_param_failed xair_status
  | Exec_failed xair_status

definition lift_options :: "xair_arch \<Rightarrow> u64 \<Rightarrow> nat \<Rightarrow> xair_lift_options" where
  "lift_options arch entry n = \<lparr>opt_arch = arch, opt_address = entry, opt_memory_space = 0, opt_max_instructions = n,
     opt_block_name = '''', opt_decoder = None\<rparr>"

text \<open>
  Create a module, lift, verify and freeze, as all tools do; the statistics are those before freezing.
\<close>

definition lift_and_freeze :: "allocator \<Rightarrow> xair_image \<Rightarrow> xair_lift_options \<Rightarrow>
    case_failure + xair_lift_result \<times> xair_value_numbering_stats \<times> xair_module" where
  "lift_and_freeze al img opts =
     (case xair_module_create al of
        Err e \<Rightarrow> Inl (Module_failed e)
      | Ok m0 \<Rightarrow>
     (case xair_lift_basic_block al img opts m0 of
        (Err e, m) \<Rightarrow> Inl (Lift_failed e)
      | (Ok lift, m) \<Rightarrow>
          (case xair_verify_module al m of (status, error) \<Rightarrow>
             if status \<noteq> XAIR_OK then Inl (Verify_failed (message error))
             else case xair_module_freeze al m of
               (Err e, m') \<Rightarrow> Inl (Freeze_failed e)
             | (Ok _, m') \<Rightarrow> Inr (lift, xair_get_value_numbering_stats m, m'))))"

definition case_lift :: "allocator \<Rightarrow> case_config \<Rightarrow>
    case_failure + xair_lift_result \<times> xair_value_numbering_stats \<times> xair_module" where
  "case_lift al config = lift_and_freeze al (xair_image_init (cc_bytes config) (cc_base config))
     (lift_options (cc_arch config) (cc_entry config) (cc_max_instructions config))"

text \<open>\<open>None\<close> when the case can be executed, otherwise the reason.\<close>

definition can_execute :: "case_config \<Rightarrow> xair_lift_result \<Rightarrow> string option" where
  "can_execute config lift =
     (if \<not> cc_run config then Some ''disabled''
      else if lr_end_kind lift = XAIR_LIFT_END_UNSUPPORTED then Some ''unsupported_lift''
      else if \<exists>x \<in> set (lr_input_regs lift). \<not> cc_have_reg config ! fst x then Some ''missing_register''
      else None)"

definition set_memory_param :: "xair_lift_result \<Rightarrow> xair_exec_state \<Rightarrow> case_failure + xair_exec_state" where
  "set_memory_param lift st =
     (if lr_memory_in lift = XAIR_INVALID_ID then Inr st
      else case xair_exec_set_param (lr_memory_in lift) (xair_exec_mem 0 64) st of
        (Err e, st1) \<Rightarrow> Inl (Memory_param_failed e)
      | (Ok _, st1) \<Rightarrow> Inr st1)"

fun store_case_memory :: "allocator \<Rightarrow> memory_entry list \<Rightarrow> xair_exec_state \<Rightarrow> case_failure + xair_exec_state" where
  "store_case_memory al [] st = Inr st"
| "store_case_memory al (e # es) st =
     (case xair_exec_store_bytes al (me_space e) (me_address e) (me_bytes e) st of
        (Err x, st1) \<Rightarrow> Inl (Memory_store_failed x)
      | (Ok _, st1) \<Rightarrow> store_case_memory al es st1)"

fun set_register_params :: "case_config \<Rightarrow> (xair_x86_reg \<times> xair_value_id) list \<Rightarrow> xair_exec_state \<Rightarrow>
    case_failure + xair_exec_state" where
  "set_register_params config [] st = Inr st"
| "set_register_params config ((r, v) # rs) st =
     (case xair_exec_set_param v (xair_exec_i 64 (cc_regs config ! r)) st of
        (Err e, st1) \<Rightarrow> Inl (Register_param_failed e)
      | (Ok _, st1) \<Rightarrow> set_register_params config rs st1)"

definition case_execute :: "allocator \<Rightarrow> case_config \<Rightarrow> xair_lift_result \<Rightarrow> xair_module \<Rightarrow> case_failure + xair_exec_result" where
  "case_execute al config lift m =
     (case xair_exec_state_create al m of
        Err e \<Rightarrow> Inl (State_failed e)
      | Ok st \<Rightarrow>
     (case set_memory_param lift st of
        Inl f \<Rightarrow> Inl f
      | Inr st1 \<Rightarrow>
     (case store_case_memory al (cc_memory config) st1 of
        Inl f \<Rightarrow> Inl f
      | Inr st2 \<Rightarrow>
     (case set_register_params config (lr_input_regs lift) st2 of
        Inl f \<Rightarrow> Inl f
      | Inr st3 \<Rightarrow>
     (case xair_exec_run al m (lr_block lift) 256 st3 of
        (Err e, st4) \<Rightarrow> Inl (Exec_failed e)
      | (Ok r, st4) \<Rightarrow> Inr r)))))"

text \<open>What is printed when all went well.\<close>

record case_result =
  cr_lift :: xair_lift_result
  cr_construction :: xair_value_numbering_stats
  cr_module :: xair_module
  cr_execution :: "string + xair_exec_result"

definition run_case :: "allocator \<Rightarrow> case_config \<Rightarrow> case_failure + case_result" where
  "run_case al config =
     (case case_lift al config of
        Inl f \<Rightarrow> Inl f
      | Inr (lift, stats, m) \<Rightarrow>
          (case can_execute config lift of
             Some reason \<Rightarrow> Inr \<lparr>cr_lift = lift, cr_construction = stats, cr_module = m, cr_execution = Inl reason\<rparr>
           | None \<Rightarrow>
               (case case_execute al config lift m of
                  Inl f \<Rightarrow> Inl f
                | Inr r \<Rightarrow> Inr \<lparr>cr_lift = lift, cr_construction = stats, cr_module = m, cr_execution = Inr r\<rparr>)))"

section \<open>The report\<close>

fun exec_halt_name :: "xair_exec_halt_kind \<Rightarrow> string" where
  "exec_halt_name XAIR_EXEC_HALTED_RETURN = ''return''"
| "exec_halt_name XAIR_EXEC_HALTED_TRAP = ''trap''"
| "exec_halt_name XAIR_EXEC_HALTED_FAULT = ''fault''"
| "exec_halt_name XAIR_EXEC_HALTED_STEP_LIMIT = ''step_limit''"
| "exec_halt_name XAIR_EXEC_HALTED_UNSUPPORTED = ''unsupported''"

text \<open>\<^verbatim>\<open>%0nx\<close>: hexadecimal text with leading zeros.\<close>

definition pad_hex :: "nat \<Rightarrow> nat \<Rightarrow> string" where
  "pad_hex w n = replicate (w - length (hex_text n)) (CHR ''0'') @ hex_text n"

definition json_char :: "char \<Rightarrow> string" where
  "json_char c =
     (let n = of_char c :: nat
      in if n = 0x22 \<or> n = 0x5C then [CHR 0x5C, c]
         else if n = 0x0A then [CHR 0x5C, CHR ''n'']
         else if n = 0x0D then [CHR 0x5C, CHR ''r'']
         else if n = 0x09 then [CHR 0x5C, CHR ''t'']
         else if n < 0x20 then [CHR 0x5C, CHR ''u''] @ pad_hex 4 n
         else [c])"

definition quoted :: "string \<Rightarrow> string" where
  "quoted s = CHR 0x22 # s @ [CHR 0x22]"

definition print_json_string :: "string \<Rightarrow> string" where
  "print_json_string text = quoted (concat (map json_char text))"

text \<open>One line of the report, and the texts of lists and objects on one line.\<close>

definition json_line :: "string \<Rightarrow> string \<Rightarrow> string" where
  "json_line name v = ''  '' @ quoted name @ '': '' @ v @ '',\<newline>''"

definition json_member :: "string \<Rightarrow> nat \<Rightarrow> string" where
  "json_member name n = quoted name @ '': '' @ dec_text n"

definition comma_separated :: "string list \<Rightarrow> string" where
  "comma_separated texts = concat (case texts of [] \<Rightarrow> [] | t # ts \<Rightarrow> t # map (\<lambda>t. '', '' @ t) ts)"

text \<open>The first position of a value among the returned ones; \<open>None\<close> is \<^verbatim>\<open>SIZE_MAX\<close>.\<close>

definition return_index_for_value :: "xair_lift_result \<Rightarrow> xair_value_id \<Rightarrow> nat option" where
  "return_index_for_value lift v = find (\<lambda>i. lr_return_values lift ! i = v) [0..<length (lr_return_values lift)]"

definition print_json_u64_array :: "xair_exec_result \<Rightarrow> string" where
  "print_json_u64_array r = ''    '' @ quoted ''returns'' @ '': ['' @
     comma_separated (map (\<lambda>x. CHR 0x7B # quoted ''type_bits'' @ '':'' @ dec_text (bits (ev_type x)) @ '','' @
       quoted ''value'' @ '':'' @ dec_text (unat (lo x)) @ [CHR 0x7D]) (returns r)) @ ''],\<newline>''"

text \<open>The value of an output register in the result of the run.\<close>

definition output_value :: "xair_lift_result \<Rightarrow> xair_exec_result \<Rightarrow> xair_value_id \<Rightarrow> u64 option" where
  "output_value lift r v =
     (case return_index_for_value lift v of
        None \<Rightarrow> None
      | Some i \<Rightarrow> if i \<ge> length (returns r) then None else Some (lo (returns r ! i)))"

definition print_execution_json :: "xair_lift_result \<Rightarrow> xair_exec_result \<Rightarrow> string" where
  "print_execution_json lift r =
     ''  '' @ quoted ''execution'' @ '': '' @ [CHR 0x7B, newline] @
     ''    '' @ quoted ''ran'' @ '': true,\<newline>'' @
     ''    '' @ quoted ''halt'' @ '': '' @ quoted (exec_halt_name (halt_kind r)) @ '',\<newline>'' @
     ''    '' @ quoted ''code'' @ '': '' @ dec_text (halt_code r) @ '',\<newline>'' @
     print_json_u64_array r @
     ''    '' @ quoted ''output_regs'' @ '': ['' @
     comma_separated (map (\<lambda>(reg, v). CHR 0x7B # quoted ''reg'' @ '':'' @ quoted (xair_x86_reg_name reg) @ '','' @
       quoted ''value'' @ '':'' @
       (case output_value lift r v of None \<Rightarrow> ''null'' | Some n \<Rightarrow> dec_text (unat n)) @ [CHR 0x7D]) (lr_output_regs lift)) @
     '']\<newline>'' @ ''  '' @ [CHR 0x7D, newline]"

definition print_skip_json :: "string \<Rightarrow> string" where
  "print_skip_json reason = ''  '' @ quoted ''execution'' @ '': '' @ CHR 0x7B # quoted ''ran'' @ '': false, '' @
     quoted ''reason'' @ '': '' @ print_json_string reason @ [CHR 0x7D, newline]"

definition print_json_value_numbering :: "string \<Rightarrow> xair_value_numbering_stats \<Rightarrow> string" where
  "print_json_value_numbering name stats = json_line name (CHR 0x7B # json_member ''entries'' (entries stats) @ '', '' @
     json_member ''created'' (created stats) @ '', '' @ json_member ''reused'' (reused stats) @ '', '' @
     json_member ''collisions'' (collisions stats) @ [CHR 0x7D])"

definition print_json_metrics :: "xair_module_metrics \<Rightarrow> string" where
  "print_json_metrics mm = json_line ''metrics'' (CHR 0x7B # json_member ''blocks'' (mm_blocks mm) @ '', '' @
     json_member ''values'' (mm_values mm) @ '', '' @ json_member ''operations'' (mm_operations mm) @ '', '' @
     json_member ''block_parameters'' (mm_block_parameters mm) @ '', '' @
     json_member ''terminator_arguments'' (mm_terminator_arguments mm) @ [CHR 0x7D])"

definition case_report :: "string \<Rightarrow> case_result \<Rightarrow> string" where
  "case_report path cr =
     (let lift = cr_lift cr; m = cr_module cr; number = (\<lambda>name n. json_line name (dec_text n))
      in [CHR 0x7B, newline] @
         json_line ''status'' (quoted ''ok'') @ json_line ''case'' (print_json_string path) @
         json_line ''ir_version'' (quoted xair_ir_version_string) @
         json_line ''decoder'' (print_json_string (lr_decoder_name lift)) @
         json_line ''end'' (quoted (xair_lift_end_kind_name (lr_end_kind lift))) @
         number ''start'' (unat (lr_start lift)) @ number ''next'' (unat (lr_next lift)) @
         number ''bytes'' (unat (lr_bytes_read lift)) @ number ''instructions'' (lr_instructions lift) @
         number ''target'' (unat (lr_target lift)) @ number ''fallthrough'' (unat (lr_fallthrough lift)) @
         number ''unsupported_address'' (unat (lr_unsupported_address lift)) @
         number ''unsupported_opcode'' (unat (lr_unsupported_opcode lift)) @
         print_json_metrics (xair_get_module_metrics m) @
         print_json_value_numbering ''value_numbering_construction'' (cr_construction cr) @
         print_json_value_numbering ''value_numbering_final'' (xair_get_value_numbering_stats m) @
         json_line ''fingerprint'' (quoted (''0x'' @ pad_hex 16 (unat (xair_module_fingerprint m)))) @
         (case cr_execution cr of Inl reason \<Rightarrow> print_skip_json reason | Inr r \<Rightarrow> print_execution_json lift r) @
         [CHR 0x7D, newline])"

text \<open>The message on the standard error stream, the exit code and the report.\<close>

fun failure_text :: "case_failure \<Rightarrow> string" where
  "failure_text (Module_failed e) = ''module create failed: '' @ xair_status_name e"
| "failure_text (Lift_failed e) = ''lift failed: '' @ xair_status_name e"
| "failure_text (Verify_failed t) = ''verify failed: '' @ t"
| "failure_text (Freeze_failed e) = ''freeze failed: '' @ xair_status_name e"
| "failure_text (State_failed e) = ''exec state create failed: '' @ xair_status_name e"
| "failure_text (Memory_param_failed e) = ''memory param failed: '' @ xair_status_name e"
| "failure_text (Memory_store_failed e) = ''memory store failed: '' @ xair_status_name e"
| "failure_text (Register_param_failed e) = ''register param failed: '' @ xair_status_name e"
| "failure_text (Exec_failed e) = ''exec failed: '' @ xair_status_name e"

record tool_outcome =
  exit_code :: nat
  stdout :: string
  stderr :: string

definition tool_error :: "string \<Rightarrow> tool_outcome" where
  "tool_error text = \<lparr>exit_code = 1, stdout = '''', stderr = text @ [newline]\<rparr>"

definition argv0 :: "string list \<Rightarrow> string" where
  "argv0 argv = (case argv of [] \<Rightarrow> '''' | a # as \<Rightarrow> a)"

definition case_main :: "allocator \<Rightarrow> (string \<Rightarrow> string option) \<Rightarrow> string list \<Rightarrow> tool_outcome" where
  "case_main al files argv =
     (if length argv \<noteq> 2 then tool_error (''usage: '' @ argv0 argv @ '' <case-file>'')
      else case read_case_file al files (argv ! 1) of
        None \<Rightarrow> tool_error ''failed to parse case file''
      | Some config \<Rightarrow>
          (case run_case al config of
             Inl f \<Rightarrow> tool_error (failure_text f)
           | Inr cr \<Rightarrow> \<lparr>exit_code = 0, stdout = case_report (argv ! 1) cr, stderr = ''''\<rparr>))"

end
