(* ===== verification/Xair_Binary.thy ===== *)
theory Xair_Binary
  imports Xair_Lift "HOL-Library.Monad_Syntax"
begin

text \<open>
  The loader of ELF and PE files of \<^verbatim>\<open>src/src/xair_binary.c\<close>. The parsers read headers at offsets that come from the
  file itself, so a read is partial here: \<open>None\<close> is a read outside the buffer, which is undefined in C, and every
  parser returns an option. The theorems show that \<open>None\<close> never happens, whatever the bytes; that the segments of a
  view hold the bytes of the file they claim to hold; and what looking up and reading an address return.
\<close>

section \<open>Views, segments and images\<close>

datatype xair_binary_format = XAIR_BINARY_FORMAT_UNKNOWN | XAIR_BINARY_FORMAT_ELF | XAIR_BINARY_FORMAT_PE

abbreviation XAIR_BINARY_PERM_READ :: u32 where "XAIR_BINARY_PERM_READ \<equiv> 1"
abbreviation XAIR_BINARY_PERM_WRITE :: u32 where "XAIR_BINARY_PERM_WRITE \<equiv> 2"
abbreviation XAIR_BINARY_PERM_EXEC :: u32 where "XAIR_BINARY_PERM_EXEC \<equiv> 4"

record xair_binary_segment =
  seg_va :: u64
  seg_mem_size :: u64
  seg_file_size :: u64
  seg_file_offset :: u64
  seg_perms :: u32
  seg_section_id :: u32
  seg_bytes :: "u8 list"

text \<open>An architecture field that was cleared holds zero, which is no enumerator of \<^verbatim>\<open>xair_arch\<close>; it is \<open>None\<close> here.\<close>

record xair_binary_view =
  view_format :: xair_binary_format
  view_arch :: "xair_arch option"
  view_entry :: u64
  view_image_base :: u64
  view_segments :: "xair_binary_segment list"

record xair_binary_image =
  bin_format :: xair_binary_format
  bin_arch :: "xair_arch option"
  bin_entry :: u64
  bin_image_base :: u64
  bin_segment_base :: u64
  bin_segment_bytes :: "u8 list"

abbreviation sizeof_segment :: nat where "sizeof_segment \<equiv> 48"

text \<open>The state of a view after \<^verbatim>\<open>memset\<close>.\<close>

definition empty_view :: xair_binary_view where
  "empty_view = \<lparr>view_format = XAIR_BINARY_FORMAT_UNKNOWN, view_arch = None, view_entry = 0,
     view_image_base = 0, view_segments = []\<rparr>"

fun xair_binary_format_name :: "xair_binary_format \<Rightarrow> string" where
  "xair_binary_format_name XAIR_BINARY_FORMAT_ELF = ''elf''"
| "xair_binary_format_name XAIR_BINARY_FORMAT_PE = ''pe''"
| "xair_binary_format_name XAIR_BINARY_FORMAT_UNKNOWN = ''unknown''"

section \<open>Reading little-endian fields\<close>

definition byte_at :: "u8 list \<Rightarrow> nat \<Rightarrow> u8 option" where
  "byte_at bytes offset = (if offset < length bytes then Some (bytes ! offset) else None)"

definition read_le16 :: "u8 list \<Rightarrow> nat \<Rightarrow> 16 word option" where
  "read_le16 bytes offset = do {
     b0 \<leftarrow> byte_at bytes offset;
     b1 \<leftarrow> byte_at bytes (offset + 1);
     Some (ucast b0 OR push_bit 8 (ucast b1))}"

definition read_le32 :: "u8 list \<Rightarrow> nat \<Rightarrow> u32 option" where
  "read_le32 bytes offset = do {
     b0 \<leftarrow> byte_at bytes offset;
     b1 \<leftarrow> byte_at bytes (offset + 1);
     b2 \<leftarrow> byte_at bytes (offset + 2);
     b3 \<leftarrow> byte_at bytes (offset + 3);
     Some (ucast b0 OR push_bit 8 (ucast b1) OR push_bit 16 (ucast b2) OR push_bit 24 (ucast b3))}"

definition read_le64 :: "u8 list \<Rightarrow> nat \<Rightarrow> u64 option" where
  "read_le64 bytes offset = do {
     lo \<leftarrow> read_le32 bytes offset;
     hi \<leftarrow> read_le32 bytes (offset + 4);
     Some (ucast lo OR push_bit 32 (ucast hi))}"

definition range_ok :: "nat \<Rightarrow> nat \<Rightarrow> nat \<Rightarrow> bool" where
  "range_ok sz offset need \<longleftrightarrow> offset \<le> sz \<and> need \<le> sz - offset"

definition max_u64 :: "u64 \<Rightarrow> u64 \<Rightarrow> u64" where
  "max_u64 lhs rhs = (if lhs > rhs then lhs else rhs)"

section \<open>Segments\<close>

definition append_segment ::
  "allocator \<Rightarrow> u8 list \<Rightarrow> u64 \<Rightarrow> u64 \<Rightarrow> u64 \<Rightarrow> u64 \<Rightarrow> u32 \<Rightarrow> u32 \<Rightarrow> xair_binary_view \<Rightarrow> xair_status \<times> xair_binary_view" where
  "append_segment al file_bytes va mem_size file_offset segment_file_size perms section_id view =
     (if mem_size = 0 then (XAIR_OK, view)
      else if unat file_offset > SIZE_MAX \<or> unat segment_file_size > SIZE_MAX then (XAIR_ERR_RANGE, view)
      else if \<not> range_ok (length file_bytes) (unat file_offset) (unat segment_file_size) then (XAIR_ERR_RANGE, view)
      else if length (view_segments view) = UINT32_MAX \<or> length (view_segments view) = SIZE_MAX then (XAIR_ERR_RANGE, view)
      else if \<not> al Site_segments ((length (view_segments view) + 1) * sizeof_segment) then (XAIR_ERR_OOM, view)
      else if \<not> al (Site_segment_bytes (length (view_segments view)))
          (if segment_file_size = 0 then 1 else unat segment_file_size) then (XAIR_ERR_OOM, view)
      else (XAIR_OK, view\<lparr>view_segments := view_segments view @
          [\<lparr>seg_va = va, seg_mem_size = mem_size, seg_file_size = segment_file_size, seg_file_offset = file_offset,
            seg_perms = perms, seg_section_id = section_id,
            seg_bytes = take (unat segment_file_size) (drop (unat file_offset) file_bytes)\<rparr>]\<rparr>))"

definition pe_section_perms :: "u32 \<Rightarrow> u32" where
  "pe_section_perms characteristics =
     (let perms = 0;
          perms = (if characteristics AND 0x40000000 \<noteq> 0 then perms OR XAIR_BINARY_PERM_READ else perms);
          perms = (if characteristics AND 0x80000000 \<noteq> 0 then perms OR XAIR_BINARY_PERM_WRITE else perms)
      in if characteristics AND 0x20000000 \<noteq> 0 then perms OR XAIR_BINARY_PERM_EXEC else perms)"

definition elf_segment_perms :: "u32 \<Rightarrow> u32" where
  "elf_segment_perms flags =
     (let perms = 0;
          perms = (if flags AND 4 \<noteq> 0 then perms OR XAIR_BINARY_PERM_READ else perms);
          perms = (if flags AND 2 \<noteq> 0 then perms OR XAIR_BINARY_PERM_WRITE else perms)
      in if flags AND 1 \<noteq> 0 then perms OR XAIR_BINARY_PERM_EXEC else perms)"

section \<open>The parsers\<close>

type_synonym parse_outcome = "(xair_status \<times> xair_binary_view) option"

text \<open>
  The loops over section and program headers: one entry adds at most one segment, the first failure ends the loop. The
  recursion is over the indices still to visit.
\<close>

fun each_header :: "(nat \<Rightarrow> xair_binary_view \<Rightarrow> parse_outcome) \<Rightarrow> nat list \<Rightarrow> xair_binary_view \<Rightarrow> parse_outcome" where
  "each_header entry [] view = Some (XAIR_OK, view)"
| "each_header entry (i # is) view = do {
     (status, view') \<leftarrow> entry i view;
     if status \<noteq> XAIR_OK then Some (status, view') else each_header entry is view'}"

text \<open>\<^verbatim>\<open>return out_view->segment_count == 0 ? XAIR_ERR_RANGE : XAIR_OK\<close> after the loop.\<close>

definition need_segments :: "xair_status \<times> xair_binary_view \<Rightarrow> xair_status \<times> xair_binary_view" where
  "need_segments r = (case r of (status, view) \<Rightarrow>
     if status \<noteq> XAIR_OK then (status, view)
     else (if view_segments view = [] then XAIR_ERR_RANGE else XAIR_OK, view))"

definition pe_section :: "allocator \<Rightarrow> u8 list \<Rightarrow> u64 \<Rightarrow> nat \<Rightarrow> nat \<Rightarrow> xair_binary_view \<Rightarrow> parse_outcome" where
  "pe_section al bytes image_base section_offset i view = do {
     let off = section_offset + i * 40;
     virtual_size \<leftarrow> read_le32 bytes (off + 8);
     virtual_address \<leftarrow> read_le32 bytes (off + 12);
     raw_size \<leftarrow> read_le32 bytes (off + 16);
     raw_offset \<leftarrow> read_le32 bytes (off + 20);
     characteristics \<leftarrow> read_le32 bytes (off + 36);
     Some (append_segment al bytes (image_base + ucast virtual_address) (max_u64 (ucast virtual_size) (ucast raw_size))
       (ucast raw_offset) (ucast raw_size) (pe_section_perms characteristics) (of_nat i) view)}"

text \<open>The part of \<^verbatim>\<open>parse_pe_view\<close> after the architecture is known.\<close>

definition pe_sections ::
  "allocator \<Rightarrow> u8 list \<Rightarrow> xair_arch \<Rightarrow> u64 \<Rightarrow> u32 \<Rightarrow> nat \<Rightarrow> nat \<Rightarrow> xair_binary_view \<Rightarrow> parse_outcome" where
  "pe_sections al bytes arch image_base entry_rva section_offset section_count view = do {
     let view' = view\<lparr>view_arch := Some arch, view_format := XAIR_BINARY_FORMAT_PE, view_image_base := image_base,
       view_entry := image_base + ucast entry_rva\<rparr>;
     if \<not> range_ok (length bytes) section_offset (section_count * 40) then Some (XAIR_ERR_RANGE, view')
     else map_option need_segments (each_header (pe_section al bytes image_base section_offset) [0..<section_count] view')}"

definition parse_pe_view :: "allocator \<Rightarrow> u8 list \<Rightarrow> xair_binary_view \<Rightarrow> parse_outcome" where
  "parse_pe_view al bytes view =
     (if \<not> range_ok (length bytes) 0 0x40 then Some (XAIR_ERR_UNSUPPORTED, view)
      else do {
        b0 \<leftarrow> byte_at bytes 0;
        b1 \<leftarrow> byte_at bytes 1;
        if b0 \<noteq> 0x4d \<or> b1 \<noteq> 0x5a then Some (XAIR_ERR_UNSUPPORTED, view)
        else do {
          pe_offset \<leftarrow> map_option unat (read_le32 bytes 0x3c);
          if \<not> range_ok (length bytes) pe_offset 24 then Some (XAIR_ERR_UNSUPPORTED, view)
          else if take 4 (drop pe_offset bytes) \<noteq> [0x50, 0x45, 0, 0] then Some (XAIR_ERR_UNSUPPORTED, view)
          else do {
            let coff_offset = pe_offset + 4;
            machine \<leftarrow> read_le16 bytes coff_offset;
            section_count \<leftarrow> map_option unat (read_le16 bytes (coff_offset + 2));
            optional_size \<leftarrow> map_option unat (read_le16 bytes (coff_offset + 16));
            let optional_offset = coff_offset + 20;
            if \<not> range_ok (length bytes) optional_offset optional_size \<or> optional_size < 32 then Some (XAIR_ERR_RANGE, view)
            else do {
              magic \<leftarrow> read_le16 bytes optional_offset;
              entry_rva \<leftarrow> read_le32 bytes (optional_offset + 16);
              if machine = 0x8664 \<and> magic = 0x20b then do {
                image_base \<leftarrow> read_le64 bytes (optional_offset + 24);
                pe_sections al bytes XAIR_ARCH_X86_64 image_base entry_rva (optional_offset + optional_size)
                  section_count view}
              else if machine = 0x014c \<and> magic = 0x10b then do {
                image_base \<leftarrow> read_le32 bytes (optional_offset + 28);
                pe_sections al bytes XAIR_ARCH_X86_32 (ucast image_base) entry_rva (optional_offset + optional_size)
                  section_count view}
              else Some (XAIR_ERR_UNSUPPORTED, view)}}}})"

definition elf64_segment :: "allocator \<Rightarrow> u8 list \<Rightarrow> nat \<Rightarrow> nat \<Rightarrow> nat \<Rightarrow> xair_binary_view \<Rightarrow> parse_outcome" where
  "elf64_segment al bytes phoff phentsize i view = do {
     let off = phoff + i * phentsize;
     ty \<leftarrow> read_le32 bytes off;
     flags \<leftarrow> read_le32 bytes (off + 4);
     file_offset \<leftarrow> read_le64 bytes (off + 8);
     vaddr \<leftarrow> read_le64 bytes (off + 16);
     filesz \<leftarrow> read_le64 bytes (off + 32);
     memsz \<leftarrow> read_le64 bytes (off + 40);
     if ty = 1
     then Some (append_segment al bytes vaddr memsz file_offset filesz (elf_segment_perms flags) (of_nat i) view)
     else Some (XAIR_OK, view)}"

definition parse_elf64_view :: "allocator \<Rightarrow> u8 list \<Rightarrow> xair_binary_view \<Rightarrow> parse_outcome" where
  "parse_elf64_view al bytes view =
     (if \<not> range_ok (length bytes) 0 64 then Some (XAIR_ERR_RANGE, view)
      else do {
        machine \<leftarrow> read_le16 bytes 18;
        if machine \<noteq> 62 then Some (XAIR_ERR_UNSUPPORTED, view)
        else do {
          entry \<leftarrow> read_le64 bytes 24;
          phoff \<leftarrow> map_option unat (read_le64 bytes 32);
          phentsize \<leftarrow> map_option unat (read_le16 bytes 54);
          phnum \<leftarrow> map_option unat (read_le16 bytes 56);
          if phoff > SIZE_MAX \<or> phentsize < 56 \<or> phnum > SIZE_MAX div phentsize \<or>
             \<not> range_ok (length bytes) phoff (phentsize * phnum)
          then Some (XAIR_ERR_RANGE, view)
          else map_option need_segments (each_header (elf64_segment al bytes phoff phentsize) [0..<phnum]
            (view\<lparr>view_format := XAIR_BINARY_FORMAT_ELF, view_arch := Some XAIR_ARCH_X86_64, view_entry := entry,
              view_image_base := 0\<rparr>))}})"

definition elf32_segment :: "allocator \<Rightarrow> u8 list \<Rightarrow> nat \<Rightarrow> nat \<Rightarrow> nat \<Rightarrow> xair_binary_view \<Rightarrow> parse_outcome" where
  "elf32_segment al bytes phoff phentsize i view = do {
     let off = phoff + i * phentsize;
     ty \<leftarrow> read_le32 bytes off;
     file_offset \<leftarrow> read_le32 bytes (off + 4);
     vaddr \<leftarrow> read_le32 bytes (off + 8);
     filesz \<leftarrow> read_le32 bytes (off + 16);
     memsz \<leftarrow> read_le32 bytes (off + 20);
     flags \<leftarrow> read_le32 bytes (off + 24);
     if ty = 1
     then Some (append_segment al bytes (ucast vaddr) (ucast memsz) (ucast file_offset) (ucast filesz)
       (elf_segment_perms flags) (of_nat i) view)
     else Some (XAIR_OK, view)}"

definition parse_elf32_view :: "allocator \<Rightarrow> u8 list \<Rightarrow> xair_binary_view \<Rightarrow> parse_outcome" where
  "parse_elf32_view al bytes view =
     (if \<not> range_ok (length bytes) 0 52 then Some (XAIR_ERR_RANGE, view)
      else do {
        machine \<leftarrow> read_le16 bytes 18;
        if machine \<noteq> 3 then Some (XAIR_ERR_UNSUPPORTED, view)
        else do {
          entry \<leftarrow> read_le32 bytes 24;
          phoff \<leftarrow> map_option unat (read_le32 bytes 28);
          phentsize \<leftarrow> map_option unat (read_le16 bytes 42);
          phnum \<leftarrow> map_option unat (read_le16 bytes 44);
          if phentsize < 32 \<or> phnum > SIZE_MAX div phentsize \<or> \<not> range_ok (length bytes) phoff (phentsize * phnum)
          then Some (XAIR_ERR_RANGE, view)
          else map_option need_segments (each_header (elf32_segment al bytes phoff phentsize) [0..<phnum]
            (view\<lparr>view_format := XAIR_BINARY_FORMAT_ELF, view_arch := Some XAIR_ARCH_X86_32, view_entry := ucast entry,
              view_image_base := 0\<rparr>))}})"

definition parse_elf_view :: "allocator \<Rightarrow> u8 list \<Rightarrow> xair_binary_view \<Rightarrow> parse_outcome" where
  "parse_elf_view al bytes view =
     (if \<not> range_ok (length bytes) 0 16 then Some (XAIR_ERR_UNSUPPORTED, view)
      else do {
        b0 \<leftarrow> byte_at bytes 0;
        b1 \<leftarrow> byte_at bytes 1;
        b2 \<leftarrow> byte_at bytes 2;
        b3 \<leftarrow> byte_at bytes 3;
        cls \<leftarrow> byte_at bytes 4;
        data \<leftarrow> byte_at bytes 5;
        if [b0, b1, b2, b3] \<noteq> [0x7f, 0x45, 0x4c, 0x46] \<or> data \<noteq> 1 then Some (XAIR_ERR_UNSUPPORTED, view)
        else if cls = 1 then parse_elf32_view al bytes view
        else if cls = 2 then parse_elf64_view al bytes view
        else Some (XAIR_ERR_UNSUPPORTED, view)})"

section \<open>Loading, looking up and reading\<close>

text \<open>
  The file system is a parameter: a path that can be opened gives a file, whose seeks may fail, whose size
  \<^verbatim>\<open>ftell\<close> reports (negative on failure), and whose \<^verbatim>\<open>fread\<close> delivers some bytes.
\<close>

record file_handle =
  seek_end_ok :: bool
  told_size :: int
  seek_set_ok :: bool
  delivered :: "u8 list"

type_synonym file_system = "string \<Rightarrow> file_handle option"

definition read_file :: "allocator \<Rightarrow> file_system \<Rightarrow> string \<Rightarrow> u8 list xres" where
  "read_file al fs path =
     (case fs path of
        None \<Rightarrow> Err XAIR_ERR_BAD_ARG
      | Some file \<Rightarrow>
          if \<not> seek_end_ok file then Err XAIR_ERR_BAD_ARG
          else if told_size file < 0 then Err XAIR_ERR_BAD_ARG
          else if \<not> seek_set_ok file then Err XAIR_ERR_BAD_ARG
          else if \<not> al Site_file (if told_size file = 0 then 1 else nat (told_size file)) then Err XAIR_ERR_OOM
          else if length (take (nat (told_size file)) (delivered file)) \<noteq> nat (told_size file) then Err XAIR_ERR_BAD_ARG
          else Ok (take (nat (told_size file)) (delivered file)))"

text \<open>The view is destroyed, that is cleared, when parsing fails.\<close>

definition xair_binary_view_load_path :: "allocator \<Rightarrow> file_system \<Rightarrow> string \<Rightarrow> parse_outcome" where
  "xair_binary_view_load_path al fs path =
     (case read_file al fs path of
        Err e \<Rightarrow> Some (e, empty_view)
      | Ok file_bytes \<Rightarrow> do {
          (status, view) \<leftarrow> parse_elf_view al file_bytes empty_view;
          (status, view) \<leftarrow> (if status = XAIR_ERR_UNSUPPORTED then parse_pe_view al file_bytes view else Some (status, view));
          Some (if status \<noteq> XAIR_OK then (status, empty_view) else (status, view))})"

definition segment_covers :: "u64 \<Rightarrow> u32 \<Rightarrow> xair_binary_segment \<Rightarrow> bool" where
  "segment_covers va required_perms segment \<longleftrightarrow> seg_perms segment AND required_perms = required_perms \<and>
     va \<ge> seg_va segment \<and> va - seg_va segment < seg_mem_size segment"

definition xair_binary_view_find_segment :: "xair_binary_view \<Rightarrow> u64 \<Rightarrow> u32 \<Rightarrow> xair_binary_segment option" where
  "xair_binary_view_find_segment view va required_perms = find (segment_covers va required_perms) (view_segments view)"

text \<open>Reading copies bytes of the segment; as in the parsers, \<open>None\<close> is a copy past the end of the buffer.\<close>

definition xair_binary_view_read :: "xair_binary_view \<Rightarrow> u64 \<Rightarrow> nat \<Rightarrow> u8 list xres option" where
  "xair_binary_view_read view va sz =
     (case xair_binary_view_find_segment view va 0 of
        None \<Rightarrow> Some (Err XAIR_ERR_RANGE)
      | Some segment \<Rightarrow>
          let offset = va - seg_va segment
          in if offset > seg_file_size segment \<or> sz > unat (seg_file_size segment - offset) then Some (Err XAIR_ERR_RANGE)
             else if unat offset + sz > length (seg_bytes segment) then None
             else Some (Ok (take sz (drop (unat offset) (seg_bytes segment)))))"

definition xair_binary_load_path :: "allocator \<Rightarrow> file_system \<Rightarrow> string \<Rightarrow> xair_binary_image xres option" where
  "xair_binary_load_path al fs path = do {
     (status, view) \<leftarrow> xair_binary_view_load_path al fs path;
     if status \<noteq> XAIR_OK then Some (Err status)
     else case (case xair_binary_view_find_segment view (view_entry view) XAIR_BINARY_PERM_EXEC of
           Some segment \<Rightarrow> Some segment
         | None \<Rightarrow> xair_binary_view_find_segment view (view_entry view) 0) of
       None \<Rightarrow> Some (Err XAIR_ERR_RANGE)
     | Some segment \<Rightarrow>
         if unat (seg_file_size segment) > SIZE_MAX then Some (Err XAIR_ERR_RANGE)
         else if \<not> al Site_image (if seg_file_size segment = 0 then 1 else unat (seg_file_size segment))
           then Some (Err XAIR_ERR_OOM)
         else if length (seg_bytes segment) < unat (seg_file_size segment) then None
         else Some (Ok \<lparr>bin_format = view_format view, bin_arch = view_arch view, bin_entry = view_entry view,
           bin_image_base = view_image_base view, bin_segment_base = seg_va segment,
           bin_segment_bytes = take (unat (seg_file_size segment)) (seg_bytes segment)\<rparr>)}"

section \<open>Reads stay inside the file\<close>

text \<open>\<open>ensures x P\<close>: the computation \<open>x\<close> performs no read outside the buffer, and its result satisfies \<open>P\<close>.\<close>

definition ensures :: "'a option \<Rightarrow> ('a \<Rightarrow> bool) \<Rightarrow> bool" where
  "ensures x P \<longleftrightarrow> (\<exists>r. x = Some r \<and> P r)"

lemma ensures_bind: "ensures x P \<Longrightarrow> (\<And>a. P a \<Longrightarrow> ensures (f a) Q) \<Longrightarrow> ensures (x \<bind> f) Q"
  by (auto simp: ensures_def)

lemma ensures_Some: "P a \<Longrightarrow> ensures (Some a) P"
  by (simp add: ensures_def)

lemma ensures_if: "(c \<Longrightarrow> ensures x P) \<Longrightarrow> (\<not> c \<Longrightarrow> ensures y P) \<Longrightarrow> ensures (if c then x else y) P"
  by simp

lemma ensures_map: "ensures x (\<lambda>a. P (f a)) \<Longrightarrow> ensures (map_option f x) P"
  by (auto simp: ensures_def)

lemma ensures_True: "ensures x P \<Longrightarrow> ensures x (\<lambda>_. True)"
  by (auto simp: ensures_def)

lemma ensures_byte: "i < length bs \<Longrightarrow> ensures (byte_at bs i) (\<lambda>b. b = bs ! i)"
  by (simp add: ensures_def byte_at_def)

lemma ensures_read:
  "i + 2 \<le> length bs \<Longrightarrow> ensures (read_le16 bs i) (\<lambda>_. True)"
  "i + 4 \<le> length bs \<Longrightarrow> ensures (read_le32 bs i) (\<lambda>_. True)"
  "i + 8 \<le> length bs \<Longrightarrow> ensures (read_le64 bs i) (\<lambda>_. True)"
  by (simp_all add: ensures_def read_le16_def read_le32_def read_le64_def byte_at_def)

lemma ensures_read_nat:
  "i + 2 \<le> length bs \<Longrightarrow> ensures (map_option unat (read_le16 bs i)) (\<lambda>_. True)"
  "i + 4 \<le> length bs \<Longrightarrow> ensures (map_option unat (read_le32 bs i)) (\<lambda>_. True)"
  "i + 8 \<le> length bs \<Longrightarrow> ensures (map_option unat (read_le64 bs i)) (\<lambda>_. True)"
  using ensures_read by (auto intro!: ensures_map)

lemmas read_intros = ensures_if ensures_Some ensures_bind [OF ensures_byte] ensures_bind [OF ensures_read(1)]
  ensures_bind [OF ensures_read(2)] ensures_bind [OF ensures_read(3)] ensures_bind [OF ensures_read_nat(1)]
  ensures_bind [OF ensures_read_nat(2)] ensures_bind [OF ensures_read_nat(3)]

lemma range_ok_iff: "range_ok n off need \<longleftrightarrow> off + need \<le> n"
  by (auto simp: range_ok_def)

text \<open>The fields of the \<open>i\<close>-th of \<open>n\<close> headers of size \<open>e\<close>.\<close>

lemma header_fits: "range_ok len off (e * n) \<Longrightarrow> i < n \<Longrightarrow> k \<le> e \<Longrightarrow> off + i * e + k \<le> len" for off e n i k len :: nat
proof -
  assume *: "range_ok len off (e * n)" "i < n" "k \<le> e"
  have "i * e + k \<le> Suc i * e" using *(3) by simp
  also have "\<dots> \<le> n * e" using *(2) by (intro mult_le_mono1) simp
  finally show ?thesis using *(1) by (simp add: range_ok_iff mult.commute)
qed

section \<open>Views hold the bytes of the file\<close>

definition segment_ok :: "u8 list \<Rightarrow> xair_binary_segment \<Rightarrow> bool" where
  "segment_ok file seg \<longleftrightarrow> seg_mem_size seg \<noteq> 0 \<and>
     unat (seg_file_offset seg) + unat (seg_file_size seg) \<le> length file \<and>
     seg_bytes seg = take (unat (seg_file_size seg)) (drop (unat (seg_file_offset seg)) file)"

definition view_ok :: "u8 list \<Rightarrow> xair_binary_view \<Rightarrow> bool" where
  "view_ok file view \<longleftrightarrow> list_all (segment_ok file) (view_segments view)"

text \<open>What a parser promises: it keeps the view valid, and success comes with a segment.\<close>

definition parsed :: "u8 list \<Rightarrow> xair_status \<times> xair_binary_view \<Rightarrow> bool" where
  "parsed file r \<longleftrightarrow> view_ok file (snd r) \<and> (fst r = XAIR_OK \<longrightarrow> view_segments (snd r) \<noteq> [])"

lemma append_segment_ok: "view_ok file view \<Longrightarrow> view_ok file (snd (append_segment al file va ms off fs perms sid view))"
  by (auto simp: append_segment_def view_ok_def segment_ok_def range_ok_iff)

lemma each_header_ensures:
  assumes "\<And>i v. i \<in> set is \<Longrightarrow> view_ok file v \<Longrightarrow> ensures (entry i v) (\<lambda>r. view_ok file (snd r))" "view_ok file view"
  shows "ensures (each_header entry is view) (\<lambda>r. view_ok file (snd r))"
  using assms
proof (induction "is" arbitrary: view)
  case (Cons i js)
  show ?case unfolding each_header.simps
    by (rule ensures_bind [OF Cons.prems(1) [OF _ Cons.prems(2)]])
      (auto split: prod.split intro!: ensures_if ensures_Some Cons.IH Cons.prems(1))
qed (simp add: ensures_Some)

lemma need_segments_parsed: "view_ok file (snd r) \<Longrightarrow> parsed file (need_segments r)"
  by (auto simp: need_segments_def parsed_def split: prod.split)

lemma headers_parsed:
  assumes "\<And>i v. i < n \<Longrightarrow> view_ok file v \<Longrightarrow> ensures (entry i v) (\<lambda>r. view_ok file (snd r))" "view_ok file view"
  shows "ensures (map_option need_segments (each_header entry [0..<n] view)) (parsed file)"
proof (rule ensures_map)
  have "ensures (each_header entry [0..<n] view) (\<lambda>r. view_ok file (snd r))"
    by (rule each_header_ensures) (use assms in auto)
  then show "ensures (each_header entry [0..<n] view) (\<lambda>r. parsed file (need_segments r))"
    unfolding ensures_def using need_segments_parsed by blast
qed

lemma header_ensures:
  shows "off + i * 40 + 40 \<le> length file \<Longrightarrow> view_ok file v \<Longrightarrow>
      ensures (pe_section al file b off i v) (\<lambda>r. view_ok file (snd r))"
    "off + i * e + 56 \<le> length file \<Longrightarrow> view_ok file v \<Longrightarrow>
      ensures (elf64_segment al file off e i v) (\<lambda>r. view_ok file (snd r))"
    "off + i * e + 32 \<le> length file \<Longrightarrow> view_ok file v \<Longrightarrow>
      ensures (elf32_segment al file off e i v) (\<lambda>r. view_ok file (snd r))"
  unfolding pe_section_def elf64_segment_def elf32_segment_def Let_def
  by (intro read_intros append_segment_ok; simp)+

lemma parsed_failure: "view_ok file view \<Longrightarrow> e \<noteq> XAIR_OK \<Longrightarrow> parsed file (e, view)"
  by (simp add: parsed_def)

lemma view_ok_segments: "view_segments v' = view_segments v \<Longrightarrow> view_ok file v \<Longrightarrow> view_ok file v'"
  by (simp add: view_ok_def)

lemma pe_sections_parsed: "view_ok file v \<Longrightarrow> ensures (pe_sections al file a b rva off n v) (parsed file)"
  unfolding pe_sections_def Let_def
proof (intro ensures_if ensures_Some parsed_failure headers_parsed header_ensures(1))
  fix i assume "\<not> \<not> range_ok (length file) off (n * 40)" "i < n"
  then show "off + i * 40 + 40 \<le> length file" using header_fits [of "length file" off 40 n i 40] by (simp add: mult.commute)
qed (auto intro: view_ok_segments)

lemma pe_parsed: "view_ok file v \<Longrightarrow> ensures (parse_pe_view al file v) (parsed file)"
  unfolding parse_pe_view_def Let_def
  by (intro read_intros parsed_failure pe_sections_parsed) (auto simp: range_ok_iff)

lemma elf64_parsed: "view_ok file v \<Longrightarrow> ensures (parse_elf64_view al file v) (parsed file)"
  unfolding parse_elf64_view_def
proof (intro read_intros parsed_failure headers_parsed header_ensures(2))
  fix off e n i :: nat
  assume "\<not> (SIZE_MAX < off \<or> e < 56 \<or> SIZE_MAX div e < n \<or> \<not> range_ok (length file) off (e * n))" "i < n"
  then show "off + i * e + 56 \<le> length file" by (intro header_fits [of "length file" off e n i 56]) auto
qed (auto simp: range_ok_iff intro: view_ok_segments)

lemma elf32_parsed: "view_ok file v \<Longrightarrow> ensures (parse_elf32_view al file v) (parsed file)"
  unfolding parse_elf32_view_def
proof (intro read_intros parsed_failure headers_parsed header_ensures(3))
  fix off e n i :: nat
  assume "\<not> (e < 32 \<or> SIZE_MAX div e < n \<or> \<not> range_ok (length file) off (e * n))" "i < n"
  then show "off + i * e + 32 \<le> length file" by (intro header_fits [of "length file" off e n i 32]) auto
qed (auto simp: range_ok_iff intro: view_ok_segments)

lemma elf_parsed: "view_ok file v \<Longrightarrow> ensures (parse_elf_view al file v) (parsed file)"
  unfolding parse_elf_view_def
  by (intro read_intros parsed_failure elf32_parsed elf64_parsed)
    (auto simp: range_ok_iff)

text \<open>Loading a view, for every file system.\<close>

definition loaded :: "allocator \<Rightarrow> file_system \<Rightarrow> string \<Rightarrow> xair_status \<times> xair_binary_view \<Rightarrow> bool" where
  "loaded al fs path r \<longleftrightarrow> (if fst r = XAIR_OK
     then (\<exists>file. read_file al fs path = Ok file \<and> view_ok file (snd r)) \<and> view_segments (snd r) \<noteq> []
     else snd r = empty_view)"

lemma read_file_Err: "read_file al fs path = Err e \<Longrightarrow> e \<noteq> XAIR_OK"
  by (auto simp: read_file_def split: option.splits if_splits)

lemma view_load_loaded: "ensures (xair_binary_view_load_path al fs path) (loaded al fs path)"
proof (cases "read_file al fs path")
  case (Ok contents)
  have "view_ok contents empty_view" by (simp add: view_ok_def empty_view_def)
  from elf_parsed [OF this, of al] obtain st v where 1: "parse_elf_view al contents empty_view = Some (st, v)" "parsed contents (st, v)"
    by (auto simp: ensures_def)
  then have "ensures (if st = XAIR_ERR_UNSUPPORTED then parse_pe_view al contents v else Some (st, v)) (parsed contents)"
    by (intro ensures_if pe_parsed ensures_Some) (auto simp: parsed_def)
  then obtain st' v' where "(if st = XAIR_ERR_UNSUPPORTED then parse_pe_view al contents v else Some (st, v)) = Some (st', v')"
      "parsed contents (st', v')" by (auto simp: ensures_def)
  then show ?thesis using Ok 1 by (auto simp: xair_binary_view_load_path_def ensures_def loaded_def parsed_def)
next
  case (Err e)
  then show ?thesis using read_file_Err [OF Err] by (simp add: xair_binary_view_load_path_def ensures_def loaded_def)
qed

section \<open>Looking up and reading addresses\<close>

lemma find_segment_Some:
  assumes "xair_binary_view_find_segment view va perms = Some seg"
  shows "seg \<in> set (view_segments view)" "segment_covers va perms seg"
  using assms by (auto simp: xair_binary_view_find_segment_def find_Some_iff)

lemma view_read_eq:
  assumes "view_ok file view"
  shows "xair_binary_view_read view va n =
    Some (case find (\<lambda>seg. seg_va seg \<le> va \<and> va - seg_va seg < seg_mem_size seg) (view_segments view) of
        None \<Rightarrow> Err XAIR_ERR_RANGE
      | Some seg \<Rightarrow>
          if unat (va - seg_va seg) + n \<le> unat (seg_file_size seg)
          then Ok (take n (drop (unat (seg_file_offset seg) + unat (va - seg_va seg)) file)) else Err XAIR_ERR_RANGE)"
proof -
  have "find (\<lambda>seg. seg_va seg \<le> va \<and> va - seg_va seg < seg_mem_size seg) (view_segments view) =
      xair_binary_view_find_segment view va 0"
    unfolding xair_binary_view_find_segment_def by (rule arg_cong2 [where f = find]) (auto simp: segment_covers_def)
  moreover have "xair_binary_view_read view va n = Some (if unat (va - seg_va seg) + n \<le> unat (seg_file_size seg)
      then Ok (take n (drop (unat (seg_file_offset seg) + unat (va - seg_va seg)) file)) else Err XAIR_ERR_RANGE)"
    if s: "xair_binary_view_find_segment view va 0 = Some seg" for seg
  proof -
    have seg: "segment_ok file seg" using assms find_segment_Some(1) [OF s] by (auto simp: view_ok_def list_all_iff)
    let ?off = "va - seg_va seg"
    have guard: "?off > seg_file_size seg \<or> n > unat (seg_file_size seg - ?off) \<longleftrightarrow> \<not> unat ?off + n \<le> unat (seg_file_size seg)"
    proof (cases "?off > seg_file_size seg")
      case False
      then have "unat (seg_file_size seg - ?off) = unat (seg_file_size seg) - unat ?off"
        by (intro unat_sub) (simp add: linorder_not_less)
      then show ?thesis using False by (auto simp: word_less_nat_alt linorder_not_less)
    qed (auto simp: word_less_nat_alt)
    show ?thesis unfolding xair_binary_view_read_def s using seg guard
      by (auto simp: Let_def segment_ok_def drop_take add.commute)
  qed
  ultimately show ?thesis by (simp add: xair_binary_view_read_def split: option.split)
qed

text \<open>The image for the front end: the segment around the entry point, with the bytes the file has for it.\<close>

definition entry_image :: "allocator \<Rightarrow> file_system \<Rightarrow> string \<Rightarrow> xair_binary_image \<Rightarrow> bool" where
  "entry_image al fs path img \<longleftrightarrow> (\<exists>contents off. read_file al fs path = Ok contents \<and>
     off + length (bin_segment_bytes img) \<le> length contents \<and>
     bin_segment_bytes img = take (length (bin_segment_bytes img)) (drop off contents) \<and>
     bin_segment_base img \<le> bin_entry img)"

lemma load_path_image:
  "ensures (xair_binary_load_path al fs path) (\<lambda>r. case r of Ok img \<Rightarrow> entry_image al fs path img | Err e \<Rightarrow> e \<noteq> XAIR_OK)"
proof -
  obtain st view where load: "xair_binary_view_load_path al fs path = Some (st, view)" "loaded al fs path (st, view)"
    using view_load_loaded [of al fs path] by (auto simp: ensures_def)
  show ?thesis
  proof (cases "st = XAIR_OK")
    case True
    with load(2) obtain contents where c: "read_file al fs path = Ok contents" "view_ok contents view" by (auto simp: loaded_def)
    let ?find = "case xair_binary_view_find_segment view (view_entry view) XAIR_BINARY_PERM_EXEC of
        Some seg \<Rightarrow> Some seg | None \<Rightarrow> xair_binary_view_find_segment view (view_entry view) 0"
    show ?thesis
    proof (cases ?find)
      case None
      then show ?thesis using load(1) True by (simp add: xair_binary_load_path_def ensures_def)
    next
      case (Some seg)
      then obtain perms where "xair_binary_view_find_segment view (view_entry view) perms = Some seg"
        by (auto split: option.splits)
      from find_segment_Some [OF this] have "seg \<in> set (view_segments view)" "seg_va seg \<le> view_entry view"
        by (auto simp: segment_covers_def)
      moreover from this c(2) have seg: "segment_ok contents seg" by (auto simp: view_ok_def list_all_iff)
      then have len: "length (seg_bytes seg) = unat (seg_file_size seg)" by (auto simp: segment_ok_def)
      moreover have "seg_bytes seg = take (length (seg_bytes seg)) (drop (unat (seg_file_offset seg)) contents)"
        "unat (seg_file_offset seg) + length (seg_bytes seg) \<le> length contents" using seg len by (auto simp: segment_ok_def)
      ultimately show ?thesis using load(1) True Some c(1)
        by (auto simp: xair_binary_load_path_def ensures_def entry_image_def)
    qed
  qed (use load in \<open>simp add: xair_binary_load_path_def ensures_def\<close>)
qed

end
