(* ===== verification/Xair_Lift_Tools.thy ===== *)
theory Xair_Lift_Tools
  imports Xair_Tools Xair_Binary
begin

text \<open>
  The two tools that lift a block of a file and print it: \<^verbatim>\<open>src/tools/xair_lift_raw.c\<close> takes raw bytes with a base address,
  \<^verbatim>\<open>src/tools/xair_lift_bin.c\<close> finds the code of an ELF or PE file. Both print the module in a buffer that grows
  until the text fits.
\<close>

section \<open>Shared parts\<close>

definition parse_size :: "string \<Rightarrow> nat option" where
  "parse_size text =
     (case parse_u64 text of
        None \<Rightarrow> None
      | Some v \<Rightarrow> if unat v > SIZE_MAX then None else Some (unat v))"

text \<open>
  \<open>format_and_print_module\<close>: what it prints, or \<open>None\<close> for the result 0. The contents of a fresh buffer are a parameter.
\<close>

function format_loop :: "allocator \<Rightarrow> (nat \<Rightarrow> char) \<Rightarrow> xair_module \<Rightarrow> nat \<Rightarrow> string option" where
  "format_loop al garbage m n =
     (if \<not> al (Site_format n) n then None
      else case xair_format_module m (map garbage [0..<n]) of (status, buffer) \<Rightarrow>
        if status = XAIR_OK then Some (takeWhile (\<lambda>c. c \<noteq> NUL) buffer)
        else if status \<noteq> XAIR_ERR_RANGE \<or> n > 1024 * 1024 then None
        else format_loop al garbage m (n * 2))"
  by pat_completeness auto

termination format_loop
proof (relation "measure (\<lambda>(al, garbage, m, n). 2 * 1024 * 1024 - n)")
  fix al garbage m n status buffer
  assume "(status, buffer) = xair_format_module m (map garbage [0..<n])" "\<not> (status \<noteq> XAIR_ERR_RANGE \<or> n > 1024 * 1024)"
  then have "n \<noteq> 0" by (cases n) (auto simp: xair_format_module_def)
  then show "((al, garbage, m, n * 2), al, garbage, m, n) \<in> measure (\<lambda>(al, garbage, m, n). 2 * 1024 * 1024 - n)"
    using \<open>\<not> (status \<noteq> XAIR_ERR_RANGE \<or> n > 1024 * 1024)\<close> by auto
qed simp

definition format_and_print_module :: "allocator \<Rightarrow> (nat \<Rightarrow> char) \<Rightarrow> xair_module \<Rightarrow> string option" where
  "format_and_print_module al garbage m = format_loop al garbage m 16384"

section \<open>Lifting raw bytes\<close>

definition hex_line :: "string \<Rightarrow> u64 \<Rightarrow> string" where
  "hex_line name n = name @ ''=0x'' @ hex_text (unat n) @ [newline]"

definition value_line :: "string \<Rightarrow> xair_value_id \<Rightarrow> string" where
  "value_line name v = name @ ''=%'' @ dec_text v @ [newline]"

definition print_lift_result :: "xair_lift_result \<Rightarrow> string" where
  "print_lift_result r =
     ''lift.end='' @ xair_lift_end_kind_name (lr_end_kind r) @ [newline] @
     ''lift.decoder='' @ lr_decoder_name r @ [newline] @
     hex_line ''lift.start'' (lr_start r) @ hex_line ''lift.next'' (lr_next r) @
     ''lift.bytes='' @ dec_text (unat (lr_bytes_read r)) @ [newline] @
     ''lift.instructions='' @ dec_text (lr_instructions r) @ [newline] @
     (if lr_end_kind r = XAIR_LIFT_END_DIRECT_JUMP \<or> lr_end_kind r = XAIR_LIFT_END_DIRECT_CBRANCH
      then hex_line ''lift.target'' (lr_target r) else '''') @
     (if lr_end_kind r = XAIR_LIFT_END_FALLTHROUGH \<or> lr_end_kind r = XAIR_LIFT_END_DIRECT_CBRANCH
      then hex_line ''lift.fallthrough'' (lr_fallthrough r) else '''') @
     (if lr_end_kind r = XAIR_LIFT_END_UNSUPPORTED
      then hex_line ''lift.unsupported_address'' (lr_unsupported_address r) @
        ''lift.unsupported_opcode=0x'' @ pad_hex 2 (unat (lr_unsupported_opcode r)) @ [newline] else '''') @
     (if lr_memory_in r \<noteq> XAIR_INVALID_ID then value_line ''lift.memory_in'' (lr_memory_in r) else '''') @
     (if lr_memory_out r \<noteq> XAIR_INVALID_ID then value_line ''lift.memory_out'' (lr_memory_out r) else '''') @
     concat (map (\<lambda>(reg, v). value_line (''lift.input.'' @ xair_x86_reg_name reg) v) (lr_input_regs r)) @
     concat (map (\<lambda>(reg, v). value_line (''lift.output.'' @ xair_x86_reg_name reg) v) (lr_output_regs r)) @
     (if lr_branch_condition r \<noteq> XAIR_INVALID_ID then value_line ''lift.branch_condition'' (lr_branch_condition r) else '''') @
     [newline]"

definition print_json_reg_values :: "string \<Rightarrow> (xair_x86_reg \<times> xair_value_id) list \<Rightarrow> string" where
  "print_json_reg_values name regs = ''  '' @ quoted name @ '': ['' @
     comma_separated (map (\<lambda>(reg, v). CHR 0x7B # quoted ''reg'' @ '':'' @ quoted (xair_x86_reg_name reg) @ '','' @
       quoted ''value'' @ '':'' @ dec_text v @ [CHR 0x7D]) regs) @ ''],\<newline>''"

text \<open>An identifier, or -1 when there is none.\<close>

definition json_id :: "xair_value_id \<Rightarrow> string" where
  "json_id v = (if v = XAIR_INVALID_ID then ''-1'' else dec_text v)"

definition json_fingerprint :: "xair_module \<Rightarrow> string" where
  "json_fingerprint m = ''  '' @ quoted ''fingerprint'' @ '': '' @
     quoted (''0x'' @ pad_hex 16 (unat (xair_module_fingerprint m))) @ [newline]"

definition print_json_lift_result ::
  "xair_module \<Rightarrow> xair_lift_result \<Rightarrow> xair_arch \<Rightarrow> xair_value_numbering_stats \<Rightarrow> string" where
  "print_json_lift_result m r arch construction =
     (let number = (\<lambda>name n. json_line name (dec_text n))
      in [CHR 0x7B, newline] @
         json_line ''status'' (quoted ''ok'') @ json_line ''verified'' ''true'' @
         json_line ''ir_version'' (quoted xair_ir_version_string) @ json_line ''arch'' (quoted (xair_arch_name arch)) @
         json_line ''decoder'' (quoted (lr_decoder_name r)) @
         json_line ''end'' (quoted (xair_lift_end_kind_name (lr_end_kind r))) @
         number ''start'' (unat (lr_start r)) @ number ''next'' (unat (lr_next r)) @
         number ''bytes'' (unat (lr_bytes_read r)) @ number ''instructions'' (lr_instructions r) @
         number ''target'' (unat (lr_target r)) @ number ''fallthrough'' (unat (lr_fallthrough r)) @
         number ''unsupported_address'' (unat (lr_unsupported_address r)) @
         number ''unsupported_opcode'' (unat (lr_unsupported_opcode r)) @
         json_line ''memory_in'' (json_id (lr_memory_in r)) @ json_line ''memory_out'' (json_id (lr_memory_out r)) @
         json_line ''branch_condition'' (json_id (lr_branch_condition r)) @
         print_json_reg_values ''input_regs'' (lr_input_regs r) @ print_json_reg_values ''output_regs'' (lr_output_regs r) @
         print_json_metrics (xair_get_module_metrics m) @
         print_json_value_numbering ''value_numbering_construction'' construction @
         print_json_value_numbering ''value_numbering_final'' (xair_get_value_numbering_stats m) @
         json_fingerprint m @ [CHR 0x7D, newline])"

text \<open>The options in front of the arguments: JSON output and the architecture.\<close>

fun raw_options :: "bool \<Rightarrow> xair_arch \<Rightarrow> string list \<Rightarrow> (bool \<times> xair_arch \<times> string list) option" where
  "raw_options json arch [] = Some (json, arch, [])"
| "raw_options json arch (a # args) =
     (if take 2 a \<noteq> ''--'' then Some (json, arch, a # args)
      else if a = ''--json'' then raw_options True arch args
      else if a = ''--arch'' then
        (case args of
           [] \<Rightarrow> None
         | v # args' \<Rightarrow>
             if v = ''x86_64'' then raw_options json XAIR_ARCH_X86_64 args'
             else if v = ''x86_32'' \<or> v = ''x86'' \<or> v = ''i386'' then raw_options json XAIR_ARCH_X86_32 args'
             else None)
      else None)"

text \<open>The path, the base and entry addresses and the number of instructions.\<close>

definition raw_arguments :: "string list \<Rightarrow> (string \<times> u64 \<times> u64 \<times> nat) option" where
  "raw_arguments args =
     (if length args < 3 \<or> length args > 4 then None
      else case (parse_u64 (args ! 1), parse_u64 (args ! 2), if length args = 4 then parse_size (args ! 3) else Some 32) of
        (Some va, Some entry, Some n) \<Rightarrow> Some (args ! 0, va, entry, n)
      | _ \<Rightarrow> None)"

definition raw_usage :: "string list \<Rightarrow> tool_outcome" where
  "raw_usage argv = tool_error (''usage: '' @ argv0 argv @
     '' [--json] [--arch x86_64|x86_32] <raw-binary> <base> <entry> [max-instructions]'')"

definition lift_raw_main :: "allocator \<Rightarrow> (nat \<Rightarrow> char) \<Rightarrow> file_system \<Rightarrow> string list \<Rightarrow> tool_outcome" where
  "lift_raw_main al garbage fs argv =
     (case raw_options False XAIR_ARCH_X86_64 (drop 1 argv) of
        None \<Rightarrow> raw_usage argv
      | Some (json, arch, args) \<Rightarrow>
     (case raw_arguments args of
        None \<Rightarrow> raw_usage argv
      | Some (path, va, entry, n) \<Rightarrow>
     (case read_file al fs path of
        Err e \<Rightarrow> tool_error ''failed to read input file''
      | Ok data \<Rightarrow>
     (case lift_and_freeze al (xair_image_init data va) (lift_options arch entry n) of
        Inl f \<Rightarrow> tool_error (failure_text f)
      | Inr (lift, stats, m) \<Rightarrow>
          if json then \<lparr>exit_code = 0, stdout = print_json_lift_result m lift arch stats, stderr = ''''\<rparr>
          else case format_and_print_module al garbage m of
            None \<Rightarrow> \<lparr>exit_code = 1, stdout = print_lift_result lift, stderr = ''format failed\<newline>''\<rparr>
          | Some text \<Rightarrow> \<lparr>exit_code = 0, stdout = print_lift_result lift @ text, stderr = ''''\<rparr>))))"

section \<open>Lifting from a binary\<close>

text \<open>The name of the architecture of a loaded image, with the default case for a value that is no enumerator.\<close>

definition bin_arch_name :: "xair_binary_image \<Rightarrow> string" where
  "bin_arch_name bin = (case bin_arch bin of None \<Rightarrow> ''unknown'' | Some arch \<Rightarrow> xair_arch_name arch)"

definition print_json_lift :: "xair_binary_image \<Rightarrow> xair_lift_result \<Rightarrow> xair_module \<Rightarrow> string" where
  "print_json_lift bin r m =
     (let number = (\<lambda>name n. json_line name (dec_text n))
      in [CHR 0x7B, newline] @
         json_line ''status'' (quoted ''ok'') @ json_line ''format'' (quoted (xair_binary_format_name (bin_format bin))) @
         json_line ''arch'' (quoted (bin_arch_name bin)) @ number ''entry'' (unat (bin_entry bin)) @
         number ''segment_base'' (unat (bin_segment_base bin)) @ number ''segment_size'' (length (bin_segment_bytes bin)) @
         json_line ''ir_version'' (quoted xair_ir_version_string) @ json_line ''decoder'' (quoted (lr_decoder_name r)) @
         json_line ''end'' (quoted (xair_lift_end_kind_name (lr_end_kind r))) @
         number ''start'' (unat (lr_start r)) @ number ''next'' (unat (lr_next r)) @
         number ''bytes'' (unat (lr_bytes_read r)) @ number ''instructions'' (lr_instructions r) @
         number ''unsupported_address'' (unat (lr_unsupported_address r)) @
         number ''unsupported_opcode'' (unat (lr_unsupported_opcode r)) @
         print_json_metrics (xair_get_module_metrics m) @ json_fingerprint m @ [CHR 0x7D, newline])"

definition print_binary_header :: "xair_binary_image \<Rightarrow> string" where
  "print_binary_header bin =
     ''binary.format='' @ xair_binary_format_name (bin_format bin) @ [newline] @
     ''binary.arch='' @ bin_arch_name bin @ [newline] @
     hex_line ''binary.entry'' (bin_entry bin) @ hex_line ''binary.segment_base'' (bin_segment_base bin) @
     ''binary.segment_size='' @ dec_text (length (bin_segment_bytes bin)) @ [newline, newline]"

definition bin_arguments :: "string list \<Rightarrow> (string \<times> u64 \<times> nat) option" where
  "bin_arguments args =
     (if length args < 1 \<or> length args > 3 then None
      else case (if length args \<ge> 2 then parse_u64 (args ! 1) else Some 0, if length args = 3 then parse_size (args ! 2) else Some 32) of
        (Some entry, Some n) \<Rightarrow> Some (args ! 0, entry, n)
      | _ \<Rightarrow> None)"

text \<open>An architecture that is no enumerator passes the creation of the module and is refused by the lifter.\<close>

definition lift_bin :: "allocator \<Rightarrow> xair_binary_image \<Rightarrow> u64 \<Rightarrow> nat \<Rightarrow>
    case_failure + xair_lift_result \<times> xair_value_numbering_stats \<times> xair_module" where
  "lift_bin al bin entry n =
     (case bin_arch bin of
        None \<Rightarrow> Inl (case xair_module_create al of Err e \<Rightarrow> Module_failed e | Ok _ \<Rightarrow> Lift_failed XAIR_ERR_BAD_ARG)
      | Some arch \<Rightarrow> lift_and_freeze al (xair_image_init (bin_segment_bytes bin) (bin_segment_base bin))
          (lift_options arch (if entry = 0 then bin_entry bin else entry) n))"

text \<open>\<open>None\<close> is a read of the loader outside its buffer, as in the loader.\<close>

definition lift_bin_main :: "allocator \<Rightarrow> (nat \<Rightarrow> char) \<Rightarrow> file_system \<Rightarrow> string list \<Rightarrow> tool_outcome option" where
  "lift_bin_main al garbage fs argv =
     (let json = (length argv > 1 \<and> argv ! 1 = ''--json'');
          args = drop (if json then 2 else 1) argv
      in case bin_arguments args of
           None \<Rightarrow> Some (tool_error (''usage: '' @ argv0 argv @ '' [--json] <pe-or-elf> [entry-va] [max-instructions]''))
         | Some (path, entry, n) \<Rightarrow>
     (case xair_binary_load_path al fs path of
        None \<Rightarrow> None
      | Some (Err e) \<Rightarrow> Some (tool_error (''binary load failed: '' @ xair_status_name e))
      | Some (Ok bin) \<Rightarrow>
     (case lift_bin al bin entry n of
        Inl f \<Rightarrow> Some (tool_error (failure_text f))
      | Inr (lift, stats, m) \<Rightarrow>
          Some (if json then \<lparr>exit_code = 0, stdout = print_json_lift bin lift m, stderr = ''''\<rparr>
            else case format_and_print_module al garbage m of
              None \<Rightarrow> \<lparr>exit_code = 1, stdout = print_binary_header bin, stderr = ''format failed\<newline>''\<rparr>
            | Some text \<Rightarrow> \<lparr>exit_code = 0, stdout = print_binary_header bin @ text, stderr = ''''\<rparr>))))"

end
