(* ===== verification/Xair_Bench.thy ===== *)
theory Xair_Bench
  imports Xair_Lift_Tools Xair_Canon
begin

text \<open>
  The benchmark \<^verbatim>\<open>src/tools/xair_bench_lift.c\<close>. It lifts the block of each case file again and again, verifies it,
  canonicalizes it when asked to, freezes it and takes its fingerprint, and prints a line of JSON with the time each
  phase took. Each iteration meets its own allocator and its own readings of the clock, which are parameters.
\<close>

section \<open>Case files\<close>

record bench_case =
  bc_bytes :: "u8 list"
  bc_base :: u64
  bc_entry :: u64
  bc_max_instructions :: nat
  bc_arch :: xair_arch
  bc_have_arch :: bool
  bc_have_bytes :: bool
  bc_have_base :: bool
  bc_have_entry :: bool

definition bench_case_init :: bench_case where
  "bench_case_init = \<lparr>bc_bytes = [], bc_base = 0, bc_entry = 0, bc_max_instructions = 32, bc_arch = XAIR_ARCH_X86_64,
     bc_have_arch = False, bc_have_bytes = False, bc_have_base = False, bc_have_entry = False\<rparr>"

text \<open>The settings of a case; those of a run are accepted and ignored.\<close>

definition bench_setting :: "allocator \<Rightarrow> string \<Rightarrow> string \<Rightarrow> bench_case \<Rightarrow> bench_case option" where
  "bench_setting al key v config =
     (if key = ''arch'' then
        (if v = ''x86_64'' then Some (config\<lparr>bc_arch := XAIR_ARCH_X86_64, bc_have_arch := True\<rparr>)
         else if v = ''x86_32'' \<or> v = ''x86'' \<or> v = ''i386''
           then Some (config\<lparr>bc_arch := XAIR_ARCH_X86_32, bc_have_arch := True\<rparr>)
         else None)
      else if key = ''base'' then map_option (\<lambda>n. config\<lparr>bc_base := n, bc_have_base := True\<rparr>) (parse_u64 v)
      else if key = ''entry'' then map_option (\<lambda>n. config\<lparr>bc_entry := n, bc_have_entry := True\<rparr>) (parse_u64 v)
      else if key = ''max_instructions'' then
        (case parse_u64 v of
           None \<Rightarrow> None
         | Some n \<Rightarrow> if unat n > SIZE_MAX then None else Some (config\<lparr>bc_max_instructions := unat n\<rparr>))
      else if key = ''bytes'' then
        map_option (\<lambda>bs. config\<lparr>bc_bytes := bs, bc_have_bytes := True\<rparr>) (parse_hex_bytes al Site_case_bytes v)
      else if key = ''run'' \<or> take 4 key = ''reg.'' \<or> take 4 key = ''mem.'' then Some config
      else None)"

definition bench_case_line :: "allocator \<Rightarrow> string \<Rightarrow> bench_case \<Rightarrow> bench_case option" where
  "bench_case_line al line config =
     (let key = trim line
      in if key = [] \<or> hd key = CHR ''#'' then Some config
         else if CHR ''='' \<notin> set key then None
         else bench_setting al (trim (takeWhile (\<lambda>c. c \<noteq> CHR ''='') key))
                (trim (tl (dropWhile (\<lambda>c. c \<noteq> CHR ''='') key))) config)"

fun bench_case_lines :: "allocator \<Rightarrow> string list \<Rightarrow> bench_case \<Rightarrow> bench_case option" where
  "bench_case_lines al [] config = Some config"
| "bench_case_lines al (l # ls) config =
     (case bench_case_line al l config of None \<Rightarrow> None | Some config' \<Rightarrow> bench_case_lines al ls config')"

definition bench_read_case :: "allocator \<Rightarrow> (string \<Rightarrow> string option) \<Rightarrow> string \<Rightarrow> bench_case option" where
  "bench_read_case al files path =
     (case files path of
        None \<Rightarrow> None
      | Some text \<Rightarrow>
          (case bench_case_lines al (read_lines text) bench_case_init of
             None \<Rightarrow> None
           | Some config \<Rightarrow>
               if bc_have_arch config \<and> bc_have_base config \<and> bc_have_entry config \<and> bc_have_bytes config then Some config
               else None))"

section \<open>One iteration\<close>

text \<open>
  The phases an iteration can fail in, with the name it prints for them, and the places at which it reads the clock.
  Creating the image fails for missing bytes only, which the tool never passes.
\<close>

datatype bench_phase = Phase_create | Phase_lift | Phase_verify | Phase_canonicalize | Phase_freeze | Phase_fingerprint

fun phase_name :: "bench_phase \<Rightarrow> string" where
  "phase_name Phase_create = ''module_create''"
| "phase_name Phase_lift = ''lift''"
| "phase_name Phase_verify = ''verify''"
| "phase_name Phase_canonicalize = ''canonicalize''"
| "phase_name Phase_freeze = ''freeze''"
| "phase_name Phase_fingerprint = ''fingerprint''"

datatype bench_point = Total_start | Total_end | Before bench_phase | After bench_phase

type_synonym bench_clock = "bench_point \<Rightarrow> u64"

definition elapsed :: "bench_clock \<Rightarrow> bench_phase \<Rightarrow> u64" where
  "elapsed clock p = clock (After p) - clock (Before p)"

record bench_result =
  br_lift :: xair_lift_result
  br_construction :: xair_value_numbering_stats
  br_canonicalize :: xair_canonicalize_stats
  br_module :: xair_module

text \<open>The calls of \<open>bench_once\<close>, in their order; without canonicalization its statistics stay zero.\<close>

definition bench_canonicalize :: "allocator \<Rightarrow> bool \<Rightarrow> (xair_module, xair_canonicalize_stats) xop" where
  "bench_canonicalize al canonicalize m = (if canonicalize then xair_canonicalize_module al m else (Ok zero_stats, m))"

definition bench_calls :: "allocator \<Rightarrow> bench_case \<Rightarrow> bool \<Rightarrow> (bench_phase \<times> xair_status) + bench_result" where
  "bench_calls al config canonicalize =
     (case xair_module_create al of
        Err e \<Rightarrow> Inl (Phase_create, e)
      | Ok m0 \<Rightarrow>
     (case xair_lift_basic_block al (xair_image_init (bc_bytes config) (bc_base config))
         (lift_options (bc_arch config) (bc_entry config) (bc_max_instructions config)) m0 of
        (Err e, m) \<Rightarrow> Inl (Phase_lift, e)
      | (Ok lift, m) \<Rightarrow>
     (let status = fst (xair_verify_module al m)
      in if status \<noteq> XAIR_OK then Inl (Phase_verify, status)
         else case bench_canonicalize al canonicalize m of
        (Err e, m1) \<Rightarrow> Inl (Phase_canonicalize, e)
      | (Ok canon_stats, m1) \<Rightarrow>
     (case xair_module_freeze al m1 of
        (Err e, m2) \<Rightarrow> Inl (Phase_freeze, e)
      | (Ok _, m2) \<Rightarrow> Inr \<lparr>br_lift = lift, br_construction = xair_get_value_numbering_stats m,
          br_canonicalize = canon_stats, br_module = m2\<rparr>))))"

section \<open>The lines it prints\<close>

definition bench_number :: "string \<Rightarrow> nat \<Rightarrow> string" where
  "bench_number name n = quoted name @ '':'' @ dec_text n"

definition print_value_numbering :: "string \<Rightarrow> xair_value_numbering_stats \<Rightarrow> string" where
  "print_value_numbering name stats = quoted name @ '':'' @ CHR 0x7B # bench_number ''entries'' (entries stats) @ '','' @
     bench_number ''created'' (created stats) @ '','' @ bench_number ''reused'' (reused stats) @ '','' @
     bench_number ''collisions'' (collisions stats) @ [CHR 0x7D]"

definition print_canonicalize_stats :: "xair_canonicalize_stats \<Rightarrow> string" where
  "print_canonicalize_stats stats = quoted ''canonicalize_stats'' @ '':'' @
     CHR 0x7B # bench_number ''values_before'' (values_before stats) @ '','' @
     bench_number ''values_after'' (values_after stats) @ '','' @
     bench_number ''operations_before'' (operations_before stats) @ '','' @
     bench_number ''operations_after'' (operations_after stats) @ '','' @
     bench_number ''value_number_entries_before'' (value_number_entries_before stats) @ '','' @
     bench_number ''value_number_entries_after'' (value_number_entries_after stats) @ '','' @
     bench_number ''operands_reordered'' (operands_reordered stats) @ '','' @
     bench_number ''constants_folded'' (constants_folded stats) @ '','' @
     bench_number ''dead_values_removed'' (dead_values_removed stats) @ '','' @
     bench_number ''dead_operations_removed'' (dead_operations_removed stats) @ [CHR 0x7D]"

definition row_head :: "string \<Rightarrow> nat \<Rightarrow> string" where
  "row_head path iteration = CHR 0x7B # quoted ''engine'' @ '':'' @ quoted ''xair-native'' @ '','' @ quoted ''case'' @ '':'' @
     print_json_string path @ '','' @ bench_number ''iteration'' iteration @ '',''"

definition print_error_row :: "string \<Rightarrow> nat \<Rightarrow> string \<Rightarrow> xair_status \<Rightarrow> string" where
  "print_error_row path iteration phase status = row_head path iteration @ quoted ''status'' @ '':'' @ quoted ''error'' @ '','' @
     quoted ''phase'' @ '':'' @ print_json_string phase @ '','' @
     quoted ''error'' @ '':'' @ print_json_string (xair_status_name status) @ [CHR 0x7D, newline]"

definition print_ok_row :: "string \<Rightarrow> nat \<Rightarrow> bool \<Rightarrow> bench_clock \<Rightarrow> bench_result \<Rightarrow> string" where
  "print_ok_row path iteration canonicalize clock br =
     (let lift = br_lift br; m = br_module br; mm = xair_get_module_metrics m;
          number = (\<lambda>name n. bench_number name n @ '',''); word = (\<lambda>name n. bench_number name (unat (n :: u64)) @ '','')
      in row_head path iteration @ quoted ''status'' @ '':'' @ quoted ''ok'' @ '','' @
         quoted ''ir_version'' @ '':'' @ quoted xair_ir_version_string @ '','' @
         quoted ''decoder'' @ '':'' @ print_json_string (lr_decoder_name lift) @ '','' @
         quoted ''end'' @ '':'' @ quoted (xair_lift_end_kind_name (lr_end_kind lift)) @ '','' @
         word ''start'' (lr_start lift) @ word ''next'' (lr_next lift) @ number ''bytes'' (unat (lr_bytes_read lift)) @
         number ''instructions'' (lr_instructions lift) @ word ''target'' (lr_target lift) @
         word ''fallthrough'' (lr_fallthrough lift) @ word ''unsupported_address'' (lr_unsupported_address lift) @
         number ''unsupported_opcode'' (unat (lr_unsupported_opcode lift)) @
         quoted ''canonicalized'' @ '':'' @ (if canonicalize then ''true'' else ''false'') @ '','' @
         word ''time_ns'' (clock Total_end - clock Total_start) @ word ''create_ns'' (elapsed clock Phase_create) @
         word ''lift_ns'' (elapsed clock Phase_lift) @ word ''verify_ns'' (elapsed clock Phase_verify) @
         word ''canonicalize_ns'' (if canonicalize then elapsed clock Phase_canonicalize else 0) @
         word ''freeze_ns'' (elapsed clock Phase_freeze) @ word ''fingerprint_ns'' (elapsed clock Phase_fingerprint) @
         quoted ''metrics'' @ '':'' @ CHR 0x7B # number ''blocks'' (mm_blocks mm) @ number ''values'' (mm_values mm) @
         number ''operations'' (mm_operations mm) @ number ''block_parameters'' (mm_block_parameters mm) @
         bench_number ''terminator_arguments'' (mm_terminator_arguments mm) @ [CHR 0x7D] @ '','' @
         print_value_numbering ''value_numbering_construction'' (br_construction br) @ '','' @
         print_value_numbering ''value_numbering_final'' (xair_get_value_numbering_stats m) @ '','' @
         print_canonicalize_stats (br_canonicalize br) @ '','' @
         quoted ''fingerprint'' @ '':'' @ quoted (''0x'' @ pad_hex 16 (unat (xair_module_fingerprint m))) @ [CHR 0x7D, newline])"

definition bench_once :: "allocator \<Rightarrow> bench_clock \<Rightarrow> string \<Rightarrow> bench_case \<Rightarrow> bool \<Rightarrow> nat \<Rightarrow> bool \<Rightarrow> xair_status \<times> string" where
  "bench_once al clock path config canonicalize iteration emit =
     (case bench_calls al config canonicalize of
        Inl (phase, status) \<Rightarrow> (status, if emit then print_error_row path iteration (phase_name phase) status else '''')
      | Inr br \<Rightarrow> (XAIR_OK, if emit then print_ok_row path iteration canonicalize clock br else ''''))"

section \<open>The tool\<close>

record bench_options =
  bo_repeat :: nat
  bo_warmup :: nat
  bo_canonicalize :: bool

fun bench_arguments :: "bench_options \<Rightarrow> string list \<Rightarrow> (bench_options \<times> string list) option" where
  "bench_arguments opts [] = Some (opts, [])"
| "bench_arguments opts (a # args) =
     (if take 2 a \<noteq> ''--'' then Some (opts, a # args)
      else if a = ''--repeat'' then
        (case args of
           [] \<Rightarrow> None
         | v # args' \<Rightarrow>
             (case parse_size v of
                None \<Rightarrow> None
              | Some n \<Rightarrow> if n = 0 then None else bench_arguments (opts\<lparr>bo_repeat := n\<rparr>) args'))
      else if a = ''--warmup'' then
        (case args of
           [] \<Rightarrow> None
         | v # args' \<Rightarrow>
             (case parse_size v of
                None \<Rightarrow> None
              | Some n \<Rightarrow> bench_arguments (opts\<lparr>bo_warmup := n\<rparr>) args'))
      else if a = ''--canonicalize'' then bench_arguments (opts\<lparr>bo_canonicalize := True\<rparr>) args
      else None)"

text \<open>
  What the tool meets: the files, the allocator while the \<open>k\<close>-th case file is read, and the allocator and the clock during
  the \<open>k\<close>-th iteration, counted over the whole run.
\<close>

record bench_world =
  bw_files :: "string \<Rightarrow> string option"
  bw_parse :: "nat \<Rightarrow> allocator"
  bw_alloc :: "nat \<Rightarrow> allocator"
  bw_clock :: "nat \<Rightarrow> bench_clock"

text \<open>A loop of \<open>n\<close> iterations from number \<open>i\<close>: whether all succeeded, what was printed and the number of iterations so far.\<close>

fun bench_loop :: "bench_world \<Rightarrow> string \<Rightarrow> bench_case \<Rightarrow> bool \<Rightarrow> bool \<Rightarrow> nat \<Rightarrow> nat \<Rightarrow> nat \<Rightarrow> bool \<times> string \<times> nat" where
  "bench_loop w path config canonicalize emit i 0 k = (True, '''', k)"
| "bench_loop w path config canonicalize emit i (Suc n) k =
     (case bench_once (bw_alloc w k) (bw_clock w k) path config canonicalize i emit of (status, text) \<Rightarrow>
        if status \<noteq> XAIR_OK then (False, text, Suc k)
        else case bench_loop w path config canonicalize emit (Suc i) n (Suc k) of (ok, texts, k') \<Rightarrow> (ok, text @ texts, k'))"

fun bench_files :: "bench_world \<Rightarrow> bench_options \<Rightarrow> nat \<Rightarrow> string list \<Rightarrow> nat \<Rightarrow> tool_outcome" where
  "bench_files w opts j [] k = \<lparr>exit_code = 0, stdout = '''', stderr = ''''\<rparr>"
| "bench_files w opts j (path # paths) k =
     (case bench_read_case (bw_parse w j) (bw_files w) path of
        None \<Rightarrow> tool_error (''failed to parse case file: '' @ path)
      | Some config \<Rightarrow>
     (case bench_loop w path config (bo_canonicalize opts) False 0 (bo_warmup opts) k of (ok, texts, k1) \<Rightarrow>
        if \<not> ok then \<lparr>exit_code = 1, stdout = texts, stderr = ''''\<rparr>
        else case bench_loop w path config (bo_canonicalize opts) True 0 (bo_repeat opts) k1 of (ok, texts', k2) \<Rightarrow>
          if \<not> ok then \<lparr>exit_code = 1, stdout = texts @ texts', stderr = ''''\<rparr>
          else let out = bench_files w opts (Suc j) paths k2 in out\<lparr>stdout := texts @ texts' @ stdout out\<rparr>))"

definition bench_main :: "bench_world \<Rightarrow> string list \<Rightarrow> tool_outcome" where
  "bench_main w argv =
     (case bench_arguments \<lparr>bo_repeat = 1000, bo_warmup = 100, bo_canonicalize = False\<rparr> (drop 1 argv) of
        Some (opts, a # args) \<Rightarrow> bench_files w opts 0 (a # args) 0
      | _ \<Rightarrow> tool_error (''usage: '' @ argv0 argv @ '' [--repeat N] [--warmup N] [--canonicalize] <case-file>...''))"

end
