(* ===== verification/Xair_Lift_Keeps.thy ===== *)
theory Xair_Lift_Keeps
  imports Xair_Lift Xair_Builder
begin

text \<open>
  Invariants of the x86 front end. The locale \<open>lift_invariant\<close> states what a property of lifting states has to
  survive: the builder calls that add operations, the two ways to add a parameter, the terminator, and changes to the
  parts of the state it does not look at. Every operation of the front end, up to the loop over instructions, then
  keeps it. Two interpretations follow: the module stays one that builder calls can reach, and the inputs that the
  result lists are the parameters of the block, with the types of registers and memory.
\<close>

section \<open>Operations that keep an invariant\<close>

text \<open>The parts of the state that an invariant may depend on.\<close>

definition lift_view :: "x86_lift_state \<Rightarrow> xair_module \<times> xair_block_id \<times> nat \<times> nat \<times> nat \<times> bool \<times> xair_value_id \<times>
    (xair_x86_reg \<times> xair_value_id) list \<times> xair_value_id \<times> xair_value_id \<times> xair_block_id" where
  "lift_view s = (ls_module s, ls_block s, ls_reg_bits s, ls_addr_bits s, ls_memory_space s, ls_has_memory s, ls_memory s,
     lr_input_regs (ls_result s), lr_memory_in (ls_result s), lr_memory_out (ls_result s), lr_block (ls_result s))"

lemmas lift_small_defs = x86_write_reg_def x86_build_const_u64_def x86_unary_def x86_binary_def x86_set_zf_from_flags_def
  x86_set_zf_from_value_def x86_const_int_def x86_lift_add_sub_values_def x86_lift_cmp_values_def
  x86_lift_test_values_def x86_lift_logic_values_def x86_int_to_addr_def x86_addr_to_int_def x86_addr_add_i64_def
  x86_base_address_def x86_scaled_index_def x86_index_address_def update_result_def x86_advance_def

named_theorems keeps_intros "operations that keep an invariant of lifting"

text \<open>
  \<open>E\<close> are the errors after which the invariant still holds; lifting goes on after an unsupported operation only. The
  first locale is about the operations that leave memory alone; the second adds the memory parameter, stores, which
  always write the current memory and become it, and the end of the block.
\<close>

definition store_call :: "builder_call \<Rightarrow> bool" where
  "store_call c = (case c of Build_store _ _ _ _ _ _ \<Rightarrow> True | _ \<Rightarrow> False)"

locale lift_frame =
  fixes P :: "x86_lift_state \<Rightarrow> bool" and E :: "xair_status set"
  assumes unsupported: "XAIR_ERR_UNSUPPORTED \<in> E"
    and op_call_keeps: "P s \<Longrightarrow> op_call c \<Longrightarrow> \<not> store_call c \<Longrightarrow> run_call al c (ls_module s) = (r, m') \<Longrightarrow> P (s\<lparr>ls_module := m'\<rparr>)"
    and ensure_reg_keeps: "P s \<Longrightarrow> x86_ensure_reg al i s = (r, s') \<Longrightarrow> (\<And>e. r = Err e \<Longrightarrow> e \<in> E) \<Longrightarrow> P s'"
    and view_keeps: "P s \<Longrightarrow> lift_view s' = lift_view s \<Longrightarrow> P s'"
begin

definition keeps :: "'a lift_op \<Rightarrow> bool" where
  "keeps f \<longleftrightarrow> (\<forall>s r s'. P s \<longrightarrow> f s = (r, s') \<longrightarrow> (\<forall>e. r = Err e \<longrightarrow> e \<in> E) \<longrightarrow> P s')"

lemma keepsI: "(\<And>s r s'. P s \<Longrightarrow> f s = (r, s') \<Longrightarrow> (\<And>e. r = Err e \<Longrightarrow> e \<in> E) \<Longrightarrow> P s') \<Longrightarrow> keeps f"
  unfolding keeps_def by blast

lemma keepsD: "keeps f \<Longrightarrow> P s \<Longrightarrow> f s = (r, s') \<Longrightarrow> (\<And>e. r = Err e \<Longrightarrow> e \<in> E) \<Longrightarrow> P s'"
  unfolding keeps_def by blast

lemma keeps_bind [keeps_intros]:
  assumes "keeps f" "\<And>a. keeps (g a)"
  shows "keeps (xbind f g)"
proof (rule keepsI)
  fix s r s' assume s: "P s" "xbind f g s = (r, s')" "\<And>e. r = Err e \<Longrightarrow> e \<in> E"
  obtain r1 s1 where f: "f s = (r1, s1)" by fastforce
  show "P s'"
  proof (cases r1)
    case (Ok a)
    then have "P s1" "g a s1 = (r, s')" using s f keepsD [OF assms(1) s(1) f] by (auto simp: xbind_def)
    then show ?thesis using keepsD [OF assms(2)] s(3) by blast
  next
    case (Err e)
    then show ?thesis using s f keepsD [OF assms(1) s(1) f] by (auto simp: xbind_def)
  qed
qed

lemma keeps_simple [keeps_intros]: "keeps (xreturn a)" "keeps (xfail e)"
  by (simp_all add: keeps_def xreturn_def xfail_def)

lemma keeps_if [keeps_intros]: "(c \<Longrightarrow> keeps f) \<Longrightarrow> (\<not> c \<Longrightarrow> keeps g) \<Longrightarrow> keeps (if c then f else g)"
  by simp

lemma keeps_with_state [keeps_intros]: "(\<And>s. keeps (f s)) \<Longrightarrow> keeps (with_state f)"
  by (simp add: keeps_def with_state_def)

lemma keeps_modify [keeps_intros]: "(\<And>s. lift_view (f s) = lift_view s) \<Longrightarrow> keeps (modify f)"
  using view_keeps by (auto simp: keeps_def modify_def)

lemma keeps_cases [keeps_intros]:
  "keeps e \<Longrightarrow> (\<And>x. keeps (f x)) \<Longrightarrow> keeps (case v of None \<Rightarrow> e | Some x \<Rightarrow> f x)"
  by (cases v) auto

lemma keeps_call:
  assumes "op_call c" "\<not> store_call c" "\<And>m. run_call al c m = f m"
  shows "keeps (on_module f)"
  by (rule keepsI)
    (auto simp: on_module_def assms(3) [symmetric] split: prod.splits intro: op_call_keeps [OF _ assms(1,2)])

lemma keeps_calls [keeps_intros]:
  "keeps (on_module (xair_build_const_u64 al b t v nm))" "keeps (on_module (xair_build_unary al b oc t x nm))"
  "keeps (on_module (xair_build_binary al b oc t x y nm))" "keeps (on_module (xair_build_load al b t x y en nm))"
proof -
  show "keeps (on_module (xair_build_const_u64 al b t v nm))"
    by (rule keeps_call [where c = "Build_const b t v nm"]) (simp_all add: op_call_def store_call_def)
  show "keeps (on_module (xair_build_unary al b oc t x nm))"
    by (rule keeps_call [where c = "Build_unary b oc t x nm"]) (simp_all add: op_call_def store_call_def)
  show "keeps (on_module (xair_build_binary al b oc t x y nm))"
    by (rule keeps_call [where c = "Build_binary b oc t x y nm"]) (simp_all add: op_call_def store_call_def)
  show "keeps (on_module (xair_build_load al b t x y en nm))"
    by (rule keeps_call [where c = "Build_load b t x y en nm"]) (simp_all add: op_call_def store_call_def)
qed

lemma keeps_ensure_reg [keeps_intros]: "keeps (x86_ensure_reg al i)"
  by (rule keepsI, erule (1) ensure_reg_keeps) blast

lemma keeps_small [keeps_intros]:
  "keeps (x86_write_reg r v)" "keeps (x86_advance pc)"
  "keeps (x86_build_const_u64 al t w nm)" "keeps (x86_const_int al w nm)"
  "keeps (x86_lift_add_sub_values al oc oc' r v v')" "keeps (x86_lift_cmp_values al v v')"
  "keeps (x86_lift_test_values al v v')" "keeps (x86_lift_logic_values al oc r v v')"
  "keeps (x86_addr_to_int al v)"
  unfolding lift_small_defs by (intro keeps_intros; simp add: lift_view_def)+

lemma keeps_address [keeps_intros]: "keeps (x86_build_memory_address al mem pc)"
  unfolding x86_build_memory_address_def lift_small_defs by (intro keeps_intros; simp add: lift_view_def)

end

text \<open>The current memory is kept by all of these.\<close>

interpretation memory_frame: lift_frame "\<lambda>s. ls_has_memory s \<and> ls_memory s = v" UNIV for v
proof (unfold_locales, goal_cases)
  case (3 s al i r s')
  then show ?case by (auto simp: x86_ensure_reg_def on_module_def Let_def split: if_splits prod.splits xres.splits)
qed (simp_all add: lift_view_def)

lemma ensure_memory_current: "x86_ensure_memory al s = (Ok v, s') \<Longrightarrow> ls_has_memory s' \<and> ls_memory s' = v"
  by (auto simp: x86_ensure_memory_def split: if_splits prod.splits xres.splits)

text \<open>A store writes the current memory, and its result is the current memory afterwards.\<close>

definition store_current :: "allocator \<Rightarrow> xair_block_id \<Rightarrow> xair_value_id \<Rightarrow> xair_value_id \<Rightarrow> xair_value_id \<Rightarrow> string \<Rightarrow> unit lift_op" where
  "store_current al b memory addr data nm =
     xbind (on_module (xair_build_store al b memory addr data XAIR_ENDIAN_LE nm)) x86_write_memory"

lemma xbind_with_state: "xbind (with_state f) g = with_state (\<lambda>s. xbind (f s) g)"
  by (simp add: xbind_def with_state_def fun_eq_iff)

locale lift_invariant = lift_frame +
  assumes return_keeps: "P s \<Longrightarrow> xair_set_return al b vs (ls_module s) = (u, m') \<Longrightarrow> P (s\<lparr>ls_module := m'\<rparr>)"
    and ensure_memory_keeps: "P s \<Longrightarrow> x86_ensure_memory al s = (r, s') \<Longrightarrow> (\<And>e. r = Err e \<Longrightarrow> e \<in> E) \<Longrightarrow> P s'"
    and store_keeps: "P s \<Longrightarrow> ls_has_memory s \<Longrightarrow> store_current al b (ls_memory s) addr data nm s = (q, s') \<Longrightarrow> P s'"
    and memory_out_keeps: "P s \<Longrightarrow> ls_has_memory s \<Longrightarrow> P (s\<lparr>ls_result := (ls_result s)\<lparr>lr_memory_out := ls_memory s\<rparr>\<rparr>)"
begin

lemma keeps_ensure_memory [keeps_intros]: "keeps (x86_ensure_memory al)"
  by (rule keepsI, erule (1) ensure_memory_keeps) blast

lemma keeps_return [keeps_intros]: "keeps (on_module (xair_set_return al b vs))"
  using return_keeps by (auto simp: keeps_def on_module_def split: prod.splits)

text \<open>A store after other operations have been added.\<close>

lemma keeps_store [keeps_intros]:
  assumes f: "keeps f" "\<And>v. memory_frame.keeps v f"
  shows "keeps (xbind (x86_ensure_memory al) (\<lambda>memory. xbind f (\<lambda>addr. with_state (\<lambda>s. store_current al (b s) memory addr data nm))))"
proof (rule keepsI)
  fix s r s' assume s: "P s" and run: "xbind (x86_ensure_memory al) (\<lambda>memory. xbind f (\<lambda>addr.
      with_state (\<lambda>s. store_current al (b s) memory addr data nm))) s = (r, s')" and r: "\<And>e. r = Err e \<Longrightarrow> e \<in> E"
  obtain r1 s1 where 1: "x86_ensure_memory al s = (r1, s1)" by fastforce
  show "P s'"
  proof (cases r1)
    case (Err e)
    then show ?thesis using ensure_memory_keeps [OF s 1] run r 1 by (auto simp: xbind_def)
  next
    case (Ok memory)
    then have p1: "P s1" "ls_has_memory s1 \<and> ls_memory s1 = memory"
      using ensure_memory_keeps [OF s 1] ensure_memory_current 1 by auto
    obtain r2 s2 where 2: "f s1 = (r2, s2)" by fastforce
    have m2: "ls_has_memory s2 \<and> ls_memory s2 = memory" using memory_frame.keepsD [OF f(2) p1(2) 2] by simp
    show ?thesis
    proof (cases r2)
      case (Err e)
      then show ?thesis using keepsD [OF f(1) p1(1) 2] run r 1 2 Ok by (auto simp: xbind_def)
    next
      case (Ok addr)
      then have "P s2" "store_current al (b s2) (ls_memory s2) addr data nm s2 = (r, s')"
        using keepsD [OF f(1) p1(1) 2] run 1 2 \<open>r1 = Ok memory\<close> m2 by (auto simp: xbind_def with_state_def)
      then show ?thesis using store_keeps m2 by blast
    qed
  qed
qed

lemma keeps_access [keeps_intros]:
  "keeps (x86_lift_mem_load al r mem pc)" "keeps (x86_lift_mem_store al mem v pc)"
proof -
  show "keeps (x86_lift_mem_load al r mem pc)" unfolding x86_lift_mem_load_def by (intro keeps_intros)
  have "x86_lift_mem_store al mem v pc = xbind (x86_ensure_memory al) (\<lambda>memory. xbind (x86_build_memory_address al mem pc)
      (\<lambda>addr. with_state (\<lambda>s. store_current al (ls_block s) memory addr v ''store'')))"
    by (simp add: x86_lift_mem_store_def store_current_def xbind_with_state)
  then show "keeps (x86_lift_mem_store al mem v pc)"
    by (simp add: keeps_store keeps_address memory_frame.keeps_address)
qed

lemma keeps_output [keeps_intros]: "keeps (x86_append_return v)" "keeps (x86_output_reg r)"
  by (auto simp: keeps_def x86_append_return_def x86_output_reg_def update_result_def modify_def xbind_def lift_view_def
      split: if_splits elim!: view_keeps)

lemma keeps_outputs [keeps_intros]: "keeps (x86_output_regs rs)"
  by (induction rs) (auto intro: keeps_intros)

lemma keeps_memory_out:
  "keeps (with_state (\<lambda>s. if ls_has_memory s
     then xbind (update_result (\<lambda>r. r\<lparr>lr_memory_out := ls_memory s\<rparr>)) (\<lambda>_. x86_append_return (ls_memory s)) else xreturn ()))"
proof (rule keepsI)
  fix s r s' assume s: "P s" and r: "\<And>e. r = Err e \<Longrightarrow> e \<in> E" and run: "with_state (\<lambda>s. if ls_has_memory s
    then xbind (update_result (\<lambda>r. r\<lparr>lr_memory_out := ls_memory s\<rparr>)) (\<lambda>_. x86_append_return (ls_memory s)) else xreturn ()) s = (r, s')"
  show "P s'"
  proof (cases "ls_has_memory s")
    case True
    then have "x86_append_return (ls_memory s) (s\<lparr>ls_result := (ls_result s)\<lparr>lr_memory_out := ls_memory s\<rparr>\<rparr>) = (r, s')"
      using run by (simp add: with_state_def xbind_def update_result_def modify_def)
    then show ?thesis using keepsD [OF keeps_output(1) memory_out_keeps [OF s True]] r by blast
  qed (use s run in \<open>simp add: with_state_def xreturn_def\<close>)
qed

lemma keeps_finish_block [keeps_intros]: "keeps (x86_finish_block al)"
proof -
  have counts: "keeps (modify (\<lambda>s. s\<lparr>ls_result := (ls_result s)\<lparr>lr_bytes_read := f s, lr_next := g s, lr_instructions := h s\<rparr>\<rparr>))" for f g h
    by (rule keeps_modify) (simp add: lift_view_def)
  show ?thesis unfolding x86_finish_block_def
    by (intro keeps_bind keeps_memory_out counts) (intro keeps_intros)+
qed

lemma keeps_finish [keeps_intros]:
  "keeps (x86_finish_unsupported al a opc)" "keeps (x86_finish_fallthrough al)"
  "keeps (x86_finish_direct_jump al a)" "keeps (x86_finish_return al)"
  "keeps (x86_finish_direct_cbranch al a a' v)"
  unfolding update_result_def x86_finish_unsupported_def x86_finish_fallthrough_def x86_finish_direct_jump_def x86_finish_return_def
    x86_finish_direct_cbranch_def
  by (intro keeps_intros; simp add: lift_view_def)+

lemma keeps_condition [keeps_intros]: "keeps (x86_condition_from_zf al z)"
  unfolding x86_condition_from_zf_def lift_small_defs by (intro keeps_intros)

lemma keeps_operand [keeps_intros]: "keeps (x86_operand_value al inst i)"
  unfolding x86_operand_value_def lift_small_defs by (auto split: option.splits intro!: keeps_intros)

lemma keeps_decoded [keeps_intros]:
  "keeps (x86_lift_mov_decoded al inst pc)" "keeps (x86_lift_lea_decoded al inst pc)"
  "keeps (x86_lift_alu_decoded al inst)" "keeps (x86_lift_push_decoded al inst)"
  "keeps (x86_lift_pop_decoded al inst)"
proof -
  show "keeps (x86_lift_mov_decoded al inst pc)"
    unfolding x86_lift_mov_decoded_def by (auto split: option.split intro!: keeps_intros)
  show "keeps (x86_lift_lea_decoded al inst pc)"
    unfolding x86_lift_lea_decoded_def by (auto split: option.split intro!: keeps_intros)
  show "keeps (x86_lift_alu_decoded al inst)"
    unfolding x86_lift_alu_decoded_def
    by (intro keeps_intros; simp add: keeps_intros split: xair_x86_mnemonic.split)
  have store: "xbind (x86_ensure_memory al) (\<lambda>memory. xbind (on_module (xair_build_store al b memory addr data XAIR_ENDIAN_LE nm))
      (\<lambda>next_memory. xbind (x86_write_memory next_memory) (\<lambda>_. x86_write_reg i v))) =
    xbind (xbind (x86_ensure_memory al) (\<lambda>memory. xbind (xreturn addr) (\<lambda>addr. with_state (\<lambda>s. store_current al b memory addr data nm))))
      (\<lambda>_. x86_write_reg i v)" for b addr data nm i v
    by (auto simp: store_current_def xbind_def xreturn_def with_state_def fun_eq_iff split: prod.split xres.split)
  show "keeps (x86_lift_push_decoded al inst)"
    unfolding x86_lift_push_decoded_def x86_binary_def x86_unary_def x86_int_to_addr_def store
    by (intro keeps_intros memory_frame.keeps_simple)
  show "keeps (x86_lift_pop_decoded al inst)"
    unfolding x86_lift_pop_decoded_def x86_binary_def x86_unary_def x86_int_to_addr_def by (intro keeps_intros)
qed

lemma keeps_plain [keeps_intros]: "keeps (x86_lift_plain al inst pc)"
  by (simp add: x86_lift_plain_def keeps_intros split: xair_x86_mnemonic.split)

lemma keeps_unsupported_exit [keeps_intros]: "keeps (xbind (x86_finish_unsupported al a opc) (\<lambda>_. xreturn d))"
  by (intro keeps_intros)

lemma keeps_or_unsupported [keeps_intros]:
  assumes "keeps f" "\<And>a. keeps (k a)"
  shows "keeps (or_unsupported al a opc f k)"
proof (rule keepsI)
  fix s r s' assume s: "P s" "or_unsupported al a opc f k s = (r, s')" "\<And>e. r = Err e \<Longrightarrow> e \<in> E"
  obtain r1 s1 where f: "f s = (r1, s1)" by fastforce
  show "P s'"
  proof (cases r1)
    case (Ok v)
    then have "P s1" "k v s1 = (r, s')" using s f keepsD [OF assms(1) s(1) f] by (auto simp: or_unsupported_def)
    then show ?thesis using keepsD [OF assms(2)] s(3) by blast
  next
    case (Err e)
    show ?thesis
    proof (cases "e = XAIR_ERR_UNSUPPORTED")
      case True
      then have "P s1" "xbind (x86_finish_unsupported al a opc) (\<lambda>_. xreturn False) s1 = (r, s')"
        using s f keepsD [OF assms(1) s(1) f] unsupported Err by (auto simp: or_unsupported_def)
      then show ?thesis by (rule keepsD [OF keeps_unsupported_exit _ _ s(3)])
    next
      case False
      then show ?thesis using s f keepsD [OF assms(1) s(1) f] Err by (auto simp: or_unsupported_def)
    qed
  qed
qed

lemma keeps_inst [keeps_intros]: "keeps (x86_lift_inst al inst a pc)"
proof -
  have jmp: "keeps (x86_lift_jmp al inst a pc)" unfolding x86_lift_jmp_def by (intro keeps_intros)
  have "keeps (x86_lift_jcc al inst a pc)" unfolding x86_lift_jcc_def
    by (intro keeps_intros) (auto intro!: keeps_intros)
  with jmp show ?thesis
    by (auto simp: x86_lift_inst_def split: xair_x86_mnemonic.split intro!: keeps_intros)
qed

lemma keeps_one [keeps_intros]: "keeps (x86_lift_one al)"
  by (rule keepsI)
    (auto simp: x86_lift_one_def Let_def split: option.splits prod.splits if_splits
      elim: keepsD [OF keeps_inst] keepsD [OF keeps_unsupported_exit])

lemma keeps_loop [keeps_intros]: "keeps (lift_loop al n)"
  by (induction n) (auto intro!: keeps_intros)

end

section \<open>Lifting is a sequence of builder calls\<close>

lemma add_param_built: "built m \<Longrightarrow> xair_block_add_param al b t nm m = (r, m') \<Longrightarrow> built m'"
  using built.call [where c = "Block_add_param b t nm"] by simp

lemma set_return_built:
  assumes "built m" "xair_set_return al b vs m = (r, m')"
  shows "built m'"
proof -
  have "run_call al (Set_return b vs) m = (fst (no_result (r, m')), m')"
    by (cases r) (simp_all add: assms(2) no_result_def)
  then show ?thesis by (rule built.call [OF assms(1)])
qed

text \<open>A store in the current memory is a builder call, followed by a change of the current memory.\<close>

lemma store_currentE:
  assumes "store_current al b memory addr data nm s = (r, s')"
  obtains (Ok) v m' where "xair_build_store al b memory addr data XAIR_ENDIAN_LE nm (ls_module s) = (Ok v, m')"
      "s' = s\<lparr>ls_module := m', ls_memory := v, ls_result := (ls_result s)\<lparr>lr_memory_out := v\<rparr>\<rparr>"
  | (Err) e m' where "xair_build_store al b memory addr data XAIR_ENDIAN_LE nm (ls_module s) = (Err e, m')" "s' = s\<lparr>ls_module := m'\<rparr>"
proof -
  obtain q m' where q: "xair_build_store al b memory addr data XAIR_ENDIAN_LE nm (ls_module s) = (q, m')" by fastforce
  show thesis
  proof (cases q)
    case (Ok v)
    then show thesis using assms q that(1) [of v m'] by (simp add: store_current_def xbind_def on_module_def x86_write_memory_def modify_def)
  next
    case (Err e)
    then show thesis using assms q that(2) [of e m'] by (simp add: store_current_def xbind_def on_module_def)
  qed
qed

lemma build_store_built: "built m \<Longrightarrow> xair_build_store al b x y z en nm m = (r, m') \<Longrightarrow> built m'"
  using built.call [where c = "Build_store b x y z en nm"] by simp

interpretation reach: lift_invariant "\<lambda>s. built (ls_module s)" UNIV
proof (unfold_locales, goal_cases)
  case (2 s c al r m')
  then show ?case by (auto intro: built.call)
next
  case (3 s al i r s')
  then show ?case using add_param_built
    by (auto simp: x86_ensure_reg_def on_module_def Let_def split: if_splits prod.splits xres.splits)
next
  case (5 s al b vs u m')
  then show ?case using set_return_built by auto
next
  case (6 s al r s')
  then show ?case using add_param_built
    by (auto simp: x86_ensure_memory_def on_module_def split: if_splits prod.splits xres.splits)
next
  case (7 s al b addr data nm r s')
  from 7(3) show ?case using 7(1) by (cases rule: store_currentE) (auto dest: build_store_built)
qed (simp_all add: lift_view_def)

text \<open>Lifting keeps a module built, also when it fails.\<close>

lemma lift_target_built: "built m \<Longrightarrow> lift_target al opts b m = (r, m') \<Longrightarrow> built m'"
  by (auto simp: lift_target_def split: option.splits intro: built.call [where c = "Block_create _"])

lemma lift_block_built:
  assumes "built m" "lift_x86_basic_block al img opts b emit m = (r, m')"
  shows "built m'"
proof -
  obtain r1 m1 where t: "lift_target al opts b m = (r1, m1)" by fastforce
  note m1 = lift_target_built [OF assms(1) t]
  show ?thesis
  proof (cases r1)
    case (Ok c)
    then obtain s0 n r2 s2 where "lift_loop al n s0 = (r2, s2)" "ls_module s0 = m1" "m' = ls_module s2"
      using assms(2) t by (auto simp: lift_x86_basic_block_def Let_def lift_state_init_def split: prod.splits xres.splits)
    then show ?thesis using reach.keepsD [OF reach.keeps_loop] m1 by (metis UNIV_I)
  qed (use assms(2) t m1 in \<open>simp add: lift_x86_basic_block_def\<close>)
qed

lemma lifts_built:
  assumes "built m"
  shows "xair_lift_basic_block al img opts m = (r, m') \<Longrightarrow> built m'"
    "xair_lift_block_body_into al img opts b m = (r, m') \<Longrightarrow> built m'"
  using assms lift_block_built
  by (fastforce simp: xair_lift_basic_block_def xair_lift_block_body_into_def split: if_splits)+

section \<open>The inputs of a lifted block\<close>

text \<open>The values a result names as inputs: the memory on entry and the registers on entry.\<close>

definition input_ids :: "xair_lift_result \<Rightarrow> xair_value_id set" where
  "input_ids r = (if lr_memory_in r = XAIR_INVALID_ID then {} else {lr_memory_in r}) \<union> snd ` set (lr_input_regs r)"

definition inputs_typed :: "nat \<Rightarrow> nat \<Rightarrow> xair_module \<Rightarrow> xair_lift_result \<Rightarrow> bool" where
  "inputs_typed w space m r \<longleftrightarrow>
     (\<forall>v \<in> input_ids r. v < length (vals m) \<and> val_op (vals m ! v) = XAIR_INVALID_ID) \<and>
     (\<forall>x \<in> set (lr_input_regs r). val_type (vals m ! snd x) = xair_type_i w) \<and>
     (lr_memory_in r \<noteq> XAIR_INVALID_ID \<longrightarrow> val_type (vals m ! lr_memory_in r) = xair_type_mem space w)"

definition inputs_ok :: "nat \<Rightarrow> nat \<Rightarrow> xair_block_id \<Rightarrow> x86_lift_state \<Rightarrow> bool" where
  "inputs_ok w space b s \<longleftrightarrow> built (ls_module s) \<and> \<not> frozen (ls_module s) \<and> ls_block s = b \<and> lr_block (ls_result s) = b \<and> ls_block s < length (blocks (ls_module s)) \<and>
     set (params (blocks (ls_module s) ! ls_block s)) = input_ids (ls_result s) \<and>
     inputs_typed w space (ls_module s) (ls_result s) \<and> ls_reg_bits s = w \<and> ls_addr_bits s = w \<and> ls_memory_space s = space \<and>
     (\<not> ls_has_memory s \<longrightarrow> lr_memory_in (ls_result s) = XAIR_INVALID_ID)"

text \<open>Operations and terminators leave the parameters of every block and the values there are.\<close>

definition keeps_params :: "xair_module \<Rightarrow> xair_module \<Rightarrow> bool" where
  "keeps_params m m' \<longleftrightarrow> map params (blocks m') = map params (blocks m) \<and> frozen m' = frozen m \<and>
     (\<exists>vs. vals m' = vals m @ vs)"

lemma op_call_params:
  assumes "module_inv m" "op_call c" "run_call al c m = (r, m')"
  shows "keeps_params m m'"
  using assms(2,3)
proof (rule op_call_induct)
  show "keeps_params m m" by (simp add: keeps_params_def)
  fix b oc t srcs im en nm r m' assume a: "add_op al b oc t srcs im en nm m = (r, m')" "\<forall>s\<in>set srcs. s < length (vals m)"
  from a(1) assms(1) a(2) show "keeps_params m m'"
  proof (cases rule: add_op_cases)
    case (fresh s tab c c' c'')
    then show ?thesis
      by (auto simp: keeps_params_def numbered_def op_added_def value_number_insert_def nth_list_update intro!: nth_equalityI)
  qed (auto simp: keeps_params_def content_eq_def)
qed

lemma set_return_params:
  assumes "xair_set_return al b vs m = (r, m')"
  shows "keeps_params m m'"
proof -
  obtain r1 m1 where a: "append_term_args al vs m = (r1, m1)" by fastforce
  then have "blocks m1 = blocks m \<and> vals m1 = vals m \<and> frozen m1 = frozen m" by (cases rule: append_term_args_cases) auto
  moreover have "map params ((blocks m)[b := (blocks m ! b)\<lparr>blk_term := t\<rparr>]) = map params (blocks m)" for t
    by (metis list_update_id map_update xair_block_rec.simps(2) xair_block_rec.surjective xair_block_rec.update_convs(6))
  ultimately show ?thesis using assms a
    by (auto simp: keeps_params_def xair_set_return_def xbind_def set_term_def split: if_splits xres.splits)
qed

lemma inputs_typed_append:
  assumes "inputs_typed w space m r" "vals m' = vals m @ vs"
  shows "inputs_typed w space m' r"
proof -
  have "vals m' ! v = vals m ! v" "v < length (vals m')" if "v \<in> input_ids r" for v
    using assms that by (auto simp: inputs_typed_def nth_append)
  moreover have "x \<in> set (lr_input_regs r) \<Longrightarrow> snd x \<in> input_ids r" "lr_memory_in r \<noteq> XAIR_INVALID_ID \<Longrightarrow> lr_memory_in r \<in> input_ids r" for x
    by (auto simp: input_ids_def)
  ultimately show ?thesis using assms(1) by (simp add: inputs_typed_def)
qed

lemma inputs_ok_params:
  assumes "inputs_ok w space b s" "keeps_params (ls_module s) m'" "built m'"
  shows "inputs_ok w space b (s\<lparr>ls_module := m'\<rparr>)"
proof -
  obtain vs where vs: "vals m' = vals (ls_module s) @ vs" using assms(2) by (auto simp: keeps_params_def)
  have len: "length (blocks m') = length (blocks (ls_module s))" using assms(2) by (metis keeps_params_def length_map)
  have b: "ls_block s < length (blocks (ls_module s))" using assms(1) by (auto simp: inputs_ok_def)
  then have "params (blocks m' ! ls_block s) = map params (blocks m') ! ls_block s" by (simp add: len)
  also have "\<dots> = params (blocks (ls_module s) ! ls_block s)" using assms(2) b by (simp add: keeps_params_def)
  finally have "params (blocks m' ! ls_block s) = params (blocks (ls_module s) ! ls_block s)" .
  moreover have "inputs_typed w space m' (ls_result s)"
    using assms(1) inputs_typed_append [OF _ vs] by (simp add: inputs_ok_def)
  ultimately show ?thesis using assms len by (auto simp: inputs_ok_def keeps_params_def)
qed

lemma add_param_inputs:
  assumes "inputs_ok w space b s" "xair_block_add_param al (ls_block s) t nm (ls_module s) = (Ok v, m')"
  shows "set (params (blocks m' ! ls_block s)) = insert v (input_ids (ls_result s))" "inputs_typed w space m' (ls_result s)"
    "length (blocks m') = length (blocks (ls_module s))" "v < length (vals m')" "val_type (vals m' ! v) = t"
    "val_op (vals m' ! v) = XAIR_INVALID_ID" "built m'" "v \<noteq> XAIR_INVALID_ID" "\<not> frozen m'"
proof -
  obtain c c' where ok: "v = length (vals (ls_module s))" "m' = param_added c c' (ls_block s) t nm (ls_module s)"
    "length (vals (ls_module s)) < UINT32_MAX"
    using assms(2) by (cases rule: xair_block_add_param_cases) auto
  have inp: "set (params (blocks (ls_module s) ! ls_block s)) = input_ids (ls_result s)" "inputs_typed w space (ls_module s) (ls_result s)"
    "ls_block s < length (blocks (ls_module s))" "\<not> frozen (ls_module s)"
    using assms(1) by (auto simp: inputs_ok_def)
  then show "set (params (blocks m' ! ls_block s)) = insert v (input_ids (ls_result s))"
    "length (blocks m') = length (blocks (ls_module s))" "v < length (vals m')" "val_type (vals m' ! v) = t"
    "val_op (vals m' ! v) = XAIR_INVALID_ID" "v \<noteq> XAIR_INVALID_ID" "\<not> frozen m'"
    using ok by (auto simp: param_added_def)
  show "inputs_typed w space m' (ls_result s)"
    by (rule inputs_typed_append [OF inp(2)]) (simp add: ok param_added_def)
  show "built m'" using assms add_param_built by (auto simp: inputs_ok_def)
qed

text \<open>A new parameter is listed as a register or as the memory.\<close>

lemma inputs_ok_reg:
  assumes "inputs_ok w space b s" "xair_block_add_param al (ls_block s) (xair_type_i w) nm (ls_module s) = (Ok v, m')"
  shows "inputs_ok w space b (s\<lparr>ls_module := m', ls_regs := rs,
    ls_result := (ls_result s)\<lparr>lr_input_regs := lr_input_regs (ls_result s) @ [(i, v)]\<rparr>\<rparr>)"
  using assms(1) add_param_inputs [OF assms]
  by (auto simp: inputs_ok_def inputs_typed_def input_ids_def)

lemma inputs_ok_memory:
  assumes "inputs_ok w space b s" "xair_block_add_param al (ls_block s) (xair_type_mem space w) nm (ls_module s) = (Ok v, m')"
    "\<not> ls_has_memory s"
  shows "inputs_ok w space b (s\<lparr>ls_module := m', ls_memory := v, ls_has_memory := True,
    ls_result := (ls_result s)\<lparr>lr_memory_in := v\<rparr>\<rparr>)"
  using assms(1,3) add_param_inputs [OF assms(1,2)]
  by (auto simp: inputs_ok_def inputs_typed_def input_ids_def)

lemma add_param_fail_inputs:
  assumes "inputs_ok w space b s" "xair_block_add_param al c t nm (ls_module s) = (Err e, m')"
  shows "inputs_ok w space b (s\<lparr>ls_module := m'\<rparr>)"
proof -
  have "keeps_params (ls_module s) m'"
    using assms(2) by (cases rule: xair_block_add_param_cases) (auto simp: keeps_params_def)
  moreover have "built m'" using assms add_param_built by (auto simp: inputs_ok_def)
  ultimately show ?thesis using inputs_ok_params assms(1) by blast
qed

lemma inputs_ok_memory_out [simp]:
  "inputs_ok w space b (s\<lparr>ls_module := m', ls_memory := v, ls_result := (ls_result s)\<lparr>lr_memory_out := x\<rparr>\<rparr>) \<longleftrightarrow>
    inputs_ok w space b (s\<lparr>ls_module := m'\<rparr>)"
  "inputs_ok w space b (s\<lparr>ls_result := (ls_result s)\<lparr>lr_memory_out := x\<rparr>\<rparr>) \<longleftrightarrow> inputs_ok w space b s"
  by (simp_all add: inputs_ok_def inputs_typed_def input_ids_def)

lemma inputs_ok_call:
  assumes "inputs_ok w space b s" "op_call c" "run_call al c (ls_module s) = (r, m')"
  shows "inputs_ok w space b (s\<lparr>ls_module := m'\<rparr>)"
proof -
  have "module_inv (ls_module s)" "built m'" using assms by (auto simp: inputs_ok_def intro: built_module_inv built.call)
  with assms op_call_params show ?thesis by (intro inputs_ok_params) auto
qed

interpretation inputs: lift_invariant "inputs_ok w space b" "{XAIR_ERR_UNSUPPORTED}" for w space b
proof (unfold_locales, goal_cases)
  case (2 s c al r m')
  then show ?case by (intro inputs_ok_call)
next
  case (3 s al i r s')
  have "x86_reg_type s = xair_type_i w" using 3(1) by (simp add: inputs_ok_def x86_reg_type_def)
  then show ?case using 3 inputs_ok_reg [OF 3(1)] add_param_fail_inputs [OF 3(1)]
    by (auto simp: x86_ensure_reg_def on_module_def Let_def split: if_splits prod.splits xres.splits)
next
  case (4 s s')
  then have "input_ids (ls_result s') = input_ids (ls_result s)"
    "inputs_typed w space (ls_module s) (ls_result s') = inputs_typed w space (ls_module s) (ls_result s)"
    by (simp_all add: lift_view_def inputs_typed_def input_ids_def)
  with 4 show ?case by (auto simp: lift_view_def inputs_ok_def)
next
  case (5 s al c vs u m')
  then have "built m'" using set_return_built by (auto simp: inputs_ok_def)
  with 5 set_return_params show ?case by (intro inputs_ok_params) auto
next
  case (6 s al r s')
  then have "ls_memory_space s = space" "ls_addr_bits s = w" by (auto simp: inputs_ok_def)
  then show ?case using 6 inputs_ok_memory [OF 6(1)] add_param_fail_inputs [OF 6(1)]
    by (auto simp: x86_ensure_memory_def on_module_def split: if_splits prod.splits xres.splits)
next
  case (7 s al c addr data nm r s')
  from 7(3) show ?case
    using inputs_ok_call [OF 7(1), of "Build_store c (ls_memory s) addr data XAIR_ENDIAN_LE nm" al]
    by (cases rule: store_currentE) (auto simp: op_call_def)
qed simp_all

lemma lift_x86_inputs:
  assumes target: "lift_target al opts existing m = (Ok b, m1)" and m1: "built m1" "b < length (blocks m1)" "params (blocks m1 ! b) = []" "\<not> frozen m1"
    and run: "lift_x86_basic_block al img opts existing emit m = (Ok res, m')"
  defines "w \<equiv> if opt_arch opts = XAIR_ARCH_X86_64 then 64 else 32"
  shows "lr_block res = b \<and> b < length (blocks m') \<and> set (params (blocks m' ! b)) = input_ids res \<and>
    inputs_typed w (opt_memory_space opts) m' res \<and> \<not> frozen m'"
proof -
  obtain n u s' r where loop: "lift_loop al n (lift_state_init m1 img opts emit b r) = (Ok u, s')"
    and res: "res = ls_result s'" "m' = ls_module s'"
    and r: "lr_block r = b" "lr_input_regs r = []" "lr_memory_in r = XAIR_INVALID_ID"
    using run by (auto simp: lift_x86_basic_block_def target Let_def lift_result_init_def split: prod.splits xres.splits)
  have "inputs_ok w (opt_memory_space opts) b (lift_state_init m1 img opts emit b r)"
    using m1 r by (simp add: inputs_ok_def lift_state_init_def inputs_typed_def input_ids_def w_def)
  from inputs.keepsD [OF inputs.keeps_loop this loop] show ?thesis by (auto simp: inputs_ok_def res)
qed

lemma lift_basic_blockE:
  assumes "xair_lift_basic_block al img opts m = (Ok res, m')"
  obtains b m1 nm where "lift_target al opts None m = (Ok b, m1)" "xair_block_create al nm m = (Ok b, m1)"
    "b < length (blocks m1)" "params (blocks m1 ! b) = []" "\<not> frozen m1" "lift_x86_basic_block al img opts None True m = (Ok res, m')"
proof -
  have run: "lift_x86_basic_block al img opts None True m = (Ok res, m')"
    using assms by (auto simp: xair_lift_basic_block_def split: if_splits)
  then obtain b m1 where t: "lift_target al opts None m = (Ok b, m1)"
    by (auto simp: lift_x86_basic_block_def split: prod.splits xres.splits)
  then obtain nm where c: "xair_block_create al nm m = (Ok b, m1)" by (auto simp: lift_target_def)
  have "b < length (blocks m1)" "params (blocks m1 ! b) = []" "\<not> frozen m1"
    using c by (auto simp: xair_block_create_def Let_def split: if_splits xres.splits)
  with that t c run show thesis by blast
qed

lemma lift_inputs:
  assumes m: "built m" and run: "xair_lift_basic_block al img opts m = (Ok res, m')"
  defines "w \<equiv> if opt_arch opts = XAIR_ARCH_X86_64 then 64 else 32"
  shows "lr_block res < length (blocks m') \<and> set (params (blocks m' ! lr_block res)) = input_ids res \<and>
    inputs_typed w (opt_memory_space opts) m' res \<and> \<not> frozen m'"
  using run
proof (cases rule: lift_basic_blockE)
  case (1 b m1 nm)
  with lift_x86_inputs [OF 1(1) lift_target_built [OF m 1(1)] 1(3-6)] show ?thesis by (auto simp: w_def)
qed

end
