(* ===== verification/Xair_Lift_Sound.thy ===== *)
theory Xair_Lift_Sound
  imports Xair_Lift_Keeps Xair_Grow
begin

text \<open>
  What the x86 front end does to a module. Lifting an instruction keeps the values of the registers, of memory and of the zero flag available
  in the block with their types, so a block lifted into a module that verifies gives a module that verifies. The fixed
  arrays of the result never overflow.
\<close>

section \<open>Lifted blocks are well-typed\<close>

definition mem_type :: "x86_lift_state \<Rightarrow> xair_type" where
  "mem_type s = xair_type_mem (ls_memory_space s) (ls_addr_bits s)"

definition has_ty :: "x86_lift_state \<Rightarrow> xair_value_id \<Rightarrow> xair_type \<Rightarrow> bool" where
  "has_ty s v t \<longleftrightarrow> typed (ls_module s) (ls_block s) v t"

definition lift_inv :: "x86_lift_state \<Rightarrow> bool" where
  "lift_inv s \<longleftrightarrow> body_inv (ls_module s) (ls_block s) \<and> ls_addr_bits s = ls_reg_bits s \<and> ls_reg_bits s \<in> {32, 64} \<and>
     length (ls_regs s) = 16 \<and> length (ls_written_regs s) = 16 \<and>
     (\<forall>r < 16. ls_regs s ! r \<noteq> XAIR_INVALID_ID \<longrightarrow> has_ty s (ls_regs s ! r) (x86_reg_type s)) \<and>
     (\<forall>r < 16. ls_written_regs s ! r \<longrightarrow> ls_regs s ! r \<noteq> XAIR_INVALID_ID) \<and>
     (ls_has_memory s \<longrightarrow> has_ty s (ls_memory s) (mem_type s)) \<and>
     (ls_has_memory s \<longleftrightarrow> lr_memory_in (ls_result s) \<noteq> XAIR_INVALID_ID) \<and>
     (ls_has_zf s \<longrightarrow> has_ty s (ls_zf s) (xair_type_i 1)) \<and>
     distinct (map fst (lr_input_regs (ls_result s))) \<and>
     (\<forall>r \<in> set (map fst (lr_input_regs (ls_result s))). r < 16 \<and> ls_regs s ! r \<noteq> XAIR_INVALID_ID)"

text \<open>The part of the state that lifting never changes, and the growth of the block.\<close>

definition follows :: "x86_lift_state \<Rightarrow> x86_lift_state \<Rightarrow> bool" where
  "follows s s' \<longleftrightarrow> grows (ls_block s) (ls_module s) (ls_module s') \<and> ls_block s' = ls_block s \<and>
     ls_reg_bits s' = ls_reg_bits s \<and> ls_addr_bits s' = ls_addr_bits s \<and> ls_memory_space s' = ls_memory_space s \<and>
     ls_stack_bytes s' = ls_stack_bytes s \<and> ls_emit_return_terminator s' = ls_emit_return_terminator s \<and>
     lr_return_values (ls_result s') = lr_return_values (ls_result s) \<and>
     lr_output_regs (ls_result s') = lr_output_regs (ls_result s) \<and> lr_end_kind (ls_result s') = lr_end_kind (ls_result s) \<and>
     ls_image s' = ls_image s \<and> ls_decoder s' = ls_decoder s \<and> ls_arch s' = ls_arch s"

lemma follows_refl [simp]: "follows s s"
  by (simp add: follows_def)

lemma follows_trans: "follows s s' \<Longrightarrow> follows s' s'' \<Longrightarrow> follows s s''"
  by (auto simp: follows_def intro: grows_trans)

lemma has_ty_follows: "lift_inv s \<Longrightarrow> follows s s' \<Longrightarrow> has_ty s v t \<Longrightarrow> has_ty s' v t"
  unfolding has_ty_def follows_def lift_inv_def body_inv_def by (metis typed_grows)

lemma types_follow:
  "follows s s' \<Longrightarrow> x86_reg_type s' = x86_reg_type s" "follows s s' \<Longrightarrow> x86_addr_type s' = x86_addr_type s"
  "follows s s' \<Longrightarrow> mem_type s' = mem_type s"
  by (simp_all add: follows_def x86_reg_type_def x86_addr_type_def mem_type_def)

lemma has_ty_valid_id: "lift_inv s \<Longrightarrow> has_ty s v t \<Longrightarrow> v \<noteq> XAIR_INVALID_ID"
  by (auto simp: lift_inv_def body_inv_def module_inv_def wf_module_def has_ty_def dest!: typed_valid)

text \<open>An operation that keeps the invariant, with a condition on its result.\<close>

definition lifts :: "'a lift_op \<Rightarrow> x86_lift_state \<Rightarrow> ('a \<Rightarrow> x86_lift_state \<Rightarrow> bool) \<Rightarrow> bool" where
  "lifts f s Q \<longleftrightarrow> (lift_inv s \<longrightarrow> (case f s of
      (Ok a, s') \<Rightarrow> lift_inv s' \<and> follows s s' \<and> Q a s'
    | (Err e, s') \<Rightarrow> e = XAIR_ERR_UNSUPPORTED \<longrightarrow> lift_inv s' \<and> follows s s'))"

lemma lifts_bind:
  assumes "lifts f s P" "\<And>a s'. lift_inv s \<Longrightarrow> lift_inv s' \<Longrightarrow> follows s s' \<Longrightarrow> P a s' \<Longrightarrow> lifts (g a) s' Q"
  shows "lifts (xbind f g) s Q"
proof -
  obtain r s1 where f: "f s = (r, s1)" by fastforce
  show ?thesis
  proof (cases r)
    case (Ok a)
    obtain r2 s2 where g: "g a s1 = (r2, s2)" by fastforce
    show ?thesis using assms(1) assms(2) [of s1 a] Ok f g follows_trans [of s s1 s2]
      by (auto simp: lifts_def xbind_def split: xres.splits)
  qed (use assms(1) f in \<open>auto simp: lifts_def xbind_def\<close>)
qed

lemma lifts_return: "Q a s \<Longrightarrow> lifts (xreturn a) s Q"
  by (simp add: lifts_def xreturn_def)

lemma lifts_fail: "lifts (xfail e) s Q"
  by (simp add: lifts_def xfail_def)

lemma lifts_with_state: "lifts (f s) s Q \<Longrightarrow> lifts (with_state f) s Q"
  by (simp add: lifts_def with_state_def)

lemma lifts_if: "(c \<Longrightarrow> lifts f s Q) \<Longrightarrow> (\<not> c \<Longrightarrow> lifts g s Q) \<Longrightarrow> lifts (if c then f else g) s Q"
  by simp

lemma lifts_weaken: "lifts f s P \<Longrightarrow> (\<And>a s'. lift_inv s' \<Longrightarrow> P a s' \<Longrightarrow> Q a s') \<Longrightarrow> lifts f s Q"
  by (auto simp: lifts_def split: prod.splits xres.splits)

text \<open>Builder calls never report an unsupported operation.\<close>

lemma add_value_Err: "add_value al b t nm m = (Err e, m') \<Longrightarrow> e \<noteq> XAIR_ERR_UNSUPPORTED"
  by (auto simp: add_value_def Let_def split: if_splits xres.splits dest: grow_array_Err)

lemma add_param_Err: "xair_block_add_param al b t nm m = (Err e, m') \<Longrightarrow> e \<noteq> XAIR_ERR_UNSUPPORTED"
  by (auto simp: xair_block_add_param_def append_param_def Let_def split: if_splits prod.splits xres.splits
      dest: grow_array_Err add_value_Err)

lemma prepare_Err: "value_number_prepare_insert al m = (Err e, m') \<Longrightarrow> e = XAIR_ERR_OOM"
  by (auto simp: value_number_prepare_insert_def value_number_grow_def Let_def split: if_splits prod.splits)

lemma append_op_Err: "append_op al b i m = (Err e, m') \<Longrightarrow> e = XAIR_ERR_OOM"
  by (auto simp: append_op_def Let_def split: xres.splits dest: grow_array_Err)

lemma add_fresh_op_Err:
  assumes "add_fresh_op al k h nm m = (Err e, m')"
  shows "e \<noteq> XAIR_ERR_UNSUPPORTED"
proof -
  obtain r2 m2 where 2: "value_number_prepare_insert al m = (r2, m2)" by fastforce
  obtain r3 m3 where 3: "add_value al (k_block k) (k_type k) nm m2 = (r3, m3)" by fastforce
  show ?thesis using assms prepare_Err [of al m] add_value_Err [of al "k_block k" "k_type k" nm m2]
    unfolding add_fresh_op_def 2 3 Let_def
    by (cases r2; cases r3) (auto split: xres.splits prod.splits dest: grow_array_Err append_op_Err simp: 2 3)
qed

lemma add_op_Err: "add_op al b oc t srcs im en nm m = (Err e, m') \<Longrightarrow> e \<noteq> XAIR_ERR_UNSUPPORTED"
  by (auto simp: add_op_def Let_def split: if_splits prod.splits option.splits dest: add_fresh_op_Err)

lemma lift_inv_grow:
  assumes "lift_inv s" "yields (ls_block s) (ls_module s) m' v t"
  shows "lift_inv (s\<lparr>ls_module := m'\<rparr>) \<and> follows s (s\<lparr>ls_module := m'\<rparr>) \<and> has_ty (s\<lparr>ls_module := m'\<rparr>) v t"
proof -
  let ?s = "s\<lparr>ls_module := m'\<rparr>"
  have f: "follows s ?s" using assms(2) by (simp add: follows_def yields_def)
  have ty: "has_ty s w u \<Longrightarrow> has_ty ?s w u" for w u by (rule has_ty_follows [OF assms(1) f])
  have "body_inv (ls_module ?s) (ls_block ?s)" "has_ty ?s v t" using assms(2) by (simp_all add: yields_def has_ty_def)
  then show ?thesis using assms(1) f ty types_follow [OF f] by (auto simp: lift_inv_def)
qed

lemma lifts_module:
  assumes "\<And>v m'. body_inv (ls_module s) (ls_block s) \<Longrightarrow> f (ls_module s) = (Ok v, m') \<Longrightarrow>
      yields (ls_block s) (ls_module s) m' v t"
    and "\<And>e m'. f (ls_module s) = (Err e, m') \<Longrightarrow> e \<noteq> XAIR_ERR_UNSUPPORTED"
  shows "lifts (on_module f) s (\<lambda>v s'. has_ty s' v t)"
proof (cases "f (ls_module s)")
  case (Pair r m')
  show ?thesis
  proof (cases r)
    case (Ok v)
    then show ?thesis using Pair assms(1) [of v m'] lift_inv_grow [of s m' v t]
      by (auto simp: lifts_def on_module_def lift_inv_def [of s])
  next
    case (Err e)
    then show ?thesis using Pair assms(2) [of e m'] by (auto simp: lifts_def on_module_def)
  qed
qed

lemma value_types [simp]:
  "is_value_type (xair_type_i 1)" "is_value_type (xair_type_flags 6)"
  "n \<in> {32, 64} \<Longrightarrow> is_value_type (xair_type_i n)" "n \<in> {32, 64} \<Longrightarrow> is_value_type (xair_type_addr n)"
  "n \<in> {32, 64} \<Longrightarrow> is_value_type (xair_type_mem k n)"
  by (auto simp: is_value_type_def xair_type_is_valid_def xair_type_i_def xair_type_flags_def xair_type_addr_def
      xair_type_mem_def valid_int_bits_def valid_addr_bits_def)

lemma state_types:
  assumes "lift_inv s"
  shows "is_value_type (x86_reg_type s)" "is_value_type (x86_addr_type s)" "is_value_type (mem_type s)"
  using assms by (simp_all add: lift_inv_def x86_reg_type_def x86_addr_type_def mem_type_def)

lemma lifts_const: "is_value_type t \<Longrightarrow> lifts (x86_build_const_u64 al t w nm) s (\<lambda>v s'. has_ty s' v t)"
  unfolding x86_build_const_u64_def
  by (intro lifts_with_state lifts_module build_yields(2))
    (auto simp: xair_build_const_u64_def split: if_splits dest: add_op_Err)

lemma lifts_unary:
  assumes "has_ty s x tx" "op_sig oc [tx] t" "is_value_type t"
  shows "lifts (x86_unary al oc t x nm) s (\<lambda>v s'. has_ty s' v t)"
  unfolding x86_unary_def using assms
  by (intro lifts_with_state lifts_module build_yields(3) [where tx = tx])
    (auto simp: xair_build_unary_def has_ty_def split: if_splits dest: add_op_Err)

lemma lifts_binary:
  assumes "has_ty s x tx" "has_ty s y ty" "op_sig oc [tx, ty] t" "is_value_type t"
  shows "lifts (x86_binary al oc t x y nm) s (\<lambda>v s'. has_ty s' v t)"
  unfolding x86_binary_def using assms
  by (intro lifts_with_state lifts_module build_yields(4) [where tx = tx and ty = ty])
    (auto simp: xair_build_binary_def has_ty_def split: if_splits dest: add_op_Err)

text \<open>Assignments to the state.\<close>

lemma has_ty_update [simp]:
  "has_ty (s\<lparr>ls_regs := rs\<rparr>) = has_ty s" "has_ty (s\<lparr>ls_written_regs := ws\<rparr>) = has_ty s"
  "has_ty (s\<lparr>ls_result := res\<rparr>) = has_ty s" "has_ty (s\<lparr>ls_memory := v\<rparr>) = has_ty s"
  "has_ty (s\<lparr>ls_has_memory := b\<rparr>) = has_ty s" "has_ty (s\<lparr>ls_zf := v\<rparr>) = has_ty s" "has_ty (s\<lparr>ls_has_zf := b\<rparr>) = has_ty s"
  "has_ty (s\<lparr>ls_pc := pc\<rparr>) = has_ty s" "has_ty (s\<lparr>ls_instructions := n\<rparr>) = has_ty s"
  by (simp_all add: fun_eq_iff has_ty_def)

lemma type_update [simp]:
  "x86_reg_type (s\<lparr>ls_regs := rs\<rparr>) = x86_reg_type s" "x86_reg_type (s\<lparr>ls_written_regs := ws\<rparr>) = x86_reg_type s"
  "x86_reg_type (s\<lparr>ls_result := res\<rparr>) = x86_reg_type s" "x86_reg_type (s\<lparr>ls_memory := v\<rparr>) = x86_reg_type s"
  "x86_reg_type (s\<lparr>ls_has_memory := b\<rparr>) = x86_reg_type s" "x86_reg_type (s\<lparr>ls_zf := v\<rparr>) = x86_reg_type s"
  "x86_reg_type (s\<lparr>ls_has_zf := b\<rparr>) = x86_reg_type s" "x86_reg_type (s\<lparr>ls_pc := pc\<rparr>) = x86_reg_type s"
  "x86_reg_type (s\<lparr>ls_instructions := n\<rparr>) = x86_reg_type s"
  "mem_type (s\<lparr>ls_regs := rs\<rparr>) = mem_type s" "mem_type (s\<lparr>ls_written_regs := ws\<rparr>) = mem_type s"
  "mem_type (s\<lparr>ls_result := res\<rparr>) = mem_type s" "mem_type (s\<lparr>ls_memory := v\<rparr>) = mem_type s"
  "mem_type (s\<lparr>ls_has_memory := b\<rparr>) = mem_type s" "mem_type (s\<lparr>ls_zf := v\<rparr>) = mem_type s"
  "mem_type (s\<lparr>ls_has_zf := b\<rparr>) = mem_type s" "mem_type (s\<lparr>ls_pc := pc\<rparr>) = mem_type s"
  "mem_type (s\<lparr>ls_instructions := n\<rparr>) = mem_type s"
  by (simp_all add: x86_reg_type_def mem_type_def)

lemma lift_inv_reg:
  assumes inv: "lift_inv s" and v: "has_ty s v (x86_reg_type s)"
  shows "lift_inv (s\<lparr>ls_regs := (ls_regs s)[r := v]\<rparr>)"
    "lift_inv (s\<lparr>ls_regs := (ls_regs s)[r := v], ls_written_regs := (ls_written_regs s)[r := True]\<rparr>)"
proof -
  have "length (ls_regs s) = 16" "length (ls_written_regs s) = 16" using inv by (simp_all add: lift_inv_def)
  then have nth: "(ls_regs s)[r := v] ! a = (if a = r \<and> r < 16 then v else ls_regs s ! a)"
    "(ls_written_regs s)[r := True] ! a = (if a = r \<and> r < 16 then True else ls_written_regs s ! a)" for a
    by (cases "r < 16"; simp add: nth_list_update list_update_beyond)+
  show "lift_inv (s\<lparr>ls_regs := (ls_regs s)[r := v]\<rparr>)"
    "lift_inv (s\<lparr>ls_regs := (ls_regs s)[r := v], ls_written_regs := (ls_written_regs s)[r := True]\<rparr>)"
    using inv v has_ty_valid_id [OF inv v] by (simp_all add: lift_inv_def nth)
qed

lemma lift_inv_input:
  assumes inv: "lift_inv s" and r: "r < 16" "r \<notin> set (map fst (lr_input_regs (ls_result s)))"
    and v: "has_ty s v (x86_reg_type s)"
  shows "lift_inv (s\<lparr>ls_regs := (ls_regs s)[r := v],
    ls_result := (ls_result s)\<lparr>lr_input_regs := lr_input_regs (ls_result s) @ [(r, v)]\<rparr>\<rparr>)"
  using lift_inv_reg(1) [OF inv v, of r] r has_ty_valid_id [OF inv v] inv by (auto simp: lift_inv_def)

lemma lifts_ensure_reg: "lifts (x86_ensure_reg al r) s (\<lambda>v s'. has_ty s' v (x86_reg_type s))"
proof (cases "x86_reg_supported s r \<and> ls_regs s ! r = XAIR_INVALID_ID")
  case False
  then show ?thesis by (auto simp: lifts_def x86_ensure_reg_def lift_inv_def x86_reg_supported_def)
next
  case True
  then have r: "r < 16" by (simp add: x86_reg_supported_def)
  let ?f = "xair_block_add_param al (ls_block s) (x86_reg_type s) (x86_reg_name_for_state s r)"
  show ?thesis unfolding lifts_def
  proof
    assume inv: "lift_inv s"
    have "lifts (on_module ?f) s (\<lambda>v s'. has_ty s' v (x86_reg_type s))"
      by (intro lifts_module build_yields(1) state_types [OF inv]) (auto dest: add_param_Err)
    moreover obtain q s1 where q: "on_module ?f s = (q, s1)" by fastforce
    moreover have s1: "ls_regs s1 = ls_regs s" "ls_result s1 = ls_result s"
      using q by (auto simp: on_module_def split: prod.splits)
    have new: "r \<notin> set (map fst (lr_input_regs (ls_result s)))" using True inv by (auto simp: lift_inv_def)
    show "case x86_ensure_reg al r s of (Ok a, s') \<Rightarrow> lift_inv s' \<and> follows s s' \<and> has_ty s' a (x86_reg_type s)
        | (Err e, s') \<Rightarrow> e = XAIR_ERR_UNSUPPORTED \<longrightarrow> lift_inv s' \<and> follows s s'"
    proof (cases q)
      case (Ok v)
      with calculation inv have 1: "lift_inv s1" "follows s s1" "has_ty s1 v (x86_reg_type s)" by (auto simp: lifts_def)
      then have "has_ty s1 v (x86_reg_type s1)" by (simp add: types_follow)
      from lift_inv_input [OF 1(1) r _ this] new show ?thesis
        using True q Ok 1 by (simp add: x86_ensure_reg_def Let_def s1 follows_def)
    next
      case (Err e)
      with calculation inv True q show ?thesis by (auto simp: lifts_def x86_ensure_reg_def)
    qed
  qed
qed

lemma lifts_ensure_memory: "lifts (x86_ensure_memory al) s (\<lambda>v s'. has_ty s' v (mem_type s) \<and> ls_has_memory s')"
proof (cases "ls_has_memory s")
  case True
  then show ?thesis by (auto simp: lifts_def x86_ensure_memory_def lift_inv_def)
next
  case False
  let ?f = "xair_block_add_param al (ls_block s) (xair_type_mem (ls_memory_space s) (ls_addr_bits s)) ''mem''"
  show ?thesis unfolding lifts_def
  proof
    assume inv: "lift_inv s"
    have "lifts (on_module ?f) s (\<lambda>v s'. has_ty s' v (mem_type s))" unfolding mem_type_def
      by (intro lifts_module build_yields(1) state_types(3) [OF inv, unfolded mem_type_def]) (auto dest: add_param_Err)
    moreover obtain q s1 where q: "on_module ?f s = (q, s1)" by fastforce
    ultimately have q': "case q of Ok v \<Rightarrow> lift_inv s1 \<and> follows s s1 \<and> has_ty s1 v (mem_type s)
        | Err e \<Rightarrow> e = XAIR_ERR_UNSUPPORTED \<longrightarrow> lift_inv s1 \<and> follows s s1"
      using inv by (auto simp: lifts_def split: xres.splits)
    show "case x86_ensure_memory al s of
          (Ok a, s') \<Rightarrow> lift_inv s' \<and> follows s s' \<and> has_ty s' a (mem_type s) \<and> ls_has_memory s'
        | (Err e, s') \<Rightarrow> e = XAIR_ERR_UNSUPPORTED \<longrightarrow> lift_inv s' \<and> follows s s'"
    proof (cases q)
      case (Ok v)
      let ?s = "s1\<lparr>ls_memory := v, ls_has_memory := True, ls_result := (ls_result s1)\<lparr>lr_memory_in := v\<rparr>\<rparr>"
      have 1: "lift_inv s1" "follows s s1" "has_ty s1 v (mem_type s)" using q' Ok by auto
      have "lift_inv ?s" using 1 has_ty_valid_id [OF 1(1,3)] by (simp add: lift_inv_def types_follow(3))
      moreover have "follows s ?s" using 1(2) by (simp add: follows_def)
      ultimately show ?thesis using 1(3) False q Ok by (simp add: x86_ensure_memory_def)
    qed (use q q' False in \<open>simp add: x86_ensure_memory_def\<close>)
  qed
qed

text \<open>The rule for sequences: the types stay, and so do the typed values.\<close>

lemma liftsI: "(lift_inv s \<Longrightarrow> lifts f s Q) \<Longrightarrow> lifts f s Q"
  by (auto simp: lifts_def)

lemma lifts_step:
  assumes "lifts f s P"
    and "\<And>a s'. lift_inv s' \<Longrightarrow> P a s' \<Longrightarrow> (\<And>v t. has_ty s v t \<Longrightarrow> has_ty s' v t) \<Longrightarrow>
      x86_reg_type s' = x86_reg_type s \<Longrightarrow> x86_addr_type s' = x86_addr_type s \<Longrightarrow> mem_type s' = mem_type s \<Longrightarrow>
      ls_block s' = ls_block s \<Longrightarrow> lifts (g a) s' Q"
  shows "lifts (xbind f g) s Q"
proof (rule lifts_bind [OF assms(1)])
  fix a s' assume *: "lift_inv s" "lift_inv s'" "follows s s'" "P a s'"
  show "lifts (g a) s' Q"
    by (rule assms(2)) (use * types_follow [OF *(3)] has_ty_follows [OF *(1,3)] in \<open>auto simp: follows_def\<close>)
qed

lemma lifts_write_reg: "has_ty s v (x86_reg_type s) \<Longrightarrow> lifts (x86_write_reg r v) s (\<lambda>_ _. True)"
  using lift_inv_reg(2) by (auto simp: lifts_def x86_write_reg_def modify_def xfail_def follows_def)

lemma lifts_write_memory: "has_ty s v (mem_type s) \<Longrightarrow> lifts (x86_write_memory v) s (\<lambda>_ _. True)"
  by (simp add: lifts_def x86_write_memory_def modify_def follows_def lift_inv_def)

lemma i1_value_type [simp]: "is_value_type (xair_type_i (Suc 0))"
  using value_types(1) by simp

lemma reg_sigs:
  "op_sig XAIR_OP_FLAG_ZF [xair_type_flags 6] (xair_type_i 1)"
  "op_sig XAIR_OP_FLAGS_LOGIC [x86_reg_type s] (xair_type_flags 6)"
  "op_sig XAIR_OP_FLAGS_ADD [x86_reg_type s, x86_reg_type s] (xair_type_flags 6)"
  "op_sig XAIR_OP_FLAGS_SUB [x86_reg_type s, x86_reg_type s] (xair_type_flags 6)"
  "oc \<in> {XAIR_OP_ADD, XAIR_OP_SUB, XAIR_OP_MUL, XAIR_OP_AND, XAIR_OP_OR, XAIR_OP_XOR} \<Longrightarrow>
     op_sig oc [x86_reg_type s, x86_reg_type s] (x86_reg_type s)"
  "op_sig XAIR_OP_EQ [xair_type_i 1, xair_type_i 1] (xair_type_i 1)"
  by (auto simp: op_sig_simps x86_reg_type_def xair_type_i_def xair_type_flags_def is_int_def is_flags_def is_i1_def)

lemma address_sigs:
  assumes "lift_inv s"
  shows "op_sig XAIR_OP_INT_TO_ADDR [x86_reg_type s] (x86_addr_type s)"
    "op_sig XAIR_OP_ADDR_TO_INT [x86_addr_type s] (x86_reg_type s)"
    "op_sig XAIR_OP_ADDR_ADD [x86_addr_type s, x86_reg_type s] (x86_addr_type s)"
    "op_sig XAIR_OP_LOAD [mem_type s, x86_addr_type s] (x86_reg_type s)"
    "op_sig XAIR_OP_STORE [mem_type s, x86_addr_type s, x86_reg_type s] (mem_type s)"
proof -
  have "bits (x86_addr_type s) = bits (x86_reg_type s)" "bits (mem_type s) = bits (x86_reg_type s)"
      "is_int (x86_reg_type s)" "is_addr (x86_addr_type s)" "is_mem (mem_type s)" "\<not> is_mem (x86_reg_type s)"
    using assms by (simp_all add: lift_inv_def x86_reg_type_def x86_addr_type_def mem_type_def xair_type_i_def
        xair_type_addr_def xair_type_mem_def is_int_def is_addr_def is_mem_def)
  then show "op_sig XAIR_OP_INT_TO_ADDR [x86_reg_type s] (x86_addr_type s)"
    "op_sig XAIR_OP_ADDR_TO_INT [x86_addr_type s] (x86_reg_type s)"
    "op_sig XAIR_OP_ADDR_ADD [x86_addr_type s, x86_reg_type s] (x86_addr_type s)"
    "op_sig XAIR_OP_LOAD [mem_type s, x86_addr_type s] (x86_reg_type s)"
    "op_sig XAIR_OP_STORE [mem_type s, x86_addr_type s, x86_reg_type s] (mem_type s)"
    using state_types(1) [OF assms] by (simp_all add: op_sig_simps)
qed

lemma lifts_zf_flags: "has_ty s v (xair_type_flags 6) \<Longrightarrow> lifts (x86_set_zf_from_flags al v) s (\<lambda>_ _. True)"
  unfolding x86_set_zf_from_flags_def
  by (rule lifts_step [OF lifts_unary [OF _ reg_sigs(1)]])
    (simp_all add: lifts_def modify_def follows_def lift_inv_def)

lemma lifts_zf_value: "has_ty s v (x86_reg_type s) \<Longrightarrow> lifts (x86_set_zf_from_value al v) s (\<lambda>_ _. True)"
  unfolding x86_set_zf_from_value_def
  by (rule lifts_step [OF lifts_unary [OF _ reg_sigs(2)]]) (simp_all add: lifts_zf_flags)

text \<open>Operations on registers; \<open>t\<close> is the register type, read in this or in an earlier state.\<close>

lemma lifts_arith:
  assumes "has_ty s x t" "has_ty s y t" "x86_reg_type s = t"
    "oc \<in> {XAIR_OP_ADD, XAIR_OP_SUB, XAIR_OP_MUL, XAIR_OP_AND, XAIR_OP_OR, XAIR_OP_XOR}"
  shows "lifts (x86_binary al oc t x y nm) s (\<lambda>v s'. has_ty s' v t)"
  by (rule liftsI, rule lifts_binary [OF assms(1,2)]) (use assms reg_sigs(5) state_types(1) in auto)

lemma lifts_add_sub:
  assumes "has_ty s x (x86_reg_type s)" "has_ty s y (x86_reg_type s)" "oc \<in> {XAIR_OP_ADD, XAIR_OP_SUB}"
    "oc' \<in> {XAIR_OP_FLAGS_ADD, XAIR_OP_FLAGS_SUB}"
  shows "lifts (x86_lift_add_sub_values al oc oc' r x y) s (\<lambda>_ _. True)"
  unfolding x86_lift_add_sub_values_def using assms
  by (intro lifts_with_state lifts_step [OF lifts_arith]
      lifts_step [OF lifts_binary [where tx = "x86_reg_type s" and ty = "x86_reg_type s" and t = "xair_type_flags 6"]]
      lifts_step [OF lifts_zf_flags] lifts_write_reg) (auto simp: reg_sigs)

lemma lifts_cmp:
  assumes "has_ty s x (x86_reg_type s)" "has_ty s y (x86_reg_type s)"
  shows "lifts (x86_lift_cmp_values al x y) s (\<lambda>_ _. True)"
  unfolding x86_lift_cmp_values_def
  by (rule lifts_step [OF lifts_binary [OF assms reg_sigs(4)]]) (simp_all add: lifts_zf_flags)

lemma lifts_test:
  assumes "has_ty s x (x86_reg_type s)" "has_ty s y (x86_reg_type s)"
  shows "lifts (x86_lift_test_values al x y) s (\<lambda>_ _. True)"
  unfolding x86_lift_test_values_def using assms
  by (intro lifts_with_state lifts_step [OF lifts_arith] lifts_zf_value) auto

lemma lifts_logic:
  assumes "has_ty s x (x86_reg_type s)" "has_ty s y (x86_reg_type s)" "oc \<in> {XAIR_OP_AND, XAIR_OP_OR, XAIR_OP_XOR}"
  shows "lifts (x86_lift_logic_values al oc r x y) s (\<lambda>_ _. True)"
  unfolding x86_lift_logic_values_def using assms
  by (intro lifts_with_state lifts_step [OF lifts_arith] lifts_step [OF lifts_zf_value] lifts_write_reg) auto

text \<open>Addresses and memory accesses.\<close>

lemma lifts_int_to_addr:
  assumes "has_ty s v (x86_reg_type s)"
  shows "lifts (x86_int_to_addr al v) s (\<lambda>a s'. has_ty s' a (x86_addr_type s))"
  unfolding x86_int_to_addr_def
  by (rule liftsI, intro lifts_with_state lifts_unary [OF assms]) (simp_all add: address_sigs state_types)

lemma lifts_addr_to_int:
  assumes "has_ty s v (x86_addr_type s)"
  shows "lifts (x86_addr_to_int al v) s (\<lambda>a s'. has_ty s' a (x86_reg_type s))"
  unfolding x86_addr_to_int_def
  by (rule liftsI, intro lifts_with_state lifts_unary [OF assms]) (simp_all add: address_sigs state_types)

lemma lifts_addr_add:
  assumes "has_ty s a t" "has_ty s d (x86_reg_type s)" "x86_addr_type s = t"
  shows "lifts (x86_binary al XAIR_OP_ADDR_ADD t a d nm) s (\<lambda>v s'. has_ty s' v t)"
  by (rule liftsI, rule lifts_binary [OF assms(1,2)]) (use assms address_sigs(3) state_types(2) in auto)

lemma lifts_const_int: "lifts (x86_const_int al w nm) s (\<lambda>v s'. has_ty s' v (x86_reg_type s))"
  unfolding x86_const_int_def by (rule liftsI, intro lifts_with_state lifts_const) (simp add: state_types)

lemma lifts_addr_add_i64:
  assumes "has_ty s a (x86_addr_type s)"
  shows "lifts (x86_addr_add_i64 al a w nm) s (\<lambda>v s'. has_ty s' v (x86_addr_type s))"
  unfolding x86_addr_add_i64_def using assms
  by (intro lifts_with_state lifts_step [OF lifts_const_int] lifts_addr_add) auto

text \<open>An address that may still be missing.\<close>

definition addr_or_none :: "x86_lift_state \<Rightarrow> xair_value_id \<Rightarrow> xair_type \<Rightarrow> bool" where
  "addr_or_none s a t \<longleftrightarrow> a \<noteq> XAIR_INVALID_ID \<longrightarrow> has_ty s a t"

lemma lifts_base_address: "lifts (x86_base_address al mem) s (\<lambda>a s'. addr_or_none s' a (x86_addr_type s))"
  unfolding x86_base_address_def
  by (intro lifts_if lifts_step [OF lifts_ensure_reg] lifts_weaken [OF lifts_int_to_addr] lifts_return)
    (auto simp: addr_or_none_def)

lemma lifts_scaled_index: "lifts (x86_scaled_index al mem) s (\<lambda>v s'. has_ty s' v (x86_reg_type s))"
  unfolding x86_scaled_index_def
  by (intro lifts_if lifts_step [OF lifts_ensure_reg] lifts_step [OF lifts_const_int] lifts_with_state
      lifts_weaken [OF lifts_arith] lifts_return) auto

lemma lifts_index_address:
  assumes "addr_or_none s a (x86_addr_type s)"
  shows "lifts (x86_index_address al mem a) s (\<lambda>v s'. addr_or_none s' v (x86_addr_type s))"
  unfolding x86_index_address_def using assms
  by (intro lifts_if lifts_step [OF lifts_scaled_index] lifts_with_state lifts_weaken [OF lifts_int_to_addr]
      lifts_weaken [OF lifts_addr_add] lifts_return) (auto simp: addr_or_none_def)

lemma lifts_memory_address: "lifts (x86_build_memory_address al mem pc) s (\<lambda>v s'. has_ty s' v (x86_addr_type s))"
proof (rule liftsI)
  assume "lift_inv s"
  note addr = state_types(2) [OF this]
  show ?thesis unfolding x86_build_memory_address_def
  proof (intro lifts_with_state lifts_if lifts_const addr lifts_fail lifts_step [OF lifts_base_address])
    fix a s' assume "addr_or_none s' a (x86_addr_type s)" "x86_addr_type s' = x86_addr_type s"
    then show "lifts (xbind (x86_index_address al mem a) (\<lambda>addr.
        if addr = XAIR_INVALID_ID then x86_build_const_u64 al (x86_addr_type s) (displacement mem) ''addr''
        else if displacement mem \<noteq> 0 then x86_addr_add_i64 al addr (displacement mem) ''addr_disp'' else xreturn addr)) s'
      (\<lambda>v s'. has_ty s' v (x86_addr_type s))"
      by (intro lifts_step [OF lifts_index_address] lifts_if lifts_const addr lifts_weaken [OF lifts_addr_add_i64] lifts_return)
        (auto simp: addr_or_none_def)
  qed
qed

lemma lifts_load:
  assumes "has_ty s x (mem_type s)" "has_ty s y (x86_addr_type s)" "t = x86_reg_type s" "b = ls_block s"
  shows "lifts (on_module (xair_build_load al b t x y en nm)) s (\<lambda>v s'. has_ty s' v t)"
  using assms unfolding assms(3,4)
  by (intro liftsI [OF lifts_module] build_yields(5) [where tx = "mem_type s" and ty = "x86_addr_type s"])
    (auto simp: has_ty_def address_sigs state_types xair_build_load_def split: if_splits dest: add_op_Err)

lemma lifts_store:
  assumes "has_ty s x t" "t = mem_type s" "has_ty s y (x86_addr_type s)" "has_ty s z (x86_reg_type s)" "b = ls_block s"
  shows "lifts (on_module (xair_build_store al b x y z en nm)) s (\<lambda>v s'. has_ty s' v t)"
  using assms unfolding assms(5)
  by (intro liftsI [OF lifts_module] build_yields(6) [where ty = "x86_addr_type s" and tz = "x86_reg_type s"])
    (auto simp: has_ty_def address_sigs state_types xair_build_store_def split: if_splits dest: add_op_Err)

lemma lifts_mem_load: "lifts (x86_lift_mem_load al r mem pc) s (\<lambda>_ _. True)"
  unfolding x86_lift_mem_load_def
  by (intro lifts_step [OF lifts_ensure_memory] lifts_step [OF lifts_memory_address]
      lifts_step [OF lifts_with_state [OF lifts_load]] lifts_write_reg) auto

lemma lifts_mem_store: "has_ty s v (x86_reg_type s) \<Longrightarrow> lifts (x86_lift_mem_store al mem v pc) s (\<lambda>_ _. True)"
  unfolding x86_lift_mem_store_def
  by (intro lifts_step [OF lifts_ensure_memory] lifts_step [OF lifts_memory_address]
      lifts_step [OF lifts_with_state [OF lifts_store]] lifts_write_memory) auto

section \<open>Instructions keep the block well-typed\<close>

lemma lifts_condition: "lifts (x86_condition_from_zf al z) s (\<lambda>v s'. has_ty s' v (xair_type_i 1))"
proof (rule liftsI)
  assume "lift_inv s"
  then have zf: "ls_has_zf s \<Longrightarrow> has_ty s (ls_zf s) (xair_type_i 1)" by (simp add: lift_inv_def)
  show ?thesis unfolding x86_condition_from_zf_def
    by (intro lifts_with_state lifts_if lifts_fail lifts_return lifts_step [OF lifts_const]
        lifts_binary [where tx = "xair_type_i 1" and ty = "xair_type_i 1"]) (use zf reg_sigs(6) in simp_all)
qed

lemma lifts_operand: "lifts (x86_operand_value al inst i) s (\<lambda>v s'. has_ty s' v (x86_reg_type s))"
  unfolding x86_operand_value_def
  by (auto split: option.split intro: lifts_ensure_reg lifts_const_int lifts_fail)

lemma lifts_mov: "lifts (x86_lift_mov_decoded al inst pc) s (\<lambda>_ _. True)"
proof (rule liftsI)
  assume "lift_inv s"
  note ty = state_types(1) [OF this]
  have "lifts (with_state (\<lambda>s. xbind (x86_build_const_u64 al (x86_reg_type s) v (x86_reg_name_for_state s d))
      (x86_write_reg d))) s (\<lambda>_ _. True)" for v d
    by (intro lifts_with_state lifts_step [OF lifts_const [OF ty]] lifts_write_reg) simp
  moreover have "lifts (xbind (x86_ensure_reg al r) (x86_write_reg d)) s (\<lambda>_ _. True)" for r d
    by (intro lifts_step [OF lifts_ensure_reg] lifts_write_reg) simp
  moreover have "lifts (xbind (x86_ensure_reg al r) (\<lambda>v. x86_lift_mem_store al mem v pc)) s (\<lambda>_ _. True)" for r mem
    by (intro lifts_step [OF lifts_ensure_reg] lifts_mem_store) simp
  ultimately show ?thesis unfolding x86_lift_mov_decoded_def
    by (auto split: option.split intro: lifts_mem_load lifts_fail)
qed

lemma lifts_lea: "lifts (x86_lift_lea_decoded al inst pc) s (\<lambda>_ _. True)"
proof -
  have "lifts (xbind (x86_build_memory_address al mem pc) (\<lambda>a. xbind (x86_addr_to_int al a) (x86_write_reg d))) s
      (\<lambda>_ _. True)" for mem d
    by (intro lifts_step [OF lifts_memory_address] lifts_step [OF lifts_addr_to_int] lifts_write_reg) auto
  then show ?thesis unfolding x86_lift_lea_decoded_def by (auto split: option.split intro: lifts_fail)
qed

lemma lifts_alu: "lifts (x86_lift_alu_decoded al inst) s (\<lambda>_ _. True)"
proof (cases "x86_get_reg_operand inst 0")
  case (Some d)
  show ?thesis unfolding x86_lift_alu_decoded_def Some option.case
    by (intro lifts_step [OF lifts_ensure_reg] lifts_step [OF lifts_operand] lifts_if lifts_fail)
      (auto split: xair_x86_mnemonic.split intro: lifts_add_sub lifts_logic lifts_cmp lifts_test lifts_fail)
qed (simp add: x86_lift_alu_decoded_def lifts_fail)

lemma lifts_push: "lifts (x86_lift_push_decoded al inst) s (\<lambda>_ _. True)"
proof (cases "x86_get_reg_operand inst 0", goal_cases)
  case (2 r)
  show ?case
  proof (rule liftsI)
    assume "lift_inv s"
    note ty = state_types(1) [OF this]
    show ?thesis unfolding x86_lift_push_decoded_def 2 option.case
      by (intro lifts_with_state lifts_step [OF lifts_ensure_reg] lifts_step [OF lifts_const [OF ty]]
          lifts_step [OF lifts_arith] lifts_step [OF lifts_int_to_addr] lifts_step [OF lifts_ensure_memory]
          lifts_step [OF lifts_store] lifts_step [OF lifts_write_memory] lifts_write_reg) auto
  qed
qed (simp add: x86_lift_push_decoded_def lifts_fail)

lemma lifts_pop: "lifts (x86_lift_pop_decoded al inst) s (\<lambda>_ _. True)"
proof (cases "x86_get_reg_operand inst 0", goal_cases)
  case (2 r)
  show ?case
  proof (rule liftsI)
    assume "lift_inv s"
    note ty = state_types(1) [OF this]
    show ?thesis unfolding x86_lift_pop_decoded_def 2 option.case
      by (intro lifts_with_state lifts_step [OF lifts_ensure_reg] lifts_step [OF lifts_int_to_addr]
          lifts_step [OF lifts_ensure_memory] lifts_step [OF lifts_load] lifts_step [OF lifts_const [OF ty]]
          lifts_step [OF lifts_arith] lifts_step [OF lifts_write_reg] lifts_write_reg) auto
  qed
qed (simp add: x86_lift_pop_decoded_def lifts_fail)

lemma lifts_plain: "lifts (x86_lift_plain al inst pc) s (\<lambda>_ _. True)"
  unfolding x86_lift_plain_def
  by (auto split: xair_x86_mnemonic.split
      intro: lifts_return lifts_fail lifts_mov lifts_lea lifts_push lifts_pop lifts_alu)

section \<open>Closing a block\<close>

definition written_regs :: "x86_lift_state \<Rightarrow> (xair_x86_reg \<times> xair_value_id) list" where
  "written_regs s = map (\<lambda>i. (i, ls_regs s ! i)) (filter (\<lambda>i. ls_written_regs s ! i) [0..<XAIR_X86_REG_COUNT])"

text \<open>What a block returns: the last memory version, the registers written, the branch condition.\<close>

definition returned :: "x86_lift_state \<Rightarrow> xair_value_id list" where
  "returned s = (if ls_has_memory s then [ls_memory s] else []) @ map snd (written_regs s) @
     (if lr_end_kind (ls_result s) = XAIR_LIFT_END_DIRECT_CBRANCH \<and> lr_branch_condition (ls_result s) \<noteq> XAIR_INVALID_ID
      then [lr_branch_condition (ls_result s)] else [])"

definition finished :: "x86_lift_state \<Rightarrow> x86_lift_state" where
  "finished s = s\<lparr>ls_result := (ls_result s)\<lparr>lr_bytes_read := ls_pc s - lr_start (ls_result s), lr_next := ls_pc s,
     lr_instructions := ls_instructions s,
     lr_memory_out := (if ls_has_memory s then ls_memory s else lr_memory_out (ls_result s)),
     lr_output_regs := written_regs s, lr_return_values := returned s\<rparr>\<rparr>"

lemma output_regs_eq:
  assumes "length (lr_output_regs (ls_result s)) + length rs \<le> 16" "length (lr_return_values (ls_result s)) + length rs \<le> 24"
  defines "outs \<equiv> map (\<lambda>i. (i, ls_regs s ! i)) (filter (\<lambda>i. ls_written_regs s ! i) rs)"
  shows "x86_output_regs rs s = (Ok (), s\<lparr>ls_result := (ls_result s)\<lparr>lr_output_regs := lr_output_regs (ls_result s) @ outs,
    lr_return_values := lr_return_values (ls_result s) @ map snd outs\<rparr>\<rparr>)"
  using assms(1,2) unfolding outs_def
  by (induction rs arbitrary: s)
    (auto simp: xreturn_def xbind_def x86_output_reg_def x86_append_return_def update_result_def modify_def)

lemma finish_block_eq:
  assumes "lr_return_values (ls_result s) = []" "lr_output_regs (ls_result s) = []"
  shows "x86_finish_block al s = (if ls_emit_return_terminator s
    then on_module (xair_set_return al (ls_block s) (returned s)) (finished s) else (Ok (), finished s))"
proof -
  have "length (filter (\<lambda>i. ls_written_regs s ! i) [0..<16]) \<le> 16" by (rule length_filter_le [THEN order_trans]) simp
  then show ?thesis using assms
    by (auto simp: x86_finish_block_def xbind_def modify_def update_result_def with_state_def xreturn_def
        x86_append_return_def output_regs_eq returned_def finished_def written_regs_def comp_def)
qed

text \<open>The layout of a finished result.\<close>

definition lift_layout :: "xair_lift_result \<Rightarrow> bool" where
  "lift_layout r \<longleftrightarrow>
     lr_return_values r = (if lr_memory_in r = XAIR_INVALID_ID then [] else [lr_memory_out r]) @ map snd (lr_output_regs r) @
       (if lr_end_kind r = XAIR_LIFT_END_DIRECT_CBRANCH then [lr_branch_condition r] else []) \<and>
     distinct (map fst (lr_output_regs r)) \<and> sorted (map fst (lr_output_regs r)) \<and>
     distinct (map fst (lr_input_regs r)) \<and> (\<forall>i \<in> set (map fst (lr_input_regs r @ lr_output_regs r)). i < XAIR_X86_REG_COUNT)"

text \<open>A state in which a block is being lifted into a module whose other blocks verify.\<close>

definition lifting :: "x86_lift_state \<Rightarrow> bool" where
  "lifting s \<longleftrightarrow> lift_inv s \<and> others_ok (ls_module s) (ls_block s) \<and> lr_return_values (ls_result s) = [] \<and>
     lr_output_regs (ls_result s) = []"

text \<open>A block that returns the values \<open>vs\<close>.\<close>

definition block_returns :: "xair_module \<Rightarrow> xair_block_id \<Rightarrow> xair_value_id list \<Rightarrow> bool" where
  "block_returns m b vs \<longleftrightarrow> (let t = blk_term (blocks m ! b)
     in term_kind t = XAIR_TERM_RETURN \<and> true_arg_count t = length vs \<and> term_args_const m t False = vs)"

lemma set_return_returns:
  assumes "xair_set_return al b vs m = (Ok u, m')" "b < length (blocks m)"
  shows "block_returns m' b vs"
proof -
  obtain r1 m1 where a: "append_term_args al vs m = (r1, m1)" by fastforce
  then show ?thesis using assms
    by (cases rule: append_term_args_cases)
      (auto simp: a xair_set_return_def xbind_def set_term_def block_returns_def term_args_const_def Let_def split: if_splits)
qed

text \<open>The states after closing the block; the block stays open when no terminator is asked for.\<close>

definition closed :: "x86_lift_state \<Rightarrow> bool" where
  "closed s \<longleftrightarrow> lift_layout (ls_result s) \<and>
     (if ls_emit_return_terminator s
      then module_inv (ls_module s) \<and> module_ok (ls_module s) \<and>
        block_returns (ls_module s) (ls_block s) (lr_return_values (ls_result s))
      else body_inv (ls_module s) (ls_block s) \<and> others_ok (ls_module s) (ls_block s) \<and>
        (\<forall>v \<in> set (lr_return_values (ls_result s)). usable (ls_module s) (avail (ls_module s) (ls_block s)) v))"

lemma lifting_follows: "lifting s \<Longrightarrow> lift_inv s' \<Longrightarrow> follows s s' \<Longrightarrow> lifting s'"
  by (auto simp: lifting_def follows_def lift_inv_def [of s] body_inv_def module_inv_def intro: others_grows)

lemma returned_usable:
  assumes inv: "lift_inv s" and cond: "lr_end_kind (ls_result s) = XAIR_LIFT_END_DIRECT_CBRANCH \<Longrightarrow>
    has_ty s (lr_branch_condition (ls_result s)) (xair_type_i 1)"
  shows "\<forall>v \<in> set (returned s). usable (ls_module s) (avail (ls_module s) (ls_block s)) v"
proof -
  have u: "has_ty s v t \<Longrightarrow> usable (ls_module s) (avail (ls_module s) (ls_block s)) v" for v t
    by (simp add: has_ty_def typed_def)
  have "has_ty s v (x86_reg_type s)" if "v \<in> set (map snd (written_regs s))" for v
  proof -
    from that obtain r where "r < 16" "ls_written_regs s ! r" "v = ls_regs s ! r"
      by (auto simp: written_regs_def simp del: upt_rec_numeral)
    then show ?thesis using inv by (simp add: lift_inv_def)
  qed
  moreover have "ls_has_memory s \<Longrightarrow> has_ty s (ls_memory s) (mem_type s)" using inv by (simp add: lift_inv_def)
  ultimately show ?thesis using cond u by (auto simp: returned_def simp del: set_map)
qed

lemma finished_layout:
  assumes inv: "lift_inv s" and cond: "lr_end_kind (ls_result s) = XAIR_LIFT_END_DIRECT_CBRANCH \<Longrightarrow>
    has_ty s (lr_branch_condition (ls_result s)) (xair_type_i 1)"
  shows "lift_layout (ls_result (finished s))"
proof -
  let ?out = "filter (\<lambda>i. ls_written_regs s ! i) [0..<XAIR_X86_REG_COUNT]"
  have out: "map fst (written_regs s) = ?out" by (simp add: written_regs_def comp_def del: upt_rec_numeral)
  have range: "sorted ?out" "distinct ?out" "set ?out \<subseteq> {..< XAIR_X86_REG_COUNT}"
    by (auto simp: sorted_wrt_filter simp del: upt_rec_numeral)
  have "set (map fst (lr_input_regs (ls_result s))) \<subseteq> {..< XAIR_X86_REG_COUNT}" "distinct (map fst (lr_input_regs (ls_result s)))"
    using inv by (auto simp: lift_inv_def)
  moreover have "lr_branch_condition (ls_result s) \<noteq> XAIR_INVALID_ID"
    if "lr_end_kind (ls_result s) = XAIR_LIFT_END_DIRECT_CBRANCH" using cond [OF that] has_ty_valid_id [OF inv] by blast
  moreover have "ls_has_memory s \<longleftrightarrow> lr_memory_in (ls_result s) \<noteq> XAIR_INVALID_ID" using inv by (simp add: lift_inv_def)
  ultimately show ?thesis using range
    by (simp add: lift_layout_def finished_def returned_def map_append out del: upt_rec_numeral set_map set_filter)
      (auto simp: subset_iff)
qed

lemma finish_block_closed:
  assumes s: "lifting s" and cond: "lr_end_kind (ls_result s) = XAIR_LIFT_END_DIRECT_CBRANCH \<Longrightarrow>
      has_ty s (lr_branch_condition (ls_result s)) (xair_type_i 1)"
    and run: "x86_finish_block al s = (Ok u, s')"
  shows "closed s' \<and> lr_end_kind (ls_result s') = lr_end_kind (ls_result s) \<and>
    ls_emit_return_terminator s' = ls_emit_return_terminator s \<and> ls_block s' = ls_block s"
proof -
  have inv: "lift_inv s" "others_ok (ls_module s) (ls_block s)" "body_inv (ls_module s) (ls_block s)"
    using s by (auto simp: lifting_def lift_inv_def)
  note u = returned_usable [OF inv(1) cond] and l = finished_layout [OF inv(1) cond]
  have fin: "ls_module (finished s) = ls_module s" "ls_block (finished s) = ls_block s"
    "ls_emit_return_terminator (finished s) = ls_emit_return_terminator s"
    "lr_return_values (ls_result (finished s)) = returned s" "lr_end_kind (ls_result (finished s)) = lr_end_kind (ls_result s)"
    by (simp_all add: finished_def)
  show ?thesis
  proof (cases "ls_emit_return_terminator s")
    case True
    then obtain m' where m': "xair_set_return al (ls_block s) (returned s) (ls_module s) = (Ok u, m')"
        "s' = (finished s)\<lparr>ls_module := m'\<rparr>"
      using run s by (auto simp: finish_block_eq lifting_def on_module_def fin split: prod.splits)
    have "block_returns m' (ls_block s) (returned s)" using set_return_returns [OF m'(1)] inv(3) by (simp add: body_inv_def)
    with m' set_return_verifies [OF m'(1) inv(3,2) u] l True show ?thesis by (simp add: closed_def fin)
  next
    case False
    then have "s' = finished s" using run s by (simp add: finish_block_eq lifting_def)
    with u l inv False show ?thesis by (simp add: closed_def fin)
  qed
qed

lemma lifting_result:
  assumes "lifting s" "lr_return_values r = []" "lr_output_regs r = []" "lr_input_regs r = lr_input_regs (ls_result s)"
    "lr_memory_in r = lr_memory_in (ls_result s)"
  shows "lifting (s\<lparr>ls_result := r\<rparr>)"
  using assms by (simp add: lifting_def lift_inv_def)

lemma lifting_advance: "lifting (s\<lparr>ls_pc := pc, ls_instructions := n\<rparr>) = lifting s"
  by (simp add: lifting_def lift_inv_def)

text \<open>Operations that end the block, giving a result of one kind.\<close>

definition ends_block :: "unit lift_op \<Rightarrow> x86_lift_state \<Rightarrow> xair_lift_end_kind \<Rightarrow> bool" where
  "ends_block f s k \<longleftrightarrow> (lifting s \<longrightarrow> (case f s of
      (Ok _, s') \<Rightarrow> closed s' \<and> lr_end_kind (ls_result s') = k \<and>
        ls_emit_return_terminator s' = ls_emit_return_terminator s \<and> ls_block s' = ls_block s
    | (Err e, s') \<Rightarrow> True))"

lemma ends_blockI:
  assumes "lifting s \<Longrightarrow> lifting (s\<lparr>ls_result := r\<rparr>)" "lr_end_kind r = k"
    "k = XAIR_LIFT_END_DIRECT_CBRANCH \<Longrightarrow> has_ty s (lr_branch_condition r) (xair_type_i 1)"
    "f s = x86_finish_block al (s\<lparr>ls_result := r\<rparr>)"
  shows "ends_block f s k"
  using assms finish_block_closed [of "s\<lparr>ls_result := r\<rparr>" al]
  by (auto simp: ends_block_def split: prod.split xres.split)

lemma ends_unsupported: "ends_block (x86_finish_unsupported al a opc) s XAIR_LIFT_END_UNSUPPORTED"
  by (rule ends_blockI, rule lifting_result)
    (auto simp: x86_finish_unsupported_def xbind_def update_result_def modify_def lifting_def)

lemma ends_fallthrough: "ends_block (x86_finish_fallthrough al) s XAIR_LIFT_END_FALLTHROUGH"
  by (rule ends_blockI, rule lifting_result)
    (auto simp: x86_finish_fallthrough_def xbind_def update_result_def modify_def lifting_def)

lemma ends_jump: "ends_block (x86_finish_direct_jump al a) s XAIR_LIFT_END_DIRECT_JUMP"
  by (rule ends_blockI, rule lifting_result)
    (auto simp: x86_finish_direct_jump_def xbind_def update_result_def modify_def lifting_def)

lemma ends_return: "ends_block (x86_finish_return al) s XAIR_LIFT_END_RETURN"
  by (rule ends_blockI, rule lifting_result)
    (auto simp: x86_finish_return_def xbind_def update_result_def modify_def lifting_def)

lemma ends_cbranch:
  "has_ty s v (xair_type_i 1) \<Longrightarrow> ends_block (x86_finish_direct_cbranch al a a' v) s XAIR_LIFT_END_DIRECT_CBRANCH"
  by (rule ends_blockI, rule lifting_result)
    (auto simp: x86_finish_direct_cbranch_def xbind_def update_result_def modify_def lifting_def)

text \<open>One iteration of the loop: the block is closed, or lifting goes on.\<close>

definition lifts_on :: "bool lift_op \<Rightarrow> x86_lift_state \<Rightarrow> bool" where
  "lifts_on f s \<longleftrightarrow> (lifting s \<and> lr_end_kind (ls_result s) \<noteq> XAIR_LIFT_END_UNSUPPORTED \<longrightarrow> (case f s of
      (Ok d, s') \<Rightarrow> ls_emit_return_terminator s' = ls_emit_return_terminator s \<and> ls_block s' = ls_block s \<and>
        (if d \<or> lr_end_kind (ls_result s') = XAIR_LIFT_END_UNSUPPORTED then closed s' else lifting s')
    | (Err e, s') \<Rightarrow> True))"

lemma lifts_on_unsupported: "lifts_on (xbind (x86_finish_unsupported al a opc) (\<lambda>_. xreturn False)) s"
  using ends_unsupported [of al a opc s]
  by (auto simp: lifts_on_def ends_block_def xbind_def xreturn_def split: prod.splits xres.splits)

lemma lifts_on_advance:
  assumes "ends_block f (s\<lparr>ls_pc := pc, ls_instructions := ls_instructions s + 1\<rparr>) k"
  shows "lifts_on (xbind (x86_advance pc) (\<lambda>_. xbind f (\<lambda>_. xreturn True))) s"
  using assms lifting_advance [where s = s and pc = pc and n = "ls_instructions s + 1"]
  by (auto simp: lifts_on_def ends_block_def xbind_def xreturn_def x86_advance_def modify_def split: prod.splits xres.splits)

lemma lifts_on_continue: "lifts_on (xbind (x86_advance pc) (\<lambda>_. xreturn False)) s"
  using lifting_advance [where s = s and pc = pc and n = "ls_instructions s + 1"]
  by (auto simp: lifts_on_def xbind_def xreturn_def x86_advance_def modify_def)

lemma lifts_on_or_unsupported:
  assumes f: "lifts f s Q" and k: "\<And>a s'. Q a s' \<Longrightarrow> lifts_on (k a) s'"
  shows "lifts_on (or_unsupported al a opc f k) s"
proof -
  obtain r s1 where r: "f s = (r, s1)" by fastforce
  show ?thesis unfolding lifts_on_def
  proof
    assume s: "lifting s \<and> lr_end_kind (ls_result s) \<noteq> XAIR_LIFT_END_UNSUPPORTED"
    have f': "follows s s1 \<Longrightarrow> ls_emit_return_terminator s1 = ls_emit_return_terminator s \<and> ls_block s1 = ls_block s \<and>
        lr_end_kind (ls_result s1) \<noteq> XAIR_LIFT_END_UNSUPPORTED" using s by (simp add: follows_def)
    show "case or_unsupported al a opc f k s of
      (Ok d, s') \<Rightarrow> ls_emit_return_terminator s' = ls_emit_return_terminator s \<and> ls_block s' = ls_block s \<and>
        (if d \<or> lr_end_kind (ls_result s') = XAIR_LIFT_END_UNSUPPORTED then closed s' else lifting s')
    | (Err e, s') \<Rightarrow> True"
    proof (cases r)
      case (Ok v)
      then have "lift_inv s1" "follows s s1" "Q v s1" using f r s by (auto simp: lifts_def lifting_def)
      then show ?thesis using k [of v s1] lifting_follows [of s s1] f' s r Ok
        by (auto simp: lifts_on_def or_unsupported_def split: prod.splits xres.splits)
    next
      case (Err e)
      show ?thesis
      proof (cases "e = XAIR_ERR_UNSUPPORTED")
        case True
        then have "lift_inv s1" "follows s s1" using f r s Err by (auto simp: lifts_def lifting_def)
        then show ?thesis using lifts_on_unsupported [of al a opc s1] lifting_follows [of s s1] f' s r Err True
          by (auto simp: lifts_on_def or_unsupported_def split: prod.splits xres.splits)
      qed (simp add: or_unsupported_def r Err)
    qed
  qed
qed

lemma lifts_on_jmp: "lifts_on (x86_lift_jmp al inst a pc) s"
  unfolding x86_lift_jmp_def
  by (rule lifts_on_or_unsupported [where Q = "\<lambda>_ _. True"])
    (auto split: option.split intro: lifts_fail lifts_return lifts_on_advance [OF ends_jump])

lemma lifts_on_jcc: "lifts_on (x86_lift_jcc al inst a pc) s"
  unfolding x86_lift_jcc_def
proof (rule lifts_on_or_unsupported [where Q = "\<lambda>(rel, v) s'. has_ty s' v (xair_type_i 1)"])
  show "lifts (case x86_get_imm_operand inst 0 of None \<Rightarrow> xfail XAIR_ERR_UNSUPPORTED
      | Some rel \<Rightarrow> xbind (x86_condition_from_zf al (mnemonic inst = XAIR_X86_MNEMONIC_JZ)) (\<lambda>cond. xreturn (rel, cond))) s
      (\<lambda>(rel, v) s'. has_ty s' v (xair_type_i 1))"
    by (cases "x86_get_imm_operand inst 0")
      (auto intro!: lifts_fail lifts_step [OF lifts_condition] lifts_return)
qed (auto split: prod.split intro!: lifts_on_advance [OF ends_cbranch])

lemma lifts_on_inst: "lifts_on (x86_lift_inst al inst a pc) s"
proof -
  have "lifts_on (or_unsupported al a (raw_opcode inst) (x86_lift_plain al inst pc)
      (\<lambda>_. xbind (x86_advance pc) (\<lambda>_. xreturn False))) s"
    by (rule lifts_on_or_unsupported [OF lifts_plain lifts_on_continue])
  then show ?thesis unfolding x86_lift_inst_def
    by (auto split: xair_x86_mnemonic.split intro: lifts_on_jmp lifts_on_jcc lifts_on_advance [OF ends_return])
qed

lemma lifts_on_cong: "f s = g s \<Longrightarrow> lifts_on g s \<Longrightarrow> lifts_on f s"
  by (simp add: lifts_on_def)

lemma lifts_on_one: "lifts_on (x86_lift_one al) s"
proof (cases "image_offset (ls_image s) (ls_pc s)")
  case (Some n)
  let ?bytes = "drop n (img_bytes (ls_image s))"
  obtain st inst where d: "(if ls_arch s = XAIR_ARCH_X86_64 then decode64 (ls_decoder s) ?bytes zero_inst
      else decode32 (ls_decoder s) ?bytes zero_inst) = (st, inst)" by fastforce
  consider "st = XAIR_ERR_UNSUPPORTED" | "st = XAIR_OK" | "st \<noteq> XAIR_OK" "st \<noteq> XAIR_ERR_UNSUPPORTED" by blast
  then show ?thesis
  proof cases
    case 1
    show ?thesis
      by (rule lifts_on_cong [OF _ lifts_on_unsupported [of al "ls_pc s" "raw_opcode inst"]])
        (simp add: x86_lift_one_def Some d 1)
  next
    case 2
    show ?thesis
      by (rule lifts_on_cong [OF _ lifts_on_inst [of al inst "ls_pc s" "ls_pc s + ucast (inst_length inst)"]])
        (simp add: x86_lift_one_def Some d 2)
  qed (simp add: lifts_on_def x86_lift_one_def Some d)
qed (simp add: lifts_on_def x86_lift_one_def)

lemma loop_closed:
  assumes "lifting s" "lr_end_kind (ls_result s) \<noteq> XAIR_LIFT_END_UNSUPPORTED" "lift_loop al n s = (Ok u, s')"
  shows "closed s' \<and> ls_emit_return_terminator s' = ls_emit_return_terminator s \<and> ls_block s' = ls_block s"
  using assms
proof (induction n arbitrary: s)
  case 0
  then show ?case using ends_fallthrough [of al s] by (auto simp: ends_block_def)
next
  case (Suc n)
  then obtain d s1 where one: "x86_lift_one al s = (Ok d, s1)" by (auto simp: xbind_def split: prod.splits xres.splits)
  with Suc.prems lifts_on_one [of al s]
  have s1: "ls_emit_return_terminator s1 = ls_emit_return_terminator s" "ls_block s1 = ls_block s"
    "if d \<or> lr_end_kind (ls_result s1) = XAIR_LIFT_END_UNSUPPORTED then closed s1 else lifting s1"
    by (auto simp: lifts_on_def)
  show ?case
  proof (cases "d \<or> lr_end_kind (ls_result s1) = XAIR_LIFT_END_UNSUPPORTED")
    case True
    then show ?thesis using s1 Suc.prems(3) by (simp add: xbind_def one with_state_def xreturn_def)
  next
    case False
    then have "lift_loop al n s1 = (Ok u, s')" using Suc.prems(3) by (simp add: xbind_def one with_state_def)
    with Suc.IH [of s1] s1 False show ?thesis by simp
  qed
qed

section \<open>Lifted modules verify\<close>

lemma init_lifting:
  assumes "body_inv m b" "others_ok m b" "lr_return_values r = []" "lr_output_regs r = []" "lr_input_regs r = []"
    "lr_memory_in r = XAIR_INVALID_ID"
  shows "lifting (lift_state_init m img opts emit b r)"
  using assms by (auto simp: lifting_def lift_inv_def lift_state_init_def)

text \<open>A block lifted into a verified module gives a verified module, with a result laid out as documented.\<close>

lemma lift_block_closed:
  assumes target: "lift_target al opts existing m = (Ok b, m1)" and inv: "body_inv m1 b" and o: "others_ok m1 b"
    and run: "lift_x86_basic_block al img opts existing emit m = (Ok res, m')"
  shows "lift_layout res" "emit \<Longrightarrow> module_inv m' \<and> module_ok m' \<and> block_returns m' b (lr_return_values res)"
    "\<not> emit \<Longrightarrow> body_inv m' b \<and> others_ok m' b \<and> (\<forall>v \<in> set (lr_return_values res). usable m' (avail m' b) v)"
proof -
  obtain r n u s' where loop: "lift_loop al n (lift_state_init m1 img opts emit b r) = (Ok u, s')"
    and res: "res = ls_result s'" "m' = ls_module s'" and r: "lr_return_values r = []" "lr_output_regs r = []"
      "lr_input_regs r = []" "lr_memory_in r = XAIR_INVALID_ID" "lr_end_kind r = XAIR_LIFT_END_FALLTHROUGH"
    using run by (auto simp: lift_x86_basic_block_def target Let_def lift_result_init_def split: prod.splits xres.splits)
  have "lr_end_kind (ls_result (lift_state_init m1 img opts emit b r)) \<noteq> XAIR_LIFT_END_UNSUPPORTED"
    using r(5) by (simp add: lift_state_init_def)
  from loop_closed [OF init_lifting [OF inv o r(1-4)] this loop]
  have "closed s'" "ls_emit_return_terminator s' = emit" "ls_block s' = b" by (auto simp: lift_state_init_def)
  then show "lift_layout res" "emit \<Longrightarrow> module_inv m' \<and> module_ok m' \<and> block_returns m' b (lr_return_values res)"
    "\<not> emit \<Longrightarrow> body_inv m' b \<and> others_ok m' b \<and> (\<forall>v \<in> set (lr_return_values res). usable m' (avail m' b) v)"
    by (auto simp: closed_def res)
qed

lemma lift_basic_block_ok:
  assumes inv: "module_inv m" and ok: "module_ok m" and run: "xair_lift_basic_block al img opts m = (Ok res, m')"
  shows "module_inv m' \<and> module_ok m' \<and> lift_layout res"
  using run
proof (cases rule: lift_basic_blockE)
  case (1 b m1 nm)
  with lift_block_closed [OF 1(1) block_create_others(1,2) [OF 1(2) inv ok] 1(6)] show ?thesis by simp
qed

lemma lift_basic_block_returns:
  assumes m: "built m" "module_ok m" and run: "xair_lift_basic_block al img opts m = (Ok res, m')"
  shows "block_returns m' (lr_block res) (lr_return_values res)"
  using run
proof (cases rule: lift_basic_blockE)
  case (1 b m1 nm)
  with lift_block_closed(2) [OF 1(1) block_create_others(1,2) [OF 1(2) built_module_inv [OF m(1)] m(2)] 1(6)]
    lift_x86_inputs [OF 1(1) lift_target_built [OF m(1) 1(1)] 1(3-6)]
  show ?thesis by simp
qed

lemma lift_block_body_ok:
  assumes "body_inv m b" "others_ok m b" and run: "xair_lift_block_body_into al img opts b m = (Ok res, m')"
    and ret: "xair_set_return al' b (lr_return_values res) m' = (Ok u, m'')"
  shows "module_inv m'' \<and> module_ok m'' \<and> lift_layout res"
proof -
  have run': "lift_x86_basic_block al img opts (Some b) False m = (Ok res, m')"
    using run by (auto simp: xair_lift_block_body_into_def split: if_splits)
  have "lift_target al opts (Some b) m = (Ok b, m)" by (simp add: lift_target_def)
  note c = lift_block_closed [OF this assms(1,2) run']
  then show ?thesis using set_return_verifies [OF ret] by blast
qed

end
