(* ===== verification/Xair_Lift_Defined.thy ===== *)
theory Xair_Lift_Defined
  imports Xair_Lift Xair_Builder
begin

text \<open>
  The lifter writes the register that an instruction names without a check, so a decoder backend that names a register
  that does not exist makes it write outside its arrays. The locale \<open>decoder_backend\<close> states what the lifter relies on:
  the register an instruction writes exists. Under this contract lifting never reaches undefined behaviour, and the
  decoder of the library fulfils it.
\<close>

section \<open>The contract of a decoder\<close>

text \<open>Only the first operand of an instruction is ever written.\<close>

definition names_register :: "xair_status \<times> xair_x86_decoded_inst \<Rightarrow> bool" where
  "names_register r \<longleftrightarrow> fst r \<noteq> UNDEFINED_BEHAVIOUR \<and>
     (fst r = XAIR_OK \<longrightarrow> (\<forall>reg. x86_get_reg_operand (snd r) 0 = Some reg \<longrightarrow> reg < XAIR_X86_REG_COUNT))"

definition backend_ok :: "xair_x86_decoder_backend \<Rightarrow> bool" where
  "backend_ok d \<longleftrightarrow> (\<forall>bs i. names_register (decode32 d bs i) \<and> names_register (decode64 d bs i))"

definition chosen_decoder :: "xair_lift_options \<Rightarrow> xair_x86_decoder_backend" where
  "chosen_decoder opts = (case opt_decoder opts of None \<Rightarrow> xair_x86_default_decoder | Some d \<Rightarrow> d)"

named_theorems defined_intros "operations of the lifter that stay inside its arrays"

section \<open>Builder calls are defined\<close>

lemma grow_array_defined [simp]: "grow_array al site sz cap need \<noteq> Err UNDEFINED_BEHAVIOUR"
  by (auto simp: grow_array_def Let_def split: if_splits option.splits)

lemma add_value_defined: "add_value al b t nm m \<noteq> (Err UNDEFINED_BEHAVIOUR, m')"
  using grow_array_defined by (auto simp: add_value_def Let_def split: if_splits xres.splits)

lemma append_defined:
  "append_param al b v m \<noteq> (Err UNDEFINED_BEHAVIOUR, m')" "append_op al b i m \<noteq> (Err UNDEFINED_BEHAVIOUR, m')"
  "append_term_args al vs m \<noteq> (Err UNDEFINED_BEHAVIOUR, m')"
  using grow_array_defined by (auto simp: append_param_def append_op_def append_term_args_def Let_def split: if_splits xres.splits)

lemma prepare_insert_defined: "value_number_prepare_insert al m \<noteq> (Err UNDEFINED_BEHAVIOUR, m')"
  by (auto simp: value_number_prepare_insert_def value_number_grow_def Let_def split: if_splits prod.splits)

lemma add_op_defined: "add_op al b oc t srcs im en nm m \<noteq> (Err UNDEFINED_BEHAVIOUR, m')"
  using add_value_defined append_defined(2) prepare_insert_defined grow_array_defined
  by (fastforce simp: add_op_def add_fresh_op_def Let_def split: if_splits xres.splits prod.splits option.splits)

lemma builders_defined:
  "xair_build_const_u64 al b t w nm m \<noteq> (Err UNDEFINED_BEHAVIOUR, m')" "xair_build_unary al b oc t x nm m \<noteq> (Err UNDEFINED_BEHAVIOUR, m')"
  "xair_build_binary al b oc t x y nm m \<noteq> (Err UNDEFINED_BEHAVIOUR, m')" "xair_build_load al b t x y en nm m \<noteq> (Err UNDEFINED_BEHAVIOUR, m')"
  "xair_build_store al b x y z en nm m \<noteq> (Err UNDEFINED_BEHAVIOUR, m')"
  using add_op_defined
  by (simp_all add: xair_build_const_u64_def xair_build_unary_def xair_build_binary_def xair_build_load_def xair_build_store_def)

lemma block_calls_defined:
  "xair_block_create al nm m \<noteq> (Err UNDEFINED_BEHAVIOUR, m')" "xair_block_add_param al b t nm m \<noteq> (Err UNDEFINED_BEHAVIOUR, m')"
  "xair_set_return al b vs m \<noteq> (Err UNDEFINED_BEHAVIOUR, m')"
  using grow_array_defined add_value_defined append_defined
  by (fastforce simp: xair_block_create_def xair_block_add_param_def xair_set_return_def set_term_def xbind_def Let_def
      split: if_splits xres.splits prod.splits)+

section \<open>The lifter under the contract\<close>

locale decoder_backend =
  fixes d :: xair_x86_decoder_backend
  assumes decode32_register: "names_register (decode32 d bs i)"
    and decode64_register: "names_register (decode64 d bs i)"
begin

definition defined :: "'a lift_op \<Rightarrow> bool" where
  "defined f \<longleftrightarrow> (\<forall>s r s'. ls_decoder s = d \<longrightarrow> f s = (r, s') \<longrightarrow> r \<noteq> Err UNDEFINED_BEHAVIOUR \<and> ls_decoder s' = d)"

lemma definedI:
  "(\<And>s r s'. ls_decoder s = d \<Longrightarrow> f s = (r, s') \<Longrightarrow> r \<noteq> Err UNDEFINED_BEHAVIOUR \<and> ls_decoder s' = d) \<Longrightarrow> defined f"
  unfolding defined_def by blast

lemma definedD: "defined f \<Longrightarrow> ls_decoder s = d \<Longrightarrow> f s = (r, s') \<Longrightarrow> r \<noteq> Err UNDEFINED_BEHAVIOUR \<and> ls_decoder s' = d"
  unfolding defined_def by blast

lemma defined_bind [defined_intros]:
  assumes "defined f" "\<And>a. defined (g a)"
  shows "defined (xbind f g)"
proof (rule definedI)
  fix s r s' assume s: "ls_decoder s = d" "xbind f g s = (r, s')"
  obtain q s1 where f: "f s = (q, s1)" by fastforce
  note q = definedD [OF assms(1) s(1) f]
  show "r \<noteq> Err UNDEFINED_BEHAVIOUR \<and> ls_decoder s' = d"
  proof (cases q)
    case (Ok a)
    then show ?thesis using definedD [OF assms(2), of s1 a r s'] q s(2) f by (simp add: xbind_def)
  qed (use q s(2) f in \<open>auto simp: xbind_def\<close>)
qed

lemma defined_simple [defined_intros]: "defined (xreturn a)" "e \<noteq> UNDEFINED_BEHAVIOUR \<Longrightarrow> defined (xfail e)"
  by (simp_all add: defined_def xreturn_def xfail_def)

lemma defined_if [defined_intros]: "(c \<Longrightarrow> defined f) \<Longrightarrow> (\<not> c \<Longrightarrow> defined g) \<Longrightarrow> defined (if c then f else g)"
  by simp

lemma defined_option [defined_intros]:
  "(v = None \<Longrightarrow> defined e) \<Longrightarrow> (\<And>x. v = Some x \<Longrightarrow> defined (f x)) \<Longrightarrow> defined (case v of None \<Rightarrow> e | Some x \<Rightarrow> f x)"
  by (cases v) auto

lemma defined_with_state [defined_intros]: "(\<And>s. defined (f s)) \<Longrightarrow> defined (with_state f)"
  by (rule definedI) (metis definedD with_state_def)

lemma defined_modify [defined_intros]: "(\<And>s. ls_decoder (f s) = ls_decoder s) \<Longrightarrow> defined (modify f)"
  by (simp add: defined_def modify_def)

lemma defined_call: "(\<And>m m'. f m \<noteq> (Err UNDEFINED_BEHAVIOUR, m')) \<Longrightarrow> defined (on_module f)"
  by (rule definedI) (auto simp: on_module_def split: prod.splits)


lemmas defined_calls [defined_intros] = builders_defined [THEN defined_call] block_calls_defined [THEN defined_call]

lemma defined_ensure [defined_intros]: "defined (x86_ensure_reg al r)" "defined (x86_ensure_memory al)"
proof -
  show "defined (x86_ensure_reg al r)" using block_calls_defined(2)
    by (intro definedI) (auto simp: x86_ensure_reg_def on_module_def Let_def split: if_splits xres.splits prod.splits)
  show "defined (x86_ensure_memory al)" using block_calls_defined(2)
    by (intro definedI) (auto simp: x86_ensure_memory_def on_module_def split: if_splits xres.splits prod.splits)
qed

lemma defined_write_reg [defined_intros]: "r < XAIR_X86_REG_COUNT \<Longrightarrow> defined (x86_write_reg r v)"
  by (simp add: x86_write_reg_def defined_modify)

lemma defined_values [defined_intros]:
  "defined (x86_build_const_u64 al t w nm)" "defined (x86_unary al oc t x nm)" "defined (x86_binary al oc t x y nm)"
  "defined (x86_const_int al w nm)" "defined (x86_set_zf_from_flags al x)" "defined (x86_set_zf_from_value al x)"
  "defined (x86_lift_cmp_values al x y)" "defined (x86_lift_test_values al x y)"
  "defined (x86_int_to_addr al x)" "defined (x86_addr_to_int al x)" "defined (x86_addr_add_i64 al x w nm)"
  unfolding x86_build_const_u64_def x86_unary_def x86_binary_def x86_const_int_def x86_set_zf_from_flags_def
    x86_set_zf_from_value_def x86_lift_cmp_values_def x86_lift_test_values_def x86_int_to_addr_def x86_addr_to_int_def
    x86_addr_add_i64_def
  by (intro defined_intros; simp)+

lemma defined_results [defined_intros]:
  "r < XAIR_X86_REG_COUNT \<Longrightarrow> defined (x86_lift_add_sub_values al oc oc' r x y)"
  "r < XAIR_X86_REG_COUNT \<Longrightarrow> defined (x86_lift_logic_values al oc r x y)"
  unfolding x86_lift_add_sub_values_def x86_lift_logic_values_def by (intro defined_intros; simp)+

lemma defined_address [defined_intros]: "defined (x86_build_memory_address al mem pc)"
  unfolding x86_build_memory_address_def x86_base_address_def x86_index_address_def x86_scaled_index_def
  by (intro defined_intros; simp)

lemma defined_memory [defined_intros]:
  "r < XAIR_X86_REG_COUNT \<Longrightarrow> defined (x86_lift_mem_load al r mem pc)" "defined (x86_lift_mem_store al mem x pc)"
  "defined (x86_write_memory x)"
  unfolding x86_lift_mem_load_def x86_lift_mem_store_def x86_write_memory_def by (intro defined_intros; simp)+

lemma defined_operand [defined_intros]: "defined (x86_operand_value al inst i)"
  unfolding x86_operand_value_def by (auto intro!: defined_intros split: option.splits)

text \<open>The end of a block.\<close>

lemma defined_append [defined_intros]: "defined (x86_append_return v)" "defined (x86_output_reg i)"
  by (auto simp: defined_def x86_append_return_def x86_output_reg_def update_result_def modify_def xbind_def split: if_splits)

lemma defined_output [defined_intros]: "defined (x86_output_regs js)"
  by (induction js) (auto intro: defined_intros)

lemma defined_finish_block [defined_intros]: "defined (x86_finish_block al)"
  unfolding x86_finish_block_def update_result_def by (intro defined_intros; simp)

lemma defined_finish [defined_intros]:
  "defined (x86_finish_unsupported al a opc)" "defined (x86_finish_fallthrough al)" "defined (x86_finish_direct_jump al w)"
  "defined (x86_finish_return al)" "defined (x86_finish_direct_cbranch al w w' x)" "defined (x86_condition_from_zf al z)"
  "defined (x86_advance pc)"
  unfolding x86_finish_unsupported_def x86_finish_fallthrough_def x86_finish_direct_jump_def x86_finish_return_def
    x86_finish_direct_cbranch_def x86_condition_from_zf_def x86_advance_def update_result_def
  by (intro defined_intros; simp)+

lemma defined_or_unsupported [defined_intros]:
  assumes "defined f" "\<And>a. defined (k a)"
  shows "defined (or_unsupported al a opc f k)"
proof (rule definedI)
  fix s r s' assume s: "ls_decoder s = d" "or_unsupported al a opc f k s = (r, s')"
  obtain q s1 where f: "f s = (q, s1)" by fastforce
  note q = definedD [OF assms(1) s(1) f]
  have fin: "defined (xbind (x86_finish_unsupported al a opc) (\<lambda>_. xreturn False))" by (intro defined_intros)
  show "r \<noteq> Err UNDEFINED_BEHAVIOUR \<and> ls_decoder s' = d"
  proof (cases q)
    case (Ok x)
    then show ?thesis using definedD [OF assms(2), of s1 x r s'] q s(2) f by (simp add: or_unsupported_def)
  next
    case (Err e)
    then show ?thesis using definedD [OF fin, of s1 r s'] q s(2) f by (auto simp: or_unsupported_def split: if_splits)
  qed
qed

text \<open>An instruction whose first operand, when it is a register, exists.\<close>

lemma defined_plain:
  assumes "\<And>r. x86_get_reg_operand inst 0 = Some r \<Longrightarrow> r < XAIR_X86_REG_COUNT"
  shows "defined (x86_lift_plain al inst pc)"
proof -
  have "defined (x86_lift_mov_decoded al inst pc)"
    unfolding x86_lift_mov_decoded_def using assms by (auto intro!: defined_intros split: option.splits)
  moreover have "defined (x86_lift_lea_decoded al inst pc)"
    unfolding x86_lift_lea_decoded_def using assms by (auto intro!: defined_intros split: option.splits)
  moreover have "defined (x86_lift_alu_decoded al inst)"
    unfolding x86_lift_alu_decoded_def using assms by (auto intro!: defined_intros split: xair_x86_mnemonic.split)
  moreover have "defined (x86_lift_push_decoded al inst)"
    unfolding x86_lift_push_decoded_def by (intro defined_intros; simp)
  moreover have "defined (x86_lift_pop_decoded al inst)"
    unfolding x86_lift_pop_decoded_def using assms by (intro defined_intros; simp)
  ultimately show ?thesis unfolding x86_lift_plain_def by (auto intro!: defined_intros split: xair_x86_mnemonic.split)
qed

lemma defined_inst:
  assumes "\<And>r. x86_get_reg_operand inst 0 = Some r \<Longrightarrow> r < XAIR_X86_REG_COUNT"
  shows "defined (x86_lift_inst al inst pc next_pc)"
proof -
  note [defined_intros] = defined_plain [OF assms]
  show ?thesis unfolding x86_lift_inst_def x86_lift_jmp_def x86_lift_jcc_def
    by (auto intro!: defined_intros split: xair_x86_mnemonic.split option.splits)
qed

lemma defined_lift_one [defined_intros]: "defined (x86_lift_one al)"
proof (rule definedI)
  fix s r s' assume s: "ls_decoder s = d" "x86_lift_one al s = (r, s')"
  show "r \<noteq> Err UNDEFINED_BEHAVIOUR \<and> ls_decoder s' = d"
  proof (cases "image_offset (ls_image s) (ls_pc s)")
    case (Some offset)
    let ?bs = "drop offset (img_bytes (ls_image s))"
    obtain st inst where di: "(if ls_arch s = XAIR_ARCH_X86_64 then decode64 d ?bs zero_inst else decode32 d ?bs zero_inst) = (st, inst)"
      by fastforce
    then have n: "names_register (st, inst)" using decode32_register decode64_register by metis
    have fin: "defined (xbind (x86_finish_unsupported al (ls_pc s) (raw_opcode inst)) (\<lambda>_. xreturn False))"
      by (intro defined_intros)
    have step: "x86_lift_one al s = (if st = XAIR_ERR_UNSUPPORTED
        then xbind (x86_finish_unsupported al (ls_pc s) (raw_opcode inst)) (\<lambda>_. xreturn False) s
        else if st \<noteq> XAIR_OK then (Err st, s) else x86_lift_inst al inst (ls_pc s) (ls_pc s + ucast (inst_length inst)) s)"
      unfolding x86_lift_one_def Some option.case s(1) di prod.case ..
    show ?thesis
    proof (cases "st = XAIR_OK")
      case True
      then have "defined (x86_lift_inst al inst (ls_pc s) (ls_pc s + ucast (inst_length inst)))"
        using n by (intro defined_inst) (simp add: names_register_def)
      moreover have "x86_lift_inst al inst (ls_pc s) (ls_pc s + ucast (inst_length inst)) s = (r, s')"
        using step s(2) True by simp
      ultimately show ?thesis using definedD s(1) by blast
    next
      case False
      show ?thesis
      proof (cases "st = XAIR_ERR_UNSUPPORTED")
        case True
        then have "xbind (x86_finish_unsupported al (ls_pc s) (raw_opcode inst)) (\<lambda>_. xreturn False) s = (r, s')"
          using step s(2) by simp
        then show ?thesis using definedD fin s(1) by blast
      qed (use False step s n in \<open>auto simp: names_register_def\<close>)
    qed
  qed (use s in \<open>auto simp: x86_lift_one_def\<close>)
qed

lemma defined_loop: "defined (lift_loop al n)"
  by (induction n) (auto intro!: defined_intros)

lemma block_defined:
  assumes "chosen_decoder opts = d"
  shows "fst (lift_x86_basic_block al img opts existing emit m) \<noteq> Err UNDEFINED_BEHAVIOUR"
proof -
  have "lift_target al opts existing m \<noteq> (Err UNDEFINED_BEHAVIOUR, m')" for m'
    using block_calls_defined(1) by (auto simp: lift_target_def split: option.splits)
  moreover have "lift_loop al n (lift_state_init m1 img opts emit b res) \<noteq> (Err UNDEFINED_BEHAVIOUR, s)" for n m1 b res s
  proof -
    have "ls_decoder (lift_state_init m1 img opts emit b res) = d"
      using assms by (simp add: lift_state_init_def chosen_decoder_def)
    then show ?thesis using definedD [OF defined_loop] by blast
  qed
  ultimately show ?thesis by (auto simp: lift_x86_basic_block_def Let_def split: prod.splits xres.splits)
qed

theorem lift_defined:
  assumes "chosen_decoder opts = d"
  shows "fst (xair_lift_basic_block al img opts m) \<noteq> Err UNDEFINED_BEHAVIOUR"
    "fst (xair_lift_block_body_into al img opts b m) \<noteq> Err UNDEFINED_BEHAVIOUR"
  using block_defined [OF assms] by (simp_all add: xair_lift_basic_block_def xair_lift_block_body_into_def)

end

section \<open>The decoder of the library fulfils it\<close>

lemma branch_status:
  "fst x \<noteq> e \<Longrightarrow> fst y \<noteq> e \<Longrightarrow> fst (if c then x else y) \<noteq> e"
  "fst x \<noteq> e \<Longrightarrow> (\<And>a. fst (f a) \<noteq> e) \<Longrightarrow> fst (case v of None \<Rightarrow> x | Some a \<Rightarrow> f a) \<noteq> e"
  by (auto split: option.split)

lemma finish_status: "fst (finish_inst mn os i inst) \<noteq> UNDEFINED_BEHAVIOUR" "fst (decode_unsupported opc opc2 inst) \<noteq> UNDEFINED_BEHAVIOUR"
  by (simp_all add: finish_inst_def decode_unsupported_def)

lemma group_status:
  "fst (decode_mov_imm bs opc rex mode i inst out) \<noteq> UNDEFINED_BEHAVIOUR"
  "fst (decode_modrm_move_or_lea bs opc rex mode i inst) \<noteq> UNDEFINED_BEHAVIOUR"
  "fst (decode_modrm_binary bs opc rex mode i inst) \<noteq> UNDEFINED_BEHAVIOUR"
  "fst (decode_group1_imm bs opc rex mode i inst) \<noteq> UNDEFINED_BEHAVIOUR"
  "fst (decode_rel8 bs mn i inst out) \<noteq> UNDEFINED_BEHAVIOUR" "fst (decode_rel32 bs mn i inst out) \<noteq> UNDEFINED_BEHAVIOUR"
  by (simp_all add: decode_mov_imm_def decode_modrm_move_or_lea_def decode_modrm_binary_def decode_group1_imm_def
      decode_rel8_def decode_rel32_def Let_def finish_status split: option.split xres.split prod.split)

lemma opcode_status: "fst (decode_opcode bs mode rex opc i out) \<noteq> UNDEFINED_BEHAVIOUR"
  unfolding decode_opcode_def Let_def using group_status finish_status
  by (intro branch_status) simp_all

lemma decode_status: "fst (xair_x86_decode_mode mode bs out) \<noteq> UNDEFINED_BEHAVIOUR"
  by (simp add: xair_x86_decode_mode_def opcode_status split: option.split prod.split)

lemma decode_names_register:
  assumes "mode \<in> {32, 64}"
  shows "names_register (xair_x86_decode_mode mode bs out)"
proof -
  obtain st inst where di: "xair_x86_decode_mode mode bs out = (st, inst)" by fastforce
  have "reg < XAIR_X86_REG_COUNT" if ok: "st = XAIR_OK" and reg: "x86_get_reg_operand inst 0 = Some reg" for reg
  proof -
    have "inst_ok mode inst" using decode_mode_inst_ok di ok by simp
    moreover obtain b where "0 < operand_count inst" "operands inst ! 0 = XAIR_X86_OPERAND_REGISTER b reg"
      using reg by (auto simp: x86_get_reg_operand_def split: if_splits xair_x86_operand.splits)
    ultimately have "operand_ok mode (XAIR_X86_OPERAND_REGISTER b reg)"
      by (auto simp: inst_ok_def list_all_length dest!: spec [of _ 0])
    then show ?thesis using assms by (auto simp: reg_ok_def split: if_splits)
  qed
  then show ?thesis using decode_status [of mode bs out] di by (simp add: names_register_def)
qed

lemma backend_ok_iff: "backend_ok d \<longleftrightarrow> decoder_backend d"
  by (auto simp: backend_ok_def decoder_backend_def)

interpretation stub: decoder_backend xair_x86_default_decoder
  by unfold_locales
    (simp_all add: xair_x86_default_decoder_def xair_x86_stub_decoder_def xair_x86_decode32_def xair_x86_decode64_def decode_names_register)

end
