(* ===== verification/Xair_Compact.thy ===== *)
theory Xair_Compact
  imports Xair_Canon_Sound
begin

text \<open>
  Dead-value elimination (\<open>eliminate_dead_values\<close> and \<open>compact_live_values\<close> of \<^verbatim>\<open>src/src/xair.c\<close>). The marking phase
  computes a set of values that contains all parameters and all values terminators use and is closed under the sources
  of operations. The numbering phase gives the kept values and operations consecutive identifiers in the order of the
  blocks; the copying phase writes records through those maps into new arrays and renames the arguments of terminators
  in place. The theorems give the new module in closed form.
\<close>

section \<open>Updating an array at distinct positions\<close>

lemma fold_update_length [simp]: "length (fold (\<lambda>x ys. ys[f x := h x (ys ! f x)]) xs ys) = length ys"
  by (induction xs arbitrary: ys) auto

lemma fold_update_other: "k \<notin> f ` set xs \<Longrightarrow> fold (\<lambda>x ys. ys[f x := h x (ys ! f x)]) xs ys ! k = ys ! k"
  by (induction xs arbitrary: ys) auto

lemma fold_update_at:
  "distinct (map f xs) \<Longrightarrow> x \<in> set xs \<Longrightarrow> f x < length ys \<Longrightarrow>
    fold (\<lambda>x ys. ys[f x := h x (ys ! f x)]) xs ys ! f x = h x (ys ! f x)"
proof (induction xs arbitrary: ys)
  case (Cons y xs)
  show ?case
  proof (cases "x = y")
    case True
    then have "f x \<notin> f ` set xs" using Cons.prems(1) by auto
    then show ?thesis using Cons.prems(3) True by (simp add: fold_update_other)
  next
    case False
    then have "x \<in> set xs" "f x \<noteq> f y" using Cons.prems(1,2) by (auto simp: image_iff)
    then show ?thesis using Cons by simp
  qed
qed simp

section \<open>Marking\<close>

text \<open>Every marked value has its sources marked, or still on the stack.\<close>

definition marked_upto :: "xair_module \<Rightarrow> bool list \<Rightarrow> xair_value_id set \<Rightarrow> bool" where
  "marked_upto m live S \<longleftrightarrow> length live = length (vals m) \<and>
     (\<forall>v < length live. live ! v \<longrightarrow> (\<forall>s \<in> set (def_srcs m v). s < length live \<longrightarrow> live ! s \<or> s \<in> S))"

lemma mark_live_spec:
  "marked_upto m live (set vs) \<Longrightarrow> marked_upto m (mark_live m vs live) {} \<and>
    (\<forall>v < length live. live ! v \<or> v \<in> set vs \<longrightarrow> mark_live m vs live ! v)"
proof (induction m vs live rule: mark_live.induct)
  case (2 m v vs live)
  show ?case
  proof (cases "\<not> valid_value m v \<or> v \<ge> length live \<or> live ! v")
    case True
    have "length live = length (vals m)" using "2.prems" by (simp add: marked_upto_def)
    then have "marked_upto m live (set vs)" using True "2.prems" by (auto simp: marked_upto_def valid_value_def)
    then show ?thesis using "2.IH"(1) [OF True] True "2.prems" by (auto simp: marked_upto_def valid_value_def)
  next
    case False
    then have "marked_upto m (live[v := True]) (set (def_srcs m v @ vs))"
      using "2.prems" by (auto simp: marked_upto_def nth_list_update) metis
    then show ?thesis using "2.IH"(2) [OF False] False by (auto simp: nth_list_update)
  qed
qed simp

lemma mark_value_spec:
  assumes "marked_upto m live {}"
  shows "marked_upto m (mark_live_value m v live) {} \<and> (\<forall>w < length live. live ! w \<or> w = v \<longrightarrow> mark_live_value m v live ! w)"
proof -
  have "marked_upto m live (set [v])" using assms by (auto simp: marked_upto_def)
  from mark_live_spec [OF this] show ?thesis by (auto simp: mark_live_value_def)
qed

lemma mark_values_spec:
  "marked_upto m live {} \<Longrightarrow> marked_upto m (fold (mark_live_value m) vs live) {} \<and>
    (\<forall>w < length live. live ! w \<or> w \<in> set vs \<longrightarrow> fold (mark_live_value m) vs live ! w)"
proof (induction vs arbitrary: live)
  case (Cons v vs)
  note 1 = mark_value_spec [OF Cons.prems, of v]
  moreover have "length (mark_live_value m v live) = length live" using 1 Cons.prems by (auto simp: marked_upto_def)
  ultimately show ?case using Cons.IH [of "mark_live_value m v live"] by auto
qed simp

lemma mark_block_spec:
  assumes "marked_upto m live {}"
  shows "marked_upto m (mark_block_live m bb live) {} \<and>
    (\<forall>w < length live. live ! w \<or> w \<in> set (params bb) \<or> w \<in> set (term_uses m (blk_term bb)) \<longrightarrow> mark_block_live m bb live ! w)"
proof -
  note 1 = mark_values_spec [OF assms, of "params bb"]
  moreover have "length (fold (mark_live_value m) (params bb) live) = length live" using 1 assms by (auto simp: marked_upto_def)
  ultimately show ?thesis
    using mark_values_spec [of m "fold (mark_live_value m) (params bb) live" "term_uses m (blk_term bb)"]
    by (simp add: mark_block_live_def mark_term_live_values_def)
qed

lemma mark_blocks_spec:
  "marked_upto m live {} \<Longrightarrow> marked_upto m (fold (mark_block_live m) bbs live) {} \<and>
    (\<forall>w < length live. live ! w \<or> (\<exists>bb \<in> set bbs. w \<in> set (params bb) \<or> w \<in> set (term_uses m (blk_term bb))) \<longrightarrow>
      fold (mark_block_live m) bbs live ! w)"
proof (induction bbs arbitrary: live)
  case (Cons bb bbs)
  note 1 = mark_block_spec [OF Cons.prems, of bb]
  moreover have "length (mark_block_live m bb live) = length live" using 1 Cons.prems by (auto simp: marked_upto_def)
  ultimately show ?case using Cons.IH [of "mark_block_live m bb live"] by auto
qed simp

text \<open>What is live: parameters, what terminators use, and the sources of what is live.\<close>

definition live_closed :: "xair_module \<Rightarrow> bool list \<Rightarrow> bool" where
  "live_closed m live \<longleftrightarrow> length live = length (vals m) \<and>
     (\<forall>bb \<in> set (blocks m). \<forall>v \<in> set (params bb) \<union> set (term_uses m (blk_term bb)). v < length (vals m) \<longrightarrow> live ! v) \<and>
     (\<forall>v < length (vals m). live ! v \<longrightarrow> (\<forall>s \<in> set (def_srcs m v). s < length (vals m) \<longrightarrow> live ! s))"

lemma live_values_closed: "live_closed m (live_values m)"
proof -
  have "marked_upto m (replicate (length (vals m)) False) {}" by (simp add: marked_upto_def)
  from mark_blocks_spec [OF this, of "blocks m"] show ?thesis
    by (auto simp: live_closed_def live_values_def marked_upto_def)
qed

section \<open>Numbering\<close>

text \<open>The values and operations that are kept, in the order of the blocks.\<close>

definition kept_ops :: "xair_module \<Rightarrow> bool list \<Rightarrow> xair_block_rec \<Rightarrow> xair_op_id list" where
  "kept_ops m live bb = filter (\<lambda>i. live ! dst (ops m ! i)) (blk_ops bb)"

definition kept_values :: "xair_module \<Rightarrow> bool list \<Rightarrow> xair_block_rec \<Rightarrow> xair_value_id list" where
  "kept_values m live bb = params bb @ map (\<lambda>i. dst (ops m ! i)) (kept_ops m live bb)"

definition all_ops :: "xair_module \<Rightarrow> bool list \<Rightarrow> xair_op_id list" where
  "all_ops m live = concat (map (kept_ops m live) (blocks m))"

definition all_values :: "xair_module \<Rightarrow> bool list \<Rightarrow> xair_value_id list" where
  "all_values m live = concat (map (kept_values m live) (blocks m))"

text \<open>The maps after numbering the values \<open>vs\<close> and the operations \<open>is\<close>: each has its position as its new identifier.\<close>

definition positions :: "nat \<Rightarrow> nat list \<Rightarrow> nat list \<Rightarrow> bool" where
  "positions n vs mp \<longleftrightarrow> length mp = n \<and> (\<forall>k < length vs. mp ! (vs ! k) = k) \<and> (\<forall>v < n. v \<notin> set vs \<longrightarrow> mp ! v = XAIR_INVALID_ID)"

definition numbers :: "xair_module \<Rightarrow> id_maps \<Rightarrow> xair_value_id list \<Rightarrow> xair_op_id list \<Rightarrow> bool" where
  "numbers m mp vs js \<longleftrightarrow> positions (length (vals m)) vs (value_map mp) \<and> positions (length (ops m)) js (op_map mp) \<and>
     new_value_count mp = length vs \<and> new_op_count mp = length js"

lemma positions_snoc:
  assumes "positions n vs mp" "v < n" "v \<notin> set vs"
  shows "positions n (vs @ [v]) (mp[v := length vs])"
proof -
  have "mp[v := length vs] ! (vs ! k) = k" if "k < length vs" for k
  proof -
    have "vs ! k \<noteq> v" using assms(3) that by (metis nth_mem)
    then show ?thesis using assms(1) that by (simp add: positions_def)
  qed
  then show ?thesis using assms by (auto simp: positions_def nth_append less_Suc_eq)
qed

lemma numbers_params:
  "numbers m mp vs js \<Longrightarrow> distinct (vs @ ps) \<Longrightarrow> \<forall>p \<in> set ps. p < length (vals m) \<Longrightarrow>
    numbers m (fold number_param ps mp) (vs @ ps) js"
proof (induction ps arbitrary: mp vs)
  case (Cons p ps)
  then have "numbers m (number_param p mp) (vs @ [p]) js"
    using positions_snoc [of "length (vals m)" vs "value_map mp" p] by (simp add: numbers_def number_param_def)
  then show ?case using Cons.IH [of "number_param p mp" "vs @ [p]"] Cons.prems by simp
qed simp

lemma numbers_ops:
  assumes "\<forall>i \<in> set ids. i < length (ops m) \<and> dst (ops m ! i) < length (vals m)"
  shows "numbers m mp vs js \<Longrightarrow>
    distinct (vs @ map (\<lambda>i. dst (ops m ! i)) (filter (\<lambda>i. live ! dst (ops m ! i)) ids)) \<Longrightarrow>
    distinct (js @ filter (\<lambda>i. live ! dst (ops m ! i)) ids) \<Longrightarrow>
    numbers m (fold (number_op m live) ids mp) (vs @ map (\<lambda>i. dst (ops m ! i)) (filter (\<lambda>i. live ! dst (ops m ! i)) ids))
      (js @ filter (\<lambda>i. live ! dst (ops m ! i)) ids)"
  using assms
proof (induction ids arbitrary: mp vs js)
  case (Cons i ids)
  show ?case
  proof (cases "live ! dst (ops m ! i)")
    case True
    then have "numbers m (number_op m live i mp) (vs @ [dst (ops m ! i)]) (js @ [i])"
      using Cons.prems positions_snoc [of "length (vals m)" vs "value_map mp" "dst (ops m ! i)"]
        positions_snoc [of "length (ops m)" js "op_map mp" i]
      by (simp add: numbers_def number_op_def Let_def)
    then show ?thesis using Cons.IH [of "number_op m live i mp" "vs @ [dst (ops m ! i)]" "js @ [i]"] Cons.prems True by simp
  next
    case False
    then show ?thesis using Cons by (simp add: number_op_def)
  qed
qed simp

lemma numbers_block:
  assumes "numbers m mp vs js" "distinct (vs @ kept_values m live bb)" "distinct (js @ kept_ops m live bb)"
    "\<forall>p \<in> set (params bb). p < length (vals m)" "\<forall>i \<in> set (blk_ops bb). i < length (ops m) \<and> dst (ops m ! i) < length (vals m)"
  shows "numbers m (number_block m live bb mp) (vs @ kept_values m live bb) (js @ kept_ops m live bb)"
proof -
  have "numbers m (fold number_param (params bb) mp) (vs @ params bb) js"
    using assms by (intro numbers_params) (auto simp: kept_values_def)
  from numbers_ops [OF assms(5) this, of live] show ?thesis
    using assms(2,3) by (simp add: number_block_def kept_values_def kept_ops_def)
qed

lemma numbers_blocks:
  assumes "\<forall>bb \<in> set bbs. (\<forall>p \<in> set (params bb). p < length (vals m)) \<and>
      (\<forall>i \<in> set (blk_ops bb). i < length (ops m) \<and> dst (ops m ! i) < length (vals m))"
  shows "numbers m mp vs js \<Longrightarrow> distinct (vs @ concat (map (kept_values m live) bbs)) \<Longrightarrow>
    distinct (js @ concat (map (kept_ops m live) bbs)) \<Longrightarrow>
    numbers m (fold (number_block m live) bbs mp) (vs @ concat (map (kept_values m live) bbs)) (js @ concat (map (kept_ops m live) bbs))"
  using assms
proof (induction bbs arbitrary: mp vs js)
  case (Cons bb bbs)
  then have "numbers m (number_block m live bb mp) (vs @ kept_values m live bb) (js @ kept_ops m live bb)"
    by (intro numbers_block) auto
  then show ?case
    using Cons.IH [of "number_block m live bb mp" "vs @ kept_values m live bb" "js @ kept_ops m live bb"] Cons.prems by simp
qed simp

section \<open>Linked modules\<close>

text \<open>The parts of well-formedness that canonicalization of the operations keeps.\<close>

definition linked :: "xair_module \<Rightarrow> bool" where
  "linked m \<longleftrightarrow> length (vals m) \<le> UINT32_MAX \<and> length (ops m) \<le> UINT32_MAX \<and> (\<forall>v < length (vals m). value_wf m v) \<and>
     (\<forall>i < length (ops m). op_wf m i) \<and> (\<forall>b < length (blocks m). block_wf m b) \<and> terms_wf m"

lemma wf_linked: "wf_module m \<Longrightarrow> linked m"
  by (simp add: wf_module_def linked_def terms_wf_def)

lemma rewrites_linked:
  assumes "mod_rewrites m m'" "linked m"
  shows "linked m'"
proof -
  have eq: "vals m' = vals m" "blocks m' = blocks m" "term_args m' = term_args m" "length (ops m') = length (ops m)"
    and rw: "\<And>i. i < length (ops m) \<Longrightarrow> op_rewrites m (ops m ! i) (ops m' ! i)"
    using assms(1) by (auto simp: mod_rewrites_def)
  have dst: "dst (ops m' ! i) = dst (ops m ! i)" if "i < length (ops m)" for i using rw [OF that] by (simp add: op_rewrites_def)
  have "op_wf m' i" if i: "i < length (ops m)" for i
    using assms(2) i rw [OF i] by (auto simp: linked_def op_wf_def op_rewrites_def Let_def eq)
  moreover have "value_wf m' v" if "v < length (vals m)" for v
    using assms(2) that dst by (auto simp: linked_def value_wf_def Let_def eq split: if_splits)
  moreover have "block_wf m' b" if "b < length (blocks m)" for b
    using assms(2) that dst by (auto simp: linked_def block_wf_def Let_def eq)
  moreover have "terms_wf m'" using assms(2) by (simp add: linked_def terms_wf_def term_wf_def eq)
  ultimately show ?thesis using assms(2) by (simp add: linked_def eq)
qed

lemma linked_block:
  assumes "linked m" "b < length (blocks m)"
  shows "p \<in> set (params (blocks m ! b)) \<Longrightarrow> p < length (vals m) \<and> val_block (vals m ! p) = b \<and> val_op (vals m ! p) = XAIR_INVALID_ID"
    "i \<in> set (blk_ops (blocks m ! b)) \<Longrightarrow> i < length (ops m) \<and> dst (ops m ! i) < length (vals m) \<and>
      val_block (vals m ! dst (ops m ! i)) = b \<and> val_op (vals m ! dst (ops m ! i)) = i"
    "distinct (params (blocks m ! b))" "distinct (blk_ops (blocks m ! b))"
proof -
  have b: "block_wf m b" using assms by (simp add: linked_def)
  then show "distinct (params (blocks m ! b))" "distinct (blk_ops (blocks m ! b))"
    by (auto simp: block_wf_def Let_def strict_sorted_iff)
  show "p \<in> set (params (blocks m ! b)) \<Longrightarrow> p < length (vals m) \<and> val_block (vals m ! p) = b \<and> val_op (vals m ! p) = XAIR_INVALID_ID"
    using b by (simp add: block_wf_def Let_def)
  assume i: "i \<in> set (blk_ops (blocks m ! b))"
  then have "i < length (ops m)" "val_block (vals m ! dst (ops m ! i)) = b" using b by (auto simp: block_wf_def Let_def)
  moreover have "op_wf m i" using assms(1) \<open>i < length (ops m)\<close> by (simp add: linked_def)
  ultimately show "i < length (ops m) \<and> dst (ops m ! i) < length (vals m) \<and>
      val_block (vals m ! dst (ops m ! i)) = b \<and> val_op (vals m ! dst (ops m ! i)) = i" by (simp add: op_wf_def Let_def)
qed

lemma kept_values_block:
  assumes "linked m" "b < length (blocks m)" "v \<in> set (kept_values m live (blocks m ! b))"
  shows "v < length (vals m)" "val_block (vals m ! v) = b"
  using assms(3) linked_block [OF assms(1,2)] by (auto simp: kept_values_def kept_ops_def)

lemma distinct_kept:
  assumes "linked m" "b < length (blocks m)"
  shows "distinct (kept_values m live (blocks m ! b))" "distinct (kept_ops m live (blocks m ! b))"
proof -
  note lb = linked_block [OF assms]
  show o: "distinct (kept_ops m live (blocks m ! b))" using lb(4) by (simp add: kept_ops_def)
  have "inj_on (\<lambda>i. dst (ops m ! i)) (set (kept_ops m live (blocks m ! b)))"
    by (rule inj_on_inverseI [where g = "\<lambda>v. val_op (vals m ! v)"]) (use lb(2) in \<open>auto simp: kept_ops_def\<close>)
  moreover have "dst (ops m ! i) \<notin> set (params (blocks m ! b))" if "i \<in> set (kept_ops m live (blocks m ! b))" for i
  proof
    assume "dst (ops m ! i) \<in> set (params (blocks m ! b))"
    then have "val_op (vals m ! dst (ops m ! i)) = XAIR_INVALID_ID" using lb(1) by blast
    then have "i = XAIR_INVALID_ID" using lb(2) [of i] that by (simp add: kept_ops_def)
    then show False using lb(2) [of i] that assms(1) by (simp add: kept_ops_def linked_def)
  qed
  ultimately show "distinct (kept_values m live (blocks m ! b))" using o lb(3) by (auto simp: kept_values_def distinct_map)
qed

text \<open>Lists that belong to the blocks are distinct together when each is and no two share an element.\<close>

lemma distinct_disjoint:
  assumes "\<And>b. b < length bs \<Longrightarrow> distinct (f (bs ! b))"
    "\<And>b d. b < d \<Longrightarrow> d < length bs \<Longrightarrow> set (f (bs ! b)) \<inter> set (f (bs ! d)) = {}"
  shows "distinct (concat (map f bs))"
  using assms
proof (induction bs rule: rev_induct)
  case (snoc x xs)
  have "distinct (concat (map f xs))"
  proof (rule snoc.IH)
    show "distinct (f (xs ! b))" if "b < length xs" for b using snoc.prems(1) [of b] that by (simp add: nth_append)
    show "set (f (xs ! b)) \<inter> set (f (xs ! d)) = {}" if "b < d" "d < length xs" for b d
      using snoc.prems(2) [of b d] that by (simp add: nth_append)
  qed
  moreover have "distinct (f x)" using snoc.prems(1) [of "length xs"] by simp
  moreover have "set (f y) \<inter> set (f x) = {}" if "y \<in> set xs" for y
  proof -
    from that obtain b where "b < length xs" "y = xs ! b" by (metis in_set_conv_nth)
    then show ?thesis using snoc.prems(2) [of b "length xs"] by (simp add: nth_append)
  qed
  ultimately show ?case by fastforce
qed simp

lemma distinct_over_blocks:
  assumes "\<And>b. b < length bs \<Longrightarrow> distinct (f (bs ! b))" "\<And>b x. b < length bs \<Longrightarrow> x \<in> set (f (bs ! b)) \<Longrightarrow> g x = b"
  shows "distinct (concat (map f bs))"
proof (rule distinct_disjoint)
  fix b d assume "b < d" "d < length bs"
  then show "set (f (bs ! b)) \<inter> set (f (bs ! d)) = {}" using assms(2) [of b] assms(2) [of d] by fastforce
qed (rule assms(1))

lemma distinct_all:
  assumes "linked m"
  shows "distinct (all_values m live)" "distinct (all_ops m live)"
proof -
  show "distinct (all_values m live)" unfolding all_values_def
    by (rule distinct_over_blocks [where g = "\<lambda>v. val_block (vals m ! v)"])
      (use distinct_kept [OF assms] kept_values_block [OF assms] in auto)
  show "distinct (all_ops m live)" unfolding all_ops_def
    by (rule distinct_over_blocks [where g = "\<lambda>i. val_block (vals m ! dst (ops m ! i))"])
      (use distinct_kept [OF assms] linked_block(2) [OF assms] in \<open>auto simp: kept_ops_def\<close>)
qed

lemma number_live_numbers:
  assumes "linked m"
  shows "numbers m (number_live m live) (all_values m live) (all_ops m live)"
proof -
  have 0: "numbers m \<lparr>value_map = replicate (length (vals m)) XAIR_INVALID_ID, op_map = replicate (length (ops m)) XAIR_INVALID_ID,
      new_value_count = 0, new_op_count = 0\<rparr> [] []"
    by (simp add: numbers_def positions_def)
  have b: "\<forall>bb \<in> set (blocks m). (\<forall>p \<in> set (params bb). p < length (vals m)) \<and>
      (\<forall>i \<in> set (blk_ops bb). i < length (ops m) \<and> dst (ops m ! i) < length (vals m))"
    using linked_block(1,2) [OF assms] by (auto simp: in_set_conv_nth [of _ "blocks m"])
  from numbers_blocks [OF b 0, of live] distinct_all [OF assms, of live] show ?thesis
    by (simp add: number_live_def all_values_def all_ops_def)
qed

section \<open>Copying\<close>

text \<open>The positions of the argument array that a terminator owns.\<close>

definition term_slots :: "xair_term_rec \<Rightarrow> nat list" where
  "term_slots t =
     (case term_kind t of
        XAIR_TERM_JUMP \<Rightarrow> [true_arg_offset t..<true_arg_offset t + true_arg_count t]
      | XAIR_TERM_RETURN \<Rightarrow> [true_arg_offset t..<true_arg_offset t + true_arg_count t]
      | XAIR_TERM_CBRANCH \<Rightarrow> [true_arg_offset t..<true_arg_offset t + true_arg_count t] @
          [false_arg_offset t..<false_arg_offset t + false_arg_count t]
      | _ \<Rightarrow> [])"

definition all_slots :: "xair_module \<Rightarrow> nat list" where
  "all_slots m = concat (map (\<lambda>bb. term_slots (blk_term bb)) (blocks m))"

definition ren_term :: "nat list \<Rightarrow> xair_term_rec \<Rightarrow> xair_term_rec" where
  "ren_term vm t = (if term_kind t = XAIR_TERM_CBRANCH then t\<lparr>condition := vm ! condition t\<rparr> else t)"

definition ren_slots :: "nat list \<Rightarrow> nat list \<Rightarrow> xair_value_id list \<Rightarrow> xair_value_id list" where
  "ren_slots vm ks args = fold (\<lambda>k as. as[k := vm ! (as ! k)]) ks args"

lemma remap_args_slots: "remap_args vm off n args = ren_slots vm [off..<off + n] args"
proof -
  have "[off..<off + n] = map (\<lambda>i. off + i) [0..<n]" by (simp add: map_add_upt add.commute)
  then show ?thesis by (simp add: remap_args_def ren_slots_def fold_map comp_def)
qed

lemma compact_term_eq: "compact_term vm t args = (ren_term vm t, ren_slots vm (term_slots t) args)"
  by (cases "term_kind t") (simp_all add: compact_term_def ren_term_def term_slots_def remap_args_slots, simp_all add: ren_slots_def)

definition put_op :: "xair_module \<Rightarrow> id_maps \<Rightarrow> xair_op_id \<Rightarrow> xair_op_rec list \<Rightarrow> xair_op_rec list" where
  "put_op m mp i no = no[op_map mp ! i := remap_op (value_map mp) (ops m ! i)]"

definition put_link :: "xair_module \<Rightarrow> id_maps \<Rightarrow> xair_op_id \<Rightarrow> xair_value_rec list \<Rightarrow> xair_value_rec list" where
  "put_link m mp i nv = nv[value_map mp ! dst (ops m ! i) := (nv ! (value_map mp ! dst (ops m ! i)))\<lparr>val_op := op_map mp ! i\<rparr>]"

definition mapped_ops :: "id_maps \<Rightarrow> xair_block_rec \<Rightarrow> xair_op_id list" where
  "mapped_ops mp bb = filter (\<lambda>i. op_map mp ! i \<noteq> XAIR_INVALID_ID) (blk_ops bb)"

lemma compact_ops_eq:
  "compact_ops m mp ids (no, nv) =
    (let js = filter (\<lambda>i. op_map mp ! i \<noteq> XAIR_INVALID_ID) ids
     in (map ((!) (op_map mp)) js, fold (put_op m mp) js no, fold (put_link m mp) js nv))"
proof (induction ids arbitrary: no nv)
  case (Cons i ids)
  have "dst (remap_op (value_map mp) (ops m ! i)) = value_map mp ! dst (ops m ! i)" by (simp add: remap_op_def)
  then show ?case using Cons by (simp add: Let_def put_op_def put_link_def)
qed simp

lemma compact_blocks_eq:
  "compact_blocks m mp bbs (no, nv, args) =
    (map (\<lambda>bb. bb\<lparr>params := map ((!) (value_map mp)) (params bb), blk_ops := map ((!) (op_map mp)) (mapped_ops mp bb),
       blk_term := ren_term (value_map mp) (blk_term bb)\<rparr>) bbs,
     fold (put_op m mp) (concat (map (mapped_ops mp) bbs)) no, fold (put_link m mp) (concat (map (mapped_ops mp) bbs)) nv,
     ren_slots (value_map mp) (concat (map (\<lambda>bb. term_slots (blk_term bb)) bbs)) args)"
proof (induction bbs arbitrary: no nv args)
  case (Cons bb bbs)
  then show ?case
    by (simp add: compact_ops_eq compact_term_eq Let_def mapped_ops_def [symmetric]) (simp add: ren_slots_def)
qed (simp add: ren_slots_def)

text \<open>The new arrays.\<close>

lemma ren_slots_nth:
  assumes "distinct ks" "k < length args"
  shows "ren_slots vm ks args ! k = (if k \<in> set ks then vm ! (args ! k) else args ! k)"
proof (cases "k \<in> set ks")
  case True
  then show ?thesis using fold_update_at [of "\<lambda>k. k" ks k args "\<lambda>k x. vm ! x"] assms by (simp add: ren_slots_def)
next
  case False
  then show ?thesis using fold_update_other [of k "\<lambda>k. k" ks "\<lambda>k x. vm ! x" args] by (simp add: ren_slots_def)
qed

lemma length_ren_slots [simp]: "length (ren_slots vm ks args) = length args"
  unfolding ren_slots_def using fold_update_length [of "\<lambda>k. k" "\<lambda>k x. vm ! x" ks args] by simp

lemma positions_index:
  assumes "positions n vs mp" "v \<in> set vs"
  shows "mp ! v < length vs" "vs ! (mp ! v) = v"
  using assms by (auto simp: positions_def in_set_conv_nth)

lemma positions_inj: "positions n vs mp \<Longrightarrow> inj_on ((!) mp) (set vs)"
  by (rule inj_on_inverseI [where g = "(!) vs"]) (rule positions_index)

lemma distinct_bounded: "distinct xs \<Longrightarrow> \<forall>x \<in> set xs. x < n \<Longrightarrow> length xs \<le> n" for xs :: "nat list"
  using card_mono [of "{..<n}" "set xs"] by (auto simp: distinct_card)

lemma all_values_less: "linked m \<Longrightarrow> v \<in> set (all_values m live) \<Longrightarrow> v < length (vals m)"
  using kept_values_block(1) [of m] by (auto simp: all_values_def in_set_conv_nth [of _ "blocks m"])

lemma all_ops_less: "linked m \<Longrightarrow> i \<in> set (all_ops m live) \<Longrightarrow> i < length (ops m)"
  using linked_block(2) [of m] by (auto simp: all_ops_def kept_ops_def in_set_conv_nth [of _ "blocks m"])

lemma all_values_ops: "i \<in> set (all_ops m live) \<Longrightarrow> dst (ops m ! i) \<in> set (all_values m live)"
  by (auto simp: all_ops_def all_values_def kept_values_def)

text \<open>An identifier is mapped exactly when it is kept.\<close>

lemma mapped_iff:
  assumes "positions n vs mp" "distinct vs" "\<forall>x \<in> set vs. x < n" "n \<le> UINT32_MAX" "v < n"
  shows "mp ! v \<noteq> XAIR_INVALID_ID \<longleftrightarrow> v \<in> set vs"
proof
  assume "v \<in> set vs"
  then have "mp ! v < n" using positions_index(1) [OF assms(1)] distinct_bounded [OF assms(2,3)] by fastforce
  then show "mp ! v \<noteq> XAIR_INVALID_ID" using assms(4) by simp
qed (use assms in \<open>auto simp: positions_def\<close>)

lemma mapped_values:
  assumes "linked m" "v < length (vals m)"
  shows "value_map (number_live m live) ! v \<noteq> XAIR_INVALID_ID \<longleftrightarrow> v \<in> set (all_values m live)"
  using number_live_numbers [OF assms(1), of live] distinct_all(1) [OF assms(1)] all_values_less [OF assms(1)] assms
  by (intro mapped_iff [where n = "length (vals m)"]) (auto simp: numbers_def linked_def)

lemma mapped_ops_kept:
  assumes "linked m" "bb \<in> set (blocks m)"
  shows "mapped_ops (number_live m live) bb = kept_ops m live bb"
proof -
  obtain b where b: "b < length (blocks m)" "bb = blocks m ! b" using assms(2) by (metis in_set_conv_nth)
  have "op_map (number_live m live) ! i \<noteq> XAIR_INVALID_ID \<longleftrightarrow> live ! dst (ops m ! i)" if i: "i \<in> set (blk_ops bb)" for i
  proof -
    have less: "i < length (ops m)" using linked_block(2) [OF assms(1) b(1)] i b(2) by blast
    then have "op_map (number_live m live) ! i \<noteq> XAIR_INVALID_ID \<longleftrightarrow> i \<in> set (all_ops m live)"
      using number_live_numbers [OF assms(1), of live] distinct_all(2) [OF assms(1)] all_ops_less [OF assms(1)] assms(1)
      by (intro mapped_iff [where n = "length (ops m)"]) (auto simp: numbers_def linked_def)
    then show ?thesis using i assms(2) by (auto simp: all_ops_def kept_ops_def)
  qed
  then show ?thesis unfolding mapped_ops_def kept_ops_def by (rule filter_cong [OF refl])
qed

lemma all_mapped_ops: "linked m \<Longrightarrow> concat (map (mapped_ops (number_live m live)) (blocks m)) = all_ops m live"
  using mapped_ops_kept [of m _ live] by (simp add: all_ops_def cong: map_cong)

lemma copied_ops:
  assumes "linked m" "i \<in> set (all_ops m live)"
  defines "mp \<equiv> number_live m live"
  shows "fold (put_op m mp) (all_ops m live) (replicate (new_op_count mp) z) ! (op_map mp ! i) = remap_op (value_map mp) (ops m ! i)"
proof -
  have n: "positions (length (ops m)) (all_ops m live) (op_map mp)" "new_op_count mp = length (all_ops m live)"
    using number_live_numbers [OF assms(1), of live] by (simp_all add: numbers_def mp_def)
  have "put_op m mp = (\<lambda>x ys. ys[op_map mp ! x := (\<lambda>x y. remap_op (value_map mp) (ops m ! x)) x (ys ! (op_map mp ! x))])"
    by (simp add: fun_eq_iff put_op_def)
  then show ?thesis
    using fold_update_at [of "(!) (op_map mp)" "all_ops m live" i "replicate (new_op_count mp) z" "\<lambda>x y. remap_op (value_map mp) (ops m ! x)"]
      positions_index(1) [OF n(1) assms(2)] positions_inj [OF n(1)] distinct_all(2) [OF assms(1), of live] assms(2) n(2)
    by (simp add: distinct_map)
qed

lemma copied_values:
  assumes "linked m" "v \<in> set (all_values m live)"
  defines "mp \<equiv> number_live m live"
  shows "fold (copy_live_value m (value_map mp)) [0..<length (vals m)] (replicate (new_value_count mp) z) ! (value_map mp ! v) =
    (vals m ! v)\<lparr>val_op := XAIR_INVALID_ID\<rparr>"
proof -
  have n: "positions (length (vals m)) (all_values m live) (value_map mp)" "new_value_count mp = length (all_values m live)"
    using number_live_numbers [OF assms(1), of live] by (simp_all add: numbers_def mp_def)
  let ?ks = "filter (\<lambda>v. value_map mp ! v \<noteq> XAIR_INVALID_ID) [0..<length (vals m)]"
  have ks: "set ?ks = set (all_values m live)"
    using mapped_values [OF assms(1)] all_values_less [OF assms(1)] by (auto simp: mp_def)
  let ?h = "\<lambda>v (y :: xair_value_rec). (vals m ! v)\<lparr>val_op := XAIR_INVALID_ID\<rparr>"
  have "fold (copy_live_value m (value_map mp)) [0..<length (vals m)] = fold (\<lambda>v ys. ys[value_map mp ! v := ?h v (ys ! (value_map mp ! v))]) ?ks"
    unfolding fold_filter by (rule arg_cong2 [where f = fold]) (simp_all add: fun_eq_iff copy_live_value_def)
  moreover have "distinct (map ((!) (value_map mp)) ?ks)" using positions_inj [OF n(1)] ks by (simp add: distinct_map)
  moreover have "v \<in> set ?ks" unfolding ks by (rule assms(2))
  ultimately show ?thesis
    using fold_update_at [of "(!) (value_map mp)" ?ks v "replicate (new_value_count mp) z" ?h]
      positions_index(1) [OF n(1) assms(2)] n(2) by simp
qed

text \<open>A kept value is a parameter or the destination of a kept operation.\<close>

lemma kept_value_cases:
  assumes "linked m" "v \<in> set (all_values m live)"
  obtains (param) "val_op (vals m ! v) = XAIR_INVALID_ID"
  | (op) "val_op (vals m ! v) \<in> set (all_ops m live)" "dst (ops m ! val_op (vals m ! v)) = v" "val_op (vals m ! v) \<noteq> XAIR_INVALID_ID"
proof -
  from assms(2) obtain bb where bb: "bb \<in> set (blocks m)" "v \<in> set (kept_values m live bb)" by (auto simp: all_values_def)
  then obtain b where b: "b < length (blocks m)" "bb = blocks m ! b" by (metis in_set_conv_nth)
  consider "v \<in> set (params bb)" | i where "v = dst (ops m ! i)" "i \<in> set (kept_ops m live bb)" using bb(2) by (auto simp: kept_values_def)
  then show thesis
  proof cases
    case 1
    then show ?thesis using linked_block(1) [OF assms(1) b(1)] b(2) that(1) by blast
  next
    case (2 i)
    then have "i \<in> set (blk_ops (blocks m ! b))" "i \<in> set (all_ops m live)" using bb(1) b(2) by (auto simp: kept_ops_def all_ops_def)
    then have "val_op (vals m ! v) = i" "i < length (ops m)" using linked_block(2) [OF assms(1) b(1)] 2(1) by auto
    then show ?thesis using that(2) 2(1) \<open>i \<in> set (all_ops m live)\<close> assms(1) by (simp add: linked_def)
  qed
qed

lemma length_copied: "length (fold (copy_live_value m vm) ks ys) = length ys"
  by (induction ks arbitrary: ys) (auto simp: copy_live_value_def)

lemma linked_values:
  fixes z :: xair_value_rec
  assumes "linked m" "v \<in> set (all_values m live)"
  defines "mp \<equiv> number_live m live"
  defines "nv \<equiv> fold (copy_live_value m (value_map mp)) [0..<length (vals m)] (replicate (new_value_count mp) z)"
  shows "fold (put_link m mp) (all_ops m live) nv ! (value_map mp ! v) = (vals m ! v)\<lparr>val_op :=
    (if val_op (vals m ! v) = XAIR_INVALID_ID then XAIR_INVALID_ID else op_map mp ! val_op (vals m ! v))\<rparr>"
proof -
  have n: "positions (length (vals m)) (all_values m live) (value_map mp)" "new_value_count mp = length (all_values m live)"
    using number_live_numbers [OF assms(1), of live] by (simp_all add: numbers_def mp_def)
  let ?f = "\<lambda>i. value_map mp ! dst (ops m ! i)" and ?h = "\<lambda>i (y :: xair_value_rec). y\<lparr>val_op := op_map mp ! i\<rparr>"
  have put: "put_link m mp = (\<lambda>x ys. ys[?f x := ?h x (ys ! ?f x)])" by (simp add: fun_eq_iff put_link_def)
  have nv: "nv ! (value_map mp ! v) = (vals m ! v)\<lparr>val_op := XAIR_INVALID_ID\<rparr>"
    unfolding nv_def mp_def by (rule copied_values [OF assms(1,2)])
  have vop: "val_op (vals m ! dst (ops m ! i)) = i" if "i \<in> set (all_ops m live)" for i
    using all_ops_less [OF assms(1) that] assms(1) by (auto simp: linked_def op_wf_def Let_def)
  have inj: "inj_on ?f (set (all_ops m live))"
  proof (rule inj_onI)
    fix i j assume ij: "i \<in> set (all_ops m live)" "j \<in> set (all_ops m live)" "?f i = ?f j"
    then have "dst (ops m ! i) = dst (ops m ! j)" using positions_inj [OF n(1)] all_values_ops by (meson inj_onD)
    then show "i = j" using vop ij by metis
  qed
  have len: "value_map mp ! v < length nv" using positions_index(1) [OF n(1) assms(2)] n(2)
    by (simp add: nv_def length_copied)
  from assms(1,2) show ?thesis
  proof (cases rule: kept_value_cases)
    case op
    have "distinct (map ?f (all_ops m live))" using inj distinct_all(2) [OF assms(1)] by (simp add: distinct_map)
    then show ?thesis using op fold_update_at [of ?f "all_ops m live" "val_op (vals m ! v)" nv ?h] nv len by (simp add: put)
  next
    case param
    have "value_map mp ! v \<notin> ?f ` set (all_ops m live)"
    proof
      assume "value_map mp ! v \<in> ?f ` set (all_ops m live)"
      then obtain i where i: "i \<in> set (all_ops m live)" "value_map mp ! v = value_map mp ! dst (ops m ! i)" by blast
      then have "v = dst (ops m ! i)" using positions_inj [OF n(1)] all_values_ops assms(2) by (meson inj_onD)
      then have "i = XAIR_INVALID_ID" using vop [OF i(1)] param by simp
      then show False using all_ops_less [OF assms(1) i(1)] assms(1) by (simp add: linked_def)
    qed
    then show ?thesis using fold_update_other [of "value_map mp ! v" ?f "all_ops m live" ?h nv] nv param by (simp add: put)
  qed
qed

section \<open>The compacted module\<close>

text \<open>
  \<open>compacts m live r m'\<close>: \<open>m'\<close> is \<open>m\<close> with the dead operations removed and the live values renamed by \<open>r\<close>, which is
  injective on them.
\<close>

definition ren_op :: "(xair_value_id \<Rightarrow> xair_value_id) \<Rightarrow> xair_op_rec \<Rightarrow> xair_op_rec" where
  "ren_op r oper = oper\<lparr>dst := r (dst oper), src := map r (op_srcs oper) @ drop (src_count oper) (src oper)\<rparr>"

definition ren_value :: "xair_module \<Rightarrow> xair_module \<Rightarrow> (xair_value_id \<Rightarrow> xair_value_id) \<Rightarrow> xair_value_id \<Rightarrow> bool" where
  "ren_value m m' r v \<longleftrightarrow> r v < length (vals m') \<and> val_type (vals m' ! r v) = val_type (vals m ! v) \<and>
     val_block (vals m' ! r v) = val_block (vals m ! v) \<and>
     (if val_op (vals m ! v) = XAIR_INVALID_ID then val_op (vals m' ! r v) = XAIR_INVALID_ID
      else val_op (vals m ! v) < length (ops m) \<and> val_op (vals m' ! r v) < length (ops m') \<and>
        val_op (vals m' ! r v) \<noteq> XAIR_INVALID_ID \<and> ops m' ! val_op (vals m' ! r v) = ren_op r (ops m ! val_op (vals m ! v)))"

definition ren_block :: "xair_module \<Rightarrow> bool list \<Rightarrow> xair_module \<Rightarrow> (xair_value_id \<Rightarrow> xair_value_id) \<Rightarrow> xair_block_id \<Rightarrow> bool" where
  "ren_block m live m' r b \<longleftrightarrow>
     (let bb = blocks m ! b; bb' = blocks m' ! b; t = blk_term bb; t' = blk_term bb'
      in params bb' = map r (params bb) \<and>
         map ((!) (ops m')) (blk_ops bb') = map (\<lambda>i. ren_op r (ops m ! i)) (kept_ops m live bb) \<and>
         t' = (if term_kind t = XAIR_TERM_CBRANCH then t\<lparr>condition := r (condition t)\<rparr> else t) \<and>
         (term_kind t \<in> {XAIR_TERM_JUMP, XAIR_TERM_RETURN, XAIR_TERM_CBRANCH} \<longrightarrow>
            term_args_const m' t' False = map r (term_args_const m t False)) \<and>
         (term_kind t = XAIR_TERM_CBRANCH \<longrightarrow> term_args_const m' t' True = map r (term_args_const m t True)))"

definition compacts :: "xair_module \<Rightarrow> bool list \<Rightarrow> (xair_value_id \<Rightarrow> xair_value_id) \<Rightarrow> xair_module \<Rightarrow> bool" where
  "compacts m live r m' \<longleftrightarrow> inj_on r {v. v < length (vals m) \<and> live ! v} \<and> length (blocks m') = length (blocks m) \<and>
     (\<forall>v < length (vals m). live ! v \<longrightarrow> ren_value m m' r v) \<and> (\<forall>b < length (blocks m). ren_block m live m' r b)"

lemma kept_iff_live:
  assumes "linked m" "live_closed m live" "v < length (vals m)"
  shows "v \<in> set (all_values m live) \<longleftrightarrow> live ! v"
proof
  assume "v \<in> set (all_values m live)"
  then obtain bb where "bb \<in> set (blocks m)" "v \<in> set (kept_values m live bb)" by (auto simp: all_values_def)
  then show "live ! v" using assms(2,3) by (auto simp: kept_values_def kept_ops_def live_closed_def)
next
  assume l: "live ! v"
  have v: "value_wf m v" using assms(1,3) by (simp add: linked_def)
  show "v \<in> set (all_values m live)"
  proof (cases "val_op (vals m ! v) = XAIR_INVALID_ID")
    case True
    then show ?thesis using v by (auto simp: value_wf_def Let_def all_values_def kept_values_def)
  next
    case False
    then have i: "val_op (vals m ! v) < length (ops m)" "dst (ops m ! val_op (vals m ! v)) = v" "val_block (vals m ! v) < length (blocks m)"
      using v by (auto simp: value_wf_def Let_def)
    then have "op_wf m (val_op (vals m ! v))" using assms(1) by (simp add: linked_def)
    then have "val_op (vals m ! v) \<in> set (kept_ops m live (blocks m ! val_block (vals m ! v)))"
      using i(2) l by (simp add: op_wf_def Let_def kept_ops_def)
    then have "v \<in> set (kept_values m live (blocks m ! val_block (vals m ! v)))" using i(2) by (force simp: kept_values_def)
    then show ?thesis using i(3) by (auto simp: all_values_def)
  qed
qed

lemma length_put_op: "length (fold (put_op m mp) js ys) = length ys"
  by (induction js arbitrary: ys) (auto simp: put_op_def)

lemma length_put_link: "length (fold (put_link m mp) js ys) = length ys"
  by (induction js arbitrary: ys) (auto simp: put_link_def)

text \<open>The renamed arguments of a terminator are where it looks for them.\<close>

lemma ren_slots_args:
  assumes "distinct ks" "{off..<off + n} \<subseteq> set ks" "off + n \<le> length args"
  shows "take n (drop off (ren_slots vm ks args)) = map ((!) vm) (take n (drop off args))"
  using assms by (intro nth_equalityI) (auto simp: ren_slots_nth subset_eq)

lemma compact_Ok:
  assumes "linked m" "compact_live_values al live stats m = (Ok stats', m')" "m' \<noteq> m"
  defines "mp \<equiv> number_live m live"
  shows "blocks m' = map (\<lambda>bb. bb\<lparr>params := map ((!) (value_map mp)) (params bb), blk_ops := map ((!) (op_map mp)) (kept_ops m live bb),
      blk_term := ren_term (value_map mp) (blk_term bb)\<rparr>) (blocks m)"
    "term_args m' = ren_slots (value_map mp) (all_slots m) (term_args m)"
    "ops m' = fold (put_op m mp) (all_ops m live) (replicate (new_op_count mp) zero_op_rec)"
    "vals m' = fold (put_link m mp) (all_ops m live)
      (fold (copy_live_value m (value_map mp)) [0..<length (vals m)] (replicate (new_value_count mp) zero_value_rec))"
proof -
  have bl: "map (\<lambda>bb. bb\<lparr>params := map ((!) (value_map mp)) (params bb), blk_ops := map ((!) (op_map mp)) (mapped_ops mp bb),
      blk_term := ren_term (value_map mp) (blk_term bb)\<rparr>) (blocks m) =
    map (\<lambda>bb. bb\<lparr>params := map ((!) (value_map mp)) (params bb), blk_ops := map ((!) (op_map mp)) (kept_ops m live bb),
      blk_term := ren_term (value_map mp) (blk_term bb)\<rparr>) (blocks m)"
    using mapped_ops_kept [OF assms(1)] by (simp add: mp_def)
  have "m' = (case compact_blocks m mp (blocks m) (replicate (new_op_count mp) zero_op_rec,
      fold (copy_live_value m (value_map mp)) [0..<length (vals m)] (replicate (new_value_count mp) zero_value_rec), term_args m) of
      (bbs, new_ops', new_values', args) \<Rightarrow> m\<lparr>blocks := bbs, term_args := args, vals := new_values', value_cap := new_value_count mp,
        ops := new_ops', op_cap := new_op_count mp\<rparr>)"
    using assms(2,3) by (auto simp: compact_live_values_def Let_def mp_def split: if_splits prod.splits)
  then have "m' = m\<lparr>blocks := map (\<lambda>bb. bb\<lparr>params := map ((!) (value_map mp)) (params bb),
      blk_ops := map ((!) (op_map mp)) (kept_ops m live bb), blk_term := ren_term (value_map mp) (blk_term bb)\<rparr>) (blocks m),
      term_args := ren_slots (value_map mp) (all_slots m) (term_args m),
      vals := fold (put_link m mp) (all_ops m live)
        (fold (copy_live_value m (value_map mp)) [0..<length (vals m)] (replicate (new_value_count mp) zero_value_rec)),
      value_cap := new_value_count mp, ops := fold (put_op m mp) (all_ops m live) (replicate (new_op_count mp) zero_op_rec),
      op_cap := new_op_count mp\<rparr>"
    unfolding compact_blocks_eq bl all_slots_def [symmetric] using all_mapped_ops [OF assms(1), of live] by (simp add: mp_def)
  then show "blocks m' = map (\<lambda>bb. bb\<lparr>params := map ((!) (value_map mp)) (params bb), blk_ops := map ((!) (op_map mp)) (kept_ops m live bb),
      blk_term := ren_term (value_map mp) (blk_term bb)\<rparr>) (blocks m)"
    "term_args m' = ren_slots (value_map mp) (all_slots m) (term_args m)"
    "ops m' = fold (put_op m mp) (all_ops m live) (replicate (new_op_count mp) zero_op_rec)"
    "vals m' = fold (put_link m mp) (all_ops m live)
      (fold (copy_live_value m (value_map mp)) [0..<length (vals m)] (replicate (new_value_count mp) zero_value_rec))"
    by simp_all
qed

lemma compact_compacts:
  assumes "linked m" "live_closed m live" "distinct (all_slots m)"
    "compact_live_values al live stats m = (Ok stats', m')" "m' \<noteq> m"
  shows "compacts m live ((!) (value_map (number_live m live))) m'"
proof -
  define mp where "mp = number_live m live"
  define r where "r = (!) (value_map mp)"
  note c = compact_Ok [OF assms(1,4,5), folded mp_def r_def]
  have n: "positions (length (vals m)) (all_values m live) (value_map mp)" "new_value_count mp = length (all_values m live)"
    "positions (length (ops m)) (all_ops m live) (op_map mp)" "new_op_count mp = length (all_ops m live)"
    using number_live_numbers [OF assms(1), of live] by (simp_all add: numbers_def mp_def)
  have K: "{v. v < length (vals m) \<and> live ! v} = set (all_values m live)"
    using kept_iff_live [OF assms(1,2)] all_values_less [OF assms(1)] by blast
  have ren: "remap_op (value_map mp) = ren_op r" by (simp add: fun_eq_iff remap_op_def ren_op_def op_srcs_def r_def)
  have "length (all_ops m live) \<le> length (ops m)" using distinct_bounded [OF distinct_all(2)] all_ops_less assms(1) by blast
  then have bound: "length (all_ops m live) \<le> UINT32_MAX" using assms(1) by (simp add: linked_def)
  have op: "op_map mp ! i < length (ops m') \<and> op_map mp ! i \<noteq> XAIR_INVALID_ID \<and> ops m' ! (op_map mp ! i) = ren_op r (ops m ! i)"
    if "i \<in> set (all_ops m live)" for i
    using bound copied_ops [OF assms(1) that, of zero_op_rec] positions_index(1) [OF n(3) that] n(4)
    by (simp add: c(3) length_put_op ren mp_def [symmetric])
  have "ren_value m m' r v" if v: "v < length (vals m)" "live ! v" for v
  proof -
    have kv: "v \<in> set (all_values m live)" using kept_iff_live [OF assms(1,2) v(1)] v(2) by simp
    have rec: "vals m' ! r v = (vals m ! v)\<lparr>val_op :=
        (if val_op (vals m ! v) = XAIR_INVALID_ID then XAIR_INVALID_ID else op_map mp ! val_op (vals m ! v))\<rparr>"
      using linked_values [OF assms(1) kv, of zero_value_rec] by (simp add: c(4) mp_def r_def)
    have less: "r v < length (vals m')"
      using positions_index(1) [OF n(1) kv] n(2) by (simp add: c(4) length_put_link length_copied r_def)
    from assms(1) kv show ?thesis
    proof (cases rule: kept_value_cases)
      case op
      then show ?thesis using rec less \<open>\<And>i. i \<in> set (all_ops m live) \<Longrightarrow> _\<close> all_ops_less [OF assms(1)] by (simp add: ren_value_def)
    qed (simp add: rec less ren_value_def)
  qed
  moreover have "ren_block m live m' r b" if b: "b < length (blocks m)" for b
  proof -
    let ?t = "blk_term (blocks m ! b)"
    have bb: "blocks m' ! b = (blocks m ! b)\<lparr>params := map r (params (blocks m ! b)),
        blk_ops := map ((!) (op_map mp)) (kept_ops m live (blocks m ! b)), blk_term := ren_term (value_map mp) ?t\<rparr>"
      using b by (simp add: c(1))
    have kept: "set (kept_ops m live (blocks m ! b)) \<subseteq> set (all_ops m live)"
      using nth_mem [OF b] by (auto simp: all_ops_def)
    have wf: "term_wf m ?t" using assms(1) b by (simp add: linked_def terms_wf_def)
    have slots: "set (term_slots ?t) \<subseteq> set (all_slots m)"
      using nth_mem [OF b] by (auto simp: all_slots_def)
    have "take n (drop off (term_args m')) = map r (take n (drop off (term_args m)))"
      if "{off..<off + n} \<subseteq> set (term_slots ?t)" "off + n \<le> length (term_args m)" for off n
      unfolding c(2) r_def using that slots by (intro ren_slots_args [OF assms(3)]) auto
    moreover have "term_kind ?t \<in> {XAIR_TERM_JUMP, XAIR_TERM_RETURN, XAIR_TERM_CBRANCH} \<Longrightarrow>
        {true_arg_offset ?t..<true_arg_offset ?t + true_arg_count ?t} \<subseteq> set (term_slots ?t)"
      "term_kind ?t = XAIR_TERM_CBRANCH \<Longrightarrow> {false_arg_offset ?t..<false_arg_offset ?t + false_arg_count ?t} \<subseteq> set (term_slots ?t)"
      by (auto simp: term_slots_def)
    ultimately show ?thesis using op kept wf
      by (auto simp: ren_block_def Let_def bb ren_term_def term_args_const_def term_wf_def r_def [symmetric])
  qed
  moreover have "inj_on r {v. v < length (vals m) \<and> live ! v}" unfolding K r_def by (rule positions_inj [OF n(1)])
  ultimately show ?thesis by (simp add: compacts_def c(1) r_def mp_def)
qed

section \<open>Terminators own their arguments\<close>

text \<open>In a module that builder calls made, no two terminators share a position of the argument array.\<close>

definition slots_ok :: "xair_module \<Rightarrow> bool" where
  "slots_ok m \<longleftrightarrow> (\<forall>b < length (blocks m). distinct (term_slots (blk_term (blocks m ! b))) \<and>
       set (term_slots (blk_term (blocks m ! b))) \<subseteq> {..<length (term_args m)}) \<and>
     (\<forall>b < length (blocks m). \<forall>d < length (blocks m). b \<noteq> d \<longrightarrow>
       set (term_slots (blk_term (blocks m ! b))) \<inter> set (term_slots (blk_term (blocks m ! d))) = {})"

lemma slots_ok_distinct: "slots_ok m \<Longrightarrow> distinct (all_slots m)"
  unfolding all_slots_def by (rule distinct_disjoint) (auto simp: slots_ok_def)

lemma empty_term_slots [simp]: "term_kind t = XAIR_TERM_NONE \<Longrightarrow> term_slots t = []"
  by (simp add: term_slots_def)

text \<open>Steps that keep the terminators, add blocks without one, or set one whose positions are new.\<close>

lemma slots_ok_keep:
  assumes "slots_ok m" "length (blocks m) \<le> length (blocks m')" "length (term_args m) \<le> length (term_args m')"
    "\<And>b. b < length (blocks m) \<Longrightarrow> blk_term (blocks m' ! b) = blk_term (blocks m ! b)"
    "\<And>b. length (blocks m) \<le> b \<Longrightarrow> b < length (blocks m') \<Longrightarrow> term_kind (blk_term (blocks m' ! b)) = XAIR_TERM_NONE"
  shows "slots_ok m'"
proof -
  have t: "term_slots (blk_term (blocks m' ! b)) = (if b < length (blocks m) then term_slots (blk_term (blocks m ! b)) else [])"
    if "b < length (blocks m')" for b using assms(4,5) that by (auto simp: not_less)
  show ?thesis using assms(1,3) by (fastforce simp: slots_ok_def t)
qed

lemma slots_ok_set:
  assumes "slots_ok m" "blocks m' = (blocks m)[b := (blocks m ! b)\<lparr>blk_term := t\<rparr>]" "length (term_args m) \<le> length (term_args m')"
    "distinct (term_slots t)" "set (term_slots t) \<subseteq> {length (term_args m)..<length (term_args m')}"
  shows "slots_ok m'"
proof -
  have s: "term_slots (blk_term (blocks m' ! d)) = (if d = b then term_slots t else term_slots (blk_term (blocks m ! d)))"
    if "d < length (blocks m)" for d using that by (auto simp: assms(2) nth_list_update)
  have old: "set (term_slots (blk_term (blocks m ! d))) \<subseteq> {..<length (term_args m)}" "distinct (term_slots (blk_term (blocks m ! d)))"
    if "d < length (blocks m)" for d using assms(1) that by (auto simp: slots_ok_def)
  have new: "set (term_slots (blk_term (blocks m ! d))) \<inter> set (term_slots t) = {}" if "d < length (blocks m)" for d
    using old(1) [OF that] assms(5) by fastforce
  have len: "length (blocks m') = length (blocks m)" by (simp add: assms(2))
  have "set (term_slots (blk_term (blocks m ! d))) \<subseteq> {..<length (term_args m')}" if "d < length (blocks m)" for d
    using old(1) [OF that] assms(3) by auto
  moreover have "set (term_slots t) \<subseteq> {..<length (term_args m')}" using assms(5) by auto
  ultimately have "distinct (term_slots (blk_term (blocks m' ! d))) \<and> set (term_slots (blk_term (blocks m' ! d))) \<subseteq> {..<length (term_args m')}"
    if "d < length (blocks m)" for d using that old(2) assms(4) by (simp add: s)
  moreover have "set (term_slots (blk_term (blocks m' ! d))) \<inter> set (term_slots (blk_term (blocks m' ! d'))) = {}"
    if d: "d < length (blocks m)" "d' < length (blocks m)" "d \<noteq> d'" for d d'
  proof -
    have "set (term_slots (blk_term (blocks m ! d))) \<inter> set (term_slots (blk_term (blocks m ! d'))) = {}"
      using assms(1) d by (simp add: slots_ok_def)
    then show ?thesis using new [OF d(1)] new [OF d(2)] d by (auto simp: s)
  qed
  ultimately show ?thesis by (simp add: slots_ok_def len)
qed

lemma slots_ok_same: "slots_ok m \<Longrightarrow> blocks m' = blocks m \<Longrightarrow> length (term_args m) \<le> length (term_args m') \<Longrightarrow> slots_ok m'"
  by (rule slots_ok_keep) auto

lemma append_args_grow: "append_term_args al args m = (r, m') \<Longrightarrow> blocks m' = blocks m \<and> length (term_args m) \<le> length (term_args m')"
  by (auto simp: append_term_args_def split: if_splits xres.splits)

lemma slots_ok_append: "append_term_args al args m = (r, m') \<Longrightarrow> slots_ok m \<Longrightarrow> slots_ok m'"
  using append_args_grow [of al args m r m'] slots_ok_same by blast

text \<open>Setting a terminator whose positions were appended to the arguments of \<open>m\<close>.\<close>

lemma slots_ok_set_term:
  assumes "slots_ok m" "blocks m1 = blocks m" "length (term_args m) \<le> length (term_args m1)" "set_term b t m1 = (r, m')"
    "distinct (term_slots t)" "set (term_slots t) \<subseteq> {length (term_args m)..<length (term_args m1)}"
  shows "slots_ok m'"
proof (cases "can_terminate m1 b")
  case True
  then have "blocks m' = (blocks m)[b := (blocks m ! b)\<lparr>blk_term := t\<rparr>]" "term_args m' = term_args m1"
    using assms(2,4) by (auto simp: set_term_def)
  then show ?thesis using slots_ok_set [OF assms(1)] assms(3,5,6) by simp
next
  case False
  then have "m' = m1" using assms(4) by (simp add: set_term_def)
  then show ?thesis using assms(2,3) by (intro slots_ok_keep [OF assms(1)]) simp_all
qed

lemma slots_ok_one:
  assumes "slots_ok m" "xbind (append_term_args al args) (\<lambda>off. set_term b (t off)) m = (r, m')"
    "\<And>off. distinct (term_slots (t off)) \<and> set (term_slots (t off)) \<subseteq> {off..<off + length args}"
  shows "slots_ok m'"
proof -
  obtain q m1 where 1: "append_term_args al args m = (q, m1)" by fastforce
  then show ?thesis
  proof (cases rule: append_term_args_cases)
    case (ok c)
    then show ?thesis using assms(2) 1 slots_ok_set_term [OF assms(1), of m1 b "t (length (term_args m))" r m'] assms(3)
      by (fastforce simp: xbind_def)
  qed (use assms 1 in \<open>auto simp: xbind_def\<close>)
qed

lemma slots_ok_cbranch:
  assumes "slots_ok m" "xair_set_cbranch al b cond d args d' args' m = (r, m')"
  shows "slots_ok m'"
proof -
  obtain q m1 where 1: "append_term_args al args m = (q, m1)" by fastforce
  obtain q' m2 where 2: "append_term_args al args' m1 = (q', m2)" by fastforce
  have ok: "slots_ok m1" "slots_ok m2" using slots_ok_append assms(1) 1 2 by blast+
  show ?thesis
  proof (cases "q = Ok (length (term_args m)) \<and> q' = Ok (length (term_args m1))")
    case True
    then have a: "blocks m2 = blocks m" "term_args m1 = term_args m @ args" "term_args m2 = term_args m @ args @ args'"
      using 1 2 by (auto elim!: append_term_args_cases)
    let ?t = "empty_term\<lparr>term_kind := XAIR_TERM_CBRANCH, condition := cond, true_target := d, false_target := d',
      true_arg_offset := length (term_args m), true_arg_count := length args,
      false_arg_offset := length (term_args m1), false_arg_count := length args'\<rparr>"
    have "m' = m \<or> set_term b ?t m2 = (r, m')"
      using assms(2) True by (auto simp: xair_set_cbranch_def xbind_def 1 2 split: if_splits)
    then show ?thesis using slots_ok_set_term [OF assms(1) a(1), of b ?t r m'] assms(1)
      by (auto simp: a term_slots_def)
  next
    case False
    have q: "(\<exists>e. q = Err e) \<or> q = Ok (length (term_args m))" "(\<exists>e. q' = Err e) \<or> q' = Ok (length (term_args m1))"
      using 1 2 by (auto elim: append_term_args_cases)
    with False have "m' \<in> {m, m1, m2}" using assms(2)
      by (auto simp: xair_set_cbranch_def xbind_def 1 2 split: if_splits)
    then show ?thesis using assms(1) ok by auto
  qed
qed

lemma term_ops_slots:
  assumes "slots_ok m"
  shows "xair_set_jump al b d args m = (r, m') \<Longrightarrow> slots_ok m'" "xair_set_return al b args m = (r, m') \<Longrightarrow> slots_ok m'"
    "xair_set_trap b k m = (r, m') \<Longrightarrow> slots_ok m'" "xair_set_fault b k m = (r, m') \<Longrightarrow> slots_ok m'"
proof -
  have guard: "(if c then (Err e, m) else f m) = (r, m') \<Longrightarrow> (f m = (r, m') \<Longrightarrow> slots_ok m') \<Longrightarrow> slots_ok m'" for c e and f :: "(xair_module, unit) xop"
    using assms by (auto split: if_splits)
  show "xair_set_jump al b d args m = (r, m') \<Longrightarrow> slots_ok m'"
    unfolding xair_set_jump_def by (erule guard, erule slots_ok_one [OF assms]) (simp add: term_slots_def)
  show "xair_set_return al b args m = (r, m') \<Longrightarrow> slots_ok m'"
    unfolding xair_set_return_def by (erule guard, erule slots_ok_one [OF assms]) (simp add: term_slots_def)
  show "xair_set_trap b k m = (r, m') \<Longrightarrow> slots_ok m'" "xair_set_fault b k m = (r, m') \<Longrightarrow> slots_ok m'"
    unfolding xair_set_trap_def xair_set_fault_def
    by (erule guard, erule slots_ok_set_term [OF assms refl order_refl]; simp add: term_slots_def)+
qed

lemma freeze_slots:
  assumes "xair_module_freeze al m = (r, m')" "slots_ok m"
  shows "slots_ok m'"
proof (cases "frozen m")
  case False
  obtain q m1 where f: "finalize_module_storage al m = (q, m1)" by fastforce
  then have a: "term_args m1 = term_args m" "list_all2 same_block (blocks m) (blocks m1)"
    using finalize_module_storage_spec [OF f] by (auto simp: stored_alike_def)
  have "term_args m' = term_args m1" "blocks m' = blocks m1"
    using assms(1) f False by (auto simp: xair_module_freeze_def split: xres.splits)
  with a have b: "term_args m' = term_args m" "list_all2 same_block (blocks m) (blocks m')" by simp_all
  then show ?thesis by (intro slots_ok_keep [OF assms(2)]) (auto simp: list_all2_conv_all_nth same_block_def)
qed (use assms in \<open>simp add: xair_module_freeze_def\<close>)

lemma call_slots:
  assumes inv: "module_inv m" and call: "run_call al c m = (r, m')" and ok: "slots_ok m"
  shows "slots_ok m'"
proof (cases "op_call c")
  case True
  show ?thesis
  proof (rule op_call_induct [OF True call, where P = "\<lambda>r m'. slots_ok m'"])
    fix b oc t srcs im en nm r m'
    assume *: "add_op al b oc t srcs im en nm m = (r, m')" "\<forall>s \<in> set srcs. s < length (vals m)"
    show "slots_ok m'" using *(1) inv *(2)
    proof (cases rule: add_op_cases)
      case (fresh s tab c c' c'')
      then show ?thesis
        by (intro slots_ok_keep [OF ok]) (simp_all add: numbered_def value_number_insert_def op_added_def nth_list_update)
    qed (use slots_ok_same [OF ok] in \<open>auto simp: content_eq_def\<close>)
  qed (rule ok)
next
  case False
  have create: "slots_ok m'" if "xair_block_create al nm m = (q, m')" for nm q
    using that by (cases rule: xair_block_create_cases) (auto intro!: slots_ok_keep [OF ok] simp: nth_append empty_term_def)
  have param: "slots_ok m'" if "xair_block_add_param al b t nm m = (q, m')" for b t nm q
    using that by (cases rule: xair_block_add_param_cases)
      (auto intro!: slots_ok_keep [OF ok] simp: param_added_def nth_list_update)
  show ?thesis using False call
    by (cases c) (auto simp: op_call_def no_result_eq intro: create param term_ops_slots [OF ok] slots_ok_cbranch [OF ok] freeze_slots [OF _ ok])
qed

lemma built_slots: "built m \<Longrightarrow> slots_ok m"
proof (induction rule: built.induct)
  case create
  then show ?case by (simp add: slots_ok_def empty_module_def)
next
  case (call m al c r m')
  then show ?case using call_slots built_module_inv by blast
qed

end
