(* ===== verification/Xair_Compact_Sound.thy ===== *)
theory Xair_Compact_Sound
  imports Xair_Compact
begin

text \<open>
  Dead-value elimination keeps the behaviour of a module that loses no store: a run of the compacted module simulates
  a run of the original one. Two states are related when they have the same memory and agree on the live values, up to
  their new names. Removed operations can only define dead values; a removed store would also have changed memory, which
  loads read whatever memory value they name.
\<close>

section \<open>Related states\<close>

text \<open>The same memory with another module and other values.\<close>

definition revalue :: "xair_module \<Rightarrow> xair_exec_value list \<Rightarrow> bool list \<Rightarrow> xair_exec_state \<Rightarrow> xair_exec_state" where
  "revalue m' xs ds st = st\<lparr>ex_module := m', ex_values := xs, ex_defined := ds\<rparr>"

lemma revalue_simps [simp]:
  "ex_module (revalue m' xs ds st) = m'" "ex_values (revalue m' xs ds st) = xs" "ex_defined (revalue m' xs ds st) = ds"
  "pages (revalue m' xs ds st) = pages st" "page_cap (revalue m' xs ds st) = page_cap st"
  "mem_generation (revalue m' xs ds st) = mem_generation st"
  by (simp_all add: revalue_def)

lemma revalue_update:
  "(revalue m' xs ds st)\<lparr>pages := p\<rparr> = revalue m' xs ds (st\<lparr>pages := p\<rparr>)"
  "(revalue m' xs ds st)\<lparr>page_cap := c, pages := p\<rparr> = revalue m' xs ds (st\<lparr>page_cap := c, pages := p\<rparr>)"
  "(revalue m' xs ds st)\<lparr>mem_generation := g\<rparr> = revalue m' xs ds (st\<lparr>mem_generation := g\<rparr>)"
  "(revalue m' xs ds st)\<lparr>ex_values := xs', ex_defined := ds'\<rparr> = revalue m' xs' ds' st"
  by (cases st; simp add: revalue_def)+

lemma store_u64_revalue:
  "exec_store_u64 al sp a v sz en (revalue m' xs ds st) = apsnd (revalue m' xs ds) (exec_store_u64 al sp a v sz en st)"
proof -
  have "exec_store_byte al sp a d (revalue m' xs ds st) = apsnd (revalue m' xs ds) (exec_store_byte al sp a d st)" for a d st
    by (simp add: exec_store_byte_def exec_get_or_create_page_def Let_def revalue_update split: option.split xres.split)
  then have "store_each (exec_store_byte al) sp a bs (revalue m' xs ds st) = apsnd (revalue m' xs ds) (store_each (exec_store_byte al) sp a bs st)"
    for a bs st by (induction bs arbitrary: a st) (auto split: prod.splits xres.splits)
  then show ?thesis by (simp add: exec_store_u64_def xair_exec_store_bytes_def)
qed

lemma load_u64_revalue: "exec_load_u64 (revalue m' xs ds st) sp a sz en = exec_load_u64 st sp a sz en"
proof -
  have "exec_load_byte (revalue m' xs ds st) = exec_load_byte st" by (simp add: exec_load_byte_def fun_eq_iff split: option.split)
  then have "load_each exec_load_byte (revalue m' xs ds st) sp a n = load_each exec_load_byte st sp a n" for n
    by (intro load_each_cong) simp
  then show ?thesis by (simp add: exec_load_u64_def xair_exec_load_bytes_def)
qed

definition agrees :: "xair_module \<Rightarrow> bool list \<Rightarrow> (xair_value_id \<Rightarrow> xair_value_id) \<Rightarrow> xair_module \<Rightarrow> xair_exec_state
    \<Rightarrow> xair_exec_value list \<Rightarrow> bool list \<Rightarrow> bool" where
  "agrees m live r m' st xs ds \<longleftrightarrow> ex_module st = m \<and> length (ex_values st) = length (vals m) \<and>
     length (ex_defined st) = length (vals m) \<and> length xs = length (vals m') \<and> length ds = length (vals m') \<and>
     (\<forall>v < length (vals m). live ! v \<longrightarrow> ds ! r v = ex_defined st ! v \<and> xs ! r v = ex_values st ! v)"

definition sim :: "xair_module \<Rightarrow> bool list \<Rightarrow> (xair_value_id \<Rightarrow> xair_value_id) \<Rightarrow> xair_module \<Rightarrow> xair_exec_state \<Rightarrow> xair_exec_state \<Rightarrow> bool" where
  "sim m live r m' st st' \<longleftrightarrow> (\<exists>xs ds. st' = revalue m' xs ds st \<and> agrees m live r m' st xs ds)"

text \<open>Outcomes with the same result and related states.\<close>

definition sims :: "xair_module \<Rightarrow> bool list \<Rightarrow> (xair_value_id \<Rightarrow> xair_value_id) \<Rightarrow> xair_module \<Rightarrow> 'a \<times> xair_exec_state \<Rightarrow> 'a \<times> xair_exec_state \<Rightarrow> bool" where
  "sims m live r m' p p' \<longleftrightarrow> fst p' = fst p \<and> sim m live r m' (snd p) (snd p')"

lemma simI: "agrees m live r m' st xs ds \<Longrightarrow> sim m live r m' st (revalue m' xs ds st)"
  by (auto simp: sim_def)

lemma sims_pair [simp]: "sims m live r m' (q, st) (q', st') \<longleftrightarrow> q' = q \<and> sim m live r m' st st'"
  by (simp add: sims_def)

lemma sim_read:
  assumes c: "compacts m live r m'" and s: "sim m live r m' st st'" and v: "v < length (vals m)" "live ! v"
  shows "exec_read_value st' (r v) = exec_read_value st v"
proof -
  have rv: "ren_value m m' r v" using c v by (simp add: compacts_def)
  from s obtain xs ds where st': "st' = revalue m' xs ds st" "agrees m live r m' st xs ds" by (auto simp: sim_def)
  have "value_is_global_const m' (r v) = value_is_global_const m v"
    using rv v by (auto simp: ren_value_def value_is_global_const_def valid_value_def Let_def ren_op_def split: if_splits)
  moreover have "imm (ops m' ! val_op (vals m' ! r v)) = imm (ops m ! val_op (vals m ! v))" if "value_is_global_const m v"
    using rv that by (auto simp: ren_value_def value_is_global_const_def Let_def ren_op_def split: if_splits)
  ultimately show ?thesis using st' rv v
    by (auto simp: exec_read_value_def exec_check_value_slot_def agrees_def ren_value_def)
qed

lemma sim_define:
  assumes c: "compacts m live r m'" and s: "sim m live r m' st st'" and v: "v < length (vals m)" "live ! v"
  shows "sims m live r m' (exec_define_value v x st) (exec_define_value (r v) x st')"
proof -
  have rv: "r v < length (vals m')" "val_type (vals m' ! r v) = val_type (vals m ! v)" using c v by (auto simp: compacts_def ren_value_def)
  from s obtain xs ds where st': "st' = revalue m' xs ds st" "agrees m live r m' st xs ds" by (auto simp: sim_def)
  have "(xs[r v := x]) ! r w = (ex_values st)[v := x] ! w \<and> (ds[r v := True]) ! r w = (ex_defined st)[v := True] ! w"
    if w: "w < length (vals m)" "live ! w" for w
  proof -
    have "r v = r w \<longleftrightarrow> v = w" using c w v by (auto simp: compacts_def dest: inj_onD)
    then show ?thesis using st'(2) rv v w by (simp add: agrees_def nth_list_update)
  qed
  then have "agrees m live r m' (st\<lparr>ex_values := (ex_values st)[v := x], ex_defined := (ex_defined st)[v := True]\<rparr>) (xs[r v := x]) (ds[r v := True])"
    using st'(2) by (simp add: agrees_def)
  moreover have "(revalue m' xs ds st)\<lparr>ex_values := xs[r v := x], ex_defined := ds[r v := True]\<rparr> =
      revalue m' (xs[r v := x]) (ds[r v := True]) (st\<lparr>ex_values := (ex_values st)[v := x], ex_defined := (ex_defined st)[v := True]\<rparr>)"
    by (simp add: revalue_def)
  ultimately have "sim m live r m' (st\<lparr>ex_values := (ex_values st)[v := x], ex_defined := (ex_defined st)[v := True]\<rparr>)
      ((revalue m' xs ds st)\<lparr>ex_values := xs[r v := x], ex_defined := ds[r v := True]\<rparr>)" by (simp only: simI)
  moreover have "exec_check_value_slot st v" "exec_check_value_slot st' (r v)" "ex_module st = m"
    using st' rv v by (auto simp: exec_check_value_slot_def agrees_def)
  ultimately show ?thesis using s st'(1) rv(2) by (simp add: exec_define_value_def)
qed

text \<open>Defining a dead value is invisible.\<close>

lemma sim_dead:
  assumes "sim m live r m' st st'" "\<not> live ! v" "exec_define_value v x st = (q, st1)"
  shows "sim m live r m' st1 st'"
proof -
  from assms(1) obtain xs ds where st': "st' = revalue m' xs ds st" "agrees m live r m' st xs ds" by (auto simp: sim_def)
  have "revalue m' xs ds (st\<lparr>ex_values := ys, ex_defined := es\<rparr>) = revalue m' xs ds st" for ys es by (simp add: revalue_def)
  moreover have "agrees m live r m' (st\<lparr>ex_values := (ex_values st)[v := x], ex_defined := (ex_defined st)[v := True]\<rparr>) xs ds"
  proof -
    have "(ex_defined st)[v := True] ! w = ex_defined st ! w \<and> (ex_values st)[v := x] ! w = ex_values st ! w" if "live ! w" for w
      using assms(2) that by (metis nth_list_update_neq)
    then show ?thesis using st'(2) by (simp add: agrees_def)
  qed
  ultimately have "sim m live r m' (st\<lparr>ex_values := (ex_values st)[v := x], ex_defined := (ex_defined st)[v := True]\<rparr>) st'"
    unfolding st'(1) by (metis simI)
  then show ?thesis using assms by (auto simp: exec_define_value_def split: if_splits)
qed

section \<open>Operations\<close>

lemma ren_op_fields [simp]:
  "opcode (ren_op r oper) = opcode oper" "dst (ren_op r oper) = r (dst oper)" "src_count (ren_op r oper) = src_count oper"
  "endian (ren_op r oper) = endian oper" "imm (ren_op r oper) = imm oper"
  by (simp_all add: ren_op_def)

lemma ren_op_src: "length (src oper) = 3 \<Longrightarrow> src_count oper \<le> 3 \<Longrightarrow> k < src_count oper \<Longrightarrow> src (ren_op r oper) ! k = r (src oper ! k)"
  by (simp add: ren_op_def op_srcs_def nth_append)

text \<open>A live operation, on related states.\<close>

lemma sim_store:
  assumes "sim m live r m' st st'" "exec_store_u64 al sp a v sz en st = (q, st1)"
  shows "\<exists>st1'. exec_store_u64 al sp a v sz en st' = (q, st1') \<and> sim m live r m' st1 st1'"
proof -
  from assms(1) obtain xs ds where st': "st' = revalue m' xs ds st" "agrees m live r m' st xs ds" by (auto simp: sim_def)
  have "same_values st st1" by (rule exec_store_u64_values [OF assms(2)])
  then have "agrees m live r m' st1 xs ds" using st'(2) by (simp add: agrees_def same_values_def)
  then show ?thesis using assms(2) by (auto simp: st'(1) store_u64_revalue sim_def)
qed

lemma sim_generation: "sim m live r m' st st' \<Longrightarrow> sim m live r m' (st\<lparr>mem_generation := g\<rparr>) (st'\<lparr>mem_generation := g\<rparr>)"
  unfolding sim_def by (elim exE conjE, intro exI conjI) (simp add: revalue_update, simp add: agrees_def)

lemma sim_mem: "sim m live r m' st st' \<Longrightarrow> mem_generation st' = mem_generation st \<and> exec_load_u64 st' = exec_load_u64 st"
  by (auto simp: sim_def load_u64_revalue fun_eq_iff)

lemma sim_modules: "sim m live r m' st st' \<Longrightarrow> ex_module st = m \<and> ex_module st' = m'"
  by (auto simp: sim_def agrees_def)

lemma sim_memory_op:
  assumes c: "compacts m live r m'" and s: "sim m live r m' st st'" and d: "dst oper < length (vals m)" "live ! dst oper"
    and shape: "length (src oper) = 3" "src_count oper \<le> 3" "2 \<le> src_count oper" "opcode oper = XAIR_OP_STORE \<Longrightarrow> src_count oper = 3"
    and srcs: "\<forall>v \<in> set (op_srcs oper). v < length (vals m) \<and> live ! v"
  shows "sims m live r m' (exec_memory_op al oper out st) (exec_memory_op al (ren_op r oper) out st')"
proof -
  have read: "exec_read_value st' (src (ren_op r oper) ! k) = exec_read_value st (src oper ! k)" if "k < src_count oper" for k
  proof -
    have "src oper ! k \<in> set (op_srcs oper)" using that shape by (auto simp: op_srcs_def in_set_conv_nth)
    then show ?thesis using sim_read [OF c s] srcs that shape by (simp add: ren_op_src)
  qed
  have store: "sims m live r m'
      (case exec_store_u64 al sp a v sz en st of (Err e, st1) \<Rightarrow> (Err e, st1)
       | (Ok _, st1) \<Rightarrow> (let st2 = st1\<lparr>mem_generation := mem_generation st1 + 1\<rparr>
           in exec_define_value (dst oper) (exec_value_make out (mem_generation st2) 0) st2))
      (case exec_store_u64 al sp a v sz en st' of (Err e, st1) \<Rightarrow> (Err e, st1)
       | (Ok _, st1) \<Rightarrow> (let st2 = st1\<lparr>mem_generation := mem_generation st1 + 1\<rparr>
           in exec_define_value (dst (ren_op r oper)) (exec_value_make out (mem_generation st2) 0) st2))" for sp a v sz en
  proof -
    obtain q st1 where 1: "exec_store_u64 al sp a v sz en st = (q, st1)" by fastforce
    from sim_store [OF s this] obtain st1' where 2: "exec_store_u64 al sp a v sz en st' = (q, st1')" "sim m live r m' st1 st1'" by blast
    then show ?thesis using sim_define [OF c sim_generation [OF 2(2)] d] sim_mem [OF 2(2)] 1 by (cases q) (simp_all add: Let_def)
  qed
  have load: "sims m live r m' (exec_define_value (dst oper) x st) (exec_define_value (dst (ren_op r oper)) x st')" for x
    using sim_define [OF c s d] by simp
  have r01: "exec_read_value st' (src (ren_op r oper) ! 0) = exec_read_value st (src oper ! 0)"
    "exec_read_value st' (src (ren_op r oper) ! 1) = exec_read_value st (src oper ! 1)" using read shape(3) by auto
  have r2: "exec_read_value st' (src (ren_op r oper) ! 2) = exec_read_value st (src oper ! 2)" if "opcode oper = XAIR_OP_STORE"
    using read shape(4) that by simp
  show ?thesis using s sim_mem [OF s] store load r2 unfolding exec_memory_op_def r01
    by (auto split: xres.split option.split)
qed

lemma sim_op:
  assumes c: "compacts m live r m'" and s: "sim m live r m' st st'" and d: "dst oper < length (vals m)" "live ! dst oper"
    and ok: "op_ok m oper" "length (src oper) = 3" "src_count oper \<le> 3"
    and srcs: "\<forall>v \<in> set (op_srcs oper). v < length (vals m) \<and> live ! v"
  shows "sims m live r m' (exec_op al oper st) (exec_op al (ren_op r oper) st')"
proof -
  have t: "val_type (vals m' ! r (dst oper)) = val_type (vals m ! dst oper)" using c d by (auto simp: compacts_def ren_value_def)
  note mods = sim_modules [OF s]
  have read: "exec_read_value st' (src (ren_op r oper) ! k) = exec_read_value st (src oper ! k)" if "k < src_count oper" for k
  proof -
    have "src oper ! k \<in> set (op_srcs oper)" using that ok by (auto simp: op_srcs_def in_set_conv_nth)
    then show ?thesis using sim_read [OF c s] srcs that ok by (simp add: ren_op_src)
  qed
  have def: "sims m live r m' (exec_define_value (dst oper) x st) (exec_define_value (r (dst oper)) x st')" for x
    by (rule sim_define [OF c s d])
  have res: "sims m live r m' (exec_define_result oper out y st) (exec_define_result (ren_op r oper) out y st')" for out y
    using s def by (simp add: exec_define_result_def split: option.split)
  from ok show ?thesis
  proof (cases rule: op_ok_srcs)
    case const
    then show ?thesis using def mods t by (simp add: exec_op_def)
  next
    case unary
    then have "opcode oper \<notin> {XAIR_OP_CONST_U64, XAIR_OP_LOAD, XAIR_OP_STORE}" by (auto simp: is_unary_opcode_def)
    then show ?thesis using unary read [of 0] res s mods t
      by (simp add: exec_op_def exec_unary_op_def split: xres.split)
  next
    case store
    then show ?thesis using sim_memory_op [OF c s d ok(2,3) _ _ srcs] mods t by (simp add: exec_op_def)
  next
    case binary
    show ?thesis
    proof (cases "opcode oper = XAIR_OP_LOAD")
      case True
      then show ?thesis using binary sim_memory_op [OF c s d ok(2,3) _ _ srcs] mods t by (simp add: exec_op_def)
    next
      case False
      then show ?thesis using binary read [of 0] read [of 1] res s mods t
        by (simp add: exec_op_def exec_binary_op_def split: xres.split)
    qed
  qed
qed

text \<open>A dead operation that is not a store and succeeds.\<close>

lemma sim_dead_op:
  assumes s: "sim m live r m' st st'" and d: "\<not> live ! dst oper" "opcode oper \<noteq> XAIR_OP_STORE"
    and run: "exec_op al oper st = (Ok u, st1)"
  shows "sim m live r m' st1 st'"
proof -
  have "\<exists>x. exec_define_value (dst oper) x st = (Ok u, st1)"
    using run d(2) by (auto simp: exec_op_def exec_memory_op_def exec_unary_op_def exec_binary_op_def exec_define_result_def Let_def
        split: if_splits xres.splits option.splits)
  then show ?thesis using sim_dead [OF s d(1)] by blast
qed

section \<open>Blocks and runs\<close>

text \<open>What the simulation needs of a module: typed operations, liveness closed under uses, and no dead store.\<close>

definition live_ready :: "xair_module \<Rightarrow> bool list \<Rightarrow> bool" where
  "live_ready m live \<longleftrightarrow> linked m \<and> sound_module m \<and> live_closed m live"

definition sim_ready :: "xair_module \<Rightarrow> bool list \<Rightarrow> bool" where
  "sim_ready m live \<longleftrightarrow> live_ready m live \<and>
     (\<forall>i < length (ops m). opcode (ops m ! i) = XAIR_OP_STORE \<longrightarrow> live ! dst (ops m ! i))"

lemma sim_live_ready: "sim_ready m live \<Longrightarrow> live_ready m live"
  by (simp add: sim_ready_def)

lemma ready_op:
  assumes "live_ready m live" "i < length (ops m)"
  shows "op_ok m (ops m ! i)" "length (src (ops m ! i)) = 3" "src_count (ops m ! i) \<le> 3" "dst (ops m ! i) < length (vals m)"
    "live ! dst (ops m ! i) \<Longrightarrow> \<forall>v \<in> set (op_srcs (ops m ! i)). v < length (vals m) \<and> live ! v"
proof -
  have oper: "ops m ! i \<in> set (ops m)" using assms(2) by simp
  have w: "op_wf m i" using assms by (simp add: live_ready_def linked_def)
  show "op_ok m (ops m ! i)" "length (src (ops m ! i)) = 3" "src_count (ops m ! i) \<le> 3" "dst (ops m ! i) < length (vals m)"
    using w oper assms(1) by (auto simp: live_ready_def sound_module_def op_wf_def Let_def)
  have "def_srcs m (dst (ops m ! i)) = op_srcs (ops m ! i)"
    using w assms by (auto simp: def_srcs_def op_wf_def Let_def live_ready_def linked_def)
  then show "live ! dst (ops m ! i) \<Longrightarrow> \<forall>v \<in> set (op_srcs (ops m ! i)). v < length (vals m) \<and> live ! v"
    using assms(1) oper \<open>dst (ops m ! i) < length (vals m)\<close> by (auto simp: live_ready_def live_closed_def sound_module_def)
qed

lemma sim_block_ops:
  assumes ready: "sim_ready m live" and c: "compacts m live r m'"
  shows "exec_block_ops al b ids st = (Ok None, st1) \<Longrightarrow> sim m live r m' st st' \<Longrightarrow> \<forall>i \<in> set ids. i < length (ops m) \<Longrightarrow>
    map ((!) (ops m')) ids' = map (\<lambda>i. ren_op r (ops m ! i)) (filter (\<lambda>i. live ! dst (ops m ! i)) ids) \<Longrightarrow>
    \<exists>st1'. exec_block_ops al b ids' st' = (Ok None, st1') \<and> sim m live r m' st1 st1'"
proof (induction ids arbitrary: st st' ids')
  case (Cons i ids)
  let ?op = "ops m ! i"
  note mods = sim_modules [OF Cons.prems(2)]
  have i: "i < length (ops m)" using Cons.prems(3) by simp
  obtain u st2 where e: "exec_op al ?op st = (Ok u, st2)" "exec_block_ops al b ids st2 = (Ok None, st1)"
    using Cons.prems(1) mods by (auto simp: Let_def split: prod.splits xres.splits if_splits)
  show ?case
  proof (cases "live ! dst ?op")
    case True
    then obtain j js where ids': "ids' = j # js" "ops m' ! j = ren_op r ?op"
        "map ((!) (ops m')) js = map (\<lambda>i. ren_op r (ops m ! i)) (filter (\<lambda>i. live ! dst (ops m ! i)) ids)"
      using Cons.prems(4) by (auto simp: map_eq_Cons_conv)
    note op = ready_op [OF sim_live_ready [OF ready] i]
    have "sims m live r m' (exec_op al ?op st) (exec_op al (ren_op r ?op) st')"
      by (rule sim_op [OF c Cons.prems(2) op(4) True op(1-3) op(5) [OF True]])
    then obtain st2' where e': "exec_op al (ren_op r ?op) st' = (Ok u, st2')" "sim m live r m' st2 st2'"
      by (cases "exec_op al (ren_op r ?op) st'") (simp add: e)
    from Cons.IH [OF e(2) e'(2) _ ids'(3)] Cons.prems(3) show ?thesis using mods e' by (auto simp: ids')
  next
    case False
    then have "opcode ?op \<noteq> XAIR_OP_STORE" using ready i by (auto simp: sim_ready_def)
    then have "sim m live r m' st2 st'" using sim_dead_op [OF Cons.prems(2) False _ e(1)] by simp
    from Cons.IH [OF e(2) this, of ids'] Cons.prems(3,4) False show ?thesis by simp
  qed
qed simp

lemma sim_read_values:
  assumes "compacts m live r m'" "sim m live r m' st st'"
  shows "\<forall>v \<in> set vs. v < length (vals m) \<and> live ! v \<Longrightarrow> exec_read_values st' (map r vs) = exec_read_values st vs"
  using sim_read [OF assms] by (induction vs) (auto split: xres.split)

lemma sim_define_values:
  assumes c: "compacts m live r m'"
  shows "sim m live r m' st st' \<Longrightarrow> \<forall>v \<in> set ps. v < length (vals m) \<and> live ! v \<Longrightarrow>
    sims m live r m' (exec_define_values ps xs st) (exec_define_values (map r ps) xs st')"
proof (induction ps xs st arbitrary: st' rule: exec_define_values.induct)
  case (1 p ps x xs st)
  have d: "sims m live r m' (exec_define_value p x st) (exec_define_value (r p) x st')"
    using sim_define [OF c "1.prems"(1)] "1.prems"(2) by simp
  obtain q st1 where 1: "exec_define_value p x st = (q, st1)" by fastforce
  obtain q' st1' where 2: "exec_define_value (r p) x st' = (q', st1')" by fastforce
  have "q' = q" "sim m live r m' st1 st1'" using d by (simp_all add: 1 2)
  then show ?case using "1.IH" [OF 1 [symmetric]] "1.prems"(2) by (cases q) (simp_all add: 1 2)
qed simp_all

lemma live_block:
  "live_closed m live \<Longrightarrow> bb \<in> set (blocks m) \<Longrightarrow> v \<in> set (params bb) \<union> set (term_uses m (blk_term bb)) \<Longrightarrow>
    v < length (vals m) \<Longrightarrow> live ! v"
  by (auto simp: live_closed_def)

lemma ready_params:
  assumes "live_ready m live" "b < length (blocks m)"
  shows "\<forall>v \<in> set (params (blocks m ! b)). v < length (vals m) \<and> live ! v"
proof
  fix v assume v: "v \<in> set (params (blocks m ! b))"
  have "v < length (vals m)" using linked_block(1) [of m b v] assms v by (simp add: live_ready_def)
  then show "v < length (vals m) \<and> live ! v" using live_block [OF _ nth_mem [OF assms(2)]] assms(1) v by (simp add: live_ready_def)
qed

text \<open>The values a terminator uses exist and are live.\<close>

lemma edge_args_less:
  assumes "edge_ok m S target args n" "length args = n"
  shows "\<forall>v \<in> set args. v < length (vals m)"
proof
  fix v assume "v \<in> set args"
  moreover have "length args = length (params (blocks m ! target))" using assms by (simp add: edge_ok_def)
  ultimately obtain p where "(v, p) \<in> set (zip args (params (blocks m ! target)))" by (metis in_set_impl_in_set_zip1)
  then show "v < length (vals m)" using assms(1) by (auto simp: edge_ok_def usable_def)
qed

lemma ready_term:
  assumes ready: "live_ready m live" and b: "b < length (blocks m)" and v: "v \<in> set (term_uses m (blk_term (blocks m ! b)))"
  shows "v < length (vals m) \<and> live ! v"
proof -
  let ?t = "blk_term (blocks m ! b)" and ?S = "avail_at m (blocks m ! b) (length (blk_ops (blocks m ! b)))"
  have "term_ok m ?S ?t" "terms_wf m" using ready b by (auto simp: live_ready_def sound_module_def module_ok_def block_ok_def Let_def)
  moreover from this(2) have "term_wf m ?t" using b by (simp add: terms_wf_def)
  ultimately have "v < length (vals m)" using v term_args_length [of m ?t]
    by (cases "term_kind ?t") (auto simp: term_ok_def term_uses_def usable_def dest: edge_args_less)
  then show ?thesis using live_block [OF _ nth_mem [OF b]] ready v by (simp add: live_ready_def)
qed

lemma sim_transfer:
  assumes ready: "sim_ready m live" and c: "compacts m live r m'" and s: "sim m live r m' st st'"
    and args: "\<forall>v \<in> set args. v < length (vals m) \<and> live ! v"
  shows "sims m live r m' (exec_transfer_args al target args n st) (exec_transfer_args al target (map r args) n st')"
proof (cases "target < length (blocks m)")
  case True
  have len: "length (blocks m') = length (blocks m)" and p: "params (blocks m' ! target) = map r (params (blocks m ! target))"
    using c True by (auto simp: compacts_def ren_block_def Let_def)
  note mods = sim_modules [OF s]
  show ?thesis
    using s True sim_define_values [OF c s ready_params [OF sim_live_ready [OF ready] True]] sim_read_values [OF c s args]
    by (auto simp: exec_transfer_args_def mods valid_block_def len p Let_def split: xres.split)
next
  case False
  then show ?thesis using s c sim_modules [OF s] by (simp add: exec_transfer_args_def valid_block_def compacts_def)
qed

lemma sim_term:
  assumes ready: "sim_ready m live" and c: "compacts m live r m'" and s: "sim m live r m' st st'" and b: "b < length (blocks m)"
  shows "sims m live r m' (exec_term al d (blk_term (blocks m ! b)) st) (exec_term al d (blk_term (blocks m' ! b)) st')"
proof -
  let ?t = "blk_term (blocks m ! b)" and ?t' = "blk_term (blocks m' ! b)"
  have mods: "ex_module st = m" "ex_module st' = m'" using sim_modules [OF s] by auto
  have rb: "ren_block m live m' r b" using c b by (simp add: compacts_def)
  then have t': "?t' = (if term_kind ?t = XAIR_TERM_CBRANCH then ?t\<lparr>condition := r (condition ?t)\<rparr> else ?t)" by (simp add: ren_block_def Let_def)
  have fields: "term_kind ?t' = term_kind ?t" "true_target ?t' = true_target ?t" "false_target ?t' = false_target ?t"
    "true_arg_count ?t' = true_arg_count ?t" "false_arg_count ?t' = false_arg_count ?t" "code ?t' = code ?t" by (simp_all add: t')
  have args: "term_kind ?t \<in> {XAIR_TERM_JUMP, XAIR_TERM_RETURN, XAIR_TERM_CBRANCH} \<Longrightarrow>
      term_args_const m' ?t' False = map r (term_args_const m ?t False)"
    "term_kind ?t = XAIR_TERM_CBRANCH \<Longrightarrow> term_args_const m' ?t' True = map r (term_args_const m ?t True)"
    using rb by (auto simp: ren_block_def Let_def)
  have live: "v < length (vals m) \<and> live ! v" if v: "v \<in> set (term_uses m ?t)" for v by (rule ready_term [OF sim_live_ready [OF ready] b v])
  have tr: "sims m live r m' (exec_transfer_args al x as n st) (exec_transfer_args al x (map r as) n st')"
    if "set as \<subseteq> set (term_uses m ?t)" for x as n
    using sim_transfer [OF ready c s] live that by blast
  show ?thesis
  proof (cases "term_kind ?t")
    case XAIR_TERM_JUMP
    obtain q st1 where 1: "exec_transfer_args al (true_target ?t) (term_args_const m ?t False) (true_arg_count ?t) st = (q, st1)" by fastforce
    obtain q' st1' where 2: "exec_transfer_args al (true_target ?t) (map r (term_args_const m ?t False)) (true_arg_count ?t) st' = (q', st1')" by fastforce
    show ?thesis using tr [of "term_args_const m ?t False" "true_target ?t" "true_arg_count ?t"] XAIR_TERM_JUMP args
      by (auto simp: exec_term_def mods fields term_uses_def 1 2 split: xres.split)
  next
    case XAIR_TERM_CBRANCH
    have cond: "exec_read_value st' (condition ?t') = exec_read_value st (condition ?t)"
      using sim_read [OF c s] live [of "condition ?t"] XAIR_TERM_CBRANCH by (simp add: t' term_uses_def)
    have edge: "sims m live r m'
        (case exec_transfer_args al x as n st of (Err e, st1) \<Rightarrow> (Err e, st1) | (Ok _, st1) \<Rightarrow> (Ok (Inr x), st1))
        (case exec_transfer_args al x (map r as) n st' of (Err e, st1) \<Rightarrow> (Err e, st1) | (Ok _, st1) \<Rightarrow> (Ok (Inr x), st1))"
      if "set as \<subseteq> set (term_uses m ?t)" for x as n and z :: "xair_exec_result + xair_block_id"
      using tr [OF that, of x n] by (auto split: prod.splits xres.splits)
    show ?thesis using XAIR_TERM_CBRANCH args s edge [of "term_args_const m ?t False" "true_target ?t" "true_arg_count ?t"]
        edge [of "term_args_const m ?t True" "false_target ?t" "false_arg_count ?t"]
      unfolding exec_term_def mods fields cond Let_def by (auto simp: term_uses_def split: xres.split)
  next
    case XAIR_TERM_RETURN
    then have "exec_read_values st' (map r (term_args_const m ?t False)) = exec_read_values st (term_args_const m ?t False)"
      using live by (intro sim_read_values [OF c s]) (simp add: term_uses_def)
    then show ?thesis using XAIR_TERM_RETURN args s by (auto simp: exec_term_def mods fields split: xres.split)
  qed (use s in \<open>simp_all add: exec_term_def mods fields\<close>)
qed

lemma sim_block:
  assumes ready: "sim_ready m live" and c: "compacts m live r m'" and s: "sim m live r m' st st'" and b: "b < length (blocks m)"
    and run: "exec_block al b st = (Ok q, st1)" and halt: "\<forall>res. q = Inl res \<longrightarrow> halt_kind res \<noteq> XAIR_EXEC_HALTED_UNSUPPORTED"
  shows "\<exists>st1'. exec_block al b st' = (Ok q, st1') \<and> sim m live r m' st1 st1'"
proof -
  have mods: "ex_module st = m" "ex_module st' = m'" using sim_modules [OF s] by auto
  obtain p st2 where o: "exec_block_ops al b (blk_ops (blocks m ! b)) st = (p, st2)" by fastforce
  have some: "halt_kind res = XAIR_EXEC_HALTED_UNSUPPORTED" if "exec_block_ops al b ids x = (Ok (Some res), y)" for ids x y res
    using that by (induction ids arbitrary: x) (auto simp: Let_def exec_set_result_def split: prod.splits xres.splits if_splits)
  have p: "p = Ok None" "exec_term al b (blk_term (blocks m ! b)) st2 = (Ok q, st1)"
    using run halt o some [of "blk_ops (blocks m ! b)" st _ st2]
    by (auto simp: exec_block_def mods Let_def split: xres.splits option.splits)
  have ids: "\<forall>i \<in> set (blk_ops (blocks m ! b)). i < length (ops m)"
    using linked_block(2) [of m b] ready b by (auto simp: sim_ready_def live_ready_def)
  have "map ((!) (ops m')) (blk_ops (blocks m' ! b)) =
      map (\<lambda>i. ren_op r (ops m ! i)) (filter (\<lambda>i. live ! dst (ops m ! i)) (blk_ops (blocks m ! b)))"
    using c b by (simp add: compacts_def ren_block_def Let_def kept_ops_def)
  from sim_block_ops [OF ready c o [unfolded p(1)] s ids this] obtain st2' where
    o': "exec_block_ops al b (blk_ops (blocks m' ! b)) st' = (Ok None, st2')" "sim m live r m' st2 st2'" by blast
  have "sims m live r m' (Ok q, st1) (exec_term al b (blk_term (blocks m' ! b)) st2')"
    using sim_term [OF ready c o'(2) b, of al b] p(2) by simp
  then show ?thesis using o' by (cases "exec_term al b (blk_term (blocks m' ! b)) st2'") (auto simp: exec_block_def mods Let_def)
qed

lemma define_module: "exec_define_value v x st = (q, st1) \<Longrightarrow> ex_module st1 = ex_module st"
  by (auto simp: exec_define_value_def split: if_splits)

lemma exec_op_module:
  assumes "exec_op al oper st = (q, st1)"
  shows "ex_module st1 = ex_module st"
proof (cases "opcode oper = XAIR_OP_LOAD \<or> opcode oper = XAIR_OP_STORE")
  case True
  then have "exec_memory_op al oper (val_type (vals (ex_module st) ! dst oper)) st = (q, st1)"
    using assms by (auto simp: exec_op_def Let_def)
  from exec_memory_op_values [OF this] show ?thesis by (auto simp: same_values_def dest!: define_module)
next
  case False
  then show ?thesis using assms
    by (auto simp: exec_op_def exec_unary_op_def exec_binary_op_def exec_define_result_def Let_def
        split: if_splits xres.splits option.splits dest: define_module)
qed

lemma exec_block_ops_module: "exec_block_ops al b ids st = (q, st1) \<Longrightarrow> ex_module st1 = ex_module st"
proof (induction ids arbitrary: st)
  case (Cons i ids)
  obtain p st2 where e: "exec_op al (ops (ex_module st) ! i) st = (p, st2)" by fastforce
  then show ?case using Cons exec_op_module [OF e] by (cases p) (auto simp: Let_def split: if_splits)
qed simp

text \<open>Targets of terminators exist: a jump to a block that does not is a bad argument, so the loop never enters one.\<close>

lemma exec_term_next:
  assumes "exec_term al b t st = (Ok (Inr c), st')"
  shows "c < length (blocks (ex_module st))"
  using assms
  by (auto simp: exec_term_def exec_transfer_args_def valid_block_def Let_def
      split: xair_term_kind.splits prod.splits xres.splits if_splits)

lemma exec_block_next:
  assumes "exec_block al b st = (Ok (Inr c), st')"
  shows "c < length (blocks (ex_module st))"
proof -
  obtain st1 where e: "exec_block_ops al b (blk_ops (blocks (ex_module st) ! b)) st = (Ok None, st1)"
      "exec_term al b (blk_term (blocks (ex_module st) ! b)) st1 = (Ok (Inr c), st')"
    using assms by (auto simp: exec_block_def Let_def split: prod.splits xres.splits option.splits)
  then show ?thesis using exec_term_next exec_block_ops_module by metis
qed

lemma sim_loop:
  assumes ready: "sim_ready m live" and c: "compacts m live r m'"
  shows "exec_loop al n b st = (Ok res, st1) \<Longrightarrow> halt_kind res \<noteq> XAIR_EXEC_HALTED_UNSUPPORTED \<Longrightarrow> sim m live r m' st st' \<Longrightarrow>
    b < length (blocks m) \<Longrightarrow> \<exists>st1'. exec_loop al n b st' = (Ok res, st1') \<and> sim m live r m' st1 st1'"
proof (induction n arbitrary: b st st')
  case (Suc n)
  obtain q st2 where b: "exec_block al b st = (Ok q, st2)"
    using Suc.prems(1) by (auto split: prod.splits xres.splits sum.splits)
  have "\<forall>x. q = Inl x \<longrightarrow> halt_kind x \<noteq> XAIR_EXEC_HALTED_UNSUPPORTED" using Suc.prems(1,2) b by auto
  from sim_block [OF ready c Suc.prems(3,4) b this] obtain st2' where
    b': "exec_block al b st' = (Ok q, st2')" "sim m live r m' st2 st2'" by blast
  show ?case
  proof (cases q)
    case (Inl x)
    then show ?thesis using Suc.prems(1) b b' by simp
  next
    case (Inr nx)
    have "terms_wf (ex_module st)" "ex_module st = m" using ready sim_modules [OF Suc.prems(3)] by (auto simp: sim_ready_def live_ready_def linked_def)
    then have "nx < length (blocks m)" using exec_block_next [of al b st nx st2] b Inr by simp
    then show ?thesis using Suc.IH [of nx st2 st2'] Suc.prems(1,2) b b' Inr by simp
  qed
qed simp

section \<open>Calling a block\<close>

text \<open>
  How a client runs a block: create a state, give every parameter of the block a value, run. The result does not mention
  identifiers of values, so it can be compared between a module and its canonical form.
\<close>

fun set_params :: "xair_value_id list \<Rightarrow> xair_exec_value list \<Rightarrow> (xair_exec_state, unit) xop" where
  "set_params (p # ps) (x # xs) = xbind (xair_exec_set_param p x) (\<lambda>_. set_params ps xs)"
| "set_params _ _ = xreturn ()"

definition call_block :: "allocator \<Rightarrow> xair_module \<Rightarrow> xair_block_id \<Rightarrow> xair_exec_value list \<Rightarrow> nat \<Rightarrow> xair_exec_result xres" where
  "call_block al m b xs n =
     (case xair_exec_state_create al m of
        Err e \<Rightarrow> Err e
      | Ok st \<Rightarrow> fst (xbind (set_params (params (blocks m ! b)) xs) (\<lambda>_. xair_exec_run al m b n) st))"

definition init_state :: "xair_module \<Rightarrow> xair_exec_state" where
  "init_state m = \<lparr>ex_module = m, ex_values = replicate (length (vals m)) zero_value,
    ex_defined = replicate (length (vals m)) False, pages = [], page_cap = 0, mem_generation = 0\<rparr>"

lemma create_Ok: "xair_exec_state_create al m = Ok st \<Longrightarrow> st = init_state m"
  by (auto simp: xair_exec_state_create_def init_state_def Let_def split: if_splits)

lemma set_param_define:
  "xair_exec_set_param p x st = (Ok u, st1) \<Longrightarrow> exec_define_value p x st = (Ok u, st1) \<and> p < length (vals (ex_module st)) \<and>
    val_op (vals (ex_module st) ! p) = XAIR_INVALID_ID \<and> ev_type x = val_type (vals (ex_module st) ! p)"
  by (auto simp: xair_exec_set_param_def exec_check_value_slot_def exec_define_value_def xair_type_equal_def
      split: if_splits intro: xair_type.equality)

text \<open>Setting parameters leaves a state in which only parameters have values.\<close>

lemma set_params_fresh:
  "set_params ps xs st = (Ok u, st1) \<Longrightarrow> fresh_state m st \<Longrightarrow> \<forall>x \<in> set xs. value_ok x \<Longrightarrow>
    fresh_state m st1 \<and> defd st \<subseteq> defd st1 \<and> set (take (length xs) ps) \<subseteq> defd st1"
proof (induction ps xs arbitrary: st rule: set_params.induct)
  case (1 p ps x xs)
  obtain u1 st2 where 2: "xair_exec_set_param p x st = (Ok u1, st2)" "set_params ps xs st2 = (Ok u, st1)"
    using "1.prems"(1) by (auto simp: xbind_def split: prod.splits xres.splits)
  have ok: "state_ok m st" "ex_module st = m" using "1.prems"(2) by (auto simp: fresh_state_def state_ok_def)
  note d = set_param_define [OF 2(1), unfolded ok(2)]
  have st2: "st2 = st\<lparr>ex_values := (ex_values st)[p := x], ex_defined := (ex_defined st)[p := True]\<rparr>"
    using d by (auto simp: exec_define_value_def split: if_splits)
  have dd: "defd st2 = insert p (defd st)" using d ok by (auto simp: st2 defd_def state_ok_def nth_list_update)
  have "ev_type (ex_values st2 ! v) = type_of m v \<and> value_ok (ex_values st2 ! v) \<and> val_op (vals m ! v) = XAIR_INVALID_ID" if "v \<in> defd st2" for v
  proof (cases "v = p")
    case True
    then show ?thesis using d "1.prems"(3) ok by (simp add: st2 state_ok_def)
  next
    case False
    then have "v \<in> defd st" using that dd by simp
    then show ?thesis using False "1.prems"(2) by (simp add: st2 fresh_state_def state_ok_def)
  qed
  then have "fresh_state m st2" using ok by (simp add: fresh_state_def state_ok_def) (simp add: st2)
  then show ?case using "1.IH" [OF 2(2)] "1.prems"(3) dd by auto
qed (auto simp: xreturn_def)

lemma init_fresh: "fresh_state m (init_state m)"
  by (auto simp: init_state_def fresh_state_def state_ok_def defd_def)

lemma set_params_retarget:
  "vals m' = vals (ex_module st) \<Longrightarrow> set_params ps xs (retarget m' st) = apsnd (retarget m') (set_params ps xs st)"
proof (induction ps xs arbitrary: st rule: set_params.induct)
  case (1 p ps x xs)
  have "xair_exec_set_param p x (retarget m' st) = apsnd (retarget m') (xair_exec_set_param p x st)"
    using "1.prems" by (simp add: xair_exec_set_param_def exec_check_value_slot_def define_retarget)
  moreover have "ex_module st1 = ex_module st" if "xair_exec_set_param p x st = (Ok u, st1)" for u st1
    using set_param_define [OF that] define_module by blast
  moreover obtain q st1 where 2: "xair_exec_set_param p x st = (q, st1)" by fastforce
  ultimately show ?case using "1.IH" [of st1] "1.prems" by (cases q) (simp_all add: xbind_def)
qed (simp_all add: xreturn_def)

lemma sim_init:
  assumes "compacts m live r m'"
  shows "sim m live r m' (init_state m) (init_state m')"
proof -
  have "agrees m live r m' (init_state m) (replicate (length (vals m')) zero_value) (replicate (length (vals m')) False)"
    using assms by (auto simp: agrees_def compacts_def ren_value_def init_state_def)
  moreover have "init_state m' = revalue m' (replicate (length (vals m')) zero_value) (replicate (length (vals m')) False) (init_state m)"
    by (simp add: revalue_def init_state_def)
  ultimately show ?thesis by (simp add: simI)
qed

lemma sim_set_params:
  assumes c: "compacts m live r m'"
  shows "sim m live r m' st st' \<Longrightarrow> \<forall>v \<in> set ps. v < length (vals m) \<and> live ! v \<Longrightarrow>
    sims m live r m' (set_params ps xs st) (set_params (map r ps) xs st')"
proof (induction ps xs arbitrary: st st' rule: set_params.induct)
  case (1 p ps x xs)
  have p: "p < length (vals m)" "live ! p" using "1.prems"(2) by auto
  have rv: "ren_value m m' r p" using c p by (simp add: compacts_def)
  from "1.prems"(1) obtain as ds where st': "st' = revalue m' as ds st" "agrees m live r m' st as ds" by (auto simp: sim_def)
  have "sims m live r m' (xair_exec_set_param p x st) (xair_exec_set_param (r p) x st')"
    using sim_define [OF c "1.prems"(1) p, of x] "1.prems"(1) st' rv p
    by (auto simp: xair_exec_set_param_def exec_check_value_slot_def agrees_def ren_value_def split: if_splits)
  moreover obtain q st1 where 1: "xair_exec_set_param p x st = (q, st1)" by fastforce
  moreover obtain q' st1' where 2: "xair_exec_set_param (r p) x st' = (q', st1')" by fastforce
  ultimately have "q' = q" "sim m live r m' st1 st1'" by simp_all
  then show ?case using "1.IH" "1.prems"(2) by (cases q) (simp_all add: xbind_def 1 2)
qed (simp_all add: xreturn_def)

section \<open>Canonicalization\<close>

abbreviation is_store :: "xair_op_rec \<Rightarrow> bool" where
  "is_store oper \<equiv> opcode oper = XAIR_OP_STORE"

text \<open>Among well-typed operations, the stores are those that define a memory value.\<close>

lemma store_iff_mem: "op_ok m oper \<Longrightarrow> is_store oper \<longleftrightarrow> is_mem (type_of m (dst oper))"
  by (cases "opcode oper") (auto simp: op_ok_def op_sig_simps is_int_def is_addr_def is_mem_def is_flags_def is_i1_def)

lemma rewrites_stores:
  assumes "mod_rewrites m m'" "sound_module m"
  shows "map is_store (ops m') = map is_store (ops m)"
proof (rule nth_equalityI)
  show "length (map is_store (ops m')) = length (map is_store (ops m))" using assms(1) by (simp add: mod_rewrites_def)
  fix i assume "i < length (map is_store (ops m'))"
  then have i: "i < length (ops m)" "i < length (ops m')" using assms(1) by (auto simp: mod_rewrites_def)
  then have rw: "op_rewrites m (ops m ! i) (ops m' ! i)" using assms(1) by (simp add: mod_rewrites_def)
  have "op_ok m (ops m ! i)" using assms(2) i by (simp add: sound_module_def)
  then show "map is_store (ops m') ! i = map is_store (ops m) ! i"
    using rw i store_iff_mem [of m "ops m ! i"] store_iff_mem [of m "ops m' ! i"] by (simp add: op_rewrites_def)
qed

lemma star_rewrites:
  "mod_rewrites\<^sup>*\<^sup>* m m' \<Longrightarrow> sound_module m \<Longrightarrow> linked m \<Longrightarrow>
    sound_module m' \<and> linked m' \<and> map is_store (ops m') = map is_store (ops m) \<and> vals m' = vals m \<and> blocks m' = blocks m \<and>
    term_args m' = term_args m"
proof (induction rule: rtranclp_induct)
  case (step y z)
  have "vals z = vals y \<and> blocks z = blocks y \<and> term_args z = term_args y" using step.hyps(2) by (simp add: mod_rewrites_def)
  moreover have "sound_module y" "linked y" using step.IH step.prems by auto
  ultimately show ?case using step mod_rewrites_sound [OF step.hyps(2)] rewrites_linked [OF step.hyps(2)] rewrites_stores [OF step.hyps(2)]
    by simp
qed simp

lemma clear_rewrites: "sound_module m \<Longrightarrow> mod_rewrites m (value_number_clear m)"
  by (auto simp: mod_rewrites_def value_number_clear_def intro: op_rewrites_refl)

text \<open>No store is removed when the canonical module has as many.\<close>

lemma count_stores: "length (filter is_store xs) = card {i. i < length xs \<and> is_store (xs ! i)}"
  by (rule length_filter_conv_card)

lemma compact_ops_list:
  assumes "linked m" "compact_live_values al live stats m = (Ok stats', m')" "m' \<noteq> m"
  shows "map is_store (ops m') = map (\<lambda>i. is_store (ops m ! i)) (all_ops m live)"
proof -
  define mp where "mp = number_live m live"
  have n: "positions (length (ops m)) (all_ops m live) (op_map mp)" "new_op_count mp = length (all_ops m live)"
    using number_live_numbers [OF assms(1), of live] by (simp_all add: numbers_def mp_def)
  have len: "length (ops m') = length (all_ops m live)"
    using compact_Ok(3) [OF assms] n(2) by (simp add: length_put_op mp_def)
  have "is_store (ops m' ! k) = is_store (ops m ! (all_ops m live ! k))" if k: "k < length (all_ops m live)" for k
  proof -
    have "op_map mp ! (all_ops m live ! k) = k" using n(1) k by (simp add: positions_def)
    then show ?thesis using copied_ops [OF assms(1) nth_mem [OF k], of zero_op_rec] compact_Ok(3) [OF assms]
      by (simp add: mp_def remap_op_def)
  qed
  then show ?thesis by (intro nth_equalityI) (simp_all add: len)
qed

lemma stores_live:
  assumes "linked m" "compact_live_values al live stats m = (Ok stats', m')" "m' \<noteq> m"
    "length (filter is_store (ops m')) = length (filter is_store (ops m))"
  shows "\<forall>i < length (ops m). is_store (ops m ! i) \<longrightarrow> live ! dst (ops m ! i)"
proof -
  let ?A = "{i \<in> set (all_ops m live). is_store (ops m ! i)}" and ?B = "{i. i < length (ops m) \<and> is_store (ops m ! i)}"
  have "length (filter is_store (ops m')) = length (filter id (map is_store (ops m')))" by (simp add: filter_map comp_def)
  also have "\<dots> = length (filter (\<lambda>i. is_store (ops m ! i)) (all_ops m live))"
    by (simp add: compact_ops_list [OF assms(1-3)] filter_map comp_def)
  also have "\<dots> = card (set (filter (\<lambda>i. is_store (ops m ! i)) (all_ops m live)))"
    by (rule distinct_card [symmetric]) (simp add: distinct_all(2) [OF assms(1)])
  also have "\<dots> = card ?A" by simp
  finally have "card ?A = card ?B" using assms(4) by (simp add: count_stores)
  moreover have "?A \<subseteq> ?B" using all_ops_less [OF assms(1)] by auto
  ultimately have "?A = ?B" by (intro card_subset_eq) auto
  then show ?thesis by (auto simp: all_ops_def kept_ops_def)
qed

text \<open>A call, step by step.\<close>

lemma call_block_Ok:
  assumes "call_block al m b xs n = Ok res"
  obtains u st1 st2 where "xair_exec_state_create al m = Ok (init_state m)" "set_params (params (blocks m ! b)) xs (init_state m) = (Ok u, st1)"
    "exec_loop al n b st1 = (Ok res, st2)" "b < length (blocks m)"
proof -
  obtain st where c: "xair_exec_state_create al m = Ok st" using assms by (auto simp: call_block_def split: xres.splits)
  note st = create_Ok [OF c]
  obtain q st1 where p: "set_params (params (blocks m ! b)) xs st = (q, st1)" by fastforce
  obtain u where q: "q = Ok u" using assms p by (cases q) (auto simp: call_block_def c xbind_def)
  have r: "fst (xair_exec_run al m b n st1) = Ok res" using assms p q by (simp add: call_block_def c xbind_def)
  then have "fst (exec_loop al n b st1) = Ok res" "b < length (blocks m)"
    by (auto simp: xair_exec_run_def valid_block_def split: if_splits)
  then show thesis using that [of u st1 "snd (exec_loop al n b st1)"] c p q st by (simp add: prod_eq_iff)
qed

lemma call_block_run:
  assumes "xair_exec_state_create al m = Ok st" "set_params (params (blocks m ! b)) xs (init_state m) = (Ok u, st1)"
    "exec_loop al n b st1 = (Ok res, st2)" "b < length (blocks m)" "ex_module st1 = m" "length (ex_values st1) = length (vals m)"
  shows "call_block al m b xs n = Ok res"
  using assms create_Ok [OF assms(1)] by (simp add: call_block_def xbind_def xair_exec_run_def valid_block_def)

lemma canonicalize_Ok:
  assumes "xair_canonicalize_module al m = (Ok stats, m')"
  obtains s1 m1 s2 s3 where "fst (xair_verify_module al m) = XAIR_OK" "canonicalize_local_ops (value_number_clear m) s1 = (m1, s2)"
    "compact_live_values al (live_values m1) s2 m1 = (Ok s3, m')"
  using assms by (auto simp: xair_canonicalize_module_def eliminate_dead_values_def Let_def split: if_splits prod.splits xres.splits)

text \<open>The canonical module after the operations have been rewritten.\<close>

lemma local_ops_call:
  assumes sm: "sound_module m" and rw: "mod_rewrites\<^sup>*\<^sup>* m m1" and p: "set_params (params (blocks m ! b)) xs (init_state m) = (Ok u, st1)"
    and run: "exec_loop al n b st1 = (r, st2)" and b: "b < length (blocks m)" and xs: "length xs = length (params (blocks m ! b))" "\<forall>x \<in> set xs. value_ok x"
    and same: "vals m1 = vals m" "blocks m1 = blocks m"
  shows "set_params (params (blocks m1 ! b)) xs (init_state m1) = (Ok u, retarget m1 st1)" "exec_loop al n b (retarget m1 st1) = (r, retarget m1 st2)"
    "length (ex_values (retarget m1 st1)) = length (vals m1)"
proof -
  have f: "fresh_state m st1" "set (params (blocks m ! b)) \<subseteq> defd st1"
    using set_params_fresh [OF p init_fresh xs(2)] xs(1) by simp_all
  have "init_state m1 = retarget m1 (init_state m)" by (simp add: retarget_def init_state_def same)
  moreover have "vals m1 = vals (ex_module (init_state m))" by (simp add: init_state_def same)
  ultimately show "set_params (params (blocks m1 ! b)) xs (init_state m1) = (Ok u, retarget m1 st1)"
    using set_params_retarget [of m1 "init_state m" "params (blocks m ! b)" xs] p by (simp add: same(2))
  show "exec_loop al n b (retarget m1 st1) = (r, retarget m1 st2)"
    using mod_rewrites_star_run [OF rw sm f(1) _ run] b f(2) by (simp add: enters_def)
  show "length (ex_values (retarget m1 st1)) = length (vals m1)" using f(1) by (simp add: fresh_state_def state_ok_def same)
qed

lemma local_ops_ready:
  assumes m: "built m" "module_ok m" and c: "canonicalize_local_ops (value_number_clear m) s1 = (m1, s2)"
  shows "mod_rewrites\<^sup>*\<^sup>* m m1" "sound_module m" "sound_module m1" "linked m1" "vals m1 = vals m" "blocks m1 = blocks m"
    "map is_store (ops m1) = map is_store (ops m)" "distinct (all_slots m1)"
proof -
  have wf: "wf_module m" using built_module_inv [OF m(1)] by (simp add: module_inv_def)
  show sm: "sound_module m" using wf m(2) by (rule wf_sound_module)
  have "mod_rewrites\<^sup>*\<^sup>* (value_number_clear m) m1"
    using canonicalize_loop_rewrites [OF mod_rewrites_sound [OF clear_rewrites [OF sm] sm] _ c [unfolded canonicalize_local_ops_def]]
    by simp
  then show rw: "mod_rewrites\<^sup>*\<^sup>* m m1" using clear_rewrites [OF sm] by (rule converse_rtranclp_into_rtranclp [rotated])
  show "sound_module m1" "linked m1" "vals m1 = vals m" "map is_store (ops m1) = map is_store (ops m)" and b: "blocks m1 = blocks m"
    using star_rewrites [OF rw sm wf_linked [OF wf]] by auto
  show "distinct (all_slots m1)" using slots_ok_distinct [OF built_slots [OF m(1)]] by (simp add: all_slots_def b)
qed

text \<open>A call gives the same result after canonicalization when compaction finds every store live.\<close>

lemma canonicalize_call_live:
  assumes m: "built m" and canon: "xair_canonicalize_module al m = (Ok stats, m')"
    and stores: "\<And>s1 m1 s2 s3. canonicalize_local_ops (value_number_clear m) s1 = (m1, s2) \<Longrightarrow>
      compact_live_values al (live_values m1) s2 m1 = (Ok s3, m') \<Longrightarrow> m' \<noteq> m1 \<Longrightarrow> module_ok m \<Longrightarrow>
      \<forall>i < length (ops m1). is_store (ops m1 ! i) \<longrightarrow> live_values m1 ! dst (ops m1 ! i)"
    and call: "call_block al' m b xs n = Ok res" "halt_kind res \<noteq> XAIR_EXEC_HALTED_UNSUPPORTED"
    and xs: "length xs = length (params (blocks m ! b))" "\<forall>x \<in> set xs. value_ok x"
    and st': "xair_exec_state_create al' m' = Ok st'"
  shows "call_block al' m' b xs n = Ok res"
proof -
  obtain s1 m1 s2 s3 where c: "fst (xair_verify_module al m) = XAIR_OK" "canonicalize_local_ops (value_number_clear m) s1 = (m1, s2)"
    "compact_live_values al (live_values m1) s2 m1 = (Ok s3, m')" using canon by (rule canonicalize_Ok)
  have "wf_module m" using built_module_inv [OF m] by (simp add: module_inv_def)
  then have ok: "module_ok m" using verify_OK_sound [OF wf_module_srcs_shape c(1)] by simp
  note local = local_ops_ready [OF m ok c(2)]
  note rw = local(1) and sm = local(2)
  from call(1) obtain u st1 st2 where r: "set_params (params (blocks m ! b)) xs (init_state m) = (Ok u, st1)"
    "exec_loop al' n b st1 = (Ok res, st2)" "b < length (blocks m)" by (rule call_block_Ok)
  note m1 = local(5,6,4,3)
  note l = local_ops_call [OF sm rw r xs m1(1,2)]
  show ?thesis
  proof (cases "m' = m1")
    case True
    then show ?thesis using call_block_run [OF st'] l r(3) m1(2) by simp
  next
    case False
    define live where "live = live_values m1"
    define rn where "rn = (!) (value_map (number_live m1 live))"
    have closed: "live_closed m1 live" by (simp add: live_def live_values_closed)
    have comp: "compacts m1 live rn m'" unfolding rn_def live_def
      by (rule compact_compacts [OF m1(3) live_values_closed local(8) c(3) False])
    have ready: "sim_ready m1 live"
      using m1(3,4) closed stores [OF c(2,3) False ok] by (simp add: sim_ready_def live_ready_def live_def)
    have b1: "b < length (blocks m1)" using r(3) by (simp add: m1(2))
    have params: "params (blocks m' ! b) = map rn (params (blocks m1 ! b))" and lenb: "length (blocks m') = length (blocks m1)"
      using comp b1 by (auto simp: compacts_def ren_block_def Let_def)
    have "sims m1 live rn m' (Ok u, retarget m1 st1) (set_params (params (blocks m' ! b)) xs (init_state m'))"
      using sim_set_params [OF comp sim_init [OF comp] ready_params [OF sim_live_ready [OF ready] b1], of xs] l(1) by (simp add: params)
    then obtain st1' where 1: "set_params (params (blocks m' ! b)) xs (init_state m') = (Ok u, st1')" "sim m1 live rn m' (retarget m1 st1) st1'"
      by (cases "set_params (params (blocks m' ! b)) xs (init_state m')") simp
    from sim_loop [OF ready comp l(2) call(2) 1(2) b1] obtain st2' where "exec_loop al' n b st1' = (Ok res, st2')" by blast
    then show ?thesis using call_block_run [OF st' 1(1)] b1 lenb 1(2) by (auto simp: sim_def agrees_def)
  qed
qed

lemma canonicalize_call:
  assumes m: "built m" and canon: "xair_canonicalize_module al m = (Ok stats, m')"
    and stores: "length (filter is_store (ops m')) = length (filter is_store (ops m))"
    and call: "call_block al' m b xs n = Ok res" "halt_kind res \<noteq> XAIR_EXEC_HALTED_UNSUPPORTED"
    and xs: "length xs = length (params (blocks m ! b))" "\<forall>x \<in> set xs. value_ok x"
    and st': "xair_exec_state_create al' m' = Ok st'"
  shows "call_block al' m' b xs n = Ok res"
proof (rule canonicalize_call_live [OF m canon _ call xs st'])
  fix s1 m1 s2 s3
  assume l: "canonicalize_local_ops (value_number_clear m) s1 = (m1, s2)" and ok: "module_ok m"
    and c: "compact_live_values al (live_values m1) s2 m1 = (Ok s3, m')" "m' \<noteq> m1"
  note local = local_ops_ready [OF m ok l]
  have eq: "length (filter is_store ys) = length (filter id (map is_store ys))" for ys by (simp add: filter_map comp_def)
  have "length (filter is_store (ops m')) = length (filter is_store (ops m1))" using stores local(7) by (simp only: eq)
  then show "\<forall>i < length (ops m1). is_store (ops m1 ! i) \<longrightarrow> live_values m1 ! dst (ops m1 ! i)"
    by (rule stores_live [OF local(4) c])
qed

end
