(* ===== verification/Xair_Flow.thy ===== *)
theory Xair_Flow
  imports Xair_Compact_Sound
begin

text \<open>
  The control flow of a run: blocks follow each other along the targets of their terminators, the step limit counts the
  blocks that were executed, and a result is what the block it names ends with. In a module without a cycle of blocks a
  run therefore ends before a step limit of the number of blocks.
\<close>

definition successors :: "xair_term_rec \<Rightarrow> xair_block_id list" where
  "successors t =
     (case term_kind t of
        XAIR_TERM_JUMP \<Rightarrow> [true_target t]
      | XAIR_TERM_CBRANCH \<Rightarrow> [true_target t, false_target t]
      | _ \<Rightarrow> [])"

definition cfg :: "xair_module \<Rightarrow> (xair_block_id \<times> xair_block_id) set" where
  "cfg m = {(c, c'). c < length (blocks m) \<and> c' \<in> set (successors (blk_term (blocks m ! c)))}"

text \<open>A result other than the step limit is what its block ends with.\<close>

definition halts_at :: "xair_module \<Rightarrow> xair_exec_result \<Rightarrow> bool" where
  "halts_at m res \<longleftrightarrow>
     (let bb = blocks m ! halt_block res; t = blk_term bb
      in case halt_kind res of
           XAIR_EXEC_HALTED_RETURN \<Rightarrow> term_kind t = XAIR_TERM_RETURN \<and> halt_code res = 0 \<and>
             length (returns res) = length (term_args_const m t False)
         | XAIR_EXEC_HALTED_TRAP \<Rightarrow> term_kind t = XAIR_TERM_TRAP \<and> halt_code res = code t \<and> returns res = []
         | XAIR_EXEC_HALTED_FAULT \<Rightarrow> term_kind t = XAIR_TERM_FAULT \<and> halt_code res = code t \<and> returns res = []
         | XAIR_EXEC_HALTED_UNSUPPORTED \<Rightarrow> returns res = [] \<and>
             (\<exists>i \<in> set (blk_ops bb). halt_code res = opcode_num (opcode (ops m ! i)))
         | XAIR_EXEC_HALTED_STEP_LIMIT \<Rightarrow> False)"

section \<open>One block\<close>

lemma define_values_module: "exec_define_values vs xs st = (r, st') \<Longrightarrow> ex_module st' = ex_module st"
  by (induction vs xs st rule: exec_define_values.induct) (auto split: prod.splits xres.splits dest: define_module)

lemma transfer_module: "exec_transfer_args al target args n st = (r, st') \<Longrightarrow> ex_module st' = ex_module st"
  by (auto simp: exec_transfer_args_def Let_def split: if_splits xres.splits dest: define_values_module)

lemma read_values_length: "exec_read_values st vs = Ok xs \<Longrightarrow> length xs = length vs"
  by (induction vs arbitrary: xs) (auto split: xres.splits)

lemma block_ops_halt:
  "exec_block_ops al b js st = (Ok (Some res), st') \<Longrightarrow>
     halt_kind res = XAIR_EXEC_HALTED_UNSUPPORTED \<and> halt_block res = b \<and> returns res = [] \<and>
     (\<exists>i \<in> set js. halt_code res = opcode_num (opcode (ops (ex_module st) ! i)))"
proof (induction js arbitrary: st)
  case (Cons j js)
  obtain q st1 where e: "exec_op al (ops (ex_module st) ! j) st = (q, st1)" by fastforce
  show ?case
  proof (cases q)
    case (Ok u)
    then have "exec_block_ops al b js st1 = (Ok (Some res), st')" using Cons.prems e by (simp add: Let_def)
    from Cons.IH [OF this] show ?thesis using exec_op_module [OF e] by auto
  qed (use Cons.prems e in \<open>auto simp: Let_def exec_set_result_def split: if_splits\<close>)
qed simp

lemma exec_term_flow:
  assumes "exec_term al b t st = (r, st')" "ex_module st = m" "b < length (blocks m)" "t = blk_term (blocks m ! b)"
  shows "ex_module st' = m \<and>
    (case r of Ok (Inl res) \<Rightarrow> halt_block res = b \<and> halts_at m res | Ok (Inr c) \<Rightarrow> (b, c) \<in> cfg m | Err e \<Rightarrow> True)"
  using assms transfer_module read_values_length
  by (fastforce simp: exec_term_def Let_def cfg_def successors_def halts_at_def exec_set_result_def
      split: xair_term_kind.splits prod.splits xres.splits if_splits)

lemma exec_block_flow:
  assumes "exec_block al b st = (r, st')" "ex_module st = m" "b < length (blocks m)"
  shows "ex_module st' = m \<and>
    (case r of Ok (Inl res) \<Rightarrow> halt_block res = b \<and> halts_at m res | Ok (Inr c) \<Rightarrow> (b, c) \<in> cfg m | Err e \<Rightarrow> True)"
proof -
  obtain q st1 where e: "exec_block_ops al b (blk_ops (blocks m ! b)) st = (q, st1)" by fastforce
  have m1: "ex_module st1 = m" using exec_block_ops_module [OF e] assms(2) by simp
  consider er where "q = Err er" | res where "q = Ok (Some res)" | "q = Ok None" by (metis option.exhaust xres.exhaust)
  then show ?thesis
  proof cases
    case 1
    then show ?thesis using assms e m1 by (auto simp: exec_block_def)
  next
    case 2
    then show ?thesis using assms e m1 block_ops_halt [of al b "blk_ops (blocks m ! b)" st res st1]
      by (auto simp: exec_block_def halts_at_def Let_def)
  next
    case 3
    then have "exec_term al b (blk_term (blocks m ! b)) st1 = (r, st')" using assms e by (simp add: exec_block_def)
    from exec_term_flow [OF this m1 assms(3) refl] show ?thesis .
  qed
qed

section \<open>Runs\<close>

lemma exec_loop_flow:
  assumes "exec_loop al n b st = (Ok res, st')" "ex_module st = m" "b < length (blocks m)"
  shows "if halt_kind res = XAIR_EXEC_HALTED_STEP_LIMIT then (b, halt_block res) \<in> cfg m ^^ n
    else halts_at m res \<and> (\<exists>k < n. (b, halt_block res) \<in> cfg m ^^ k)"
  using assms
proof (induction n arbitrary: b st)
  case 0
  then show ?case by (auto simp: exec_set_result_def)
next
  case (Suc n)
  obtain q st1 where e: "exec_block al b st = (q, st1)" by fastforce
  note flow = exec_block_flow [OF e Suc.prems(2,3)]
  consider er where "q = Err er" | x where "q = Ok (Inl x)" | c where "q = Ok (Inr c)" by (metis sum.exhaust xres.exhaust)
  then show ?case
  proof cases
    case 1
    then show ?thesis using Suc.prems(1) e by simp
  next
    case 2
    then have "halts_at m res" "halt_block res = b" using Suc.prems(1) e flow by auto
    then show ?thesis by (auto simp: halts_at_def Let_def intro: exI [of _ 0] split: if_splits)
  next
    case 3
    then have c: "(b, c) \<in> cfg m" "ex_module st1 = m" "c < length (blocks m)"
      using flow exec_block_next e Suc.prems(2) by auto
    have "exec_loop al n c st1 = (Ok res, st')" using Suc.prems(1) e 3 by simp
    from Suc.IH [OF this c(2,3)] c(1) show ?thesis
      by (auto simp del: relpow.simps split: if_splits intro: relpow_Suc_I2 exI [of _ "Suc _"])
  qed
qed

text \<open>The number of blocks that can follow a block bounds the length of every path from it.\<close>

definition rank :: "xair_module \<Rightarrow> xair_block_id \<Rightarrow> nat" where
  "rank m c = card {c'. (c, c') \<in> (cfg m)\<^sup>+}"

lemma path_bounded:
  assumes closed: "\<And>c c'. (c, c') \<in> cfg m \<Longrightarrow> c' < length (blocks m)" and acyclic: "acyclic (cfg m)"
    and b: "b < length (blocks m)" and path: "(b, c) \<in> cfg m ^^ n"
  shows "n < length (blocks m)"
proof -
  have within: "{c'. (c, c') \<in> (cfg m)\<^sup>+} \<subseteq> {..<length (blocks m)} - {c}" for c
    using closed acyclic by (auto simp: acyclic_def elim: tranclE)
  then have fin: "finite {c'. (c, c') \<in> (cfg m)\<^sup>+}" for c by (rule finite_subset) simp
  have step: "rank m c' < rank m c" if "(c, c') \<in> cfg m" for c c'
    unfolding rank_def
  proof (rule psubset_card_mono [OF fin])
    show "{x. (c', x) \<in> (cfg m)\<^sup>+} \<subset> {x. (c, x) \<in> (cfg m)\<^sup>+}"
      using that acyclic by (auto simp: acyclic_def intro: trancl_into_trancl2)
  qed
  have "rank m c + n \<le> rank m b" using path
  proof (induction n arbitrary: c)
    case (Suc n)
    then obtain d where "(b, d) \<in> cfg m ^^ n" "(d, c) \<in> cfg m" by auto
    then show ?case using Suc.IH [of d] step [of d c] by simp
  qed simp
  moreover have "rank m b \<le> card ({..<length (blocks m)} - {b})"
    unfolding rank_def by (rule card_mono [OF _ within]) simp
  ultimately show ?thesis using b by simp
qed

lemma ok_cfg_closed: "module_ok m \<Longrightarrow> (c, c') \<in> cfg m \<Longrightarrow> c' < length (blocks m)"
  by (auto simp: cfg_def successors_def module_ok_def block_ok_def term_ok_def edge_ok_def Let_def split: xair_term_kind.splits)

end
