(* ===== verification/Xair_Tools_Sound.thy ===== *)
theory Xair_Tools_Sound
  imports Xair_Lift_Tools Xair_Lift_Sound Xair_Lift_Defined Xair_Flow
begin

text \<open>
  What the tools rely on across components: a block that was lifted verifies, also after freezing, its inputs can be set
  with values of the register width, and a run returns the values the report reads. The case runner sets all inputs as
  64-bit values, which suits 64-bit code only.
\<close>

section \<open>Freezing keeps what the verifier and the executor read\<close>

lemma module_ok_stored:
  assumes st: "stored_alike m m'" and ok: "module_ok m"
  shows "module_ok m'"
proof -
  have eq: "vals m' = vals m" "ops m' = ops m" "term_args m' = term_args m" "length (blocks m') = length (blocks m)"
    using st by (auto simp: stored_alike_def dest: list_all2_lengthD)
  have b: "params (blocks m' ! c) = params (blocks m ! c)" "blk_ops (blocks m' ! c) = blk_ops (blocks m ! c)"
    "blk_term (blocks m' ! c) = blk_term (blocks m ! c)" if "c < length (blocks m)" for c
    using st that by (auto simp: stored_alike_def same_block_def dest: list_all2_nthD)
  have u: "usable m' = usable m" by (auto simp: fun_eq_iff usable_def value_is_global_const_def valid_value_def eq)
  have e: "edge_ok m' = edge_ok m" by (auto simp: fun_eq_iff edge_ok_def u eq b)
  have "term_args_const m' = term_args_const m" by (simp add: fun_eq_iff term_args_const_def eq Let_def)
  then have t: "term_ok m' = term_ok m" by (auto simp: fun_eq_iff term_ok_def u e eq split: xair_term_kind.split)
  have o: "block_op_ok m' = block_op_ok m" by (auto simp: fun_eq_iff block_op_ok_def op_ok_def u eq)
  have "block_ok m' c" if "c < length (blocks m)" for c
    using ok that by (auto simp: module_ok_def block_ok_def t o b eq avail_at_def Let_def)
  then show ?thesis by (simp add: module_ok_def eq)
qed

lemma block_returns_stored:
  assumes "stored_alike m m'" "b < length (blocks m)"
  shows "block_returns m' b = block_returns m b" "params (blocks m' ! b) = params (blocks m ! b)"
proof -
  have "blk_term (blocks m' ! b) = blk_term (blocks m ! b)" "term_args m' = term_args m"
    using assms by (auto simp: stored_alike_def same_block_def dest: list_all2_nthD)
  then show "block_returns m' b = block_returns m b" by (simp add: fun_eq_iff block_returns_def term_args_const_def Let_def)
  show "params (blocks m' ! b) = params (blocks m ! b)"
    using assms by (auto simp: stored_alike_def same_block_def dest: list_all2_nthD)
qed

lemma freeze_stored: "xair_module_freeze al m = (Ok u, m') \<Longrightarrow> stored_alike m m'"
  using finalize_module_storage_spec [of al m]
  by (auto simp: xair_module_freeze_def stored_alike_def split: if_splits prod.splits xres.splits)

lemma finalize_blocks_Err: "finalize_blocks al i bbs = (Err e, bbs') \<Longrightarrow> e = XAIR_ERR_OOM"
  by (induction bbs arbitrary: i bbs')
    (auto simp: finalize_block_storage_def Let_def split: prod.splits xres.splits dest: shrink_array_Err)

lemma freeze_Err: "xair_module_freeze al m = (Err e, m') \<Longrightarrow> \<not> frozen m \<Longrightarrow> e = XAIR_ERR_OOM"
  by (auto simp: xair_module_freeze_def finalize_module_storage_def Let_def split: prod.splits xres.splits
      dest: shrink_array_Err finalize_blocks_Err)

section \<open>A lifted block\<close>

text \<open>What the tools know of a module after lifting, verifying and freezing it.\<close>

definition lifted :: "nat \<Rightarrow> xair_lift_result \<Rightarrow> xair_module \<Rightarrow> bool" where
  "lifted w lift m \<longleftrightarrow> wf_module m \<and> module_ok m \<and> lr_block lift < length (blocks m) \<and>
     set (params (blocks m ! lr_block lift)) = input_ids lift \<and> inputs_typed w 0 m lift \<and>
     block_returns m (lr_block lift) (lr_return_values lift) \<and> lift_layout lift"

lemma lifted_fresh:
  assumes l: "xair_lift_basic_block al img (lift_options arch entry n) empty_module = (Ok lift, m)"
  shows "lifted (if arch = XAIR_ARCH_X86_64 then 64 else 32) lift m \<and> \<not> frozen m"
proof -
  have empty: "module_ok empty_module" "module_inv empty_module"
    using module_inv_create by (auto simp: module_ok_def empty_module_def)
  show ?thesis
    using lift_basic_block_ok [OF empty(2,1) l] lift_inputs [OF built.create l] lift_basic_block_returns [OF built.create empty(1) l]
    by (simp add: lifted_def module_inv_def lift_options_def)
qed

lemma lifted_stored:
  assumes "lifted w lift m" "stored_alike m m'"
  shows "lifted w lift m'"
proof -
  have "vals m' = vals m" "length (blocks m') = length (blocks m)" using assms(2) by (auto simp: stored_alike_def dest: list_all2_lengthD)
  then show ?thesis
    using assms module_ok_stored [OF assms(2)] block_returns_stored [OF assms(2)] wf_stored_alike [OF _ assms(2)]
    by (simp add: lifted_def inputs_typed_def)
qed

lemma lifted_verifies: "lifted w lift m \<Longrightarrow> (\<And>b n. al (Site_available b) n) \<Longrightarrow> fst (xair_verify_module al m) = XAIR_OK"
  by (subst verify_OK_iff) (auto simp: lifted_def intro: wf_module_srcs_shape)

lemma lift_and_freeze_lifted:
  assumes "lift_and_freeze al img (lift_options arch entry n) = Inr (lift, stats, m)"
  shows "lifted (if arch = XAIR_ARCH_X86_64 then 64 else 32) lift m"
proof -
  obtain m0 u where l: "xair_lift_basic_block al img (lift_options arch entry n) empty_module = (Ok lift, m0)"
    and f: "xair_module_freeze al m0 = (Ok u, m)"
    using assms by (auto simp: lift_and_freeze_def xair_module_create_def split: prod.splits xres.splits if_splits)
  show ?thesis using lifted_stored lifted_fresh [OF l] freeze_stored [OF f] by blast
qed

text \<open>The tools lift with the decoder of the library, which stays inside the registers.\<close>

lemma lift_options_defined: "fst (xair_lift_basic_block al img (lift_options arch entry n) m) \<noteq> Err UNDEFINED_BEHAVIOUR"
  by (rule stub.lift_defined(1)) (simp add: chosen_decoder_def lift_options_def)

lemma lift_and_freeze_Inl:
  assumes run: "lift_and_freeze al img (lift_options arch entry n) = Inl f" and al: "\<And>b n. al (Site_available b) n"
  shows "(\<exists>e. f = Lift_failed e \<and> e \<noteq> UNDEFINED_BEHAVIOUR) \<or> f \<in> {Module_failed XAIR_ERR_OOM, Freeze_failed XAIR_ERR_OOM}"
proof -
  obtain r m where l: "xair_lift_basic_block al img (lift_options arch entry n) empty_module = (r, m)" by fastforce
  show ?thesis
  proof (cases "xair_module_create al = Ok empty_module")
    case create: True
    show ?thesis
    proof (cases r)
      case (Ok lift)
      note l = l [unfolded Ok]
      have "fst (xair_verify_module al m) = XAIR_OK" using lifted_verifies lifted_fresh [OF l] al by blast
      then obtain e m' where "xair_module_freeze al m = (Err e, m')" "f = Freeze_failed e"
        using run l create by (auto simp: lift_and_freeze_def split: prod.splits xres.splits)
      then show ?thesis using freeze_Err lifted_fresh [OF l] by blast
    qed (use run l create lift_options_defined [of al img arch entry n empty_module] in \<open>auto simp: lift_and_freeze_def\<close>)
  qed (use run in \<open>auto simp: lift_and_freeze_def xair_module_create_def split: if_splits\<close>)
qed

section \<open>Executing a case\<close>

lemma create_state: "xair_exec_state_create al m = Ok st \<Longrightarrow> state_ok m st \<and> defd st = {}"
  by (auto simp: xair_exec_state_create_def state_ok_def defd_def Let_def split: if_splits)

lemma create_state_Err:
  "xair_exec_state_create al m = Err e \<Longrightarrow> fst (xair_verify_module al m) = XAIR_OK \<Longrightarrow> e = XAIR_ERR_OOM"
  by (auto simp: xair_exec_state_create_def Let_def split: if_splits)

lemma set_param_ok:
  assumes "state_ok m st" "v < length (vals m)" "val_op (vals m ! v) = XAIR_INVALID_ID" "ev_type x = type_of m v" "value_ok x"
  shows "\<exists>st'. xair_exec_set_param v x st = (Ok (), st') \<and> state_ok m st' \<and> defd st' = insert v (defd st)"
proof -
  obtain st' where "exec_define_value v x st = (Ok (), st')" "state_ok m st'" "defd st' = insert v (defd st)"
    using assms(1,2,4,5) by (rule exec_define_value_ok)
  then show ?thesis using assms by (auto simp: xair_exec_set_param_def exec_check_value_slot_def state_ok_def)
qed

lemma set_param_type:
  assumes "state_ok m st" "ev_type x \<noteq> type_of m v"
  shows "xair_exec_set_param v x st = (Err XAIR_ERR_BAD_ARG, st)"
  using assms by (auto simp: xair_exec_set_param_def exec_define_value_def xair_type_equal_def state_ok_def intro: xair_type.equality)

lemma set_memory_param_ok:
  assumes st: "state_ok m st" and l: "inputs_typed 64 0 m lift"
  shows "\<exists>st'. set_memory_param lift st = Inr st' \<and> state_ok m st' \<and>
    defd st' = defd st \<union> (if lr_memory_in lift = XAIR_INVALID_ID then {} else {lr_memory_in lift})"
proof (cases "lr_memory_in lift = XAIR_INVALID_ID")
  case False
  then have "lr_memory_in lift \<in> input_ids lift" by (simp add: input_ids_def)
  then have "\<exists>st'. xair_exec_set_param (lr_memory_in lift) (xair_exec_mem 0 64) st = (Ok (), st') \<and> state_ok m st' \<and>
      defd st' = insert (lr_memory_in lift) (defd st)"
    using l False by (intro set_param_ok [OF st])
      (auto simp: inputs_typed_def xair_exec_mem_def exec_value_make_def value_ok_def truncate_to_type_def xair_type_mem_def)
  then show ?thesis using False by (auto simp: set_memory_param_def)
qed (use st in \<open>simp add: set_memory_param_def\<close>)

lemma store_case_memory_values: "store_case_memory al es st = Inr st' \<Longrightarrow> same_values st st'"
proof (induction es arbitrary: st)
  case (Cons e es)
  then obtain u st1 where 1: "xair_exec_store_bytes al (me_space e) (me_address e) (me_bytes e) st = (Ok u, st1)"
    "store_case_memory al es st1 = Inr st'" by (auto split: prod.splits xres.splits)
  then have "same_values st st1" by (auto simp: xair_exec_store_bytes_def split: if_splits dest: store_each_values)
  with Cons.IH [OF 1(2)] show ?case by (simp add: same_values_def)
qed (simp add: same_values_def)

lemma store_case_memory_Inl:
  assumes "store_case_memory al es st = Inl f"
  shows "\<exists>e. f = Memory_store_failed e \<and> (e = XAIR_ERR_OOM \<or>
    e = XAIR_ERR_BAD_ARG \<and> (\<exists>x \<in> set es. exec_range_wraps (me_address x) (length (me_bytes x))))"
  using assms
proof (induction es arbitrary: st)
  case (Cons x es)
  then show ?case
    by (auto simp: xair_exec_store_bytes_def split: if_splits prod.splits xres.splits dest!: store_each_Err_OOM)
qed simp

lemma set_register_params_ok:
  assumes "state_ok m st"
    and "\<forall>(r, v) \<in> set rs. v < length (vals m) \<and> val_op (vals m ! v) = XAIR_INVALID_ID \<and> type_of m v = xair_type_i 64"
  shows "\<exists>st'. set_register_params config rs st = Inr st' \<and> state_ok m st' \<and> defd st' = defd st \<union> snd ` set rs"
  using assms
proof (induction rs arbitrary: st)
  case (Cons x rs)
  obtain r v where x: "x = (r, v)" by (cases x)
  obtain st1 where 1: "xair_exec_set_param v (xair_exec_i 64 (cc_regs config ! r)) st = (Ok (), st1)" "state_ok m st1"
      "defd st1 = insert v (defd st)"
    using set_param_ok [OF Cons.prems(1), of v "xair_exec_i 64 (cc_regs config ! r)"] Cons.prems(2)
    by (auto simp: x xair_exec_i_def exec_value_make_def value_ok_def)
  with Cons.IH [OF 1(2)] Cons.prems(2) show ?case by (auto simp: x)
qed simp

text \<open>The stages of an execution.\<close>

lemma case_execute_cases:
  assumes l: "lifted 64 lift m" and al: "\<And>b n. al (Site_available b) n"
  obtains (early) f where "case_execute al config lift m = Inl f"
      "f = State_failed XAIR_ERR_OOM \<or> (\<exists>e. f = Memory_store_failed e \<and> (e = XAIR_ERR_OOM \<or>
        e = XAIR_ERR_BAD_ARG \<and> (\<exists>x \<in> set (cc_memory config). exec_range_wraps (me_address x) (length (me_bytes x)))))"
  | (run) st r st' where "state_ok m st" "enters m (lr_block lift) st" "xair_exec_run al m (lr_block lift) 256 st = (r, st')"
      "case_execute al config lift m = (case r of Err e \<Rightarrow> Inl (Exec_failed e) | Ok res \<Rightarrow> Inr res)"
proof (cases "xair_exec_state_create al m")
  case (Err e)
  then show thesis using early create_state_Err lifted_verifies [where al = al, OF l al] by (auto simp: case_execute_def)
next
  case (Ok st)
  have t: "inputs_typed 64 0 m lift" using l by (simp add: lifted_def)
  obtain st1 where 1: "set_memory_param lift st = Inr st1" "state_ok m st1"
      "defd st1 = (if lr_memory_in lift = XAIR_INVALID_ID then {} else {lr_memory_in lift})"
    using set_memory_param_ok [OF _ t] create_state [OF Ok] by fastforce
  show thesis
  proof (cases "store_case_memory al (cc_memory config) st1")
    case (Inl f)
    then show thesis using early store_case_memory_Inl [OF Inl] Ok 1(1) by (auto simp: case_execute_def)
  next
    case (Inr st2)
    then have 2: "state_ok m st2" "defd st2 = defd st1" using store_case_memory_values same_values_state 1(2) by blast+
    have "\<forall>(r, v) \<in> set (lr_input_regs lift). v < length (vals m) \<and> val_op (vals m ! v) = XAIR_INVALID_ID \<and> type_of m v = xair_type_i 64"
      using t by (force simp: inputs_typed_def input_ids_def)
    from set_register_params_ok [OF 2(1) this] obtain st3 where 3: "set_register_params config (lr_input_regs lift) st2 = Inr st3"
      "state_ok m st3" "defd st3 = defd st2 \<union> snd ` set (lr_input_regs lift)" by blast
    have "enters m (lr_block lift) st3" using l 1(3) 2(2) 3(3) by (auto simp: lifted_def enters_def input_ids_def)
    moreover obtain r st4 where r: "xair_exec_run al m (lr_block lift) 256 st3 = (r, st4)" by fastforce
    moreover have "case_execute al config lift m = (case r of Err e \<Rightarrow> Inl (Exec_failed e) | Ok res \<Rightarrow> Inr res)"
      using Ok 1(1) Inr 3(1) r by (simp add: case_execute_def split: xres.split)
    ultimately show thesis using run 3(2) by blast
  qed
qed

section \<open>What the case runner reports\<close>

lemma run_returns:
  assumes "xair_exec_run al m b (Suc n) st = (Ok res, st')" "block_returns m b vs"
  shows "halt_kind res = XAIR_EXEC_HALTED_UNSUPPORTED \<or> halt_kind res = XAIR_EXEC_HALTED_RETURN \<and> length (returns res) = length vs"
proof -
  have m: "ex_module st = m" and run: "exec_loop al (Suc n) b st = (Ok res, st')"
    using assms(1) by (auto simp: xair_exec_run_def split: if_splits)
  obtain q st1 where ops: "exec_block_ops al b (blk_ops (blocks m ! b)) st = (q, st1)" by fastforce
  have "ex_module st1 = m" using exec_block_ops_module [OF ops] m by simp
  then show ?thesis
    using run ops assms(2) block_ops_halt
    by (auto simp: exec_block_def m block_returns_def exec_term_def exec_set_result_def Let_def
        split: prod.splits xres.splits option.splits if_splits dest!: read_values_length)
qed

lemma return_index_found:
  assumes "v \<in> set (lr_return_values lift)"
  shows "\<exists>i < length (lr_return_values lift). return_index_for_value lift v = Some i \<and> lr_return_values lift ! i = v"
proof (cases "return_index_for_value lift v")
  case None
  then show ?thesis using assms by (auto simp: return_index_for_value_def find_None_iff in_set_conv_nth)
next
  case (Some i)
  then have "i < length (lr_return_values lift)" "lr_return_values lift ! i = v"
    by (auto simp: return_index_for_value_def find_Some_iff)
  with Some show ?thesis by blast
qed

lemma output_reported:
  assumes "lift_layout lift" "length (returns r) = length (lr_return_values lift)" "(reg, v) \<in> set (lr_output_regs lift)"
  shows "\<exists>i < length (returns r). lr_return_values lift ! i = v \<and> output_value lift r v = Some (lo (returns r ! i))"
proof -
  have "v \<in> set (lr_return_values lift)" using assms(1,3) by (force simp: lift_layout_def)
  from return_index_found [OF this] show ?thesis using assms(2) by (auto simp: output_value_def)
qed

lemma run_case_Inl:
  assumes arch: "cc_arch config = XAIR_ARCH_X86_64" and run: "run_case al config = Inl f" and al: "\<And>b n. al (Site_available b) n"
  shows "case f of
      Module_failed e \<Rightarrow> e = XAIR_ERR_OOM
    | Lift_failed e \<Rightarrow> e \<noteq> UNDEFINED_BEHAVIOUR
    | Freeze_failed e \<Rightarrow> e = XAIR_ERR_OOM
    | State_failed e \<Rightarrow> e = XAIR_ERR_OOM
    | Memory_store_failed e \<Rightarrow> e = XAIR_ERR_OOM \<or>
        e = XAIR_ERR_BAD_ARG \<and> (\<exists>x \<in> set (cc_memory config). exec_range_wraps (me_address x) (length (me_bytes x)))
    | Exec_failed e \<Rightarrow> e \<in> {XAIR_ERR_OOM, XAIR_ERR_RANGE, XAIR_ERR_BAD_ARG}
    | _ \<Rightarrow> False"
proof (cases "case_lift al config")
  case (Inl g)
  then show ?thesis using run lift_and_freeze_Inl [where al = al, OF _ al] by (fastforce simp: run_case_def case_lift_def)
next
  case (Inr y)
  obtain lift stats m where y: "y = (lift, stats, m)" by (cases y)
  have l: "lifted 64 lift m" using lift_and_freeze_lifted Inr arch y by (fastforce simp: case_lift_def)
  have ex: "case_execute al config lift m = Inl f" using run Inr y by (auto simp: run_case_def split: option.splits sum.splits)
  from l al show ?thesis
  proof (cases rule: case_execute_cases [where al = al and config = config and lift = lift and m = m])
    case (early g)
    then show ?thesis using ex by auto
  next
    case (run st r st')
    have sm: "module_ok m" "srcs_shape m" "terms_wf m" "lr_block lift < length (blocks m)"
      using l wf_module_srcs_shape wf_sound_module by (auto simp: lifted_def sound_module_def)
    then have "exec_loop al 256 (lr_block lift) st = (r, st')" using run(1,3) by (simp add: xair_exec_run_def state_ok_def valid_block_def)
    with exec_loop_outcome [OF run(1) sm(1-3) run(2) this] ex run(4) show ?thesis
      by (auto simp: run_error_def split: xres.splits)
  qed
qed

lemma run_case_outputs:
  assumes arch: "cc_arch config = XAIR_ARCH_X86_64" and run: "run_case al config = Inr cr" "cr_execution cr = Inr r"
    and halt: "halt_kind r \<noteq> XAIR_EXEC_HALTED_UNSUPPORTED" and out: "(reg, v) \<in> set (lr_output_regs (cr_lift cr))"
  shows "halt_kind r = XAIR_EXEC_HALTED_RETURN \<and> (\<exists>i < length (returns r).
    lr_return_values (cr_lift cr) ! i = v \<and> output_value (cr_lift cr) r v = Some (lo (returns r ! i)))"
proof -
  obtain lift stats m where c: "case_lift al config = Inr (lift, stats, m)" "cr_lift cr = lift" "case_execute al config lift m = Inr r"
    using run by (auto simp: run_case_def split: option.splits sum.splits)
  have l: "lifted 64 lift m" using lift_and_freeze_lifted c(1) arch by (fastforce simp: case_lift_def)
  obtain st st' where "xair_exec_run al m (lr_block lift) 256 st = (Ok r, st')"
    using c(3) by (auto simp: case_execute_def split: xres.splits sum.splits prod.splits)
  then have "xair_exec_run al m (lr_block lift) (Suc 255) st = (Ok r, st')" by (simp add: eval_nat_numeral)
  from run_returns [OF this] l halt have "halt_kind r = XAIR_EXEC_HALTED_RETURN" "length (returns r) = length (lr_return_values lift)"
    by (auto simp: lifted_def)
  then show ?thesis using output_reported out l c(2) by (auto simp: lifted_def)
qed

text \<open>A 32-bit block with an input is never executed.\<close>

lemma run_case_32bit:
  assumes arch: "cc_arch config = XAIR_ARCH_X86_32" and lift: "case_lift al config = Inr (lift, stats, m)" "can_execute config lift = None"
    and inp: "lr_memory_in lift \<noteq> XAIR_INVALID_ID \<or> lr_input_regs lift \<noteq> []"
  shows "\<exists>e. run_case al config \<in> {Inl (State_failed e), Inl (Memory_store_failed e),
    Inl (Memory_param_failed XAIR_ERR_BAD_ARG), Inl (Register_param_failed XAIR_ERR_BAD_ARG)}"
proof -
  have "lifted 32 lift m" using lift_and_freeze_lifted lift(1) arch by (fastforce simp: case_lift_def)
  then have t: "inputs_typed 32 0 m lift" by (simp add: lifted_def)
  have run: "run_case al config = (case case_execute al config lift m of Inl f \<Rightarrow> Inl f
      | Inr r \<Rightarrow> Inr \<lparr>cr_lift = lift, cr_construction = stats, cr_module = m, cr_execution = Inr r\<rparr>)"
    using lift by (simp add: run_case_def)
  show ?thesis
  proof (cases "xair_exec_state_create al m")
    case (Err e)
    then show ?thesis using run by (simp add: case_execute_def)
  next
    case (Ok st)
    then have st: "state_ok m st" using create_state by blast
    show ?thesis
    proof (cases "lr_memory_in lift = XAIR_INVALID_ID")
      case False
      then have "set_memory_param lift st = Inl (Memory_param_failed XAIR_ERR_BAD_ARG)"
        using t set_param_type [OF st, of "xair_exec_mem 0 64" "lr_memory_in lift"]
        by (simp add: set_memory_param_def inputs_typed_def xair_exec_mem_def exec_value_make_def xair_type_mem_def)
      then show ?thesis using run Ok by (simp add: case_execute_def)
    next
      case True
      show ?thesis
      proof (cases "store_case_memory al (cc_memory config) st")
        case (Inl f)
        then show ?thesis using run Ok True store_case_memory_Inl [OF Inl] by (auto simp: case_execute_def set_memory_param_def)
      next
        case (Inr st2)
        obtain i v rs where rs: "lr_input_regs lift = (i, v) # rs" using inp True by (cases "lr_input_regs lift") auto
        have "state_ok m st2" using Inr store_case_memory_values same_values_state st by blast
        then have "set_register_params config (lr_input_regs lift) st2 = Inl (Register_param_failed XAIR_ERR_BAD_ARG)"
          using t set_param_type [of m st2 "xair_exec_i 64 (cc_regs config ! i)" v]
          by (simp add: rs inputs_typed_def xair_exec_i_def exec_value_make_def xair_type_i_def)
        then show ?thesis using run Ok True Inr by (simp add: case_execute_def set_memory_param_def)
      qed
    qed
  qed
qed

section \<open>Printing a module\<close>

declare format_loop.simps [simp del]

lemma format_loop_step:
  assumes "al (Site_format n) n" "0 < n"
  shows "format_loop al garbage m n =
    (if length (module_text m) < n then Some (takeWhile (\<lambda>c. c \<noteq> NUL) (module_text m))
     else if n > 1048576 then None else format_loop al garbage m (n * 2))"
proof -
  have "map garbage [0..<n] \<noteq> []" using assms(2) by simp
  from format_module_text [OF this, of m] show ?thesis using assms by (subst format_loop.simps) (simp add: takeWhile_tail)
qed

text \<open>The buffer grows up to two megabytes.\<close>

lemma format_and_print_text:
  assumes "\<And>n. al (Site_format n) n"
  shows "format_and_print_module al garbage m =
    (if length (module_text m) < 2097152 then Some (takeWhile (\<lambda>c. c \<noteq> NUL) (module_text m)) else None)"
  using assms by (simp add: format_and_print_module_def format_loop_step)

text \<open>The loader never reads outside its buffer, so neither does the tool.\<close>

lemma lift_bin_defined: "lift_bin_main al garbage fs argv \<noteq> None"
proof -
  have load: "xair_binary_load_path al fs path = None \<longleftrightarrow> False" for path
    using load_path_image [of al fs path] by (auto simp: ensures_def)
  show ?thesis by (auto simp: lift_bin_main_def Let_def load split: option.splits xres.splits sum.splits prod.splits)
qed

end
