(* ===== verification/Xair_Canon_Verifies.thy ===== *)
theory Xair_Canon_Verifies
  imports Xair_Compact_Sound
begin

text \<open>
  Canonicalization gives a module that verifies. Compaction renames the live part of a module; the rules of the verifier
  hold of the renamed blocks because what a live operation or a terminator uses is live and still defined before it. So
  the second verification of \<open>xair_canonicalize_module\<close> never rejects, and the pass fails only for want of memory.
\<close>

section \<open>Links between the new arrays\<close>

lemma compact_links:
  assumes "linked m" "compact_live_values al live stats m = (Ok stats', m')" "m' \<noteq> m"
  defines "mp \<equiv> number_live m live"
  shows "b < length (blocks m) \<Longrightarrow> blk_ops (blocks m' ! b) = map ((!) (op_map mp)) (kept_ops m live (blocks m ! b))"
    "i \<in> set (all_ops m live) \<Longrightarrow> op_map mp ! i < length (ops m') \<and>
      ops m' ! (op_map mp ! i) = ren_op ((!) (value_map mp)) (ops m ! i) \<and>
      val_op (vals m' ! (value_map mp ! dst (ops m ! i))) = op_map mp ! i"
    "\<forall>oper \<in> set (ops m'). \<exists>i \<in> set (all_ops m live). oper = ren_op ((!) (value_map mp)) (ops m ! i)"
proof -
  note c = compact_Ok [OF assms(1-3), folded mp_def]
  have n: "positions (length (ops m)) (all_ops m live) (op_map mp)" "new_op_count mp = length (all_ops m live)"
    using number_live_numbers [OF assms(1), of live] by (simp_all add: numbers_def mp_def)
  have ren: "remap_op (value_map mp) = ren_op ((!) (value_map mp))" by (simp add: fun_eq_iff remap_op_def ren_op_def op_srcs_def)
  have op: "op_map mp ! i < length (ops m') \<and> ops m' ! (op_map mp ! i) = ren_op ((!) (value_map mp)) (ops m ! i)"
    if "i \<in> set (all_ops m live)" for i
    using copied_ops [OF assms(1) that, of zero_op_rec] positions_index(1) [OF n(1) that] n(2)
    by (simp add: c(3) length_put_op ren mp_def [symmetric])
  show "b < length (blocks m) \<Longrightarrow> blk_ops (blocks m' ! b) = map ((!) (op_map mp)) (kept_ops m live (blocks m ! b))"
    by (simp add: c(1))
  have "val_op (vals m' ! (value_map mp ! dst (ops m ! i))) = op_map mp ! i" if i: "i \<in> set (all_ops m live)" for i
  proof -
    have "i < length (ops m)" "op_wf m i" using all_ops_less [OF assms(1) i] assms(1) by (auto simp: linked_def)
    then have "val_op (vals m ! dst (ops m ! i)) = i" "i \<noteq> XAIR_INVALID_ID" using assms(1) by (auto simp: op_wf_def Let_def linked_def)
    then show ?thesis using linked_values [OF assms(1) all_values_ops [OF i], of zero_value_rec] by (simp add: c(4) mp_def)
  qed
  then show "i \<in> set (all_ops m live) \<Longrightarrow> op_map mp ! i < length (ops m') \<and>
      ops m' ! (op_map mp ! i) = ren_op ((!) (value_map mp)) (ops m ! i) \<and>
      val_op (vals m' ! (value_map mp ! dst (ops m ! i))) = op_map mp ! i" using op by blast
  have "ops m' ! k = ren_op ((!) (value_map mp)) (ops m ! (all_ops m live ! k))" if k: "k < length (ops m')" for k
  proof -
    have k': "k < length (all_ops m live)" using k by (simp add: c(3) length_put_op n(2))
    then have "op_map mp ! (all_ops m live ! k) = k" using n(1) by (simp add: positions_def)
    then show ?thesis using op [OF nth_mem [OF k']] by simp
  qed
  moreover have "length (ops m') = length (all_ops m live)" by (simp add: c(3) length_put_op n(2))
  ultimately show "\<forall>oper \<in> set (ops m'). \<exists>i \<in> set (all_ops m live). oper = ren_op ((!) (value_map mp)) (ops m ! i)"
    by (metis in_set_conv_nth)
qed

section \<open>The rules hold of the renamed blocks\<close>

lemma ren_op_srcs: "length (src oper) = 3 \<Longrightarrow> src_count oper \<le> 3 \<Longrightarrow> op_srcs (ren_op r oper) = map r (op_srcs oper)"
  by (simp add: ren_op_def op_srcs_def)

lemma ren_usable:
  assumes c: "compacts m live r m'" and v: "usable m S v" "live ! v" and S: "\<And>w. w \<in> S \<Longrightarrow> live ! w \<Longrightarrow> r w \<in> S'"
  shows "usable m' S' (r v)"
proof -
  have "v < length (vals m)" using v(1) by (simp add: usable_def)
  then have rv: "ren_value m m' r v" using c v(2) by (simp add: compacts_def)
  have "value_is_global_const m' (r v) = value_is_global_const m v"
    using rv \<open>v < length (vals m)\<close> by (auto simp: ren_value_def value_is_global_const_def valid_value_def Let_def ren_op_def split: if_splits)
  then show ?thesis using v S rv by (auto simp: usable_def ren_value_def)
qed

lemma ren_op_ok:
  assumes c: "compacts m live r m'" and ready: "live_ready m live" and i: "i < length (ops m)" "live ! dst (ops m ! i)"
  shows "op_ok m' (ren_op r (ops m ! i))"
proof -
  note op = ready_op [OF ready i(1)]
  have t: "r v < length (vals m') \<and> type_of m' (r v) = type_of m v" if "v < length (vals m)" "live ! v" for v
    using c that by (auto simp: compacts_def ren_value_def)
  have "map (type_of m') (op_srcs (ren_op r (ops m ! i))) = map (type_of m) (op_srcs (ops m ! i))"
    using op(5) [OF i(2)] t by (simp add: ren_op_srcs [OF op(2,3)])
  then show ?thesis using op(1) t [OF op(4) i(2)] by (simp add: op_ok_def)
qed

lemma ren_edge_ok:
  assumes c: "compacts m live r m'" and ready: "live_ready m live" and e: "edge_ok m S target args n"
    and args: "\<forall>v \<in> set args. live ! v" and S: "\<And>w. w \<in> S \<Longrightarrow> live ! w \<Longrightarrow> r w \<in> S'"
  shows "edge_ok m' S' target (map r args) n"
proof -
  have t: "target < length (blocks m)" using e by (simp add: edge_ok_def)
  then have p: "params (blocks m' ! target) = map r (params (blocks m ! target))" "length (blocks m') = length (blocks m)"
    using c by (auto simp: compacts_def ren_block_def Let_def)
  have ty: "type_of m' (r v) = type_of m v" if "v < length (vals m)" "live ! v" for v
    using c that by (auto simp: compacts_def ren_value_def)
  have "usable m' S' (r a) \<and> type_of m' (r a) = type_of m' (r q)" if aq: "(a, q) \<in> set (zip args (params (blocks m ! target)))" for a q
  proof -
    have "live ! a" "q \<in> set (params (blocks m ! target))" using aq args by (auto dest: set_zip_leftD set_zip_rightD)
    moreover have "usable m S a" "type_of m a = type_of m q" using e aq by (auto simp: edge_ok_def)
    ultimately show ?thesis using ren_usable [where v = a, OF c _ _ S] ready_params [OF ready t] ty by (auto simp: usable_def)
  qed
  then show ?thesis using e p by (auto simp: edge_ok_def zip_map_map)
qed

lemma ren_term_ok:
  assumes c: "compacts m live r m'" and ready: "live_ready m live" and b: "b < length (blocks m)"
    and t: "term_ok m S (blk_term (blocks m ! b))" and S: "\<And>w. w \<in> S \<Longrightarrow> live ! w \<Longrightarrow> r w \<in> S'"
  shows "term_ok m' S' (blk_term (blocks m' ! b))"
proof -
  let ?t = "blk_term (blocks m ! b)" and ?t' = "blk_term (blocks m' ! b)"
  have rb: "ren_block m live m' r b" using c b by (simp add: compacts_def)
  have t': "?t' = (if term_kind ?t = XAIR_TERM_CBRANCH then ?t\<lparr>condition := r (condition ?t)\<rparr> else ?t)"
    using rb by (simp add: ren_block_def Let_def)
  have live: "v < length (vals m) \<and> live ! v" if "v \<in> set (term_uses m ?t)" for v by (rule ready_term [OF ready b that])
  have edge: "edge_ok m' S' target (map r args) n" if "edge_ok m S target args n" "set args \<subseteq> set (term_uses m ?t)" for target args n
    using that live by (intro ren_edge_ok [OF c ready _ _ S]) auto
  have use: "usable m' S' (r v)" if "usable m S v" "v \<in> set (term_uses m ?t)" for v
    using that live by (intro ren_usable [OF c _ _ S]) auto
  show ?thesis
  proof (cases "term_kind ?t")
    case XAIR_TERM_CBRANCH
    then have args: "term_args_const m' ?t' False = map r (term_args_const m ?t False)"
      "term_args_const m' ?t' True = map r (term_args_const m ?t True)" using rb by (auto simp: ren_block_def Let_def)
    have cond: "condition ?t \<in> set (term_uses m ?t)" using XAIR_TERM_CBRANCH by (simp add: term_uses_def)
    have "type_of m' (r (condition ?t)) = type_of m (condition ?t)"
      using c live [OF cond] by (auto simp: compacts_def ren_value_def)
    moreover have "usable m' S' (r (condition ?t))" using use [OF _ cond] t XAIR_TERM_CBRANCH by (simp add: term_ok_def)
    moreover have "edge_ok m' S' (true_target ?t) (map r (term_args_const m ?t False)) (true_arg_count ?t)"
      "edge_ok m' S' (false_target ?t) (map r (term_args_const m ?t True)) (false_arg_count ?t)"
      using t XAIR_TERM_CBRANCH by (auto simp: term_ok_def term_uses_def intro: edge)
    ultimately show ?thesis using t XAIR_TERM_CBRANCH args by (simp add: term_ok_def t')
  next
    case XAIR_TERM_JUMP
    then show ?thesis using t rb edge [of "true_target ?t" "term_args_const m ?t False" "true_arg_count ?t"]
      by (simp add: term_ok_def t' ren_block_def Let_def term_uses_def)
  next
    case XAIR_TERM_RETURN
    then show ?thesis using t rb use by (auto simp: term_ok_def t' ren_block_def Let_def term_uses_def)
  qed (use t in \<open>simp_all add: term_ok_def t'\<close>)
qed

text \<open>The operations before a kept operation, kept or not.\<close>

lemma filter_position:
  "k < length (filter P xs) \<Longrightarrow> \<exists>i < length xs. xs ! i = filter P xs ! k \<and> filter P (take i xs) = take k (filter P xs)"
proof (induction xs arbitrary: k)
  case (Cons x xs)
  show ?case
  proof (cases "P x")
    case True
    show ?thesis
    proof (cases k)
      case 0
      then show ?thesis using True by (intro exI [of _ 0]) simp
    next
      case (Suc j)
      then obtain i where "i < length xs" "xs ! i = filter P xs ! j" "filter P (take i xs) = take j (filter P xs)"
        using Cons True by auto
      then show ?thesis using True Suc by (intro exI [of _ "Suc i"]) simp
    qed
  next
    case False
    then obtain i where "i < length xs" "xs ! i = filter P xs ! k" "filter P (take i xs) = take k (filter P xs)"
      using Cons by auto
    then show ?thesis using False by (intro exI [of _ "Suc i"]) simp
  qed
qed simp

text \<open>The module \<open>m'\<close> that compaction makes of \<open>m\<close>.\<close>

definition compacted :: "xair_module \<Rightarrow> bool list \<Rightarrow> xair_module \<Rightarrow> bool" where
  "compacted m live m' \<longleftrightarrow> live_ready m live \<and> distinct (all_slots m) \<and>
     (\<exists>al stats stats'. compact_live_values al live stats m = (Ok stats', m')) \<and> m' \<noteq> m"

lemma compacted_avail:
  assumes "compacted m live m'" "b < length (blocks m)" "filter (\<lambda>i. live ! dst (ops m ! i)) (take i (blk_ops (blocks m ! b))) =
      take k (kept_ops m live (blocks m ! b))" "w \<in> avail_at m (blocks m ! b) i" "live ! w"
  shows "value_map (number_live m live) ! w \<in> avail_at m' (blocks m' ! b) k"
proof -
  let ?r = "(!) (value_map (number_live m live))" and ?os = "blk_ops (blocks m ! b)"
  have l: "linked m" "live_closed m live" "distinct (all_slots m)" "m' \<noteq> m"
    using assms(1) by (auto simp: compacted_def live_ready_def)
  obtain al stats stats' where e: "compact_live_values al live stats m = (Ok stats', m')" using assms(1) by (auto simp: compacted_def)
  note links = compact_links [OF l(1) e l(4)]
  have c: "compacts m live ?r m'" by (rule compact_compacts [OF l(1-3) e l(4)])
  have "params (blocks m' ! b) = map ?r (params (blocks m ! b))" using c assms(2) by (simp add: compacts_def ren_block_def Let_def)
  moreover have "?r w \<in> (\<lambda>j. dst (ops m' ! j)) ` set (take k (blk_ops (blocks m' ! b)))"
    if j: "j \<in> set (take i ?os)" "w = dst (ops m ! j)" for j
  proof -
    have "j \<in> set (take k (kept_ops m live (blocks m ! b)))"
      unfolding assms(3) [symmetric] using j assms(5) by simp
    moreover from this have "j \<in> set (all_ops m live)" using assms(2) by (auto simp: all_ops_def dest: in_set_takeD)
    ultimately show ?thesis using links(1) [OF assms(2)] links(2) [of j] j(2) by (force simp: take_map)
  qed
  ultimately show ?thesis using assms(4) by (auto simp: avail_at_def)
qed

lemma compacted_block_ok:
  assumes "compacted m live m'" "b < length (blocks m)"
  shows "block_ok m' b"
proof -
  let ?r = "(!) (value_map (number_live m live))" and ?P = "\<lambda>i. live ! dst (ops m ! i)" and ?bb = "blocks m ! b"
  have ready: "live_ready m live" and l: "linked m" "live_closed m live" "distinct (all_slots m)" "m' \<noteq> m"
    using assms(1) by (auto simp: compacted_def live_ready_def)
  obtain al stats stats' where e: "compact_live_values al live stats m = (Ok stats', m')" using assms(1) by (auto simp: compacted_def)
  note links = compact_links [OF l(1) e l(4)]
  have c: "compacts m live ?r m'" by (rule compact_compacts [OF l(1-3) e l(4)])
  have bok: "block_ok m b" using ready assms(2) by (simp add: live_ready_def sound_module_def module_ok_def)
  have val: "?r v < length (vals m')" "val_block (vals m' ! ?r v) = val_block (vals m ! v)" "type_of m' (?r v) = type_of m v"
    if "v < length (vals m)" "live ! v" for v using c that by (auto simp: compacts_def ren_value_def)
  have "params (blocks m' ! b) = map ?r (params ?bb)" using c assms(2) by (simp add: compacts_def ren_block_def Let_def)
  then have params: "\<forall>p \<in> set (params (blocks m' ! b)). p < length (vals m') \<and> val_block (vals m' ! p) = b \<and> is_value_type (type_of m' p)"
    using bok ready_params [OF ready assms(2)] val by (auto simp: block_ok_def Let_def)
  have op: "block_op_ok m' b (avail_at m' (blocks m' ! b) k) (blk_ops (blocks m' ! b) ! k)" if k: "k < length (blk_ops (blocks m' ! b))" for k
  proof -
    have k': "k < length (filter ?P (blk_ops ?bb))" using k links(1) [OF assms(2)] by (simp add: kept_ops_def)
    from filter_position [OF this] obtain i where i: "i < length (blk_ops ?bb)" "blk_ops ?bb ! i = kept_ops m live ?bb ! k"
      "filter ?P (take i (blk_ops ?bb)) = take k (kept_ops m live ?bb)" by (auto simp: kept_ops_def)
    define j where "j = blk_ops ?bb ! i"
    have j: "j \<in> set (all_ops m live)" "live ! dst (ops m ! j)" "blk_ops (blocks m' ! b) ! k = op_map (number_live m live) ! j"
      using i nth_mem [OF k'] k' links(1) [OF assms(2)] assms(2) by (auto simp: j_def all_ops_def kept_ops_def)
    have bo: "block_op_ok m b (avail_at m ?bb i) j" using bok i(1) by (simp add: block_ok_def Let_def j_def)
    then have less: "j < length (ops m)" by (simp add: block_op_ok_def Let_def)
    note rop = ready_op [OF ready less]
    have "usable m' (avail_at m' (blocks m' ! b) k) (?r s)" if "s \<in> set (op_srcs (ops m ! j))" for s
      using bo that rop(5) [OF j(2)] compacted_avail [OF assms i(3)]
      by (intro ren_usable [OF c, of "avail_at m ?bb i"]) (auto simp: block_op_ok_def Let_def)
    then show ?thesis
      using links(2) [OF j(1)] ren_op_ok [OF c ready less j(2)] val [OF rop(4) j(2)] bo
      by (auto simp: block_op_ok_def Let_def j(3) ren_op_srcs [OF rop(2,3)])
  qed
  have all: "filter ?P (take (length (blk_ops ?bb)) (blk_ops ?bb)) = take (length (blk_ops (blocks m' ! b))) (kept_ops m live ?bb)"
    using links(1) [OF assms(2)] by (simp add: kept_ops_def)
  have "term_ok m (avail_at m ?bb (length (blk_ops ?bb))) (blk_term ?bb)" using bok by (simp add: block_ok_def Let_def)
  then have "term_ok m' (avail_at m' (blocks m' ! b) (length (blk_ops (blocks m' ! b)))) (blk_term (blocks m' ! b))"
    using compacted_avail [OF assms all] by (rule ren_term_ok [OF c ready assms(2)])
  then show ?thesis using params op by (simp add: block_ok_def Let_def)
qed

lemma compacted_ok:
  assumes "compacted m live m'"
  shows "module_ok m'" "srcs_shape m'"
proof -
  have ready: "live_ready m live" and l: "linked m" "m' \<noteq> m" using assms by (auto simp: compacted_def live_ready_def)
  obtain al stats stats' where e: "compact_live_values al live stats m = (Ok stats', m')" using assms by (auto simp: compacted_def)
  show "module_ok m'" using compacted_block_ok [OF assms] compact_Ok(1) [OF l(1) e l(2)] by (simp add: module_ok_def)
  show "srcs_shape m'"
    unfolding srcs_shape_def
  proof
    fix oper assume "oper \<in> set (ops m')"
    then obtain i where i: "i \<in> set (all_ops m live)" "oper = ren_op ((!) (value_map (number_live m live))) (ops m ! i)"
      using compact_links(3) [OF l(1) e l(2)] by blast
    then show "length (src oper) = 3 \<and> src_count oper \<le> 3"
      using ready_op(2,3) [OF ready all_ops_less [OF l(1) i(1)]] by (simp add: ren_op_def op_srcs_def)
  qed
qed

section \<open>The whole pass\<close>

lemma compact_status: "compact_live_values al live stats m = (Err e, m') \<Longrightarrow> e = XAIR_ERR_OOM"
  by (auto simp: compact_live_values_def Let_def split: if_splits prod.splits)

lemma canonicalize_verifies:
  assumes m: "built m" "module_ok m" "\<not> frozen m" and al: "\<And>b n. al (Site_available b) n"
    and run: "xair_canonicalize_module al m = (r, m')"
  shows "(case r of Ok stats \<Rightarrow> module_ok m' \<and> srcs_shape m' | Err e \<Rightarrow> e = XAIR_ERR_OOM)"
proof -
  have wf: "wf_module m" using built_module_inv [OF m(1)] by (simp add: module_inv_def)
  have v: "fst (xair_verify_module al m) = XAIR_OK" using verify_OK_iff [where al = al, OF wf_module_srcs_shape [OF wf] al] m(2) by simp
  let ?s = "zero_stats\<lparr>values_before := length (vals m), operations_before := length (ops m),
    value_number_entries_before := value_number_count m\<rparr>"
  obtain m1 s1 where l: "canonicalize_local_ops (value_number_clear m) ?s = (m1, s1)" by fastforce
  obtain q m2 where e: "eliminate_dead_values al s1 m1 = (q, m2)" by fastforce
  note local = local_ops_ready [OF m(1,2) l]
  show ?thesis
  proof (cases q)
    case (Err x)
    then have "x = XAIR_ERR_OOM" using e compact_status by (auto simp: eliminate_dead_values_def split: if_splits)
    then show ?thesis using run m(3) v l e Err by (auto simp: xair_canonicalize_module_def Let_def)
  next
    case (Ok s2)
    then have c: "compact_live_values al (live_values m1) s1 m1 = (Ok s2, m2)"
      using e by (auto simp: eliminate_dead_values_def split: if_splits)
    have ok: "module_ok m2 \<and> srcs_shape m2"
    proof (cases "m2 = m1")
      case True
      then show ?thesis using local(3) by (simp add: sound_module_def)
    next
      case False
      have "compacted m1 (live_values m1) m2" using local c False live_values_closed [of m1] by (auto simp: compacted_def live_ready_def)
      then show ?thesis using compacted_ok by blast
    qed
    then have "fst (xair_verify_module al m2) = XAIR_OK" using verify_OK_iff [of m2 al] al by simp
    then show ?thesis using run m(3) v l e Ok ok by (auto simp: xair_canonicalize_module_def Let_def)
  qed
qed

end
