(* ===== verification/Xair_Lift_Stores.thy ===== *)
theory Xair_Lift_Stores
  imports Xair_Lift_Sound Xair_Canon_Verifies
begin

text \<open>
  The stores of a lifted block. Canonicalization removes a store whose memory value is unused; in lifted code there is
  none, because each store writes the current memory and becomes it, and the memory at the end of the block is among the
  returned values. So canonicalizing a lifted module changes no call.
\<close>

section \<open>Stores form a chain\<close>

definition store_at :: "xair_module \<Rightarrow> xair_op_id \<Rightarrow> bool" where
  "store_at m i \<longleftrightarrow> i < length (ops m) \<and> length (op_srcs (ops m ! i)) = 3"

text \<open>The memory value of every store is \<open>final\<close> or is overwritten by another store.\<close>

definition chained :: "xair_module \<Rightarrow> xair_value_id \<Rightarrow> bool" where
  "chained m final \<longleftrightarrow> (\<forall>i. store_at m i \<longrightarrow> dst (ops m ! i) = final \<or> (\<exists>j. store_at m j \<and> hd (op_srcs (ops m ! j)) = dst (ops m ! i)))"

definition stores_ok :: "x86_lift_state \<Rightarrow> bool" where
  "stores_ok s \<longleftrightarrow> built (ls_module s) \<and> (ls_has_memory s \<longrightarrow> lr_memory_in (ls_result s) \<noteq> XAIR_INVALID_ID) \<and>
     (\<forall>i. store_at (ls_module s) i \<longrightarrow> ls_has_memory s \<and> lr_memory_out (ls_result s) = ls_memory s) \<and>
     chained (ls_module s) (ls_memory s)"

lemma store_at_append: "ops m' = ops m @ [oper] \<Longrightarrow> length (op_srcs oper) \<noteq> 3 \<Longrightarrow> store_at m' i \<longleftrightarrow> store_at m i"
  by (auto simp: store_at_def nth_append less_Suc_eq)

lemma chained_append:
  assumes "chained m final" "ops m' = ops m @ [oper]" "length (op_srcs oper) \<noteq> 3"
  shows "chained m' final"
proof -
  have "ops m' ! i = ops m ! i" if "store_at m i" for i using that assms(2) by (simp add: store_at_def nth_append)
  then show ?thesis using assms(1) by (auto simp: chained_def store_at_append [OF assms(2,3)])
qed

lemma stores_same: "ops m' = ops m \<Longrightarrow> store_at m' = store_at m \<and> chained m' = chained m"
  by (simp add: fun_eq_iff store_at_def chained_def)

lemma stores_ok_cong:
  assumes "stores_ok s" "ops (ls_module s') = ops (ls_module s)" "built (ls_module s')" "ls_has_memory s' = ls_has_memory s"
    "ls_memory s' = ls_memory s" "lr_memory_in (ls_result s') = lr_memory_in (ls_result s)"
    "lr_memory_out (ls_result s') = lr_memory_out (ls_result s)"
  shows "stores_ok s'"
  using assms stores_same [OF assms(2)] by (simp add: stores_ok_def)

lemma stores_ok_none:
  assumes "stores_ok s" "\<not> ls_has_memory s" "ops (ls_module s') = ops (ls_module s)" "built (ls_module s')"
    "lr_memory_in (ls_result s') \<noteq> XAIR_INVALID_ID"
  shows "stores_ok s'"
  using assms stores_same [OF assms(3)] by (auto simp: stores_ok_def chained_def)

text \<open>What a call adds.\<close>

lemma add_op_ops:
  assumes "add_op al b oc t srcs im en nm m = (r, m')" "module_inv m" "\<forall>s \<in> set srcs. s < length (vals m)"
  shows "ops m' = ops m \<or> (\<exists>oper. ops m' = ops m @ [oper] \<and> op_srcs oper = srcs \<and> r = Ok (dst oper))"
  using assms
proof (cases rule: add_op_cases)
  case (fresh s tab c c' c'')
  then show ?thesis by (auto simp: numbered_def op_added_def value_number_insert_def) (simp add: make_op_def)
qed (auto simp: content_eq_def)

lemma op_call_ops:
  assumes "op_call c" "\<not> store_call c" "run_call al c m = (r, m')" "module_inv m"
  shows "ops m' = ops m \<or> (\<exists>oper. ops m' = ops m @ [oper] \<and> length (op_srcs oper) \<noteq> 3)"
proof -
  have add: "ops m' = ops m \<or> (\<exists>oper. ops m' = ops m @ [oper] \<and> length (op_srcs oper) \<noteq> 3)"
    if "add_op al b oc t srcs im en nm m = (r, m')" "\<forall>s \<in> set srcs. s < length (vals m)" "length srcs \<noteq> 3" for b oc t srcs im en nm
    using add_op_ops [OF that(1) assms(4) that(2)] that(3) by auto
  show ?thesis using assms(1-3)
    by (cases c) (auto simp: op_call_def store_call_def xair_build_const_u64_def xair_build_unary_def xair_build_binary_def
        xair_build_load_def valid_value_def split: if_splits dest!: add)
qed

lemma stores_ok_call:
  assumes "stores_ok s" "op_call c" "\<not> store_call c" "run_call al c (ls_module s) = (r, m')"
  shows "stores_ok (s\<lparr>ls_module := m'\<rparr>)"
proof -
  have "built m'" "module_inv (ls_module s)" using assms(1,4) by (auto simp: stores_ok_def intro: built.call built_module_inv)
  with op_call_ops [OF assms(2-4)] consider "ops m' = ops (ls_module s)"
    | oper where "ops m' = ops (ls_module s) @ [oper]" "length (op_srcs oper) \<noteq> 3" by blast
  then show ?thesis
  proof cases
    case 1
    then show ?thesis using \<open>built m'\<close> by (intro stores_ok_cong [OF assms(1)]) simp_all
  next
    case 2
    then show ?thesis using \<open>built m'\<close> assms(1) chained_append [OF _ 2] by (simp add: stores_ok_def store_at_append [OF 2])
  qed
qed

text \<open>A store whose memory operand is the current memory, and which gives the current memory.\<close>

lemma build_store_chain:
  assumes run: "xair_build_store al b memory addr data en nm m = (r, m')" and inv: "module_inv m"
  shows "r = Ok v \<Longrightarrow> (\<exists>i. store_at m' i \<and> dst (ops m' ! i) = v \<and> hd (op_srcs (ops m' ! i)) = memory) \<and>
      (ops m' = ops m \<or> (\<exists>oper. ops m' = ops m @ [oper] \<and> dst oper = v))"
    "r = Err e \<Longrightarrow> ops m' = ops m"
proof -
  have ok: "memory < length (vals m) \<and> addr < length (vals m) \<and> data < length (vals m)" if "r = Ok v"
    using run that by (auto simp: xair_build_store_def valid_value_def split: if_splits)
  have add: "add_op al b XAIR_OP_STORE (val_type (vals m ! memory)) [memory, addr, data] 0 en nm m = (r, m')"
    if "memory < length (vals m) \<and> addr < length (vals m) \<and> data < length (vals m)"
    using run that by (simp add: xair_build_store_def valid_value_def)
  have srcs: "\<forall>s \<in> set [memory, addr, data]. s < length (vals m)"
    if "memory < length (vals m) \<and> addr < length (vals m) \<and> data < length (vals m)" using that by simp
  show "r = Err e \<Longrightarrow> ops m' = ops m"
    using run add_op_ops [OF add inv srcs] by (auto simp: xair_build_store_def valid_value_def split: if_splits)
  assume r: "r = Ok v"
  from add [OF ok [OF r]] inv srcs [OF ok [OF r]]
  show "(\<exists>i. store_at m' i \<and> dst (ops m' ! i) = v \<and> hd (op_srcs (ops m' ! i)) = memory) \<and>
      (ops m' = ops m \<or> (\<exists>oper. ops m' = ops m @ [oper] \<and> dst oper = v))"
  proof (cases rule: add_op_cases)
    case (reuse w)
    have "value_wf m v" using inv reuse r by (simp add: module_inv_def wf_module_def is_op_value_def)
    then have "val_op (vals m ! v) < length (ops m)" "dst (ops m ! val_op (vals m ! v)) = v"
      using reuse r by (auto simp: value_wf_def is_op_value_def Let_def)
    moreover have "op_srcs (ops m ! val_op (vals m ! v)) = [memory, addr, data]"
      using reuse r by (simp add: same_key_def key_of_def Let_def)
    ultimately show ?thesis using reuse by (auto simp: content_eq_def store_at_def)
  next
    case (fresh s tab c c' c'')
    let ?o = "make_op \<lparr>k_block = b, k_opcode = XAIR_OP_STORE, k_type = val_type (vals m ! memory), k_srcs = [memory, addr, data],
      k_imm = 0, k_endian = en\<rparr> (length (vals m))"
    have o: "ops m' = ops m @ [?o]" using fresh by (simp add: numbered_def op_added_def value_number_insert_def)
    have "dst ?o = v" using fresh r by (simp add: make_op_def)
    moreover from this have "store_at m' (length (ops m)) \<and> dst (ops m' ! length (ops m)) = v \<and> hd (op_srcs (ops m' ! length (ops m))) = memory"
      by (simp add: o store_at_def)
    ultimately show ?thesis using o by blast
  qed (use r in simp)
qed

lemma chained_store:
  assumes ch: "chained m memory" and i: "store_at m' i" "dst (ops m' ! i) = v" "hd (op_srcs (ops m' ! i)) = memory"
    and o: "ops m' = ops m \<or> (\<exists>oper. ops m' = ops m @ [oper] \<and> dst oper = v)"
  shows "chained m' v"
  unfolding chained_def
proof (intro allI impI)
  fix k assume k: "store_at m' k"
  have old: "store_at m' j \<and> ops m' ! j = ops m ! j" if "store_at m j" for j using o that by (auto simp: store_at_def nth_append)
  show "dst (ops m' ! k) = v \<or> (\<exists>j. store_at m' j \<and> hd (op_srcs (ops m' ! j)) = dst (ops m' ! k))"
  proof (cases "store_at m k")
    case True
    then show ?thesis using ch i old by (auto simp: chained_def) metis
  next
    case False
    then show ?thesis using k o by (auto simp: store_at_def nth_append less_Suc_eq split: if_splits)
  qed
qed

lemma add_param_ops:
  assumes "stores_ok s" "xair_block_add_param al b t nm (ls_module s) = (q, m')"
  shows "ops m' = ops (ls_module s)" "built m'" "q = Ok v \<Longrightarrow> v \<noteq> XAIR_INVALID_ID"
proof -
  show "built m'" using assms add_param_built by (auto simp: stores_ok_def)
  show "ops m' = ops (ls_module s)" "q = Ok v \<Longrightarrow> v \<noteq> XAIR_INVALID_ID"
    using assms(2) by (cases rule: xair_block_add_param_cases; simp add: param_added_def)+
qed

interpretation stores: lift_invariant stores_ok UNIV
proof (unfold_locales, goal_cases)
  case (2 s c al r m')
  then show ?case by (intro stores_ok_call)
next
  case (3 s al i r s')
  then show ?case
    by (auto simp: x86_ensure_reg_def on_module_def Let_def add_param_ops [OF 3(1)] split: if_splits prod.splits xres.splits
        intro!: stores_ok_cong [OF 3(1)])
next
  case (4 s s')
  then show ?case by (auto simp: lift_view_def stores_ok_def)
next
  case (5 s al b vs u m')
  have "ops m' = ops (ls_module s)"
    using 5(2) by (auto simp: xair_set_return_def xbind_def set_term_def append_term_args_def split: if_splits xres.splits)
  then show ?case using 5 set_return_built by (intro stores_ok_cong [OF 5(1)]) (auto simp: stores_ok_def)
next
  case (6 s al r s')
  show ?case
  proof (cases "ls_has_memory s")
    case False
    obtain q m' where q: "xair_block_add_param al (ls_block s) (xair_type_mem (ls_memory_space s) (ls_addr_bits s)) ''mem'' (ls_module s) = (q, m')"
      by fastforce
    then show ?thesis using 6(2) False add_param_ops [OF 6(1) q]
      by (cases q) (auto simp: x86_ensure_memory_def on_module_def intro: stores_ok_cong [OF 6(1)] stores_ok_none [OF 6(1)])
  qed (use 6 in \<open>simp add: x86_ensure_memory_def\<close>)
next
  case (7 s al b addr data nm r s')
  have inv: "module_inv (ls_module s)" and ch: "chained (ls_module s) (ls_memory s)" using 7(1) by (auto simp: stores_ok_def intro: built_module_inv)
  from 7(3) show ?case
  proof (cases rule: store_currentE)
    case (Ok v m')
    note c = build_store_chain(1) [OF Ok(1) inv refl]
    then have "chained m' v" using chained_store [OF ch] by blast
    then show ?thesis using 7(1,2) Ok build_store_built by (auto simp: stores_ok_def)
  next
    case (Err e m')
    moreover have "built m'" using 7(1) build_store_built Err(1) by (auto simp: stores_ok_def)
    ultimately show ?thesis using build_store_chain(2) [OF Err(1) inv refl] by (intro stores_ok_cong [OF 7(1)]) simp_all
  qed
next
  case (8 s)
  then show ?case by (auto simp: stores_ok_def)
qed simp

text \<open>The module made by lifting a block into an empty module.\<close>

lemma lifted_chain:
  assumes "xair_lift_basic_block al img opts empty_module = (Ok res, m)"
  shows "chained m (lr_memory_out res) \<and> (\<forall>i. store_at m i \<longrightarrow> lr_memory_out res \<in> set (lr_return_values res))"
  using assms
proof (cases rule: lift_basic_blockE)
  case (1 b m1 nm)
  then obtain n u s' r where loop: "lift_loop al n (lift_state_init m1 img opts True b r) = (Ok u, s')"
    and res: "res = ls_result s'" "m = ls_module s'"
    by (auto simp: lift_x86_basic_block_def Let_def split: prod.splits xres.splits)
  have "ops m1 = []" using 1(2) by (auto simp: xair_block_create_def empty_module_def Let_def split: if_splits xres.splits)
  moreover have "built m1" using lift_target_built [OF built.create 1(1)] .
  ultimately have "stores_ok (lift_state_init m1 img opts True b r)"
    by (simp add: stores_ok_def lift_state_init_def store_at_def chained_def)
  from stores.keepsD [OF stores.keeps_loop this loop] have ok: "stores_ok s'" by simp
  have "module_ok empty_module" "module_inv empty_module"
    using module_inv_create by (auto simp: module_ok_def empty_module_def)
  then have "lift_layout res" using lift_basic_block_ok assms by blast
  then have "store_at m i \<Longrightarrow> lr_memory_out res \<in> set (lr_return_values res)" for i using ok by (auto simp: stores_ok_def lift_layout_def res)
  moreover have "chained m (lr_memory_out res)"
    using ok by (cases "\<exists>i. store_at m i") (auto simp: stores_ok_def res chained_def)
  ultimately show ?thesis by blast
qed

section \<open>All of them are live\<close>

text \<open>Canonicalization of the operations leaves stores as they are.\<close>

lemma canonicalize_op_store:
  assumes "canonicalize_op j (m, st) = (m1, st1)" "is_store (ops m ! i)"
  shows "ops m1 ! i = ops m ! i"
proof (cases "j = i")
  case True
  have "fold_value m (ops m ! i) = None" using assms(2) by (simp add: fold_value_def Let_def)
  then have "fold_constant_op m (ops m ! i) = None" by (simp add: fold_constant_op_def)
  then show ?thesis using assms True by (auto simp: canonicalize_op_def Let_def op_is_commutative_def split: if_splits)
next
  case False
  then show ?thesis using assms(1) by (auto simp: canonicalize_op_def Let_def split: if_splits option.splits)
qed

lemma canonicalize_ops_store: "fold canonicalize_op js (m, st) = (m1, st1) \<Longrightarrow> is_store (ops m ! i) \<Longrightarrow> ops m1 ! i = ops m ! i"
proof (induction js arbitrary: m st)
  case (Cons j js)
  obtain m2 st2 where 2: "canonicalize_op j (m, st) = (m2, st2)" by fastforce
  have "ops m2 ! i = ops m ! i" by (rule canonicalize_op_store [OF 2 Cons.prems(2)])
  then show ?case using Cons.IH [of m2 st2] Cons.prems 2 by simp
qed simp

lemma store_at_iff:
  assumes "sound_module m" "i < length (ops m)"
  shows "store_at m i \<longleftrightarrow> is_store (ops m ! i)"
proof -
  have "op_ok m (ops m ! i)" using assms by (simp add: sound_module_def)
  then have "length (op_srcs (ops m ! i)) = (if opcode (ops m ! i) = XAIR_OP_CONST_U64 then 0 else if is_unary_opcode (opcode (ops m ! i)) then 1
      else if is_store (ops m ! i) then 3 else 2)" using op_sig_arity by (fastforce simp: op_ok_def)
  then show ?thesis using assms(2) by (auto simp: store_at_def is_unary_opcode_def)
qed

text \<open>From the last store to the first.\<close>

lemma chain_live:
  assumes ready: "live_ready m live" and ch: "chained m final" and l: "\<exists>i. store_at m i \<Longrightarrow> live ! final"
  shows "store_at m i \<Longrightarrow> live ! dst (ops m ! i)"
proof (induction "length (vals m) - dst (ops m ! i)" arbitrary: i rule: less_induct)
  case less
  show ?case
  proof (cases "dst (ops m ! i) = final")
    case True
    then show ?thesis using l less.prems by blast
  next
    case False
    then obtain j where j: "store_at m j" "hd (op_srcs (ops m ! j)) = dst (ops m ! i)" using ch less.prems by (auto simp: chained_def)
    have jl: "j < length (ops m)" using j(1) by (simp add: store_at_def)
    have "op_srcs (ops m ! j) \<noteq> []" using j(1) by (auto simp: store_at_def)
    then have mem: "dst (ops m ! i) \<in> set (op_srcs (ops m ! j))" using j(2) by (metis hd_in_set)
    have "op_wf m j" using ready jl by (simp add: live_ready_def linked_def)
    then have "dst (ops m ! i) < dst (ops m ! j)" "dst (ops m ! j) < length (vals m)" using mem by (auto simp: op_wf_def Let_def)
    then have "live ! dst (ops m ! j)" using less.hyps [OF _ j(1)] by simp
    then show ?thesis using ready_op(5) [OF ready jl] mem by blast
  qed
qed

lemma lifted_stores_live:
  assumes lift: "xair_lift_basic_block al img opts empty_module = (Ok res, m)"
    and l: "canonicalize_local_ops (value_number_clear m) s1 = (m1, s2)"
  shows "\<forall>i < length (ops m1). is_store (ops m1 ! i) \<longrightarrow> live_values m1 ! dst (ops m1 ! i)"
proof -
  have empty: "module_ok empty_module" "module_inv empty_module"
    using module_inv_create by (auto simp: module_ok_def empty_module_def)
  have m: "built m" "module_ok m" "lr_block res < length (blocks m)" "block_returns m (lr_block res) (lr_return_values res)"
    using lifts_built(1) [OF built.create lift] lift_basic_block_ok [OF empty(2,1) lift] lift_inputs [OF built.create lift]
      lift_basic_block_returns [OF built.create empty(1) lift] by auto
  note local = local_ops_ready [OF m(1,2) l]
  have len: "length (ops m1) = length (ops m)" using map_eq_imp_length_eq [OF local(7)] .
  have args: "term_args m1 = term_args m"
    using star_rewrites [OF local(1,2)] wf_linked built_module_inv [OF m(1)] by (simp add: module_inv_def)
  have ready: "live_ready m1 (live_values m1)" using local(3,4) live_values_closed by (simp add: live_ready_def)
  have same: "ops m1 ! i = ops m ! i" if "is_store (ops m ! i)" for i
    using canonicalize_ops_store [OF l [unfolded canonicalize_local_ops_def], of i] that by (simp add: value_number_clear_def)
  have kinds: "is_store (ops m1 ! i) = is_store (ops m ! i)" if "i < length (ops m)" for i
    using arg_cong [OF local(7), of "\<lambda>xs. xs ! i"] that len by simp
  have st: "store_at m1 i \<longleftrightarrow> store_at m i" for i
  proof (cases "i < length (ops m)")
    case True
    then show ?thesis using store_at_iff [OF local(3)] store_at_iff [OF local(2)] kinds len by simp
  qed (simp add: store_at_def len)
  have eq: "ops m1 ! i = ops m ! i" if "store_at m i" for i
    using that same store_at_iff [OF local(2)] by (auto simp: store_at_def)
  have chain: "chained m1 (lr_memory_out res)"
    unfolding chained_def
  proof (intro allI impI)
    fix i assume i: "store_at m1 i"
    then have i': "store_at m i" "ops m1 ! i = ops m ! i" using st eq by blast+
    then have "dst (ops m ! i) = lr_memory_out res \<or> (\<exists>j. store_at m j \<and> hd (op_srcs (ops m ! j)) = dst (ops m ! i))"
      using lifted_chain [OF lift] by (simp add: chained_def)
    then show "dst (ops m1 ! i) = lr_memory_out res \<or> (\<exists>j. store_at m1 j \<and> hd (op_srcs (ops m1 ! j)) = dst (ops m1 ! i))"
      unfolding i'(2) st using eq by fastforce
  qed
  have "live_values m1 ! lr_memory_out res" if "store_at m1 i" for i
  proof -
    have "lr_memory_out res \<in> set (lr_return_values res)" using lifted_chain [OF lift] that by (auto simp: st)
    moreover have "term_args_const m1 = term_args_const m" by (simp add: fun_eq_iff term_args_const_def args Let_def)
    ultimately have "lr_memory_out res \<in> set (term_uses m1 (blk_term (blocks m1 ! lr_block res)))"
      using m(4) by (simp add: block_returns_def Let_def term_uses_def local(6))
    then show ?thesis using ready_term [OF ready] m(3) by (simp add: local(6))
  qed
  then show ?thesis using chain_live [OF ready chain] store_at_iff [OF local(3)] by blast
qed

lemma lifted_canonicalize_call:
  assumes lift: "xair_lift_basic_block al img opts empty_module = (Ok res, m)"
    and canon: "xair_canonicalize_module al' m = (Ok stats, m')"
    and call: "call_block al'' m b xs n = Ok r" "halt_kind r \<noteq> XAIR_EXEC_HALTED_UNSUPPORTED"
    and xs: "length xs = length (params (blocks m ! b))" "\<forall>x \<in> set xs. value_ok x"
    and st': "xair_exec_state_create al'' m' = Ok st'"
  shows "call_block al'' m' b xs n = Ok r"
  using lifted_stores_live [OF lift]
  by (intro canonicalize_call_live [OF lifts_built(1) [OF built.create lift] canon _ call xs st'])

end
