(* ===== verification/Xair_Bench_Sound.thy ===== *)
theory Xair_Bench_Sound
  imports Xair_Bench Xair_Tools_Sound Xair_Lift_Stores
begin

text \<open>
  What an iteration of the benchmark can report: it composes the creation of a module, lifting, verification, canonicalization
  and freezing, and only lifting can fail for a reason other than memory.
\<close>

lemma canonicalize_op_frozen: "frozen (fst (canonicalize_op i (m, st))) = frozen m"
  by (auto simp: canonicalize_op_def Let_def split: option.splits)

lemma canonicalize_ops_frozen: "fold canonicalize_op js (m, st) = (m1, st1) \<Longrightarrow> frozen m1 = frozen m"
proof (induction js arbitrary: m st)
  case (Cons j js)
  obtain m2 st2 where 2: "canonicalize_op j (m, st) = (m2, st2)" by fastforce
  then show ?case using Cons canonicalize_op_frozen [of j m st] by simp
qed simp

lemma canonicalize_frozen:
  assumes "xair_canonicalize_module al m = (Ok stats, m')"
  shows "frozen m' = frozen m"
  using assms
proof (rule canonicalize_Ok)
  fix s1 m1 s2 s3
  assume l: "canonicalize_local_ops (value_number_clear m) s1 = (m1, s2)" and c: "compact_live_values al (live_values m1) s2 m1 = (Ok s3, m')"
  have "frozen m' = frozen m1" using c by (auto simp: compact_live_values_def Let_def split: if_splits prod.splits)
  then show ?thesis using canonicalize_ops_frozen [OF l [unfolded canonicalize_local_ops_def]] by (simp add: value_number_clear_def)
qed

text \<open>The lifted module goes through the later phases.\<close>

lemma bench_calls_failure:
  assumes run: "bench_calls al config canonicalize = Inl (phase, e)" and al: "\<And>b n. al (Site_available b) n"
  shows "phase = Phase_lift \<and> e \<noteq> UNDEFINED_BEHAVIOUR \<or> phase \<in> {Phase_create, Phase_canonicalize, Phase_freeze} \<and> e = XAIR_ERR_OOM"
proof -
  let ?opts = "lift_options (bc_arch config) (bc_entry config) (bc_max_instructions config)"
    and ?img = "xair_image_init (bc_bytes config) (bc_base config)"
  obtain r m where l: "xair_lift_basic_block al ?img ?opts empty_module = (r, m)" by fastforce
  show ?thesis
  proof (cases "xair_module_create al = Ok empty_module")
    case create: True
    show ?thesis
    proof (cases r)
      case (Ok lift)
      note l = l [unfolded Ok]
      have m: "built m" "module_ok m" "\<not> frozen m" "fst (xair_verify_module al m) = XAIR_OK"
        using lifts_built(1) [OF built.create l] lifted_fresh [OF l] lifted_verifies al by (auto simp: lifted_def)
      obtain q m1 where c: "bench_canonicalize al canonicalize m = (q, m1)" by fastforce
      have q: "case q of Ok stats \<Rightarrow> \<not> frozen m1 | Err x \<Rightarrow> x = XAIR_ERR_OOM"
      proof (cases canonicalize)
        case True
        then have c: "xair_canonicalize_module al m = (q, m1)" using c by (simp add: bench_canonicalize_def)
        show ?thesis using canonicalize_verifies [where al = al, OF m(1-3) al c] canonicalize_frozen c m(3) by (cases q) auto
      qed (use c m(3) in \<open>auto simp: bench_canonicalize_def\<close>)
      show ?thesis using run l m(4) c q freeze_Err create
        by (cases q) (auto simp: bench_calls_def Let_def split: prod.splits xres.splits)
    qed (use run l create lift_options_defined [of al ?img "bc_arch config" "bc_entry config" "bc_max_instructions config" empty_module] in \<open>auto simp: bench_calls_def\<close>)
  qed (use run in \<open>auto simp: bench_calls_def xair_module_create_def split: if_splits\<close>)
qed

lemma bench_once_failure:
  assumes run: "bench_once al clock path config canonicalize iteration True = (e, line)" "e \<noteq> XAIR_OK"
    and al: "\<And>b n. al (Site_available b) n"
  shows "line = print_error_row path iteration ''lift'' e \<and> e \<noteq> UNDEFINED_BEHAVIOUR \<or>
    e = XAIR_ERR_OOM \<and> (\<exists>phase \<in> {''module_create'', ''canonicalize'', ''freeze''}. line = print_error_row path iteration phase e)"
proof -
  obtain phase where "bench_calls al config canonicalize = Inl (phase, e)" "line = print_error_row path iteration (phase_name phase) e"
    using run by (auto simp: bench_once_def split: sum.splits)
  then show ?thesis using bench_calls_failure [where al = al, OF _ al] by fastforce
qed

end
