(* ===== verification/Xair_Case_Text.thy ===== *)
theory Xair_Case_Text
  imports Xair_Tools
begin

text \<open>
  Case files read back. \<open>case_text\<close> writes a configuration in the format of case files, one setting on each line;
  \<open>read_case_file\<close>, which goes through the line buffer, the trimming of lines, \<^verbatim>\<open>strtoull\<close>, the hexadecimal bytes
  and the names of registers, gives the configuration back.
\<close>

section \<open>Digits\<close>

lemma of_char_hex_char: "d < 16 \<Longrightarrow> of_char (hex_char d) = (if d < 10 then 48 + d else 87 + d)"
  by (auto simp: hex_char_def)

lemma hex_digit_char: "d < 16 \<Longrightarrow> hex_digit (hex_char d) = Some d"
  by (auto simp: hex_digit_def of_char_hex_char Let_def)

text \<open>The characters of numbers.\<close>

definition number_char :: "char \<Rightarrow> bool" where
  "number_char c \<longleftrightarrow> hex_digit c \<noteq> None"

lemma number_char_hex_char: "d < 16 \<Longrightarrow> number_char (hex_char d)"
  by (simp add: number_char_def hex_digit_char)

lemma hex_text_chars: "c \<in> set (hex_text n) \<Longrightarrow> number_char c"
  by (induction n rule: hex_text.induct) (subst (asm) (2) hex_text.simps, auto simp: number_char_hex_char split: if_splits)

lemma hex_text_not_Nil [simp]: "hex_text n \<noteq> []"
  by (subst hex_text.simps) simp

lemma digits_value_append: "digits_value b (ds @ [c]) = digits_value b ds * b + the (hex_digit c)"
  by (simp add: digits_value_def)

lemma digits_value_hex: "digits_value 16 (hex_text n) = n"
proof (induction n rule: hex_text.induct)
  case (1 n)
  show ?case
  proof (cases "n < 16")
    case True
    then show ?thesis by (simp add: hex_text.simps [of n] digits_value_def hex_digit_char)
  next
    case False
    then show ?thesis using 1 by (simp add: hex_text.simps [of n] digits_value_append hex_digit_char)
  qed
qed

lemma length_hex_text: "n < 16 ^ Suc k \<Longrightarrow> length (hex_text n) \<le> Suc k"
proof (induction k arbitrary: n)
  case (Suc k)
  have "n div 16 < 16 ^ Suc k" using Suc.prems by (simp add: less_mult_imp_div_less)
  then show ?case using Suc.IH [of "n div 16"] by (subst hex_text.simps) simp
qed (simp add: hex_text.simps)

lemma base_digit_number: "base_digit 16 c \<longleftrightarrow> number_char c"
proof -
  have "d < 16" if "hex_digit c = Some d" for d using that by (auto simp: hex_digit_def Let_def split: if_splits)
  then show ?thesis by (auto simp: base_digit_def number_char_def split: option.split)
qed

definition hex_number :: "nat \<Rightarrow> string" where
  "hex_number n = ''0x'' @ hex_text n"

lemma parse_hex_number:
  assumes "n < 2 ^ 64"
  shows "parse_u64 (hex_number n) = Some (of_nat n)"
proof -
  have all: "\<forall>c \<in> set (hex_text n). base_digit 16 c" using hex_text_chars base_digit_number by blast
  then have hd: "base_digit 16 (hex_text n ! 0)" by simp
  have base: "number_base (hex_number n) = (16, hex_text n)"
    using hd by (simp add: number_base_def hex_number_def Suc_le_eq)
  have "dropWhile isspace (hex_number n) = hex_number n" "number_sign (hex_number n) = (False, hex_number n)"
    by (simp_all add: hex_number_def isspace_def number_sign_def)
  moreover have digits: "takeWhile (base_digit 16) (hex_text n) = hex_text n" "dropWhile (base_digit 16) (hex_text n) = []"
    using all by (simp_all add: takeWhile_eq_all_conv dropWhile_eq_Nil_conv)
  ultimately have "strtoull (hex_number n) = Some (Some (of_nat n), [])"
    using base assms by (simp add: strtoull_def digits digits_value_hex Let_def)
  then show ?thesis by (simp add: parse_u64_def) (simp add: hex_number_def)
qed

section \<open>Bytes\<close>

definition byte_hex :: "u8 \<Rightarrow> string" where
  "byte_hex b = [hex_char (unat b div 16), hex_char (unat b mod 16)]"

definition bytes_hex :: "u8 list \<Rightarrow> string" where
  "bytes_hex bs = concat (map byte_hex bs)"

lemma length_bytes_hex [simp]: "length (bytes_hex bs) = 2 * length bs"
  by (induction bs) (simp_all add: bytes_hex_def byte_hex_def)

lemma byte_parts: "push_bit 4 (of_nat (unat b div 16)) OR of_nat (unat b mod 16) = (b :: u8)"
proof -
  have "unat b div 16 = drop_bit 4 (unat b)" "unat b mod 16 = take_bit 4 (unat b)"
    by (simp_all add: drop_bit_eq_div take_bit_eq_mod)
  then show ?thesis by (intro bit_eqI) (auto simp: bit_simps)
qed

lemma byte_high: "unat (b :: u8) div 16 < 16"
  using unsigned_less [of b, where 'a = nat] by (simp add: less_mult_imp_div_less)

lemma hex_pairs_bytes: "hex_pairs (bytes_hex bs) = Some bs"
proof (induction bs)
  case (Cons b bs)
  show ?case using Cons byte_high [of b] byte_parts [of b] by (simp add: bytes_hex_def byte_hex_def hex_digit_char)
qed (simp add: bytes_hex_def)

lemma bytes_hex_chars: "c \<in> set (bytes_hex bs) \<Longrightarrow> number_char c"
  using byte_high number_char_hex_char by (auto simp: bytes_hex_def byte_hex_def)

section \<open>Lines\<close>

text \<open>Characters that a line may hold next to its equals sign.\<close>

definition plain :: "string \<Rightarrow> bool" where
  "plain s \<longleftrightarrow> (\<forall>c \<in> set s. \<not> isspace c \<and> c \<noteq> NUL)"

lemma plain_simps [simp]: "plain (s @ t) \<longleftrightarrow> plain s \<and> plain t" "plain []" "plain (rev s) \<longleftrightarrow> plain s"
  "plain (c # s) \<longleftrightarrow> \<not> isspace c \<and> c \<noteq> NUL \<and> plain s"
  by (auto simp: plain_def)

lemma newline_space: "isspace newline" "\<not> isspace (CHR ''='')" "newline \<noteq> NUL"
  by (simp_all add: isspace_def newline_def)

lemma drop_plain: "plain s \<Longrightarrow> dropWhile isspace s = s"
  by (cases s) simp_all

lemma number_char_plain: "number_char c \<Longrightarrow> \<not> isspace c \<and> c \<noteq> NUL \<and> c \<noteq> CHR ''.'' \<and> c \<noteq> CHR ''=''"
  by (auto simp: number_char_def hex_digit_def isspace_def Let_def split: if_splits)

lemma plain_numbers [simp]: "plain (hex_text n)" "plain (bytes_hex bs)" "plain (hex_number n)"
proof -
  show h: "plain (hex_text n)" using hex_text_chars number_char_plain by (auto simp: plain_def)
  show "plain (bytes_hex bs)" using bytes_hex_chars number_char_plain by (auto simp: plain_def)
  show "plain (hex_number n)" using h by (simp add: hex_number_def isspace_def)
qed

lemma trim_plain: "plain s \<Longrightarrow> trim s = s"
  by (simp add: trim_def drop_plain)

lemma trim_line: "plain s \<Longrightarrow> trim (s @ [newline]) = s"
  by (cases s) (simp_all add: trim_def drop_plain newline_space)

definition setting_line :: "string \<Rightarrow> string \<Rightarrow> string" where
  "setting_line key v = key @ ''='' @ v @ [newline]"

lemma parse_setting_line:
  assumes "plain key" "plain v" "CHR ''='' \<notin> set key" "key \<noteq> []" "hd key \<noteq> CHR ''#''"
  shows "parse_case_line al (setting_line key v) config = parse_setting al key v config"
proof -
  let ?l = "key @ CHR ''='' # v"
  have "plain ?l" using assms newline_space by simp
  then have l: "trim (setting_line key v) = ?l" using trim_line [of ?l] by (simp add: setting_line_def)
  have "takeWhile (\<lambda>c. c \<noteq> CHR ''='') ?l = key" "dropWhile (\<lambda>c. c \<noteq> CHR ''='') ?l = CHR ''='' # v"
    using assms(3) by (auto simp: takeWhile_append dropWhile_append)
  then show ?thesis using l assms trim_plain by (simp add: parse_case_line_def Let_def)
qed

lemma fgets_line:
  assumes "newline \<notin> set s" "length s < n"
  shows "fgets n (s @ newline # r) = (s @ [newline], r)"
  using assms
proof (induction s arbitrary: n)
  case Nil
  then show ?case by (cases n) auto
next
  case (Cons c s)
  then show ?case by (cases n) auto
qed

lemma read_line:
  assumes "plain s" "length s < 8191"
  shows "read_lines ((s @ [newline]) @ r) = (s @ [newline]) # read_lines r"
proof -
  have nl: "newline \<notin> set s" "newline \<noteq> NUL" using assms(1) newline_space by (auto simp: plain_def)
  have f: "fgets 8191 (s @ newline # r) = (s @ [newline], r)" by (rule fgets_line [OF nl(1) assms(2)])
  have t: "takeWhile (\<lambda>c. c \<noteq> NUL) (s @ [newline]) = s @ [newline]" using assms(1) nl(2) by (auto simp: plain_def)
  show ?thesis
  proof (cases "s @ newline # r")
    case (Cons c u)
    then have "read_lines (s @ newline # r) = takeWhile (\<lambda>c. c \<noteq> NUL) (s @ [newline]) # read_lines r"
      using f by (simp del: fgets.simps)
    then show ?thesis using t by simp
  qed simp
qed

lemma read_settings:
  "\<forall>(k, v) \<in> set kvs. plain k \<and> plain v \<and> length k + length v < 8190 \<Longrightarrow>
    read_lines (concat (map (\<lambda>(k, v). setting_line k v) kvs)) = map (\<lambda>(k, v). setting_line k v) kvs"
proof (induction kvs)
  case (Cons kv kvs)
  obtain k v where kv: "kv = (k, v)" by (cases kv)
  have "plain (k @ ''='' @ v)" using Cons.prems kv newline_space by simp
  then show ?case using read_line [of "k @ ''='' @ v"] Cons kv by (simp add: setting_line_def)
qed simp

section \<open>Settings\<close>

fun apply_settings :: "allocator \<Rightarrow> (string \<times> string) list \<Rightarrow> case_config \<Rightarrow> case_config option" where
  "apply_settings al [] config = Some config"
| "apply_settings al ((k, v) # kvs) config =
     (case parse_setting al k v config of None \<Rightarrow> None | Some config' \<Rightarrow> apply_settings al kvs config')"

lemma apply_settings_append:
  "apply_settings al kvs config = Some config' \<Longrightarrow> apply_settings al (kvs @ kvs') config = apply_settings al kvs' config'"
  by (induction al kvs config rule: apply_settings.induct) (auto split: option.splits)

text \<open>Settings that a line can hold.\<close>

definition setting_ok :: "string \<times> string \<Rightarrow> bool" where
  "setting_ok kv = (case kv of (k, v) \<Rightarrow> plain k \<and> plain v \<and> CHR ''='' \<notin> set k \<and> k \<noteq> [] \<and> hd k \<noteq> CHR ''#'' \<and>
     length k + length v < 8190)"

lemma parse_settings:
  "\<forall>kv \<in> set kvs. setting_ok kv \<Longrightarrow>
    parse_case_lines al (read_lines (concat (map (\<lambda>(k, v). setting_line k v) kvs))) config = apply_settings al kvs config"
proof -
  assume ok: "\<forall>kv \<in> set kvs. setting_ok kv"
  then have "parse_case_lines al (map (\<lambda>(k, v). setting_line k v) kvs) config = apply_settings al kvs config"
    by (induction kvs arbitrary: config) (auto simp: setting_ok_def parse_setting_line split: option.split)
  moreover have "\<forall>(k, v) \<in> set kvs. plain k \<and> plain v \<and> length k + length v < 8190"
    using ok by (auto simp: setting_ok_def)
  ultimately show ?thesis using read_settings by simp
qed

definition arch_text :: "xair_arch \<Rightarrow> string" where
  "arch_text arch = (if arch = XAIR_ARCH_X86_64 then ''x86_64'' else ''x86_32'')"

definition main_settings :: "case_config \<Rightarrow> (string \<times> string) list" where
  "main_settings config = [(''arch'', arch_text (cc_arch config)), (''base'', hex_number (unat (cc_base config))),
     (''entry'', hex_number (unat (cc_entry config))), (''max_instructions'', hex_number (cc_max_instructions config)),
     (''run'', if cc_run config then ''1'' else ''0''), (''bytes'', bytes_hex (cc_bytes config))]"

definition reg_setting :: "case_config \<Rightarrow> xair_x86_reg \<Rightarrow> string \<times> string" where
  "reg_setting config r = (''reg.'' @ xair_x86_reg_name r, hex_number (unat (cc_regs config ! r)))"

definition memory_setting :: "memory_entry \<Rightarrow> string \<times> string" where
  "memory_setting e =
     (''mem.'' @ hex_number (me_space e) @ ''.'' @ hex_number (unat (me_address e)), bytes_hex (me_bytes e))"

definition case_settings :: "case_config \<Rightarrow> (string \<times> string) list" where
  "case_settings config = main_settings config @
     map (reg_setting config) (filter ((!) (cc_have_reg config)) [0..<XAIR_X86_REG_COUNT]) @ map memory_setting (cc_memory config)"

definition case_text :: "case_config \<Rightarrow> string" where
  "case_text config = concat (map (\<lambda>(k, v). setting_line k v) (case_settings config))"

text \<open>The configurations a case file can describe.\<close>

definition case_ok :: "case_config \<Rightarrow> bool" where
  "case_ok config \<longleftrightarrow> cc_have_arch config \<and> cc_have_bytes config \<and> cc_have_base config \<and> cc_have_entry config \<and>
     cc_max_instructions config \<le> SIZE_MAX \<and> length (cc_bytes config) \<le> 4000 \<and>
     length (cc_regs config) = XAIR_X86_REG_COUNT \<and> length (cc_have_reg config) = XAIR_X86_REG_COUNT \<and>
     (\<forall>r < XAIR_X86_REG_COUNT. \<not> cc_have_reg config ! r \<longrightarrow> cc_regs config ! r = 0) \<and>
     length (cc_memory config) \<le> CASE_MAX_MEMORY \<and>
     (\<forall>e \<in> set (cc_memory config). me_space e < 65536 \<and> length (me_bytes e) \<le> 4000)"

section \<open>Reading them back\<close>

lemma parse_u64_word: "parse_u64 (hex_number (unat (w :: u64))) = Some w"
  using parse_hex_number [of "unat w"] unsigned_less [of w, where 'a = nat] by simp

lemma apply_main:
  assumes "\<And>n. al Site_case_bytes n" "cc_max_instructions config \<le> SIZE_MAX"
  shows "apply_settings al (main_settings config) init = Some (init\<lparr>cc_arch := cc_arch config, cc_have_arch := True,
    cc_base := cc_base config, cc_have_base := True, cc_entry := cc_entry config, cc_have_entry := True,
    cc_max_instructions := cc_max_instructions config, cc_run := cc_run config, cc_bytes := cc_bytes config, cc_have_bytes := True\<rparr>)"
proof -
  have "parse_u64 (hex_number (cc_max_instructions config)) = Some (of_nat (cc_max_instructions config))"
    "unat (of_nat (cc_max_instructions config) :: u64) = cc_max_instructions config"
    using assms(2) parse_hex_number [of "cc_max_instructions config"] by (simp_all add: unat_of_nat)
  moreover have "parse_hex_bytes al Site_case_bytes (bytes_hex bs) = Some bs" for bs
    using assms(1) by (simp add: parse_hex_bytes_def hex_pairs_bytes)
  ultimately show ?thesis using assms(2)
    by (cases "cc_arch config") (simp_all add: main_settings_def parse_setting_def parse_u64_word arch_text_def)
qed

lemma reg_names: "r < XAIR_X86_REG_COUNT \<Longrightarrow> reg_from_name (xair_x86_reg_name r) = Some r \<and> plain (xair_x86_reg_name r) \<and>
    CHR ''='' \<notin> set (xair_x86_reg_name r) \<and> length (xair_x86_reg_name r) \<le> 3"
proof -
  have "\<forall>r \<in> {0..<XAIR_X86_REG_COUNT}. reg_from_name (xair_x86_reg_name r) = Some r \<and> plain (xair_x86_reg_name r) \<and>
    CHR ''='' \<notin> set (xair_x86_reg_name r) \<and> length (xair_x86_reg_name r) \<le> 3" by code_simp
  then show "r < XAIR_X86_REG_COUNT \<Longrightarrow> ?thesis" by simp
qed

lemma fold_set_nth: "i < length xs \<Longrightarrow> fold (\<lambda>r ys. ys[r := f r]) rs xs ! i = (if i \<in> set rs then f i else xs ! i)"
  by (induction rs arbitrary: xs) (auto simp: nth_list_update)

lemma length_fold_set [simp]: "length (fold (\<lambda>r ys. ys[r := f r]) rs xs) = length xs"
  by (induction rs arbitrary: xs) auto

lemma apply_regs:
  "\<forall>r \<in> set rs. r < XAIR_X86_REG_COUNT \<Longrightarrow> apply_settings al (map (reg_setting config) rs) init =
    Some (init\<lparr>cc_regs := fold (\<lambda>r ys. ys[r := cc_regs config ! r]) rs (cc_regs init),
      cc_have_reg := fold (\<lambda>r ys. ys[r := True]) rs (cc_have_reg init)\<rparr>)"
proof (induction rs arbitrary: init)
  case (Cons r rs)
  then show ?case using reg_names [of r] by (simp add: reg_setting_def parse_setting_def parse_u64_word)
qed simp

lemma parse_memory_setting:
  assumes "me_space e < 65536"
  shows "parse_memory_key (fst (memory_setting e)) = Some (me_space e, me_address e)"
proof -
  let ?s = "hex_number (me_space e)"
  have dot: "CHR ''.'' \<notin> set ?s" using hex_text_chars number_char_plain by (auto simp: hex_number_def)
  then have "takeWhile (\<lambda>c. c \<noteq> CHR ''.'') (?s @ CHR ''.'' # t) = ?s" for t by (auto simp: takeWhile_append)
  moreover have "length ?s < 32" using length_hex_text [of "me_space e" 3] assms by (simp add: hex_number_def)
  moreover have "parse_u64 ?s = Some (of_nat (me_space e))" using parse_hex_number assms by simp
  moreover have "unat (of_nat (me_space e) :: u64) = me_space e" using assms by (simp add: unat_of_nat)
  moreover from this have "\<not> (of_nat (me_space e) :: u64) > 0xffff" using assms by (simp add: word_less_nat_alt)
  ultimately show ?thesis using parse_u64_word by (simp add: parse_memory_key_def memory_setting_def Let_def)
qed

lemma apply_memory:
  assumes "\<And>k n. al (Site_case_memory k) n"
  shows "\<forall>e \<in> set es. me_space e < 65536 \<Longrightarrow> length (cc_memory init) + length es \<le> CASE_MAX_MEMORY \<Longrightarrow>
    apply_settings al (map memory_setting es) init = Some (init\<lparr>cc_memory := cc_memory init @ es\<rparr>)"
proof (induction es arbitrary: init)
  case (Cons e es)
  have key: "parse_memory_key (''mem.'' @ hex_number (me_space e) @ ''.'' @ hex_number (unat (me_address e))) = Some (me_space e, me_address e)"
    using parse_memory_setting [of e] Cons.prems(1) by (simp add: memory_setting_def)
  have "parse_hex_bytes al (Site_case_memory k) (bytes_hex bs) = Some bs" for k bs
    using assms by (simp add: parse_hex_bytes_def hex_pairs_bytes)
  then have "parse_setting al (fst (memory_setting e)) (snd (memory_setting e)) init = Some (init\<lparr>cc_memory := cc_memory init @ [e]\<rparr>)"
    using key Cons.prems(2) by (simp add: parse_setting_def memory_setting_def)
  then show ?case using Cons.IH [of "init\<lparr>cc_memory := cc_memory init @ [e]\<rparr>"] Cons.prems by (simp add: memory_setting_def)
qed simp

lemma case_settings_ok:
  assumes "case_ok config"
  shows "\<forall>kv \<in> set (case_settings config). setting_ok kv"
proof -
  have num: "length (hex_number (unat (w :: u64))) \<le> 18" for w
    using length_hex_text [of "unat w" 15] unsigned_less [of w, where 'a = nat] by (simp add: hex_number_def)
  have n: "length (hex_number (cc_max_instructions config)) \<le> 18"
    using length_hex_text [of "cc_max_instructions config" 15] assms by (simp add: hex_number_def case_ok_def)
  have "setting_ok kv" if "kv \<in> set (main_settings config)" for kv
    using that num [of "cc_base config"] num [of "cc_entry config"] n assms
    by (auto simp: main_settings_def setting_ok_def case_ok_def arch_text_def isspace_def)
  moreover have "setting_ok (reg_setting config r)" if "r < XAIR_X86_REG_COUNT" for r
    using reg_names [OF that] num [of "cc_regs config ! r"] by (simp add: reg_setting_def setting_ok_def isspace_def)
  moreover have "setting_ok (memory_setting e)" if "e \<in> set (cc_memory config)" for e
  proof -
    have e: "me_space e < 65536" "length (me_bytes e) \<le> 4000" using assms that by (auto simp: case_ok_def)
    then have "length (hex_number (me_space e)) \<le> 6" using length_hex_text [of "me_space e" 3] by (simp add: hex_number_def)
    moreover have "CHR ''='' \<notin> set (hex_number k)" for k using hex_text_chars number_char_plain by (auto simp: hex_number_def)
    ultimately show ?thesis using e num [of "me_address e"] by (simp add: memory_setting_def setting_ok_def isspace_def)
  qed
  ultimately show ?thesis by (auto simp: case_settings_def)
qed

lemma apply_case_settings:
  assumes ok: "case_ok config" and al: "\<And>n. al Site_case_bytes n" "\<And>k n. al (Site_case_memory k) n"
  shows "apply_settings al (case_settings config) case_config_init = Some config"
proof -
  let ?rs = "filter ((!) (cc_have_reg config)) [0..<XAIR_X86_REG_COUNT]"
  have regs: "fold (\<lambda>r ys. ys[r := cc_regs config ! r]) ?rs (replicate XAIR_X86_REG_COUNT 0) = cc_regs config"
    "fold (\<lambda>r ys. ys[r := True]) ?rs (replicate XAIR_X86_REG_COUNT False) = cc_have_reg config"
    using ok by (auto simp: case_ok_def fold_set_nth split: if_splits intro!: nth_equalityI)
  note main = apply_main [where al = al and config = config, OF al(1)]
  show ?thesis unfolding case_settings_def
    using ok regs
    by (subst apply_settings_append [OF main], simp add: case_ok_def,
        subst apply_settings_append [OF apply_regs], simp, subst apply_memory [where al = al, OF al(2)])
      (auto simp: case_ok_def case_config_init_def)
qed

lemma read_case_text:
  assumes "case_ok config" "\<And>n. al Site_case_bytes n" "\<And>k n. al (Site_case_memory k) n" "files path = Some (case_text config)"
  shows "read_case_file al files path = Some config"
  using assms parse_settings [OF case_settings_ok [OF assms(1)]] apply_case_settings [where al = al, OF assms(1-3)]
  by (simp add: read_case_file_def case_text_def) (simp add: case_ok_def)

end
