(* ===== verification/Xair_Examples.thy ===== *)
theory Xair_Examples
  imports Xair_Arith Xair_Encode Xair_Vex_Sound Xair_Bench_Sound Xair_Case_Text
begin

text \<open>
  The concrete modules and states at which the witnesses of the properties apply them: a block that adds
  two constants and its parameter and returns the sum, a state in which the parameter is set, and a
  builder session.
\<close>

definition demo_value :: "nat \<Rightarrow> nat \<Rightarrow> xair_value_rec" where
  "demo_value oid n = \<lparr>val_type = xair_type_i 32, val_block = 0, val_op = oid, val_name = dec_text n\<rparr>"

definition demo_op :: "xair_opcode \<Rightarrow> xair_value_id list \<Rightarrow> u64 \<Rightarrow> xair_value_id \<Rightarrow> xair_op_rec" where
  "demo_op oc srcs i d =
     make_op \<lparr>k_block = 0, k_opcode = oc, k_type = xair_type_i 32, k_srcs = srcs, k_imm = i,
              k_endian = XAIR_ENDIAN_LE\<rparr> d"

definition demo :: xair_module where
  "demo = empty_module\<lparr>
     vals := [demo_value XAIR_INVALID_ID 0, demo_value 0 1, demo_value 1 2, demo_value 2 3, demo_value 3 4],
     value_cap := 8,
     ops := [demo_op XAIR_OP_CONST_U64 [] 5 1, demo_op XAIR_OP_CONST_U64 [] 7 2,
             demo_op XAIR_OP_ADD [1, 2] 0 3, demo_op XAIR_OP_ADD [3, 0] 0 4],
     op_cap := 8,
     blocks := [\<lparr>blk_name = ''entry'', params = [0], param_cap = 8, blk_ops = [0, 1, 2, 3], blk_op_cap = 8,
                 blk_term = empty_term\<lparr>term_kind := XAIR_TERM_RETURN, true_arg_count := 1\<rparr>\<rparr>],
     block_cap := 8, term_args := [4], term_arg_cap := 8\<rparr>"

definition demo_state :: xair_exec_state where
  "demo_state =
     \<lparr>ex_module = demo, ex_values = [xair_exec_i 32 30, zero_value, zero_value, zero_value, zero_value],
      ex_defined = [True, False, False, False, False], pages = [], page_cap = 0, mem_generation = 0\<rparr>"

definition demo_calls :: "builder_call list" where
  "demo_calls = [Block_create ''entry'', Block_add_param 0 (xair_type_i 32) ''x'',
     Build_const 0 (xair_type_i 32) 5 '''', Build_const 0 (xair_type_i 32) 7 '''',
     Build_binary 0 XAIR_OP_ADD (xair_type_i 32) 1 2 '''', Set_return 0 [3]]"

lemmas demo_defs = demo_def demo_value_def demo_op_def make_op_def empty_module_def empty_term_def

lemmas width_simps = is_value_type_def xair_type_is_valid_def xair_type_i_def valid_int_bits_def type_simps

lemma demo_verified: "fst (xair_verify_module alloc_all demo) = XAIR_OK"
  by (simp add: xair_verify_module_def verify_block_def verify_term_def demo_defs Let_def valid_value_def
      value_is_global_const_def value_is_available_def op_srcs_def verify_op_def verify_binary_op_def width_simps
      is_unary_opcode_def alloc_all_def term_args_const_def numeral_2_eq_2 numeral_3_eq_3)

lemma demo_wf: "wf_module demo"
  by (simp add: wf_module_def demo_defs value_wf_def op_wf_def block_wf_def term_wf_def all_less_numeral
      all_less_Suc_split Let_def op_srcs_def width_simps)

lemma demo_state_defd: "defd demo_state = {0}"
  by (auto simp: defd_def demo_state_def less_Suc_eq numeral_eq_Suc)

lemma demo_state_fresh: "fresh_state demo demo_state"
  unfolding fresh_state_def state_ok_def demo_state_defd
  by (simp add: demo_state_def demo_defs xair_exec_i_def)

lemma demo_state_enters: "enters demo 0 demo_state"
  by (simp add: enters_def demo_state_defd) (simp add: demo_defs)

lemma demo_built: "built (run_calls alloc_all demo_calls empty_module)"
  by (rule built_run_calls [OF built.create])

text \<open>A module with one block, to which a constant is added.\<close>

definition demo_block :: xair_module where
  "demo_block = snd (run_call alloc_all (Block_create ''entry'') empty_module)"

definition demo_const_call :: builder_call where
  "demo_const_call = Build_const 0 (xair_type_i 32) 5 ''''"

definition demo_built_const :: xair_module where
  "demo_built_const = snd (run_call alloc_all demo_const_call demo_block)"

lemmas build_simps = xair_block_create_def xair_build_const_u64_def add_op_def add_fresh_op_def value_number_lookup_def
  value_number_prepare_insert_def value_number_grow_def value_number_insert_def add_value_def append_op_def
  grow_array_def grow_loop.simps alloc_all_def valid_block_def Let_def

lemma demo_block_built: "built demo_block"
  unfolding demo_block_def using built.call [OF built.create] by (metis prod.collapse)

lemma demo_block_eq:
  "demo_block = empty_module\<lparr>block_cap := 8, blocks := [\<lparr>blk_name = ''entry'', params = [], param_cap = 0,
     blk_ops = [], blk_op_cap = 0, blk_term = empty_term\<rparr>]\<rparr>"
  by (simp add: demo_block_def build_simps empty_module_def copy_name_def)

lemma demo_const_runs: "run_call alloc_all demo_const_call demo_block = (Ok 0, demo_built_const)"
  unfolding demo_built_const_def
  by (simp add: demo_const_call_def demo_block_eq build_simps empty_module_def width_simps empty_term_def)

lemma demo_built_const_built: "built demo_built_const"
  by (rule built.call [OF demo_block_built demo_const_runs])

lemma demo_built_const_ops: "length (ops demo_built_const) = 1"
  by (simp add: demo_built_const_def demo_const_call_def demo_block_eq build_simps empty_module_def width_simps
      empty_term_def)

lemma demo_built_const_op: "is_op_value demo_built_const 0"
  by (simp add: is_op_value_def demo_built_const_def demo_const_call_def demo_block_eq build_simps empty_module_def
      width_simps empty_term_def)

lemma demo_const_fails:
  "run_call (\<lambda>s _. s \<noteq> Site_ops) demo_const_call demo_block =
     (Err XAIR_ERR_OOM, snd (run_call (\<lambda>s _. s \<noteq> Site_ops) demo_const_call demo_block))"
  by (simp add: demo_const_call_def demo_block_eq build_simps empty_module_def width_simps empty_term_def)

lemma demo_prepare:
  "value_number_prepare_insert alloc_all empty_module =
     (Ok (), snd (value_number_prepare_insert alloc_all empty_module))"
  by (simp add: build_simps empty_module_def)

text \<open>Stores across a page boundary.\<close>

lemmas store_simps = xair_exec_store_bytes_def exec_store_byte_def exec_get_or_create_page_def exec_range_wraps_def
  page_number_def page_offset_def grow_array_def grow_loop.simps alloc_all_def Let_def

lemma demo_store_bytes:
  "xair_exec_store_bytes alloc_all 0 0xfff [0x33, 0x44] demo_state =
     (Ok (), snd (xair_exec_store_bytes alloc_all 0 0xfff [0x33, 0x44] demo_state))"
  by (simp add: store_simps demo_state_def)

lemma demo_store:
  "exec_store_u64 alloc_all 0 0xfff 0x11223344 2 XAIR_ENDIAN_BE demo_state =
     (Ok (), snd (exec_store_u64 alloc_all 0 0xfff 0x11223344 2 XAIR_ENDIAN_BE demo_state))"
proof -
  have "length (encode_u64 XAIR_ENDIAN_BE 2 0x11223344) = Suc (Suc 0)" by simp
  then obtain x y where "encode_u64 XAIR_ENDIAN_BE 2 0x11223344 = [x, y]"
    unfolding length_Suc_conv by auto
  then show ?thesis by (simp add: exec_store_u64_def store_simps demo_state_def)
qed

lemmas exec_i_simps = xair_exec_i_def exec_value_make_def truncate_to_type_def xair_type_i_def value_ok_def

text \<open>A block that returns its parameter and also computes a constant nobody uses.\<close>

definition demo_param :: xair_module where
  "demo_param = run_calls alloc_all [Block_create ''f'', Block_add_param 0 (xair_type_i 32) ''x''] empty_module"

definition demo_unused :: xair_module where
  "demo_unused = run_calls alloc_all [Build_const 0 (xair_type_i 32) 5 ''c''] demo_param"

definition demo_dead :: xair_module where
  "demo_dead = run_calls alloc_all [Set_return 0 [0]] demo_unused"

definition demo_dead_values :: "xair_value_rec list" where
  "demo_dead_values = [\<lparr>val_type = xair_type_i 32, val_block = 0, val_op = XAIR_INVALID_ID, val_name = ''x''\<rparr>,
     \<lparr>val_type = xair_type_i 32, val_block = 0, val_op = 0, val_name = ''c''\<rparr>]"

definition demo_dead_blocks :: "xair_op_id list \<Rightarrow> xair_block_rec list" where
  "demo_dead_blocks kept = [\<lparr>blk_name = ''f'', params = [0], param_cap = 8, blk_ops = kept, blk_op_cap = 8,
     blk_term = empty_term\<lparr>term_kind := XAIR_TERM_RETURN, true_arg_count := 1\<rparr>\<rparr>]"

lemmas demo_dead_simps = append_param_def demo_dead_values_def demo_dead_blocks_def empty_term_def demo_op_def make_op_def

lemma demo_param_eq:
  "demo_param = empty_module\<lparr>vals := take 1 demo_dead_values, value_cap := 8, blocks := [\<lparr>blk_name = ''f'', params = [0],
     param_cap = 8, blk_ops = [], blk_op_cap = 0, blk_term = empty_term\<rparr>], block_cap := 8\<rparr>"
  by (simp add: demo_param_def build_simps empty_module_def width_simps xair_block_add_param_def copy_name_def demo_dead_simps)

lemma demo_unused_fields:
  "vals demo_unused = demo_dead_values" "ops demo_unused = [demo_op XAIR_OP_CONST_U64 [] 5 1]"
  "blocks demo_unused = [\<lparr>blk_name = ''f'', params = [0], param_cap = 8, blk_ops = [0], blk_op_cap = 8, blk_term = empty_term\<rparr>]"
  "term_args demo_unused = []" "\<not> frozen demo_unused" "term_arg_cap demo_unused = 0" "block_cap demo_unused = 8"
  by (simp_all add: demo_unused_def demo_param_eq build_simps empty_module_def width_simps copy_name_def demo_dead_simps)

lemma demo_dead_fields:
  "vals demo_dead = demo_dead_values" "ops demo_dead = [demo_op XAIR_OP_CONST_U64 [] 5 1]"
  "blocks demo_dead = demo_dead_blocks [0]" "term_args demo_dead = [0]" "\<not> frozen demo_dead"
  "term_arg_cap demo_dead = 8" "block_cap demo_dead = 8"
  by (simp_all add: demo_dead_def xair_set_return_def can_terminate_def set_term_def no_result_def append_term_args_def
      valid_value_def valid_block_def grow_array_def grow_loop.simps alloc_all_def demo_unused_fields demo_dead_simps Let_def)

lemma demo_dead_built: "built demo_dead"
  unfolding demo_dead_def demo_unused_def demo_param_def by (intro built_run_calls built.create)

lemmas verify_simps = xair_verify_module_def verify_block_def verify_term_def Let_def valid_value_def
  value_is_global_const_def value_is_available_def op_srcs_def verify_op_def width_simps
  is_unary_opcode_def alloc_all_def term_args_const_def

lemma demo_dead_verified: "fst (xair_verify_module alloc_all demo_dead) = XAIR_OK"
  by (simp add: verify_simps demo_dead_fields demo_dead_simps)

lemmas canon_simps = canonicalize_local_ops_def canonicalize_op_def fold_constant_op_def fold_value_def
  op_is_commutative_def eliminate_dead_values_def compact_live_values_def live_values_def mark_block_live_def
  mark_term_live_values_def mark_live_value_def term_uses_def term_args_const_def def_srcs_def number_live_def
  number_block_def number_param_def number_op_def copy_live_value_def compact_term_def remap_args_def remap_op_def

lemma demo_dead_canonical:
  "\<exists>stats m'. xair_canonicalize_module alloc_all demo_dead = (Ok stats, m') \<and> vals m' = take 1 demo_dead_values \<and> ops m' = [] \<and>
     blocks m' = demo_dead_blocks [] \<and> term_args m' = [0]"
  using demo_dead_verified
  by (simp add: xair_canonicalize_module_def canon_simps value_number_clear_def demo_dead_fields demo_dead_simps Let_def
     valid_value_def alloc_all_def verify_simps)

lemmas call_simps = call_block_def xair_exec_state_create_def xair_exec_set_param_def exec_check_value_slot_def
  exec_define_value_def xair_exec_run_def exec_block_def exec_term_def term_args_const_def exec_set_result_def
  exec_read_value_def xair_type_equal_def xbind_def xreturn_def exec_op_def valid_block_def valid_value_def Let_def alloc_all_def

lemma demo_dead_call:
  "call_block alloc_all demo_dead 0 [xair_exec_i 32 30] (Suc 0) =
     Ok \<lparr>halt_kind = XAIR_EXEC_HALTED_RETURN, halt_block = 0, halt_code = 0, returns = [xair_exec_i 32 30]\<rparr>"
  using demo_dead_verified
  by (simp add: call_simps demo_dead_fields demo_dead_simps exec_i_simps xair_exec_i_def)

text \<open>
  A block that stores a byte, loads it back through the memory token from before the store, and returns it.
\<close>

definition demo_old_token :: xair_module where
  "demo_old_token = empty_module\<lparr>
     vals := [\<lparr>val_type = xair_type_mem 0 64, val_block = 0, val_op = XAIR_INVALID_ID, val_name = ''m''\<rparr>,
              \<lparr>val_type = xair_type_addr 64, val_block = 0, val_op = 0, val_name = ''a''\<rparr>,
              \<lparr>val_type = xair_type_i 8, val_block = 0, val_op = 1, val_name = ''d''\<rparr>,
              \<lparr>val_type = xair_type_mem 0 64, val_block = 0, val_op = 2, val_name = ''s''\<rparr>,
              \<lparr>val_type = xair_type_i 8, val_block = 0, val_op = 3, val_name = ''l''\<rparr>],
     value_cap := 8,
     ops := [demo_op XAIR_OP_CONST_U64 [] 0x1000 1, demo_op XAIR_OP_CONST_U64 [] 5 2,
             demo_op XAIR_OP_STORE [0, 1, 2] 0 3, demo_op XAIR_OP_LOAD [0, 1] 0 4],
     op_cap := 8,
     blocks := [\<lparr>blk_name = ''entry'', params = [0], param_cap = 8, blk_ops = [0, 1, 2, 3], blk_op_cap = 8,
                 blk_term = empty_term\<lparr>term_kind := XAIR_TERM_RETURN, true_arg_count := 1\<rparr>\<rparr>],
     block_cap := 8, term_args := [4], term_arg_cap := 8\<rparr>"

lemmas old_token_simps = demo_old_token_def demo_op_def make_op_def empty_module_def empty_term_def
  xair_type_mem_def xair_type_addr_def

lemma demo_old_token_verified: "fst (xair_verify_module alloc_all demo_old_token) = XAIR_OK"
  by (simp add: verify_simps verify_binary_op_def verify_memory_op_def valid_addr_bits_def old_token_simps numeral_2_eq_2 numeral_3_eq_3)

lemma demo_old_token_wf: "wf_module demo_old_token"
  by (simp add: wf_module_def old_token_simps value_wf_def op_wf_def block_wf_def term_wf_def all_less_numeral
      all_less_Suc_split Let_def op_srcs_def width_simps valid_addr_bits_def)

text \<open>The same module after canonicalization: the store is gone.\<close>

definition demo_new_token :: xair_module where
  "demo_new_token = demo_old_token\<lparr>
     vals := [\<lparr>val_type = xair_type_mem 0 64, val_block = 0, val_op = XAIR_INVALID_ID, val_name = ''m''\<rparr>,
              \<lparr>val_type = xair_type_addr 64, val_block = 0, val_op = 0, val_name = ''a''\<rparr>,
              \<lparr>val_type = xair_type_i 8, val_block = 0, val_op = 1, val_name = ''l''\<rparr>],
     value_cap := 3,
     ops := [demo_op XAIR_OP_CONST_U64 [] 0x1000 1, demo_op XAIR_OP_LOAD [0, 1] 0 2],
     op_cap := 2,
     blocks := [(blocks demo_old_token ! 0)\<lparr>blk_ops := [0, 1]\<rparr>], term_args := [2]\<rparr>"

lemma demo_new_token_verified: "fst (xair_verify_module alloc_all demo_new_token) = XAIR_OK"
  by (simp add: verify_simps verify_memory_op_def valid_addr_bits_def demo_new_token_def old_token_simps numeral_2_eq_2
      numeral_3_eq_3)

lemma demo_old_token_compacted:
  "\<exists>stats'. eliminate_dead_values alloc_all stats (fst (canonicalize_local_ops (value_number_clear demo_old_token) s)) =
     (Ok stats', demo_new_token)"
  by (simp add: canon_simps value_number_clear_def demo_new_token_def old_token_simps Let_def width_simps
      valid_value_def alloc_all_def op_srcs_def numeral_2_eq_2 numeral_3_eq_3)

lemma demo_old_token_canonical:
  "\<exists>stats. xair_canonicalize_module alloc_all demo_old_token = (Ok stats, demo_new_token)"
proof -
  define s where "s = zero_stats\<lparr>values_before := length (vals demo_old_token),
    operations_before := length (ops demo_old_token), value_number_entries_before := value_number_count demo_old_token\<rparr>"
  obtain m1 s1 where l: "canonicalize_local_ops (value_number_clear demo_old_token) s = (m1, s1)" by fastforce
  then obtain s2 where "eliminate_dead_values alloc_all s1 m1 = (Ok s2, demo_new_token)"
    using demo_old_token_compacted [of s1 s] by auto
  moreover have "\<not> frozen demo_old_token" by (simp add: old_token_simps)
  ultimately show ?thesis using demo_old_token_verified demo_new_token_verified l
    by (simp add: xair_canonicalize_module_def Let_def s_def)
qed

definition demo_page :: xair_exec_page where
  "demo_page = \<lparr>space = 0, number = 1, bytes = (\<lambda>_. 0)(0 := 5), byte_defined = (\<lambda>_. False)(0 := True)\<rparr>"

lemma demo_byte_store:
  "pages st = [] \<Longrightarrow> page_cap st = 0 \<Longrightarrow>
     exec_store_u64 alloc_all 0 0x1000 5 (Suc 0) XAIR_ENDIAN_LE st = (Ok (), st\<lparr>page_cap := 8, pages := [demo_page]\<rparr>)"
  by (simp add: exec_store_u64_def encode_u64_def byte_shift_def store_simps demo_page_def)

lemma demo_byte_load:
  "pages st = [demo_page] \<Longrightarrow> exec_load_u64 st 0 0x1000 (Suc 0) XAIR_ENDIAN_LE = Ok 5"
  "pages st = [] \<Longrightarrow> exec_load_u64 st 0 0x1000 (Suc 0) XAIR_ENDIAN_LE = Err XAIR_ERR_RANGE"
  by (simp_all add: exec_load_u64_def xair_exec_load_bytes_def exec_load_byte_def decode_u64_def byte_shift_def
      store_simps demo_page_def)

lemmas memory_op_simps = exec_memory_op_def exec_byte_sized_scalar_def exec_scalar_u64_type_def xair_exec_mem_def
  demo_byte_store demo_byte_load old_token_simps exec_i_simps width_simps numeral_2_eq_2 numeral_3_eq_3

lemma demo_old_token_call:
  "call_block alloc_all demo_old_token 0 [xair_exec_mem 0 64] (Suc 0) =
     Ok \<lparr>halt_kind = XAIR_EXEC_HALTED_RETURN, halt_block = 0, halt_code = 0, returns = [xair_exec_i 8 5]\<rparr>"
  using demo_old_token_verified by (simp add: call_simps memory_op_simps)

lemma demo_new_token_call:
  "call_block alloc_all demo_new_token 0 [xair_exec_mem 0 64] (Suc 0) = Err XAIR_ERR_RANGE"
  using demo_new_token_verified by (simp add: call_simps demo_new_token_def memory_op_simps)

text \<open>
  The executor does not look at memory tokens, and canonicalization does: the store whose token is unused is removed, and
  the load through the token from before it no longer finds the byte.
\<close>

lemma dead_store_changes_call:
  "wf_module demo_old_token" "fst (xair_verify_module alloc_all demo_old_token) = XAIR_OK"
  "call_block alloc_all demo_old_token 0 [xair_exec_mem 0 64] 1 =
     Ok \<lparr>halt_kind = XAIR_EXEC_HALTED_RETURN, halt_block = 0, halt_code = 0, returns = [xair_exec_i 8 5]\<rparr>"
  "\<exists>stats m'. xair_canonicalize_module alloc_all demo_old_token = (Ok stats, m') \<and>
     call_block alloc_all m' 0 [xair_exec_mem 0 64] 1 = Err XAIR_ERR_RANGE"
  using demo_old_token_wf demo_old_token_verified demo_old_token_call demo_old_token_canonical demo_new_token_call
  by auto

text \<open>Two blocks: the first passes its parameter to the second, which returns it.\<close>

definition demo_flow :: xair_module where
  "demo_flow = empty_module\<lparr>
     vals := [\<lparr>val_type = xair_type_i 32, val_block = 0, val_op = XAIR_INVALID_ID, val_name = ''x''\<rparr>,
              \<lparr>val_type = xair_type_i 32, val_block = 1, val_op = XAIR_INVALID_ID, val_name = ''y''\<rparr>],
     value_cap := 8,
     blocks := [\<lparr>blk_name = ''a'', params = [0], param_cap = 8, blk_ops = [], blk_op_cap = 0,
                 blk_term = empty_term\<lparr>term_kind := XAIR_TERM_JUMP, true_target := 1, true_arg_count := 1\<rparr>\<rparr>,
                \<lparr>blk_name = ''b'', params = [1], param_cap = 8, blk_ops = [], blk_op_cap = 0,
                 blk_term = empty_term\<lparr>term_kind := XAIR_TERM_RETURN, true_arg_offset := 1, true_arg_count := 1\<rparr>\<rparr>],
     block_cap := 8, term_args := [0, 1], term_arg_cap := 8\<rparr>"

definition demo_flow_state :: xair_exec_state where
  "demo_flow_state = \<lparr>ex_module = demo_flow, ex_values = [xair_exec_i 32 30, zero_value], ex_defined = [True, False],
     pages = [], page_cap = 0, mem_generation = 0\<rparr>"

lemmas flow_simps = demo_flow_def empty_module_def empty_term_def

lemma demo_flow_wf: "wf_module demo_flow"
  by (simp add: wf_module_def flow_simps value_wf_def op_wf_def block_wf_def term_wf_def all_less_numeral
      all_less_Suc_split Let_def op_srcs_def width_simps)

lemma demo_flow_verified: "fst (xair_verify_module alloc_all demo_flow) = XAIR_OK"
  by (simp add: verify_simps verify_target_args_def valid_block_def flow_simps)

lemma demo_flow_defd: "defd demo_flow_state = {0}"
  by (auto simp: defd_def demo_flow_state_def less_Suc_eq)

lemma demo_flow_state_ok: "state_ok demo_flow demo_flow_state" "enters demo_flow 0 demo_flow_state"
proof -
  show "state_ok demo_flow demo_flow_state" unfolding state_ok_def demo_flow_defd
    by (simp add: demo_flow_state_def flow_simps xair_exec_i_def)
  show "enters demo_flow 0 demo_flow_state" by (simp add: enters_def demo_flow_defd) (simp add: flow_simps)
qed

lemma demo_flow_cfg: "cfg demo_flow = {(0, 1)}"
  by (auto simp: cfg_def successors_def flow_simps less_Suc_eq numeral_2_eq_2)

lemma demo_flow_acyclic: "acyclic (cfg demo_flow)"
  by (simp add: demo_flow_cfg acyclic_insert wf_acyclic)

lemma demo_flow_runs:
  "fst (xair_exec_run alloc_all demo_flow 0 2 demo_flow_state) =
     Ok \<lparr>halt_kind = XAIR_EXEC_HALTED_RETURN, halt_block = 1, halt_code = 0, returns = [xair_exec_i 32 30]\<rparr>"
  "fst (xair_exec_run alloc_all demo_flow 0 1 demo_flow_state) = Ok (exec_set_result XAIR_EXEC_HALTED_STEP_LIMIT 1 0)"
  by (simp_all add: call_simps exec_transfer_args_def demo_flow_state_def flow_simps exec_i_simps numeral_2_eq_2)

text \<open>Eight pages fill the array of pages; page 1 is not among them.\<close>

definition demo_full_state :: xair_exec_state where
  "demo_full_state = demo_state\<lparr>page_cap := 8,
     pages := map (\<lambda>i. \<lparr>space = 0, number = 2 * i, bytes = (\<lambda>_. 0), byte_defined = (\<lambda>_. False)\<rparr>) [0, 1, 2, 3, 4, 5, 6, 7]\<rparr>"

lemma demo_full_store:
  "xair_exec_store_bytes (\<lambda>site n. False) 0 0xfff [0x33, 0x44] demo_full_state =
     (Err XAIR_ERR_OOM, snd (xair_exec_store_bytes (\<lambda>site n. False) 0 0xfff [0x33, 0x44] demo_full_state))"
  by (simp add: store_simps demo_full_state_def demo_state_def)

lemma int_value_exec_i: "1 \<le> b \<Longrightarrow> b \<le> 64 \<Longrightarrow> int_value (xair_exec_i b v) b"
  by (simp add: int_value_def exec_i_simps)

lemma uval_exec_i: "uval (xair_exec_i b v) = uint v mod 2 ^ b"
  by (simp add: uval_def exec_i_simps uint_take_bit)

lemma sval_exec_i: "1 \<le> b \<Longrightarrow> sval (xair_exec_i b v) = signed_take_bit (b - 1) (uint v)"
  by (cases b) (simp_all add: sval_def exec_i_simps unsigned_take_bit_eq signed_take_bit_take_bit)

lemmas exec_i_reads = int_value_exec_i uval_exec_i sval_exec_i

text \<open>Lifting \<^verbatim>\<open>mov eax, ecx; ret\<close> into an empty module, with and without the terminator.\<close>

definition demo_image :: xair_image where
  "demo_image = xair_image_init [0x89, 0xc8, 0xc3] 0x1000"

definition demo_options :: xair_lift_options where
  "demo_options = \<lparr>opt_arch = XAIR_ARCH_X86_32, opt_address = 0x1000, opt_memory_space = 0, opt_max_instructions = 2,
     opt_block_name = ''entry'', opt_decoder = None\<rparr>"

lemma demo_decode:
  "xair_x86_decode32 [0x89, 0xc8, 0xc3] zero_inst = (XAIR_OK, zero_inst\<lparr>mnemonic := XAIR_X86_MNEMONIC_MOV,
     inst_length := 2, raw_opcode := 0x89, operand_count := 2, operands := [XAIR_X86_OPERAND_REGISTER 32 0,
     XAIR_X86_OPERAND_REGISTER 32 1, XAIR_X86_OPERAND_UNUSED, XAIR_X86_OPERAND_UNUSED]\<rparr>)"
  "xair_x86_decode32 [0xc3] zero_inst = (XAIR_OK, zero_inst\<lparr>mnemonic := XAIR_X86_MNEMONIC_RET, inst_length := 1,
     raw_opcode := 0xc3\<rparr>)"
  by code_simp+

lemma demo_written: "filter ((!) ((replicate XAIR_X86_REG_COUNT False)[0 := True])) [0..<XAIR_X86_REG_COUNT] = [0]"
  by code_simp

lemma lift_loop_numeral: "lift_loop al (numeral k) = xbind (x86_lift_one al) (\<lambda>done. with_state (\<lambda>s.
    if done \<or> lr_end_kind (ls_result s) = XAIR_LIFT_END_UNSUPPORTED then xreturn () else lift_loop al (pred_numeral k)))"
  by (simp add: numeral_eq_Suc)

lemmas lift_simps = xair_lift_basic_block_def xair_lift_block_body_into_def demo_image_def demo_options_def
  xair_image_init_def image_offset_def lift_x86_basic_block_def lift_target_def lift_result_init_def
  xair_x86_default_decoder_def xair_x86_stub_decoder_def xair_x86_decoder_name_def lift_state_init_def xbind_def
  xreturn_def with_state_def modify_def update_result_def x86_lift_one_def demo_decode x86_lift_inst_def
  or_unsupported_def x86_lift_plain_def x86_lift_mov_decoded_def x86_get_reg_operand_def x86_get_imm_operand_def
  x86_get_mem_operand_def x86_ensure_reg_def x86_reg_supported_def on_module_def xair_block_add_param_def
  append_param_def x86_reg_type_def x86_reg_name_for_state_def x86_write_reg_def x86_advance_def x86_finish_return_def
  finish_block_eq returned_def finished_def written_regs_def demo_written xair_set_return_def append_term_args_def
  set_term_def can_terminate_def empty_term_def

definition demo_lift :: "xair_lift_result xres \<times> xair_module" where
  "demo_lift = xair_lift_basic_block alloc_all demo_image demo_options empty_module"

definition demo_result :: xair_lift_result where
  "demo_result = lift_result_init\<lparr>lr_end_kind := XAIR_LIFT_END_RETURN, lr_block := 0, lr_start := 0x1000, lr_next := 0x1003,
     lr_decoder_name := ''x86_stub'', lr_bytes_read := 3, lr_instructions := 2, lr_input_regs := [(1, 0)],
     lr_output_regs := [(0, 0)], lr_return_values := [0]\<rparr>"

lemma demo_lift_runs:
  "xair_lift_basic_block alloc_all demo_image demo_options empty_module = (Ok demo_result, snd demo_lift)"
  by (simp add: demo_lift_def lift_simps lift_loop_numeral build_simps empty_module_def copy_name_def width_simps
      demo_result_def)

definition demo_body :: "xair_lift_result xres \<times> xair_module" where
  "demo_body = xair_lift_block_body_into alloc_all demo_image demo_options 0 demo_block"

lemma demo_block_create: "xair_block_create alloc_all ''entry'' empty_module = (Ok 0, demo_block)"
  by (simp add: demo_block_eq) (simp add: build_simps empty_module_def copy_name_def)

lemma demo_body_runs:
  "xair_lift_block_body_into alloc_all demo_image demo_options 0 demo_block = (Ok demo_result, snd demo_body)"
  "xair_set_return alloc_all 0 (lr_return_values demo_result) (snd demo_body) =
     (Ok (), snd (xair_set_return alloc_all 0 [0] (snd demo_body)))"
  by (simp_all add: demo_body_def lift_simps demo_block_eq lift_loop_numeral build_simps empty_module_def copy_name_def
      width_simps demo_result_def xair_module_block_count_def)

lemma empty_verifies: "fst (xair_verify_module alloc_all empty_module) = XAIR_OK"
  by (simp add: xair_verify_module_def empty_module_def alloc_all_def)

text \<open>
  Cases for the case runner: \<^verbatim>\<open>mov rax, rcx; ret\<close> with a value for RCX, and \<^verbatim>\<open>mov eax, ecx; ret\<close> in 32-bit mode.
\<close>

definition demo_case :: "xair_arch \<Rightarrow> u8 list \<Rightarrow> memory_entry list \<Rightarrow> case_config" where
  "demo_case arch bs es = case_config_init\<lparr>cc_bytes := bs, cc_base := 0x1000, cc_entry := 0x1000, cc_max_instructions := 2,
     cc_arch := arch, cc_have_arch := True, cc_have_bytes := True, cc_have_base := True, cc_have_entry := True,
     cc_regs := (replicate XAIR_X86_REG_COUNT 0)[1 := 7], cc_have_reg := (replicate XAIR_X86_REG_COUNT False)[1 := True],
     cc_memory := es\<rparr>"

abbreviation demo_case64 :: "memory_entry list \<Rightarrow> case_config" where
  "demo_case64 \<equiv> demo_case XAIR_ARCH_X86_64 [0x48, 0x89, 0xc8, 0xc3]"

abbreviation demo_case32 :: "memory_entry list \<Rightarrow> case_config" where
  "demo_case32 \<equiv> demo_case XAIR_ARCH_X86_32 [0x89, 0xc8, 0xc3]"

lemma demo_decode64:
  "xair_x86_decode64 [0x48, 0x89, 0xc8, 0xc3] zero_inst = (XAIR_OK, zero_inst\<lparr>mnemonic := XAIR_X86_MNEMONIC_MOV,
     inst_length := 3, raw_opcode := 0x89, operand_count := 2, operands := [XAIR_X86_OPERAND_REGISTER 64 0,
     XAIR_X86_OPERAND_REGISTER 64 1, XAIR_X86_OPERAND_UNUSED, XAIR_X86_OPERAND_UNUSED]\<rparr>)"
  "xair_x86_decode64 [0xc3] zero_inst = (XAIR_OK, zero_inst\<lparr>mnemonic := XAIR_X86_MNEMONIC_RET, inst_length := 1,
     raw_opcode := 0xc3\<rparr>)"
  by code_simp+

text \<open>The modules the two lifts build.\<close>

definition demo_case_result :: "nat \<Rightarrow> xair_lift_result" where
  "demo_case_result n = lift_result_init\<lparr>lr_end_kind := XAIR_LIFT_END_RETURN, lr_block := 0, lr_start := 0x1000,
     lr_next := 0x1000 + of_nat n, lr_decoder_name := ''x86_stub'', lr_bytes_read := of_nat n, lr_instructions := 2,
     lr_input_regs := [(1, 0)], lr_output_regs := [(0, 0)], lr_return_values := [0]\<rparr>"

definition demo_case_module :: "nat \<Rightarrow> string \<Rightarrow> xair_module" where
  "demo_case_module w nm = empty_module\<lparr>
     vals := [\<lparr>val_type = xair_type_i w, val_block = 0, val_op = XAIR_INVALID_ID, val_name = nm\<rparr>], value_cap := 8,
     blocks := [\<lparr>blk_name = ''bb_1000'', params = [0], param_cap = 8, blk_ops = [], blk_op_cap = 0,
       blk_term = empty_term\<lparr>term_kind := XAIR_TERM_RETURN, true_arg_count := 1\<rparr>\<rparr>], block_cap := 8,
     term_args := [0], term_arg_cap := 8\<rparr>"

lemma demo_bb_name: "hex_text 4096 = ''1000''"
  by code_simp

lemmas case_lift_simps = lift_simps demo_decode64 lift_loop_numeral build_simps empty_module_def copy_name_def width_simps
  demo_case_result_def demo_case_module_def lift_options_def demo_case_def demo_bb_name
  xair_x86_reg_name_def x86_reg_names_def x86_reg_names32_def

lemma demo_case_lifts:
  "xair_lift_basic_block alloc_all (xair_image_init [0x48, 0x89, 0xc8, 0xc3] 0x1000) (lift_options XAIR_ARCH_X86_64 0x1000 2)
     empty_module = (Ok (demo_case_result 4), demo_case_module 64 ''rcx'')"
  "xair_lift_basic_block alloc_all (xair_image_init [0x89, 0xc8, 0xc3] 0x1000) (lift_options XAIR_ARCH_X86_32 0x1000 2)
     empty_module = (Ok (demo_case_result 3), demo_case_module 32 ''ecx'')"
  by (simp_all add: case_lift_simps)

text \<open>Freezing drops the spare capacity.\<close>

definition demo_case_frozen :: "nat \<Rightarrow> string \<Rightarrow> xair_module" where
  "demo_case_frozen w nm = (demo_case_module w nm)\<lparr>value_cap := 1, block_cap := 1, term_arg_cap := 1,
     blocks := [(blocks (demo_case_module w nm) ! 0)\<lparr>param_cap := 1\<rparr>], frozen := True\<rparr>"

lemma demo_case_freezes: "xair_module_freeze alloc_all (demo_case_module w nm) = (Ok (), demo_case_frozen w nm)"
  by (simp add: xair_module_freeze_def finalize_module_storage_def finalize_block_storage_def shrink_array_def alloc_all_def
      value_number_clear_def demo_case_frozen_def demo_case_module_def empty_module_def Let_def)

lemma demo_case_verifies: "w \<in> {32, 64} \<Longrightarrow> xair_verify_module alloc_all (demo_case_module w nm) = (XAIR_OK, no_error)"
  by (auto simp: verify_simps demo_case_module_def empty_module_def empty_term_def)

lemma demo_case_lift:
  "case_lift alloc_all (demo_case64 es) =
     Inr (demo_case_result 4, xair_get_value_numbering_stats (demo_case_module 64 ''rcx''), demo_case_frozen 64 ''rcx'')"
  "case_lift alloc_all (demo_case32 es) =
     Inr (demo_case_result 3, xair_get_value_numbering_stats (demo_case_module 32 ''ecx''), demo_case_frozen 32 ''ecx'')"
  by (simp_all add: case_lift_def lift_and_freeze_def xair_module_create_def alloc_all_def demo_case_lifts demo_case_verifies demo_case_freezes demo_case_def)

lemma demo_can_execute: "can_execute (demo_case arch bs es) (demo_case_result n) = None"
  by (simp add: can_execute_def demo_case_def case_config_init_def demo_case_result_def lift_result_init_def)

lemma demo_case_fields:
  "cc_memory (demo_case arch bs es) = es" "cc_regs (demo_case arch bs es) ! Suc 0 = 7"
  by (simp_all add: demo_case_def)

lemma demo_case_frozen_verifies: "w \<in> {32, 64} \<Longrightarrow> fst (xair_verify_module alloc_all (demo_case_frozen w nm)) = XAIR_OK"
  by (auto simp: verify_simps demo_case_frozen_def demo_case_module_def empty_module_def empty_term_def)

lemma demo_case_create:
  "w \<in> {32, 64} \<Longrightarrow> xair_exec_state_create alloc_all (demo_case_frozen w nm) = Ok \<lparr>ex_module = demo_case_frozen w nm,
     ex_values = [zero_value], ex_defined = [False], pages = [], page_cap = 0, mem_generation = 0\<rparr>"
  using demo_case_frozen_verifies [of w nm]
  by (auto simp: xair_exec_state_create_def alloc_all_def demo_case_frozen_def demo_case_module_def Let_def)

lemma demo_case_inputs: "lr_memory_in (demo_case_result n) = XAIR_INVALID_ID" "lr_input_regs (demo_case_result n) = [(1, 0)]"
    "lr_block (demo_case_result n) = 0"
  by (simp_all add: demo_case_result_def lift_result_init_def)

lemma run_case_executes:
  assumes "case_lift al config = Inr (lift, stats, m)" "can_execute config lift = None"
  shows "run_case al config = (case case_execute al config lift m of Inl f \<Rightarrow> Inl f
    | Inr r \<Rightarrow> Inr \<lparr>cr_lift = lift, cr_construction = stats, cr_module = m, cr_execution = Inr r\<rparr>)"
  using assms by (simp add: run_case_def)

lemmas case_run_simps = run_case_executes [OF demo_case_lift(1) demo_can_execute] case_execute_def demo_case_create
  set_memory_param_def demo_case_inputs demo_case_fields

text \<open>A memory entry that runs over the end of the address space.\<close>

definition demo_wrapping :: memory_entry where
  "demo_wrapping = \<lparr>me_space = 0, me_address = - 1, me_bytes = [1, 2]\<rparr>"

lemma demo_case_wraps: "run_case alloc_all (demo_case64 [demo_wrapping]) = Inl (Memory_store_failed XAIR_ERR_BAD_ARG)"
  by (simp add: case_run_simps) (simp add: xair_exec_store_bytes_def exec_range_wraps_def demo_wrapping_def)

lemma exec_loop_numeral: "exec_loop al (numeral k) b st = (case exec_block al b st of
    (Err e, st1) \<Rightarrow> (Err e, st1) | (Ok (Inl r), st1) \<Rightarrow> (Ok r, st1)
  | (Ok (Inr next), st1) \<Rightarrow> exec_loop al (pred_numeral k) next st1)"
  by (simp add: numeral_eq_Suc)

lemma demo_case_run:
  "run_case alloc_all (demo_case64 []) = Inr \<lparr>cr_lift = demo_case_result 4,
     cr_construction = xair_get_value_numbering_stats (demo_case_module 64 ''rcx''), cr_module = demo_case_frozen 64 ''rcx'',
     cr_execution = Inr \<lparr>halt_kind = XAIR_EXEC_HALTED_RETURN, halt_block = 0, halt_code = 0, returns = [xair_exec_i 64 7]\<rparr>\<rparr>"
  by (simp add: case_run_simps)
    (simp add: call_simps demo_case_inputs exec_loop_numeral demo_case_frozen_def demo_case_module_def exec_i_simps empty_module_def
      empty_term_def)

text \<open>Canonicalization finds nothing to remove in this block, and the benchmark reports an address that has no bytes.\<close>

lemma demo_case_canonical:
  "\<exists>stats. xair_canonicalize_module alloc_all (demo_case_module 64 ''rcx'') = (Ok stats, demo_case_module 64 ''rcx'')"
  by (simp add: xair_canonicalize_module_def canon_simps value_number_clear_def demo_case_module_def empty_module_def
      empty_term_def Let_def valid_value_def alloc_all_def verify_simps)

lemma demo_case_call:
  "call_block alloc_all (demo_case_module 64 ''rcx'') 0 [xair_exec_i 64 7] 1 =
     Ok \<lparr>halt_kind = XAIR_EXEC_HALTED_RETURN, halt_block = 0, halt_code = 0, returns = [xair_exec_i 64 7]\<rparr>"
  using demo_case_verifies [of 64 "''rcx''"]
  by (simp add: call_simps demo_case_module_def exec_i_simps empty_module_def empty_term_def alloc_all_def)

lemma demo_bench_fails: "bench_once (\<lambda>site n. site \<noteq> Site_module) (\<lambda>p. 0) ''a.case'' bench_case_init True 0 True =
    (XAIR_ERR_OOM, print_error_row ''a.case'' 0 ''module_create'' XAIR_ERR_OOM)"
  by (simp add: bench_once_def bench_calls_def xair_module_create_def)

text \<open>A 32-bit ELF file with one loadable segment at \<^verbatim>\<open>0x1000\<close>, which holds the three bytes above.\<close>

definition demo_elf :: "u8 list" where
  "demo_elf = [0x7f, 0x45, 0x4c, 0x46, 1, 1, 1, 0, 0, 0, 0, 0, 0, 0, 0, 0, 2, 0, 3, 0, 1, 0, 0, 0, 0, 0x10, 0, 0, 52, 0, 0, 0,
     0, 0, 0, 0, 0, 0, 0, 0, 52, 0, 32, 0, 1, 0, 0, 0, 0, 0, 0, 0,
     1, 0, 0, 0, 84, 0, 0, 0, 0, 0x10, 0, 0, 0, 0x10, 0, 0, 3, 0, 0, 0, 16, 0, 0, 0, 5, 0, 0, 0, 0, 0, 0, 0,
     0x89, 0xc8, 0xc3]"

definition demo_fs :: file_system where
  "demo_fs path = (if path = ''a.out'' then Some \<lparr>seek_end_ok = True, told_size = 87, seek_set_ok = True, delivered = demo_elf\<rparr> else None)"

lemma demo_elf_fields:
  "length demo_elf = 87" "read_le16 demo_elf 18 = Some 3" "read_le32 demo_elf 24 = Some 0x1000" "read_le32 demo_elf 28 = Some 52"
  "read_le16 demo_elf 42 = Some 32" "read_le16 demo_elf 44 = Some 1" "read_le32 demo_elf 52 = Some 1"
  "read_le32 demo_elf 56 = Some 84" "read_le32 demo_elf 60 = Some 0x1000" "read_le32 demo_elf 68 = Some 3"
  "read_le32 demo_elf 72 = Some 16" "read_le32 demo_elf 76 = Some 5" "byte_at demo_elf 0 = Some 0x7f"
  "byte_at demo_elf (Suc 0) = Some 0x45" "byte_at demo_elf 2 = Some 0x4c" "byte_at demo_elf 3 = Some 0x46"
  "byte_at demo_elf 4 = Some 1" "byte_at demo_elf 5 = Some 1" "take 3 (drop 84 demo_elf) = [0x89, 0xc8, 0xc3]"
  by code_simp+

definition demo_view :: xair_binary_view where
  "demo_view = \<lparr>view_format = XAIR_BINARY_FORMAT_ELF, view_arch = Some XAIR_ARCH_X86_32, view_entry = 0x1000, view_image_base = 0,
     view_segments = [\<lparr>seg_va = 0x1000, seg_mem_size = 16, seg_file_size = 3, seg_file_offset = 84, seg_perms = 5, seg_section_id = 0,
       seg_bytes = [0x89, 0xc8, 0xc3]\<rparr>]\<rparr>"

lemma demo_read_file: "read_file alloc_all demo_fs ''a.out'' = Ok demo_elf"
  by (simp add: read_file_def demo_fs_def demo_elf_fields alloc_all_def)

lemma demo_load: "xair_binary_view_load_path alloc_all demo_fs ''a.out'' = Some (XAIR_OK, demo_view)"
  by (simp add: xair_binary_view_load_path_def demo_read_file parse_elf_view_def parse_elf32_view_def demo_elf_fields range_ok_def
   elf32_segment_def append_segment_def elf_segment_perms_def empty_view_def demo_view_def need_segments_def Let_def alloc_all_def)

text \<open>An adapter on a module with one block: a temporary is set, then an exit to that block is emitted, then a register is read.\<close>

definition demo_vex :: xair_vex_adapter where
  "demo_vex = \<lparr>va_module = demo_block, va_current = 0, va_memory = XAIR_INVALID_ID, va_has_memory = False,
     va_tmps = \<lparr>dm_values = [], dm_defined = []\<rparr>, va_regs = replicate XAIR_VEX_REG_DIRECT_SLOTS 0,
     va_reg_defined = replicate XAIR_VEX_REG_DIRECT_SLOTS False, va_reg_count = 0, va_sparse_regs = [],
     va_sparse_reg_cap = 0, va_continuation_index = 0\<rparr>"

definition demo_vex_const :: xair_vex_adapter where
  "demo_vex_const = snd (xair_vex_emit_const alloc_all 0 (xair_type_i 1) 1 ''c'' demo_vex)"

definition demo_vex_exit :: xair_vex_adapter where
  "demo_vex_exit = snd (xair_vex_emit_exit alloc_all 0 0 [] ''next'' demo_vex_const)"

definition demo_vex_reg :: xair_vex_adapter where
  "demo_vex_reg = snd (xair_vex_get_reg alloc_all 8 (xair_type_i 32) ''r'' demo_vex_exit)"

lemma demo_vex_create: "xair_vex_adapter_create alloc_all demo_block 0 XAIR_INVALID_ID = Ok demo_vex"
  by (simp add: xair_vex_adapter_create_def demo_vex_def xair_module_block_count_def alloc_all_def demo_block_eq)

lemmas vex_simps = xbind_def in_module_def xair_vex_emit_const_def xair_vex_set_tmp_def vex_valid_value_def xair_value_type_def
  valid_value_def vex_dense_set_def vex_dense_reserve_def

lemma demo_vex_const_eq: 
  "xair_vex_emit_const alloc_all 0 (xair_type_i 1) 1 ''c'' demo_vex = (Ok (), demo_vex_const)"
  "va_tmps demo_vex_const = \<lparr>dm_values = (replicate 16 XAIR_INVALID_ID)[0 := 0], dm_defined = (replicate 16 False)[0 := True]\<rparr>"
  "va_module demo_vex_const = snd (xair_build_const_u64 alloc_all 0 (xair_type_i 1) 1 ''c'' demo_block)"
  "va_current demo_vex_const = 0"
  "va_reg_defined demo_vex_const = replicate XAIR_VEX_REG_DIRECT_SLOTS False"
  "va_regs demo_vex_const = replicate XAIR_VEX_REG_DIRECT_SLOTS 0"
  "va_reg_count demo_vex_const = 0" "va_sparse_regs demo_vex_const = []" "\<not> va_has_memory demo_vex_const"
  by (simp_all add: demo_vex_const_def demo_vex_def demo_block_eq vex_simps build_simps empty_module_def width_simps empty_term_def)

lemma demo_defined: "defined_at ((replicate 16 False)[0 := True]) = [0]" "defined_at (replicate n False) = []"
  by code_simp (simp add: defined_at_def)

lemma demo_live:
  "live_memory demo_vex_const = []" "live_tmps demo_vex_const = [(''t0'', 0)]" "live_direct_regs demo_vex_const = []"
  "live_sparse_regs demo_vex_const = []"
  by (simp_all add: live_defs demo_vex_const_eq demo_defined) code_simp


lemmas exit_simps = xair_vex_emit_exit_def vex_exit_allocs_def demo_vex_const_eq vex_transfer_state_def demo_live
  vex_transfer_value_to_continuation_def vex_append_arg_def vex_grow_array_def xair_block_add_param_def append_param_def
  xreturn_def xair_set_cbranch_def append_term_args_def set_term_def can_terminate_def vex_continuation_name_def
  demo_block_eq vex_simps build_simps empty_module_def width_simps empty_term_def copy_name_def xair_module_block_count_def

lemma demo_exit_runs: "xair_vex_emit_exit alloc_all 0 0 [] ''next'' demo_vex_const = (Ok (), demo_vex_exit)"
proof -
  have "fst (xair_vex_emit_exit alloc_all 0 0 [] ''next'' demo_vex_const) = Ok ()" by (simp add: exit_simps)
  then show ?thesis by (simp add: demo_vex_exit_def prod_eq_iff)
qed

lemma demo_late_register:
  "vex_lookup_reg demo_vex_exit 8 = None"
  "xair_vex_get_reg alloc_all 8 (xair_type_i 32) ''r'' demo_vex_exit = (Ok 2, demo_vex_reg)"
proof -
  show no: "vex_lookup_reg demo_vex_exit 8 = None"
    by (simp add: vex_lookup_reg_def demo_vex_exit_def exit_simps vex_enter_continuation_def)
  have "fst (xair_vex_get_reg alloc_all 8 (xair_type_i 32) ''r'' demo_vex_exit) = Ok 2"
    by (simp add: xair_vex_get_reg_def no) (simp add: vex_store_reg_def demo_vex_exit_def exit_simps vex_enter_continuation_def)
  then show "xair_vex_get_reg alloc_all 8 (xair_type_i 32) ''r'' demo_vex_exit = (Ok 2, demo_vex_reg)"
    by (simp add: demo_vex_reg_def prod_eq_iff)
qed

lemma demo_session: "vex_session demo_vex" "vex_session demo_vex_const"
proof -
  show c: "vex_session demo_vex" by (rule vex_session.create [OF demo_block_built demo_vex_create])
  have "run_vex alloc_all (Emit_const 0 (xair_type_i 1) 1 ''c'') demo_vex = (Ok 0, demo_vex_const)"
    using demo_vex_const_eq(1) by (simp add: no_result_def)
  then show "vex_session demo_vex_const" by (rule vex_session.call [OF c])
qed

end
