(* ===== verification/Spec2Isabelle.thy ===== *)
theory Spec2Isabelle
  imports Xair_Examples
begin

text \<open>
  \<^bold>\<open>XAIR: a verified model of the IR and its front ends.\<close>

  XAIR is a C library around a small typed intermediate representation for lifted machine code: values are
  numbered, operations are numbered and belong to a basic block, blocks have parameters in the place of phi
  nodes and end in a terminator that passes arguments along its edges. Client code builds a module call by
  call, the builder shares structurally equal operations by value numbering, a verifier checks types and the
  availability of operands, a canonicalizer folds constants, orders commutative operands and removes dead
  values, and a reference executor runs modules on concrete values and a paged memory. An x86 decoder and a
  front end on top of it lift the bytes of a basic block into a block of a module; a second front end, the adapter
  for VEX statements, builds blocks call by call from temporaries, guest registers and side exits. A loader finds the
  code to lift in ELF and PE files. Command line tools put the parts together: one lifts the bytes of a case file,
  executes the block on the registers and the memory of the case and reports the outcome, two others print the
  lifted form of raw bytes or of a block of an executable file, and a benchmark times the phases from lifting to
  freezing.

  \<^bold>\<open>Theories and the code they model\<close> (\<^verbatim>\<open>src/src/xair.c\<close> where no other file is named)

  \<^item> \<open>Xair_Prelude\<close>: status codes, the result type \<open>xres\<close>, state-passing operations \<open>xop\<close>, the allocator
    parameter, \<open>grow_array\<close> and \<open>shrink_array\<close>, C strings, shared lemmas on lists and words.
  \<^item> \<open>Xair_Types\<close>: types, opcodes and their names, masks, signed comparison, parity.
  \<^item> \<open>Xair_Module\<close>: the records of a module (values, operations, terminators, blocks, the value-number table)
    and every builder operation, from \<open>xair_block_create\<close> to \<open>xair_module_freeze\<close>.
  \<^item> \<open>Xair_Numbering\<close>: the open-addressing table. The locale \<open>value_table\<close> states the contract of a table with
    lookup and insertion; its interpretation \<open>vtab\<close> on the code's probing loops gives the facts of the builder.
  \<^item> \<open>Xair_Builder\<close>: the invariant \<open>module_inv\<close> (well-formed arrays, exact numbering, sharing), kept by every
    builder call whatever the arguments and the allocation failures; \<open>built\<close> are the modules calls can reach.
  \<^item> \<open>Xair_Verify\<close>: \<open>xair_verify_module\<close> with its error report, the declarative typing rules \<open>op_sig\<close> and
    \<open>module_ok\<close>, and the equivalence of the two.
  \<^item> \<open>Xair_Memory\<close>: pages, byte and integer accesses. The locale \<open>byte_memory\<close> states what a byte store promises
    and proves multi-byte stores and loads once; \<open>paged\<close> interprets it on the page table.
  \<^item> \<open>Xair_Exec\<close>: the whole executor and its safety on verified modules.
  \<^item> \<open>Xair_Flow\<close>: the path of a run through the blocks. The step limit counts the edges of the control-flow graph \<open>cfg\<close>
    that were followed, and in a module without a cycle a run ends within as many steps as there are blocks.
  \<^item> \<open>Xair_Canon\<close>, \<open>Xair_Canon_Sound\<close>: the canonicalizer and the proof that folding and reordering operands
    change no run from a fresh state.
  \<^item> \<open>Xair_Compact\<close>: the marking of live values gives a set closed under use, the numbering of the kept values is
    injective, and compaction is the renaming \<open>compacts\<close> of the live part of the module.
  \<^item> \<open>Xair_Compact_Sound\<close>: a forward simulation \<open>sim\<close> between the executor on the old and on the compacted module,
    whose states agree on the live values; with the rewriting it gives \<open>canonicalize_call\<close> for the whole pass, for calls
    that meet no unsupported operation and modules of which no store is removed.
    \<open>call_block\<close> is a call as a client makes it: create a state, set the parameters, run.
  \<^item> \<open>Xair_Canon_Verifies\<close>: compaction keeps the rules of the verifier, so canonicalization succeeds or runs out of memory.
  \<^item> \<open>Xair_Arith\<close>: what the executor computes, read as arithmetic on integers.
  \<^item> \<open>Xair_Print\<close>: metrics, fingerprint and textual form. \<open>module_text\<close> is the text of a module as a function; the
    printer, which writes piece by piece into a buffer of any size, computes it up to truncation.
  \<^item> \<open>Xair_Decode\<close>: the x86 decoder of \<^verbatim>\<open>src/src/xair_x86_decode.c\<close>, and the bytes a decode depends on.
  \<^item> \<open>Xair_Encode\<close>: a reference encoder written from the instruction formats, and the round trip with the decoder.
  \<^item> \<open>Xair_Lift\<close>: the front end of \<^verbatim>\<open>src/src/xair_frontend.c\<close>; its lifting state holds the module and the result.
  \<^item> \<open>Xair_Grow\<close>: blocks built step by step; builder calls with well-typed operands keep an open block acceptable
    to the verifier, and closing it gives a module that verifies.
  \<^item> \<open>Xair_Lift_Keeps\<close>: the locales \<open>lift_frame\<close>, for what leaves memory alone, and \<open>lift_invariant\<close>, which extends it,
    prove once that lifting keeps a property of the module and the result which every primitive step keeps.
    \<open>memory_frame\<close> interprets the first for the current memory; \<open>reach\<close> interprets the second for the modules calls
    can reach, \<open>inputs\<close> for the types and numbering of the input parameters.
  \<^item> \<open>Xair_Lift_Sound\<close>: lifting keeps a module built, whatever happens, and gives modules that verify.
  \<^item> \<open>Xair_Lift_Defined\<close>: the locale \<open>decoder_backend\<close> states what the lifter relies on in a decoder, that the register an
    instruction writes exists; under it lifting never writes outside its arrays. \<open>stub\<close> interprets it on the decoder of
    the library.
  \<^item> \<open>Xair_Lift_Stores\<close>: the interpretation \<open>stores\<close> shows that the stores of a lifted block form a chain that ends in the
    returned memory, so canonicalization removes none of them.
  \<^item> \<open>Xair_Binary\<close>: the loader of \<^verbatim>\<open>src/src/xair_binary.c\<close>. A read outside the buffer is the value \<open>None\<close>; the
    calculus \<open>ensures\<close> shows that it never happens and that views hold the bytes of the file.
  \<^item> \<open>Xair_Vex\<close>: the adapter of \<^verbatim>\<open>src/src/xair_vex.c\<close>. The locale \<open>key_store\<close> states the contract of its three
    stores; \<open>tmps\<close>, \<open>sparse\<close> and \<open>regs\<close> interpret it on the dense map, the list of entries and the register file.
    The names of VEX operations, printed, are read back.
  \<^item> \<open>Xair_Vex_Sound\<close>: sessions of adapter and builder calls (\<open>vex_session\<close>, a step relation), their invariant
    \<open>vex_ok\<close>, and what a side exit does.
  \<^item> \<open>Xair_Tools\<close>: the case runner \<^verbatim>\<open>src/tools/xair_case_run.c\<close>, from the text of the case file to the report on
    standard output. \<open>run_case\<close> is its composition of lifting, verification, freezing and execution.
  \<^item> \<open>Xair_Case_Text\<close>: a writer of case files, and that the parser of the case runner undoes it.
  \<^item> \<open>Xair_Lift_Tools\<close>: \<^verbatim>\<open>src/tools/xair_lift_raw.c\<close> and \<^verbatim>\<open>src/tools/xair_lift_bin.c\<close>.
  \<^item> \<open>Xair_Tools_Sound\<close>: which steps of a case can fail, what its report says, the buffer the tools print through,
    and that lifting from a file never reads outside it.
  \<^item> \<open>Xair_Bench\<close>, \<open>Xair_Bench_Sound\<close>: the benchmark \<^verbatim>\<open>src/tools/xair_bench_lift.c\<close>, and the errors it can report.
  \<^item> \<open>Xair_Examples\<close>: a small module, state and calls that the witnesses evaluate.

  \<^bold>\<open>Conventions.\<close> Pointer arguments are values, so checks for \<^verbatim>\<open>NULL\<close> have no counterpart, and a missing name
  is the empty string. Enumerations are datatypes, so branches for values outside an enumeration are absent,
  but for the architecture of a cleared view, which is no enumerator and is \<open>None\<close>.
  An array is a list together with its capacity. Every allocation asks the parameter \<open>al\<close> whether a request of
  so many bytes at this place in the code succeeds, from \<open>xair_module_create\<close> on, so all theorems hold for every pattern of failures; sizes of
  records are those of a 64-bit ABI. Identifiers and counters are natural numbers with the bounds the code
  tests; data is words of its width. Loops are structural recursion or have a termination proof; the executor's
  loop is bounded by the step limit the code itself takes, so the model adds no fuel. On an error the output
  parameters have no value. The one write of the code that can leave an array, the register file of the lifter when a
  custom decoder backend names a register that does not exist, ends a run of the model with \<open>UNDEFINED_BEHAVIOUR\<close>, which
  is no status of the code: no theorem about a successful run covers it, and C6 says which backends avoid it. In the front end signed offsets are 64-bit words read in two's complement, the arrays
  of fixed size in results and instructions are lists of the entries in use with the bounds the code tests, and the
  decoder is a parameter (a backend record) as the options of the code allow. The file system of the loader is a
  parameter: what opening, seeking, \<^verbatim>\<open>ftell\<close> and \<^verbatim>\<open>fread\<close> deliver for a path. A position in a C string is the rest of
  the string. The arrays of the adapter hold 4096 direct registers, as in the code; indices above are list entries.

  The tools take their arguments as a list of strings and their input files as text, and return what they print with
  the exit code; \<^verbatim>\<open>fgets\<close>, \<^verbatim>\<open>isspace\<close>, \<^verbatim>\<open>strtoull\<close> and the conversions of \<^verbatim>\<open>printf\<close> they use are modelled, and the
  contents of a fresh buffer are a parameter. So are, in the benchmark, the readings of the clock and the allocator that
  each iteration meets.

  \<^bold>\<open>Not modelled.\<close> Freeing memory (\<^verbatim>\<open>xair_module_destroy\<close>, \<^verbatim>\<open>xair_exec_state_destroy\<close>,
  \<^verbatim>\<open>xair_builder_destroy\<close>, \<^verbatim>\<open>xair_vex_adapter_destroy\<close>) has no effect in a model without addresses.
  \<^verbatim>\<open>xair_ops_per_instruction\<close> divides two counts in floating point. \<^verbatim>\<open>warm_case_bytes\<close> of the benchmark only brings
  the bytes of a case into the cache.

  The properties of the development follow, each with a witness that applies it where it has hypotheses.
\<close>

text \<open>
  C1. Canonicalization preserves the results of calls: take a module that the builder interface has produced
  and that \<open>xair_canonicalize_module\<close> rewrites successfully without removing a store. A call
  creates an executor state, gives the parameters of the entry block their values and runs with a step
  limit. If the call on the old module ends in a return, a trap, a fault or the step limit, then the call on
  the canonical module gives the same result, although its values, operations and terminator arguments have
  been folded, dropped and renumbered. Two conditions limit this, and both are needed. The call on the old
  module must not halt as unsupported: a dead operation that the executor refuses, such as a shift by its
  width or more, halts the call before the pass, and the pass removes it. And no store may be removed: the
  executor lets a load through an older memory token see a store that the pass regards as dead.
\<close>

theorem canonicalize_preserves_calls:
  assumes "built m" "xair_canonicalize_module al m = (Ok stats, m')"
    and "length (filter (\<lambda>oper. opcode oper = XAIR_OP_STORE) (ops m')) =
         length (filter (\<lambda>oper. opcode oper = XAIR_OP_STORE) (ops m))"
    and "call_block al' m b xs n = Ok res" "halt_kind res \<noteq> XAIR_EXEC_HALTED_UNSUPPORTED"
    and "length xs = length (params (blocks m ! b))" "\<forall>x \<in> set xs. value_ok x"
    and "xair_exec_state_create al' m' = Ok st'"
  shows "call_block al' m' b xs n = Ok res"
  using assms by (rule canonicalize_call)

theorem canonicalize_preserves_calls_witness:
  "\<exists>stats m'. xair_canonicalize_module alloc_all demo_dead = (Ok stats, m') \<and>
     length (vals m') < length (vals demo_dead) \<and>
     call_block alloc_all m' 0 [xair_exec_i 32 30] (Suc 0) =
       Ok \<lparr>halt_kind = XAIR_EXEC_HALTED_RETURN, halt_block = 0, halt_code = 0, returns = [xair_exec_i 32 30]\<rparr>"
proof -
  obtain stats m' where c: "xair_canonicalize_module alloc_all demo_dead = (Ok stats, m')"
    and m': "vals m' = take 1 demo_dead_values" "ops m' = []"
      "blocks m' = demo_dead_blocks []" "term_args m' = [0]"
    using demo_dead_canonical by blast
  have "fst (xair_verify_module alloc_all m') = XAIR_OK" by (simp add: verify_simps m' demo_dead_simps)
  then have "\<exists>st'. xair_exec_state_create alloc_all m' = Ok st'"
    by (simp add: xair_exec_state_create_def alloc_all_def Let_def)
  then obtain st' where st': "xair_exec_state_create alloc_all m' = Ok st'" by blast
  have "call_block alloc_all m' 0 [xair_exec_i 32 30] (Suc 0) =
       Ok \<lparr>halt_kind = XAIR_EXEC_HALTED_RETURN, halt_block = 0, halt_code = 0, returns = [xair_exec_i 32 30]\<rparr>"
    by (rule canonicalize_preserves_calls [OF demo_dead_built c _ demo_dead_call _ _ _ st'])
      (simp_all add: m' demo_dead_fields demo_dead_simps exec_i_simps)
  with c m' show ?thesis by (simp add: demo_dead_fields demo_dead_values_def)
qed

text \<open>
  C2. Lifting and canonicalization together: for every block of machine code that lifts into an empty
  module, whatever the bytes and the options, a successful canonicalization keeps the result of every call
  that returns one without halting at an unsupported operation. There is no hypothesis on the stores: each
  lifted store writes the current memory and becomes it, and the memory at the end of the block is returned,
  so the removal of dead values finds every store live.
\<close>

theorem lifted_canonicalize_preserves_calls:
  assumes "xair_lift_basic_block al img opts empty_module = (Ok lift, m)"
    and "xair_canonicalize_module al' m = (Ok stats, m')"
    and "call_block al'' m b xs n = Ok res" "halt_kind res \<noteq> XAIR_EXEC_HALTED_UNSUPPORTED"
    and "length xs = length (params (blocks m ! b))" "\<forall>x \<in> set xs. value_ok x"
    and "xair_exec_state_create al'' m' = Ok st'"
  shows "call_block al'' m' b xs n = Ok res"
  using assms by (rule lifted_canonicalize_call)

theorem lifted_canonicalize_preserves_calls_witness:
  "\<exists>stats m'. xair_canonicalize_module alloc_all (demo_case_module 64 ''rcx'') = (Ok stats, m') \<and>
     call_block alloc_all m' 0 [xair_exec_i 64 7] 1 =
       Ok \<lparr>halt_kind = XAIR_EXEC_HALTED_RETURN, halt_block = 0, halt_code = 0, returns = [xair_exec_i 64 7]\<rparr>"
proof -
  obtain stats where c: "xair_canonicalize_module alloc_all (demo_case_module 64 ''rcx'') = (Ok stats, demo_case_module 64 ''rcx'')"
    using demo_case_canonical by blast
  have "\<exists>st'. xair_exec_state_create alloc_all (demo_case_module 64 ''rcx'') = Ok st'"
    using demo_case_verifies [of 64 "''rcx''"] by (simp add: xair_exec_state_create_def alloc_all_def Let_def)
  then obtain st' where st': "xair_exec_state_create alloc_all (demo_case_module 64 ''rcx'') = Ok st'" by blast
  have "call_block alloc_all (demo_case_module 64 ''rcx'') 0 [xair_exec_i 64 7] 1 =
       Ok \<lparr>halt_kind = XAIR_EXEC_HALTED_RETURN, halt_block = 0, halt_code = 0, returns = [xair_exec_i 64 7]\<rparr>"
    by (rule lifted_canonicalize_preserves_calls [OF demo_case_lifts(1) c demo_case_call _ _ _ st'])
      (simp_all add: demo_case_module_def exec_i_simps)
  with c show ?thesis by blast
qed

text \<open>
  C3. Canonicalization of the operations preserves execution: for a well-formed module that the verifier
  accepts and a state in which only parameters have values, running the module whose operations
  \<open>canonicalize_local_ops\<close> has folded and reordered gives the same result (also the same error)
  and the same final state, whatever the step limit and the entry block.
\<close>

theorem canonicalize_preserves_runs:
  assumes "wf_module m" "fst (xair_verify_module al0 m) = XAIR_OK"
    and "canonicalize_local_ops m stats = (m', stats')" "fresh_state m st" "enters m b st"
  shows "xair_exec_run al m' b n (retarget m' st) = apsnd (retarget m') (xair_exec_run al m b n st)"
proof -
  have sm: "sound_module m"
    using assms(1,2) verify_OK_sound wf_module_srcs_shape wf_sound_module by blast
  obtain r st' where r: "exec_loop al n b st = (r, st')" by fastforce
  have "vals m' = vals m" "blocks m' = blocks m"
    using canonicalize_local_ops_keeps [OF sm assms(3)] by auto
  moreover have "ex_module st = m" using assms(4) by (simp add: fresh_state_def state_ok_def)
  ultimately show ?thesis
    using canonicalize_local_ops_run [OF sm assms(3-5) r] r
    by (simp add: xair_exec_run_def valid_block_def)
qed

theorem canonicalize_preserves_runs_witness:
  "xair_exec_run alloc_all (fst (canonicalize_local_ops demo zero_stats)) 0 10
      (retarget (fst (canonicalize_local_ops demo zero_stats)) demo_state) =
   apsnd (retarget (fst (canonicalize_local_ops demo zero_stats))) (xair_exec_run alloc_all demo 0 10 demo_state)"
  by (rule canonicalize_preserves_runs [OF demo_wf demo_verified _ demo_state_fresh demo_state_enters,
        where stats = zero_stats and stats' = "snd (canonicalize_local_ops demo zero_stats)"]) simp

text \<open>
  C4. Runs of a verified module are safe: starting from a conforming state with the entry block's parameters
  defined, the run ends in a conforming state; it either gives a well-formed result or fails because memory
  ran out, a load read undefined bytes or too many values were returned, or because the address range of a
  memory operation wraps around. No other failure is possible.
\<close>

theorem verified_run_safe:
  assumes "wf_module m" "fst (xair_verify_module al0 m) = XAIR_OK"
    and "state_ok m st" "enters m b st" "xair_exec_run al m b n st = (r, st')"
  shows "state_ok m st' \<and> (case r of Ok res \<Rightarrow> result_ok m res | Err e \<Rightarrow> run_error m st' e)"
proof -
  have sm: "sound_module m"
    using assms(1,2) verify_OK_sound wf_module_srcs_shape wf_sound_module by blast
  have "exec_loop al n b st = (r, st')"
    using assms(3-5) by (auto simp: xair_exec_run_def state_ok_def enters_def valid_block_def)
  with sm assms show ?thesis by (intro exec_loop_outcome) (auto simp: sound_module_def)
qed

theorem verified_run_safe_witness:
  "state_ok demo (snd (xair_exec_run alloc_all demo 0 10 demo_state)) \<and>
   (case fst (xair_exec_run alloc_all demo 0 10 demo_state) of
      Ok res \<Rightarrow> result_ok demo res
    | Err e \<Rightarrow> run_error demo (snd (xair_exec_run alloc_all demo 0 10 demo_state)) e)"
  using demo_state_fresh
  by (intro verified_run_safe [OF demo_wf demo_verified _ demo_state_enters]) (auto simp: fresh_state_def)

text \<open>
  C5. The verifier decides the declarative specification: for a module made by builder calls, and when its
  scratch array can be allocated, \<open>xair_verify_module\<close> returns \<open>XAIR_OK\<close> if and
  only if every block satisfies the typing rules \<open>op_sig\<close>, the availability of operands and the
  matching of edge arguments with parameters.
\<close>

theorem verifier_decides_spec:
  assumes "built m" "\<And>b n. al (Site_available b) n"
  shows "fst (xair_verify_module al m) = XAIR_OK \<longleftrightarrow> module_ok m"
  using built_module_inv [OF assms(1)] assms(2)
  by (intro verify_OK_iff wf_module_srcs_shape) (auto simp: module_inv_def)

theorem verifier_decides_spec_witness:
  "fst (xair_verify_module alloc_all (run_calls alloc_all demo_calls empty_module)) = XAIR_OK \<longleftrightarrow>
   module_ok (run_calls alloc_all demo_calls empty_module)"
  by (rule verifier_decides_spec [OF demo_built]) (simp add: alloc_all_def)

text \<open>
  C6. Lifted modules verify: when \<open>xair_lift_basic_block\<close> succeeds on a module made by builder
  calls that the verifier accepts, the verifier accepts the module with the lifted block, for every byte
  image and all options. The decoder backend may report malformed instructions, with one exception that the
  code does not check: a destination register that does not exist makes the lifter write outside its arrays,
  which is undefined in C, and about such a run nothing is claimed; in the model it ends with
  \<open>UNDEFINED_BEHAVIOUR\<close>. A backend whose first operands, when they are registers, exist
  (\<open>backend_ok\<close>) never causes it, and the decoder of the library is such a backend.
\<close>

theorem lifted_module_verifies:
  assumes "built m" "fst (xair_verify_module al0 m) = XAIR_OK" "\<And>b n. al' (Site_available b) n"
  shows "(\<forall>res m'. xair_lift_basic_block al img opts m = (Ok res, m') \<longrightarrow> fst (xair_verify_module al' m') = XAIR_OK) \<and>
    (backend_ok (chosen_decoder opts) \<longrightarrow> fst (xair_lift_basic_block al img opts m) \<noteq> Err UNDEFINED_BEHAVIOUR) \<and>
    backend_ok xair_x86_default_decoder"
proof (intro conjI allI impI)
  fix res m' assume l: "xair_lift_basic_block al img opts m = (Ok res, m')"
  have "module_inv m'" "module_ok m'" using lift_basic_block_ok [OF verified_ok [OF assms(1,2)] l] by auto
  then show "fst (xair_verify_module al' m') = XAIR_OK" using assms(3) by (intro ok_verifies)
next
  assume "backend_ok (chosen_decoder opts)"
  then show "fst (xair_lift_basic_block al img opts m) \<noteq> Err UNDEFINED_BEHAVIOUR"
    by (intro decoder_backend.lift_defined(1)) (simp_all add: backend_ok_iff)
qed (simp add: backend_ok_iff stub.decoder_backend_axioms)

theorem lifted_module_verifies_witness:
  "fst (xair_lift_basic_block alloc_all demo_image demo_options empty_module) \<noteq> Err UNDEFINED_BEHAVIOUR \<and>
   fst (xair_verify_module alloc_all (snd demo_lift)) = XAIR_OK"
proof -
  have d: "chosen_decoder demo_options = xair_x86_default_decoder" by (simp add: chosen_decoder_def demo_options_def)
  have al: "alloc_all (Site_available b) n" for b n by (simp add: alloc_all_def)
  show ?thesis
    using lifted_module_verifies [where al' = alloc_all and al = alloc_all and img = demo_image and opts = demo_options,
      OF built.create empty_verifies al] demo_lift_runs
    by (simp add: d)
qed

text \<open>
  C7. The canonical module verifies: on a module made by builder calls that verifies and is not frozen,
  \<open>xair_canonicalize_module\<close> either runs out of memory or succeeds, and then the new module,
  with its renumbered values, remaining operations and renamed terminator arguments, is accepted by the
  verifier. So its own second verification never fails.
\<close>

theorem canonicalize_accepts_verified:
  assumes "built m" "fst (xair_verify_module al m) = XAIR_OK" "\<not> frozen m" "\<And>b n. al (Site_available b) n"
    and "xair_canonicalize_module al m = (r, m')"
  shows "case r of Ok stats \<Rightarrow> fst (xair_verify_module al m') = XAIR_OK | Err e \<Rightarrow> e = XAIR_ERR_OOM"
  using canonicalize_verifies [where al = al, OF assms(1) verified_ok(2) [OF assms(1,2)] assms(3-5)]
    verify_OK_iff [where al = al and m = m', OF _ assms(4)] by (cases r) simp_all

theorem canonicalize_accepts_verified_witness:
  "\<exists>r m'. xair_canonicalize_module alloc_all demo_dead = (r, m') \<and>
     (case r of Ok stats \<Rightarrow> fst (xair_verify_module alloc_all m') = XAIR_OK | Err e \<Rightarrow> e = XAIR_ERR_OOM)"
proof -
  obtain r m' where c: "xair_canonicalize_module alloc_all demo_dead = (r, m')" by fastforce
  have "\<not> frozen demo_dead" using demo_dead_canonical by (auto simp: xair_canonicalize_module_def)
  then show ?thesis
    using canonicalize_accepts_verified [where al = alloc_all, OF demo_dead_built demo_dead_verified _ _ c] c
    by (auto simp: alloc_all_def)
qed

text \<open>
  C8. Well-formedness is an invariant of building: whatever sequence of builder calls is made, with whatever
  arguments and allocation failures, the arrays of the module agree: each value is a parameter of its block
  or the destination of its operation, operations read earlier values, lists fit their capacities and
  terminators point into the argument array.
\<close>

theorem built_module_wf:
  assumes "built m"
  shows "wf_module m"
  using built_module_inv [OF assms] by (simp add: module_inv_def)

theorem built_module_wf_witness: "wf_module (run_calls alloc_all demo_calls empty_module)"
  by (rule built_module_wf [OF demo_built])

text \<open>
  C9. Value numbering is complete: in a module made by builder calls no two operation values have the same
  structure, that is opcode, result type, sources, immediate and byte order within a block, or module-wide
  for constants.
\<close>

theorem value_numbering_shares:
  assumes "built m" "is_op_value m v" "is_op_value m w" "same_key (key_of m v) (key_of m w)"
  shows "v = w"
  using built_module_inv [OF assms(1)] assms(2-4) unfolding module_inv_def sharing_def by blast

theorem value_numbering_shares_witness:
  "{w. is_op_value demo_built_const w \<and> same_key (key_of demo_built_const 0) (key_of demo_built_const w)} = {0}"
  using value_numbering_shares [OF demo_built_const_built demo_built_const_op] demo_built_const_op
  by (auto simp: same_key_def)

text \<open>
  C10. The case runner composes the library soundly: when it ends in a failure on a 64-bit case, memory ran
  out (also for the module itself), or the block could not be lifted, or an entry of the preloaded memory
  wraps around the address space, or the executor reported an undefined or wrapping access or too many
  results. The verifier never rejects the lifted module (before or after freezing), and no parameter is ever
  rejected.
\<close>

theorem case_run_failures:
  assumes "cc_arch config = XAIR_ARCH_X86_64" "run_case al config = Inl f" "\<And>b n. al (Site_available b) n"
  shows "case f of
      Module_failed e \<Rightarrow> e = XAIR_ERR_OOM
    | Lift_failed e \<Rightarrow> e \<noteq> UNDEFINED_BEHAVIOUR
    | Freeze_failed e \<Rightarrow> e = XAIR_ERR_OOM
    | State_failed e \<Rightarrow> e = XAIR_ERR_OOM
    | Memory_store_failed e \<Rightarrow> e = XAIR_ERR_OOM \<or>
        e = XAIR_ERR_BAD_ARG \<and> (\<exists>x \<in> set (cc_memory config). exec_range_wraps (me_address x) (length (me_bytes x)))
    | Exec_failed e \<Rightarrow> e \<in> {XAIR_ERR_OOM, XAIR_ERR_RANGE, XAIR_ERR_BAD_ARG}
    | _ \<Rightarrow> False"
  using assms by (rule run_case_Inl)

theorem case_run_failures_witness: "exec_range_wraps (me_address demo_wrapping) (length (me_bytes demo_wrapping))"
  using case_run_failures [OF _ demo_case_wraps] by (simp add: demo_case_fields demo_case_def alloc_all_def)

text \<open>
  C11. The report is complete: after an execution that met no unsupported operation the run has halted at
  the return of the lifted block, and for every register the block writes the report finds the position of
  its value among the returned values and prints the number returned there, never \<open>null\<close>.
\<close>

theorem case_run_reports_registers:
  assumes "cc_arch config = XAIR_ARCH_X86_64" "run_case al config = Inr cr" "cr_execution cr = Inr r"
    and "halt_kind r \<noteq> XAIR_EXEC_HALTED_UNSUPPORTED" "(reg, v) \<in> set (lr_output_regs (cr_lift cr))"
  shows "halt_kind r = XAIR_EXEC_HALTED_RETURN \<and> (\<exists>i < length (returns r).
    lr_return_values (cr_lift cr) ! i = v \<and> output_value (cr_lift cr) r v = Some (lo (returns r ! i)))"
  using assms by (rule run_case_outputs)

theorem case_run_reports_registers_witness:
  "output_value (demo_case_result 4) \<lparr>halt_kind = XAIR_EXEC_HALTED_RETURN, halt_block = 0, halt_code = 0,
     returns = [xair_exec_i 64 7]\<rparr> 0 = Some 7"
  using case_run_reports_registers [OF _ demo_case_run, of _ 0 0]
  by (simp add: demo_case_def demo_case_result_def lift_result_init_def exec_i_simps)



text \<open>
  C13. Lifting a body composes with the builder: a client that creates a block in a verified module, lifts
  instructions into it with \<open>xair_lift_block_body_into\<close> and terminates it with
  \<open>xair_set_return\<close> on the return values of the result obtains a module that the verifier
  accepts.
\<close>

theorem lifted_body_verifies:
  assumes "built m" "fst (xair_verify_module al0 m) = XAIR_OK" "\<And>b n. al' (Site_available b) n"
    and "xair_block_create al1 nm m = (Ok b, m1)" "xair_lift_block_body_into al2 img opts b m1 = (Ok res, m2)"
    and "xair_set_return al3 b (lr_return_values res) m2 = (Ok u, m')"
  shows "fst (xair_verify_module al' m') = XAIR_OK"
proof -
  have "module_inv m'" "module_ok m'"
    using lift_block_body_ok [OF block_create_others(1,2) [OF assms(4) verified_ok [OF assms(1,2)]] assms(5,6)] by auto
  then show ?thesis using assms(3) by (intro ok_verifies)
qed

theorem lifted_body_verifies_witness:
  "fst (xair_verify_module alloc_all (snd (xair_set_return alloc_all 0 [0] (snd demo_body)))) = XAIR_OK"
  by (rule lifted_body_verifies [OF built.create empty_verifies _ demo_block_create demo_body_runs]) (simp add: alloc_all_def)

text \<open>
  C14. Round trip with a reference encoder: for moves between registers, immediates and memory,
  \<open>lea\<close>, the register and immediate forms of the arithmetic instructions, \<open>push\<close>,
  \<open>pop\<close>, jumps, \<open>nop\<close> and \<open>ret\<close>, written in 64-bit encoding with any
  registers, scaled index, displacement and immediate, the decoder reports the mnemonic, the operands and
  the length of the encoding, whatever bytes follow.
\<close>

theorem decoder_inverts_encoder:
  assumes "asm_ok i"
  shows "\<exists>inst. xair_x86_decode64 (encode i @ rest) out = (XAIR_OK, inst) \<and>
    (mnemonic inst, take (operand_count inst) (operands inst)) = meaning i \<and>
    unat (inst_length inst) = length (encode i)"
  by (rule decode_encode [OF assms])

theorem decoder_inverts_encoder_witness:
  "\<exists>inst. xair_x86_decode64 (encode (Mov_load 9 \<lparr>a_base = 4, a_index = Some (12, 3), a_disp = 0xfffffff0\<rparr>) @ [0xcc])
      zero_inst = (XAIR_OK, inst) \<and> mnemonic inst = XAIR_X86_MNEMONIC_MOV \<and> unat (inst_length inst) = 8"
  using decoder_inverts_encoder [where i = "Mov_load 9 \<lparr>a_base = 4, a_index = Some (12, 3), a_disp = 0xfffffff0\<rparr>"
      and rest = "[0xcc]" and out = zero_inst]
  by (force simp: address_ok_def encode_mem_def)

text \<open>
  C15. The page table refines a byte map: after a successful store of the bytes \<open>data\<close> at
  \<open>a\<close>, reading any address of any space gives the stored byte inside the range and what was
  there before outside of it.
\<close>

theorem memory_refines_byte_map:
  assumes "xair_exec_store_bytes al sp a data st = (Ok u, st')" "length data \<le> 2 ^ 64"
  shows "exec_load_byte st' sp' a' =
    (if sp' = sp \<and> unat (a' - a) < length data then Some (data ! unat (a' - a)) else exec_load_byte st sp' a')"
proof -
  have "store_each (exec_store_byte al) sp a data st = (Ok u, st')"
    using assms(1) by (auto simp: xair_exec_store_bytes_def split: if_splits)
  from paged.store_each_Ok [OF this assms(2)] show ?thesis by (simp add: paged.overlay_def)
qed

theorem memory_refines_byte_map_witness:
  "exec_load_byte (snd (xair_exec_store_bytes alloc_all 0 0xfff [0x33, 0x44] demo_state)) 0 0x1000 = Some 0x44"
  using memory_refines_byte_map [OF demo_store_bytes, of 0 "0x1000"] by simp

text \<open>
  C16. Memory round trip: after a successful store of a number in \<open>sz\<close> bytes, in either byte
  order and also across pages, a load of the same size and byte order from that address succeeds and returns
  the number truncated to \<open>sz\<close> bytes.
\<close>

theorem store_load_roundtrip:
  assumes "exec_store_u64 al sp a v sz en st = (Ok u, st')"
  shows "exec_load_u64 st' sp a sz en = Ok (take_bit (8 * sz) v)"
  by (rule load_store_u64 [OF assms])

theorem store_load_roundtrip_witness:
  "exec_load_u64 (snd (exec_store_u64 alloc_all 0 0xfff 0x11223344 2 XAIR_ENDIAN_BE demo_state)) 0 0xfff 2
     XAIR_ENDIAN_BE = Ok (take_bit (8 * 2) 0x11223344)"
  by (rule store_load_roundtrip [OF demo_store])

text \<open>
  C17. Case files read back: write a configuration with \<open>case_text\<close> (architecture, addresses
  and counts in hexadecimal, the bytes of the block, a line for each register that has a value and for each
  entry of the memory). If the buffers can be allocated, \<open>read_case_file\<close> gives exactly this
  configuration. The configuration has to fit the format: at most 64 memory entries and 4000 bytes on a
  line, so that a line fits the buffer of 8192 characters.
\<close>

theorem case_file_reads_back:
  assumes "case_ok config" "\<And>n. al Site_case_bytes n" "\<And>k n. al (Site_case_memory k) n" "files path = Some (case_text config)"
  shows "read_case_file al files path = Some config"
  using assms by (rule read_case_text)

theorem case_file_reads_back_witness:
  "read_case_file alloc_all (\<lambda>path. Some (case_text (demo_case64 [demo_wrapping]))) ''a.case'' = Some (demo_case64 [demo_wrapping])"
  by (rule case_file_reads_back)
    (auto simp: alloc_all_def case_ok_def demo_case_def case_config_init_def demo_wrapping_def nth_list_update)

text \<open>
  C18. States of an adapter session: whatever the order of adapter calls and of builder calls on the same
  module, and whatever calls fail, the module is one builder calls can reach, the current block is a block
  of it, and every value the adapter answers for a register, a temporary or memory is a value of it.
\<close>

theorem vex_session_state_valid:
  assumes "vex_session a"
  shows "built (va_module a) \<and> xair_vex_current_block a < length (blocks (va_module a)) \<and>
    (\<forall>v. v < length (vals (va_module a)) \<or>
      (\<forall>k. xair_vex_peek_reg a k \<noteq> Ok v \<and> xair_vex_get_tmp a k \<noteq> Ok v) \<and> xair_vex_current_memory a \<noteq> Ok v)"
  using session_ok [OF assms] answers_live [of a]
  by (auto simp: vex_ok_def live_ok_def xair_vex_current_block_def)

theorem vex_session_state_valid_witness: "built (va_module demo_vex_const) \<and> xair_vex_get_tmp demo_vex_const 0 = Ok 0 \<and> 0 < length (vals (va_module demo_vex_const))"
proof -
  have "xair_vex_get_tmp demo_vex_const 0 = Ok 0" by (simp add: xair_vex_get_tmp_def vex_dense_get_def demo_vex_const_eq)
  then show ?thesis using vex_session_state_valid [OF demo_session(2)] by blast
qed

text \<open>
  C19. Registers and temporaries are partial maps: a successful write changes the answer at its key and no
  other, although registers live in an array below 4096 and in a list of entries above, and temporaries in
  an array that grows; a failed write changes no answer.
\<close>

theorem vex_state_refines_maps:
  assumes "vex_session a" and "xair_vex_put_reg al k v a = (r, a')" and "xair_vex_set_tmp al i w a = (q, a'')"
  shows "xair_vex_peek_reg a' = (if r = Ok () then (xair_vex_peek_reg a)(k := Ok v) else xair_vex_peek_reg a) \<and>
    xair_vex_get_tmp a'' = (if q = Ok () then (xair_vex_get_tmp a)(i := Ok w) else xair_vex_get_tmp a)"
  using put_reg_map [OF _ assms(2)] set_tmp_map [OF _ assms(3)] session_ok [OF assms(1)] by (simp add: vex_ok_def)

theorem vex_state_refines_maps_witness:
  "xair_vex_peek_reg (snd (xair_vex_put_reg alloc_all 9000 0 demo_vex_const)) 9000 = Ok 0 \<and>
   xair_vex_get_tmp (snd (xair_vex_set_tmp alloc_all 20 0 demo_vex_const)) 20 = Ok 0"
proof -
  have "fst (xair_vex_put_reg alloc_all 9000 0 demo_vex_const) = Ok ()"
    by (simp add: xair_vex_put_reg_def vex_store_reg_def vex_set_entry_def vex_grow_array_def exit_simps)
  moreover have "fst (xair_vex_set_tmp alloc_all 20 0 demo_vex_const) = Ok ()" by (simp add: exit_simps)
  ultimately show ?thesis
    using vex_state_refines_maps [OF demo_session(2) prod.collapse [symmetric] prod.collapse [symmetric]] by (metis fun_upd_same)
qed

text \<open>
  C20. Loaded views: after success there is a segment, and each segment has a memory size, lies inside the
  file and holds the bytes of the file at its offset; after a failure the view is the cleared one.
\<close>

theorem loaded_view_holds_file:
  assumes "xair_binary_view_load_path al fs path = Some (status, view)"
  shows "if status = XAIR_OK
    then \<exists>file. read_file al fs path = Ok file \<and> view_segments view \<noteq> [] \<and> (\<forall>seg \<in> set (view_segments view).
      seg_mem_size seg \<noteq> 0 \<and> unat (seg_file_offset seg) + unat (seg_file_size seg) \<le> length file \<and>
      seg_bytes seg = take (unat (seg_file_size seg)) (drop (unat (seg_file_offset seg)) file))
    else view = empty_view"
proof -
  have "loaded al fs path (status, view)" using view_load_loaded [of al fs path] assms by (simp add: ensures_def)
  then show ?thesis by (auto simp: loaded_def view_ok_def segment_ok_def list_all_iff)
qed

theorem loaded_view_holds_file_witness:
  "\<exists>file. read_file alloc_all demo_fs ''a.out'' = Ok file \<and> seg_bytes (hd (view_segments demo_view)) = take 3 (drop 84 file)"
proof -
  obtain bs where f: "read_file alloc_all demo_fs ''a.out'' = Ok bs"
    "\<forall>seg \<in> set (view_segments demo_view). seg_bytes seg = take (unat (seg_file_size seg)) (drop (unat (seg_file_offset seg)) bs)"
    using loaded_view_holds_file [OF demo_load] by (auto simp only: simp_thms if_True)
  then show ?thesis by (intro exI [of _ bs]) (simp add: demo_view_def)
qed

text \<open>
  C21. Reads of a loaded view, exactly: the first segment around the address decides; the bytes are those of
  the file at the segment's offset plus the distance to its start, provided the range lies in the part of
  the segment that the file holds, and a range error otherwise.
\<close>

theorem view_read_refines_file:
  assumes "xair_binary_view_load_path al fs path = Some (XAIR_OK, view)" "read_file al fs path = Ok file"
  shows "xair_binary_view_read view va n =
    Some (case find (\<lambda>seg. seg_va seg \<le> va \<and> va - seg_va seg < seg_mem_size seg) (view_segments view) of
        None \<Rightarrow> Err XAIR_ERR_RANGE
      | Some seg \<Rightarrow>
          if unat (va - seg_va seg) + n \<le> unat (seg_file_size seg)
          then Ok (take n (drop (unat (seg_file_offset seg) + unat (va - seg_va seg)) file)) else Err XAIR_ERR_RANGE)"
proof (rule view_read_eq)
  show "view_ok file view" using view_load_loaded [of al fs path] assms by (auto simp: ensures_def loaded_def)
qed

theorem view_read_refines_file_witness: "xair_binary_view_read demo_view 0x1001 2 = Some (Ok [0xc8, 0xc3])"
proof -
  have "take 2 (drop 85 demo_elf) = [0xc8, 0xc3]" by code_simp
  then show ?thesis using view_read_refines_file [OF demo_load demo_read_file, of "0x1001" 2] by (simp add: demo_view_def)
qed

text \<open>
  C22. A 32-bit block with an input is never executed: the lifter gives its parameters 32-bit types, the
  case runner sets them to 64-bit values, and the executor rejects them. Such a case ends in a failure
  whatever its contents.
\<close>

theorem case_run_rejects_32bit_inputs:
  assumes "cc_arch config = XAIR_ARCH_X86_32" "case_lift al config = Inr (lift, stats, m)" "can_execute config lift = None"
    and "lr_memory_in lift \<noteq> XAIR_INVALID_ID \<or> lr_input_regs lift \<noteq> []"
  shows "\<exists>e. run_case al config \<in> {Inl (State_failed e), Inl (Memory_store_failed e),
    Inl (Memory_param_failed XAIR_ERR_BAD_ARG), Inl (Register_param_failed XAIR_ERR_BAD_ARG)}"
  using assms by (rule run_case_32bit)

theorem case_run_rejects_32bit_inputs_witness: "\<exists>f. run_case alloc_all (demo_case32 []) = Inl f"
  using case_run_rejects_32bit_inputs [OF _ demo_case_lift(2) demo_can_execute, of "[]"]
  by (auto simp: demo_case_def demo_case_result_def)

text \<open>
  C23. Failing calls have no visible effect: a builder call that returns an error leaves the values, the
  operations, the names, parameters, operation lists and terminators of the blocks and the frozen flag
  unchanged, also when an allocation fails half-way.
\<close>

theorem failed_call_keeps_module:
  assumes "built m" "run_call al c m = (Err e, m')"
  shows "visible m' = visible m"
  by (rule call_err_visible [OF built_module_inv [OF assms(1)] assms(2)])

theorem failed_call_keeps_module_witness:
  "visible (snd (run_call (\<lambda>s _. s \<noteq> Site_ops) demo_const_call demo_block)) = visible demo_block"
  by (rule failed_call_keeps_module [OF demo_block_built demo_const_fails])

text \<open>
  C24. A frozen module is immutable: every builder call, a second freeze included, returns
  \<open>XAIR_ERR_BAD_ARG\<close> and leaves the module exactly as it was.
\<close>

theorem frozen_module_immutable:
  assumes "frozen m"
  shows "run_call al c m = (Err XAIR_ERR_BAD_ARG, m)"
  by (rule frozen_rejects [OF assms])

theorem frozen_module_immutable_witness:
  "run_call alloc_all Freeze (empty_module\<lparr>frozen := True\<rparr>) =
     (Err XAIR_ERR_BAD_ARG, empty_module\<lparr>frozen := True\<rparr>)"
  by (rule frozen_module_immutable) simp

text \<open>
  C25. Failing stores: when \<open>xair_exec_store_bytes\<close> fails on a range that wraps around, the
  status is \<open>XAIR_ERR_BAD_ARG\<close> and the state is unchanged. Otherwise the status is
  \<open>XAIR_ERR_OOM\<close>, and there is a byte whose page does not exist and for which the array of
  pages could not grow: the bytes before it have been written, and memory is unchanged everywhere else.
  There is no other way to fail.
\<close>

theorem failed_store_writes_prefix:
  assumes "xair_exec_store_bytes al sp a data st = (Err e, st')"
  shows "if exec_range_wraps a (length data) then e = XAIR_ERR_BAD_ARG \<and> st' = st
    else e = XAIR_ERR_OOM \<and> (\<exists>k < length data.
      exec_find_page (pages st') sp (page_number (a + of_nat k)) = None \<and>
      grow_array al Site_pages sizeof_page (page_cap st') (length (pages st') + 1) = Err XAIR_ERR_OOM \<and>
      (\<forall>sp' a'. exec_load_byte st' sp' a' =
        (if sp' = sp \<and> unat (a' - a) < k then Some (data ! unat (a' - a)) else exec_load_byte st sp' a')))"
  using store_bytes_Err [OF assms] unfolding page_refused_def conj_assoc .

theorem failed_store_writes_prefix_witness:
  "\<exists>st' k. xair_exec_store_bytes (\<lambda>site n. False) 0 0xfff [0x33, 0x44] demo_full_state = (Err XAIR_ERR_OOM, st') \<and> k < (2 :: nat) \<and>
     (\<forall>sp' a'. exec_load_byte st' sp' a' =
       (if sp' = 0 \<and> unat (a' - 0xfff) < k then Some ([0x33, 0x44] ! unat (a' - 0xfff)) else exec_load_byte demo_full_state sp' a'))"
proof -
  have "\<not> exec_range_wraps 0xfff (length [0x33, 0x44 :: u8])" by (simp add: exec_range_wraps_def)
  then show ?thesis using failed_store_writes_prefix [OF demo_full_store] demo_full_store
    by (metis (no_types, lifting) length_Cons list.size(3) numeral_2_eq_2)
qed

text \<open>
  C26. The flags of an addition mean what they say: for integers of a width from 8 to 64 bits, zero is a
  zero result, carry is an unsigned sum that does not fit, overflow is a signed sum out of range, sign is
  the top bit, parity is an even number of ones in the low byte and adjust is a carry out of the low four
  bits.
\<close>

theorem flags_of_addition:
  assumes "int_value x b" "int_value y b" "8 \<le> b"
  shows "reads_flags (exec_flags XAIR_OP_FLAGS_ADD (lo x) (lo y) b)
    ((uval x + uval y) mod 2 ^ b = 0) (2 ^ b \<le> uval x + uval y)
    (\<not> (- (2 ^ (b - 1)) \<le> sval x + sval y \<and> sval x + sval y < 2 ^ (b - 1)))
    (2 ^ (b - 1) \<le> (uval x + uval y) mod 2 ^ b)
    (even (card {i. i < 8 \<and> bit ((uval x + uval y) mod 2 ^ b) i}))
    (16 \<le> uval x mod 16 + uval y mod 16)"
  by (rule exec_flags_add [OF assms])

theorem flags_of_addition_witness:
  "exec_flags XAIR_OP_FLAGS_ADD 0xff 0x01 8 AND XAIR_EXEC_FLAG_CF \<noteq> 0 \<and>
   exec_flags XAIR_OP_FLAGS_ADD 0xff 0x01 8 AND XAIR_EXEC_FLAG_OF = 0"
  using flags_of_addition [of "xair_exec_i 8 0xff" 8 "xair_exec_i 8 1"]
  by (simp add: reads_flags_def int_value_def exec_i_simps uval_def sval_def)

text \<open>
  C27. Arithmetic is modular: addition, subtraction and multiplication of integers of width \<open>b\<close>
  give the integer result modulo \<open>2 ^ b\<close>.
\<close>

theorem arithmetic_is_modular:
  assumes "int_value x b" "int_value y b"
    and "(oc, f) \<in> {(XAIR_OP_ADD, (+)), (XAIR_OP_SUB, (-)), (XAIR_OP_MUL, (*))}"
  shows "map_option (\<lambda>r. uval (exec_value_make (xair_type_i b) r 0)) (exec_binary_result oc (xair_type_i b) x y) =
    Some (f (uval x) (uval y) mod 2 ^ b)"
  using assms(3) exec_arith [OF assms(1,2)] by auto

theorem arithmetic_is_modular_witness:
  "map_option (\<lambda>r. uval (exec_value_make (xair_type_i 8) r 0))
     (exec_binary_result XAIR_OP_SUB (xair_type_i 8) (xair_exec_i 8 3) (xair_exec_i 8 5)) = Some 254"
  using arithmetic_is_modular [of "xair_exec_i 8 3" 8 "xair_exec_i 8 5" XAIR_OP_SUB "(-)"]
  by (simp add: exec_i_reads)

text \<open>
  C28. Runs of acyclic modules end: let a verified module have no cycle of jumps and branches, and let the
  state conform and define the parameters of the entry block. A run whose step limit is at least the number
  of blocks gives a result that is what the block it names ends with (a return with the values its
  terminator lists, a trap or fault with its code, or an unsupported operation of the block), and that block
  can be reached from the entry; or it fails for one of the reasons a verified module can fail for. It never
  reports the step limit.
\<close>

theorem acyclic_run_halts:
  assumes "wf_module m" "fst (xair_verify_module al0 m) = XAIR_OK" "state_ok m st" "enters m b st"
    and "acyclic (cfg m)" "length (blocks m) \<le> n"
  shows "\<exists>r st'. xair_exec_run al m b n st = (r, st') \<and>
    (case r of
       Ok res \<Rightarrow> halt_kind res \<noteq> XAIR_EXEC_HALTED_STEP_LIMIT \<and> halts_at m res \<and> (b, halt_block res) \<in> (cfg m)\<^sup>*
     | Err e \<Rightarrow> run_error m st' e)"
proof -
  obtain r st' where run: "xair_exec_run al m b n st = (r, st')" by fastforce
  have sm: "sound_module m" using assms(1,2) verify_OK_sound wf_module_srcs_shape wf_sound_module by blast
  have st: "ex_module st = m" "b < length (blocks m)" using assms(3,4) by (simp_all add: state_ok_def enters_def)
  have loop: "exec_loop al n b st = (r, st')"
    using run assms(3,4) by (auto simp: xair_exec_run_def state_ok_def enters_def valid_block_def)
  show ?thesis
  proof (cases r)
    case (Ok res)
    have flow: "if halt_kind res = XAIR_EXEC_HALTED_STEP_LIMIT then (b, halt_block res) \<in> cfg m ^^ n
        else halts_at m res \<and> (\<exists>k < n. (b, halt_block res) \<in> cfg m ^^ k)"
      using exec_loop_flow loop st unfolding Ok by blast
    have "(b, halt_block res) \<notin> cfg m ^^ n"
      using path_bounded [OF ok_cfg_closed assms(5) st(2)] sm assms(6) by (fastforce simp: sound_module_def)
    with flow show ?thesis using run Ok relpow_imp_rtrancl by (auto split: if_splits)
  next
    case (Err e)
    have "case r of Ok res \<Rightarrow> result_ok m res | Err e \<Rightarrow> run_error m st' e"
      using exec_loop_outcome [OF assms(3) _ _ _ assms(4) loop] sm by (simp add: sound_module_def)
    with run Err show ?thesis by simp
  qed
qed

theorem acyclic_run_halts_witness:
  "\<exists>res st'. xair_exec_run alloc_all demo_flow 0 2 demo_flow_state = (Ok res, st') \<and> halts_at demo_flow res \<and>
     halt_kind res = XAIR_EXEC_HALTED_RETURN \<and> halt_block res = 1 \<and> returns res = [xair_exec_i 32 30]"
proof -
  have "length (blocks demo_flow) \<le> 2" by (simp add: demo_flow_def)
  from acyclic_run_halts [OF demo_flow_wf demo_flow_verified demo_flow_state_ok demo_flow_acyclic this, of alloc_all]
  show ?thesis using demo_flow_runs(1) by (cases "xair_exec_run alloc_all demo_flow 0 2 demo_flow_state") auto
qed

text \<open>
  C29. What a result says about the path of a run: blocks follow each other along the targets of their
  terminators. When a run with limit \<open>n\<close> reports the step limit, exactly \<open>n\<close> edges
  lead from the entry block to the block named in the result; otherwise the block named was reached by fewer
  than \<open>n\<close> edges and the result is what this block ends with: the number of returned values is
  that of its return, the code is that of its trap or fault, or the number of an opcode among its
  operations. This holds for every module, verified or not.
\<close>

theorem step_limit_counts_blocks:
  assumes "xair_exec_run al m b n st = (Ok res, st')"
  shows "if halt_kind res = XAIR_EXEC_HALTED_STEP_LIMIT then (b, halt_block res) \<in> cfg m ^^ n
    else halts_at m res \<and> (\<exists>k < n. (b, halt_block res) \<in> cfg m ^^ k)"
  by (rule exec_loop_flow) (use assms in \<open>auto simp: xair_exec_run_def valid_block_def split: if_splits\<close>)

theorem step_limit_counts_blocks_witness:
  "(0, 1) \<in> cfg demo_flow ^^ 1 \<and> (\<exists>k < 2. (0, 1) \<in> cfg demo_flow ^^ k)"
proof -
  let ?run = "\<lambda>n. xair_exec_run alloc_all demo_flow 0 n demo_flow_state"
  have "?run 1 = (Ok (exec_set_result XAIR_EXEC_HALTED_STEP_LIMIT 1 0), snd (?run 1))"
    "?run 2 = (Ok \<lparr>halt_kind = XAIR_EXEC_HALTED_RETURN, halt_block = 1, halt_code = 0, returns = [xair_exec_i 32 30]\<rparr>, snd (?run 2))"
    by (rule prod_eqI; simp only: demo_flow_runs fst_conv snd_conv)+
  from step_limit_counts_blocks [OF this(1)] step_limit_counts_blocks [OF this(2)]
  show ?thesis by (simp add: exec_set_result_def)
qed

text \<open>
  C30. The probing loop of an insertion ends: once \<open>value_number_prepare_insert\<close> has succeeded
  on a module made by builder calls, the search for a free slot, an unbounded loop in the code, finds one
  within one pass over the table, for every hash.
\<close>

theorem free_slot_search_ends:
  assumes "built m" "value_number_prepare_insert al m = (Ok u, m')"
  shows "\<exists>i. vn_free_slot (value_numbers m') (vn_home h (value_number_cap m')) (value_number_cap m') = Some i"
proof -
  have inv: "vn_inv m" using built_module_inv [OF assms(1)] by (simp add: module_inv_def)
  show ?thesis using prepared_has_free_slot [OF inv assms(2)] .
qed

theorem free_slot_search_ends_witness:
  "\<exists>i. vn_free_slot (value_numbers (snd (value_number_prepare_insert alloc_all empty_module))) (vn_home 99
      (value_number_cap (snd (value_number_prepare_insert alloc_all empty_module))))
      (value_number_cap (snd (value_number_prepare_insert alloc_all empty_module))) = Some i"
  by (rule free_slot_search_ends [OF built.create demo_prepare])

text \<open>
  C31. The layout of a lift result: the return values are the final memory version when the block used
  memory, then the value of every register written, in increasing order of the registers, then the condition
  when the block ends in a conditional branch. Input and output registers are listed at most once each, so
  the arrays of 16 registers and 24 return values of the result are never too small.
\<close>

theorem lift_result_layout:
  assumes "built m" "fst (xair_verify_module al0 m) = XAIR_OK" "xair_lift_basic_block al img opts m = (Ok res, m')"
  shows "lr_return_values res =
      (if lr_memory_in res = XAIR_INVALID_ID then [] else [lr_memory_out res]) @ map snd (lr_output_regs res) @
      (if lr_end_kind res = XAIR_LIFT_END_DIRECT_CBRANCH then [lr_branch_condition res] else []) \<and>
    distinct (map fst (lr_output_regs res)) \<and> sorted (map fst (lr_output_regs res)) \<and> distinct (map fst (lr_input_regs res)) \<and>
    length (lr_input_regs res) \<le> 16 \<and> length (lr_output_regs res) \<le> 16 \<and> length (lr_return_values res) \<le> 18"
proof -
  have l: "lift_layout res" using lift_basic_block_ok [OF verified_ok [OF assms(1,2)] assms(3)] by simp
  then have "length (lr_input_regs res) \<le> 16" "length (lr_output_regs res) \<le> 16"
    using distinct_below_length [of "map fst (lr_input_regs res)" 16] distinct_below_length [of "map fst (lr_output_regs res)" 16]
    by (auto simp: lift_layout_def)
  with l show ?thesis by (simp add: lift_layout_def)
qed

theorem lift_result_layout_witness:
  "lr_return_values demo_result = map snd (lr_output_regs demo_result) \<and> length (lr_return_values demo_result) \<le> 18"
  using lift_result_layout [OF built.create empty_verifies demo_lift_runs]
  by (simp add: demo_result_def lift_result_init_def)

text \<open>
  C32. Lifting is building: whether it succeeds or fails half-way, with any pattern of allocation failures,
  both entry points of the front end leave the module in a state that builder calls can reach;
  well-formedness and value numbering are kept. Decoder backends that make the lifter write outside its
  arrays (C6) are aside.
\<close>

theorem lifting_keeps_built:
  assumes "built m"
  shows "built (snd (xair_lift_basic_block al img opts m)) \<and> built (snd (xair_lift_block_body_into al img opts b m))"
  using lifts_built [OF assms] by (metis prod.collapse)

theorem lifting_keeps_built_witness:
  "built (snd (xair_lift_basic_block (\<lambda>s _. s \<noteq> Site_ops) demo_image demo_options empty_module))"
  using lifting_keeps_built [OF built.create] by blast

text \<open>
  C33. The decoder reads one instruction and no more: when decoding succeeds there are a number
  \<open>p\<close> of REX prefixes and an instruction end \<open>n\<close> inside the input, at most eleven
  bytes later, such that the reported length is \<open>n\<close> as a byte; every input that agrees on the
  first \<open>n\<close> bytes decodes to the same instruction, whatever follows and whatever the output
  held before.
\<close>

theorem decoder_reads_one_instruction:
  assumes "xair_x86_decode_mode mode bs out = (XAIR_OK, inst)"
  shows "\<exists>p n. p < n \<and> n \<le> p + 11 \<and> n \<le> length bs \<and> inst_length inst = of_nat n \<and>
    (\<forall>j < p. mode = 64 \<and> bs ! j \<in> {0x40..0x4f}) \<and>
    (\<forall>bs' out'. agree n bs bs' \<longrightarrow> xair_x86_decode_mode mode bs' out' = (XAIR_OK, inst))"
  using decode_mode_local [OF assms] by metis

theorem decoder_reads_one_instruction_witness:
  "\<exists>p n. p < n \<and> n \<le> p + 11 \<and> n \<le> 3 \<and> (\<forall>bs' out'. agree n [0x89, 0xc8, 0xc3] bs' \<longrightarrow>
     xair_x86_decode_mode 32 bs' out' = xair_x86_decode_mode 32 [0x89, 0xc8, 0xc3] zero_inst)"
proof -
  note d = demo_decode(1) [unfolded xair_x86_decode32_def]
  obtain p n where "p < n" "n \<le> p + 11" "n \<le> length [0x89, 0xc8, 0xc3 :: u8]" "\<forall>bs' out'. agree n [0x89, 0xc8, 0xc3] bs' \<longrightarrow>
      xair_x86_decode_mode 32 bs' out' = xair_x86_decode_mode 32 [0x89, 0xc8, 0xc3] zero_inst"
    using decoder_reads_one_instruction [OF d] unfolding d by blast
  then show ?thesis by (intro exI [of _ p] exI [of _ n]) simp
qed

text \<open>
  C34. Decoded instructions are well-formed: at most two operands, as many and of the kinds the mnemonic
  calls for; register numbers exist in the mode, memory operands have a scale of 1, 2, 4 or 8 and never
  \<open>RSP\<close> as index, and addresses relative to the instruction pointer occur in 64-bit mode only.
\<close>

theorem decoded_instruction_wf:
  assumes "xair_x86_decode_mode mode bs out = (XAIR_OK, inst)"
  shows "inst_ok mode inst"
  by (rule decode_mode_inst_ok [OF assms])

theorem decoded_instruction_wf_witness: "inst_ok 32 (snd (xair_x86_decode32 [0x89, 0xc8, 0xc3] zero_inst))"
  using decoded_instruction_wf [OF demo_decode(1) [unfolded xair_x86_decode32_def]] by (simp add: demo_decode(1))

text \<open>
  C35. The reported length wraps: a one-byte instruction after \<open>n\<close> REX prefixes decodes
  successfully with the length \<open>n + 1\<close> modulo 256, so 255 prefixes give an instruction of
  length 0, although 256 bytes were read.
\<close>

theorem prefix_length_wraps:
  "\<exists>inst. xair_x86_decode64 (replicate n 0x40 @ [0x90]) out = (XAIR_OK, inst) \<and>
    mnemonic inst = XAIR_X86_MNEMONIC_NOP \<and> unat (inst_length inst) = (n + 1) mod 256"
  by (rule decode_rex_nop)

text \<open>
  C36. The loader stays inside the file: reading a header field outside the buffer is the value
  \<open>None\<close> of a parser, and neither \<open>xair_binary_view_load_path\<close> nor
  \<open>xair_binary_load_path\<close> nor the tool that lifts from a file ever has that value, whatever the
  arguments, whatever the bytes of the file, the behaviour of the file system and the failures of the
  allocator.
\<close>

theorem loader_stays_in_file:
  "xair_binary_view_load_path al fs path \<noteq> None \<and> xair_binary_load_path al fs path \<noteq> None \<and>
   lift_bin_main al garbage fs argv \<noteq> None"
  using view_load_loaded [of al fs path] load_path_image [of al fs path] lift_bin_defined [of al garbage fs argv]
  by (auto simp: ensures_def)

text \<open>
  C37. Names of operations: the names of VEX, with their width in decimal, stand for the opcodes listed
  here; \<open>Shr\<close> is the logical and \<open>Sar\<close> the arithmetic shift, an ordered comparison
  is signed or unsigned by its last letter, and comparisons give a truth value. A width that is not that of
  the operand is refused. Conversions name both widths, and only widening and narrowing ones are accepted.
\<close>

theorem vex_names_read_back:
  assumes "kind t = XAIR_TYPE_INT" "n \<le> 65535" "k \<le> 65535" "bits t \<le> 65535"
  shows "map (\<lambda>name. vex_map_binop (name @ dec_text n) t)
      [''Iop_Add'', ''Iop_Sub'', ''Iop_Mul'', ''Iop_And'', ''Iop_Or'', ''Iop_Xor'', ''Iop_Shl'', ''Iop_Shr'', ''Iop_Sar''] =
    map (\<lambda>oc. if bits t = n then Ok (oc, t) else Err XAIR_ERR_UNSUPPORTED)
      [XAIR_OP_ADD, XAIR_OP_SUB, XAIR_OP_MUL, XAIR_OP_AND, XAIR_OP_OR, XAIR_OP_XOR, XAIR_OP_SHL, XAIR_OP_LSHR, XAIR_OP_ASHR] \<and>
    map (\<lambda>name. vex_map_binop name t)
      [''Iop_CmpEQ'' @ dec_text n, ''Iop_CmpNE'' @ dec_text n, ''Iop_CmpLT'' @ dec_text n @ ''S'', ''Iop_CmpLT'' @ dec_text n @ ''U'',
       ''Iop_CmpLE'' @ dec_text n @ ''S'', ''Iop_CmpLE'' @ dec_text n @ ''U''] =
    map (\<lambda>oc. if bits t = n then Ok (oc, xair_type_i 1) else Err XAIR_ERR_UNSUPPORTED)
      [XAIR_OP_EQ, XAIR_OP_NE, XAIR_OP_SLT, XAIR_OP_ULT, XAIR_OP_SLE, XAIR_OP_ULE] \<and>
    vex_map_unop (''Iop_'' @ dec_text (bits t) @ ''Uto'' @ dec_text k) t =
      (if bits t < k then Ok (XAIR_OP_ZEXT, xair_type_i k) else Err XAIR_ERR_UNSUPPORTED) \<and>
    vex_map_unop (''Iop_'' @ dec_text (bits t) @ ''Sto'' @ dec_text k) t =
      (if bits t < k then Ok (XAIR_OP_SEXT, xair_type_i k) else Err XAIR_ERR_UNSUPPORTED) \<and>
    vex_map_unop (''Iop_'' @ dec_text (bits t) @ ''to'' @ dec_text k) t =
      (if k < bits t then Ok (XAIR_OP_TRUNC, xair_type_i k) else Err XAIR_ERR_UNSUPPORTED)"
proof -
  have widths: "list_all (\<lambda>(p, oc, truth). vex_map_binop (p @ dec_text n) t =
      (if bits t = n then Ok (oc, if truth then xair_type_i 1 else t) else Err XAIR_ERR_UNSUPPORTED)) vex_width_ops"
    using map_binop_width [OF _ assms(2)] by (auto simp: list_all_iff vex_check_width_def)
  have signs: "list_all (\<lambda>(p, s, u).
      vex_map_binop (p @ dec_text n @ ''S'') t = (if bits t = n then Ok (s, xair_type_i 1) else Err XAIR_ERR_UNSUPPORTED) \<and>
      vex_map_binop (p @ dec_text n @ ''U'') t = (if bits t = n then Ok (u, xair_type_i 1) else Err XAIR_ERR_UNSUPPORTED)) vex_cmp_ops"
    using map_binop_cmp [OF _ assms(2)] by (auto simp: list_all_iff vex_check_width_def)
  show ?thesis
    using widths signs map_unop_text [OF assms(4,3,1)] by (cases "bits t = n") (simp_all add: vex_width_ops_def vex_cmp_ops_def)
qed

theorem vex_names_read_back_witness:
  "vex_map_binop (''Iop_Sar'' @ dec_text 32) (xair_type_i 32) = Ok (XAIR_OP_ASHR, xair_type_i 32) \<and>
   vex_map_binop (''Iop_Shr'' @ dec_text 64) (xair_type_i 32) = Err XAIR_ERR_UNSUPPORTED"
  using vex_names_read_back [of "xair_type_i 32" 32 64] vex_names_read_back [of "xair_type_i 32" 64 64]
  by (simp add: xair_type_i_def)

text \<open>
  C38. Side exits: the current block branches to the given block on the condition and otherwise to a new
  block; the false edge passes exactly the live values, the new block has one parameter of the same type for
  each, and the adapter continues in the new block with those parameters in the place of the old values,
  under the same names.
\<close>

theorem vex_exit_moves_state:
  assumes "vex_session a" "xair_vex_emit_exit al cond taken taken_args nm a = (Ok u, a')"
  shows "let m' = va_module a'; c = va_current a'; t = blk_term (blocks m' ! va_current a) in
    c = length (blocks (va_module a)) \<and> c < length (blocks m') \<and> map fst (live a') = map fst (live a) \<and>
    params (blocks m' ! c) = map snd (live a') \<and>
    map (xair_value_type m') (map snd (live a')) = map (xair_value_type (va_module a)) (map snd (live a)) \<and>
    term_kind t = XAIR_TERM_CBRANCH \<and> condition t = cond \<and> true_target t = taken \<and> term_args_const m' t False = taken_args \<and>
    false_target t = c \<and> term_args_const m' t True = map snd (live a)"
  using emit_exit_moves [OF session_ok [OF assms(1)] assms(2)] by (simp add: Let_def)

theorem vex_exit_moves_state_witness:
  "xair_vex_emit_exit alloc_all 0 0 [] ''next'' demo_vex_const = (Ok (), demo_vex_exit) \<and> va_current demo_vex_exit = 1 \<and>
   params (blocks (va_module demo_vex_exit) ! 1) = map snd (live demo_vex_exit) \<and> map fst (live demo_vex_exit) = [''t0'']"
proof -
  have "length (blocks (va_module demo_vex_const)) = 1" by (simp add: exit_simps)
  moreover have "map fst (live demo_vex_const) = [''t0'']" by (simp add: live_def demo_live)
  ultimately show ?thesis using vex_exit_moves_state [OF demo_session(2) demo_exit_runs] demo_exit_runs
    unfolding Let_def by metis
qed

text \<open>
  C39. Registers first read after an exit: the register becomes one more parameter of the continuation,
  whose branch is already fixed, so the module never verifies again, whatever builder calls follow.
\<close>

theorem late_register_breaks_branch:
  assumes "vex_session a" "xair_vex_emit_exit al cond taken taken_args nm a = (Ok u, a1)"
    and "vex_lookup_reg a1 k = None" "xair_vex_get_reg al k t rn a1 = (Ok v, a2)"
    and "(\<lambda>m m'. \<exists>al c r. run_call al c m = (r, m'))\<^sup>*\<^sup>* (va_module a2) m"
  shows "fst (xair_verify_module al' m) \<noteq> XAIR_OK"
  using late_register_rejected [OF session_ok [OF assms(1)] assms(2-4)] assms(5) by (simp add: calls_def)

theorem late_register_breaks_branch_witness: "fst (xair_verify_module alloc_all (va_module demo_vex_reg)) \<noteq> XAIR_OK"
  using late_register_breaks_branch [OF demo_session(2) demo_exit_runs demo_late_register] by blast

text \<open>
  C40. Printing: for every module and buffer the result is the text of the module followed by a NUL, with
  the rest of the buffer as it was, when the text fits; otherwise the status is
  \<open>XAIR_ERR_RANGE\<close> and the buffer holds the longest prefix that fits and a NUL. The printer
  works piece by piece and stops at the first piece that does not fit; the text is a function of the module
  alone.
\<close>

theorem printed_text_truncates:
  "xair_format_module m buffer =
    (if buffer = [] then (XAIR_ERR_BAD_ARG, [])
     else if length (module_text m) < length buffer
     then (XAIR_OK, module_text m @ NUL # drop (Suc (length (module_text m))) buffer)
     else (XAIR_ERR_RANGE, take (length buffer - 1) (module_text m) @ [NUL]))"
proof (cases "buffer = []")
  case False
  then show ?thesis using format_module_text [OF False, of m] by simp
qed (simp add: xair_format_module_def)

end
